(* ===== verification/Rust_Prelude.thy ===== *)
theory Rust_Prelude
  imports Main "HOL-Library.Word" "HOL-Library.Monad_Syntax"
begin

text \<open>
  Shared ground of the development: the pieces of the Rust standard library that the crates
  use, as total HOL functions, and the small program logic the component proofs run on.

  \<^item> A value of type \<open>'a option\<close> is the outcome of code that may panic: \<open>None\<close> is the panic
    (an index out of range, \<open>Vec::remove\<close> or \<open>Vec::insert\<close> beyond the end).
  \<^item> \<open>keeps P f\<close> says that \<open>f\<close> does not panic on a state that satisfies \<open>P\<close> and that the
    state it returns satisfies \<open>P\<close> again; it is closed under sequencing and loops.
  \<^item> \<open>usize\<close> values are \<open>nat\<close>, \<open>u8\<close>/\<open>u16\<close>/\<open>u32\<close>/\<open>u64\<close> are words.
\<close>

type_synonym u8 = "8 word"
type_synonym u16 = "16 word"
type_synonym u32 = "32 word"
type_synonym u64 = "64 word"
type_synonym i64 = "64 word"

named_theorems vec_simps \<open>equations of the vector primitives\<close>
named_theorems keeps_intros \<open>rules that establish panic freedom and preservation\<close>

section \<open>Vectors\<close>

text \<open>\<open>slice::get\<close>, and the read \<open>xs[i]\<close>, whose \<open>None\<close> is then a panic.\<close>

definition vec_get :: "'a list \<Rightarrow> nat \<Rightarrow> 'a option" where
  "vec_get xs i = (if i < length xs then Some (xs ! i) else None)"

definition vec_set :: "'a list \<Rightarrow> nat \<Rightarrow> 'a \<Rightarrow> 'a list option" where
  "vec_set xs i v = (if i < length xs then Some (xs[i := v]) else None)"

definition vec_remove :: "'a list \<Rightarrow> nat \<Rightarrow> ('a \<times> 'a list) option" where
  "vec_remove xs i =
     (if i < length xs then Some (xs ! i, take i xs @ drop (Suc i) xs) else None)"

definition vec_insert :: "'a list \<Rightarrow> nat \<Rightarrow> 'a \<Rightarrow> 'a list option" where
  "vec_insert xs i v = (if i \<le> length xs then Some (take i xs @ v # drop i xs) else None)"

definition vec_resize :: "'a list \<Rightarrow> nat \<Rightarrow> 'a \<Rightarrow> 'a list" where
  "vec_resize xs n v = take n xs @ replicate (n - length xs) v"

lemma vec_get_Some [vec_simps]: "i < length xs \<Longrightarrow> vec_get xs i = Some (xs ! i)"
  by (simp add: vec_get_def)

lemma vec_set_Some [vec_simps]: "i < length xs \<Longrightarrow> vec_set xs i v = Some (xs[i := v])"
  by (simp add: vec_set_def)

lemma vec_remove_Some [vec_simps]:
  "i < length xs \<Longrightarrow> vec_remove xs i = Some (xs ! i, take i xs @ drop (Suc i) xs)"
  by (simp add: vec_remove_def)

lemma vec_insert_Some [vec_simps]:
  "i \<le> length xs \<Longrightarrow> vec_insert xs i v = Some (take i xs @ v # drop i xs)"
  by (simp add: vec_insert_def)

lemma length_vec_resize [simp]: "length (vec_resize xs n v) = n"
  by (simp add: vec_resize_def)

lemma set_vec_resize: "set (vec_resize xs n v) \<subseteq> set xs \<union> {v}"
  by (auto simp: vec_resize_def dest: in_set_takeD)

lemma vec_resize_same: "length xs = n \<Longrightarrow> vec_resize xs n v = xs"
  by (simp add: vec_resize_def)

lemma set_remove_nth: "set (take i xs @ drop (Suc i) xs) \<subseteq> set xs"
  by (auto dest: in_set_takeD in_set_dropD)

lemma set_insert_nth: "set (take i xs @ v # drop i xs) = insert v (set xs)"
proof -
  have "set xs = set (take i xs) \<union> set (drop i xs)"
    by (metis append_take_drop_id set_append)
  then show ?thesis by auto
qed

section \<open>Loops and panic freedom\<close>

text \<open>\<open>for _ in 0..n { body }\<close> and \<open>for x in xs { body }\<close> over a state that may panic.\<close>

fun repeat_opt :: "nat \<Rightarrow> ('s \<Rightarrow> 's option) \<Rightarrow> 's \<Rightarrow> 's option" where
  "repeat_opt 0 f s = Some s"
| "repeat_opt (Suc n) f s = f s \<bind> repeat_opt n f"

fun fold_opt :: "('a \<Rightarrow> 's \<Rightarrow> 's option) \<Rightarrow> 'a list \<Rightarrow> 's \<Rightarrow> 's option" where
  "fold_opt f [] s = Some s"
| "fold_opt f (x # xs) s = f x s \<bind> fold_opt f xs"

lemma fold_opt_append:
  "fold_opt f (xs @ ys) s = fold_opt f xs s \<bind> fold_opt f ys"
  by (induction xs arbitrary: s) (auto split: bind_splits)

definition keeps :: "('s \<Rightarrow> bool) \<Rightarrow> ('s \<Rightarrow> 's option) \<Rightarrow> bool" where
  "keeps P f \<longleftrightarrow> (\<forall>s. P s \<longrightarrow> (\<exists>s'. f s = Some s' \<and> P s'))"

lemma keepsI: "(\<And>s. P s \<Longrightarrow> \<exists>s'. f s = Some s' \<and> P s') \<Longrightarrow> keeps P f"
  by (simp add: keeps_def)

lemma keepsD: "keeps P f \<Longrightarrow> P s \<Longrightarrow> \<exists>s'. f s = Some s' \<and> P s'"
  by (simp add: keeps_def)

lemma keepsE:
  assumes "keeps P f" and "P s"
  obtains s' where "f s = Some s'" and "P s'"
  using assms by (auto simp: keeps_def)

lemma keeps_pure [keeps_intros]: "(\<And>s. P s \<Longrightarrow> P (f s)) \<Longrightarrow> keeps P (\<lambda>s. Some (f s))"
  by (simp add: keeps_def)

lemma keeps_bind [keeps_intros]:
  "keeps P f \<Longrightarrow> keeps P g \<Longrightarrow> keeps P (\<lambda>s. f s \<bind> g)"
  by (fastforce simp: keeps_def)

lemma keeps_if [keeps_intros]:
  "keeps P f \<Longrightarrow> keeps P g \<Longrightarrow> keeps P (\<lambda>s. if b s then f s else g s)"
  by (simp add: keeps_def)

lemma keeps_repeat [keeps_intros]:
  assumes "keeps P f"
  shows "keeps P (repeat_opt n f)"
proof (induction n)
  case 0
  show ?case by (simp add: keeps_def)
next
  case (Suc n)
  show ?case
    by (rule keepsI) (use assms Suc in \<open>fastforce simp: keeps_def\<close>)
qed

lemma keeps_fold [keeps_intros]:
  assumes "\<And>x. x \<in> set xs \<Longrightarrow> keeps P (f x)"
  shows "keeps P (fold_opt f xs)"
  using assms
proof (induction xs)
  case Nil
  show ?case by (simp add: keeps_def)
next
  case (Cons x xs)
  then have "keeps P (f x)" and "keeps P (fold_opt f xs)" by auto
  then show ?case by (fastforce simp: keeps_def)
qed

text \<open>
  A machine that consumes inputs one at a time. The client of the contract feeds it a stream;
  the provider promises that one step neither panics nor leaves the invariant.
\<close>

locale machine =
  fixes step :: "'i \<Rightarrow> 's \<Rightarrow> 's option"
    and inv :: "'s \<Rightarrow> bool"
  assumes step_keeps: "keeps inv (step i)"
begin

lemma run_keeps: "keeps inv (fold_opt step is)"
  by (rule keeps_fold) (rule step_keeps)

lemma run_total: "inv s \<Longrightarrow> \<exists>s'. fold_opt step is s = Some s' \<and> inv s'"
  using run_keeps by (rule keepsD)

lemma run_chunks:
  assumes "inv s"
  shows "\<exists>t u. fold_opt step is s = Some t \<and> fold_opt step js t = Some u
            \<and> fold_opt step (is @ js) s = Some u \<and> inv u"
proof -
  obtain t where t: "fold_opt step is s = Some t" "inv t"
    using run_total [OF assms] by blast
  obtain u where "fold_opt step js t = Some u" "inv u"
    using run_total [OF t(2)] by blast
  with t show ?thesis by (simp add: fold_opt_append)
qed

end

section \<open>Bounded buffers\<close>

text \<open>The last \<open>n\<close> elements of a list: what a bounded buffer still holds.\<close>

definition last_n :: "nat \<Rightarrow> 'a list \<Rightarrow> 'a list" where
  "last_n n xs = drop (length xs - n) xs"

lemma length_last_n [simp]: "length (last_n n xs) = min n (length xs)"
  by (simp add: last_n_def)

lemma last_n_all [simp]: "length xs \<le> n \<Longrightarrow> last_n n xs = xs"
  by (simp add: last_n_def)

lemma last_n_0 [simp]: "last_n 0 xs = []"
  by (simp add: last_n_def)

lemma last_n_snoc:
  "last_n n (last_n n xs @ [x]) = last_n n (xs @ [x])"
proof (cases "length xs \<le> n")
  case True
  then show ?thesis by simp
next
  case False
  then show ?thesis
    by (cases n) (simp_all add: last_n_def Suc_diff_Suc not_le Suc_diff_le)
qed

text \<open>
  The contract of a capacity-bounded buffer. Both the terminal's scrollback and the log
  viewer's ring promise it.
\<close>

locale bounded_buffer =
  fixes push :: "'a \<Rightarrow> 'b \<Rightarrow> 'b"
    and contents :: "'b \<Rightarrow> 'a list"
    and capacity :: "'b \<Rightarrow> nat"
    and inv :: "'b \<Rightarrow> bool"
  assumes contents_push: "inv b \<Longrightarrow> contents (push x b) = last_n (capacity b) (contents b @ [x])"
    and capacity_push: "inv b \<Longrightarrow> capacity (push x b) = capacity b"
    and inv_push: "inv b \<Longrightarrow> inv (push x b)"
    and inv_bound: "inv b \<Longrightarrow> length (contents b) \<le> capacity b"
begin

lemma inv_fold: "inv b \<Longrightarrow> inv (fold push xs b)"
  by (induction xs arbitrary: b) (simp_all add: inv_push)

lemma capacity_fold: "inv b \<Longrightarrow> capacity (fold push xs b) = capacity b"
  by (induction xs arbitrary: b) (simp_all add: inv_push capacity_push)

lemma contents_fold:
  "inv b \<Longrightarrow> contents (fold push xs b) = last_n (capacity b) (contents b @ xs)"
proof (induction xs rule: rev_induct)
  case Nil
  then show ?case by (simp add: inv_bound)
next
  case (snoc x xs)
  then show ?case
    using last_n_snoc [of "capacity b" "contents b @ xs" x]
    by (simp add: contents_push inv_fold capacity_fold)
qed

lemma bound_fold: "inv b \<Longrightarrow> length (contents (fold push xs b)) \<le> capacity b"
  by (simp add: contents_fold)

end

section \<open>Machine integers\<close>

definition sat_add :: "'w::len word \<Rightarrow> 'w word \<Rightarrow> 'w word" where
  "sat_add a b = (if unat a + unat b < 2 ^ LENGTH('w) then a + b else - 1)"

definition sat_mul :: "'w::len word \<Rightarrow> 'w word \<Rightarrow> 'w word" where
  "sat_mul a b = (if unat a * unat b < 2 ^ LENGTH('w) then a * b else - 1)"

definition sat_sub :: "'w::len word \<Rightarrow> 'w word \<Rightarrow> 'w word" where
  "sat_sub a b = (if b \<le> a then a - b else 0)"

lemma unat_max_word: "unat (- 1 :: 'w::len word) = 2 ^ LENGTH('w) - 1"
  by transfer (simp add: nat_mask_eq mask_eq_exp_minus_1 nat_diff_distrib nat_power_eq)

lemma unat_sat_add:
  "unat (sat_add a b) = min (unat a + unat b) (2 ^ LENGTH('w) - 1)"
  for a b :: "'w::len word"
  by (auto simp: sat_add_def unat_word_ariths unat_max_word min_def not_less)

lemma unat_sat_mul:
  "unat (sat_mul a b) = min (unat a * unat b) (2 ^ LENGTH('w) - 1)"
  for a b :: "'w::len word"
proof (cases "unat a * unat b < 2 ^ LENGTH('w)")
  case True
  then have "unat a * unat b \<le> 2 ^ LENGTH('w) - 1" by linarith
  with True show ?thesis by (simp add: sat_mul_def unat_word_ariths min_absorb1)
next
  case False
  then have "2 ^ LENGTH('w) - 1 \<le> unat a * unat b" by simp
  with False show ?thesis by (simp add: sat_mul_def unat_max_word min_absorb2)
qed

lemma unat_sat_sub: "unat (sat_sub a b) = unat a - unat b"
  by (auto simp: sat_sub_def word_le_nat_alt unat_sub)

end
