(* ===== verification/Rust_Text.thy ===== *)
theory Rust_Text
  imports Rust_Prelude
begin

text \<open>
  Rust text: a \<open>char\<close> is a Unicode scalar value, kept as its code point (a \<open>nat\<close>), and a
  \<open>String\<close>/\<open>&str\<close> is the list of its chars. \<open>str_len\<close> is \<open>str::len\<close>, which counts UTF-8 bytes.
  The operations are those of \<open>core::str\<close> and \<open>core::char\<close> that the crates call. The one
  part of the standard library that is a table and not a program, Unicode case mapping, is a
  parameter of the definitions that use it (the record \<open>unicode\<close>).
\<close>

type_synonym uchar = nat
type_synonym ustring = "nat list"

named_theorems text_simps \<open>equations of the text primitives\<close>

definition lit :: "string \<Rightarrow> ustring" where
  "lit s = map of_char s"

lemma lit_simps [simp]:
  "lit [] = []"
  "lit (c # s) = of_char c # lit s"
  by (simp_all add: lit_def)

record unicode =
  str_lower :: "ustring \<Rightarrow> ustring"
  chr_lower :: "uchar \<Rightarrow> ustring"

section \<open>Character classes\<close>

definition is_scalar :: "uchar \<Rightarrow> bool" where
  "is_scalar c \<longleftrightarrow> c < 0xD800 \<or> 0xE000 \<le> c \<and> c < 0x110000"

text \<open>\<open>char::is_whitespace\<close>: the Unicode property \<open>White_Space\<close>.\<close>

definition is_whitespace :: "uchar \<Rightarrow> bool" where
  "is_whitespace c \<longleftrightarrow>
     9 \<le> c \<and> c \<le> 13 \<or> c = 32 \<or> c = 0x85 \<or> c = 0xA0 \<or> c = 0x1680 \<or>
     0x2000 \<le> c \<and> c \<le> 0x200A \<or> c = 0x2028 \<or> c = 0x2029 \<or> c = 0x202F \<or>
     c = 0x205F \<or> c = 0x3000"

definition is_ascii_digit :: "uchar \<Rightarrow> bool" where
  "is_ascii_digit c \<longleftrightarrow> 48 \<le> c \<and> c \<le> 57"

definition is_ascii_upper :: "uchar \<Rightarrow> bool" where
  "is_ascii_upper c \<longleftrightarrow> 65 \<le> c \<and> c \<le> 90"

definition is_ascii_lower :: "uchar \<Rightarrow> bool" where
  "is_ascii_lower c \<longleftrightarrow> 97 \<le> c \<and> c \<le> 122"

definition is_ascii_alphanumeric :: "uchar \<Rightarrow> bool" where
  "is_ascii_alphanumeric c \<longleftrightarrow> is_ascii_digit c \<or> is_ascii_upper c \<or> is_ascii_lower c"

definition ascii_lower :: "uchar \<Rightarrow> uchar" where
  "ascii_lower c = (if is_ascii_upper c then c + 32 else c)"

definition to_ascii_lowercase :: "ustring \<Rightarrow> ustring" where
  "to_ascii_lowercase s = map ascii_lower s"

definition eq_ignore_ascii_case :: "ustring \<Rightarrow> ustring \<Rightarrow> bool" where
  "eq_ignore_ascii_case s t \<longleftrightarrow> to_ascii_lowercase s = to_ascii_lowercase t"

lemma ascii_lower_idem [simp]: "ascii_lower (ascii_lower c) = ascii_lower c"
  by (simp add: ascii_lower_def is_ascii_upper_def)

lemma eq_ignore_ascii_case_refl [simp]: "eq_ignore_ascii_case s s"
  by (simp add: eq_ignore_ascii_case_def)

lemma eq_ignore_ascii_case_sym: "eq_ignore_ascii_case s t \<longleftrightarrow> eq_ignore_ascii_case t s"
  by (auto simp: eq_ignore_ascii_case_def)

lemma eq_ignore_ascii_case_trans:
  "eq_ignore_ascii_case s t \<Longrightarrow> eq_ignore_ascii_case t u \<Longrightarrow> eq_ignore_ascii_case s u"
  by (simp add: eq_ignore_ascii_case_def)

unbundle bit_operations_syntax

section \<open>UTF-8\<close>

definition len_utf8 :: "uchar \<Rightarrow> nat" where
  "len_utf8 c = (if c < 0x80 then 1 else if c < 0x800 then 2 else if c < 0x10000 then 3 else 4)"

definition str_len :: "ustring \<Rightarrow> nat" where
  "str_len s = sum_list (map len_utf8 s)"

lemma len_utf8_pos [simp]: "0 < len_utf8 c"
  by (simp add: len_utf8_def)

lemma length_le_str_len: "length s \<le> str_len s"
proof (induction s)
  case Nil
  show ?case by (simp add: str_len_def)
next
  case (Cons c s)
  moreover have "1 \<le> len_utf8 c" using len_utf8_pos [of c] by linarith
  ultimately show ?case unfolding str_len_def by simp
qed

definition byte :: "nat \<Rightarrow> u8" where
  "byte n = word_of_nat n"

lemma unat_byte [simp]: "n < 256 \<Longrightarrow> unat (byte n) = n"
  by (simp add: byte_def unat_of_nat)

lemma unat_u8_less [simp]: "unat (b :: u8) < 256"
  using unsigned_less [of b, where ?'a = nat] by simp

lemma byte_unat [simp]: "byte (unat b) = b"
  by (simp add: byte_def)

definition encode_utf8 :: "uchar \<Rightarrow> u8 list" where
  "encode_utf8 c =
     (if c < 0x80 then [byte c]
      else if c < 0x800 then [byte (0xC0 + c div 64), byte (0x80 + c mod 64)]
      else if c < 0x10000 then
        [byte (0xE0 + c div 4096), byte (0x80 + c div 64 mod 64),
         byte (0x80 + c mod 64)]
      else
        [byte (0xF0 + c div 262144), byte (0x80 + c div 4096 mod 64),
         byte (0x80 + c div 64 mod 64), byte (0x80 + c mod 64)])"

definition as_bytes :: "ustring \<Rightarrow> u8 list" where
  "as_bytes s = concat (map encode_utf8 s)"

definition is_cont :: "u8 \<Rightarrow> bool" where
  "is_cont b \<longleftrightarrow> 0x80 \<le> unat b \<and> unat b < 0xC0"

text \<open>
  \<open>std::str::from_utf8\<close>: strict UTF-8. Overlong forms, surrogates and values above the last
  scalar are refused, by the range of the decoded value.
\<close>

fun from_utf8 :: "u8 list \<Rightarrow> ustring option" where
  "from_utf8 [] = Some []"
| "from_utf8 (b # bs) =
     (let n = unat b in
      if n < 0x80 then map_option (Cons n) (from_utf8 bs)
      else if n < 0xC2 then None
      else if n < 0xE0 then
        (case bs of
           c1 # r \<Rightarrow>
             if is_cont c1 then
               map_option (Cons ((n - 0xC0) * 64 + (unat c1 - 0x80))) (from_utf8 r)
             else None
         | _ \<Rightarrow> None)
      else if n < 0xF0 then
        (case bs of
           c1 # c2 # r \<Rightarrow>
             (let c = (n - 0xE0) * 4096 + (unat c1 - 0x80) * 64 + (unat c2 - 0x80) in
              if is_cont c1 \<and> is_cont c2 \<and> 0x800 \<le> c \<and> is_scalar c then
                map_option (Cons c) (from_utf8 r)
              else None)
         | _ \<Rightarrow> None)
      else if n < 0xF5 then
        (case bs of
           c1 # c2 # c3 # r \<Rightarrow>
             (let c = (n - 0xF0) * 262144 + (unat c1 - 0x80) * 4096
                      + (unat c2 - 0x80) * 64 + (unat c3 - 0x80) in
              if is_cont c1 \<and> is_cont c2 \<and> is_cont c3 \<and> 0x10000 \<le> c \<and> is_scalar c then
                map_option (Cons c) (from_utf8 r)
              else None)
         | _ \<Rightarrow> None)
      else None)"

lemma bit_C0: "n < 8 \<Longrightarrow> bit (0xC0 :: u8) n \<longleftrightarrow> 6 \<le> n"
proof -
  have "\<forall>n \<in> {..<8::nat}. bit (0xC0 :: u8) n \<longleftrightarrow> 6 \<le> n"
    by (simp add: lessThan_nat_numeral lessThan_Suc)
  then show "n < 8 \<Longrightarrow> bit (0xC0 :: u8) n \<longleftrightarrow> 6 \<le> n" by simp
qed

lemma and_C0: "b AND 0xC0 = push_bit 6 (drop_bit 6 b)" for b :: u8
proof (rule bit_word_eqI)
  fix n assume n: "n < LENGTH(8)"
  then have "n < 8" by simp
  from bit_C0 [OF this] n
  show "bit (b AND 0xC0) n \<longleftrightarrow> bit (push_bit 6 (drop_bit 6 b)) n"
    by (auto simp only: bit_and_iff bit_push_bit_iff bit_drop_bit_eq)
      (simp_all add: possible_bit_def)
qed

text \<open>The test \<open>byte & 0xC0 == 0x80\<close> is the range test of a continuation byte.\<close>

lemma cont_mask: "b AND 0xC0 = (0x80 :: u8) \<longleftrightarrow> is_cont b"
proof -
  have "unat b div 64 < 4" using unat_u8_less [of b] by (simp add: less_mult_imp_div_less)
  then have "unat (push_bit 6 (drop_bit 6 b)) = unat b div 64 * 64"
    by (simp add: push_bit_eq_mult drop_bit_eq_div unat_word_ariths unat_div)
  then have "b AND 0xC0 = 0x80 \<longleftrightarrow> unat b div 64 = 2"
    by (simp only: and_C0 word_unat_eq_iff) simp
  also have "\<dots> \<longleftrightarrow> is_cont b" by (auto simp: is_cont_def)
  finally show ?thesis .
qed

lemma byte_eq_iff: "a = b \<longleftrightarrow> unat a = unat b" for a b :: u8
  by (rule word_unat_eq_iff)

lemmas byte_order = byte_eq_iff word_less_nat_alt word_le_nat_alt

lemma length_encode_utf8 [simp]: "length (encode_utf8 c) = len_utf8 c"
  by (simp add: encode_utf8_def len_utf8_def)

lemma as_bytes_append: "as_bytes (a @ b) = as_bytes a @ as_bytes b"
  by (simp add: as_bytes_def)

lemma length_as_bytes: "length (as_bytes s) = str_len s"
  by (induction s) (simp_all add: as_bytes_def str_len_def)

lemma split_64: "(c::nat) = c div 4096 * 4096 + c div 64 mod 64 * 64 + c mod 64"
proof -
  have d: "c div 4096 = c div 64 div 64" by (simp flip: div_mult2_eq)
  have "c = c div 64 * 64 + c mod 64" by simp
  moreover have "c div 64 = c div 64 div 64 * 64 + c div 64 mod 64" by simp
  ultimately show ?thesis unfolding d by linarith
qed

lemma split_4096:
  "(c::nat) = c div 262144 * 262144 + c div 4096 mod 64 * 4096 + c div 64 mod 64 * 64 + c mod 64"
proof -
  have d: "c div 262144 = c div 4096 div 64" by (simp flip: div_mult2_eq)
  have "c div 4096 = c div 4096 div 64 * 64 + c div 4096 mod 64" by simp
  then show ?thesis unfolding d using split_64 [of c] by linarith
qed

lemma from_utf8_two:
  assumes "2 \<le> a" "a < 32" "r < 64"
  shows "from_utf8 (byte (0xC0 + a) # byte (0x80 + r) # bs)
           = map_option (Cons (a * 64 + r)) (from_utf8 bs)"
  using assms by (simp add: is_cont_def Let_def)

lemma from_utf8_three:
  assumes "a < 16" "m < 64" "r < 64" "c = a * 4096 + m * 64 + r" "0x800 \<le> c" "is_scalar c"
  shows "from_utf8 (byte (0xE0 + a) # byte (0x80 + m) # byte (0x80 + r) # bs)
           = map_option (Cons c) (from_utf8 bs)"
  using assms by (simp add: is_cont_def Let_def)

lemma from_utf8_four:
  assumes "a < 5" "l < 64" "m < 64" "r < 64" "c = a * 262144 + l * 4096 + m * 64 + r"
    "0x10000 \<le> c" "is_scalar c"
  shows "from_utf8 (byte (0xF0 + a) # byte (0x80 + l) # byte (0x80 + m) # byte (0x80 + r) # bs)
           = map_option (Cons c) (from_utf8 bs)"
  using assms by (simp add: is_cont_def Let_def)

declare from_utf8.simps(2) [simp del]

lemma from_utf8_ascii [simp]:
  "unat b < 0x80 \<Longrightarrow> from_utf8 (b # bs) = map_option (Cons (unat b)) (from_utf8 bs)"
  by (simp add: from_utf8.simps)

lemma from_utf8_encode:
  assumes "is_scalar c"
  shows "from_utf8 (encode_utf8 c @ bs) = map_option (Cons c) (from_utf8 bs)"
proof -
  have bound: "c < 0x110000" using assms by (auto simp: is_scalar_def)
  consider "c < 0x80" | "0x80 \<le> c" "c < 0x800" | "0x800 \<le> c" "c < 0x10000" | "0x10000 \<le> c"
    by linarith
  then show ?thesis
  proof cases
    case 1
    then show ?thesis by (simp add: encode_utf8_def)
  next
    case 2
    then show ?thesis
      using from_utf8_two [of "c div 64" "c mod 64" bs]
      by (simp add: encode_utf8_def less_mult_imp_div_less)
  next
    case 3
    then show ?thesis
      using from_utf8_three [of "c div 4096" "c div 64 mod 64" "c mod 64" c bs] assms split_64 [of c]
      by (simp add: encode_utf8_def less_mult_imp_div_less)
  next
    case 4
    then show ?thesis
      using from_utf8_four [of "c div 262144" "c div 4096 mod 64" "c div 64 mod 64" "c mod 64" c bs]
        assms split_4096 [of c] bound
      by (simp add: encode_utf8_def less_mult_imp_div_less)
  qed
qed

lemma from_utf8_as_bytes:
  "\<forall>c \<in> set s. is_scalar c \<Longrightarrow> from_utf8 (as_bytes s) = Some s"
  by (induction s) (simp_all add: as_bytes_def from_utf8_encode)

end
