(* ===== verification/Rust_Str.thy ===== *)
theory Rust_Str
  imports Rust_Text
begin

text \<open>
  The \<open>str\<close> methods the crates call (trimming, splitting, searching, replacing), integer
  parsing and the \<open>format!\<close> conversions, with the facts the component proofs use about them.
\<close>

section \<open>Trimming, prefixes\<close>

definition trim_start :: "ustring \<Rightarrow> ustring" where
  "trim_start s = dropWhile is_whitespace s"

definition trim_end :: "ustring \<Rightarrow> ustring" where
  "trim_end s = rev (dropWhile is_whitespace (rev s))"

definition trim :: "ustring \<Rightarrow> ustring" where
  "trim s = trim_end (trim_start s)"

fun strip_prefix :: "ustring \<Rightarrow> ustring \<Rightarrow> ustring option" where
  "strip_prefix [] s = Some s"
| "strip_prefix (p # ps) [] = None"
| "strip_prefix (p # ps) (c # s) = (if p = c then strip_prefix ps s else None)"

definition starts_with :: "ustring \<Rightarrow> ustring \<Rightarrow> bool" where
  "starts_with p s \<longleftrightarrow> strip_prefix p s \<noteq> None"

definition ends_with :: "ustring \<Rightarrow> ustring \<Rightarrow> bool" where
  "ends_with p s \<longleftrightarrow> starts_with (rev p) (rev s)"

lemma strip_prefix_Some: "strip_prefix p s = Some r \<longleftrightarrow> s = p @ r"
  by (induction p s rule: strip_prefix.induct) auto

lemma strip_prefix_append [simp]: "strip_prefix p (p @ r) = Some r"
  by (simp add: strip_prefix_Some)

lemma starts_with_iff: "starts_with p s \<longleftrightarrow> (\<exists>r. s = p @ r)"
  by (auto simp: starts_with_def strip_prefix_Some)

lemma ends_with_iff: "ends_with p s \<longleftrightarrow> (\<exists>r. s = r @ p)"
proof -
  have "rev s = rev p @ rev r \<longleftrightarrow> s = r @ p" for r
    by (metis rev_append rev_is_rev_conv)
  moreover have "(\<exists>r. rev s = rev p @ r) \<longleftrightarrow> (\<exists>r. rev s = rev p @ rev r)"
    by (metis rev_rev_ident)
  ultimately show ?thesis by (simp add: ends_with_def starts_with_iff)
qed

lemma dropWhile_hd: "dropWhile P s \<noteq> [] \<Longrightarrow> \<not> P (hd (dropWhile P s))"
  by (rule hd_dropWhile)

lemma trim_end_last: "trim_end s \<noteq> [] \<Longrightarrow> \<not> is_whitespace (last (trim_end s))"
  by (simp add: trim_end_def last_rev hd_dropWhile)

lemma trim_end_prefix: "\<exists>ws. s = trim_end s @ ws \<and> (\<forall>c \<in> set ws. is_whitespace c)"
proof -
  have "rev s = takeWhile is_whitespace (rev s) @ dropWhile is_whitespace (rev s)"
    by simp
  then have "s = trim_end s @ rev (takeWhile is_whitespace (rev s))"
    unfolding trim_end_def by (metis rev_append rev_rev_ident)
  then show ?thesis by (metis set_rev set_takeWhileD)
qed

lemma trim_no_whitespace:
  assumes "\<forall>c \<in> set s. \<not> is_whitespace c"
  shows "trim s = s"
proof -
  have "dropWhile is_whitespace s = s" using assms by (induction s) auto
  moreover have "dropWhile is_whitespace (rev s) = rev s"
    using assms by (metis dropWhile_eq_self_iff hd_in_set set_rev)
  ultimately show ?thesis by (simp add: trim_def trim_start_def trim_end_def)
qed

lemma trim_all_whitespace:
  assumes "\<forall>c \<in> set s. is_whitespace c"
  shows "trim s = []"
proof -
  have "dropWhile is_whitespace s = []" using assms by (simp add: dropWhile_eq_Nil_conv)
  then show ?thesis
    by (simp add: trim_def trim_start_def trim_end_def del: dropWhile_eq_Nil_conv)
qed

lemma trim_Nil_iff: "trim s = [] \<longleftrightarrow> (\<forall>c \<in> set s. is_whitespace c)"
proof
  assume "trim s = []"
  then have "\<forall>c \<in> set (dropWhile is_whitespace s). is_whitespace c"
    by (auto simp: trim_def trim_start_def trim_end_def dropWhile_eq_Nil_conv)
  then have "dropWhile is_whitespace s = []"
    using hd_dropWhile hd_in_set by blast
  then show "\<forall>c \<in> set s. is_whitespace c" by (simp add: dropWhile_eq_Nil_conv)
qed (rule trim_all_whitespace)

section \<open>Splitting and joining\<close>

fun split_pred :: "(uchar \<Rightarrow> bool) \<Rightarrow> ustring \<Rightarrow> ustring list" where
  "split_pred P [] = [[]]"
| "split_pred P (c # s) =
     (if P c then [] # split_pred P s
      else (case split_pred P s of [] \<Rightarrow> [[c]] | w # ws \<Rightarrow> (c # w) # ws))"

definition split_char :: "uchar \<Rightarrow> ustring \<Rightarrow> ustring list" where
  "split_char c s = split_pred (\<lambda>d. d = c) s"

definition split_whitespace :: "ustring \<Rightarrow> ustring list" where
  "split_whitespace s = filter (\<lambda>w. w \<noteq> []) (split_pred is_whitespace s)"

fun join :: "ustring \<Rightarrow> ustring list \<Rightarrow> ustring" where
  "join sep [] = []"
| "join sep [w] = w"
| "join sep (w # ws) = w @ sep @ join sep ws"

definition split_once :: "uchar \<Rightarrow> ustring \<Rightarrow> (ustring \<times> ustring) option" where
  "split_once c s =
     (if c \<in> set s then Some (takeWhile (\<lambda>d. d \<noteq> c) s, tl (dropWhile (\<lambda>d. d \<noteq> c) s)) else None)"

definition rsplit_once :: "uchar \<Rightarrow> ustring \<Rightarrow> (ustring \<times> ustring) option" where
  "rsplit_once c s = map_option (\<lambda>(a, b). (rev b, rev a)) (split_once c (rev s))"

text \<open>\<open>str::lines\<close>: pieces at \<open>\n\<close>, a final empty piece dropped, \<open>\r\<close> stripped in front of \<open>\n\<close>.\<close>

definition strip_cr :: "ustring \<Rightarrow> ustring" where
  "strip_cr s = (if s \<noteq> [] \<and> last s = 13 then butlast s else s)"

definition str_lines :: "ustring \<Rightarrow> ustring list" where
  "str_lines s =
     (let ws = split_char 10 s in map strip_cr (butlast ws) @ (if last ws = [] then [] else [last ws]))"

lemma split_pred_not_Nil [simp]: "split_pred P s \<noteq> []"
  by (cases s) (auto split: list.splits)

lemma split_char_not_Nil [simp]: "split_char c s \<noteq> []"
  by (simp add: split_char_def)

lemma join_Cons: "ws \<noteq> [] \<Longrightarrow> join sep (w # ws) = w @ sep @ join sep ws"
  by (cases ws) simp_all

lemma join_split_char: "join [c] (split_char c s) = s"
proof (induction s)
  case Nil
  show ?case by (simp add: split_char_def)
next
  case (Cons d s)
  obtain w ws where w: "split_pred (\<lambda>d. d = c) s = w # ws"
    by (cases "split_pred (\<lambda>d. d = c) s") auto
  have "join [c] ((d # w) # ws) = d # join [c] (w # ws)" by (cases ws) simp_all
  with Cons w show ?case by (auto simp: split_char_def join_Cons)
qed

lemma split_pred_pieces: "w \<in> set (split_pred P s) \<Longrightarrow> c \<in> set w \<Longrightarrow> \<not> P c \<and> c \<in> set s"
proof (induction s arbitrary: w)
  case Nil
  then show ?case by simp
next
  case (Cons d s)
  obtain v vs where "split_pred P s = v # vs" by (cases "split_pred P s") auto
  with Cons.prems Cons.IH [of v] Cons.IH [of w] show ?case by (auto split: if_splits)
qed

lemma split_pred_no_sep: "\<forall>c \<in> set s. \<not> P c \<Longrightarrow> split_pred P s = [s]"
  by (induction s) auto

lemma split_pred_append:
  "\<forall>c \<in> set a. \<not> P c \<Longrightarrow> P d \<Longrightarrow> split_pred P (a @ d # s) = a # split_pred P s"
  by (induction a) auto

lemma split_char_append: "c \<notin> set a \<Longrightarrow> split_char c (a @ c # s) = a # split_char c s"
  unfolding split_char_def by (rule split_pred_append) auto

lemma split_char_no_sep: "c \<notin> set s \<Longrightarrow> split_char c s = [s]"
  unfolding split_char_def by (rule split_pred_no_sep) auto

lemma split_char_join:
  "ws \<noteq> [] \<Longrightarrow> \<forall>w \<in> set ws. c \<notin> set w \<Longrightarrow> split_char c (join [c] ws) = ws"
  by (induction "[c]" ws rule: join.induct) (auto simp: split_char_append split_char_no_sep)

lemma lines_of_concat:
  assumes "\<forall>l \<in> set ls. 10 \<notin> set l \<and> strip_cr l = l"
  shows "str_lines (concat (map (\<lambda>l. l @ [10]) ls)) = ls"
proof -
  have "split_char 10 (concat (map (\<lambda>l. l @ [10]) ls)) = ls @ [[]]"
    using assms by (induction ls) (simp_all add: split_char_append, simp add: split_char_def)
  moreover have "map strip_cr ls = ls" using assms by (intro map_idI) simp
  ultimately show ?thesis by (simp add: str_lines_def)
qed

lemma split_once_append: "c \<notin> set a \<Longrightarrow> split_once c (a @ c # b) = Some (a, b)"
  by (induction a) (auto simp: split_once_def)

lemma split_once_None: "split_once c s = None \<longleftrightarrow> c \<notin> set s"
  by (simp add: split_once_def)

lemma split_once_Some:
  assumes "split_once c s = Some (a, b)"
  shows "s = a @ c # b \<and> c \<notin> set a"
proof -
  have c: "c \<in> set s" and a: "a = takeWhile (\<lambda>d. d \<noteq> c) s"
    and b: "b = tl (dropWhile (\<lambda>d. d \<noteq> c) s)"
    using assms by (auto simp: split_once_def split: if_splits)
  obtain u v where s: "s = u @ c # v" "c \<notin> set u" using c by (metis split_list_first)
  then show ?thesis
    using a b by (auto simp: takeWhile_append dropWhile_append)
qed

lemma rsplit_once_append: "c \<notin> set b \<Longrightarrow> rsplit_once c (a @ c # b) = Some (a, b)"
  by (simp add: rsplit_once_def split_once_append)

lemma rsplit_once_None: "rsplit_once c s = None \<longleftrightarrow> c \<notin> set s"
  by (simp add: rsplit_once_def split_once_None)

lemma rsplit_once_Some:
  assumes "rsplit_once c s = Some (a, b)"
  shows "s = a @ c # b \<and> c \<notin> set b"
proof -
  obtain u v where uv: "split_once c (rev s) = Some (u, v)" "a = rev v" "b = rev u"
    using assms by (auto simp: rsplit_once_def)
  then have "rev s = u @ c # v" "c \<notin> set u" using split_once_Some by blast+
  then have "s = rev v @ c # rev u" by (metis append.assoc append_Cons append_Nil rev.simps(2) rev_append rev_rev_ident)
  with uv \<open>c \<notin> set u\<close> show ?thesis by simp
qed

section \<open>Searching and replacing\<close>

fun contains_str :: "ustring \<Rightarrow> ustring \<Rightarrow> bool" where
  "contains_str p [] \<longleftrightarrow> p = []"
| "contains_str p (c # s) \<longleftrightarrow> starts_with p (c # s) \<or> contains_str p s"

lemma contains_str_iff: "contains_str p s \<longleftrightarrow> (\<exists>a b. s = a @ p @ b)"
proof (induction s)
  case Nil
  show ?case by simp
next
  case (Cons c s)
  have "(\<exists>a b. c # s = a @ p @ b) \<longleftrightarrow> (\<exists>b. c # s = p @ b) \<or> (\<exists>a b. s = a @ p @ b)"
    by (metis append_Cons append_Nil list.exhaust list.inject)
  then show ?case using Cons by (simp add: starts_with_iff)
qed

text \<open>\<open>str::replace\<close> with a non-empty pattern: left to right, matches not overlapping.\<close>

function replace_str :: "ustring \<Rightarrow> ustring \<Rightarrow> ustring \<Rightarrow> ustring" where
  "replace_str p t s =
     (case s of
        [] \<Rightarrow> []
      | c # r \<Rightarrow>
          (case strip_prefix p s of
             Some rest \<Rightarrow> if p = [] then t @ c # replace_str p t r else t @ replace_str p t rest
           | None \<Rightarrow> c # replace_str p t r))"
  by pat_completeness auto
termination
  by (relation "measure (\<lambda>(p, t, s). length s)") (auto simp: strip_prefix_Some)

declare replace_str.simps [simp del]

lemma replace_str_Nil [simp]: "replace_str p t [] = []"
  by (simp add: replace_str.simps)

lemma replace_str_match:
  "p \<noteq> [] \<Longrightarrow> replace_str p t (p @ s) = t @ replace_str p t s"
  by (subst replace_str.simps) (cases p; simp add: strip_prefix_Some)

lemma replace_str_other:
  "\<not> starts_with p (c # s) \<Longrightarrow> replace_str p t (c # s) = c # replace_str p t s"
  by (subst replace_str.simps) (simp add: starts_with_def)

lemma replace_str_absent: "\<not> contains_str p s \<Longrightarrow> replace_str p t s = s"
  by (induction s) (auto simp: replace_str_other)

section \<open>Numbers\<close>

fun show_nat :: "nat \<Rightarrow> ustring" where
  "show_nat n = (if n < 10 then [48 + n] else show_nat (n div 10) @ [48 + n mod 10])"

declare show_nat.simps [simp del]

definition pad_left :: "nat \<Rightarrow> uchar \<Rightarrow> ustring \<Rightarrow> ustring" where
  "pad_left n c s = replicate (n - length s) c @ s"

text \<open>\<open>{:0w}\<close> of a non-negative number.\<close>

definition show_padded :: "nat \<Rightarrow> nat \<Rightarrow> ustring" where
  "show_padded w n = pad_left w 48 (show_nat n)"

fun digits_value :: "nat \<Rightarrow> ustring \<Rightarrow> nat option" where
  "digits_value acc [] = Some acc"
| "digits_value acc (c # s) =
     (if is_ascii_digit c then digits_value (acc * 10 + (c - 48)) s else None)"

text \<open>
  \<open>str::parse\<close> at an unsigned type whose largest value is \<open>hi\<close>: an optional \<open>+\<close>, at least
  one digit, nothing else, and no overflow.
\<close>

definition parse_unsigned :: "nat \<Rightarrow> ustring \<Rightarrow> nat option" where
  "parse_unsigned hi s =
     (let d = (case s of c # r \<Rightarrow> if c = 43 then r else s | [] \<Rightarrow> []) in
      if d = [] then None
      else (case digits_value 0 d of
              Some n \<Rightarrow> if n \<le> hi then Some n else None
            | None \<Rightarrow> None))"

lemma show_nat_not_Nil [simp]: "show_nat n \<noteq> []"
  by (subst show_nat.simps) simp

lemma show_nat_digits: "c \<in> set (show_nat n) \<Longrightarrow> is_ascii_digit c"
proof (induction n rule: show_nat.induct)
  case (1 n)
  show ?case
  proof (cases "n < 10")
    case True
    with "1.prems" show ?thesis
      by (simp add: show_nat.simps [of n] is_ascii_digit_def)
  next
    case False
    have "n mod 10 \<le> 9" by presburger
    with False 1 show ?thesis
      by (auto simp: show_nat.simps [of n] is_ascii_digit_def)
  qed
qed

lemma digits_value_append:
  "digits_value a (s @ t) = digits_value a s \<bind> (\<lambda>b. digits_value b t)"
  by (induction s arbitrary: a) auto

lemma digits_value_show: "digits_value 0 (show_nat n) = Some n"
proof (induction n rule: show_nat.induct)
  case (1 n)
  show ?case
  proof (cases "n < 10")
    case True
    then show ?thesis by (simp add: show_nat.simps [of n] is_ascii_digit_def)
  next
    case False
    have "n mod 10 \<le> 9" by presburger
    with False 1 show ?thesis
      by (simp add: show_nat.simps [of n] digits_value_append is_ascii_digit_def)
  qed
qed

lemma show_nat_hd: "hd (show_nat n) \<noteq> 43"
  using show_nat_digits [of "hd (show_nat n)" n] hd_in_set [of "show_nat n"]
  by (auto simp: is_ascii_digit_def)

lemma parse_show: "n \<le> hi \<Longrightarrow> parse_unsigned hi (show_nat n) = Some n"
proof -
  assume n: "n \<le> hi"
  obtain c r where cr: "show_nat n = c # r" by (cases "show_nat n") auto
  then have "c \<noteq> 43" using show_nat_hd [of n] by simp
  with n cr digits_value_show [of n] show ?thesis
    by (simp add: parse_unsigned_def)
qed

lemma parse_unsigned_bound: "parse_unsigned hi s = Some n \<Longrightarrow> n \<le> hi"
  by (auto simp: parse_unsigned_def Let_def split: if_splits option.splits list.splits)

lemma show_nat_no_whitespace: "c \<in> set (show_nat n) \<Longrightarrow> \<not> is_whitespace c"
  by (auto dest: show_nat_digits simp: is_ascii_digit_def is_whitespace_def)

lemma trim_show [simp]: "trim (show_nat n) = show_nat n"
  by (rule trim_no_whitespace) (auto dest: show_nat_no_whitespace)

lemma show_nat_inj: "show_nat m = show_nat n \<Longrightarrow> m = n"
  using digits_value_show by (metis option.inject)

section \<open>Hexadecimal\<close>

definition hex_digit :: "nat \<Rightarrow> uchar" where
  "hex_digit d = (if d < 10 then 48 + d else 87 + d)"

definition hex_value :: "uchar \<Rightarrow> nat option" where
  "hex_value c =
     (if is_ascii_digit c then Some (c - 48)
      else if 97 \<le> c \<and> c \<le> 102 then Some (c - 87)
      else if 65 \<le> c \<and> c \<le> 70 then Some (c - 55)
      else None)"

definition show_hex_byte :: "u8 \<Rightarrow> ustring" where
  "show_hex_byte b = [hex_digit (unat b div 16), hex_digit (unat b mod 16)]"

lemma hex_value_digit [simp]: "d < 16 \<Longrightarrow> hex_value (hex_digit d) = Some d"
  by (auto simp: hex_value_def hex_digit_def is_ascii_digit_def)

end
