(* ===== verification/Term_Parser.thy ===== *)
theory Term_Parser
  imports Rust_Str
begin

unbundle bit_operations_syntax

text \<open>
  The escape sequence parser, \<open>crates/rdt-terminal/src/parser.rs\<close>: its actions, its fourteen
  states, the \<open>Parser\<close> struct and one definition per method. A handler takes the parser and a
  byte and returns the parser and the actions it pushed; \<open>ground\<close> and \<open>utf8\<close> write to the
  four byte decode buffer by index and so return an option, \<open>None\<close> being the panic.
  \<open>parser_inv\<close> is the invariant that rules that panic out.
\<close>

section \<open>Data\<close>

datatype action =
    Print uchar
  | Execute u8
  | Csi "u16 list" "u8 list" bool u8
  | Esc "u8 list" bool u8
  | Osc "ustring list" bool
  | DcsStart "u16 list" "u8 list" u8
  | DcsData "u8 list"
  | DcsEnd

datatype parser_state =
    Ground
  | Escape
  | EscapeIntermediate
  | CsiEntry
  | CsiParam
  | CsiIntermediate
  | CsiIgnore
  | DcsEntry
  | DcsParam
  | DcsIntermediate
  | DcsPassthrough
  | DcsIgnore
  | OscString
  | SosPmApcString

record parser =
  p_state :: parser_state
  p_params :: "u16 list"
  p_current_param :: "u16 option"
  p_intermediates :: "u8 list"
  p_ignore :: bool
  p_osc_buffer :: ustring
  p_dcs_buffer :: "u8 list"
  p_utf8 :: "u8 list"
  p_utf8_len :: nat
  p_utf8_expected :: nat
  p_pending_dcs_start :: "(u16 list \<times> u8 list \<times> u8) option"

type_synonym parsed = "parser \<times> action list"

definition parser_new :: parser where
  "parser_new =
     \<lparr>p_state = Ground, p_params = [], p_current_param = None, p_intermediates = [],
      p_ignore = False, p_osc_buffer = [], p_dcs_buffer = [], p_utf8 = replicate 4 0,
      p_utf8_len = 0, p_utf8_expected = 0, p_pending_dcs_start = None\<rparr>"

definition parser_reset :: "parser \<Rightarrow> parser" where
  "parser_reset p = parser_new"

section \<open>Methods\<close>

definition parser_clear :: "parser \<Rightarrow> parser" where
  "parser_clear p =
     p\<lparr>p_params := [], p_current_param := None, p_intermediates := [], p_ignore := False,
       p_osc_buffer := [], p_dcs_buffer := [], p_utf8_len := 0, p_utf8_expected := 0\<rparr>"

definition push_param :: "parser \<Rightarrow> parser" where
  "push_param p =
     p\<lparr>p_params := p_params p @ [case p_current_param p of Some v \<Rightarrow> v | None \<Rightarrow> 0],
       p_current_param := None\<rparr>"

definition replacement_character :: uchar where
  "replacement_character = 0xFFFD"

function ground :: "parser \<Rightarrow> u8 \<Rightarrow> parsed option"
  and utf8 :: "parser \<Rightarrow> u8 \<Rightarrow> parsed option" where
  "ground p b =
     (if 0 < p_utf8_len p \<and> b < 0x80 then utf8 p b
      else if b \<le> 0x17 \<or> b = 0x19 \<or> 0x1C \<le> b \<and> b \<le> 0x1F then Some (p, [Execute b])
      else if 0x20 \<le> b \<and> b \<le> 0x7F then Some (p, [Print (unat b)])
      else utf8 p b)"
| "utf8 p b =
     (if p_utf8_len p = 0 then
        (case (if 0xC0 \<le> b \<and> b \<le> 0xDF then Some (2 :: nat)
               else if 0xE0 \<le> b \<and> b \<le> 0xEF then Some 3
               else if 0xF0 \<le> b \<and> b \<le> 0xF7 then Some 4
               else None) of
           None \<Rightarrow> Some (p, [Print replacement_character])
         | Some n \<Rightarrow> do {
             buf \<leftarrow> vec_set (p_utf8 p) 0 b;
             Some (p\<lparr>p_utf8_expected := n, p_utf8 := buf, p_utf8_len := 1\<rparr>, [])
           })
      else if b AND 0xC0 \<noteq> 0x80 then do {
        (q, out) \<leftarrow> ground (p\<lparr>p_utf8_len := 0, p_utf8_expected := 0\<rparr>) b;
        Some (q, Print replacement_character # out)
      }
      else do {
        buf \<leftarrow> vec_set (p_utf8 p) (p_utf8_len p) b;
        (let n = Suc (p_utf8_len p); p' = p\<lparr>p_utf8 := buf, p_utf8_len := n\<rparr> in
         if n = p_utf8_expected p then
           Some (p'\<lparr>p_utf8_len := 0, p_utf8_expected := 0\<rparr>,
                 [Print (case from_utf8 (take n buf) of
                           Some (c # _) \<Rightarrow> c
                         | _ \<Rightarrow> replacement_character)])
         else Some (p', []))
      })"
  by pat_completeness auto
termination
  by (relation "measure (case_sum (\<lambda>(p, b). 2 * p_utf8_len p + 1) (\<lambda>(p, b). 2 * p_utf8_len p))")
    auto

declare ground.simps [simp del] utf8.simps [simp del]

definition escape :: "parser \<Rightarrow> u8 \<Rightarrow> parsed" where
  "escape p b =
     (if b = 0x5B then (p\<lparr>p_state := CsiEntry\<rparr>, [])
      else if b = 0x5D then (p\<lparr>p_osc_buffer := [], p_state := OscString\<rparr>, [])
      else if b = 0x50 then (p\<lparr>p_state := DcsEntry\<rparr>, [])
      else if b = 0x58 \<or> b = 0x5E \<or> b = 0x5F then (p\<lparr>p_state := SosPmApcString\<rparr>, [])
      else if b = 0x5C then (p\<lparr>p_state := Ground\<rparr>, [])
      else if 0x20 \<le> b \<and> b \<le> 0x2F then
        (p\<lparr>p_intermediates := p_intermediates p @ [b], p_state := EscapeIntermediate\<rparr>, [])
      else if 0x30 \<le> b \<and> b \<le> 0x7E then
        (p\<lparr>p_intermediates := [], p_state := Ground\<rparr>, [Esc (p_intermediates p) False b])
      else (p\<lparr>p_state := Ground\<rparr>, []))"

definition escape_intermediate :: "parser \<Rightarrow> u8 \<Rightarrow> parsed" where
  "escape_intermediate p b =
     (if 0x20 \<le> b \<and> b \<le> 0x2F then (p\<lparr>p_intermediates := p_intermediates p @ [b]\<rparr>, [])
      else if 0x30 \<le> b \<and> b \<le> 0x7E then
        (p\<lparr>p_intermediates := [], p_state := Ground\<rparr>, [Esc (p_intermediates p) False b])
      else (p\<lparr>p_state := Ground\<rparr>, []))"

definition csi_dispatch :: "parser \<Rightarrow> u8 \<Rightarrow> parsed" where
  "csi_dispatch p b =
     (let q = push_param p in
      (q\<lparr>p_params := [], p_intermediates := [], p_ignore := False, p_current_param := None,
         p_state := Ground\<rparr>,
       [Csi (p_params q) (p_intermediates q) (p_ignore q) b]))"

definition csi_entry :: "parser \<Rightarrow> u8 \<Rightarrow> parsed" where
  "csi_entry p b =
     (if 0x30 \<le> b \<and> b \<le> 0x39 then
        (p\<lparr>p_current_param := Some (ucast (b - 0x30)), p_state := CsiParam\<rparr>, [])
      else if b = 0x3B then ((push_param p)\<lparr>p_state := CsiParam\<rparr>, [])
      else if b = 0x3A then ((push_param p)\<lparr>p_state := CsiIgnore\<rparr>, [])
      else if 0x3C \<le> b \<and> b \<le> 0x3F then
        (p\<lparr>p_intermediates := p_intermediates p @ [b], p_state := CsiParam\<rparr>, [])
      else if 0x20 \<le> b \<and> b \<le> 0x2F then
        (p\<lparr>p_intermediates := p_intermediates p @ [b], p_state := CsiIntermediate\<rparr>, [])
      else if 0x40 \<le> b \<and> b \<le> 0x7E then csi_dispatch p b
      else (p, []))"

definition next_param :: "u16 option \<Rightarrow> u8 \<Rightarrow> u16" where
  "next_param cur b =
     min (sat_add (sat_mul (case cur of Some v \<Rightarrow> v | None \<Rightarrow> 0) 10) (ucast (b - 0x30))) (- 1)"

definition csi_param :: "parser \<Rightarrow> u8 \<Rightarrow> parsed" where
  "csi_param p b =
     (if 0x30 \<le> b \<and> b \<le> 0x39 then
        (p\<lparr>p_current_param := Some (next_param (p_current_param p) b)\<rparr>, [])
      else if b = 0x3B then (push_param p, [])
      else if b = 0x3A then ((push_param p)\<lparr>p_state := CsiIgnore\<rparr>, [])
      else if 0x20 \<le> b \<and> b \<le> 0x2F then
        (p\<lparr>p_intermediates := p_intermediates p @ [b], p_state := CsiIntermediate\<rparr>, [])
      else if 0x40 \<le> b \<and> b \<le> 0x7E then csi_dispatch p b
      else if 0x3C \<le> b \<and> b \<le> 0x3F then (p\<lparr>p_ignore := True, p_state := CsiIgnore\<rparr>, [])
      else (p, []))"

definition csi_intermediate :: "parser \<Rightarrow> u8 \<Rightarrow> parsed" where
  "csi_intermediate p b =
     (if 0x20 \<le> b \<and> b \<le> 0x2F then (p\<lparr>p_intermediates := p_intermediates p @ [b]\<rparr>, [])
      else if 0x30 \<le> b \<and> b \<le> 0x3F then (p\<lparr>p_ignore := True, p_state := CsiIgnore\<rparr>, [])
      else if 0x40 \<le> b \<and> b \<le> 0x7E then csi_dispatch p b
      else (p, []))"

definition csi_ignore :: "parser \<Rightarrow> u8 \<Rightarrow> parsed" where
  "csi_ignore p b =
     (if 0x40 \<le> b \<and> b \<le> 0x7E then
        (p\<lparr>p_params := [], p_intermediates := [], p_ignore := False, p_current_param := None,
           p_state := Ground\<rparr>,
         [Csi (p_params p) (p_intermediates p) True b])
      else (p, []))"

definition dcs_dispatch_start :: "parser \<Rightarrow> u8 \<Rightarrow> parser" where
  "dcs_dispatch_start p b =
     (let q = push_param p in
      q\<lparr>p_params := [], p_intermediates := [], p_current_param := None, p_dcs_buffer := [],
        p_state := DcsPassthrough,
        p_pending_dcs_start := Some (p_params q, p_intermediates q, b)\<rparr>)"

definition dcs_entry :: "parser \<Rightarrow> u8 \<Rightarrow> parser" where
  "dcs_entry p b =
     (if 0x30 \<le> b \<and> b \<le> 0x39 then
        p\<lparr>p_current_param := Some (ucast (b - 0x30)), p_state := DcsParam\<rparr>
      else if b = 0x3B then (push_param p)\<lparr>p_state := DcsParam\<rparr>
      else if 0x3C \<le> b \<and> b \<le> 0x3F then
        p\<lparr>p_intermediates := p_intermediates p @ [b], p_state := DcsParam\<rparr>
      else if 0x20 \<le> b \<and> b \<le> 0x2F then
        p\<lparr>p_intermediates := p_intermediates p @ [b], p_state := DcsIntermediate\<rparr>
      else if 0x40 \<le> b \<and> b \<le> 0x7E then dcs_dispatch_start p b
      else p)"

definition dcs_param :: "parser \<Rightarrow> u8 \<Rightarrow> parser" where
  "dcs_param p b =
     (if 0x30 \<le> b \<and> b \<le> 0x39 then
        p\<lparr>p_current_param := Some (next_param (p_current_param p) b)\<rparr>
      else if b = 0x3B then push_param p
      else if 0x3C \<le> b \<and> b \<le> 0x3F then p\<lparr>p_state := DcsIgnore\<rparr>
      else if 0x20 \<le> b \<and> b \<le> 0x2F then
        p\<lparr>p_intermediates := p_intermediates p @ [b], p_state := DcsIntermediate\<rparr>
      else if 0x40 \<le> b \<and> b \<le> 0x7E then dcs_dispatch_start p b
      else p)"

definition dcs_intermediate :: "parser \<Rightarrow> u8 \<Rightarrow> parser" where
  "dcs_intermediate p b =
     (if 0x20 \<le> b \<and> b \<le> 0x2F then p\<lparr>p_intermediates := p_intermediates p @ [b]\<rparr>
      else if 0x30 \<le> b \<and> b \<le> 0x3F then p\<lparr>p_state := DcsIgnore\<rparr>
      else if 0x40 \<le> b \<and> b \<le> 0x7E then dcs_dispatch_start p b
      else p)"

definition dcs_passthrough :: "parser \<Rightarrow> u8 \<Rightarrow> parsed" where
  "dcs_passthrough p b =
     (let start = (case p_pending_dcs_start p of
                     Some (params, intermediates, act) \<Rightarrow> [DcsStart params intermediates act]
                   | None \<Rightarrow> []);
          q = p\<lparr>p_pending_dcs_start := None\<rparr>;
          flush = (if p_dcs_buffer q = [] then [] else [DcsData (p_dcs_buffer q)]) in
      if b \<le> 0x17 \<or> b = 0x19 \<or> 0x1C \<le> b \<and> b \<le> 0x7E then
        (q\<lparr>p_dcs_buffer := p_dcs_buffer q @ [b]\<rparr>, start)
      else if b = 0x7F then (q, start)
      else if b = 0x1B then
        ((parser_clear (q\<lparr>p_dcs_buffer := []\<rparr>))\<lparr>p_state := Escape\<rparr>, start @ flush @ [DcsEnd])
      else (q\<lparr>p_dcs_buffer := [], p_state := Ground\<rparr>, start @ flush @ [DcsEnd]))"

definition dcs_ignore :: "parser \<Rightarrow> u8 \<Rightarrow> parser" where
  "dcs_ignore p b = p"

definition split_osc :: "ustring \<Rightarrow> ustring list" where
  "split_osc buffer = split_char 0x3B buffer"

definition osc_string :: "parser \<Rightarrow> u8 \<Rightarrow> parsed" where
  "osc_string p b =
     (if b = 0x07 then
        (p\<lparr>p_osc_buffer := [], p_state := Ground\<rparr>, [Osc (split_osc (p_osc_buffer p)) True])
      else if b = 0x1B then
        (p\<lparr>p_osc_buffer := [], p_state := Escape\<rparr>, [Osc (split_osc (p_osc_buffer p)) False])
      else if 0x20 \<le> b \<and> b \<le> 0x7F then
        (p\<lparr>p_osc_buffer := p_osc_buffer p @ [unat b]\<rparr>, [])
      else (p, []))"

definition sos_pm_apc :: "parser \<Rightarrow> u8 \<Rightarrow> parser" where
  "sos_pm_apc p b = (if b = 0x07 then p\<lparr>p_state := Ground\<rparr> else p)"

definition parser_step :: "parser \<Rightarrow> u8 \<Rightarrow> parsed option" where
  "parser_step p b =
     (if b = 0x18 \<or> b = 0x1A then
        Some ((parser_clear p)\<lparr>p_state := Ground\<rparr>, [Execute b])
      else if b = 0x1B \<and> p_state p \<noteq> OscString \<and> p_state p \<noteq> DcsPassthrough
              \<and> p_state p \<noteq> SosPmApcString then
        Some ((parser_clear p)\<lparr>p_state := Escape\<rparr>, [])
      else (case p_state p of
          Ground \<Rightarrow> ground p b
        | Escape \<Rightarrow> Some (escape p b)
        | EscapeIntermediate \<Rightarrow> Some (escape_intermediate p b)
        | CsiEntry \<Rightarrow> Some (csi_entry p b)
        | CsiParam \<Rightarrow> Some (csi_param p b)
        | CsiIntermediate \<Rightarrow> Some (csi_intermediate p b)
        | CsiIgnore \<Rightarrow> Some (csi_ignore p b)
        | DcsEntry \<Rightarrow> Some (dcs_entry p b, [])
        | DcsParam \<Rightarrow> Some (dcs_param p b, [])
        | DcsIntermediate \<Rightarrow> Some (dcs_intermediate p b, [])
        | DcsPassthrough \<Rightarrow> Some (dcs_passthrough p b)
        | DcsIgnore \<Rightarrow> Some (dcs_ignore p b, [])
        | OscString \<Rightarrow> Some (osc_string p b)
        | SosPmApcString \<Rightarrow> Some (sos_pm_apc p b, [])))"

text \<open>The loop of \<open>Parser::advance\<close>: each step appends to the caller's vector.\<close>

definition step_out :: "u8 \<Rightarrow> parsed \<Rightarrow> parsed option" where
  "step_out b s = do {
     (q, acts) \<leftarrow> parser_step (fst s) b;
     Some (q, snd s @ acts)
   }"

definition parser_advance :: "parser \<Rightarrow> u8 list \<Rightarrow> parsed option" where
  "parser_advance p bytes = fold_opt step_out bytes (p, [])"

definition advance_byte :: "parser \<Rightarrow> u8 \<Rightarrow> parsed option" where
  "advance_byte p b = step_out b (p, [])"

end
