(* ===== verification/Term_Grid.thy ===== *)
theory Term_Grid
  imports Rust_Str
begin

text \<open>
  The screen model, \<open>crates/rdt-terminal/src/grid.rs\<close>: colours, text attributes, cells, rows
  and the bounded scrollback, which is shown to meet the bounded buffer contract.
\<close>

section \<open>Colours and attributes\<close>

datatype color = Default | Indexed u8 | Rgb u8 u8 u8

definition color_normal :: "u8 \<Rightarrow> color" where
  "color_normal index = Indexed index"

definition color_bright :: "u8 \<Rightarrow> color" where
  "color_bright index = Indexed (index + 8)"

record attrs =
  a_fg :: color
  a_bg :: color
  a_bold :: bool
  a_dim :: bool
  a_italic :: bool
  a_underline :: bool
  a_blink :: bool
  a_inverse :: bool
  a_hidden :: bool
  a_strikethrough :: bool

definition attrs_plain :: attrs where
  "attrs_plain =
     \<lparr>a_fg = Default, a_bg = Default, a_bold = False, a_dim = False, a_italic = False,
      a_underline = False, a_blink = False, a_inverse = False, a_hidden = False,
      a_strikethrough = False\<rparr>"

definition is_plain :: "attrs \<Rightarrow> bool" where
  "is_plain a \<longleftrightarrow> a = attrs_plain"

section \<open>Cells and rows\<close>

record cell =
  c_ch :: uchar
  c_attrs :: attrs
  c_width :: u8

text \<open>East Asian wide characters and emoji.\<close>

definition is_wide :: "uchar \<Rightarrow> bool" where
  "is_wide c \<longleftrightarrow>
     0x1100 \<le> c \<and> c \<le> 0x115F \<or> 0x2E80 \<le> c \<and> c \<le> 0x303E \<or> 0x3041 \<le> c \<and> c \<le> 0x33FF \<or>
     0x3400 \<le> c \<and> c \<le> 0x4DBF \<or> 0x4E00 \<le> c \<and> c \<le> 0x9FFF \<or> 0xA000 \<le> c \<and> c \<le> 0xA4CF \<or>
     0xAC00 \<le> c \<and> c \<le> 0xD7A3 \<or> 0xF900 \<le> c \<and> c \<le> 0xFAFF \<or> 0xFE30 \<le> c \<and> c \<le> 0xFE6F \<or>
     0xFF00 \<le> c \<and> c \<le> 0xFF60 \<or> 0xFFE0 \<le> c \<and> c \<le> 0xFFE6 \<or> 0x1F300 \<le> c \<and> c \<le> 0x1F64F \<or>
     0x1F900 \<le> c \<and> c \<le> 0x1F9FF \<or> 0x20000 \<le> c \<and> c \<le> 0x2FFFD \<or> 0x30000 \<le> c \<and> c \<le> 0x3FFFD"

definition cell_empty :: cell where
  "cell_empty = \<lparr>c_ch = 32, c_attrs = attrs_plain, c_width = 1\<rparr>"

definition cell_new :: "uchar \<Rightarrow> attrs \<Rightarrow> cell" where
  "cell_new ch a = \<lparr>c_ch = ch, c_attrs = a, c_width = (if is_wide ch then 2 else 1)\<rparr>"

definition cell_is_empty :: "cell \<Rightarrow> bool" where
  "cell_is_empty c \<longleftrightarrow> c = cell_empty"

record row =
  r_cells :: "cell list"
  r_wrapped :: bool

definition row_blank :: "nat \<Rightarrow> row" where
  "row_blank cols = \<lparr>r_cells = replicate cols cell_empty, r_wrapped = False\<rparr>"

definition row_text :: "row \<Rightarrow> ustring" where
  "row_text r = trim_end (map c_ch (r_cells r))"

lemma row_blank_cells [simp]: "r_cells (row_blank n) = replicate n cell_empty"
  by (simp add: row_blank_def)

lemma row_text_blank: "row_text (row_blank n) = []"
proof -
  have "is_whitespace (c_ch cell_empty)" by (simp add: cell_empty_def is_whitespace_def)
  then show ?thesis by (simp add: row_text_def trim_end_def)
qed

section \<open>Scrollback\<close>

record scrollback =
  sb_limit :: nat
  sb_lines :: "row list"

definition sb_new :: "nat \<Rightarrow> scrollback" where
  "sb_new limit = \<lparr>sb_limit = limit, sb_lines = []\<rparr>"

definition sb_len :: "scrollback \<Rightarrow> nat" where
  "sb_len b = length (sb_lines b)"

definition sb_is_empty :: "scrollback \<Rightarrow> bool" where
  "sb_is_empty b \<longleftrightarrow> sb_lines b = []"

definition sb_push :: "row \<Rightarrow> scrollback \<Rightarrow> scrollback" where
  "sb_push r b =
     (if sb_limit b = 0 then b
      else
        (let kept = (if length (sb_lines b) = sb_limit b then tl (sb_lines b) else sb_lines b)
         in b\<lparr>sb_lines := kept @ [r]\<rparr>))"

definition sb_line :: "scrollback \<Rightarrow> nat \<Rightarrow> row option" where
  "sb_line b index = vec_get (sb_lines b) index"

definition sb_clear :: "scrollback \<Rightarrow> scrollback" where
  "sb_clear b = b\<lparr>sb_lines := []\<rparr>"

function pop_excess :: "nat \<Rightarrow> 'a list \<Rightarrow> 'a list" where
  "pop_excess limit xs = (if length xs > limit then pop_excess limit (tl xs) else xs)"
  by pat_completeness auto
termination
  by (relation "measure (\<lambda>(limit, xs). length xs)") auto

declare pop_excess.simps [simp del]

definition sb_set_limit :: "nat \<Rightarrow> scrollback \<Rightarrow> scrollback" where
  "sb_set_limit limit b = b\<lparr>sb_limit := limit, sb_lines := pop_excess limit (sb_lines b)\<rparr>"

definition sb_inv :: "scrollback \<Rightarrow> bool" where
  "sb_inv b \<longleftrightarrow> length (sb_lines b) \<le> sb_limit b"

lemma sb_inv_new [simp]: "sb_inv (sb_new n)"
  by (simp add: sb_inv_def sb_new_def)

lemma sb_inv_clear [simp]: "sb_inv (sb_clear b)"
  by (simp add: sb_inv_def sb_clear_def)

lemma sb_push_limit [simp]: "sb_limit (sb_push r b) = sb_limit b"
  by (simp add: sb_push_def)

lemma sb_push_inv [simp]: "sb_inv b \<Longrightarrow> sb_inv (sb_push r b)"
  by (auto simp: sb_inv_def sb_push_def Let_def)

lemma sb_push_lines:
  assumes "sb_inv b"
  shows "sb_lines (sb_push r b) = last_n (sb_limit b) (sb_lines b @ [r])"
proof (cases "sb_limit b = 0")
  case True
  with assms show ?thesis by (simp add: sb_inv_def sb_push_def)
next
  case False
  show ?thesis
  proof (cases "length (sb_lines b) = sb_limit b")
    case True
    with False have "sb_lines b \<noteq> []" by auto
    with True False show ?thesis
      by (cases "sb_lines b") (simp_all add: sb_push_def last_n_def)
  next
    case len: False
    with False assms show ?thesis by (simp add: sb_inv_def sb_push_def last_n_def)
  qed
qed

interpretation sb: bounded_buffer sb_push sb_lines sb_limit sb_inv
  by unfold_locales (simp_all add: sb_push_lines, simp add: sb_inv_def)

lemma pop_excess_last_n: "pop_excess n xs = last_n n xs"
proof (induction n xs rule: pop_excess.induct)
  case (1 n xs)
  show ?case
  proof (cases "length xs > n")
    case True
    then obtain x ys where xs: "xs = x # ys" by (cases xs) auto
    with True 1 show ?thesis
      by (simp add: pop_excess.simps [of n "x # ys"] last_n_def Suc_diff_le)
  next
    case False
    then show ?thesis by (simp add: pop_excess.simps [of n xs])
  qed
qed

lemma sb_set_limit_inv: "sb_inv (sb_set_limit n b)"
  by (simp add: sb_inv_def sb_set_limit_def pop_excess_last_n)

end
