(* ===== verification/Term_Screen.thy ===== *)
theory Term_Screen
  imports Term_Parser Term_Grid
begin

text \<open>
  The terminal state machine, \<open>crates/rdt-terminal/src/term.rs\<close>: modes, cursor, snapshot,
  the \<open>Terminal\<close> struct and one definition per method. Methods that index the screen or call
  \<open>Vec::remove\<close>/\<open>Vec::insert\<close> return an option, \<open>None\<close> being the panic. The bell counter is a
  \<open>u64\<close> and wraps around, as in a release build. \<open>cols - 1\<close> and \<open>rows - 1\<close> are
  subtractions of \<open>nat\<close>: the constructor clamps both sizes to at least 1.
\<close>

section \<open>Data\<close>

record modes =
  m_cursor_visible :: bool
  m_application_cursor_keys :: bool
  m_application_keypad :: bool
  m_bracketed_paste :: bool
  m_origin :: bool
  m_auto_wrap :: bool
  m_alternate_screen :: bool
  m_insert :: bool

definition modes_default :: modes where
  "modes_default =
     \<lparr>m_cursor_visible = False, m_application_cursor_keys = False, m_application_keypad = False,
      m_bracketed_paste = False, m_origin = False, m_auto_wrap = False,
      m_alternate_screen = False, m_insert = False\<rparr>"

record cursor =
  k_row :: nat
  k_col :: nat
  k_attrs :: attrs

definition cursor_default :: cursor where
  "cursor_default = \<lparr>k_row = 0, k_col = 0, k_attrs = attrs_plain\<rparr>"

record snapshot =
  s_rows :: "row list"
  s_cursor :: cursor
  s_cursor_visible :: bool
  s_title :: ustring
  s_scrollback_lines :: nat
  s_dirty :: bool

record terminal =
  t_cols :: nat
  t_rows :: nat
  t_screen :: "row list"
  t_saved_screen :: "row list option"
  t_saved_cursor :: "cursor option"
  t_scrollback :: scrollback
  t_cursor :: cursor
  t_modes :: modes
  t_region_top :: nat
  t_region_bottom :: nat
  t_title :: ustring
  t_dirty :: bool
  t_parser :: parser
  t_wrap_pending :: bool
  t_bell_count :: u64

definition default_scrollback :: nat where
  "default_scrollback = 10000"

definition clamp :: "nat \<Rightarrow> nat \<Rightarrow> nat \<Rightarrow> nat" where
  "clamp n lo hi = (if n < lo then lo else if n > hi then hi else n)"

definition term_new :: "nat \<Rightarrow> nat \<Rightarrow> terminal" where
  "term_new cols0 rows0 =
     (let cols = clamp cols0 1 500; rows = clamp rows0 1 200 in
      \<lparr>t_cols = cols, t_rows = rows, t_screen = replicate rows (row_blank cols),
       t_saved_screen = None, t_saved_cursor = None,
       t_scrollback = sb_new default_scrollback, t_cursor = cursor_default,
       t_modes = modes_default\<lparr>m_cursor_visible := True, m_auto_wrap := True\<rparr>,
       t_region_top = 0, t_region_bottom = rows, t_title = [], t_dirty = True,
       t_parser = parser_new, t_wrap_pending = False, t_bell_count = 0\<rparr>)"

section \<open>Updates of parts of the state\<close>

definition set_row :: "nat \<Rightarrow> terminal \<Rightarrow> terminal" where
  "set_row r t = t\<lparr>t_cursor := (t_cursor t)\<lparr>k_row := r\<rparr>\<rparr>"

definition set_col :: "nat \<Rightarrow> terminal \<Rightarrow> terminal" where
  "set_col c t = t\<lparr>t_cursor := (t_cursor t)\<lparr>k_col := c\<rparr>\<rparr>"

definition cur_row :: "terminal \<Rightarrow> nat" where
  "cur_row t = k_row (t_cursor t)"

definition cur_col :: "terminal \<Rightarrow> nat" where
  "cur_col t = k_col (t_cursor t)"

text \<open>\<open>&mut self.screen[row]\<close> changed by \<open>f\<close>; an index out of range panics.\<close>

definition with_row :: "nat \<Rightarrow> (row \<Rightarrow> row option) \<Rightarrow> terminal \<Rightarrow> terminal option" where
  "with_row i f t = do {
     r \<leftarrow> vec_get (t_screen t) i;
     r' \<leftarrow> f r;
     Some (t\<lparr>t_screen := (t_screen t)[i := r']\<rparr>)
   }"

section \<open>Scrolling\<close>

definition scroll_up_once :: "terminal \<Rightarrow> terminal option" where
  "scroll_up_once t = do {
     (removed, s) \<leftarrow> vec_remove (t_screen t) (t_region_top t);
     (let back = (if t_region_top t = 0 \<and> t_region_bottom t = t_rows t
                  then sb_push removed (t_scrollback t) else t_scrollback t) in do {
       s' \<leftarrow> vec_insert s (t_region_bottom t - 1) (row_blank (t_cols t));
       Some (t\<lparr>t_screen := s', t_scrollback := back\<rparr>)
     })
   }"

definition scroll_up :: "nat \<Rightarrow> terminal \<Rightarrow> terminal option" where
  "scroll_up lines t = do {
     u \<leftarrow> repeat_opt lines scroll_up_once t;
     Some (u\<lparr>t_dirty := True\<rparr>)
   }"

definition scroll_down_once :: "terminal \<Rightarrow> terminal option" where
  "scroll_down_once t = do {
     s \<leftarrow> (if t_region_bottom t \<le> length (t_screen t)
          then map_option snd (vec_remove (t_screen t) (t_region_bottom t - 1))
          else Some (t_screen t));
     s' \<leftarrow> vec_insert s (t_region_top t) (row_blank (t_cols t));
     Some (t\<lparr>t_screen := s'\<rparr>)
   }"

definition scroll_down :: "nat \<Rightarrow> terminal \<Rightarrow> terminal option" where
  "scroll_down lines t = do {
     u \<leftarrow> repeat_opt lines scroll_down_once t;
     Some (u\<lparr>t_dirty := True\<rparr>)
   }"

definition line_feed :: "terminal \<Rightarrow> terminal option" where
  "line_feed t0 =
     (let t = t0\<lparr>t_wrap_pending := False\<rparr> in
      if cur_row t + 1 = t_region_bottom t then scroll_up 1 t
      else if cur_row t + 1 < t_rows t then Some (set_row (cur_row t + 1) t)
      else Some t)"

definition reverse_index :: "terminal \<Rightarrow> terminal option" where
  "reverse_index t =
     (if cur_row t = t_region_top t then scroll_down 1 t
      else Some (set_row (cur_row t - 1) t))"

section \<open>Printing and C0 controls\<close>

definition put_char :: "uchar \<Rightarrow> terminal \<Rightarrow> terminal option" where
  "put_char ch t =
     (let cell = cell_new ch (k_attrs (t_cursor t)); row = cur_row t; col = cur_col t in
      if col \<ge> t_cols t then Some t
      else do {
        t1 \<leftarrow> with_row row (\<lambda>r. do {
               cs \<leftarrow> vec_set (r_cells r) col cell;
               cs' \<leftarrow> (if c_width cell = 2 \<and> col + 1 < t_cols t
                      then vec_set cs (col + 1) \<lparr>c_ch = 32, c_attrs = c_attrs cell, c_width = 1\<rparr>
                      else Some cs);
               Some (r\<lparr>r_cells := cs'\<rparr>)
             }) t;
        (let col' = col + unat (c_width cell);
             t2 = (if col' \<ge> t_cols t then
                     (if m_auto_wrap (t_modes t)
                      then (set_col (t_cols t) t1)\<lparr>t_wrap_pending := True\<rparr>
                      else set_col (t_cols t - 1) t1)
                   else set_col col' t1) in
         Some (t2\<lparr>t_dirty := True\<rparr>))
      })"

definition shift_right_once :: "nat \<Rightarrow> nat \<Rightarrow> cell list \<Rightarrow> cell list option" where
  "shift_right_once cols col cs = do {
     cs' \<leftarrow> vec_insert cs (min col (length cs)) cell_empty;
     Some (take cols cs')
   }"

definition term_print :: "uchar \<Rightarrow> terminal \<Rightarrow> terminal option" where
  "term_print ch t = do {
     t1 \<leftarrow> (if t_wrap_pending t then do {
              u \<leftarrow> line_feed t;
              Some ((set_col 0 u)\<lparr>t_wrap_pending := False\<rparr>)
            } else Some t);
     t2 \<leftarrow> (if m_insert (t_modes t1) then
              with_row (cur_row t1) (\<lambda>r. do {
                cs \<leftarrow> repeat_opt (if is_wide ch then 2 else 1)
                       (shift_right_once (t_cols t1) (cur_col t1)) (r_cells r);
                Some (r\<lparr>r_cells := cs\<rparr>)
              }) t1
            else Some t1);
     put_char ch t2
   }"

definition backspace :: "terminal \<Rightarrow> terminal" where
  "backspace t = (set_col (cur_col t - 1) t)\<lparr>t_wrap_pending := False\<rparr>"

definition term_tab :: "terminal \<Rightarrow> terminal" where
  "term_tab t = (let next = (cur_col t div 8 + 1) * 8 in set_col (min next (t_cols t - 1)) t)"

definition execute :: "u8 \<Rightarrow> terminal \<Rightarrow> terminal option" where
  "execute code t = do {
     u \<leftarrow> (if code = 0x07 then Some (t\<lparr>t_bell_count := t_bell_count t + 1\<rparr>)
          else if code = 0x08 then Some (backspace t)
          else if code = 0x09 then Some (term_tab t)
          else if code = 0x0A \<or> code = 0x0B \<or> code = 0x0C then line_feed t
          else if code = 0x0D then Some ((set_col 0 t)\<lparr>t_wrap_pending := False\<rparr>)
          else Some t);
     Some (u\<lparr>t_dirty := True\<rparr>)
   }"

section \<open>Erasing and editing\<close>

definition erase_line_part :: "nat \<Rightarrow> nat \<Rightarrow> terminal \<Rightarrow> terminal option" where
  "erase_line_part from until t =
     fold_opt (\<lambda>col. with_row (cur_row t) (\<lambda>r. do {
         cs \<leftarrow> vec_set (r_cells r) col (cell_new 32 (k_attrs (t_cursor t)));
         Some (r\<lparr>r_cells := cs\<rparr>)
       })) [min from (t_cols t)..<min until (t_cols t)] t"

definition clear_row :: "nat \<Rightarrow> terminal \<Rightarrow> terminal option" where
  "clear_row i = with_row i (\<lambda>r. Some \<lparr>r_cells = map (\<lambda>_. cell_empty) (r_cells r), r_wrapped = False\<rparr>)"

definition erase_display :: "u16 \<Rightarrow> terminal \<Rightarrow> terminal option" where
  "erase_display mode t =
     (if mode = 0 then do {
        u \<leftarrow> erase_line_part (cur_col t) (t_cols t) t;
        fold_opt clear_row [cur_row u + 1..<t_rows u] u
      }
      else if mode = 1 then do {
        u \<leftarrow> fold_opt clear_row [0..<cur_row t] t;
        erase_line_part 0 (cur_col u + 1) u
      }
      else do {
        u \<leftarrow> fold_opt clear_row [0..<t_rows t] t;
        Some (u\<lparr>t_scrollback := sb_clear (t_scrollback u), t_cursor := cursor_default\<rparr>)
      })"

definition erase_line :: "u16 \<Rightarrow> terminal \<Rightarrow> terminal option" where
  "erase_line mode t =
     (if mode = 0 then erase_line_part (cur_col t) (t_cols t) t
      else if mode = 1 then erase_line_part 0 (cur_col t + 1) t
      else erase_line_part 0 (t_cols t) t)"

definition insert_line_once :: "terminal \<Rightarrow> terminal option" where
  "insert_line_once t = do {
     s \<leftarrow> (if t_region_bottom t \<le> length (t_screen t)
          then map_option snd (vec_remove (t_screen t) (t_region_bottom t - 1))
          else Some (t_screen t));
     s' \<leftarrow> vec_insert s (cur_row t) (row_blank (t_cols t));
     Some (t\<lparr>t_screen := s'\<rparr>)
   }"

definition insert_lines :: "nat \<Rightarrow> terminal \<Rightarrow> terminal option" where
  "insert_lines count t =
     (if cur_row t < t_region_top t \<or> cur_row t \<ge> t_region_bottom t then Some t
      else do {
        u \<leftarrow> repeat_opt count insert_line_once t;
        Some (set_col 0 u)
      })"

definition delete_line_once :: "terminal \<Rightarrow> terminal option" where
  "delete_line_once t = do {
     (_, s) \<leftarrow> vec_remove (t_screen t) (cur_row t);
     s' \<leftarrow> vec_insert s (t_region_bottom t - 1) (row_blank (t_cols t));
     Some (t\<lparr>t_screen := s'\<rparr>)
   }"

definition delete_lines :: "nat \<Rightarrow> terminal \<Rightarrow> terminal option" where
  "delete_lines count t =
     (if cur_row t < t_region_top t \<or> cur_row t \<ge> t_region_bottom t then Some t
      else do {
        u \<leftarrow> repeat_opt count delete_line_once t;
        Some (set_col 0 u)
      })"

definition delete_chars :: "nat \<Rightarrow> terminal \<Rightarrow> terminal option" where
  "delete_chars count t =
     repeat_opt count (with_row (cur_row t) (\<lambda>r. do {
         cs \<leftarrow> (if cur_col t < length (r_cells r)
               then map_option snd (vec_remove (r_cells r) (cur_col t))
               else Some (r_cells r));
         Some (r\<lparr>r_cells := cs @ [cell_empty]\<rparr>)
       })) t"

definition insert_chars :: "nat \<Rightarrow> terminal \<Rightarrow> terminal option" where
  "insert_chars count t =
     repeat_opt count (with_row (cur_row t) (\<lambda>r. do {
         cs \<leftarrow> vec_insert (r_cells r) (min (cur_col t) (length (r_cells r) - 1)) cell_empty;
         Some (r\<lparr>r_cells := take (t_cols t) cs\<rparr>)
       })) t"

definition erase_chars :: "nat \<Rightarrow> terminal \<Rightarrow> terminal option" where
  "erase_chars count t =
     fold_opt (\<lambda>offset. let col = cur_col t + offset in
        if col < t_cols t then
          with_row (cur_row t) (\<lambda>r. do {
            cs \<leftarrow> vec_set (r_cells r) col (cell_new 32 (k_attrs (t_cursor t)));
            Some (r\<lparr>r_cells := cs\<rparr>)
          })
        else Some) [0..<count] t"

section \<open>Cursor movement\<close>

definition move_cursor_up :: "nat \<Rightarrow> terminal \<Rightarrow> terminal" where
  "move_cursor_up count t =
     (set_row (max (cur_row t - count) (t_region_top t)) t)\<lparr>t_wrap_pending := False\<rparr>"

definition move_cursor_down :: "nat \<Rightarrow> terminal \<Rightarrow> terminal" where
  "move_cursor_down count t =
     (set_row (min (cur_row t + count) (t_rows t - 1)) t)\<lparr>t_wrap_pending := False\<rparr>"

definition move_cursor_right :: "nat \<Rightarrow> terminal \<Rightarrow> terminal" where
  "move_cursor_right count t =
     (set_col (min (cur_col t + count) (t_cols t - 1)) t)\<lparr>t_wrap_pending := False\<rparr>"

definition move_cursor_left :: "nat \<Rightarrow> terminal \<Rightarrow> terminal" where
  "move_cursor_left count t = (set_col (cur_col t - count) t)\<lparr>t_wrap_pending := False\<rparr>"

definition clamp_row :: "terminal \<Rightarrow> nat \<Rightarrow> nat" where
  "clamp_row t row =
     (if m_origin (t_modes t) then min (row + t_region_top t) (t_rows t - 1)
      else min row (t_rows t - 1))"

definition save_cursor :: "terminal \<Rightarrow> terminal" where
  "save_cursor t = t\<lparr>t_saved_cursor := Some (t_cursor t)\<rparr>"

definition restore_cursor :: "terminal \<Rightarrow> terminal" where
  "restore_cursor t =
     (case t_saved_cursor t of Some c \<Rightarrow> t\<lparr>t_cursor := c\<rparr> | None \<Rightarrow> t)"

section \<open>Select graphic rendition\<close>

text \<open>The returned index is the \<open>&mut index\<close> of the source, also on the early \<open>None\<close> returns.\<close>

definition take_extended_color :: "u16 list \<Rightarrow> nat \<Rightarrow> color option \<times> nat" where
  "take_extended_color params index =
     (case vec_get params index of
        None \<Rightarrow> (None, index)
      | Some kind \<Rightarrow>
          (let i = index + 1 in
           if kind = 5 then
             (case vec_get params i of
                None \<Rightarrow> (None, i)
              | Some v \<Rightarrow> (Some (Indexed (ucast v)), i + 1))
           else if kind = 2 then
             (case (vec_get params i, vec_get params (i + 1), vec_get params (i + 2)) of
                (Some r, Some g, Some b) \<Rightarrow> (Some (Rgb (ucast r) (ucast g) (ucast b)), i + 3)
              | _ \<Rightarrow> (None, i))
           else (None, i)))"

definition sgr_simple :: "u16 \<Rightarrow> attrs \<Rightarrow> attrs" where
  "sgr_simple code a =
     (if code = 0 then attrs_plain
      else if code = 1 then a\<lparr>a_bold := True\<rparr>
      else if code = 2 then a\<lparr>a_dim := True\<rparr>
      else if code = 3 then a\<lparr>a_italic := True\<rparr>
      else if code = 4 then a\<lparr>a_underline := True\<rparr>
      else if code = 5 \<or> code = 6 then a\<lparr>a_blink := True\<rparr>
      else if code = 7 then a\<lparr>a_inverse := True\<rparr>
      else if code = 8 then a\<lparr>a_hidden := True\<rparr>
      else if code = 9 then a\<lparr>a_strikethrough := True\<rparr>
      else if code = 21 then a\<lparr>a_bold := False\<rparr>
      else if code = 22 then a\<lparr>a_bold := False, a_dim := False\<rparr>
      else if code = 23 then a\<lparr>a_italic := False\<rparr>
      else if code = 24 then a\<lparr>a_underline := False\<rparr>
      else if code = 25 then a\<lparr>a_blink := False\<rparr>
      else if code = 27 then a\<lparr>a_inverse := False\<rparr>
      else if code = 28 then a\<lparr>a_hidden := False\<rparr>
      else if code = 29 then a\<lparr>a_strikethrough := False\<rparr>
      else if 30 \<le> code \<and> code \<le> 37 then a\<lparr>a_fg := color_normal (ucast (code - 30))\<rparr>
      else if code = 39 then a\<lparr>a_fg := Default\<rparr>
      else if 40 \<le> code \<and> code \<le> 47 then a\<lparr>a_bg := color_normal (ucast (code - 40))\<rparr>
      else if code = 49 then a\<lparr>a_bg := Default\<rparr>
      else if 90 \<le> code \<and> code \<le> 97 then a\<lparr>a_fg := color_bright (ucast (code - 90))\<rparr>
      else if 100 \<le> code \<and> code \<le> 107 then a\<lparr>a_bg := color_bright (ucast (code - 100))\<rparr>
      else a)"

lemma take_extended_color_mono: "index \<le> snd (take_extended_color params index)"
  by (simp add: take_extended_color_def Let_def split: option.split)

lemma take_extended_color_le: "(c, i') = take_extended_color params i \<Longrightarrow> i \<le> i'"
  by (metis take_extended_color_mono snd_conv)

function sgr_loop :: "u16 list \<Rightarrow> nat \<Rightarrow> attrs \<Rightarrow> attrs" where
  "sgr_loop params index a =
     (if index < length params then
        (let code = params ! index; i = index + 1 in
         if code = 38 then
           (let (c, i') = take_extended_color params i in
            sgr_loop params i' (case c of Some v \<Rightarrow> a\<lparr>a_fg := v\<rparr> | None \<Rightarrow> a))
         else if code = 48 then
           (let (c, i') = take_extended_color params i in
            sgr_loop params i' (case c of Some v \<Rightarrow> a\<lparr>a_bg := v\<rparr> | None \<Rightarrow> a))
         else sgr_loop params i (sgr_simple code a))
      else a)"
  by pat_completeness auto
termination
  by (relation "measure (\<lambda>(params, index, a). length params - index)")
    (auto dest: take_extended_color_le)

declare sgr_loop.simps [simp del]

definition sgr :: "u16 list \<Rightarrow> terminal \<Rightarrow> terminal" where
  "sgr params t =
     t\<lparr>t_cursor := (t_cursor t)\<lparr>k_attrs :=
        (if params = [] then attrs_plain else sgr_loop params 0 (k_attrs (t_cursor t)))\<rparr>\<rparr>"

section \<open>Modes and sequences\<close>

definition switch_screen :: "bool \<Rightarrow> terminal \<Rightarrow> terminal" where
  "switch_screen alternate t =
     (if alternate = m_alternate_screen (t_modes t) then t
      else
        (let u =
           (if alternate then
              t\<lparr>t_saved_screen := Some (t_screen t),
                t_screen := replicate (t_rows t) (row_blank (t_cols t)),
                t_saved_cursor := Some (t_cursor t), t_cursor := cursor_default\<rparr>
            else
              (case t_saved_screen t of
                 Some screen \<Rightarrow> restore_cursor (t\<lparr>t_saved_screen := None, t_screen := screen\<rparr>)
               | None \<Rightarrow> t))
         in u\<lparr>t_modes := (t_modes u)\<lparr>m_alternate_screen := alternate\<rparr>, t_dirty := True\<rparr>))"

definition set_private_mode :: "u16 \<Rightarrow> bool \<Rightarrow> terminal \<Rightarrow> terminal" where
  "set_private_mode mode enable t =
     (let u =
        (if mode = 1 then t\<lparr>t_modes := (t_modes t)\<lparr>m_application_cursor_keys := enable\<rparr>\<rparr>
         else if mode = 4 then t\<lparr>t_modes := (t_modes t)\<lparr>m_insert := enable\<rparr>\<rparr>
         else if mode = 6 then
           set_col 0 (set_row (if enable then t_region_top t else 0)
             (t\<lparr>t_modes := (t_modes t)\<lparr>m_origin := enable\<rparr>\<rparr>))
         else if mode = 7 then t\<lparr>t_modes := (t_modes t)\<lparr>m_auto_wrap := enable\<rparr>\<rparr>
         else if mode = 25 then t\<lparr>t_modes := (t_modes t)\<lparr>m_cursor_visible := enable\<rparr>\<rparr>
         else if mode = 47 \<or> mode = 1047 \<or> mode = 1049 then switch_screen enable t
         else if mode = 1048 then (if enable then save_cursor t else restore_cursor t)
         else if mode = 2004 then t\<lparr>t_modes := (t_modes t)\<lparr>m_bracketed_paste := enable\<rparr>\<rparr>
         else t)
      in u\<lparr>t_dirty := True\<rparr>)"

definition param :: "u16 list \<Rightarrow> nat \<Rightarrow> u16 \<Rightarrow> u16" where
  "param params index dflt =
     (case vec_get params index of
        None \<Rightarrow> dflt
      | Some v \<Rightarrow> if v = 0 then dflt else v)"

definition set_region :: "u16 list \<Rightarrow> terminal \<Rightarrow> terminal" where
  "set_region params t =
     (let hi = unat (param params 0 1) - 1;
          bottom = unat (param params 1 (word_of_nat (t_rows t))) in
      if hi < bottom \<and> bottom \<le> t_rows t then
        set_col 0 (set_row (if m_origin (t_modes t) then hi else 0)
          (t\<lparr>t_region_top := hi, t_region_bottom := bottom\<rparr>))
      else t)"

definition csi_action :: "u16 list \<Rightarrow> u8 \<Rightarrow> terminal \<Rightarrow> terminal option" where
  "csi_action params act t =
     (let count = unat (param params 0 1) in
      if act = 0x41 then Some (move_cursor_up count t)
      else if act = 0x42 \<or> act = 0x65 then Some (move_cursor_down count t)
      else if act = 0x43 \<or> act = 0x61 then Some (move_cursor_right count t)
      else if act = 0x44 then Some (move_cursor_left count t)
      else if act = 0x45 then Some (set_col 0 (move_cursor_down count t))
      else if act = 0x46 then Some (set_col 0 (move_cursor_up count t))
      else if act = 0x47 \<or> act = 0x60 then Some (set_col (min (count - 1) (t_cols t - 1)) t)
      else if act = 0x48 \<or> act = 0x66 then
        (let row = count - 1; col = unat (param params 1 1) - 1 in
         Some ((set_col (min col (t_cols t - 1)) (set_row (clamp_row t row) t))
                 \<lparr>t_wrap_pending := False\<rparr>))
      else if act = 0x64 then Some (set_row (clamp_row t (count - 1)) t)
      else if act = 0x4A then erase_display (param params 0 0) t
      else if act = 0x4B then erase_line (param params 0 0) t
      else if act = 0x4C then insert_lines count t
      else if act = 0x4D then delete_lines count t
      else if act = 0x50 then delete_chars count t
      else if act = 0x40 then insert_chars count t
      else if act = 0x58 then erase_chars count t
      else if act = 0x53 then scroll_up count t
      else if act = 0x54 then scroll_down count t
      else if act = 0x72 then Some (set_region params t)
      else if act = 0x73 then Some (save_cursor t)
      else if act = 0x75 then Some (restore_cursor t)
      else if act = 0x6D then Some (sgr params t)
      else if act = 0x68 then
        Some (if param params 0 0 = 4 then t\<lparr>t_modes := (t_modes t)\<lparr>m_insert := True\<rparr>\<rparr> else t)
      else if act = 0x6C then
        Some (if param params 0 0 = 4 then t\<lparr>t_modes := (t_modes t)\<lparr>m_insert := False\<rparr>\<rparr> else t)
      else Some t)"

definition csi :: "u16 list \<Rightarrow> u8 list \<Rightarrow> u8 \<Rightarrow> terminal \<Rightarrow> terminal option" where
  "csi params intermediates act t =
     (if 0x3F \<in> set intermediates then
        Some (set_private_mode (param params 0 0) (act = 0x68) t)
      else do {
        u \<leftarrow> csi_action params act t;
        Some (u\<lparr>t_dirty := True\<rparr>)
      })"

definition esc :: "u8 list \<Rightarrow> u8 \<Rightarrow> terminal \<Rightarrow> terminal option" where
  "esc intermediates act t = do {
     u \<leftarrow> (if act = 0x37 then Some (save_cursor t)
          else if act = 0x38 then Some (restore_cursor t)
          else if act = 0x44 then line_feed t
          else if act = 0x4D then reverse_index t
          else if act = 0x45 then line_feed (set_col 0 t)
          else if act = 0x63 then Some (term_new (t_cols t) (t_rows t))
          else if act = 0x3D then
            Some (t\<lparr>t_modes := (t_modes t)\<lparr>m_application_keypad := True\<rparr>\<rparr>)
          else if act = 0x3E then
            Some (t\<lparr>t_modes := (t_modes t)\<lparr>m_application_keypad := False\<rparr>\<rparr>)
          else Some t);
     Some (u\<lparr>t_dirty := True\<rparr>)
   }"

definition osc :: "ustring list \<Rightarrow> terminal \<Rightarrow> terminal" where
  "osc params t =
     (case params of
        [] \<Rightarrow> t
      | kind # _ \<Rightarrow>
          (if kind = lit ''0'' \<or> kind = lit ''1'' \<or> kind = lit ''2'' then
             (case vec_get params 1 of Some title \<Rightarrow> t\<lparr>t_title := title\<rparr> | None \<Rightarrow> t)
           else t))"

fun term_apply :: "action \<Rightarrow> terminal \<Rightarrow> terminal option" where
  "term_apply (Print ch) t = term_print ch t"
| "term_apply (Execute code) t = execute code t"
| "term_apply (Csi params intermediates ign act) t =
     (if ign then Some t else csi params intermediates act t)"
| "term_apply (Esc intermediates ign act) t =
     (if ign then Some t else esc intermediates act t)"
| "term_apply (Osc params bell) t = Some (osc params t)"
| "term_apply (DcsStart params intermediates act) t = Some t"
| "term_apply (DcsData data) t = Some t"
| "term_apply DcsEnd t = Some t"

section \<open>Public interface\<close>

text \<open>\<open>Terminal::advance\<close>: the whole chunk is parsed first, then the actions are applied.\<close>

definition term_advance :: "u8 list \<Rightarrow> terminal \<Rightarrow> terminal option" where
  "term_advance bs t = do {
     (p, acts) \<leftarrow> parser_advance (t_parser t) bs;
     fold_opt term_apply acts (t\<lparr>t_parser := p\<rparr>)
   }"

definition advance_str :: "ustring \<Rightarrow> terminal \<Rightarrow> terminal option" where
  "advance_str s t = term_advance (as_bytes s) t"

definition term_snapshot :: "terminal \<Rightarrow> snapshot \<times> terminal" where
  "term_snapshot t =
     (\<lparr>s_rows = t_screen t, s_cursor = t_cursor t,
       s_cursor_visible = (m_cursor_visible (t_modes t) \<and> \<not> m_alternate_screen (t_modes t)),
       s_title = t_title t, s_scrollback_lines = sb_len (t_scrollback t), s_dirty = t_dirty t\<rparr>,
      t\<lparr>t_dirty := False\<rparr>)"

text \<open>\<open>Vec::drain(0..n)\<close> panics when \<open>n\<close> exceeds the length.\<close>

definition term_resize :: "nat \<Rightarrow> nat \<Rightarrow> terminal \<Rightarrow> terminal option" where
  "term_resize cols0 rows0 t =
     (let cols = clamp cols0 1 500; rows = clamp rows0 1 200 in
      if cols = t_cols t \<and> rows = t_rows t then Some t
      else
        (let screen = map (\<lambda>r. r\<lparr>r_cells := vec_resize (r_cells r) cols cell_empty\<rparr>) (t_screen t) in
         do {
           (screen', back) \<leftarrow>
             (if rows > t_rows t then
                Some (vec_resize screen rows (row_blank cols), t_scrollback t)
              else
                (let removed = t_rows t - rows in
                 if removed \<le> length screen then
                   Some (drop removed screen, fold sb_push (take removed screen) (t_scrollback t))
                 else None));
           Some (t\<lparr>t_cols := cols, t_screen := screen', t_scrollback := back, t_rows := rows,
                   t_region_top := 0, t_region_bottom := rows,
                   t_cursor := (t_cursor t)\<lparr>k_row := min (cur_row t) (rows - 1),
                                              k_col := min (cur_col t) (cols - 1)\<rparr>,
                   t_dirty := True\<rparr>)
         }))"

definition term_clear_all :: "terminal \<Rightarrow> terminal" where
  "term_clear_all t =
     t\<lparr>t_screen := map (\<lambda>r. \<lparr>r_cells = map (\<lambda>_. cell_empty) (r_cells r), r_wrapped = False\<rparr>)
                     (t_screen t),
       t_scrollback := sb_clear (t_scrollback t), t_cursor := cursor_default, t_dirty := True\<rparr>"

definition term_reset_parser :: "terminal \<Rightarrow> terminal" where
  "term_reset_parser t = t\<lparr>t_parser := parser_reset (t_parser t), t_wrap_pending := False\<rparr>"

end
