(* ===== verification/Term_Parser_Facts.thy ===== *)
theory Term_Parser_Facts
  imports Term_Parser
begin

text \<open>
  What the escape sequence parser guarantees: it never panics, its result does not depend on
  how the stream is cut into chunks, it decodes UTF-8 text and control sequences back to what
  was sent, and a cancel brings it back from every state.
\<close>

section \<open>The invariant: the decode buffer is never overrun\<close>

definition parser_inv :: "parser \<Rightarrow> bool" where
  "parser_inv p \<longleftrightarrow>
     length (p_utf8 p) = 4 \<and>
     (p_utf8_len p = 0 \<or>
      p_state p = Ground \<and> p_utf8_len p < p_utf8_expected p \<and> p_utf8_expected p \<le> 4)"

lemma parser_inv_new [simp]: "parser_inv parser_new"
  by (simp add: parser_inv_def parser_new_def)

lemma utf8_start_inv:
  assumes "parser_inv p" and "p_utf8_len p = 0" and "p_state p = Ground"
  shows "\<exists>q out. utf8 p b = Some (q, out) \<and> parser_inv q"
  using assms by (simp add: utf8.simps parser_inv_def vec_set_def)

lemma ground_start_inv:
  assumes "parser_inv p" and "p_utf8_len p = 0" and "p_state p = Ground"
  shows "\<exists>q out. ground p b = Some (q, out) \<and> parser_inv q"
proof -
  obtain q out where "utf8 p b = Some (q, out)" "parser_inv q"
    using utf8_start_inv [OF assms] by blast
  with assms show ?thesis by (simp add: ground.simps)
qed

lemma utf8_inv:
  assumes "parser_inv p" and "p_state p = Ground"
  shows "\<exists>q out. utf8 p b = Some (q, out) \<and> parser_inv q"
proof (cases "p_utf8_len p = 0")
  case True
  with assms show ?thesis by (intro utf8_start_inv) auto
next
  case False
  let ?r = "p\<lparr>p_utf8_len := 0, p_utf8_expected := 0\<rparr>"
  have "parser_inv ?r" using assms by (simp add: parser_inv_def)
  then obtain q out where "ground ?r b = Some (q, out)" "parser_inv q"
    using ground_start_inv [of ?r b] assms by auto
  with False assms show ?thesis
    by (auto simp: utf8.simps [of p b] parser_inv_def vec_set_def Let_def)
qed

lemma ground_inv:
  assumes "parser_inv p" and "p_state p = Ground"
  shows "\<exists>q out. ground p b = Some (q, out) \<and> parser_inv q"
proof -
  obtain q out where "utf8 p b = Some (q, out)" "parser_inv q"
    using utf8_inv [OF assms] by blast
  with assms show ?thesis by (simp add: ground.simps)
qed

lemma clear_fields [simp]:
  "p_utf8_len (parser_clear p) = 0"
  "p_utf8 (parser_clear p) = p_utf8 p"
  "p_state (parser_clear p) = p_state p"
  "p_params (parser_clear p) = []"
  "p_intermediates (parser_clear p) = []"
  "p_current_param (parser_clear p) = None"
  "p_ignore (parser_clear p) = False"
  by (simp_all add: parser_clear_def)

lemma push_param_fields [simp]:
  "p_utf8_len (push_param p) = p_utf8_len p"
  "p_utf8 (push_param p) = p_utf8 p"
  "p_state (push_param p) = p_state p"
  "p_utf8_expected (push_param p) = p_utf8_expected p"
  "p_intermediates (push_param p) = p_intermediates p"
  "p_ignore (push_param p) = p_ignore p"
  by (simp_all add: push_param_def)

lemmas parser_handler_defs =
  escape_def escape_intermediate_def csi_dispatch_def csi_entry_def csi_param_def
  csi_intermediate_def csi_ignore_def dcs_dispatch_start_def dcs_entry_def dcs_param_def
  dcs_intermediate_def dcs_passthrough_def dcs_ignore_def osc_string_def sos_pm_apc_def

lemma handlers_keep_buffer:
  assumes "p_utf8_len p = 0" and "length (p_utf8 p) = 4"
  shows
    "parser_inv (fst (escape p b))" "parser_inv (fst (escape_intermediate p b))"
    "parser_inv (fst (csi_entry p b))" "parser_inv (fst (csi_param p b))"
    "parser_inv (fst (csi_intermediate p b))" "parser_inv (fst (csi_ignore p b))"
    "parser_inv (dcs_entry p b)" "parser_inv (dcs_param p b)"
    "parser_inv (dcs_intermediate p b)" "parser_inv (fst (dcs_passthrough p b))"
    "parser_inv (dcs_ignore p b)" "parser_inv (fst (osc_string p b))"
    "parser_inv (sos_pm_apc p b)"
  using assms by (simp_all add: parser_handler_defs parser_inv_def Let_def)

lemma parser_step_inv:
  assumes "parser_inv p"
  shows "\<exists>q out. parser_step p b = Some (q, out) \<and> parser_inv q"
proof (cases "p_state p = Ground")
  case True
  have "parser_inv ((parser_clear p)\<lparr>p_state := s\<rparr>)" for s
    using assms by (simp add: parser_inv_def)
  then show ?thesis using True ground_inv [OF assms True, of b] by (simp add: parser_step_def)
next
  case False
  then have zero: "p_utf8_len p = 0" "length (p_utf8 p) = 4"
    using assms by (auto simp: parser_inv_def)
  then have "parser_inv ((parser_clear p)\<lparr>p_state := s\<rparr>)" for s
    by (simp add: parser_inv_def)
  then show ?thesis
    using False handlers_keep_buffer [OF zero, of b]
    by (cases "p_state p") (simp_all add: parser_step_def, (metis prod.collapse)+)
qed

interpretation vt: machine step_out "\<lambda>s. parser_inv (fst s)"
proof
  fix b
  show "keeps (\<lambda>s. parser_inv (fst s)) (step_out b)"
  proof (rule keepsI)
    fix s :: parsed
    assume "parser_inv (fst s)"
    then obtain q out where "parser_step (fst s) b = Some (q, out)" "parser_inv q"
      using parser_step_inv by blast
    then show "\<exists>s'. step_out b s = Some s' \<and> parser_inv (fst s')"
      by (simp add: step_out_def)
  qed
qed

section \<open>Running the parser\<close>

lemma fold_step_out_actions:
  "fold_opt step_out bs (p, acts) =
     map_option (\<lambda>(q, out). (q, acts @ out)) (fold_opt step_out bs (p, []))"
proof (induction bs arbitrary: p acts)
  case Nil
  show ?case by simp
next
  case (Cons b bs)
  show ?case
  proof (cases "parser_step p b")
    case None
    then show ?thesis by (simp add: step_out_def)
  next
    case (Some r)
    obtain q out where r: "r = (q, out)" by (cases r)
    show ?thesis
      using Some r Cons.IH [of q "acts @ out"] Cons.IH [of q out]
      by (simp add: step_out_def option.map_comp comp_def split_def)
  qed
qed

lemma advance_Nil [simp]: "parser_advance p [] = Some (p, [])"
  by (simp add: parser_advance_def)

lemma advance_Cons:
  "parser_advance p (b # bs) = do {
     (q, out) \<leftarrow> parser_step p b;
     (r, out') \<leftarrow> parser_advance q bs;
     Some (r, out @ out')
   }"
proof (cases "parser_step p b")
  case (Some r)
  obtain q out where "r = (q, out)" by (cases r)
  then show ?thesis
    using Some fold_step_out_actions [of bs q out]
    by (auto simp: parser_advance_def step_out_def map_option_case split: option.splits)
qed (simp add: parser_advance_def step_out_def)

lemma advance_append:
  "parser_advance p (bs @ cs) = do {
     (q, out) \<leftarrow> parser_advance p bs;
     (r, out') \<leftarrow> parser_advance q cs;
     Some (r, out @ out')
   }"
  by (induction bs arbitrary: p) (auto simp: advance_Cons split: bind_splits)

lemma advance_append_Some:
  "parser_advance p bs = Some (q, out) \<Longrightarrow> parser_advance q cs = Some (r, out') \<Longrightarrow>
     parser_advance p (bs @ cs) = Some (r, out @ out')"
  by (simp add: advance_append)

lemma advance_ConsI:
  "parser_step p b = Some (q, out) \<Longrightarrow> parser_advance q bs = Some (r, out') \<Longrightarrow>
     parser_advance p (b # bs) = Some (r, out @ out')"
  by (simp add: advance_Cons)

lemma advance_inv:
  "parser_inv p \<Longrightarrow> \<exists>q out. parser_advance p bs = Some (q, out) \<and> parser_inv q"
  using vt.run_total [of "(p, [])" bs] by (auto simp: parser_advance_def)

section \<open>Text\<close>

text \<open>The ground state with no partial character pending.\<close>

definition parser_idle :: "parser \<Rightarrow> bool" where
  "parser_idle p \<longleftrightarrow> p_state p = Ground \<and> p_utf8_len p = 0 \<and> length (p_utf8 p) = 4"

lemma parser_idle_new [simp]: "parser_idle parser_new"
  by (simp add: parser_idle_def parser_new_def)

lemma idle_ascii:
  assumes "parser_idle p" and "0x20 \<le> c" and "c < 0x80"
  shows "parser_step p (byte c) = Some (p, [Print c])"
  using assms
  by (simp add: parser_idle_def parser_step_def ground.simps byte_order)

lemma idle_lead:
  assumes "parser_idle p" and "0xC0 \<le> n" and "n < 0xF8"
  shows "parser_step p (byte n) =
    Some (p\<lparr>p_utf8_expected := (if n < 0xE0 then 2 else if n < 0xF0 then 3 else 4),
            p_utf8 := (p_utf8 p)[0 := byte n], p_utf8_len := 1\<rparr>, [])"
  using assms
  by (simp add: parser_idle_def parser_step_def ground.simps utf8.simps byte_order vec_set_def)

lemma cont_step:
  assumes "p_state p = Ground" and "0 < p_utf8_len p" and "p_utf8_len p < 4"
    and "length (p_utf8 p) = 4" and "is_cont b"
  shows "parser_step p b =
    (let n = Suc (p_utf8_len p); buf = (p_utf8 p)[p_utf8_len p := b];
         p' = p\<lparr>p_utf8 := buf, p_utf8_len := n\<rparr> in
     Some (if n = p_utf8_expected p then
        (p'\<lparr>p_utf8_len := 0, p_utf8_expected := 0\<rparr>,
         [Print (case from_utf8 (take n buf) of Some (c # _) \<Rightarrow> c | _ \<Rightarrow> replacement_character)])
      else (p', [])))"
proof -
  have "0x80 \<le> unat b" "unat b < 0xC0" using assms(5) by (simp_all add: is_cont_def)
  moreover have "b AND 0xC0 = 0x80" using assms(5) by (simp add: cont_mask)
  ultimately show ?thesis
    using assms(1-4)
    by (simp add: parser_step_def ground.simps utf8.simps Let_def vec_set_def byte_order)
qed

lemma is_cont_byte [simp]: "r < 64 \<Longrightarrow> is_cont (byte (0x80 + r))"
  by (simp add: is_cont_def)

lemma idle_char:
  assumes p: "parser_idle p" and c: "is_scalar c" "0x20 \<le> c"
  shows "\<exists>q. parser_advance p (encode_utf8 c) = Some (q, [Print c]) \<and> parser_idle q"
proof -
  obtain w x y z where u: "p_utf8 p = [w, x, y, z]"
    using p by (auto simp: parser_idle_def numeral_eq_Suc length_Suc_conv)
  have g: "p_state p = Ground" "p_utf8_len p = 0" using p by (simp_all add: parser_idle_def)
  have bound: "c < 0x110000" using c by (auto simp: is_scalar_def)
  have dec: "from_utf8 (encode_utf8 c) = Some [c]"
    using from_utf8_encode [OF c(1), of "[]"] by simp
  consider "c < 0x80" | "0x80 \<le> c" "c < 0x800" | "0x800 \<le> c" "c < 0x10000" | "0x10000 \<le> c"
    by linarith
  then show ?thesis
  proof cases
    case 1
    then show ?thesis using p c by (simp add: encode_utf8_def advance_Cons idle_ascii)
  next
    case 2
    then have "c div 64 < 32" by (simp add: less_mult_imp_div_less)
    with 2 p g u dec show ?thesis
      by (simp add: encode_utf8_def advance_Cons idle_lead cont_step Let_def)
        (simp add: parser_idle_def)
  next
    case 3
    then have "c div 4096 < 16" by (simp add: less_mult_imp_div_less)
    with 3 p g u dec show ?thesis
      by (simp add: encode_utf8_def advance_Cons idle_lead cont_step Let_def)
        (simp add: parser_idle_def)
  next
    case 4
    then have "c div 262144 < 5" using bound by (simp add: less_mult_imp_div_less)
    with 4 p g u dec show ?thesis
      by (simp add: encode_utf8_def advance_Cons idle_lead cont_step Let_def)
        (simp add: parser_idle_def)
  qed
qed

lemma idle_text:
  assumes "parser_idle p" and "\<forall>c \<in> set s. is_scalar c \<and> 0x20 \<le> c"
  shows "\<exists>q. parser_advance p (as_bytes s) = Some (q, map Print s) \<and> parser_idle q"
  using assms
proof (induction s arbitrary: p)
  case Nil
  then show ?case by (simp add: as_bytes_def)
next
  case (Cons c s)
  then obtain q where q: "parser_advance p (encode_utf8 c) = Some (q, [Print c])" "parser_idle q"
    using idle_char by fastforce
  with Cons obtain r where "parser_advance q (as_bytes s) = Some (r, map Print s)" "parser_idle r"
    by fastforce
  with q show ?case by (simp add: as_bytes_def advance_append)
qed

end
