(* ===== verification/Term_Screen_Facts.thy ===== *)
theory Term_Screen_Facts
  imports Term_Screen Term_Parser_Facts
begin

text \<open>
  The invariant of the terminal (sizes within bounds, a rectangular enough screen, cursors and
  scroll region inside it, saved state that still fits, a bounded scrollback) and one
  preservation lemma per operation: none of them panics on a state that satisfies it.
\<close>

section \<open>The invariant\<close>

definition rows_wf :: "nat \<Rightarrow> nat \<Rightarrow> row list \<Rightarrow> bool" where
  "rows_wf rows cols s \<longleftrightarrow> length s = rows \<and> (\<forall>r \<in> set s. cols \<le> length (r_cells r))"

definition cursor_wf :: "nat \<Rightarrow> nat \<Rightarrow> cursor \<Rightarrow> bool" where
  "cursor_wf rows cols c \<longleftrightarrow> k_row c < rows \<and> k_col c \<le> cols"

definition back_wf :: "scrollback \<Rightarrow> bool" where
  "back_wf b \<longleftrightarrow> sb_inv b \<and> sb_limit b = default_scrollback"

definition size_wf :: "nat \<Rightarrow> nat \<Rightarrow> bool" where
  "size_wf rows cols \<longleftrightarrow> 1 \<le> cols \<and> cols \<le> 500 \<and> 1 \<le> rows \<and> rows \<le> 200"

text \<open>Everything except the state saved by \<open>DECSC\<close> and by the alternate screen.\<close>

definition live_wf :: "terminal \<Rightarrow> bool" where
  "live_wf t \<longleftrightarrow>
     size_wf (t_rows t) (t_cols t) \<and>
     rows_wf (t_rows t) (t_cols t) (t_screen t) \<and>
     cursor_wf (t_rows t) (t_cols t) (t_cursor t) \<and>
     t_region_top t < t_region_bottom t \<and> t_region_bottom t \<le> t_rows t \<and>
     back_wf (t_scrollback t) \<and> parser_inv (t_parser t)"

definition saved_wf :: "terminal \<Rightarrow> bool" where
  "saved_wf t \<longleftrightarrow>
     pred_option (rows_wf (t_rows t) (t_cols t)) (t_saved_screen t) \<and>
     pred_option (cursor_wf (t_rows t) (t_cols t)) (t_saved_cursor t)"

definition term_wf :: "terminal \<Rightarrow> bool" where
  "term_wf t \<longleftrightarrow> live_wf t \<and> saved_wf t"

lemmas term_wf_defs = term_wf_def live_wf_def saved_wf_def

lemma clamp_bounds: "lo \<le> hi \<Longrightarrow> lo \<le> clamp n lo hi \<and> clamp n lo hi \<le> hi"
  by (simp add: clamp_def)

lemma size_wf_clamp [simp]: "size_wf (clamp r 1 200) (clamp c 1 500)"
  by (simp add: size_wf_def clamp_def)

lemma rows_wf_blank [simp]: "rows_wf n c (replicate n (row_blank c))"
  by (simp add: rows_wf_def)

lemma cursor_wf_default [simp]: "size_wf rows cols \<Longrightarrow> cursor_wf rows cols cursor_default"
  by (simp add: cursor_wf_def cursor_default_def size_wf_def)

lemma back_wf_clear [simp]: "back_wf b \<Longrightarrow> back_wf (sb_clear b)"
  by (simp add: back_wf_def sb_inv_def sb_clear_def)

lemma back_wf_push [simp]: "back_wf b \<Longrightarrow> back_wf (sb_push r b)"
  by (simp add: back_wf_def)

lemma back_wf_fold: "back_wf b \<Longrightarrow> back_wf (fold sb_push rs b)"
  by (simp add: back_wf_def sb.inv_fold sb.capacity_fold)

lemma term_wf_new: "term_wf (term_new cols rows)"
  using size_wf_clamp [of rows cols]
  by (simp add: term_wf_defs term_new_def Let_def back_wf_def default_scrollback_def sb_new_def
      sb_inv_def) (simp add: size_wf_def)

lemma term_wf_dirty [simp]: "term_wf (t\<lparr>t_dirty := d\<rparr>) = term_wf t"
  by (simp add: term_wf_defs)

lemma term_wf_wrap [simp]: "term_wf (t\<lparr>t_wrap_pending := w\<rparr>) = term_wf t"
  by (simp add: term_wf_defs)

lemma term_wf_title [simp]: "term_wf (t\<lparr>t_title := s\<rparr>) = term_wf t"
  by (simp add: term_wf_defs)

lemma term_wf_bell [simp]: "term_wf (t\<lparr>t_bell_count := n\<rparr>) = term_wf t"
  by (simp add: term_wf_defs)

lemma term_wf_modes [simp]: "term_wf (t\<lparr>t_modes := m\<rparr>) = term_wf t"
  by (simp add: term_wf_defs)

lemma term_wf_parser [simp]: "term_wf t \<Longrightarrow> parser_inv p \<Longrightarrow> term_wf (t\<lparr>t_parser := p\<rparr>)"
  by (simp add: term_wf_defs)

lemma term_wf_row [simp]: "term_wf t \<Longrightarrow> r < t_rows t \<Longrightarrow> term_wf (set_row r t)"
  by (simp add: term_wf_defs cursor_wf_def set_row_def)

lemma term_wf_col [simp]: "term_wf t \<Longrightarrow> c \<le> t_cols t \<Longrightarrow> term_wf (set_col c t)"
  by (simp add: term_wf_defs cursor_wf_def set_col_def)

lemma term_wf_cursor [simp]:
  "term_wf t \<Longrightarrow> cursor_wf (t_rows t) (t_cols t) c \<Longrightarrow> term_wf (t\<lparr>t_cursor := c\<rparr>)"
  by (simp add: term_wf_defs)

lemma term_wfD:
  assumes "term_wf t"
  shows "cur_row t < t_rows t" "cur_col t \<le> t_cols t" "1 \<le> t_cols t" "1 \<le> t_rows t"
    "length (t_screen t) = t_rows t" "t_region_top t < t_region_bottom t"
    "t_region_bottom t \<le> t_rows t" "t_cols t \<le> 500" "t_rows t \<le> 200"
    "size_wf (t_rows t) (t_cols t)" "cursor_wf (t_rows t) (t_cols t) (t_cursor t)"
    "rows_wf (t_rows t) (t_cols t) (t_screen t)" "back_wf (t_scrollback t)"
    "parser_inv (t_parser t)"
  using assms by (auto simp: term_wf_defs size_wf_def rows_wf_def cursor_wf_def cur_row_def cur_col_def)

lemma set_fields [simp]:
  "t_cols (set_row r t) = t_cols t" "t_rows (set_row r t) = t_rows t"
  "t_cols (set_col c t) = t_cols t" "t_rows (set_col c t) = t_rows t"
  "cur_row (set_row r t) = r" "cur_col (set_row r t) = cur_col t"
  "cur_row (set_col c t) = cur_row t" "cur_col (set_col c t) = c"
  "t_screen (set_row r t) = t_screen t" "t_screen (set_col c t) = t_screen t"
  "t_modes (set_row r t) = t_modes t" "t_modes (set_col c t) = t_modes t"
  "t_region_top (set_row r t) = t_region_top t" "t_region_top (set_col c t) = t_region_top t"
  "t_region_bottom (set_row r t) = t_region_bottom t"
  "t_region_bottom (set_col c t) = t_region_bottom t"
  by (simp_all add: set_row_def set_col_def cur_row_def cur_col_def)

section \<open>Operations that only change the screen contents\<close>

text \<open>\<open>u\<close> is \<open>t\<close> with another well formed screen and another bounded scrollback.\<close>

definition scr :: "terminal \<Rightarrow> terminal \<Rightarrow> bool" where
  "scr t u \<longleftrightarrow> (\<exists>s b. u = t\<lparr>t_screen := s, t_scrollback := b\<rparr>
                     \<and> rows_wf (t_rows t) (t_cols t) s \<and> back_wf b)"

lemma scr_refl: "term_wf t \<Longrightarrow> scr t t"
  unfolding scr_def by (rule exI [of _ "t_screen t"], rule exI [of _ "t_scrollback t"])
    (simp add: term_wfD)

lemma scr_wf: "scr t u \<Longrightarrow> term_wf t \<Longrightarrow> term_wf u"
  by (auto simp: scr_def term_wf_defs)

lemma scr_frame:
  assumes "scr t u"
  shows "t_cols u = t_cols t" "t_rows u = t_rows t" "t_cursor u = t_cursor t"
    "cur_row u = cur_row t" "cur_col u = cur_col t" "t_modes u = t_modes t"
    "t_region_top u = t_region_top t" "t_region_bottom u = t_region_bottom t"
    "t_saved_screen u = t_saved_screen t" "t_saved_cursor u = t_saved_cursor t"
    "t_wrap_pending u = t_wrap_pending t" "t_parser u = t_parser t"
    "t_title u = t_title t"
  using assms by (auto simp: scr_def cur_row_def cur_col_def)

lemma scr_screen:
  "scr t u \<Longrightarrow> length (t_screen u) = t_rows t"
  "scr t u \<Longrightarrow> r \<in> set (t_screen u) \<Longrightarrow> t_cols t \<le> length (r_cells r)"
  by (auto simp: scr_def rows_wf_def)

lemma scr_update_back:
  assumes "scr t u" and "rows_wf (t_rows t) (t_cols t) s" and "back_wf b"
  shows "scr t (u\<lparr>t_screen := s, t_scrollback := b\<rparr>)"
proof -
  obtain s0 b0 where "u = t\<lparr>t_screen := s0, t_scrollback := b0\<rparr>"
    using assms(1) by (auto simp: scr_def)
  then have "u\<lparr>t_screen := s, t_scrollback := b\<rparr> = t\<lparr>t_screen := s, t_scrollback := b\<rparr>" by simp
  with assms show ?thesis unfolding scr_def by blast
qed

lemma scr_update:
  assumes "scr t u" and "rows_wf (t_rows t) (t_cols t) s"
  shows "scr t (u\<lparr>t_screen := s\<rparr>)"
proof -
  have "back_wf (t_scrollback u)" using assms(1) by (auto simp: scr_def)
  from scr_update_back [OF assms this] show ?thesis by simp
qed

lemma rows_wf_update:
  "rows_wf n c s \<Longrightarrow> c \<le> length (r_cells r) \<Longrightarrow> rows_wf n c (s[i := r])"
  by (auto simp: rows_wf_def dest!: set_update_subset_insert [THEN subsetD])

text \<open>A line taken out at \<open>i\<close> and a blank one put in at \<open>j\<close>: the step of every scroll.\<close>

lemma move_line:
  assumes "rows_wf n c s" "i < n" "j < n"
  obtains s' s'' where "vec_remove s i = Some (s ! i, s')"
    and "vec_insert s' j (row_blank c) = Some s''" and "rows_wf n c s''"
proof -
  let ?s = "take i s @ drop (Suc i) s"
  have len: "length s = n" using assms by (simp add: rows_wf_def)
  have sub: "set ?s \<subseteq> set s" by (rule set_remove_nth)
  have "vec_remove s i = Some (s ! i, ?s)" using len assms(2) by (rule_tac vec_remove_Some) simp
  moreover have "vec_insert ?s j (row_blank c) = Some (take j ?s @ row_blank c # drop j ?s)"
    by (rule vec_insert_Some) (use len assms in simp)
  moreover have "rows_wf n c (take j ?s @ row_blank c # drop j ?s)"
    using assms sub len unfolding rows_wf_def set_insert_nth by auto
  ultimately show ?thesis by (rule that)
qed

lemma keeps_with_row [keeps_intros]:
  assumes "i < t_rows t"
    and "\<And>r. t_cols t \<le> length (r_cells r) \<Longrightarrow>
           \<exists>r'. f r = Some r' \<and> t_cols t \<le> length (r_cells r')"
  shows "keeps (scr t) (with_row i f)"
proof (rule keepsI)
  fix u assume u: "scr t u"
  then have i: "i < length (t_screen u)" using assms(1) by (simp add: scr_screen)
  then obtain r' where r': "f (t_screen u ! i) = Some r'" "t_cols t \<le> length (r_cells r')"
    using assms(2) scr_screen(2) [OF u] nth_mem by blast
  have "rows_wf (t_rows t) (t_cols t) (t_screen u)" using u by (auto simp: scr_def)
  then have "scr t (u\<lparr>t_screen := (t_screen u)[i := r']\<rparr>)"
    using u r'(2) by (intro scr_update rows_wf_update)
  with i r' show "\<exists>u'. with_row i f u = Some u' \<and> scr t u'"
    by (simp add: with_row_def vec_get_def)
qed

text \<open>What the four line moving steps need of a state reached from \<open>t\<close>.\<close>

lemma scr_rows: "scr t u \<Longrightarrow> rows_wf (t_rows t) (t_cols t) (t_screen u)"
  and scr_back: "scr t u \<Longrightarrow> back_wf (t_scrollback u)"
  by (auto simp: scr_def)

lemma scroll_up_once_keeps:
  assumes "term_wf t"
  shows "keeps (scr t) scroll_up_once"
proof (rule keepsI)
  fix u assume u: "scr t u"
  obtain s' s'' where s: "vec_remove (t_screen u) (t_region_top t) = Some (t_screen u ! t_region_top t, s')"
    "vec_insert s' (t_region_bottom t - 1) (row_blank (t_cols t)) = Some s''"
    "rows_wf (t_rows t) (t_cols t) s''"
    by (rule move_line [OF scr_rows [OF u], of "t_region_top t" "t_region_bottom t - 1"])
      (use term_wfD [OF assms] in auto)
  show "\<exists>u'. scroll_up_once u = Some u' \<and> scr t u'"
    unfolding scroll_up_once_def scr_frame [OF u]
    using s scr_update_back [OF u s(3)] scr_back [OF u] by (auto simp: Let_def)
qed

lemma scroll_down_once_keeps:
  assumes "term_wf t"
  shows "keeps (scr t) scroll_down_once"
proof (rule keepsI)
  fix u assume u: "scr t u"
  obtain s' s'' where s: "vec_remove (t_screen u) (t_region_bottom t - 1) = Some (t_screen u ! (t_region_bottom t - 1), s')"
    "vec_insert s' (t_region_top t) (row_blank (t_cols t)) = Some s''" "rows_wf (t_rows t) (t_cols t) s''"
    by (rule move_line [OF scr_rows [OF u], of "t_region_bottom t - 1" "t_region_top t"])
      (use term_wfD [OF assms] in auto)
  have "t_region_bottom t \<le> length (t_screen u)"
    using scr_screen(1) [OF u] term_wfD [OF assms] by simp
  then show "\<exists>u'. scroll_down_once u = Some u' \<and> scr t u'"
    unfolding scroll_down_once_def scr_frame [OF u]
    using s scr_update [OF u s(3)] by simp
qed

lemma insert_line_once_keeps:
  assumes "term_wf t"
  shows "keeps (scr t) insert_line_once"
proof (rule keepsI)
  fix u assume u: "scr t u"
  obtain s' s'' where s: "vec_remove (t_screen u) (t_region_bottom t - 1) = Some (t_screen u ! (t_region_bottom t - 1), s')"
    "vec_insert s' (cur_row t) (row_blank (t_cols t)) = Some s''" "rows_wf (t_rows t) (t_cols t) s''"
    by (rule move_line [OF scr_rows [OF u], of "t_region_bottom t - 1" "cur_row t"])
      (use term_wfD [OF assms] in auto)
  have "t_region_bottom t \<le> length (t_screen u)"
    using scr_screen(1) [OF u] term_wfD [OF assms] by simp
  then show "\<exists>u'. insert_line_once u = Some u' \<and> scr t u'"
    unfolding insert_line_once_def scr_frame [OF u]
    using s scr_update [OF u s(3)] by simp
qed

lemma delete_line_once_keeps:
  assumes "term_wf t"
  shows "keeps (scr t) delete_line_once"
proof (rule keepsI)
  fix u assume u: "scr t u"
  obtain s' s'' where s: "vec_remove (t_screen u) (cur_row t) = Some (t_screen u ! (cur_row t), s')"
    "vec_insert s' (t_region_bottom t - 1) (row_blank (t_cols t)) = Some s''" "rows_wf (t_rows t) (t_cols t) s''"
    by (rule move_line [OF scr_rows [OF u], of "cur_row t" "t_region_bottom t - 1"])
      (use term_wfD [OF assms] in auto)
  have "t_region_bottom t \<le> length (t_screen u)"
    using scr_screen(1) [OF u] term_wfD [OF assms] by simp
  then show "\<exists>u'. delete_line_once u = Some u' \<and> scr t u'"
    unfolding delete_line_once_def scr_frame [OF u]
    using s scr_update [OF u s(3)] by simp
qed

lemma keeps_run:
  assumes "keeps (scr t) f" and "term_wf t"
  shows "\<exists>u. f t = Some u \<and> scr t u \<and> term_wf u"
  using assms scr_refl [OF assms(2)] scr_wf by (blast dest: keepsD)

section \<open>Every operation keeps the invariant\<close>

text \<open>The outcome of an operation that did not panic and left a well formed terminal.\<close>

definition ok :: "terminal option \<Rightarrow> bool" where
  "ok r \<longleftrightarrow> (\<exists>u. r = Some u \<and> term_wf u)"

named_theorems ok_intros \<open>one rule per operation and per connective of the option monad\<close>

lemma ok_Some [ok_intros]: "term_wf u \<Longrightarrow> ok (Some u)"
  by (simp add: ok_def)

lemma ok_bind [ok_intros]: "ok m \<Longrightarrow> (\<And>u. term_wf u \<Longrightarrow> ok (f u)) \<Longrightarrow> ok (m \<bind> f)"
  by (auto simp: ok_def)

lemma ok_if [ok_intros]: "(b \<Longrightarrow> ok x) \<Longrightarrow> (\<not> b \<Longrightarrow> ok y) \<Longrightarrow> ok (if b then x else y)"
  by simp

lemma ok_scr: "keeps (scr t) f \<Longrightarrow> term_wf t \<Longrightarrow> ok (f t)"
  using keeps_run unfolding ok_def by blast

lemma keeps_ok: "keeps term_wf f \<longleftrightarrow> (\<forall>t. term_wf t \<longrightarrow> ok (f t))"
  by (simp add: keeps_def ok_def)

lemma term_wf_if: "(b \<Longrightarrow> term_wf t) \<Longrightarrow> (\<not> b \<Longrightarrow> term_wf u) \<Longrightarrow> term_wf (if b then t else u)"
  by simp

lemma scroll_up_ok [ok_intros]: "term_wf t \<Longrightarrow> ok (scroll_up n t)"
  unfolding scroll_up_def
  by (intro ok_bind ok_Some ok_scr keeps_repeat scroll_up_once_keeps) simp_all

lemma scroll_down_ok [ok_intros]: "term_wf t \<Longrightarrow> ok (scroll_down n t)"
  unfolding scroll_down_def
  by (intro ok_bind ok_Some ok_scr keeps_repeat scroll_down_once_keeps) simp_all

lemma line_feed_ok [ok_intros]: "term_wf t \<Longrightarrow> ok (line_feed t)"
  unfolding line_feed_def Let_def by (intro ok_intros) (simp_all add: cur_row_def)

lemma reverse_index_ok [ok_intros]: "term_wf t \<Longrightarrow> ok (reverse_index t)"
  unfolding reverse_index_def
  using term_wfD(1) [of t] by (intro ok_intros) (simp_all add: less_imp_diff_less)

text \<open>A row update that only makes rows longer, or writes inside them.\<close>

lemma with_row_ok:
  assumes "term_wf t" and "i < t_rows t"
    and "\<And>r. t_cols t \<le> length (r_cells r) \<Longrightarrow>
           \<exists>r'. f r = Some r' \<and> t_cols t \<le> length (r_cells r')"
  shows "ok (with_row i f t)"
  using assms by (intro ok_scr keeps_with_row)

lemma with_row_frame:
  "with_row i f t = Some u \<Longrightarrow> t_cols u = t_cols t \<and> t_rows u = t_rows t \<and> t_cursor u = t_cursor t
     \<and> t_modes u = t_modes t"
  by (auto simp: with_row_def split: bind_splits)

lemma put_char_ok [ok_intros]:
  assumes "term_wf t"
  shows "ok (put_char ch t)"
proof (cases "cur_col t \<ge> t_cols t")
  case True
  with assms show ?thesis by (simp add: put_char_def Let_def ok_def)
next
  case False
  let ?f = "\<lambda>r. do {
      cs \<leftarrow> vec_set (r_cells r) (cur_col t) (cell_new ch (k_attrs (t_cursor t)));
      cs' \<leftarrow> (if c_width (cell_new ch (k_attrs (t_cursor t))) = 2 \<and> cur_col t + 1 < t_cols t
             then vec_set cs (cur_col t + 1)
                    \<lparr>c_ch = 32, c_attrs = c_attrs (cell_new ch (k_attrs (t_cursor t))), c_width = 1\<rparr>
             else Some cs);
      Some (r\<lparr>r_cells := cs'\<rparr>)
    }"
  have "ok (with_row (cur_row t) ?f t)"
    by (rule with_row_ok) (use assms False term_wfD(1) in \<open>auto simp: vec_set_def\<close>)
  then obtain u where u: "with_row (cur_row t) ?f t = Some u" "term_wf u" by (auto simp: ok_def)
  have "t_cols u = t_cols t" using with_row_frame [OF u(1)] by simp
  moreover note u term_wfD(3) [OF assms] False
  ultimately show ?thesis
    by (simp add: put_char_def Let_def ok_def)
qed

lemma shift_right_keeps: "keeps (\<lambda>cs. n \<le> length cs) (shift_right_once n c)"
  by (rule keepsI) (auto simp: shift_right_once_def vec_insert_def)

lemma shift_right_row:
  assumes "n \<le> length (r_cells r)"
  shows "\<exists>r'. repeat_opt k (shift_right_once n c) (r_cells r)
              \<bind> (\<lambda>cs. Some (r\<lparr>r_cells := cs\<rparr>)) = Some r' \<and> n \<le> length (r_cells r')"
  using keepsD [OF keeps_repeat [OF shift_right_keeps] assms, of k c] by auto

lemma term_print_ok [ok_intros]:
  assumes "term_wf t"
  shows "ok (term_print ch t)"
proof -
  have wrap: "ok (if t_wrap_pending t then do {
      u \<leftarrow> line_feed t; Some ((set_col 0 u)\<lparr>t_wrap_pending := False\<rparr>) } else Some t)"
    by (intro ok_intros) (use assms in simp_all)
  have ins: "ok (with_row (cur_row u) (\<lambda>r. do {
      cs \<leftarrow> repeat_opt (if is_wide ch then 2 else 1) (shift_right_once (t_cols u) (cur_col u)) (r_cells r);
      Some (r\<lparr>r_cells := cs\<rparr>) }) u)" if "term_wf u" for u
    by (rule with_row_ok [OF that]) (use term_wfD(1) [OF that] in simp, rule shift_right_row)
  show ?thesis
    unfolding term_print_def
    by (intro ok_bind wrap ok_if ins ok_Some put_char_ok; assumption)
qed

lemma backspace_wf [simp]: "term_wf t \<Longrightarrow> term_wf (backspace t)"
  using term_wfD(2) [of t] by (simp add: backspace_def)

lemma term_tab_wf [simp]: "term_wf t \<Longrightarrow> term_wf (term_tab t)"
  using term_wfD(3) [of t] by (simp add: term_tab_def Let_def)

lemma execute_ok [ok_intros]: "term_wf t \<Longrightarrow> ok (execute code t)"
  unfolding execute_def by (intro ok_intros) simp_all

section \<open>Erasing and editing keep the invariant\<close>

text \<open>Writing a cell inside the row leaves its length.\<close>

lemma write_cell:
  "c < n \<Longrightarrow> n \<le> length (r_cells r) \<Longrightarrow>
     \<exists>r'. (vec_set (r_cells r) c x \<bind> (\<lambda>cs. Some (r\<lparr>r_cells := cs\<rparr>))) = Some r'
          \<and> n \<le> length (r_cells r')"
  by (simp add: vec_set_def)

lemma erase_line_part_scr:
  assumes "term_wf t"
  shows "keeps (scr t) (\<lambda>u. fold_opt (\<lambda>col. with_row (cur_row t) (\<lambda>r. do {
         cs \<leftarrow> vec_set (r_cells r) col (cell_new 32 (k_attrs (t_cursor t)));
         Some (r\<lparr>r_cells := cs\<rparr>)
       })) [min from (t_cols t)..<min until (t_cols t)] u)"
  by (intro keeps_fold keeps_with_row write_cell) (use term_wfD(1) [OF assms] in auto)

lemma erase_line_part_run:
  "term_wf t \<Longrightarrow> \<exists>u. erase_line_part from until t = Some u \<and> scr t u \<and> term_wf u"
  unfolding erase_line_part_def by (rule keeps_run [OF erase_line_part_scr])

lemma erase_line_part_ok [ok_intros]: "term_wf t \<Longrightarrow> ok (erase_line_part from until t)"
  using erase_line_part_run [of t "from" until] by (auto simp: ok_def)

lemma clear_rows_ok: "term_wf t \<Longrightarrow> \<forall>i \<in> set is. i < t_rows t \<Longrightarrow> ok (fold_opt clear_row is t)"
  unfolding clear_row_def by (intro ok_scr keeps_fold keeps_with_row) auto

lemma erase_display_ok [ok_intros]: "term_wf t \<Longrightarrow> ok (erase_display mode t)"
  unfolding erase_display_def
  by (intro ok_if ok_bind ok_Some erase_line_part_ok clear_rows_ok)
    (use term_wfD(1) in \<open>auto simp: term_wf_defs intro: less_trans\<close>)

lemma erase_line_ok [ok_intros]: "term_wf t \<Longrightarrow> ok (erase_line mode t)"
  unfolding erase_line_def by (intro ok_intros) simp_all

lemma insert_lines_ok [ok_intros]: "term_wf t \<Longrightarrow> ok (insert_lines n t)"
  unfolding insert_lines_def
  by (intro ok_if ok_bind ok_Some ok_scr keeps_repeat insert_line_once_keeps) simp_all

lemma delete_lines_ok [ok_intros]: "term_wf t \<Longrightarrow> ok (delete_lines n t)"
  unfolding delete_lines_def
  by (intro ok_if ok_bind ok_Some ok_scr keeps_repeat delete_line_once_keeps) simp_all

lemma delete_chars_ok [ok_intros]: "term_wf t \<Longrightarrow> ok (delete_chars n t)"
  unfolding delete_chars_def
  by (intro ok_scr keeps_repeat keeps_with_row) (auto simp: vec_remove_def dest: term_wfD)

lemma insert_chars_ok [ok_intros]: "term_wf t \<Longrightarrow> ok (insert_chars n t)"
  unfolding insert_chars_def
  by (intro ok_scr keeps_repeat keeps_with_row) (auto simp: vec_insert_def dest: term_wfD)

lemma erase_chars_ok [ok_intros]:
  assumes "term_wf t"
  shows "ok (erase_chars n t)"
proof -
  let ?f = "\<lambda>col. with_row (cur_row t) (\<lambda>r. do {
      cs \<leftarrow> vec_set (r_cells r) col (cell_new 32 (k_attrs (t_cursor t)));
      Some (r\<lparr>r_cells := cs\<rparr>) })"
  have "keeps (scr t) (if col < t_cols t then ?f col else Some)" for col
    using keeps_with_row [OF term_wfD(1) [OF assms] write_cell] by (auto simp: keeps_def)
  then show ?thesis
    unfolding erase_chars_def Let_def by (intro ok_scr keeps_fold assms)
qed

section \<open>Cursor, modes and sequences keep the invariant\<close>

lemma move_wf [simp]:
  assumes "term_wf t"
  shows "term_wf (move_cursor_up n t)" "term_wf (move_cursor_down n t)"
    "term_wf (move_cursor_left n t)" "term_wf (move_cursor_right n t)"
  using term_wfD [OF assms] assms
  by (auto simp: move_cursor_up_def move_cursor_down_def move_cursor_left_def move_cursor_right_def)

lemma clamp_row_less [simp]: "term_wf t \<Longrightarrow> clamp_row t r < t_rows t"
  using term_wfD(4) [of t] by (auto simp: clamp_row_def)

lemma save_cursor_wf [simp]: "term_wf t \<Longrightarrow> term_wf (save_cursor t)"
  by (simp add: save_cursor_def term_wf_defs)

lemma restore_cursor_wf [simp]: "term_wf t \<Longrightarrow> term_wf (restore_cursor t)"
  by (auto simp: restore_cursor_def term_wf_defs split: option.split)

lemma sgr_wf [simp]: "term_wf t \<Longrightarrow> term_wf (sgr params t)"
  by (simp add: sgr_def term_wf_defs cursor_wf_def)

lemma switch_screen_wf [simp]:
  assumes "term_wf t"
  shows "term_wf (switch_screen a t)"
proof -
  have "term_wf (t\<lparr>t_saved_screen := Some (t_screen t),
      t_screen := replicate (t_rows t) (row_blank (t_cols t)),
      t_saved_cursor := Some (t_cursor t), t_cursor := cursor_default\<rparr>)"
    using assms by (simp add: term_wf_defs)
  moreover have "term_wf (t\<lparr>t_saved_screen := None, t_screen := s\<rparr>)" if "t_saved_screen t = Some s" for s
    using assms that by (simp add: term_wf_defs)
  ultimately show ?thesis
    using assms by (simp add: switch_screen_def Let_def split: option.split)
qed

lemma set_private_mode_wf [simp]: "term_wf t \<Longrightarrow> term_wf (set_private_mode m e t)"
  using term_wfD(4,6,7) [of t] by (simp add: set_private_mode_def Let_def)

lemma set_region_wf [simp]: "term_wf t \<Longrightarrow> term_wf (set_region ps t)"
  using term_wfD(4) [of t]
  by (auto simp: set_region_def Let_def term_wf_defs cursor_wf_def set_row_def set_col_def)

lemma csi_action_ok [ok_intros]: "term_wf t \<Longrightarrow> ok (csi_action ps act t)"
  unfolding csi_action_def Let_def
  by (intro ok_intros) (simp_all add: term_wfD)

lemma csi_ok [ok_intros]: "term_wf t \<Longrightarrow> ok (csi ps is act t)"
  unfolding csi_def by (intro ok_intros) simp_all

lemma esc_ok [ok_intros]: "term_wf t \<Longrightarrow> ok (esc is act t)"
  unfolding esc_def by (intro ok_intros) (simp_all add: term_wf_new)

lemma osc_wf [simp]: "term_wf t \<Longrightarrow> term_wf (osc ps t)"
  by (simp add: osc_def split: list.split option.split)

lemma term_apply_ok: "term_wf t \<Longrightarrow> ok (term_apply a t)"
  by (cases a) (auto intro: ok_intros)

interpretation vterm: machine term_apply term_wf
  by unfold_locales (simp add: keeps_ok term_apply_ok)

lemma term_advance_wf:
  assumes "term_wf t"
  shows "\<exists>u. term_advance bs t = Some u \<and> term_wf u"
proof -
  obtain p acts where p: "parser_advance (t_parser t) bs = Some (p, acts)" "parser_inv p"
    using advance_inv [OF term_wfD(14) [OF assms]] by blast
  with assms have "term_wf (t\<lparr>t_parser := p\<rparr>)" by simp
  then show ?thesis
    using vterm.run_total p(1) by (simp add: term_advance_def)
qed

end
