(* ===== verification/Term_Screen_Ops.thy ===== *)
theory Term_Screen_Ops
  imports Term_Screen_Facts
begin

text \<open>
  The functional behaviour of the screen operations: what scrolling a region does to every row
  and to the scrollback, how graphic rendition parameters are read, where printed text lands,
  and which operations leave the saved screen and cursor alone.
\<close>

section \<open>Scrolling a region\<close>

lemma remove_mid: "vec_remove (A @ x # B) (length A) = Some (x, A @ B)"
  by (simp add: vec_remove_def)

lemma insert_mid: "vec_insert (A @ B) (length A) x = Some (A @ x # B)"
  by (simp add: vec_insert_def)

lemma scroll_up_once_parts:
  assumes "t_screen t = A @ (x # M) @ C" and "t_region_top t = length A"
    and "t_region_bottom t = length A + length (x # M)"
  shows "scroll_up_once t = Some (t\<lparr>t_screen := A @ (M @ [row_blank (t_cols t)]) @ C,
      t_scrollback := (if length A = 0 \<and> length A + length (x # M) = t_rows t
                       then sb_push x (t_scrollback t) else t_scrollback t)\<rparr>)"
proof -
  have "vec_remove (t_screen t) (t_region_top t) = Some (x, A @ M @ C)"
    using assms remove_mid [of A x "M @ C"] by simp
  moreover have "vec_insert (A @ M @ C) (t_region_bottom t - 1) (row_blank (t_cols t))
      = Some (A @ (M @ [row_blank (t_cols t)]) @ C)"
    using assms insert_mid [of "A @ M" C] by simp
  ultimately show ?thesis
    using assms(2,3) by (simp add: scroll_up_once_def Let_def)
qed

lemma drop_snoc_replicate:
  "drop n (M @ [b]) @ replicate (min n (Suc (length M))) b
     = drop n M @ replicate (min (Suc n) (Suc (length M))) b"
  by (cases "n \<le> length M")
    (simp_all add: min_absorb1 min_absorb2 not_le Suc_le_eq replicate_append_same)

lemma scroll_up_repeat:
  assumes "t_screen t = A @ M @ C" and "t_region_top t = length A"
    and "t_region_bottom t = length A + length M" and "M \<noteq> []"
  shows "\<exists>b. repeat_opt n scroll_up_once t = Some (t\<lparr>t_screen := A @
            (drop n M @ replicate (min n (length M)) (row_blank (t_cols t))) @ C, t_scrollback := b\<rparr>)
          \<and> (A = [] \<and> length M = t_rows t \<and> n \<le> length M \<longrightarrow> b = fold sb_push (take n M) (t_scrollback t))
          \<and> (\<not> (A = [] \<and> length M = t_rows t) \<longrightarrow> b = t_scrollback t)"
  using assms
proof (induction n arbitrary: t M)
  case 0
  then show ?case
    by (intro exI [of _ "t_scrollback t"]) (simp add: 0(1) [symmetric])
next
  case (Suc n)
  then obtain x M' where M: "M = x # M'" by (cases M) auto
  let ?bl = "row_blank (t_cols t)"
  let ?t = "t\<lparr>t_screen := A @ (M' @ [?bl]) @ C,
      t_scrollback := (if length A = 0 \<and> length A + length (x # M') = t_rows t
                       then sb_push x (t_scrollback t) else t_scrollback t)\<rparr>"
  have step: "scroll_up_once t = Some ?t"
    using Suc.prems unfolding M by (intro scroll_up_once_parts) simp_all
  obtain b where b: "repeat_opt n scroll_up_once ?t = Some (?t\<lparr>t_screen := A @
      (drop n (M' @ [?bl]) @ replicate (min n (length (M' @ [?bl]))) ?bl) @ C, t_scrollback := b\<rparr>)"
    "A = [] \<and> length M = t_rows t \<and> n \<le> length M \<longrightarrow>
       b = fold sb_push (take n (M' @ [?bl])) (t_scrollback ?t)"
    "\<not> (A = [] \<and> length M = t_rows t) \<longrightarrow> b = t_scrollback ?t"
    using Suc.IH [of ?t "M' @ [?bl]"] Suc.prems unfolding M by auto
  show ?case
    using step b unfolding M
    by (intro exI [of _ b]) (auto simp: drop_snoc_replicate [simplified])
qed

lemma region_parts:
  assumes "term_wf t"
  obtains A M C where "t_screen t = A @ M @ C" "length A = t_region_top t" "M \<noteq> []"
    "length A + length M = t_region_bottom t"
    "A = take (t_region_top t) (t_screen t)" "C = drop (t_region_bottom t) (t_screen t)"
    "M = drop (t_region_top t) (take (t_region_bottom t) (t_screen t))"
proof -
  note t = term_wfD [OF assms]
  let ?A = "take (t_region_top t) (t_screen t)"
  let ?M = "drop (t_region_top t) (take (t_region_bottom t) (t_screen t))"
  let ?C = "drop (t_region_bottom t) (t_screen t)"
  have "?A @ ?M = take (t_region_bottom t) (t_screen t)"
    using t(6) append_take_drop_id [of "t_region_top t" "take (t_region_bottom t) (t_screen t)"]
    by (simp add: take_take min_absorb1)
  then have "t_screen t = ?A @ ?M @ ?C" by (metis append_assoc append_take_drop_id)
  moreover have "length ?M = t_region_bottom t - t_region_top t" using t by simp
  ultimately show ?thesis using t by (intro that [of ?A ?M ?C]) auto
qed

section \<open>Graphic rendition\<close>

lemma vec_get_append [simp]:
  "vec_get (xs @ ys) (length xs + i) = vec_get ys i"
  "vec_get (xs @ ys) (Suc (length xs + i)) = vec_get ys (Suc i)"
  "vec_get (xs @ ys) (Suc (Suc (length xs + i))) = vec_get ys (Suc (Suc i))"
  "vec_get (xs @ ys) (Suc (Suc (Suc (length xs + i)))) = vec_get ys (Suc (Suc (Suc i)))"
  by (simp_all add: vec_get_def nth_append numeral_eq_Suc)

lemma take_extended_color_shift:
  "take_extended_color (xs @ ys) (length xs + i)
     = (fst (take_extended_color ys i), length xs + snd (take_extended_color ys i))"
  unfolding take_extended_color_def Let_def
  by (cases "vec_get ys i"; cases "vec_get ys (Suc i)"; cases "vec_get ys (Suc (Suc i))";
      cases "vec_get ys (Suc (Suc (Suc i)))") simp_all

lemma sgr_loop_shift: "sgr_loop (xs @ ys) (length xs + i) a = sgr_loop ys i a"
proof (induction ys i a rule: sgr_loop.induct)
  case (1 ys i a)
  show ?case
  proof (cases "i < length ys")
    case False
    then show ?thesis by (simp add: sgr_loop.simps)
  next
    case True
    have nth: "(xs @ ys) ! (length xs + i) = ys ! i" by (simp add: nth_append)
    obtain c j where cj: "take_extended_color ys (i + 1) = (c, j)" by fastforce
    then have sh: "take_extended_color (xs @ ys) (length xs + i + 1) = (c, length xs + j)"
      using take_extended_color_shift [of xs ys "i + 1"] by simp
    show ?thesis
      using 1(1) [OF True refl refl _ cj [symmetric] refl] 1(2) [OF True refl refl _ _ cj [symmetric] refl]
        1(3) [OF True refl refl] True
      by (simp add: sgr_loop.simps [of "xs @ ys" "length xs + i"] sgr_loop.simps [of ys i] Let_def nth sh cj
          add.assoc [symmetric] del: One_nat_def)
  qed
qed

lemma sgr_loop_Nil [simp]: "sgr_loop [] 0 a = a"
  by (simp add: sgr_loop.simps)

lemma sgr_loop_skip:
  "sgr_loop (c # ys) (Suc 0) a = sgr_loop ys 0 a"
  "sgr_loop (c # d # e # ys) (Suc (Suc (Suc 0))) a = sgr_loop ys 0 a"
  "sgr_loop (c # d # e # f # g # ys) 5 a = sgr_loop ys 0 a"
  using sgr_loop_shift [of "[c]" ys 0 a] sgr_loop_shift [of "[c, d, e]" ys 0 a]
    sgr_loop_shift [of "[c, d, e, f, g]" ys 0 a] by (simp_all add: eval_nat_numeral)

lemma sgr_loop_simple:
  "c \<noteq> 38 \<Longrightarrow> c \<noteq> 48 \<Longrightarrow> sgr_loop (c # ys) 0 a = sgr_loop ys 0 (sgr_simple c a)"
  by (simp add: sgr_loop.simps [of "c # ys" 0] sgr_loop_skip Let_def)

lemma sgr_loop_extended [simp]:
  "sgr_loop (38 # 5 # n # ys) 0 a = sgr_loop ys 0 (a\<lparr>a_fg := Indexed (ucast n)\<rparr>)"
  "sgr_loop (48 # 5 # n # ys) 0 a = sgr_loop ys 0 (a\<lparr>a_bg := Indexed (ucast n)\<rparr>)"
  "sgr_loop (38 # 2 # r # g # b # ys) 0 a
     = sgr_loop ys 0 (a\<lparr>a_fg := Rgb (ucast r) (ucast g) (ucast b)\<rparr>)"
  "sgr_loop (48 # 2 # r # g # b # ys) 0 a
     = sgr_loop ys 0 (a\<lparr>a_bg := Rgb (ucast r) (ucast g) (ucast b)\<rparr>)"
  by (simp_all add: sgr_loop.simps [of "_ # _" 0] sgr_loop_skip Let_def take_extended_color_def vec_get_def)

text \<open>The parameters that ask for a given set of attributes, after a reset.\<close>

definition sgr_color :: "u16 \<Rightarrow> u16 \<Rightarrow> color \<Rightarrow> u16 list" where
  "sgr_color ext dflt c =
     (case c of
        Default \<Rightarrow> [dflt]
      | Indexed n \<Rightarrow> [ext, 5, ucast n]
      | Rgb r g b \<Rightarrow> [ext, 2, ucast r, ucast g, ucast b])"

definition sgr_flag :: "bool \<Rightarrow> u16 \<Rightarrow> u16 list" where
  "sgr_flag b code = (if b then [code] else [])"

definition sgr_of :: "attrs \<Rightarrow> u16 list" where
  "sgr_of a = [0] @ sgr_flag (a_bold a) 1 @ sgr_flag (a_dim a) 2 @ sgr_flag (a_italic a) 3
     @ sgr_flag (a_underline a) 4 @ sgr_flag (a_blink a) 5 @ sgr_flag (a_inverse a) 7
     @ sgr_flag (a_hidden a) 8 @ sgr_flag (a_strikethrough a) 9
     @ sgr_color 38 39 (a_fg a) @ sgr_color 48 49 (a_bg a)"

lemma ucast_u8_u16 [simp]: "ucast (ucast (n :: u8) :: u16) = n"
  by (rule bit_word_eqI) (simp add: bit_simps)

lemma sgr_loop_flag:
  "c \<noteq> 38 \<Longrightarrow> c \<noteq> 48 \<Longrightarrow>
     sgr_loop (sgr_flag b c @ ys) 0 a = sgr_loop ys 0 (if b then sgr_simple c a else a)"
  by (simp add: sgr_flag_def sgr_loop_simple)

lemma sgr_loop_fg: "sgr_loop (sgr_color 38 39 c @ ys) 0 a = sgr_loop ys 0 (a\<lparr>a_fg := c\<rparr>)"
  by (simp add: sgr_color_def sgr_loop_simple sgr_simple_def split: color.split)

lemma sgr_loop_bg: "sgr_loop (sgr_color 48 49 c @ ys) 0 a = sgr_loop ys 0 (a\<lparr>a_bg := c\<rparr>)"
  by (simp add: sgr_color_def sgr_loop_simple sgr_simple_def split: color.split)

lemma sgr_loop_of: "sgr_loop (sgr_of a) 0 b = a"
proof -
  have bg: "sgr_loop (sgr_color 48 49 c) 0 x = x\<lparr>a_bg := c\<rparr>" for c x
    using sgr_loop_bg [of c "[]" x] by simp
  have "sgr_loop (sgr_of a) 0 b = attrs_plain
      \<lparr>a_bold := a_bold a, a_dim := a_dim a, a_italic := a_italic a, a_underline := a_underline a,
       a_blink := a_blink a, a_inverse := a_inverse a, a_hidden := a_hidden a,
       a_strikethrough := a_strikethrough a, a_fg := a_fg a, a_bg := a_bg a\<rparr>"
    by (simp add: sgr_of_def sgr_loop_simple sgr_loop_flag sgr_loop_fg bg)
      (simp add: sgr_simple_def attrs_plain_def)
  also have "\<dots> = a" by (cases a) (simp add: attrs_plain_def)
  finally show ?thesis .
qed

section \<open>Operations that leave the saved state alone\<close>

definition saved :: "terminal \<Rightarrow> row list option \<times> cursor option \<times> bool" where
  "saved t = (t_saved_screen t, t_saved_cursor t, m_alternate_screen (t_modes t))"

text \<open>If the operation does not panic, the saved state is still \<open>v\<close>.\<close>

definition frame :: "row list option \<times> cursor option \<times> bool \<Rightarrow> terminal option \<Rightarrow> bool" where
  "frame v r \<longleftrightarrow> (\<forall>u. r = Some u \<longrightarrow> saved u = v)"

named_theorems frame_intros \<open>operations and connectives that leave the saved state alone\<close>

lemma frame_Some [frame_intros]: "saved u = v \<Longrightarrow> frame v (Some u)"
  by (simp add: frame_def)

lemma frame_None [frame_intros]: "frame v None"
  by (simp add: frame_def)

lemma frame_bind [frame_intros]:
  "frame v m \<Longrightarrow> (\<And>u. saved u = v \<Longrightarrow> frame v (f u)) \<Longrightarrow> frame v (m \<bind> f)"
  by (auto simp: frame_def split: bind_splits)

lemma frame_bind_value: "(\<And>x. frame v (f x)) \<Longrightarrow> frame v (m \<bind> f)"
  by (auto simp: frame_def split: bind_splits)

lemma frame_if [frame_intros]:
  "(b \<Longrightarrow> frame v x) \<Longrightarrow> (\<not> b \<Longrightarrow> frame v y) \<Longrightarrow> frame v (if b then x else y)"
  by simp

lemma frame_repeat:
  assumes "\<And>u. saved u = v \<Longrightarrow> frame v (f u)"
  shows "saved t = v \<Longrightarrow> frame v (repeat_opt n f t)"
  by (induction n arbitrary: t) (simp add: frame_Some, simp, rule frame_bind [OF assms])

lemma frame_fold:
  assumes "\<And>x u. saved u = v \<Longrightarrow> frame v (f x u)"
  shows "saved t = v \<Longrightarrow> frame v (fold_opt f xs t)"
  by (induction xs arbitrary: t) (simp add: frame_Some, simp, rule frame_bind [OF assms])

lemma saved_update [simp]:
  "saved (t\<lparr>t_screen := s\<rparr>) = saved t" "saved (t\<lparr>t_scrollback := b\<rparr>) = saved t"
  "saved (t\<lparr>t_cursor := c\<rparr>) = saved t" "saved (t\<lparr>t_dirty := d\<rparr>) = saved t"
  "saved (t\<lparr>t_wrap_pending := w\<rparr>) = saved t" "saved (t\<lparr>t_bell_count := n\<rparr>) = saved t"
  "saved (t\<lparr>t_title := x\<rparr>) = saved t" "saved (t\<lparr>t_region_top := i\<rparr>) = saved t"
  "saved (t\<lparr>t_region_bottom := i\<rparr>) = saved t" "saved (t\<lparr>t_parser := p\<rparr>) = saved t"
  "saved (set_row i t) = saved t" "saved (set_col i t) = saved t"
  by (simp_all add: saved_def set_row_def set_col_def)

lemma saved_modes [simp]:
  "m_alternate_screen m = m_alternate_screen (t_modes t) \<Longrightarrow> saved (t\<lparr>t_modes := m\<rparr>) = saved t"
  by (simp add: saved_def)

lemma frame_with_row [frame_intros]: "saved t = v \<Longrightarrow> frame v (with_row i f t)"
  unfolding with_row_def by (intro frame_bind_value frame_Some) simp

lemma frame_steps [frame_intros]:
  assumes "saved t = v"
  shows "frame v (scroll_up_once t)" "frame v (scroll_down_once t)"
    "frame v (insert_line_once t)" "frame v (delete_line_once t)"
  unfolding scroll_up_once_def scroll_down_once_def insert_line_once_def delete_line_once_def Let_def
    case_prod_beta
  by (intro frame_bind_value frame_Some; simp add: assms)+

lemma frame_scroll [frame_intros]:
  assumes "saved t = v"
  shows "frame v (scroll_up n t)" "frame v (scroll_down n t)"
    "frame v (insert_lines n t)" "frame v (delete_lines n t)"
  unfolding scroll_up_def scroll_down_def insert_lines_def delete_lines_def
  by (intro frame_intros frame_repeat assms; simp add: assms)+

lemma frame_line_feed [frame_intros]:
  assumes "saved t = v"
  shows "frame v (line_feed t)" "frame v (reverse_index t)"
  unfolding line_feed_def reverse_index_def Let_def
  by (intro frame_intros; simp add: assms)+

lemma frame_print [frame_intros]:
  assumes "saved t = v"
  shows "frame v (put_char ch t)" "frame v (term_print ch t)"
proof -
  have put: "frame v (put_char ch t)" if "saved t = v" for t
    unfolding put_char_def Let_def by (intro frame_intros; simp add: that)
  then show "frame v (put_char ch t)" using assms .
  show "frame v (term_print ch t)"
    unfolding term_print_def by (intro frame_intros put; simp add: assms)
qed

lemma saved_moves [simp]:
  "saved (backspace t) = saved t" "saved (term_tab t) = saved t"
  "saved (move_cursor_up n t) = saved t" "saved (move_cursor_down n t) = saved t"
  "saved (move_cursor_left n t) = saved t" "saved (move_cursor_right n t) = saved t"
  "saved (sgr ps t) = saved t" "saved (set_region ps t) = saved t"
  "saved (restore_cursor t) = saved t" "saved (osc fs t) = saved t"
  by (simp_all add: backspace_def term_tab_def move_cursor_up_def move_cursor_down_def
      move_cursor_left_def move_cursor_right_def sgr_def set_region_def restore_cursor_def osc_def
      Let_def split: option.split list.split)

lemma frame_edits [frame_intros]:
  assumes "saved t = v"
  shows "frame v (execute code t)" "frame v (erase_line_part i j t)"
    "frame v (delete_chars n t)" "frame v (insert_chars n t)" "frame v (erase_chars n t)"
  unfolding execute_def erase_line_part_def delete_chars_def insert_chars_def erase_chars_def
    if_distribR Let_def
  by (intro frame_intros frame_fold frame_repeat assms; simp add: assms)+

lemma frame_clear [frame_intros]:
  assumes "saved t = v"
  shows "frame v (clear_row i t)" "frame v (erase_display mode t)" "frame v (erase_line mode t)"
  unfolding clear_row_def erase_display_def erase_line_def
  by (intro frame_intros frame_fold assms; simp add: assms)+

text \<open>The actions that neither save, switch nor reset the screen or the cursor.\<close>

fun neutral :: "action \<Rightarrow> bool" where
  "neutral (Csi ps is ign act) =
     (ign \<or> (if 0x3F \<in> set is then param ps 0 0 \<notin> {47, 1047, 1048, 1049} else act \<noteq> 0x73))"
| "neutral (Esc is ign act) = (ign \<or> act \<noteq> 0x37 \<and> act \<noteq> 0x63)"
| "neutral _ = True"

lemma frame_csi_action:
  assumes "saved t = v" and "act \<noteq> 0x73"
  shows "frame v (csi_action ps act t)"
  unfolding csi_action_def Let_def
  by (intro frame_intros; (simp add: assms)?)

lemma frame_apply:
  assumes "neutral a" and "saved t = v"
  shows "frame v (term_apply a t)"
proof (cases a)
  case (Csi ps "is" ign act)
  show ?thesis
  proof (cases "0x3F \<in> set is")
    case True
    then show ?thesis
      using assms by (auto simp: Csi csi_def set_private_mode_def intro!: frame_Some)
  next
    case False
    then show ?thesis
      using assms by (auto simp: Csi csi_def intro!: frame_intros frame_csi_action)
  qed
next
  case (Esc "is" ign act)
  then show ?thesis
    using assms by (auto simp: esc_def intro!: frame_intros)
qed (use assms in \<open>auto intro!: frame_intros\<close>)

lemma neutral_run:
  assumes "term_wf t" and "\<forall>a \<in> set acts. neutral a"
  obtains u where "fold_opt term_apply acts t = Some u" "term_wf u" "saved u = saved t"
proof -
  obtain u where u: "fold_opt term_apply acts t = Some u" "term_wf u"
    using vterm.run_total [OF assms(1)] by blast
  have "frame (saved t) (fold_opt term_apply acts t)"
    using assms(2)
  proof (induction acts arbitrary: t)
    case (Cons a acts)
    have "frame (saved t) (fold_opt term_apply acts x)" if "saved x = saved t" for x
      using Cons that by (metis list.set_intros(2))
    with Cons show ?case by (auto intro!: frame_bind frame_apply)
  qed (simp add: frame_def)
  with u that show ?thesis by (simp add: frame_def)
qed

end
