(* ===== verification/Term_Parser_Seq.thy ===== *)
theory Term_Parser_Seq
  imports Term_Parser_Facts
begin

text \<open>
  Control sequences: parameters are decoded with saturation, a well formed CSI or OSC sequence
  yields exactly one action from any state outside a string, a cancel recovers every state, and
  the strings the parser swallows.
\<close>

section \<open>Saturating parameters\<close>

definition clamp_u16 :: "nat \<Rightarrow> u16" where
  "clamp_u16 n = word_of_nat (min n 65535)"

lemma unat_clamp_u16 [simp]: "unat (clamp_u16 n) = min n 65535"
  by (simp add: clamp_u16_def unat_of_nat)

lemma next_param_digit:
  assumes "is_ascii_digit c"
  shows "next_param cur (byte c) =
    clamp_u16 (unat (case cur of Some v \<Rightarrow> v | None \<Rightarrow> 0) * 10 + (c - 48))"
proof -
  let ?v = "case cur of Some v \<Rightarrow> v | None \<Rightarrow> 0"
  have c: "48 \<le> c" "c \<le> 57" using assms by (simp_all add: is_ascii_digit_def)
  then have "unat (byte c - 0x30) = c - 48"
    by (subst unat_sub) (simp_all add: word_le_nat_alt)
  then have d: "unat (ucast (byte c - 0x30) :: u16) = c - 48"
    using c by (simp add: unsigned_ucast_eq take_bit_eq_mod)
  have "min (sat_add (sat_mul ?v 10) (ucast (byte c - 0x30))) (- 1)
          = sat_add (sat_mul ?v 10) (ucast (byte c - 0x30))"
    by (simp add: min_def)
  then have "unat (next_param cur (byte c)) = min (unat ?v * 10 + (c - 48)) 65535"
    by (simp add: next_param_def unat_sat_add unat_sat_mul d min_def)
  then show ?thesis by (simp add: word_unat_eq_iff)
qed

lemma clamp_step: "clamp_u16 (min n 65535 * 10 + d) = clamp_u16 (n * 10 + d)"
  by (simp add: word_unat_eq_iff min_def)

lemma digit_bytes:
  assumes "is_ascii_digit c"
  shows "byte c \<noteq> 0x18" "byte c \<noteq> 0x1A" "byte c \<noteq> 0x1B" "0x30 \<le> byte c" "byte c \<le> 0x39"
  using assms by (simp_all add: is_ascii_digit_def byte_order)

lemma csi_param_digit:
  assumes "p_state p = CsiParam" and "is_ascii_digit c"
  shows "parser_step p (byte c) =
    Some (p\<lparr>p_current_param := Some (next_param (p_current_param p) (byte c))\<rparr>, [])"
  using assms digit_bytes [OF assms(2)] by (simp add: parser_step_def csi_param_def)

lemma csi_param_digits:
  assumes "p_state p = CsiParam" and "p_current_param p = Some (clamp_u16 n)"
    and "digits_value n s = Some m"
  shows "parser_advance p (map byte s) =
    Some (p\<lparr>p_current_param := Some (clamp_u16 m)\<rparr>, [])"
  using assms
proof (induction s arbitrary: p n)
  case Nil
  then have "p\<lparr>p_current_param := Some (clamp_u16 m)\<rparr> = p" by simp
  then show ?case by simp
next
  case (Cons c s)
  then have c: "is_ascii_digit c" and m: "digits_value (n * 10 + (c - 48)) s = Some m"
    by (auto split: if_splits)
  let ?q = "p\<lparr>p_current_param := Some (clamp_u16 (n * 10 + (c - 48)))\<rparr>"
  have "parser_step p (byte c) = Some (?q, [])"
    using Cons.prems c by (simp add: csi_param_digit next_param_digit clamp_step)
  moreover have "parser_advance ?q (map byte s) =
      Some (?q\<lparr>p_current_param := Some (clamp_u16 m)\<rparr>, [])"
    by (rule Cons.IH [of _ "n * 10 + (c - 48)"]) (simp_all add: Cons.prems(1) m)
  ultimately show ?case by (simp add: advance_Cons)
qed

lemma show_nat_Cons:
  obtains c s where "show_nat n = c # s" and "is_ascii_digit c"
    and "digits_value (c - 48) s = Some n"
proof -
  obtain c s where cs: "show_nat n = c # s" by (cases "show_nat n") auto
  then have "is_ascii_digit c" using show_nat_digits [of c n] by simp
  with cs digits_value_show [of n] that show thesis by simp
qed

text \<open>A first parameter, from the entry state or from a parameter state without digits.\<close>

lemma csi_first_param:
  assumes "p_state p = CsiEntry \<or> p_state p = CsiParam" and "p_current_param p = None"
  shows "parser_advance p (map byte (show_nat n)) =
    Some (p\<lparr>p_current_param := Some (clamp_u16 n), p_state := CsiParam\<rparr>, [])"
proof -
  obtain c s where cs: "show_nat n = c # s" "is_ascii_digit c" "digits_value (c - 48) s = Some n"
    by (rule show_nat_Cons)
  let ?q = "p\<lparr>p_current_param := Some (clamp_u16 (c - 48)), p_state := CsiParam\<rparr>"
  have c: "48 \<le> c" "c \<le> 57" using cs(2) by (simp_all add: is_ascii_digit_def)
  then have "unat (byte c - 0x30) = c - 48"
    by (subst unat_sub) (simp_all add: word_le_nat_alt)
  then have "(ucast (byte c - 0x30) :: u16) = clamp_u16 (c - 48)"
    using c by (simp add: word_unat_eq_iff unsigned_ucast_eq take_bit_eq_mod)
  then have "parser_step p (byte c) = Some (?q, [])"
    using assms cs(2) digit_bytes [OF cs(2)]
    by (auto simp: parser_step_def csi_entry_def csi_param_def next_param_digit)
  moreover have "parser_advance ?q (map byte s) = Some (?q\<lparr>p_current_param := Some (clamp_u16 n)\<rparr>, [])"
    by (rule csi_param_digits [of _ "c - 48"]) (simp_all add: cs)
  ultimately show ?thesis by (simp add: cs advance_Cons)
qed

section \<open>CSI sequences\<close>

definition csi_tail :: "nat list \<Rightarrow> u8 list" where
  "csi_tail ns = concat (map (\<lambda>n. 0x3B # map byte (show_nat n)) ns)"

text \<open>\<open>ESC [\<close>, an optional private marker, the parameters in decimal, the final byte.\<close>

definition csi_sequence :: "u8 list \<Rightarrow> nat list \<Rightarrow> u8 \<Rightarrow> u8 list" where
  "csi_sequence marker ns f =
     [0x1B, 0x5B] @ marker @ map byte (join [0x3B] (map show_nat ns)) @ [f]"

lemma join_params:
  "map byte (join [0x3B] (map show_nat (n # ns))) = map byte (show_nat n) @ csi_tail ns"
proof (induction ns arbitrary: n)
  case Nil
  show ?case by (simp add: csi_tail_def)
next
  case (Cons m ns)
  from this [of m] show ?case by (simp add: csi_tail_def byte_def)
qed

definition csi_done :: "parser \<Rightarrow> parser" where
  "csi_done p =
     p\<lparr>p_params := [], p_current_param := None, p_intermediates := [], p_ignore := False,
       p_state := Ground\<rparr>"

lemma csi_final:
  assumes "p_state p = CsiParam" and "p_current_param p = Some v" and "0x40 \<le> f" and "f \<le> 0x7E"
  shows "parser_step p f =
    Some (csi_done p, [Csi (p_params p @ [v]) (p_intermediates p) (p_ignore p) f])"
  using assms
  by (simp add: parser_step_def csi_param_def csi_dispatch_def push_param_def csi_done_def
      Let_def byte_order)

lemma csi_params_final:
  assumes "p_state p = CsiParam" and "p_current_param p = Some v" and "0x40 \<le> f" and "f \<le> 0x7E"
  shows "parser_advance p (csi_tail ns @ [f]) =
    Some (csi_done p,
      [Csi (p_params p @ v # map clamp_u16 ns) (p_intermediates p) (p_ignore p) f])"
  using assms(1,2)
proof (induction ns arbitrary: p v)
  case Nil
  then show ?case using csi_final [OF Nil assms(3,4)] by (simp add: csi_tail_def advance_Cons)
next
  case (Cons n ns)
  let ?q = "push_param p"
  let ?r = "?q\<lparr>p_current_param := Some (clamp_u16 n), p_state := CsiParam\<rparr>"
  have sep: "parser_step p 0x3B = Some (?q, [])"
    using Cons.prems by (simp add: parser_step_def csi_param_def)
  have "parser_advance ?q (map byte (show_nat n)) = Some (?r, [])"
    using Cons.prems by (intro csi_first_param) (simp_all add: push_param_def)
  moreover have "parser_advance ?r (csi_tail ns @ [f]) = Some (csi_done ?r,
      [Csi (p_params ?r @ clamp_u16 n # map clamp_u16 ns) (p_intermediates ?r) (p_ignore ?r) f])"
    by (rule Cons.IH) simp_all
  moreover have "csi_done ?r = csi_done p" by (simp add: csi_done_def push_param_def)
  ultimately have "parser_advance ?q (map byte (show_nat n) @ csi_tail ns @ [f]) =
      Some (csi_done p, [Csi (p_params p @ v # clamp_u16 n # map clamp_u16 ns)
                           (p_intermediates p) (p_ignore p) f])"
    using Cons.prems by (simp add: advance_append_Some push_param_def)
  then show ?case using sep by (simp add: csi_tail_def advance_Cons)
qed

definition in_string :: "parser \<Rightarrow> bool" where
  "in_string p \<longleftrightarrow>
     p_state p = OscString \<or> p_state p = DcsPassthrough \<or> p_state p = SosPmApcString"

lemma step_esc:
  "\<not> in_string p \<Longrightarrow> parser_step p 0x1B = Some ((parser_clear p)\<lparr>p_state := Escape\<rparr>, [])"
  by (simp add: parser_step_def in_string_def)

lemma step_csi:
  "p_state p = Escape \<Longrightarrow> parser_step p 0x5B = Some (p\<lparr>p_state := CsiEntry\<rparr>, [])"
  by (simp add: parser_step_def escape_def)

definition private_marker :: "u8 list \<Rightarrow> bool" where
  "private_marker m \<longleftrightarrow> m = [] \<or> (\<exists>b. m = [b] \<and> 0x3C \<le> b \<and> b \<le> 0x3F)"

lemma csi_marker:
  assumes "private_marker m" and "p_state p = CsiEntry" and "p_current_param p = None"
  shows "\<exists>s. parser_advance p m = Some (p\<lparr>p_intermediates := p_intermediates p @ m, p_state := s\<rparr>, [])
           \<and> (s = CsiEntry \<or> s = CsiParam)"
proof (cases "m = []")
  case True
  have "p\<lparr>p_intermediates := p_intermediates p, p_state := CsiEntry\<rparr> = p" using assms(2) by simp
  with True show ?thesis by (metis advance_Nil append_Nil2)
next
  case False
  then obtain b where b: "m = [b]" "0x3C \<le> b" "b \<le> 0x3F"
    using assms(1) by (auto simp: private_marker_def)
  then have "parser_step p b = Some (p\<lparr>p_intermediates := p_intermediates p @ [b], p_state := CsiParam\<rparr>, [])"
    using assms(2) by (simp add: parser_step_def csi_entry_def byte_order)
  with b show ?thesis by (intro exI [of _ CsiParam]) (simp add: advance_Cons)
qed

lemma csi_sequence_parse:
  assumes p: "\<not> in_string p" and m: "private_marker m"
    and f: "0x40 \<le> f" "f \<le> 0x7E" and ns: "ns \<noteq> []"
  shows "\<exists>q. parser_advance p (csi_sequence m ns f) = Some (q, [Csi (map clamp_u16 ns) m False f])
           \<and> p_state q = Ground \<and> p_utf8_len q = 0 \<and> p_utf8 q = p_utf8 p"
proof -
  obtain n ns' where ns': "ns = n # ns'" using ns by (cases ns) auto
  let ?e = "(parser_clear p)\<lparr>p_state := CsiEntry\<rparr>"
  obtain s where s: "parser_advance ?e m = Some (?e\<lparr>p_intermediates := m, p_state := s\<rparr>, [])"
      "s = CsiEntry \<or> s = CsiParam"
    using csi_marker [OF m, of ?e] by auto
  let ?i = "?e\<lparr>p_intermediates := m, p_state := s\<rparr>"
  let ?r = "?i\<lparr>p_current_param := Some (clamp_u16 n), p_state := CsiParam\<rparr>"
  have "parser_advance ?i (map byte (show_nat n)) = Some (?r, [])"
    using s(2) by (intro csi_first_param) auto
  moreover have "parser_advance ?r (csi_tail ns' @ [f]) = Some (csi_done ?r,
      [Csi (p_params ?r @ clamp_u16 n # map clamp_u16 ns') (p_intermediates ?r) (p_ignore ?r) f])"
    by (rule csi_params_final) (simp_all add: f)
  ultimately have "parser_advance ?i (map byte (show_nat n) @ csi_tail ns' @ [f]) =
      Some (csi_done ?r, [Csi (map clamp_u16 ns) m False f])"
    by (simp add: advance_append_Some ns')
  with s(1) have "parser_advance ?e (m @ map byte (show_nat n) @ csi_tail ns' @ [f]) =
      Some (csi_done ?r, [Csi (map clamp_u16 ns) m False f])"
    by (simp add: advance_append_Some)
  then have "parser_advance p (csi_sequence m ns f) =
      Some (csi_done ?r, [Csi (map clamp_u16 ns) m False f])"
    using p by (simp add: csi_sequence_def ns' join_params [simplified] advance_Cons step_esc step_csi
        del: map_append)
  then show ?thesis by (auto simp: csi_done_def)
qed

section \<open>OSC strings\<close>

lemma osc_collect:
  assumes "p_state p = OscString" and "\<forall>c \<in> set s. 0x20 \<le> c \<and> c \<le> 0x7F"
  shows "parser_advance p (map byte s) = Some (p\<lparr>p_osc_buffer := p_osc_buffer p @ s\<rparr>, [])"
  using assms
proof (induction s arbitrary: p)
  case Nil
  then show ?case by simp
next
  case (Cons c s)
  let ?q = "p\<lparr>p_osc_buffer := p_osc_buffer p @ [c]\<rparr>"
  have "parser_step p (byte c) = Some (?q, [])"
    using Cons.prems by (simp add: parser_step_def osc_string_def byte_order)
  moreover have "parser_advance ?q (map byte s) =
      Some (?q\<lparr>p_osc_buffer := p_osc_buffer ?q @ s\<rparr>, [])"
    using Cons.prems by (intro Cons.IH) auto
  ultimately show ?case by (simp add: advance_Cons)
qed

lemma osc_open:
  assumes "\<not> in_string p"
  shows "parser_advance p [0x1B, 0x5D] =
    Some ((parser_clear p)\<lparr>p_state := OscString, p_osc_buffer := []\<rparr>, [])"
  using assms by (simp add: advance_Cons step_esc parser_step_def [of "_\<lparr>p_state := Escape\<rparr>"] escape_def)

lemma osc_close:
  assumes "p_state p = OscString"
  shows "parser_advance p [0x07] =
      Some (p\<lparr>p_osc_buffer := [], p_state := Ground\<rparr>, [Osc (split_osc (p_osc_buffer p)) True])"
    and "parser_advance p [0x1B, 0x5C] =
      Some (p\<lparr>p_osc_buffer := [], p_state := Ground\<rparr>, [Osc (split_osc (p_osc_buffer p)) False])"
  using assms by (simp_all add: advance_Cons parser_step_def osc_string_def escape_def)

definition osc_sequence :: "ustring list \<Rightarrow> u8 list \<Rightarrow> u8 list" where
  "osc_sequence pieces terminator = [0x1B, 0x5D] @ map byte (join [0x3B] pieces) @ terminator"

lemma join_chars: "c \<in> set (join sep ws) \<Longrightarrow> c \<in> set sep \<or> (\<exists>w \<in> set ws. c \<in> set w)"
  by (induction sep ws rule: join.induct) auto

lemma osc_sequence_parse:
  assumes p: "\<not> in_string p" and ne: "pieces \<noteq> []"
    and chars: "\<forall>w \<in> set pieces. \<forall>c \<in> set w. 0x20 \<le> c \<and> c \<le> 0x7F \<and> c \<noteq> 0x3B"
    and t: "t = [0x07] \<or> t = [0x1B, 0x5C]"
  shows "\<exists>q. parser_advance p (osc_sequence pieces t) = Some (q, [Osc pieces (t = [0x07])])
           \<and> p_state q = Ground \<and> p_utf8_len q = 0 \<and> p_utf8 q = p_utf8 p"
proof -
  let ?s = "join [0x3B] pieces"
  let ?o = "(parser_clear p)\<lparr>p_state := OscString, p_osc_buffer := []\<rparr>"
  let ?q = "?o\<lparr>p_osc_buffer := ?s\<rparr>"
  have "\<forall>c \<in> set ?s. 0x20 \<le> c \<and> c \<le> 0x7F"
    using chars by (auto dest!: join_chars)
  then have col: "parser_advance ?o (map byte ?s) = Some (?q, [])"
    by (subst osc_collect) auto
  have "split_osc ?s = pieces"
    unfolding split_osc_def by (rule split_char_join) (use ne chars in auto)
  then have "parser_advance ?q t =
      Some (?q\<lparr>p_osc_buffer := [], p_state := Ground\<rparr>, [Osc pieces (t = [0x07])])"
    using t osc_close [of ?q] by auto
  with col osc_open [OF p] show ?thesis
    unfolding osc_sequence_def by (simp add: advance_append del: append_Cons append_Nil)
qed

section \<open>Cancel, and the strings that are swallowed\<close>

lemma step_cancel:
  "parser_step p 0x18 = Some ((parser_clear p)\<lparr>p_state := Ground\<rparr>, [Execute 0x18])"
  by (simp add: parser_step_def)

lemma sos_swallow:
  assumes "p_state p = SosPmApcString" and "set bs \<inter> {0x07, 0x18, 0x1A} = {}"
  shows "parser_advance p bs = Some (p, [])"
  using assms
proof (induction bs)
  case Nil
  then show ?case by simp
next
  case (Cons b bs)
  then have "parser_step p b = Some (p, [])" by (auto simp: parser_step_def sos_pm_apc_def)
  with Cons show ?case by (simp add: advance_Cons)
qed

section \<open>Properties of the parser\<close>

text \<open>
  The parser never panics. From the start of the stream every byte string is consumed,
  malformed UTF-8 and truncated sequences included: no index into the decode buffer is out of
  range, and the buffer invariant holds again afterwards.
\<close>

theorem parser_never_panics:
  "\<exists>q acts. parser_advance parser_new bs = Some (q, acts) \<and> parser_inv q"
  by (rule advance_inv) simp



text \<open>
  Text round trip. The UTF-8 encoding of a text without C0 controls, received by an idle
  parser, is printed back character by character, and the parser is idle again.
\<close>

theorem parser_prints_text:
  assumes "parser_idle p" and "\<forall>c \<in> set s. is_scalar c \<and> 0x20 \<le> c"
  shows "\<exists>q. parser_advance p (as_bytes s) = Some (q, map Print s) \<and> parser_idle q"
  using assms by (rule idle_text)

theorem parser_prints_text_witness:
  "\<exists>q. parser_advance parser_new (as_bytes [0x61, 0xE9, 0x6F22, 0x1F389]) =
     Some (q, map Print [0x61, 0xE9, 0x6F22, 0x1F389]) \<and> parser_idle q"
  by (rule parser_prints_text) (simp_all add: is_scalar_def)

text \<open>
  Control sequence round trip. From every state outside a string, \<open>ESC [\<close>, an optional
  private marker, the decimal parameters and a final byte produce exactly one action that
  carries the parameters, each clamped to 65535 instead of overflowing, and return the parser
  to the ground state.
\<close>

theorem csi_round_trip:
  assumes "\<not> in_string p" and "private_marker m" and "0x40 \<le> f" and "f \<le> 0x7E" and "ns \<noteq> []"
  shows "\<exists>q. parser_advance p (csi_sequence m ns f) = Some (q, [Csi (map clamp_u16 ns) m False f])
           \<and> p_state q = Ground \<and> p_utf8_len q = 0"
  using csi_sequence_parse [OF assms] by blast

theorem csi_round_trip_witness:
  "\<exists>q. parser_advance parser_new (csi_sequence [0x3F] [12, 999999999] 0x48) =
     Some (q, [Csi (map clamp_u16 [12, 999999999]) [0x3F] False 0x48])
     \<and> p_state q = Ground \<and> p_utf8_len q = 0"
  by (rule csi_round_trip) (simp_all add: in_string_def private_marker_def parser_new_def)

text \<open>
  Operating system commands round trip: the \<open>;\<close>-separated fields of an OSC, terminated
  by BEL or by ST, come back as they were sent, with the terminator reported.
\<close>

theorem osc_round_trip:
  assumes "\<not> in_string p" and "pieces \<noteq> []"
    and "\<forall>w \<in> set pieces. \<forall>c \<in> set w. 0x20 \<le> c \<and> c \<le> 0x7F \<and> c \<noteq> 0x3B"
    and "t = [0x07] \<or> t = [0x1B, 0x5C]"
  shows "\<exists>q. parser_advance p (osc_sequence pieces t) = Some (q, [Osc pieces (t = [0x07])])
           \<and> p_state q = Ground"
  using osc_sequence_parse [OF assms] by blast

theorem osc_round_trip_witness:
  "\<exists>q. parser_advance parser_new (osc_sequence [lit ''0'', lit ''host''] [0x07]) =
     Some (q, [Osc [lit ''0'', lit ''host''] ([0x07] = [0x07 :: u8])]) \<and> p_state q = Ground"
  by (rule osc_round_trip) (simp_all add: in_string_def parser_new_def)

text \<open>
  CAN recovers the parser from every state it can be in: the partial sequence is dropped,
  and the text that follows is printed as by a fresh parser.
\<close>

theorem cancel_recovers:
  assumes "parser_inv p" and "\<forall>c \<in> set s. is_scalar c \<and> 0x20 \<le> c"
  shows "\<exists>q. parser_advance p (0x18 # as_bytes s) = Some (q, Execute 0x18 # map Print s)
           \<and> parser_idle q"
proof -
  let ?q = "(parser_clear p)\<lparr>p_state := Ground\<rparr>"
  have "parser_idle ?q" using assms(1) by (simp add: parser_idle_def parser_inv_def)
  then obtain r where "parser_advance ?q (as_bytes s) = Some (r, map Print s)" "parser_idle r"
    using idle_text assms(2) by blast
  then show ?thesis by (simp add: advance_Cons step_cancel)
qed

theorem cancel_recovers_witness:
  "\<exists>q. parser_advance (parser_new\<lparr>p_state := DcsIgnore\<rparr>) (0x18 # as_bytes (lit ''H'')) =
     Some (q, Execute 0x18 # map Print (lit ''H'')) \<and> parser_idle q"
  by (rule cancel_recovers) (simp_all add: parser_inv_def parser_new_def is_scalar_def)

text \<open>
  A SOS, PM or APC string is not ended by the string terminator. Inside it every byte but
  BEL, CAN and SUB is dropped, \<open>ESC \\<close> and all the output after it included.
\<close>

theorem apc_ignores_terminator:
  assumes "p_state p = SosPmApcString" and "set bs \<inter> {0x07, 0x18, 0x1A} = {}"
  shows "parser_advance p ([0x1B, 0x5C] @ bs) = Some (p, [])"
  using assms by (intro sos_swallow) auto

theorem apc_ignores_terminator_witness:
  "parser_advance (parser_new\<lparr>p_state := SosPmApcString\<rparr>) ([0x1B, 0x5C] @ [0x64, 0x6F])
     = Some (parser_new\<lparr>p_state := SosPmApcString\<rparr>, [])"
  by (rule apc_ignores_terminator) simp_all

section \<open>Streams\<close>












end
