(* ===== verification/Term_Screen_Text.thy ===== *)
theory Term_Screen_Text
  imports Term_Screen_Ops Term_Parser_Seq
begin

text \<open>
  Printed text: where the characters of a narrow text land on a fresh screen, and what a cursor
  parked beyond the last column does to the text that follows.
\<close>

section \<open>Row-major layout\<close>

definition cell_at :: "terminal \<Rightarrow> nat \<Rightarrow> nat \<Rightarrow> cell" where
  "cell_at t i j = r_cells (t_screen t ! i) ! j"

text \<open>
  The screen of a terminal of \<open>C\<close> columns after the text \<open>s\<close>: cell \<open>i * C + j\<close> of the
  row-major order holds character \<open>i * C + j\<close>, the cells beyond are still empty.
\<close>

definition laid_out :: "nat \<Rightarrow> ustring \<Rightarrow> terminal \<Rightarrow> bool" where
  "laid_out C s t \<longleftrightarrow>
     (\<forall>i < t_rows t. \<forall>j < C. cell_at t i j =
        (if i * C + j < length s then cell_new (s ! (i * C + j)) attrs_plain else cell_empty))"

definition typing :: "nat \<Rightarrow> nat \<Rightarrow> ustring \<Rightarrow> terminal \<Rightarrow> bool" where
  "typing C R s t \<longleftrightarrow>
     term_wf t \<and> t_cols t = C \<and> t_rows t = R \<and> t_region_bottom t = R \<and>
     m_auto_wrap (t_modes t) \<and> \<not> m_insert (t_modes t) \<and> k_attrs (t_cursor t) = attrs_plain \<and>
     cur_row t * C + cur_col t = length s \<and> (t_wrap_pending t \<longleftrightarrow> cur_col t = C) \<and>
     laid_out C s t"

lemma typing_new: "typing (clamp c 1 500) (clamp r 1 200) [] (term_new c r)"
proof -
  have "clamp c 1 500 \<noteq> 0" by (simp add: clamp_def)
  then show ?thesis
    using term_wf_new [of c r]
    by (simp add: typing_def laid_out_def term_new_def Let_def cursor_default_def modes_default_def
        cur_row_def cur_col_def cell_at_def)
qed

lemma put_char_narrow:
  assumes "term_wf t" and "\<not> is_wide ch" and "cur_col t < t_cols t" and "m_auto_wrap (t_modes t)"
  shows "\<exists>u. put_char ch t = Some u \<and> term_wf u \<and> t_cols u = t_cols t \<and> t_rows u = t_rows t
     \<and> t_region_bottom u = t_region_bottom t \<and> t_modes u = t_modes t
     \<and> k_attrs (t_cursor u) = k_attrs (t_cursor t)
     \<and> cur_row u = cur_row t \<and> cur_col u = cur_col t + 1
     \<and> t_wrap_pending u = (t_wrap_pending t \<or> cur_col t + 1 = t_cols t)
     \<and> (\<forall>i < t_rows t. \<forall>j < t_cols t. cell_at u i j =
          (if i = cur_row t \<and> j = cur_col t then cell_new ch (k_attrs (t_cursor t)) else cell_at t i j))"
proof -
  note t = term_wfD [OF assms(1)]
  let ?cell = "cell_new ch (k_attrs (t_cursor t))"
  let ?r = "t_screen t ! cur_row t"
  have len: "t_cols t \<le> length (r_cells ?r)" using t(1,5,12) by (simp add: rows_wf_def)
  have w: "c_width ?cell = 1" using assms(2) by (simp add: cell_new_def)
  let ?t1 = "t\<lparr>t_screen := (t_screen t)[cur_row t := ?r\<lparr>r_cells := (r_cells ?r)[cur_col t := ?cell]\<rparr>]\<rparr>"
  let ?u = "(if cur_col t + 1 = t_cols t then (set_col (t_cols t) ?t1)\<lparr>t_wrap_pending := True\<rparr>
             else set_col (cur_col t + 1) ?t1)\<lparr>t_dirty := True\<rparr>"
  have put: "put_char ch t = Some ?u"
    using assms(3,4) len t(1,5) w
    by (auto simp: put_char_def Let_def with_row_def vec_get_def vec_set_def set_col_def)
  moreover have "ok (put_char ch t)" by (rule put_char_ok [OF assms(1)])
  then have "term_wf ?u" by (simp only: put ok_def) blast
  moreover have "cell_at ?u i j = (if i = cur_row t \<and> j = cur_col t then ?cell else cell_at t i j)"
    if "i < t_rows t" "j < t_cols t" for i j
    using that t(1,5) len by (simp add: cell_at_def nth_list_update set_col_def)
  ultimately show ?thesis
    using assms(3) by (intro exI [of _ ?u]) (simp add: set_col_def cur_row_def cur_col_def)
qed

lemma flat_index:
  assumes "(j::nat) < C" and "c < C"
  shows "i * C + j = r * C + c \<longleftrightarrow> i = r \<and> j = c"
proof
  assume "i * C + j = r * C + c"
  then have "(i * C + j) div C = (r * C + c) div C" "(i * C + j) mod C = (r * C + c) mod C" by simp_all
  then show "i = r \<and> j = c" using assms by simp
qed simp

text \<open>A pending wrap is resolved by going to the start of the next row.\<close>

lemma typing_wrap:
  assumes "typing C R s t" and "length s < C * R"
  obtains t1 where "(if t_wrap_pending t then line_feed t \<bind>
        (\<lambda>u. Some ((set_col 0 u)\<lparr>t_wrap_pending := False\<rparr>)) else Some t) = Some t1"
    "typing C R s t1" "cur_col t1 < C"
proof -
  have wf: "term_wf t" and C: "t_cols t = C" and R: "t_rows t = R"
    using assms(1) by (auto simp: typing_def)
  show thesis
  proof (cases "t_wrap_pending t")
    case False
    with assms(1) wf that show thesis
      using term_wfD(2) [OF wf] by (force simp: typing_def)
  next
    case True
    then have k: "length s = (cur_row t + 1) * C" using assms(1) by (simp add: typing_def)
    have next_row: "cur_row t + 1 < R"
    proof (rule ccontr)
      assume "\<not> cur_row t + 1 < R"
      then have "C * R \<le> C * (cur_row t + 1)" by (intro mult_le_mono2) simp
      with k assms(2) show False by (simp add: mult.commute)
    qed
    let ?t1 = "(set_col 0 (set_row (cur_row t + 1) (t\<lparr>t_wrap_pending := False\<rparr>)))\<lparr>t_wrap_pending := False\<rparr>"
    have "line_feed t = Some (set_row (cur_row t + 1) (t\<lparr>t_wrap_pending := False\<rparr>))"
      using next_row assms(1) by (simp add: line_feed_def Let_def typing_def cur_row_def)
    moreover have "typing C R s ?t1"
      using assms(1) wf next_row k R term_wfD(3) [OF wf] C
      by (auto simp: typing_def laid_out_def cell_at_def set_row_def set_col_def cur_row_def
          cur_col_def term_wf_defs cursor_wf_def)
    moreover have "cur_col ?t1 < C" using C term_wfD(3) [OF wf] by (simp add: cur_col_def set_col_def)
    ultimately show thesis using True that [of ?t1] by simp
  qed
qed

lemma typing_step:
  assumes "typing C R s t" and "length s < C * R" and "\<not> is_wide ch"
  shows "\<exists>u. term_apply (Print ch) t = Some u \<and> typing C R (s @ [ch]) u"
proof -
  obtain t1 where t1: "(if t_wrap_pending t then line_feed t \<bind>
        (\<lambda>u. Some ((set_col 0 u)\<lparr>t_wrap_pending := False\<rparr>)) else Some t) = Some t1"
    "typing C R s t1" "cur_col t1 < C" using typing_wrap [OF assms(1,2)] .
  have C: "t_cols t = C" and R: "t_rows t = R" using assms(1) by (auto simp: typing_def)
  have wf1: "term_wf t1" "t_cols t1 = C" "t_rows t1 = R" "\<not> m_insert (t_modes t1)"
    "m_auto_wrap (t_modes t1)" "cur_row t1 * C + cur_col t1 = length s" "\<not> t_wrap_pending t1"
    "k_attrs (t_cursor t1) = attrs_plain" "laid_out C s t1" "t_region_bottom t1 = R"
    using t1(2,3) by (auto simp: typing_def)
  obtain u where u: "put_char ch t1 = Some u" "term_wf u" "t_cols u = C" "t_rows u = R"
    "t_region_bottom u = R" "t_modes u = t_modes t1" "k_attrs (t_cursor u) = attrs_plain"
    "cur_row u = cur_row t1" "cur_col u = cur_col t1 + 1"
    "t_wrap_pending u = (cur_col t1 + 1 = C)"
    and cells: "\<And>i j. i < R \<Longrightarrow> j < C \<Longrightarrow> cell_at u i j =
       (if i = cur_row t1 \<and> j = cur_col t1 then cell_new ch attrs_plain else cell_at t1 i j)"
    using put_char_narrow [OF wf1(1) assms(3)] t1(3) wf1 by auto
  have "cell_at u i j = (if i * C + j < length (s @ [ch])
      then cell_new ((s @ [ch]) ! (i * C + j)) attrs_plain else cell_empty)"
    if "i < R" "j < C" for i j
  proof (cases "i = cur_row t1 \<and> j = cur_col t1")
    case True
    then have "i * C + j = length s" using wf1(6) by simp
    with True that cells show ?thesis by simp
  next
    case False
    then have "i * C + j \<noteq> length s" using flat_index [OF that(2) t1(3)] wf1(6) by metis
    with False that cells wf1(3,9) show ?thesis
      by (auto simp: laid_out_def nth_append)
  qed
  then have "typing C R (s @ [ch]) u"
    using u wf1 by (simp add: typing_def laid_out_def)
  moreover have "term_apply (Print ch) t = Some u"
    using t1(1) u(1) wf1(4) by (simp add: term_print_def)
  ultimately show ?thesis by blast
qed

lemma typing_run:
  assumes "typing C R s t" and "length s + length x \<le> C * R" and "\<forall>c \<in> set x. \<not> is_wide c"
  shows "\<exists>u. fold_opt term_apply (map Print x) t = Some u \<and> typing C R (s @ x) u"
  using assms
proof (induction x arbitrary: s t)
  case (Cons c x)
  then obtain u where u: "term_apply (Print c) t = Some u" "typing C R (s @ [c]) u"
    using typing_step [of C R s t c] by auto
  with Cons.IH [of "s @ [c]" u] Cons.prems show ?case by auto
qed simp

section \<open>Text beyond the last column\<close>

lemma print_at_edge:
  assumes "\<not> t_wrap_pending t" and "\<not> m_insert (t_modes t)" and "t_cols t \<le> cur_col t"
  shows "fold_opt term_apply (map Print s) t = Some t"
  using assms by (induction s) (simp_all add: term_print_def put_char_def Let_def)

end
