(* ===== verification/Term_Screen_Props.thy ===== *)
theory Term_Screen_Props
  imports Term_Screen_Text
begin

text \<open>
  The properties of the terminal: panic freedom and the invariant, resizing, the alternate
  screen, scroll regions, graphic rendition, text layout, and the inputs on which the code
  loses output or panics.
\<close>

section \<open>Resizing\<close>

lemma size_wf_clamp_Suc [simp]: "size_wf (clamp r (Suc 0) 200) (clamp c (Suc 0) 500)"
  using size_wf_clamp [of r c] by simp

lemma rows_wf_resized:
  "rows_wf n c s \<Longrightarrow> rows_wf n cols (map (\<lambda>r. r\<lparr>r_cells := vec_resize (r_cells r) cols v\<rparr>) s)"
  by (auto simp: rows_wf_def)

lemma rows_wf_grow: "rows_wf n c s \<Longrightarrow> n \<le> m \<Longrightarrow> rows_wf m c (vec_resize s m (row_blank c))"
  using set_vec_resize [of s m "row_blank c"] by (auto simp: rows_wf_def)

lemma rows_wf_drop: "rows_wf n c s \<Longrightarrow> rows_wf (n - k) c (drop k s)"
  by (auto simp: rows_wf_def dest: in_set_dropD)

lemma resize_live:
  assumes "live_wf t"
  shows "\<exists>u. term_resize c r t = Some u \<and> live_wf u \<and> t_cols u = clamp c 1 500
     \<and> t_rows u = clamp r 1 200 \<and> t_saved_screen u = t_saved_screen t
     \<and> t_saved_cursor u = t_saved_cursor t \<and> t_wrap_pending u = t_wrap_pending t
     \<and> t_modes u = t_modes t"
proof (cases "clamp c 1 500 = t_cols t \<and> clamp r 1 200 = t_rows t")
  case True
  with assms show ?thesis by (simp add: term_resize_def)
next
  case False
  let ?c = "clamp c 1 500" and ?r = "clamp r 1 200"
  have size: "size_wf ?r ?c" by simp
  let ?s = "map (\<lambda>r. r\<lparr>r_cells := vec_resize (r_cells r) ?c cell_empty\<rparr>) (t_screen t)"
  have wf: "rows_wf (t_rows t) ?c ?s"
    using assms unfolding live_wf_def by (blast intro: rows_wf_resized)
  show ?thesis
  proof (cases "?r > t_rows t")
    case True
    have "rows_wf ?r ?c (vec_resize ?s ?r (row_blank ?c))"
      using rows_wf_grow [OF wf] True by simp
    with True False assms size show ?thesis
      by (auto simp: term_resize_def Let_def live_wf_def cursor_wf_def size_wf_def)
  next
    case shrink: False
    have "rows_wf ?r ?c (drop (t_rows t - ?r) ?s)"
      using rows_wf_drop [OF wf, of "t_rows t - ?r"] shrink by simp
    moreover have "length (t_screen t) = t_rows t" using assms by (simp add: live_wf_def rows_wf_def)
    ultimately show ?thesis
      using shrink False assms size
      by (auto simp: term_resize_def Let_def live_wf_def cursor_wf_def size_wf_def back_wf_fold)
  qed
qed

lemma clear_rows_range:
  "fold_opt clear_row is t = Some u \<Longrightarrow> \<forall>i \<in> set is. i < length (t_screen t)"
proof (induction "is" arbitrary: t)
  case (Cons i "is")
  then obtain v where "clear_row i t = Some v" "fold_opt clear_row is v = Some u"
    by (auto split: bind_splits)
  moreover have "i < length (t_screen t)" "length (t_screen v) = length (t_screen t)"
    using calculation(1) by (auto simp: clear_row_def with_row_def vec_get_def split: bind_splits if_splits)
  ultimately show ?case using Cons.IH [of v] by simp
qed simp

section \<open>Properties\<close>

text \<open>
  C2: a terminal of any size, fed any chunks of bytes, never panics, and stays well formed: the
  screen has its rows and every row its columns, the cursor and the scroll region lie on the
  screen, and the scrollback holds at most 10000 lines.
\<close>

theorem terminal_never_panics:
  "\<exists>u. fold_opt term_advance chunks (term_new c r) = Some u \<and> term_wf u
     \<and> sb_len (t_scrollback u) \<le> 10000"
proof -
  have "keeps term_wf (fold_opt term_advance chunks)"
    by (intro keeps_fold keepsI term_advance_wf)
  then obtain u where "fold_opt term_advance chunks (term_new c r) = Some u" "term_wf u"
    using term_wf_new by (rule keepsE)
  then show ?thesis
    by (auto simp: term_wf_defs back_wf_def sb_inv_def sb_len_def default_scrollback_def)
qed

text \<open>
  Resizing a terminal that has saved neither a cursor nor a screen succeeds, gives the
  clamped size and a well formed terminal again.
\<close>

theorem resize_keeps_wf:
  assumes "term_wf t" and "t_saved_screen t = None" and "t_saved_cursor t = None"
  shows "\<exists>u. term_resize c r t = Some u \<and> term_wf u
     \<and> t_cols u = clamp c 1 500 \<and> t_rows u = clamp r 1 200"
  using resize_live [of t c r] assms by (auto simp: term_wf_def saved_wf_def)

theorem resize_keeps_wf_witness:
  "\<exists>u. term_resize 120 9999 (term_new 80 24) = Some u \<and> term_wf u
     \<and> t_cols u = clamp 120 1 500 \<and> t_rows u = clamp 9999 1 200"
  by (rule resize_keeps_wf [OF term_wf_new]) (simp_all add: term_new_def Let_def)

text \<open>
  The saved cursor is not resized. After \<open>ESC 7\<close> and a resize that removes the saved row,
  \<open>ESC 8\<close> puts the cursor on a row that no longer exists, and the next character printed
  panics.
\<close>

theorem resize_then_restore_panics:
  assumes "live_wf t" and "t_saved_cursor t = Some k" and "\<not> t_wrap_pending t"
    and "clamp r 1 200 \<le> k_row k" and "k_col k < clamp c 1 500"
  shows "\<exists>u. term_resize c r t = Some u
     \<and> fold_opt term_apply [Esc [] False 0x38, Print ch] u = None"
proof -
  obtain u where u: "term_resize c r t = Some u" "live_wf u" "t_cols u = clamp c 1 500"
    "t_rows u = clamp r 1 200" "t_saved_cursor u = Some k" "\<not> t_wrap_pending u"
    using resize_live [OF assms(1), of c r] assms(2,3) by auto
  have len: "length (t_screen u) \<le> k_row k"
    using u(2,4) assms(4) by (simp add: live_wf_def rows_wf_def)
  have "fold_opt term_apply [Esc [] False 0x38, Print ch] u = None"
    using u(3,5,6) len assms(5)
    by (simp add: esc_def restore_cursor_def term_print_def put_char_def Let_def with_row_def
        vec_get_def cur_row_def cur_col_def)
  with u(1) show ?thesis by blast
qed

theorem resize_then_restore_panics_witness:
  "\<exists>u. term_resize 80 1 ((save_cursor (set_row 5 (term_new 80 24)))) = Some u
     \<and> fold_opt term_apply [Esc [] False 0x38, Print 0x41] u = None"
proof (rule resize_then_restore_panics)
  have "term_wf (save_cursor (set_row 5 (term_new 80 24)))"
    using term_wf_new [of 80 24] by (intro save_cursor_wf term_wf_row) (simp_all add: term_new_def Let_def clamp_def)
  then show "live_wf (save_cursor (set_row 5 (term_new 80 24)))" by (simp add: term_wf_def)
  show "t_saved_cursor (save_cursor (set_row 5 (term_new 80 24)))
      = Some \<lparr>k_row = 5, k_col = 0, k_attrs = attrs_plain\<rparr>"
    by (simp add: save_cursor_def set_row_def term_new_def Let_def cursor_default_def)
qed (simp_all add: save_cursor_def set_row_def term_new_def Let_def clamp_def cursor_default_def)

text \<open>
  The saved screen is not resized either. When the window grew while the alternate screen
  was shown, leaving it restores a screen with too few rows, and clearing the display panics.
\<close>

theorem resize_on_alternate_screen_panics:
  assumes "live_wf t" and "m_alternate_screen (t_modes t)" and "t_saved_screen t = Some s"
    and "length s < clamp r 1 200"
  shows "\<exists>u. term_resize c r t = Some u
     \<and> fold_opt term_apply [Csi [1049] [0x3F] False 0x6C, Csi [2] [] False 0x4A] u = None"
proof -
  obtain u where u: "term_resize c r t = Some u" "t_rows u = clamp r 1 200"
    "t_saved_screen u = Some s" "m_alternate_screen (t_modes u)"
    using resize_live [OF assms(1), of c r] assms(2,3) by auto
  have p: "param [1049] 0 0 = 1049" "param [2] 0 0 = 2" by (simp_all add: param_def vec_get_def)
  obtain v where v: "term_apply (Csi [1049] [0x3F] False 0x6C) u = Some v"
    "t_screen v = s" "t_rows v = clamp r 1 200"
    using u(2-4) by (auto simp: csi_def p set_private_mode_def Let_def switch_screen_def
        restore_cursor_def split: option.split)
  have "fold_opt clear_row [0..<t_rows v] v = None"
  proof (rule ccontr)
    assume "fold_opt clear_row [0..<t_rows v] v \<noteq> None"
    then obtain w where "fold_opt clear_row [0..<t_rows v] v = Some w" by blast
    from clear_rows_range [OF this] v(2,3) assms(4) show False by auto
  qed
  then have "term_apply (Csi [2] [] False 0x4A) v = None"
    by (simp add: csi_def csi_action_def p Let_def erase_display_def)
  with u(1) v(1) show ?thesis by auto
qed

theorem resize_on_alternate_screen_panics_witness:
  "\<exists>u. term_resize 80 24 (switch_screen True (term_new 80 10)) = Some u
     \<and> fold_opt term_apply [Csi [1049] [0x3F] False 0x6C, Csi [2] [] False 0x4A] u = None"
proof (rule resize_on_alternate_screen_panics)
  show "live_wf (switch_screen True (term_new 80 10))"
    using switch_screen_wf [OF term_wf_new [of 80 10], of True] by (simp add: term_wf_def)
  show "t_saved_screen (switch_screen True (term_new 80 10)) = Some (replicate 10 (row_blank 80))"
    by (simp add: switch_screen_def term_new_def Let_def clamp_def modes_default_def)
qed (simp_all add: switch_screen_def term_new_def Let_def clamp_def modes_default_def)

text \<open>
  C3: the alternate screen round trip. Whatever is printed, executed, scrolled, erased, moved
  or restyled in between, leaving the alternate screen gives back the screen and the cursor
  that were there on entering it. Excluded are the actions that save a cursor, switch the
  screen themselves or reset the terminal.
\<close>

theorem alternate_screen_round_trip:
  assumes "term_wf t" and "\<not> m_alternate_screen (t_modes t)" and "\<forall>a \<in> set acts. neutral a"
  shows "\<exists>u. fold_opt term_apply
      ([Csi [1049] [0x3F] False 0x68] @ acts @ [Csi [1049] [0x3F] False 0x6C]) t = Some u
     \<and> t_screen u = t_screen t \<and> t_cursor u = t_cursor t \<and> \<not> m_alternate_screen (t_modes u)"
proof -
  have p: "param [1049] 0 0 = 1049" by (simp add: param_def vec_get_def)
  obtain v where v: "term_apply (Csi [1049] [0x3F] False 0x68) t = Some v" "term_wf v"
    using term_apply_ok [OF assms(1)] unfolding ok_def by blast
  have "v = switch_screen True t\<lparr>t_dirty := True\<rparr>"
    using v(1) by (simp add: csi_def p set_private_mode_def Let_def)
  then have sv: "saved v = (Some (t_screen t), Some (t_cursor t), True)"
    using assms(2) by (simp add: saved_def switch_screen_def Let_def)
  obtain w where w: "fold_opt term_apply acts v = Some w" "saved w = saved v"
    using neutral_run [OF v(2) assms(3)] by blast
  with sv have "t_saved_screen w = Some (t_screen t)" "t_saved_cursor w = Some (t_cursor t)"
    "m_alternate_screen (t_modes w)" by (simp_all add: saved_def)
  then have "\<exists>u. term_apply (Csi [1049] [0x3F] False 0x6C) w = Some u
     \<and> t_screen u = t_screen t \<and> t_cursor u = t_cursor t \<and> \<not> m_alternate_screen (t_modes u)"
    by (simp add: csi_def p set_private_mode_def Let_def switch_screen_def restore_cursor_def)
  with v(1) w(1) show ?thesis by (auto simp: fold_opt_append)
qed

theorem alternate_screen_round_trip_witness:
  "\<exists>u. fold_opt term_apply ([Csi [1049] [0x3F] False 0x68]
        @ [Print 0x41, Execute 0x0A, Csi [2] [] False 0x4A] @ [Csi [1049] [0x3F] False 0x6C])
        (term_new 80 24) = Some u
     \<and> t_screen u = t_screen (term_new 80 24) \<and> t_cursor u = t_cursor (term_new 80 24)
     \<and> \<not> m_alternate_screen (t_modes u)"
  by (rule alternate_screen_round_trip [OF term_wf_new])
    (simp_all add: term_new_def Let_def modes_default_def)

text \<open>
  \<open>CSI n S\<close> scrolls the region and nothing else: the rows above and below it keep their
  place, the rows inside move up by \<open>n\<close>, blank rows of the terminal's width fill the bottom.
  Only a region that is the whole screen hands the rows it loses to the scrollback.
\<close>

theorem scroll_up_confined:
  assumes "term_wf t" and "n \<noteq> 0"
  shows "\<exists>u. term_apply (Csi [n] [] False 0x53) t = Some u
     \<and> t_screen u = take (t_region_top t) (t_screen t)
         @ drop (unat n) (drop (t_region_top t) (take (t_region_bottom t) (t_screen t)))
         @ replicate (min (unat n) (t_region_bottom t - t_region_top t)) (row_blank (t_cols t))
         @ drop (t_region_bottom t) (t_screen t)
     \<and> (0 < t_region_top t \<or> t_region_bottom t < t_rows t \<longrightarrow> t_scrollback u = t_scrollback t)
     \<and> (t_region_top t = 0 \<and> t_region_bottom t = t_rows t \<and> unat n \<le> t_rows t \<longrightarrow>
          sb_lines (t_scrollback u)
            = last_n 10000 (sb_lines (t_scrollback t) @ take (unat n) (t_screen t)))"
proof -
  note t = term_wfD [OF assms(1)]
  obtain A M C where s: "t_screen t = A @ M @ C" "length A = t_region_top t" "M \<noteq> []"
    "length A + length M = t_region_bottom t" "A = take (t_region_top t) (t_screen t)"
    "C = drop (t_region_bottom t) (t_screen t)"
    "M = drop (t_region_top t) (take (t_region_bottom t) (t_screen t))"
    using region_parts [OF assms(1)] .
  have M: "length M = t_region_bottom t - t_region_top t" using s(2,4) by simp
  obtain b where b: "repeat_opt (unat n) scroll_up_once t = Some (t\<lparr>t_screen := A @
      (drop (unat n) M @ replicate (min (unat n) (length M)) (row_blank (t_cols t))) @ C,
      t_scrollback := b\<rparr>)"
    "A = [] \<and> length M = t_rows t \<and> unat n \<le> length M \<longrightarrow> b = fold sb_push (take (unat n) M) (t_scrollback t)"
    "\<not> (A = [] \<and> length M = t_rows t) \<longrightarrow> b = t_scrollback t"
    using scroll_up_repeat [OF s(1) s(2) [symmetric] s(4) [symmetric] s(3)] by blast
  have "param [n] 0 1 = n" using assms(2) by (simp add: param_def vec_get_def)
  then have run: "term_apply (Csi [n] [] False 0x53) t = Some (t\<lparr>t_screen := A @
      (drop (unat n) M @ replicate (min (unat n) (length M)) (row_blank (t_cols t))) @ C,
      t_scrollback := b, t_dirty := True\<rparr>)"
    using b(1) by (simp add: csi_def csi_action_def Let_def scroll_up_def)
  have full: "sb_lines b = last_n 10000 (sb_lines (t_scrollback t) @ take (unat n) (t_screen t))"
    if "t_region_top t = 0" "t_region_bottom t = t_rows t" "unat n \<le> t_rows t"
    using b(2) that s(2,4,7) t(5,13)
    by (simp add: sb.contents_fold back_wf_def default_scrollback_def)
  have part: "b = t_scrollback t" if "0 < t_region_top t \<or> t_region_bottom t < t_rows t"
    using b(3) that s(2,4) by auto
  show ?thesis
    unfolding run using full part
    by (simp add: s(5,6,7) [symmetric] M)
qed

theorem scroll_up_confined_witness:
  "\<exists>u. term_apply (Csi [3] [] False 0x53) (term_new 80 24) = Some u
     \<and> sb_lines (t_scrollback u) = replicate 3 (row_blank 80)"
  using scroll_up_confined [OF term_wf_new [of 80 24], of 3]
  by (auto simp: term_new_def Let_def clamp_def sb_new_def take_replicate)

text \<open>
  Graphic rendition is complete: for every combination of attributes and colours there are
  parameters that set exactly it, whatever the attributes were before.
\<close>

theorem sgr_round_trip:
  "term_apply (Csi (sgr_of a) [] False 0x6D) t
     = Some (t\<lparr>t_cursor := (t_cursor t)\<lparr>k_attrs := a\<rparr>, t_dirty := True\<rparr>)"
proof -
  have "sgr_of a \<noteq> []" by (simp add: sgr_of_def)
  then show ?thesis
    by (simp add: csi_def csi_action_def Let_def sgr_def sgr_loop_of)
qed

text \<open>
  C4: text layout. The bytes of a text of narrow characters that fits on a fresh screen fill it
  in row-major order, wrapping at the last column, and leave the rest blank.
\<close>

theorem text_fills_screen:
  assumes "length s \<le> clamp c 1 500 * clamp r 1 200"
    and "\<forall>x \<in> set s. is_scalar x \<and> 0x20 \<le> x \<and> \<not> is_wide x"
  shows "\<exists>u. advance_str s (term_new c r) = Some u \<and> laid_out (clamp c 1 500) s u"
proof -
  let ?t = "term_new c r"
  have idle: "parser_idle (t_parser ?t)" by (simp add: term_new_def Let_def)
  obtain q where q: "parser_advance (t_parser ?t) (as_bytes s) = Some (q, map Print s)" "parser_idle q"
    using idle_text [OF idle, of s] assms(2) by blast
  have "parser_inv q" using advance_inv [of "t_parser ?t" "as_bytes s"] q(1) term_wfD(14) [OF term_wf_new]
    by auto
  then have "typing (clamp c 1 500) (clamp r 1 200) [] (?t\<lparr>t_parser := q\<rparr>)"
    using typing_new [of c r]
    by (auto simp: typing_def laid_out_def cell_at_def cur_row_def cur_col_def)
  then obtain u where "fold_opt term_apply (map Print s) (?t\<lparr>t_parser := q\<rparr>) = Some u"
    "typing (clamp c 1 500) (clamp r 1 200) s u"
    using typing_run [of "clamp c 1 500" "clamp r 1 200" "[]" "term_new c r\<lparr>t_parser := q\<rparr>" s] assms
    by auto
  with q(1) show ?thesis
    by (auto simp: advance_str_def term_advance_def typing_def)
qed

theorem text_fills_screen_witness:
  "\<exists>u. advance_str (lit ''ls -la'') (term_new 4 2) = Some u \<and> laid_out (clamp 4 1 500) (lit ''ls -la'') u"
  by (rule text_fills_screen) (simp_all add: clamp_def is_scalar_def is_wide_def)

text \<open>
  A line feed that arrives while a wrap is pending cancels the wrap but leaves the cursor
  beyond the last column. Every character printed before the next carriage return or cursor
  movement is then dropped.
\<close>

theorem line_feed_after_full_line_loses_text:
  assumes "term_wf t" and "t_wrap_pending t" and "cur_col t = t_cols t"
    and "\<not> m_insert (t_modes t)"
  shows "\<exists>u. term_apply (Execute 0x0A) t = Some u
     \<and> (\<forall>s. fold_opt term_apply (map Print s) u = Some u)"
proof -
  let ?t = "t\<lparr>t_wrap_pending := False\<rparr>"
  have wf: "term_wf ?t" using assms(1) by simp
  obtain u where u: "line_feed t = Some u" "\<not> t_wrap_pending u" "\<not> m_insert (t_modes u)"
    "t_cols u \<le> cur_col u"
  proof (cases "cur_row t + 1 = t_region_bottom t")
    case True
    obtain v where v: "repeat_opt 1 scroll_up_once ?t = Some v" "scr ?t v"
      using keeps_run [OF keeps_repeat [OF scroll_up_once_keeps [OF wf]] wf, of 1] by blast
    then have "line_feed t = Some (v\<lparr>t_dirty := True\<rparr>)"
      using True by (simp add: line_feed_def Let_def scroll_up_def cur_row_def)
    with assms(3,4) scr_frame [OF v(2)] that show ?thesis by (simp add: cur_col_def)
  next
    case False
    with assms(3,4) that show ?thesis
      by (cases "cur_row t + 1 < t_rows t")
        (auto simp: line_feed_def Let_def cur_row_def cur_col_def set_row_def)
  qed
  then have "term_apply (Execute 0x0A) t = Some (u\<lparr>t_dirty := True\<rparr>)"
    by (simp add: execute_def)
  moreover have "fold_opt term_apply (map Print s) (u\<lparr>t_dirty := True\<rparr>) = Some (u\<lparr>t_dirty := True\<rparr>)" for s
    using u by (intro print_at_edge) (simp_all add: cur_col_def)
  ultimately show ?thesis by blast
qed

theorem line_feed_after_full_line_loses_text_witness:
  "\<exists>u. term_apply (Execute 0x0A) ((set_col 80 (term_new 80 24))\<lparr>t_wrap_pending := True\<rparr>) = Some u
     \<and> (\<forall>s. fold_opt term_apply (map Print s) u = Some u)"
proof (rule line_feed_after_full_line_loses_text)
  have "t_cols (term_new 80 24) = 80" by (simp add: term_new_def Let_def clamp_def)
  then show "term_wf ((set_col 80 (term_new 80 24))\<lparr>t_wrap_pending := True\<rparr>)"
    using term_wf_new [of 80 24] by simp
qed (simp_all add: term_new_def set_col_def cur_col_def Let_def clamp_def modes_default_def)

text \<open>
  A private mode sequence with any final byte but \<open>h\<close> resets the mode; the query
  \<open>CSI ? 25 n\<close>, for one, hides the cursor.
\<close>

theorem private_mode_any_final_disables:
  assumes "act \<noteq> 0x68"
  shows "\<exists>u. term_apply (Csi [25] [0x3F] False act) t = Some u \<and> \<not> m_cursor_visible (t_modes u)"
  using assms by (simp add: csi_def set_private_mode_def Let_def param_def vec_get_def)

theorem private_mode_any_final_disables_witness:
  "\<exists>u. term_apply (Csi [25] [0x3F] False 0x6E) (term_new 80 24) = Some u
     \<and> \<not> m_cursor_visible (t_modes u)"
  by (rule private_mode_any_final_disables) simp

text \<open>
  The terminal, unlike its parser, is not independent of how its input is cut into chunks:
  \<open>ESC c\<close> also resets the parser, and inside a chunk that happens after the whole chunk was
  parsed, so the sequence the chunk ends with is forgotten.
\<close>

theorem reset_depends_on_chunks:
  assumes "parser_idle (t_parser t)"
  shows "(\<exists>u. (term_advance [0x1B, 0x63] t \<bind> term_advance [0x1B, 0x5B]) = Some u
            \<and> p_state (t_parser u) = CsiEntry)
       \<and> (\<exists>u. term_advance [0x1B, 0x63, 0x1B, 0x5B] t = Some u \<and> p_state (t_parser u) = Ground)"
  using assms
  by (simp add: term_advance_def advance_Cons parser_step_def parser_idle_def escape_def Let_def
      esc_def term_new_def parser_new_def)

theorem reset_depends_on_chunks_witness:
  "(\<exists>u. (term_advance [0x1B, 0x63] (term_new 80 24) \<bind> term_advance [0x1B, 0x5B]) = Some u
       \<and> p_state (t_parser u) = CsiEntry)
   \<and> (\<exists>u. term_advance [0x1B, 0x63, 0x1B, 0x5B] (term_new 80 24) = Some u
       \<and> p_state (t_parser u) = Ground)"
  by (rule reset_depends_on_chunks) (simp add: term_new_def Let_def)

end
