(* ===== verification/Term_Input.thy ===== *)
theory Term_Input
  imports Term_Screen Term_Parser_Seq
begin

text \<open>
  Keyboard encoding, \<open>crates/rdt-terminal/src/input.rs\<close>: key presses and pasted text as the
  bytes sent to the remote side. The bytes are read back with the terminal's own parser.
\<close>

section \<open>Keys and modifiers\<close>

datatype key =
    KChar uchar | KEnter | KBackspace | KTab | KEscape | KUp | KDown | KRight | KLeft | KHome | KEnd
  | KPageUp | KPageDown | KInsert | KDelete | KF u8

text \<open>\<open>KeyModifier(u8)\<close>; its field is private, so a value is a union of the constants.\<close>

type_synonym key_modifier = u8

definition mod_none :: key_modifier where "mod_none = 0"
definition mod_shift :: key_modifier where "mod_shift = 1"
definition mod_alt :: key_modifier where "mod_alt = 2"
definition mod_control :: key_modifier where "mod_control = 4"

definition mod_union :: "key_modifier \<Rightarrow> key_modifier \<Rightarrow> key_modifier" where
  "mod_union a b = a OR b"

definition mod_contains :: "key_modifier \<Rightarrow> key_modifier \<Rightarrow> bool" where
  "mod_contains a b \<longleftrightarrow> a AND b \<noteq> 0"

definition xterm_parameter :: "key_modifier \<Rightarrow> u8" where
  "xterm_parameter m = m + 1"

section \<open>Encoding\<close>

definition function_letter :: "u8 \<Rightarrow> u8" where
  "function_letter n = (if n = 1 then 0x50 else if n = 2 then 0x51 else if n = 3 then 0x52 else 0x53)"

definition function_code :: "u8 \<Rightarrow> u8 list" where
  "function_code n =
     (if n = 5 then [0x31, 0x35] else if n = 6 then [0x31, 0x37] else if n = 7 then [0x31, 0x38]
      else if n = 8 then [0x31, 0x39] else if n = 9 then [0x32, 0x30] else if n = 10 then [0x32, 0x31]
      else if n = 11 then [0x32, 0x33] else [0x32, 0x34])"

definition encode_function_key :: "u8 \<Rightarrow> key_modifier \<Rightarrow> u8 list" where
  "encode_function_key number modifier =
     (if 1 \<le> number \<and> number \<le> 4 then
        (if modifier = 0 then [0x1B, 0x4F, function_letter number]
         else [0x1B, 0x5B, 0x31, 0x3B, 0x30 + modifier + 1] @ [function_letter number])
      else if 5 \<le> number \<and> number \<le> 12 then
        [0x1B, 0x5B] @ (if modifier \<noteq> 0 then [0x31, 0x3B, 0x30 + modifier + 1, 0x3B] else [])
          @ function_code number @ [0x7E]
      else [])"

definition encode_char_key :: "uchar \<Rightarrow> key_modifier \<Rightarrow> u8 list" where
  "encode_char_key ch modifiers =
     (if mod_contains modifiers mod_control \<and> is_ascii_lower ch then [byte ch - 0x61 + 1]
      else if mod_contains modifiers mod_control \<and> is_ascii_upper ch then [byte ch - 0x41 + 1]
      else if mod_contains modifiers mod_control \<and> ch = 32 then [0]
      else encode_utf8 ch)"

definition encode_cursor_key :: "u8 \<Rightarrow> key_modifier \<Rightarrow> modes \<Rightarrow> u8 list" where
  "encode_cursor_key letter modifier modes =
     (if modifier = 0 then
        (if m_application_cursor_keys modes then [0x1B, 0x4F, letter] else [0x1B, 0x5B, letter])
      else [0x1B, 0x5B, 0x31, 0x3B, 0x30 + modifier + 1, letter])"

definition encode_home_end :: "u8 \<Rightarrow> key_modifier \<Rightarrow> u8 list" where
  "encode_home_end letter modifier =
     (if modifier = 0 then [0x1B, 0x5B, letter]
      else [0x1B, 0x5B, 0x31, 0x3B, 0x30 + modifier + 1, letter])"

definition encode_edit_key :: "u8 \<Rightarrow> key_modifier \<Rightarrow> u8 list" where
  "encode_edit_key number modifier =
     (if modifier = 0 then [0x1B, 0x5B] @ [number] @ [0x7E]
      else [0x1B, 0x5B] @ [number] @ [0x3B] @ [0x30 + modifier + 1] @ [0x7E])"

fun encode_key :: "key \<Rightarrow> key_modifier \<Rightarrow> modes \<Rightarrow> u8 list" where
  "encode_key (KChar ch) modifiers modes = encode_char_key ch modifiers"
| "encode_key KEnter modifiers modes = [0x0D]"
| "encode_key KBackspace modifiers modes =
     (if mod_contains modifiers mod_alt then [0x1B, 0x7F] else [0x7F])"
| "encode_key KTab modifiers modes =
     (if mod_contains modifiers mod_shift then [0x1B, 0x5B, 0x5A] else [0x09])"
| "encode_key KEscape modifiers modes = [0x1B]"
| "encode_key KUp modifiers modes = encode_cursor_key 0x41 modifiers modes"
| "encode_key KDown modifiers modes = encode_cursor_key 0x42 modifiers modes"
| "encode_key KRight modifiers modes = encode_cursor_key 0x43 modifiers modes"
| "encode_key KLeft modifiers modes = encode_cursor_key 0x44 modifiers modes"
| "encode_key KHome modifiers modes = encode_home_end 0x48 modifiers"
| "encode_key KEnd modifiers modes = encode_home_end 0x46 modifiers"
| "encode_key KPageUp modifiers modes = encode_edit_key 0x35 modifiers"
| "encode_key KPageDown modifiers modes = encode_edit_key 0x36 modifiers"
| "encode_key KInsert modifiers modes = encode_edit_key 0x32 modifiers"
| "encode_key KDelete modifiers modes = encode_edit_key 0x33 modifiers"
| "encode_key (KF n) modifiers modes = encode_function_key n modifiers"

definition paste_start :: "u8 list" where
  "paste_start = [0x1B, 0x5B, 0x32, 0x30, 0x30, 0x7E]"

definition paste_end :: "u8 list" where
  "paste_end = [0x1B, 0x5B, 0x32, 0x30, 0x31, 0x7E]"

definition encode_paste :: "ustring \<Rightarrow> modes \<Rightarrow> u8 list" where
  "encode_paste text modes =
     (if \<not> m_bracketed_paste modes then as_bytes text
      else paste_start @ as_bytes text @ paste_end)"

definition encode_line :: "ustring \<Rightarrow> modes \<Rightarrow> u8 list" where
  "encode_line command modes = encode_paste command modes @ [0x0D]"

section \<open>Reading the encodings back\<close>

lemma show_small [simp]: "n < 10 \<Longrightarrow> show_nat n = [48 + n]"
  by (simp add: show_nat.simps [of n])

lemma show_two [simp]: "10 \<le> n \<Longrightarrow> n < 100 \<Longrightarrow> show_nat n = [48 + n div 10, 48 + n mod 10]"
  by (simp add: show_nat.simps [of n])

text \<open>The modifier digit of an xterm sequence is the parameter in decimal.\<close>

lemma modifier_digit:
  assumes "m \<le> 7"
  shows "0x30 + m + 1 = byte (48 + (unat m + 1))" "unat m + 1 < 10"
proof -
  have m: "unat m \<le> 7" using assms by (simp add: word_le_nat_alt)
  then show "unat m + 1 < 10" by simp
  show "0x30 + m + 1 = byte (48 + (unat m + 1))"
    by (simp add: byte_def algebra_simps)
qed

text \<open>The keys whose encoding is a control sequence, with its parameters and final byte.\<close>

fun key_sequence :: "key \<Rightarrow> (nat \<times> u8) option" where
  "key_sequence KUp = Some (1, 0x41)"
| "key_sequence KDown = Some (1, 0x42)"
| "key_sequence KRight = Some (1, 0x43)"
| "key_sequence KLeft = Some (1, 0x44)"
| "key_sequence KHome = Some (1, 0x48)"
| "key_sequence KEnd = Some (1, 0x46)"
| "key_sequence KInsert = Some (2, 0x7E)"
| "key_sequence KDelete = Some (3, 0x7E)"
| "key_sequence KPageUp = Some (5, 0x7E)"
| "key_sequence KPageDown = Some (6, 0x7E)"
| "key_sequence (KF n) = (if 1 \<le> n \<and> n \<le> 4 then Some (1, function_letter n) else None)"
| "key_sequence _ = None"

lemma key_sequence_final:
  "key_sequence k = Some (n, f) \<Longrightarrow> 0x40 \<le> f \<and> f \<le> 0x7E \<and> n < 10"
  by (cases k) (auto simp: function_letter_def split: if_splits)

lemma encode_key_sequence:
  assumes "key_sequence k = Some (n, f)" and "m \<noteq> 0" and "m \<le> 7"
  shows "encode_key k m modes = csi_sequence [] [n, unat m + 1] f"
proof -
  have "csi_sequence [] [n, unat m + 1] f
      = [0x1B, 0x5B, byte (48 + n), 0x3B, 0x30 + m + 1, f]"
    using key_sequence_final [OF assms(1)] modifier_digit [OF assms(3)]
    by (simp add: csi_sequence_def byte_def)
  moreover have "byte (48 + n) = (if n = 1 then 0x31 else if n = 2 then 0x32 else if n = 3 then 0x33
      else if n = 5 then 0x35 else if n = 6 then 0x36 else byte (48 + n))"
    by (simp add: byte_def)
  ultimately show ?thesis
    using assms(1,2)
    by (cases k) (auto simp: encode_cursor_key_def encode_home_end_def encode_edit_key_def
        encode_function_key_def split: if_splits)
qed

lemma idle_sequence:
  assumes "parser_idle p" and "0x40 \<le> f" and "f \<le> 0x7E"
  shows "\<exists>q. parser_advance p (csi_sequence [] [n] f) = Some (q, [Csi [clamp_u16 n] [] False f])
           \<and> parser_idle q"
proof -
  have "\<not> in_string p" using assms(1) by (simp add: parser_idle_def in_string_def)
  from csi_sequence_parse [OF this _ assms(2,3), of "[]" "[n]"] assms(1)
  show ?thesis by (auto simp: parser_idle_def private_marker_def)
qed

lemma paste_marks:
  "paste_start = csi_sequence [] [200] 0x7E" "paste_end = csi_sequence [] [201] 0x7E"
  by (simp_all add: paste_start_def paste_end_def csi_sequence_def byte_def
      show_nat.simps [of 200] show_nat.simps [of 201])

lemma idle_marks:
  assumes "parser_idle p"
  shows "\<exists>q. parser_advance p paste_start = Some (q, [Csi [200] [] False 0x7E]) \<and> parser_idle q"
    "\<exists>q. parser_advance p paste_end = Some (q, [Csi [201] [] False 0x7E]) \<and> parser_idle q"
  using idle_sequence [OF assms, of "0x7E" 200] idle_sequence [OF assms, of "0x7E" 201]
  by (simp_all add: paste_marks clamp_u16_def)

lemma as_bytes_end: "as_bytes (0x1B # lit ''[201~'') = paste_end"
  by (simp add: as_bytes_def encode_utf8_def paste_end_def byte_def)

definition plain_text :: "ustring \<Rightarrow> bool" where
  "plain_text s \<longleftrightarrow> (\<forall>c \<in> set s. is_scalar c \<and> 0x20 \<le> c)"

lemma plain_parse:
  "parser_idle p \<Longrightarrow> plain_text s \<Longrightarrow>
     \<exists>q. parser_advance p (as_bytes s) = Some (q, map Print s) \<and> parser_idle q"
  unfolding plain_text_def by (rule idle_text)

text \<open>Pieces that each keep the parser idle are read one after the other.\<close>

lemma idle_then:
  assumes "\<exists>q. parser_advance p a = Some (q, x) \<and> parser_idle q"
    and "\<And>q. parser_idle q \<Longrightarrow> \<exists>r. parser_advance q b = Some (r, y) \<and> parser_idle r"
  shows "\<exists>r. parser_advance p (a @ b) = Some (r, x @ y) \<and> parser_idle r"
proof -
  obtain q where q: "parser_advance p a = Some (q, x)" "parser_idle q" using assms(1) by blast
  obtain r where "parser_advance q b = Some (r, y)" "parser_idle r" using assms(2) q(2) by blast
  with q(1) show ?thesis by (auto simp: advance_append)
qed

text \<open>The codes of F5 to F12 are decimal numbers.\<close>

lemma function_codes:
  "n \<in> {5, 6, 7, 8, 9, 10, 11, 12} \<Longrightarrow> \<exists>k::nat. map byte (show_nat k) = function_code n"
proof -
  have "map byte (show_nat 15) = function_code 5" "map byte (show_nat 17) = function_code 6"
    "map byte (show_nat 18) = function_code 7" "map byte (show_nat 19) = function_code 8"
    "map byte (show_nat 20) = function_code 9" "map byte (show_nat 21) = function_code 10"
    "map byte (show_nat 23) = function_code 11" "map byte (show_nat 24) = function_code 12"
    by (simp_all add: function_code_def byte_def)
  then show "n \<in> {5, 6, 7, 8, 9, 10, 11, 12} \<Longrightarrow> ?thesis" by blast
qed

section \<open>Properties\<close>

text \<open>
  A modified cursor, editing or F1-F4 key is read back by the terminal's own parser as one
  control sequence that carries the key's code, its modifiers and its final byte.
\<close>

theorem modified_key_round_trip:
  assumes "key_sequence k = Some (n, f)" and "m \<noteq> 0" and "m \<le> 7" and "parser_idle p"
  shows "\<exists>q. parser_advance p (encode_key k m modes)
            = Some (q, [Csi [word_of_nat n, ucast (xterm_parameter m)] [] False f])
           \<and> p_state q = Ground"
proof -
  note s = key_sequence_final [OF assms(1)]
  have m: "unat m \<le> 7" using assms(3) by (simp add: word_le_nat_alt)
  have "unat (m + 1) = unat m + 1" using m by (simp add: unat_word_ariths)
  then have x: "clamp_u16 (unat m + 1) = ucast (xterm_parameter m)"
    using m by (simp add: xterm_parameter_def word_unat_eq_iff unsigned_ucast_eq take_bit_eq_mod)
  have n: "clamp_u16 n = word_of_nat n" using s by (simp add: clamp_u16_def)
  have "\<not> in_string p" using assms(4) by (simp add: parser_idle_def in_string_def)
  from csi_sequence_parse [OF this, of "[]" f "[n, unat m + 1]"] s
  show ?thesis
    by (auto simp: encode_key_sequence [OF assms(1-3)] private_marker_def x [simplified] n)
qed

theorem modified_key_round_trip_witness:
  "\<exists>q. parser_advance parser_new (encode_key KDelete mod_control modes_default)
     = Some (q, [Csi [word_of_nat 3, ucast (xterm_parameter mod_control)] [] False 0x7E])
     \<and> p_state q = Ground"
  by (rule modified_key_round_trip) (simp_all add: mod_control_def)

text \<open>
  A modified F5 to F12 does not follow that form. It is sent with the modifier before the
  key code and three parameters, so the parameter that names the key is 1 for all of them.
\<close>

theorem modified_function_key_parameters:
  assumes "5 \<le> n" and "n \<le> 12" and "m \<noteq> 0" and "m \<le> 7" and "parser_idle p"
  shows "\<exists>q code. parser_advance p (encode_key (KF n) m modes)
            = Some (q, [Csi [1, word_of_nat (unat m + 1), code] [] False 0x7E])"
proof -
  have n: "5 \<le> unat n" "unat n \<le> 12" using assms(1,2) by (simp_all add: word_le_nat_alt)
  have "unat n \<in> {5, 6, 7, 8, 9, 10, 11, 12}" using n by auto
  then have "n \<in> {5, 6, 7, 8, 9, 10, 11, 12}" by (auto simp: word_unat_eq_iff)
  then have code: "\<exists>k::nat. map byte (show_nat k) = function_code n"
    using function_codes by blast
  then obtain k where k: "map byte (show_nat k) = function_code n" by blast
  have "\<not> (1 \<le> n \<and> n \<le> 4)" using n by (simp add: word_le_nat_alt)
  then have enc: "encode_key (KF n) m modes = csi_sequence [] [1, unat m + 1, k] 0x7E"
    using assms(1-3) modifier_digit [OF assms(4)] k
    by (simp add: encode_function_key_def csi_sequence_def byte_def)
  have m: "clamp_u16 (unat m + 1) = word_of_nat (unat m + 1)"
    using modifier_digit(2) [OF assms(4)] by (simp add: clamp_u16_def)
  have "\<not> in_string p" using assms(5) by (simp add: parser_idle_def in_string_def)
  then have "\<exists>q. parser_advance p (csi_sequence [] [1, unat m + 1, k] 0x7E)
      = Some (q, [Csi (map clamp_u16 [1, unat m + 1, k]) [] False 0x7E])"
    using csi_sequence_parse [of p "[]" "0x7E" "[1, unat m + 1, k]"]
    by (auto simp: private_marker_def)
  moreover have "map clamp_u16 [1, unat m + 1, k] = [1, word_of_nat (unat m + 1), clamp_u16 k]"
    using m by (simp add: clamp_u16_def [of 1] clamp_u16_def [of "Suc 0"])
  ultimately show ?thesis unfolding enc by (auto simp only: )
qed

theorem modified_function_key_parameters_witness:
  "\<exists>q code. parser_advance parser_new (encode_key (KF 5) mod_shift modes_default)
     = Some (q, [Csi [1, word_of_nat (unat mod_shift + 1), code] [] False 0x7E])"
  by (rule modified_function_key_parameters) (simp_all add: mod_shift_def)

text \<open>
  Bracketed paste round trip: a text without control characters is received between the
  start and the end mark, as the characters it consists of.
\<close>

theorem paste_round_trip:
  assumes "m_bracketed_paste modes" and "plain_text s" and "parser_idle p"
  shows "\<exists>q. parser_advance p (encode_paste s modes)
     = Some (q, [Csi [200] [] False 0x7E] @ map Print s @ [Csi [201] [] False 0x7E]) \<and> parser_idle q"
proof -
  have "encode_paste s modes = paste_start @ as_bytes s @ paste_end"
    using assms(1) by (simp add: encode_paste_def)
  then show ?thesis
    by (simp only:) (intro idle_then idle_marks assms plain_parse)
qed

theorem paste_round_trip_witness:
  "\<exists>q. parser_advance parser_new (encode_paste (lit ''ls'') (modes_default\<lparr>m_bracketed_paste := True\<rparr>))
     = Some (q, [Csi [200] [] False 0x7E] @ map Print (lit ''ls'') @ [Csi [201] [] False 0x7E])
     \<and> parser_idle q"
  by (rule paste_round_trip) (simp_all add: plain_text_def is_scalar_def)

text \<open>
  The end mark inside the pasted text is sent as it is. What follows it reaches the remote
  side outside the brackets, as if it had been typed.
\<close>

theorem paste_escapes_brackets:
  assumes "m_bracketed_paste modes" and "plain_text a" and "plain_text b" and "parser_idle p"
  shows "\<exists>q. parser_advance p (encode_paste (a @ 0x1B # lit ''[201~'' @ b) modes)
     = Some (q, [Csi [200] [] False 0x7E] @ map Print a @ [Csi [201] [] False 0x7E]
                @ map Print b @ [Csi [201] [] False 0x7E]) \<and> parser_idle q"
proof -
  have "as_bytes (a @ 0x1B # lit ''[201~'' @ b) = as_bytes a @ paste_end @ as_bytes b"
    unfolding as_bytes_end [symmetric] by (simp add: as_bytes_def)
  then have "encode_paste (a @ 0x1B # lit ''[201~'' @ b) modes
      = paste_start @ as_bytes a @ paste_end @ as_bytes b @ paste_end"
    using assms(1) by (simp add: encode_paste_def)
  moreover have "\<exists>q. parser_advance p (paste_start @ as_bytes a @ paste_end @ as_bytes b @ paste_end)
     = Some (q, [Csi [200] [] False 0x7E] @ map Print a @ [Csi [201] [] False 0x7E]
                @ map Print b @ [Csi [201] [] False 0x7E]) \<and> parser_idle q"
    by (intro idle_then idle_marks plain_parse assms)
  ultimately show ?thesis by simp
qed

theorem paste_escapes_brackets_witness:
  "\<exists>q. parser_advance parser_new (encode_paste (lit ''a'' @ 0x1B # lit ''[201~'' @ lit ''rm'')
        (modes_default\<lparr>m_bracketed_paste := True\<rparr>))
     = Some (q, [Csi [200] [] False 0x7E] @ map Print (lit ''a'') @ [Csi [201] [] False 0x7E]
                @ map Print (lit ''rm'') @ [Csi [201] [] False 0x7E]) \<and> parser_idle q"
  by (rule paste_escapes_brackets) (simp_all add: plain_text_def is_scalar_def)

end
