(* ===== verification/Rdt_Error.thy ===== *)
theory Rdt_Error
  imports Rust_Str
begin

text \<open>
  The error type of the workspace, \<open>crates/rdt-types/src/error.rs\<close>. \<open>Result<T, RdtError>\<close> is a
  sum with the error on the left; \<open>and_then\<close> is the \<open>?\<close> operator. The boxed source of an error
  is kept as the text it displays, which is all the crates read of it.
\<close>

datatype error_code =
    EConfig | EIo | EPermission | ECrypto | EVault | EKeystore | ENetwork | ETimeout | ECancelled
  | EProtocol | EAuthentication | EHostKeyUnknown | EHostKeyMismatch | ETls | ETransfer
  | ETerminal | ESessionState | EPlatform | EService | ENotFound | EUnsupported | EInvalidInput
  | EInternal

fun code_str :: "error_code \<Rightarrow> string" where
  "code_str EConfig = ''config''"
| "code_str EIo = ''io''"
| "code_str EPermission = ''permission''"
| "code_str ECrypto = ''crypto''"
| "code_str EVault = ''vault''"
| "code_str EKeystore = ''keystore''"
| "code_str ENetwork = ''network''"
| "code_str ETimeout = ''timeout''"
| "code_str ECancelled = ''cancelled''"
| "code_str EProtocol = ''protocol''"
| "code_str EAuthentication = ''authentication''"
| "code_str EHostKeyUnknown = ''host_key_unknown''"
| "code_str EHostKeyMismatch = ''host_key_mismatch''"
| "code_str ETls = ''tls''"
| "code_str ETransfer = ''transfer''"
| "code_str ETerminal = ''terminal''"
| "code_str ESessionState = ''session_state''"
| "code_str EPlatform = ''platform''"
| "code_str EService = ''service''"
| "code_str ENotFound = ''not_found''"
| "code_str EUnsupported = ''unsupported''"
| "code_str EInvalidInput = ''invalid_input''"
| "code_str EInternal = ''internal''"

definition code_is_retryable :: "error_code \<Rightarrow> bool" where
  "code_is_retryable c \<longleftrightarrow> c \<in> {ENetwork, ETimeout, ESessionState, EInternal}"

definition needs_user_decision :: "error_code \<Rightarrow> bool" where
  "needs_user_decision c \<longleftrightarrow>
     c \<in> {EHostKeyUnknown, EHostKeyMismatch, ETls, EAuthentication, EPermission}"

record rdt_error =
  e_code :: error_code
  e_message :: ustring
  e_source :: "ustring option"
  e_context :: "ustring list"

type_synonym 'a rdt_result = "rdt_error + 'a"

definition error_new :: "error_code \<Rightarrow> ustring \<Rightarrow> rdt_error" where
  "error_new c msg = \<lparr>e_code = c, e_message = msg, e_source = None, e_context = []\<rparr>"

definition with_source :: "ustring \<Rightarrow> rdt_error \<Rightarrow> rdt_error" where
  "with_source src e = e\<lparr>e_source := Some src\<rparr>"

definition with_context :: "ustring \<Rightarrow> rdt_error \<Rightarrow> rdt_error" where
  "with_context ctx e = e\<lparr>e_context := e_context e @ [ctx]\<rparr>"

definition error_is_retryable :: "rdt_error \<Rightarrow> bool" where
  "error_is_retryable e = code_is_retryable (e_code e)"

definition to_single_line :: "rdt_error \<Rightarrow> ustring" where
  "to_single_line e =
     join (lit '': '') (rev (e_context e) @ [e_message e]
       @ (case e_source e of Some s \<Rightarrow> [s] | None \<Rightarrow> []))"

definition error_display :: "rdt_error \<Rightarrow> ustring" where
  "error_display e = lit (code_str (e_code e)) @ lit '': '' @ to_single_line e"

text \<open>\<open>std::io::Error\<close>: its kind, as far as the conversion distinguishes it, and its text.\<close>

datatype io_kind =
    IoPermissionDenied | IoNotFound | IoTimedOut | IoConnectionRefused | IoConnectionReset
  | IoConnectionAborted | IoUnexpectedEof | IoInterrupted | IoOther

type_synonym io_error = "io_kind \<times> ustring"

definition io_code :: "io_kind \<Rightarrow> error_code" where
  "io_code k =
     (case k of
        IoPermissionDenied \<Rightarrow> EPermission
      | IoNotFound \<Rightarrow> EIo
      | IoTimedOut \<Rightarrow> ETimeout
      | IoConnectionRefused \<Rightarrow> ENetwork
      | IoConnectionReset \<Rightarrow> ENetwork
      | IoConnectionAborted \<Rightarrow> ENetwork
      | IoUnexpectedEof \<Rightarrow> ENetwork
      | IoInterrupted \<Rightarrow> ECancelled
      | IoOther \<Rightarrow> EIo)"

definition error_of_io :: "io_kind \<Rightarrow> ustring \<Rightarrow> rdt_error" where
  "error_of_io k msg = with_source msg (error_new (io_code k) msg)"

fun and_then :: "'e + 'a \<Rightarrow> ('a \<Rightarrow> 'e + 'b) \<Rightarrow> 'e + 'b" where
  "and_then (Inl e) f = Inl e"
| "and_then (Inr x) f = f x"

text \<open>A value between single quotes in a message.\<close>

definition quoted :: "ustring \<Rightarrow> ustring" where
  "quoted s = [39] @ s @ [39]"

definition fail :: "error_code \<Rightarrow> ustring \<Rightarrow> 'a rdt_result" where
  "fail c msg = Inl (error_new c msg)"

lemma fail_simps [simp]:
  "fail c msg \<noteq> Inr x" "fail c msg = Inl e \<longleftrightarrow> e = error_new c msg"
  by (auto simp: fail_def)

lemma error_new_code [simp]: "e_code (error_new c msg) = c"
  by (simp add: error_new_def)

lemma and_then_Inr: "and_then r f = Inr y \<longleftrightarrow> (\<exists>x. r = Inr x \<and> f x = Inr y)"
  by (cases r) auto

lemma and_then_assoc: "and_then (and_then r f) g = and_then r (\<lambda>x. and_then (f x) g)"
  by (cases r) auto

text \<open>No code is both: a failure that needs a human is never retried automatically.\<close>

lemma retryable_or_decision: "\<not> (code_is_retryable c \<and> needs_user_decision c)"
  by (cases c) (simp_all add: code_is_retryable_def needs_user_decision_def)

end
