(* ===== verification/Rdt_Proto.thy ===== *)
theory Rdt_Proto
  imports Rdt_Error Complex_Main
begin

text \<open>
  Protocols, endpoints, policies and connection options, \<open>crates/rdt-types/src/proto.rs\<close>. The
  font size, an \<open>f32\<close> that the code only stores and compares with small bounds, is a rational
  number. Serialisation is derived by a library and not modelled. Arithmetic that overflows
  panics, the outer \<open>None\<close> of \<open>delay_for\<close>.
\<close>

section \<open>Protocols and endpoints\<close>

datatype protocol = Ssh | Rdp

definition default_port :: "protocol \<Rightarrow> u16" where
  "default_port p = (case p of Ssh \<Rightarrow> 22 | Rdp \<Rightarrow> 3389)"

definition protocol_str :: "protocol \<Rightarrow> ustring" where
  "protocol_str p = (case p of Ssh \<Rightarrow> lit ''ssh'' | Rdp \<Rightarrow> lit ''rdp'')"

definition protocol_label :: "protocol \<Rightarrow> ustring" where
  "protocol_label p = (case p of Ssh \<Rightarrow> lit ''SSH'' | Rdp \<Rightarrow> lit ''RDP'')"

definition protocol_from_str :: "ustring \<Rightarrow> protocol rdt_result" where
  "protocol_from_str text =
     (let t = to_ascii_lowercase (trim text) in
      if t = lit ''ssh'' then Inr Ssh
      else if t = lit ''rdp'' \<or> t = lit ''rdp-tcp'' then Inr Rdp
      else fail EInvalidInput (lit ''unknown protocol '' @ quoted t
             @ lit ''; expected '' @ quoted (lit ''ssh'') @ lit '' or '' @ quoted (lit ''rdp'')))"

record endpoint =
  ep_host :: ustring
  ep_port :: u16

definition validate_host :: "ustring \<Rightarrow> unit rdt_result" where
  "validate_host host =
     (if host = [] then fail EInvalidInput (lit ''host must not be empty'')
      else if str_len host > 253 then fail EInvalidInput (lit ''host name too long'')
      else if list_ex is_whitespace host then
        fail EInvalidInput (lit ''host must not contain whitespace'')
      else if 47 \<in> set host \<or> 64 \<in> set host then
        fail EInvalidInput (lit ''host must not contain '' @ quoted (lit ''/'')
          @ lit '' or '' @ quoted (lit ''@''))
      else Inr ())"

definition endpoint_new :: "ustring \<Rightarrow> u16 \<Rightarrow> endpoint rdt_result" where
  "endpoint_new host port =
     and_then (validate_host host) (\<lambda>_. Inr \<lparr>ep_host = host, ep_port = port\<rparr>)"

definition parse_port :: "ustring \<Rightarrow> u16 rdt_result" where
  "parse_port text =
     (case parse_unsigned 65535 (trim text) of
        Some n \<Rightarrow> Inr (word_of_nat n)
      | None \<Rightarrow> fail EInvalidInput (lit ''invalid port '' @ quoted text))"

definition endpoint_parse :: "ustring \<Rightarrow> protocol \<Rightarrow> endpoint rdt_result" where
  "endpoint_parse text0 protocol =
     (let text = trim text0 in
      if text = [] then fail EInvalidInput (lit ''empty host'')
      else
        (case strip_prefix [91] text of
           Some rest \<Rightarrow>
             (case split_once 93 rest of
                None \<Rightarrow> fail EInvalidInput (lit ''unterminated IPv6 literal'')
              | Some (host, remainder) \<Rightarrow>
                  and_then
                    (case strip_prefix [58] remainder of
                       Some port_text \<Rightarrow> parse_port port_text
                     | None \<Rightarrow>
                         if remainder = [] then Inr (default_port protocol)
                         else fail EInvalidInput (lit ''unexpected suffix ''
                                @ quoted remainder @ lit '' after IPv6 literal''))
                    (endpoint_new host))
         | None \<Rightarrow>
             (case rsplit_once 58 text of
                Some (host, port_text) \<Rightarrow>
                  if host \<noteq> [] then and_then (parse_port port_text) (endpoint_new host)
                  else endpoint_new text (default_port protocol)
              | None \<Rightarrow> endpoint_new text (default_port protocol))))"

definition endpoint_display :: "endpoint \<Rightarrow> ustring" where
  "endpoint_display e =
     (if 58 \<in> set (ep_host e) then [91] @ ep_host e @ [93, 58] @ show_nat (unat (ep_port e))
      else ep_host e @ [58] @ show_nat (unat (ep_port e)))"

section \<open>Policies and secrets\<close>

datatype host_key_policy = Strict | AcceptNew

definition host_key_policy_str :: "host_key_policy \<Rightarrow> ustring" where
  "host_key_policy_str p = (case p of Strict \<Rightarrow> lit ''strict'' | AcceptNew \<Rightarrow> lit ''accept-new'')"

definition auto_accepts_unknown :: "host_key_policy \<Rightarrow> bool" where
  "auto_accepts_unknown p \<longleftrightarrow> p = AcceptNew"

definition host_key_policy_from_str :: "ustring \<Rightarrow> host_key_policy rdt_result" where
  "host_key_policy_from_str text =
     (let t = to_ascii_lowercase (trim text) in
      if t = lit ''strict'' then Inr Strict
      else if t = lit ''accept-new'' \<or> t = lit ''acceptnew'' then Inr AcceptNew
      else fail EInvalidInput (lit ''unknown host key policy '' @ quoted t))"

datatype secret_backend = OsKeystore | EncryptedVault

definition secret_backend_str :: "secret_backend \<Rightarrow> ustring" where
  "secret_backend_str b =
     (case b of OsKeystore \<Rightarrow> lit ''os-keystore'' | EncryptedVault \<Rightarrow> lit ''encrypted-vault'')"

record stored_secret =
  ss_backend :: secret_backend
  ss_key :: ustring

datatype credential_source = Prompt | Stored stored_secret

record private_key_auth =
  pk_path :: ustring
  pk_passphrase :: credential_source

definition private_key_auth_default :: private_key_auth where
  "private_key_auth_default = \<lparr>pk_path = lit ''~/.ssh/id_ed25519'', pk_passphrase = Prompt\<rparr>"

datatype auth_method =
    AuthNone
  | Password credential_source
  | PrivateKey private_key_auth
  | Agent "ustring option"
  | KeyboardInteractive credential_source

definition auth_method_default :: auth_method where
  "auth_method_default = Password Prompt"

definition auth_describe :: "auth_method \<Rightarrow> string" where
  "auth_describe a =
     (case a of
        AuthNone \<Rightarrow> ''none''
      | Password _ \<Rightarrow> ''password''
      | PrivateKey key \<Rightarrow>
          if pk_passphrase key = Prompt then ''private key'' else ''private key (stored passphrase)''
      | Agent _ \<Rightarrow> ''ssh agent''
      | KeyboardInteractive _ \<Rightarrow> ''keyboard-interactive'')"

section \<open>Reconnection\<close>

record reconnect_policy =
  rc_enabled :: bool
  rc_max_attempts :: u32
  rc_initial_backoff :: u64
  rc_max_backoff :: u64

definition reconnect_default :: reconnect_policy where
  "reconnect_default =
     \<lparr>rc_enabled = True, rc_max_attempts = 5, rc_initial_backoff = 2, rc_max_backoff = 60\<rparr>"

definition delay_for :: "reconnect_policy \<Rightarrow> u32 \<Rightarrow> u64 option option" where
  "delay_for p attempt =
     (if \<not> rc_enabled p \<or> attempt = 0 then Some None
      else if rc_max_attempts p > 0 \<and> attempt > rc_max_attempts p then Some None
      else
        (let exp = min (sat_sub attempt 1) 6;
             base = min (sat_mul (rc_initial_backoff p) (push_bit (unat exp) 1))
                        (max (rc_max_backoff p) (rc_initial_backoff p));
             jitter = base div 4 * ucast (attempt mod 4) in
         if unat base + unat jitter < 2 ^ 64
         then Some (Some (min (base + jitter) (max (rc_max_backoff p) base)))
         else None))"

definition reconnect_validate :: "reconnect_policy \<Rightarrow> unit rdt_result" where
  "reconnect_validate p =
     (if rc_initial_backoff p = 0 then
        fail EInvalidInput (lit ''reconnect initial backoff must be at least one second'')
      else if rc_max_backoff p < rc_initial_backoff p then
        fail EInvalidInput (lit ''reconnect max backoff must be >= initial backoff'')
      else Inr ())"

section \<open>Connection options\<close>

record terminal_options =
  to_cols :: u16
  to_rows :: u16
  to_scrollback_lines :: nat
  to_font_size :: rat
  to_term :: ustring
  to_bell :: bool

definition terminal_options_default :: terminal_options where
  "terminal_options_default =
     \<lparr>to_cols = 100, to_rows = 30, to_scrollback_lines = 5000, to_font_size = 14,
      to_term = lit ''xterm-256color'', to_bell = True\<rparr>"

record ssh_options =
  so_keepalive_secs :: u64
  so_connect_timeout_secs :: u64
  so_idle_timeout_secs :: u64
  so_compression :: bool
  so_host_key_policy :: host_key_policy
  so_known_hosts :: "ustring option"
  so_terminal :: terminal_options
  so_command :: "ustring option"
  so_environment :: "ustring list"
  so_sftp_enabled :: bool
  so_reconnect :: reconnect_policy

definition ssh_options_default :: ssh_options where
  "ssh_options_default =
     \<lparr>so_keepalive_secs = 30, so_connect_timeout_secs = 15, so_idle_timeout_secs = 0,
      so_compression = False, so_host_key_policy = Strict, so_known_hosts = None,
      so_terminal = terminal_options_default, so_command = None, so_environment = [],
      so_sftp_enabled = True, so_reconnect = reconnect_default\<rparr>"

datatype color_depth = Rgb565 | TrueColor24 | TrueColor32

definition bits_per_pixel :: "color_depth \<Rightarrow> u8" where
  "bits_per_pixel d = (case d of Rgb565 \<Rightarrow> 16 | TrueColor24 \<Rightarrow> 24 | TrueColor32 \<Rightarrow> 32)"

datatype cert_policy = Verify | VerifyOrPinned | TrustOnFirstUse

record rdp_options =
  ro_width :: u16
  ro_height :: u16
  ro_color_depth :: color_depth
  ro_cert_policy :: cert_policy
  ro_pinned_fingerprint :: "ustring option"
  ro_ca_bundle :: "ustring option"
  ro_clipboard :: bool
  ro_dynamic_resize :: bool
  ro_domain :: "ustring option"
  ro_console_session :: bool
  ro_allow_tls_fallback :: bool
  ro_reconnect :: reconnect_policy
  ro_connect_timeout_secs :: u64

definition rdp_options_default :: rdp_options where
  "rdp_options_default =
     \<lparr>ro_width = 1280, ro_height = 800, ro_color_depth = TrueColor24, ro_cert_policy = Verify,
      ro_pinned_fingerprint = None, ro_ca_bundle = None, ro_clipboard = True,
      ro_dynamic_resize = True, ro_domain = None, ro_console_session = False,
      ro_allow_tls_fallback = False, ro_reconnect = reconnect_default,
      ro_connect_timeout_secs = 15\<rparr>"

record keyboard_layout =
  kl_id :: u32
  kl_name :: string

definition keyboard_layouts :: "keyboard_layout list" where
  "keyboard_layouts =
     [\<lparr>kl_id = 0x409, kl_name = ''US English''\<rparr>, \<lparr>kl_id = 0x809, kl_name = ''UK English''\<rparr>,
      \<lparr>kl_id = 0x407, kl_name = ''German''\<rparr>, \<lparr>kl_id = 0x40C, kl_name = ''French''\<rparr>,
      \<lparr>kl_id = 0x40A, kl_name = ''Spanish''\<rparr>]"

end
