(* ===== verification/Rdt_Proto_Props.thy ===== *)
theory Rdt_Proto_Props
  imports Rdt_Proto
begin

text \<open>
  Properties of endpoints and of the reconnection policy: parsing accepts only valid hosts,
  displayed endpoints parse back, and the bounds of the reconnection delay.
\<close>

section \<open>Endpoints\<close>

text \<open>What a host that passed validation is.\<close>

definition valid_host :: "ustring \<Rightarrow> bool" where
  "valid_host h \<longleftrightarrow> h \<noteq> [] \<and> str_len h \<le> 253
     \<and> (\<forall>c \<in> set h. \<not> is_whitespace c \<and> c \<noteq> 47 \<and> c \<noteq> 64)"

lemma validate_host_iff: "validate_host h = Inr u \<longleftrightarrow> valid_host h"
  by (auto simp: validate_host_def valid_host_def list_ex_iff)

lemma endpoint_new_iff:
  "endpoint_new h p = Inr e \<longleftrightarrow> valid_host h \<and> e = \<lparr>ep_host = h, ep_port = p\<rparr>"
  by (auto simp: endpoint_new_def and_then_Inr validate_host_iff)

lemma endpoint_parse_cases:
  assumes "endpoint_parse s p = Inr e"
  obtains h q where "endpoint_new h q = Inr e"
  using assms
  by (auto simp: endpoint_parse_def Let_def and_then_Inr split: if_splits option.splits prod.splits)

lemma parse_port_show: "parse_port (show_nat (unat (q :: u16))) = Inr q"
proof -
  have "unat q \<le> 65535" using unsigned_less [of q, where ?'a = nat] by simp
  then show ?thesis by (simp add: parse_port_def parse_show)
qed

lemma no_ws_parts:
  "\<forall>c \<in> set s. \<not> is_whitespace c \<Longrightarrow> \<forall>c \<in> set t. \<not> is_whitespace c \<Longrightarrow> trim (s @ t) = s @ t"
  by (rule trim_no_whitespace) auto

lemma show_nat_ws: "\<forall>c \<in> set (show_nat n). \<not> is_whitespace c"
  by (auto dest: show_nat_no_whitespace)

lemma show_nat_colon: "58 \<notin> set (show_nat n)"
  by (auto dest: show_nat_digits simp: is_ascii_digit_def)

lemma strip_bracket: "h \<noteq> [] \<Longrightarrow> hd h \<noteq> 91 \<Longrightarrow> strip_prefix [91] (h @ t) = None"
  by (cases h) auto

lemma ws_delims [simp]: "\<not> is_whitespace 58" "\<not> is_whitespace 91" "\<not> is_whitespace 93"
  by (simp_all add: is_whitespace_def)

lemma parse_plain:
  assumes "valid_host h" and "hd h \<noteq> 91"
  shows "endpoint_parse (h @ 58 # show_nat (unat q)) p = Inr \<lparr>ep_host = h, ep_port = q\<rparr>"
proof -
  let ?t = "h @ 58 # show_nat (unat q)"
  have h: "h \<noteq> []" "\<forall>c \<in> set h. \<not> is_whitespace c" using assms(1) by (auto simp: valid_host_def)
  have "trim ?t = ?t" using h(2) show_nat_ws by (intro no_ws_parts) auto
  moreover have "rsplit_once 58 ?t = Some (h, show_nat (unat q))"
    by (rule rsplit_once_append) (rule show_nat_colon)
  ultimately show ?thesis
    using h assms by (simp add: endpoint_parse_def Let_def strip_bracket parse_port_show endpoint_new_iff)
qed

lemma parse_bracketed:
  assumes "valid_host h" and "93 \<notin> set h"
  shows "endpoint_parse (91 # h @ 93 # 58 # show_nat (unat q)) p = Inr \<lparr>ep_host = h, ep_port = q\<rparr>"
proof -
  let ?t = "91 # h @ 93 # 58 # show_nat (unat q)"
  have "\<forall>c \<in> set h. \<not> is_whitespace c" using assms(1) by (auto simp: valid_host_def)
  then have "trim ?t = ?t"
    using show_nat_ws [of "unat q"] by (intro trim_no_whitespace) auto
  moreover have "split_once 93 (h @ 93 # 58 # show_nat (unat q)) = Some (h, 58 # show_nat (unat q))"
    by (rule split_once_append) (rule assms(2))
  ultimately show ?thesis
    using assms by (simp add: endpoint_parse_def Let_def parse_port_show endpoint_new_iff)
qed

section \<open>Reconnection delays\<close>

text \<open>The exponential part of the delay, over natural numbers.\<close>

definition backoff :: "reconnect_policy \<Rightarrow> u32 \<Rightarrow> nat" where
  "backoff p attempt =
     min (unat (rc_initial_backoff p) * 2 ^ min (unat attempt - 1) 6) (unat (rc_max_backoff p))"

lemma unat_min: "unat (min a b) = min (unat a) (unat b)" for a b :: "'a::len word"
  by (simp add: min_def word_le_nat_alt)

lemma unat_max: "unat (max a b) = max (unat a) (unat b)" for a b :: "'a::len word"
  by (simp add: max_def word_le_nat_alt)

lemma unat_shift: "k \<le> 6 \<Longrightarrow> unat (push_bit k 1 :: u64) = 2 ^ k"
proof -
  assume "k \<le> 6"
  then have "(2::nat) ^ k \<le> 2 ^ 6" by (rule power_increasing) simp
  then have k: "(2::nat) ^ k < 2 ^ 64" by simp
  have "(push_bit k 1 :: u64) = word_of_nat (2 ^ k)" by (simp add: push_bit_eq_mult)
  with k show ?thesis by (simp only: unat_of_nat) simp
qed

text \<open>The bounds the delay of a validated policy obeys, with the jitter written out.\<close>

lemma u64_bound: "unat (w :: u64) < 2 ^ 64"
proof -
  have "unat w < 2 ^ LENGTH(64)" by (rule unsigned_less)
  then show ?thesis by simp
qed

definition retry_due :: "reconnect_policy \<Rightarrow> u32 \<Rightarrow> bool" where
  "retry_due p attempt \<longleftrightarrow>
     rc_enabled p \<and> attempt \<noteq> 0 \<and> (rc_max_attempts p = 0 \<or> attempt \<le> rc_max_attempts p)"

text \<open>The backoff and the jitter that is added to it: a quarter of it, once, twice or three times.\<close>

definition jittered :: "reconnect_policy \<Rightarrow> u32 \<Rightarrow> nat" where
  "jittered p attempt = backoff p attempt + backoff p attempt div 4 * (unat attempt mod 4)"

lemma delay_for_value:
  assumes due: "retry_due p attempt" and valid: "reconnect_validate p = Inr ()"
  shows "delay_for p attempt = None \<longleftrightarrow> 2 ^ 64 \<le> jittered p attempt"
    and "delay_for p attempt = Some r \<Longrightarrow>
      \<exists>d. r = Some d \<and> unat d = min (jittered p attempt) (unat (rc_max_backoff p))"
proof -
  let ?i = "unat (rc_initial_backoff p)" and ?m = "unat (rc_max_backoff p)"
  have im: "?i \<le> ?m"
    using valid by (auto simp: reconnect_validate_def word_le_nat_alt not_less split: if_splits)
  let ?exp = "min (sat_sub attempt 1) 6"
  have e: "unat ?exp = min (unat attempt - 1) 6" by (simp add: unat_min unat_sat_sub)
  have "unat (push_bit (unat ?exp) 1 :: u64) = 2 ^ min (unat attempt - 1) 6"
    unfolding e by (rule unat_shift) simp
  moreover have "?m \<le> 2 ^ 64 - 1" using u64_bound [of "rc_max_backoff p"] by simp
  ultimately have base: "unat (min (sat_mul (rc_initial_backoff p) (push_bit (unat ?exp) 1))
      (max (rc_max_backoff p) (rc_initial_backoff p))) = backoff p attempt"
    using im by (simp add: unat_min unat_max unat_sat_mul backoff_def max_absorb1 del: push_bit_of_1)
        (simp add: min.assoc min_absorb2)
  obtain b where b: "b = min (sat_mul (rc_initial_backoff p) (push_bit (unat ?exp) 1))
      (max (rc_max_backoff p) (rc_initial_backoff p))" by blast
  with base have ub: "unat b = backoff p attempt" by simp
  have bm: "unat b \<le> ?m" unfolding ub by (simp add: backoff_def)
  have "unat attempt mod 4 \<le> 3" by presburger
  then have "unat b div 4 * (unat attempt mod 4) \<le> unat b div 4 * 3" by (rule mult_le_mono2)
  also have "\<dots> \<le> unat b" by simp
  finally have jb: "unat b div 4 * (unat attempt mod 4) < 2 ^ 64" using u64_bound [of b] by simp
  have quarter: "unat b div 4 < 2 ^ 64" using u64_bound [of b] by simp
  have "unat (ucast (attempt mod 4) :: u64) = unat attempt mod 4"
    by (simp add: unsigned_ucast_eq unat_mod take_bit_nat_eq_self_iff)
  then have j: "unat (b div 4 * ucast (attempt mod 4)) = unat b div 4 * (unat attempt mod 4)"
    using jb quarter by (simp add: unat_word_ariths unat_div_distrib)
  have delay: "delay_for p attempt = (if jittered p attempt < 2 ^ 64
      then Some (Some (min (b + b div 4 * ucast (attempt mod 4)) (max (rc_max_backoff p) b))) else None)"
    using due unfolding delay_for_def retry_due_def Let_def b [symmetric] j ub jittered_def by auto
  then show "delay_for p attempt = None \<longleftrightarrow> 2 ^ 64 \<le> jittered p attempt" by (simp add: not_less)
  assume "delay_for p attempt = Some r"
  with delay have small: "jittered p attempt < 2 ^ 64"
    and r: "r = Some (min (b + b div 4 * ucast (attempt mod 4)) (max (rc_max_backoff p) b))" by (simp_all split: if_splits)
  have "unat (b + b div 4 * ucast (attempt mod 4)) = jittered p attempt"
    using small by (simp add: unat_word_ariths(1) j jittered_def ub)
  with r show "\<exists>d. r = Some d \<and> unat d = min (jittered p attempt) (unat (rc_max_backoff p))"
    using bm by (simp add: unat_min unat_max max_absorb1)
qed

section \<open>Properties\<close>

text \<open>
  Every endpoint the parser accepts has a valid host: not empty, at most 253 bytes, without
  whitespace, \<open>/\<close> or \<open>@\<close>.
\<close>

theorem parsed_endpoint_is_valid:
  assumes "endpoint_parse s p = Inr e"
  shows "valid_host (ep_host e)"
  by (rule endpoint_parse_cases [OF assms]) (auto simp: endpoint_new_iff)

theorem parsed_endpoint_is_valid_witness: "valid_host (lit ''db'')"
proof -
  have "trim (lit ''db:22'') = lit ''db:22''" by (rule trim_no_whitespace) (simp add: is_whitespace_def)
  moreover have "trim (lit ''22'') = lit ''22''" by (rule trim_no_whitespace) (simp add: is_whitespace_def)
  ultimately have "endpoint_parse (lit ''db:22'') Ssh = Inr \<lparr>ep_host = lit ''db'', ep_port = 22\<rparr>"
    by (simp add: endpoint_parse_def Let_def rsplit_once_def split_once_def parse_port_def
        parse_unsigned_def is_ascii_digit_def endpoint_new_iff valid_host_def str_len_def
        len_utf8_def is_whitespace_def)
  from parsed_endpoint_is_valid [OF this] show ?thesis by simp
qed

text \<open>
  Endpoint round trip: the display of an endpoint with a valid host parses back to it, with
  brackets around the hosts that contain a colon. Excluded are hosts that themselves begin with
  a bracket or, among those with a colon, contain a closing one.
\<close>

theorem endpoint_round_trip:
  assumes "valid_host (ep_host e)" and "hd (ep_host e) \<noteq> 91"
    and "58 \<in> set (ep_host e) \<Longrightarrow> 93 \<notin> set (ep_host e)"
  shows "endpoint_parse (endpoint_display e) p = Inr e"
  using parse_plain [OF assms(1,2)] parse_bracketed [OF assms(1)] assms(3)
  by (cases "58 \<in> set (ep_host e)") (simp_all add: endpoint_display_def)

theorem endpoint_round_trip_witness:
  "endpoint_parse (endpoint_display \<lparr>ep_host = lit ''::1'', ep_port = 2222\<rparr>) Rdp
     = Inr \<lparr>ep_host = lit ''::1'', ep_port = 2222\<rparr>"
  by (rule endpoint_round_trip)
    (simp_all add: valid_host_def str_len_def len_utf8_def is_whitespace_def)

text \<open>
  An IPv6 literal written without brackets loses its last group: when that group is a
  decimal number it is taken for the port.
\<close>

theorem bare_ipv6_loses_last_group:
  assumes "valid_host h" and "hd h \<noteq> 91" and "n \<le> 65535"
  shows "endpoint_parse (h @ [58] @ show_nat n) p
     = Inr \<lparr>ep_host = h, ep_port = word_of_nat n\<rparr>"
  using parse_plain [OF assms(1,2), of "word_of_nat n" p] assms(3)
  by (simp add: unat_of_nat)

theorem bare_ipv6_loses_last_group_witness:
  "endpoint_parse (lit ''fe80:'' @ [58] @ show_nat 1) Ssh
     = Inr \<lparr>ep_host = lit ''fe80:'', ep_port = word_of_nat 1\<rparr>"
  by (rule bare_ipv6_loses_last_group)
    (simp_all add: valid_host_def str_len_def len_utf8_def is_whitespace_def)




text \<open>
  The jitter is not at most a quarter of the delay: below the cap it is three quarters of
  the exponential backoff at attempt 3, 7, 11 and so on.
\<close>

theorem jitter_exceeds_a_quarter:
  assumes "retry_due p attempt" and "unat attempt mod 4 = 3"
    and "reconnect_validate p = Inr ()" and "unat (rc_max_backoff p) \<le> 2 ^ 63"
    and "2 * backoff p attempt \<le> unat (rc_max_backoff p)"
  shows "\<exists>d. delay_for p attempt = Some (Some d)
     \<and> unat d = backoff p attempt + 3 * (backoff p attempt div 4)"
proof -
  have j: "jittered p attempt = backoff p attempt + 3 * (backoff p attempt div 4)" using assms(2) by (simp add: jittered_def)
  have "3 * (backoff p attempt div 4) \<le> backoff p attempt" by simp
  then have "jittered p attempt \<le> unat (rc_max_backoff p)" using assms(5) j by linarith
  moreover from this have "delay_for p attempt \<noteq> None"
    using assms(4) by (subst delay_for_value [OF assms(1,3)]) simp
  ultimately show ?thesis using delay_for_value(2) [OF assms(1,3)] j by fastforce
qed

theorem jitter_exceeds_a_quarter_witness:
  "\<exists>d. delay_for reconnect_default 3 = Some (Some d)
     \<and> unat d = backoff reconnect_default 3 + 3 * (backoff reconnect_default 3 div 4)"
  by (rule jitter_exceeds_a_quarter)
    (simp_all add: retry_due_def reconnect_default_def reconnect_validate_def backoff_def min_def)

text \<open>A validated policy with a maximal backoff near \<open>2 ^ 64\<close> makes the sum overflow.\<close>

lemma huge_backoff_overflows:
  "reconnect_validate (reconnect_default\<lparr>rc_initial_backoff := - 1, rc_max_backoff := - 1\<rparr>) = Inr ()
   \<and> delay_for (reconnect_default\<lparr>rc_initial_backoff := - 1, rc_max_backoff := - 1\<rparr>) 1 = None"
proof -
  let ?p = "reconnect_default\<lparr>rc_initial_backoff := - 1, rc_max_backoff := - 1\<rparr>"
  have valid: "reconnect_validate ?p = Inr ()" by (simp add: reconnect_validate_def)
  have "retry_due ?p 1" by (simp add: retry_due_def reconnect_default_def)
  moreover have "2 ^ 64 \<le> jittered ?p 1" by (simp add: jittered_def backoff_def unat_max_word)
  ultimately show ?thesis using valid delay_for_value(1) by blast
qed

end
