(* ===== verification/Ssh_Glob.thy ===== *)
theory Ssh_Glob
  imports Rust_Str
begin

text \<open>
  The wildcard matcher of \<open>crates/rdt-ssh/src/known_hosts.rs\<close>: a loop over two indices that
  backtracks to the last star only, and its equivalence with the recursive definition of glob
  matching. Unicode case mapping is the parameter \<open>u\<close>.
\<close>

section \<open>The matcher\<close>

definition char_match :: "unicode \<Rightarrow> uchar \<Rightarrow> uchar \<Rightarrow> bool" where
  "char_match u p c \<longleftrightarrow>
     p = 63 \<or> (case chr_lower u p of [] \<Rightarrow> False | d # _ \<Rightarrow> d = c)"

function glob_loop ::
  "unicode \<Rightarrow> ustring \<Rightarrow> ustring \<Rightarrow> nat \<Rightarrow> nat \<Rightarrow> (nat \<times> nat) option \<Rightarrow> nat option" where
  "glob_loop u pattern text p t star =
     (if t < length text then
        (if p < length pattern \<and> char_match u (pattern ! p) (text ! t) then
           glob_loop u pattern text (p + 1) (t + 1) star
         else if p < length pattern \<and> pattern ! p = 42 then
           glob_loop u pattern text (p + 1) t (Some (p, t))
         else
           (case star of
              Some (star_p, star_t) \<Rightarrow>
                glob_loop u pattern text (star_p + 1) (star_t + 1) (Some (star_p, star_t + 1))
            | None \<Rightarrow> None))
      else Some p)"
  by pat_completeness auto

text \<open>
  The loop ends: a new star is further right in the pattern, backtracking moves the star right
  in the text, and a match moves right in the text.
\<close>

termination
  by (relation "measures
      [\<lambda>(u, pattern, text, p, t, star). (case star of Some (sp, _) \<Rightarrow> if p \<le> sp then 1 else 0 | None \<Rightarrow> 0),
       \<lambda>(u, pattern, text, p, t, star). (case star of Some (sp, _) \<Rightarrow> length pattern - sp | None \<Rightarrow> length pattern + 1),
       \<lambda>(u, pattern, text, p, t, star). (case star of Some (_, st) \<Rightarrow> length text - st | None \<Rightarrow> 0),
       \<lambda>(u, pattern, text, p, t, star). length text - t]")
    (auto split: option.splits)

declare glob_loop.simps [simp del]

fun skip_stars :: "ustring \<Rightarrow> bool" where
  "skip_stars [] \<longleftrightarrow> True"
| "skip_stars (c # p) \<longleftrightarrow> c = 42 \<and> skip_stars p"

definition wildcard_match :: "unicode \<Rightarrow> ustring \<Rightarrow> ustring \<Rightarrow> bool" where
  "wildcard_match u pattern text0 =
     (let text = str_lower u text0 in
      case glob_loop u pattern text 0 0 None of
        None \<Rightarrow> False
      | Some p \<Rightarrow> skip_stars (drop p pattern))"

section \<open>Reference definition\<close>

fun glob :: "unicode \<Rightarrow> ustring \<Rightarrow> ustring \<Rightarrow> bool" where
  "glob u [] t \<longleftrightarrow> t = []"
| "glob u (c # p) t \<longleftrightarrow>
     (if c = 42 then \<exists>n \<le> length t. glob u p (drop n t)
      else (case t of [] \<Rightarrow> False | d # t' \<Rightarrow> char_match u c d \<and> glob u p t'))"

lemma glob_star_drop: "glob u (42 # p) (drop k t) \<Longrightarrow> k \<le> length t \<Longrightarrow> glob u (42 # p) t"
proof -
  assume "glob u (42 # p) (drop k t)" and k: "k \<le> length t"
  then obtain n where "n \<le> length t - k" "glob u p (drop (n + k) t)" by auto
  with k show "glob u (42 # p) t" by (auto intro!: exI [of _ "n + k"])
qed

lemma glob_star_tl:
  "t \<noteq> [] \<Longrightarrow> \<not> glob u p t \<Longrightarrow> glob u (42 # p) t \<longleftrightarrow> glob u (42 # p) (tl t)"
proof
  assume t: "t \<noteq> []" "\<not> glob u p t" and "glob u (42 # p) t"
  then obtain n where n: "n \<le> length t" "glob u p (drop n t)" by auto
  with t(2) obtain m where "n = Suc m" by (cases n) auto
  with n t(1) show "glob u (42 # p) (tl t)"
    by (auto simp: drop_Suc intro!: exI [of _ m])
next
  assume "t \<noteq> []" and "glob u (42 # p) (tl t)"
  then show "glob u (42 # p) t"
    using glob_star_drop [of u p 1 t] by (cases t) (simp_all add: drop_Suc)
qed

text \<open>A star-free segment matches a text of its own length.\<close>

definition seg_match :: "unicode \<Rightarrow> ustring \<Rightarrow> ustring \<Rightarrow> bool" where
  "seg_match u = list_all2 (\<lambda>p c. p \<noteq> 42 \<and> char_match u p c)"

lemma glob_seg:
  "42 \<notin> set s \<Longrightarrow> glob u (s @ q) t \<longleftrightarrow>
     length s \<le> length t \<and> seg_match u s (take (length s) t) \<and> glob u q (drop (length s) t)"
proof (induction s arbitrary: t)
  case (Cons c s)
  then show ?case by (cases t) (auto simp: seg_match_def)
qed (simp add: seg_match_def)

lemma seg_match_length: "seg_match u s x \<Longrightarrow> length s = length x"
  by (simp add: seg_match_def list_all2_lengthD)

lemma seg_match_no_star: "seg_match u s x \<Longrightarrow> 42 \<notin> set s"
  by (induction s arbitrary: x) (auto simp: seg_match_def list_all2_Cons1)

text \<open>Matching the leftmost occurrence of a segment before a star loses nothing.\<close>

lemma glob_forget:
  assumes "seg_match u s x"
  shows "glob u (42 # s @ 42 # q) (x @ y) \<longleftrightarrow> glob u (42 # q) y"
proof
  assume "glob u (42 # s @ 42 # q) (x @ y)"
  then obtain n where n: "n \<le> length (x @ y)" "glob u (s @ 42 # q) (drop n (x @ y))" by auto
  then have le: "length s \<le> length (drop n (x @ y))"
    and g: "glob u (42 # q) (drop (length s) (drop n (x @ y)))"
    using glob_seg [OF seg_match_no_star [OF assms], of u "42 # q"] by auto
  have "drop (length s) (drop n (x @ y)) = drop n y"
    using seg_match_length [OF assms] by (simp only: drop_drop) simp
  with g have "glob u (42 # q) (drop n y)" by (simp only:)
  moreover have "n \<le> length y" using le n(1) seg_match_length [OF assms] by simp
  ultimately show "glob u (42 # q) y" by (rule glob_star_drop)
next
  assume "glob u (42 # q) y"
  moreover have "glob u (s @ 42 # q) (x @ y)"
    using assms seg_match_length [OF assms] calculation
    by (simp add: glob_seg [OF seg_match_no_star [OF assms]] del: glob.simps(2))
  then have "\<exists>n \<le> length (x @ y). glob u (s @ 42 # q) (drop n (x @ y))"
    by (intro exI [of _ 0]) simp
  ultimately show "glob u (42 # s @ 42 # q) (x @ y)" by simp
qed

lemma skip_stars_glob: "skip_stars p \<longleftrightarrow> glob u p []"
  by (induction p) auto

section \<open>The loop decides the reference definition\<close>

text \<open>
  What the loop has established: with no star yet, the pattern before \<open>p\<close> matches the text
  before \<open>t\<close>; with a star, the text may be matched from the star on, and the segment after it
  matches at the remembered position.
\<close>

definition seg :: "'a list \<Rightarrow> nat \<Rightarrow> nat \<Rightarrow> 'a list" where
  "seg xs i j = take (j - i) (drop i xs)"

lemma seg_snoc: "i \<le> j \<Longrightarrow> j < length xs \<Longrightarrow> seg xs i (Suc j) = seg xs i j @ [xs ! j]"
  by (simp add: seg_def Suc_diff_le take_Suc_conv_app_nth)

lemma seg_drop: "i \<le> j \<Longrightarrow> drop i xs = seg xs i j @ drop j xs"
  by (metis append_take_drop_id drop_drop le_add_diff_inverse2 seg_def)

lemma seg_same [simp]: "seg xs i i = []"
  by (simp add: seg_def)

lemma length_seg: "j \<le> length xs \<Longrightarrow> length (seg xs i j) = j - i"
  by (simp add: seg_def)

definition loop_inv :: "unicode \<Rightarrow> ustring \<Rightarrow> ustring \<Rightarrow> nat \<Rightarrow> nat \<Rightarrow> (nat \<times> nat) option \<Rightarrow> bool" where
  "loop_inv u pat text p t star \<longleftrightarrow> p \<le> length pat \<and> t \<le> length text \<and>
     (case star of
        None \<Rightarrow> seg_match u (seg pat 0 p) (seg text 0 t)
      | Some (sp, st) \<Rightarrow> sp < p \<and> st \<le> t \<and> pat ! sp = 42
          \<and> seg_match u (seg pat (Suc sp) p) (seg text st t)
          \<and> (glob u pat text \<longleftrightarrow> glob u (42 # drop (Suc sp) pat) (drop st text)))"

lemma seg_match_snoc:
  "seg_match u s x \<Longrightarrow> c \<noteq> 42 \<Longrightarrow> char_match u c d \<Longrightarrow> seg_match u (s @ [c]) (x @ [d])"
  by (simp add: seg_match_def list_all2_appendI)

text \<open>Where the loop is, the rest of the pattern against the rest of the text decides.\<close>

lemma loop_inv_glob:
  assumes "loop_inv u pat text p t star"
  shows "star = None \<Longrightarrow> glob u pat text \<longleftrightarrow> glob u (drop p pat) (drop t text)"
    and "star = Some (sp, st) \<Longrightarrow>
       glob u (drop (Suc sp) pat) (drop st text) \<longleftrightarrow> glob u (drop p pat) (drop t text)"
proof -
  have rest: "glob u (s @ q) (x @ y) \<longleftrightarrow> glob u q y" if "seg_match u s x" for s q x y
    using that seg_match_length [OF that] by (simp add: glob_seg [OF seg_match_no_star [OF that]])
  show "glob u pat text \<longleftrightarrow> glob u (drop p pat) (drop t text)" if "star = None"
  proof -
    have m: "seg_match u (seg pat 0 p) (seg text 0 t)"
      using assms that by (simp add: loop_inv_def)
    show ?thesis using rest [OF m, of "drop p pat" "drop t text"] seg_drop [of 0 p pat] seg_drop [of 0 t "text"] by simp
  qed
  show "glob u (drop (Suc sp) pat) (drop st text) \<longleftrightarrow> glob u (drop p pat) (drop t text)"
    if "star = Some (sp, st)"
  proof -
    have m: "seg_match u (seg pat (Suc sp) p) (seg text st t)" "Suc sp \<le> p" "st \<le> t"
      using assms that by (simp_all add: loop_inv_def)
    show ?thesis
      using rest [OF m(1), of "drop p pat" "drop t text"] seg_drop [OF m(2), of pat] seg_drop [OF m(3), of "text"]
      by simp
  qed
qed

lemma loop_inv_match:
  assumes "loop_inv u pat text p t star" and "t < length text" and "p < length pat"
    and "char_match u (pat ! p) (text ! t)" and "pat ! p \<noteq> 42"
  shows "loop_inv u pat text (Suc p) (Suc t) star"
  using assms by (auto simp: loop_inv_def seg_snoc intro: seg_match_snoc split: option.splits)

lemma loop_inv_star:
  assumes "loop_inv u pat text p t star" and "p < length pat" and "pat ! p = 42"
  shows "loop_inv u pat text (Suc p) t (Some (p, t))"
proof -
  have p: "drop p pat = 42 # drop (Suc p) pat"
    using assms(2,3) by (metis Cons_nth_drop_Suc)
  have "glob u pat text \<longleftrightarrow> glob u (42 # drop (Suc p) pat) (drop t text)"
  proof (cases star)
    case None
    then show ?thesis using loop_inv_glob(1) [OF assms(1)] p by simp
  next
    case (Some s)
    then obtain sp st where s: "star = Some (sp, st)" by (cases s) auto
    then have m: "seg_match u (seg pat (Suc sp) p) (seg text st t)" "Suc sp \<le> p" "st \<le> t"
      and g: "glob u pat text \<longleftrightarrow> glob u (42 # drop (Suc sp) pat) (drop st text)"
      using assms(1) by (simp_all add: loop_inv_def)
    show ?thesis
      unfolding g using glob_forget [OF m(1), of "drop (Suc p) pat" "drop t text"]
        seg_drop [OF m(2), of pat] seg_drop [OF m(3), of "text"] p by simp
  qed
  with assms show ?thesis by (simp add: loop_inv_def seg_match_def)
qed

lemma loop_inv_retry:
  assumes "loop_inv u pat text p t (Some (sp, st))" and "t < length text"
    and "\<not> glob u (drop p pat) (drop t text)"
  shows "loop_inv u pat text (Suc sp) (Suc st) (Some (sp, Suc st))"
proof -
  have st: "sp < p" "p \<le> length pat" "st \<le> t" "pat ! sp = 42"
    and g: "glob u pat text \<longleftrightarrow> glob u (42 # drop (Suc sp) pat) (drop st text)"
    using assms(1) by (simp_all add: loop_inv_def)
  have "\<not> glob u (drop (Suc sp) pat) (drop st text)"
    using loop_inv_glob(2) [OF assms(1) refl] assms(3) by simp
  then have "glob u (42 # drop (Suc sp) pat) (drop st text)
      \<longleftrightarrow> glob u (42 # drop (Suc sp) pat) (drop (Suc st) text)"
    using glob_star_tl [of "drop st text" u "drop (Suc sp) pat"] st assms(2)
    by (simp add: tl_drop drop_Suc del: glob.simps)
  with g st assms(2) show ?thesis by (simp add: loop_inv_def seg_match_def)
qed

lemma glob_mismatch:
  assumes "t < length text" and "\<not> (p < length pat \<and> char_match u (pat ! p) (text ! t))"
    and "\<not> (p < length pat \<and> pat ! p = 42)"
  shows "\<not> glob u (drop p pat) (drop t text)"
proof (cases "p < length pat")
  case True
  then have "drop p pat = pat ! p # drop (Suc p) pat" by (simp add: Cons_nth_drop_Suc)
  moreover have "drop t text = text ! t # drop (Suc t) text" using assms(1) by (simp add: Cons_nth_drop_Suc)
  ultimately show ?thesis using assms True by simp
next
  case False
  with assms(1) show ?thesis by simp
qed

lemma loop_inv_end:
  assumes inv: "loop_inv u pat text p (length text) star"
  shows "skip_stars (drop p pat) \<longleftrightarrow> glob u pat text"
proof (cases star)
  case None
  then show ?thesis using loop_inv_glob(1) [OF inv] by (simp add: skip_stars_glob [of _ u])
next
  case (Some s)
  then obtain sp st where s: "star = Some (sp, st)" by (cases s) auto
  then have m: "seg_match u (seg pat (Suc sp) p) (seg text st (length text))" "Suc sp \<le> p" "st \<le> length text"
    and g: "glob u pat text \<longleftrightarrow> glob u (42 # drop (Suc sp) pat) (drop st text)"
    using inv by (simp_all add: loop_inv_def)
  have len: "length (seg pat (Suc sp) p) = length (drop st text)"
    using seg_match_length [OF m(1)] m(3) by (simp add: length_seg)
  have "glob u (drop (Suc sp) pat) (drop n (drop st text)) \<longleftrightarrow> n = 0 \<and> skip_stars (drop p pat)"
    if "n \<le> length (drop st text)" for n
  proof (cases "n = 0")
    case True
    then show ?thesis using loop_inv_glob(2) [OF inv s] by (simp add: skip_stars_glob [of _ u])
  next
    case False
    then have "length (drop n (drop st text)) < length (seg pat (Suc sp) p)" using that len by simp
    then show ?thesis
      using False glob_seg [OF seg_match_no_star [OF m(1)], of u "drop p pat" "drop n (drop st text)"]
        seg_drop [OF m(2), of pat] by simp
  qed
  with g show ?thesis by auto
qed

lemma glob_loop_correct:
  assumes "\<forall>c \<in> set text. \<not> char_match u 42 c" and "loop_inv u pat text p t star"
  shows "(case glob_loop u pat text p t star of None \<Rightarrow> False | Some q \<Rightarrow> skip_stars (drop q pat))
     \<longleftrightarrow> glob u pat text"
  using assms
proof (induction u pat "text" p t star rule: glob_loop.induct)
  case (1 u pat "text" p t star)
  show ?case
  proof (cases "t < length text")
    case False
    with 1(5) have "t = length text" by (simp add: loop_inv_def)
    with loop_inv_end 1(5) show ?thesis by (simp add: glob_loop.simps [of _ _ _ p])
  next
    case t: True
    show ?thesis
    proof (cases "p < length pat \<and> char_match u (pat ! p) (text ! t)")
      case True
      then have "pat ! p \<noteq> 42" using 1(4) t by auto
      with True t 1(1,4) loop_inv_match [OF 1(5)] show ?thesis
        by (simp add: glob_loop.simps [of _ _ _ p])
    next
      case no: False
      show ?thesis
      proof (cases "p < length pat \<and> pat ! p = 42")
        case True
        with no t 1(2,4) loop_inv_star [OF 1(5)] show ?thesis
          by (auto simp: glob_loop.simps [of _ _ _ p])
      next
        case False
        have mis: "\<not> glob u (drop p pat) (drop t text)" by (rule glob_mismatch [OF t no False])
        show ?thesis
        proof (cases star)
          case None
          with loop_inv_glob(1) [OF 1(5)] mis t no False show ?thesis
            by (auto simp: glob_loop.simps [of _ _ _ p])
        next
          case (Some s)
          then obtain sp st where s: "star = Some (sp, st)" by (cases s) auto
          then have "glob_loop u pat text p t star
              = glob_loop u pat text (Suc sp) (Suc st) (Some (sp, Suc st))"
            using t no False by (auto simp: glob_loop.simps [of _ _ _ p])
          with 1(3) [OF t no False s refl] 1(4) loop_inv_retry [of u pat "text" p t sp st] 1(5) s t mis
          show ?thesis by simp
        qed
      qed
    qed
  qed
qed

section \<open>Property\<close>

text \<open>
  The backtracking matcher decides glob matching of the lowercased text, for every text in
  which no character is matched by a star taken literally.
\<close>

theorem wildcard_match_is_glob:
  assumes "\<forall>c \<in> set (str_lower u text). \<not> char_match u 42 c"
  shows "wildcard_match u pattern text \<longleftrightarrow> glob u pattern (str_lower u text)"
proof -
  have "loop_inv u pattern (str_lower u text) 0 0 None" by (simp add: loop_inv_def seg_match_def)
  from glob_loop_correct [OF assms this] show ?thesis by (simp add: wildcard_match_def Let_def)
qed

definition ascii_unicode :: unicode where
  "ascii_unicode = \<lparr>str_lower = to_ascii_lowercase, chr_lower = (\<lambda>c. [ascii_lower c])\<rparr>"

theorem wildcard_match_is_glob_witness:
  "wildcard_match ascii_unicode (lit ''*.b'') (lit ''A.B'')
     \<longleftrightarrow> glob ascii_unicode (lit ''*.b'') (str_lower ascii_unicode (lit ''A.B''))"
  by (rule wildcard_match_is_glob)
    (simp add: ascii_unicode_def char_match_def to_ascii_lowercase_def ascii_lower_def is_ascii_upper_def)

end
