(* ===== verification/Ssh_Known_Hosts.thy ===== *)
theory Ssh_Known_Hosts
  imports Ssh_Glob Rdt_Proto
begin

text \<open>
  The host key database, \<open>crates/rdt-ssh/src/known_hosts.rs\<close>. The base64, HMAC and SHA-2
  crates are the parameters of the record \<open>codec\<close>; the file system calls are those of
  \<open>fs_ops\<close>. \<open>ct_eq\<close> of the \<open>subtle\<close> crate is equality. The key/value context that errors
  carry is left out of their messages.
\<close>

section \<open>Data\<close>

record codec =
  b64_encode :: "u8 list \<Rightarrow> ustring"
  b64_encode_no_pad :: "u8 list \<Rightarrow> ustring"
  b64_decode :: "ustring \<Rightarrow> u8 list option"
  hmac_sha1 :: "u8 list \<Rightarrow> u8 list \<Rightarrow> u8 list option"
  sha256 :: "u8 list \<Rightarrow> u8 list"

record fs_ops =
  fs_parent :: "ustring \<Rightarrow> ustring option"
  fs_create_dir_all :: "ustring \<Rightarrow> io_error + unit"
  fs_write :: "ustring \<Rightarrow> ustring \<Rightarrow> io_error + unit"
  fs_restrict_to_owner :: "ustring \<Rightarrow> io_error + unit"

datatype host_key_status = Trusted | Unknown | Changed ustring ustring | Revoked | Excluded

definition status_is_trusted :: "host_key_status \<Rightarrow> bool" where
  "status_is_trusted s \<longleftrightarrow> s = Trusted"

definition status_is_fatal :: "host_key_status \<Rightarrow> bool" where
  "status_is_fatal s = (case s of Changed _ _ \<Rightarrow> True | Revoked \<Rightarrow> True | Excluded \<Rightarrow> True | _ \<Rightarrow> False)"

definition status_display :: "host_key_status \<Rightarrow> ustring" where
  "status_display s =
     (case s of
        Trusted \<Rightarrow> lit ''host key matches the recorded key''
      | Unknown \<Rightarrow> lit ''host key is not recorded yet''
      | Changed fp kt \<Rightarrow> lit ''host key changed; recorded '' @ kt @ [32] @ fp
      | Revoked \<Rightarrow> lit ''host key has been revoked''
      | Excluded \<Rightarrow> lit ''host is excluded by a negated pattern'')"

datatype marker = NoMarker | CertAuthority | RevokedMarker

record known_host_entry =
  kh_marker :: marker
  kh_patterns :: "ustring list"
  kh_key_type :: ustring
  kh_key :: "u8 list"
  kh_comment :: ustring
  kh_line :: nat

section \<open>Entries\<close>

definition malformed :: "'a rdt_result" where
  "malformed = fail EConfig (lit ''malformed known_hosts line'')"

definition marker_of :: "ustring \<Rightarrow> marker" where
  "marker_of first =
     (if first = lit ''@cert-authority'' then CertAuthority
      else if first = lit ''@revoked'' then RevokedMarker
      else NoMarker)"

definition entry_parse :: "codec \<Rightarrow> ustring \<Rightarrow> nat \<Rightarrow> known_host_entry option rdt_result" where
  "entry_parse cd line number =
     (let trimmed = trim line in
      if trimmed = [] \<or> starts_with [35] trimmed then Inr None
      else
        (case split_whitespace trimmed of
           [] \<Rightarrow> Inr None
         | first # flds \<Rightarrow>
             (case (if marker_of first = NoMarker then first # flds else flds) of
                patterns_field # key_type # encoded # comment \<Rightarrow>
                  (case b64_decode cd encoded of
                     None \<Rightarrow> malformed
                   | Some key \<Rightarrow>
                       if key = [] then malformed
                       else Inr (Some
                         \<lparr>kh_marker = marker_of first, kh_patterns = split_char 44 patterns_field,
                          kh_key_type = key_type, kh_key = key, kh_comment = join [32] comment,
                          kh_line = number\<rparr>))
              | _ \<Rightarrow> malformed)))"

definition split_host_port :: "ustring \<Rightarrow> ustring \<times> nat option" where
  "split_host_port pattern =
     (case strip_prefix [91] pattern of
        Some rest \<Rightarrow>
          (case split_once 93 rest of
             Some (host, tail) \<Rightarrow> (host, strip_prefix [58] tail \<bind> parse_unsigned 65535)
           | None \<Rightarrow> (rest, None))
      | None \<Rightarrow>
          (case rsplit_once 58 pattern of
             Some (host, port) \<Rightarrow>
               if 58 \<notin> set host then (host, parse_unsigned 65535 port) else (pattern, None)
           | None \<Rightarrow> (pattern, None)))"

definition candidate :: "unicode \<Rightarrow> ustring \<Rightarrow> u16 \<Rightarrow> ustring" where
  "candidate u host port =
     (if port = 22 then str_lower u host
      else [91] @ str_lower u host @ [93, 58] @ show_nat (unat port))"

definition hashed_matches :: "codec \<Rightarrow> unicode \<Rightarrow> ustring \<Rightarrow> ustring \<Rightarrow> u16 \<Rightarrow> bool" where
  "hashed_matches cd u body host port =
     (case split_once 124 body of
        None \<Rightarrow> False
      | Some (salt64, digest64) \<Rightarrow>
          (case (b64_decode cd salt64, b64_decode cd digest64) of
             (Some salt, Some digest) \<Rightarrow>
               (case hmac_sha1 cd salt (as_bytes (candidate u host port)) of
                  Some mac \<Rightarrow> mac = digest
                | None \<Rightarrow> False)
           | _ \<Rightarrow> False))"

definition pattern_matches :: "codec \<Rightarrow> unicode \<Rightarrow> ustring \<Rightarrow> ustring \<Rightarrow> u16 \<Rightarrow> bool" where
  "pattern_matches cd u pattern host port =
     (case strip_prefix (lit ''|1|'') pattern of
        Some hashed \<Rightarrow> hashed_matches cd u hashed host port
      | None \<Rightarrow>
          (let (pattern_host, pattern_port) = split_host_port pattern in
           (case pattern_port of
              Some expected \<Rightarrow> if expected \<noteq> unat port then False else wildcard_match u pattern_host host
            | None \<Rightarrow> wildcard_match u pattern_host host)))"

fun matches_loop :: "codec \<Rightarrow> unicode \<Rightarrow> ustring list \<Rightarrow> ustring \<Rightarrow> u16 \<Rightarrow> bool \<Rightarrow> bool" where
  "matches_loop cd u [] host port matched = matched"
| "matches_loop cd u (pattern # ps) host port matched =
     (let (negated, p) = (case strip_prefix [33] pattern of
                            Some rest \<Rightarrow> (True, rest) | None \<Rightarrow> (False, pattern)) in
      if pattern_matches cd u p host port then
        (if negated then False else matches_loop cd u ps host port True)
      else matches_loop cd u ps host port matched)"

definition entry_matches :: "codec \<Rightarrow> unicode \<Rightarrow> known_host_entry \<Rightarrow> ustring \<Rightarrow> u16 \<Rightarrow> bool" where
  "entry_matches cd u e host port = matches_loop cd u (kh_patterns e) host port False"

definition fingerprint :: "codec \<Rightarrow> u8 list \<Rightarrow> ustring" where
  "fingerprint cd key = lit ''SHA256:'' @ b64_encode_no_pad cd (sha256 cd key)"

definition entry_fingerprint :: "codec \<Rightarrow> known_host_entry \<Rightarrow> ustring" where
  "entry_fingerprint cd e = fingerprint cd (kh_key e)"

definition marker_text :: "marker \<Rightarrow> ustring" where
  "marker_text m =
     (case m of
        NoMarker \<Rightarrow> []
      | CertAuthority \<Rightarrow> lit ''@cert-authority ''
      | RevokedMarker \<Rightarrow> lit ''@revoked '')"

definition entry_to_line :: "codec \<Rightarrow> known_host_entry \<Rightarrow> ustring" where
  "entry_to_line cd e =
     marker_text (kh_marker e) @ join [44] (kh_patterns e) @ [32] @ kh_key_type e @ [32]
       @ b64_encode cd (kh_key e) @ (if kh_comment e = [] then [] else [32] @ kh_comment e)"

section \<open>The database\<close>

record known_hosts =
  db_entries :: "known_host_entry list"
  db_path :: "ustring option"

definition known_hosts_empty :: known_hosts where
  "known_hosts_empty = \<lparr>db_entries = [], db_path = None\<rparr>"

fun parse_lines :: "codec \<Rightarrow> ustring list \<Rightarrow> nat \<Rightarrow> known_host_entry list" where
  "parse_lines cd [] number = []"
| "parse_lines cd (line # ls) number =
     (case entry_parse cd line number of
        Inr (Some e) \<Rightarrow> e # parse_lines cd ls (number + 1)
      | _ \<Rightarrow> parse_lines cd ls (number + 1))"

definition known_hosts_parse :: "codec \<Rightarrow> ustring \<Rightarrow> known_hosts" where
  "known_hosts_parse cd text = \<lparr>db_entries = parse_lines cd (str_lines text) 1, db_path = None\<rparr>"

definition with_path :: "ustring \<Rightarrow> known_hosts \<Rightarrow> known_hosts" where
  "with_path path db = db\<lparr>db_path := Some path\<rparr>"

text \<open>\<open>load\<close>, given what reading the file returns.\<close>

definition known_hosts_load :: "codec \<Rightarrow> ustring \<Rightarrow> io_error + ustring \<Rightarrow> known_hosts rdt_result" where
  "known_hosts_load cd path read =
     (case read of
        Inr text \<Rightarrow> Inr (with_path path (known_hosts_parse cd text))
      | Inl (kind, msg) \<Rightarrow> if kind = IoNotFound then Inr known_hosts_empty else fail EIo msg)"

fun check_loop ::
  "codec \<Rightarrow> unicode \<Rightarrow> ustring \<Rightarrow> u16 \<Rightarrow> ustring \<Rightarrow> u8 list \<Rightarrow> known_host_entry list
     \<Rightarrow> known_host_entry option \<Rightarrow> known_host_entry option \<Rightarrow> host_key_status" where
  "check_loop cd u host port key_type key [] same other =
     (case same of
        Some e \<Rightarrow> Changed (entry_fingerprint cd e) (kh_key_type e)
      | None \<Rightarrow> Unknown)"
| "check_loop cd u host port key_type key (e # es) same other =
     (if \<not> entry_matches cd u e host port then check_loop cd u host port key_type key es same other
      else if kh_key e = key then
        (case kh_marker e of
           RevokedMarker \<Rightarrow> Revoked
         | CertAuthority \<Rightarrow> check_loop cd u host port key_type key es same other
         | NoMarker \<Rightarrow> Trusted)
      else if kh_marker e = RevokedMarker then check_loop cd u host port key_type key es same other
      else if kh_key_type e = key_type then
        check_loop cd u host port key_type key es (case same of None \<Rightarrow> Some e | Some _ \<Rightarrow> same) other
      else check_loop cd u host port key_type key es same (case other of None \<Rightarrow> Some e | Some _ \<Rightarrow> other))"

definition known_hosts_check ::
  "codec \<Rightarrow> unicode \<Rightarrow> known_hosts \<Rightarrow> ustring \<Rightarrow> u16 \<Rightarrow> ustring \<Rightarrow> u8 list \<Rightarrow> host_key_status" where
  "known_hosts_check cd u db host port key_type key =
     check_loop cd u host port key_type key (db_entries db) None None"

definition known_hosts_accept ::
  "codec \<Rightarrow> unicode \<Rightarrow> ustring \<Rightarrow> u16 \<Rightarrow> ustring \<Rightarrow> u8 list \<Rightarrow> ustring \<Rightarrow> known_hosts \<Rightarrow> known_hosts" where
  "known_hosts_accept cd u host port key_type key comment db =
     db\<lparr>db_entries :=
       filter (\<lambda>e. \<not> (kh_marker e = NoMarker \<and> kh_key_type e = key_type \<and> entry_matches cd u e host port))
         (db_entries db)
       @ [\<lparr>kh_marker = NoMarker, kh_patterns = [candidate u host port], kh_key_type = key_type,
           kh_key = key, kh_comment = comment, kh_line = 0\<rparr>]\<rparr>"

definition known_hosts_forget ::
  "codec \<Rightarrow> unicode \<Rightarrow> ustring \<Rightarrow> u16 \<Rightarrow> known_hosts \<Rightarrow> nat \<times> known_hosts" where
  "known_hosts_forget cd u host port db =
     (let kept = filter (\<lambda>e. \<not> entry_matches cd u e host port) (db_entries db) in
      (length (db_entries db) - length kept, db\<lparr>db_entries := kept\<rparr>))"

definition known_hosts_to_string :: "codec \<Rightarrow> known_hosts \<Rightarrow> ustring" where
  "known_hosts_to_string cd db = concat (map (\<lambda>e. entry_to_line cd e @ [10]) (db_entries db))"

definition io_result :: "error_code \<Rightarrow> io_error + unit \<Rightarrow> unit rdt_result" where
  "io_result code r = (case r of Inr x \<Rightarrow> Inr x | Inl (_, msg) \<Rightarrow> fail code msg)"

definition known_hosts_save :: "codec \<Rightarrow> fs_ops \<Rightarrow> known_hosts \<Rightarrow> unit rdt_result" where
  "known_hosts_save cd fs db =
     (case db_path db of
        None \<Rightarrow> fail EConfig (lit ''the known hosts database has no file'')
      | Some path \<Rightarrow>
          and_then
            (case fs_parent fs path of
               Some parent \<Rightarrow> io_result EIo (fs_create_dir_all fs parent)
             | None \<Rightarrow> Inr ())
            (\<lambda>_. and_then (io_result EIo (fs_write fs path (known_hosts_to_string cd db)))
              (\<lambda>_. io_result EPermission (fs_restrict_to_owner fs path))))"

end
