(* ===== verification/Ssh_Known_Hosts_Props.thy ===== *)
theory Ssh_Known_Hosts_Props
  imports Ssh_Known_Hosts
begin

text \<open>
  What the host key check decides, that an accepted key is trusted afterwards, and that a
  database written to a file is read back.
\<close>

section \<open>The check\<close>

lemma check_loop_trusted:
  "check_loop cd u host port kt key es same other = Trusted \<Longrightarrow>
     \<exists>e \<in> set es. kh_marker e = NoMarker \<and> entry_matches cd u e host port \<and> kh_key e = key"
  by (induction es arbitrary: same other) (auto split: if_splits marker.splits option.splits)

lemma check_loop_revoked:
  "check_loop cd u host port kt key es same other = Revoked \<Longrightarrow>
     \<exists>e \<in> set es. kh_marker e = RevokedMarker \<and> entry_matches cd u e host port \<and> kh_key e = key"
  by (induction es arbitrary: same other) (auto split: if_splits marker.splits option.splits)

lemma check_loop_accepts:
  assumes "\<forall>e \<in> set es. entry_matches cd u e host port \<and> kh_key e = key \<longrightarrow> kh_marker e \<noteq> RevokedMarker"
    and "\<exists>e \<in> set es. kh_marker e = NoMarker \<and> entry_matches cd u e host port \<and> kh_key e = key"
  shows "check_loop cd u host port kt key es same other = Trusted"
  using assms by (induction es arbitrary: same other) (auto split: marker.splits)

text \<open>The entries that make a different key an alarm.\<close>

definition conflicting :: "codec \<Rightarrow> unicode \<Rightarrow> ustring \<Rightarrow> u16 \<Rightarrow> ustring \<Rightarrow> u8 list \<Rightarrow> known_host_entry \<Rightarrow> bool" where
  "conflicting cd u host port kt key e \<longleftrightarrow>
     entry_matches cd u e host port \<and> kh_key e \<noteq> key \<and> kh_marker e \<noteq> RevokedMarker \<and> kh_key_type e = kt"

lemma check_loop_changed:
  assumes "\<forall>e \<in> set es. entry_matches cd u e host port \<and> kh_key e = key \<longrightarrow> kh_marker e = CertAuthority"
  shows "check_loop cd u host port kt key es same other =
     (case (case same of Some e \<Rightarrow> Some e | None \<Rightarrow> find (conflicting cd u host port kt key) es) of
        Some e \<Rightarrow> Changed (entry_fingerprint cd e) (kh_key_type e)
      | None \<Rightarrow> Unknown)"
  using assms
  by (induction es arbitrary: same other) (auto simp: conflicting_def split: option.split marker.split)

section \<open>A recorded host matches its own pattern\<close>

definition plain_host :: "ustring \<Rightarrow> bool" where
  "plain_host h \<longleftrightarrow> h \<noteq> [] \<and> (\<forall>c \<in> set h. is_ascii_lower c \<or> is_ascii_digit c \<or> c = 45 \<or> c = 46)"

text \<open>What the code relies on of Unicode case mapping: it maps ASCII text as ASCII.\<close>

definition lowers_ascii :: "unicode \<Rightarrow> bool" where
  "lowers_ascii u \<longleftrightarrow>
     (\<forall>s. (\<forall>c \<in> set s. c < 128) \<longrightarrow> str_lower u s = to_ascii_lowercase s)
     \<and> (\<forall>c < 128. chr_lower u c = [ascii_lower c])"

lemma lowers_ascii_unicode [simp]: "lowers_ascii ascii_unicode"
  by (simp add: lowers_ascii_def ascii_unicode_def)

lemma plain_char:
  "plain_host h \<Longrightarrow> c \<in> set h \<Longrightarrow> c < 128 \<and> ascii_lower c = c \<and> c \<notin> {33, 42, 58, 63, 91, 93, 124}"
  by (auto simp: plain_host_def is_ascii_lower_def is_ascii_digit_def ascii_lower_def is_ascii_upper_def)

lemma plain_lower: "lowers_ascii u \<Longrightarrow> plain_host h \<Longrightarrow> str_lower u h = h"
proof -
  assume u: "lowers_ascii u" and h: "plain_host h"
  have "\<forall>c \<in> set h. c < 128" using plain_char [OF h] by blast
  then have "str_lower u h = to_ascii_lowercase h" using u by (simp add: lowers_ascii_def)
  also have "\<dots> = h"
    unfolding to_ascii_lowercase_def by (rule map_idI) (use plain_char [OF h] in blast)
  finally show ?thesis .
qed

lemma plain_wildcard:
  assumes "lowers_ascii u" and "plain_host h"
  shows "wildcard_match u h h"
proof -
  have lower: "chr_lower u c = [ascii_lower c]" if "c < 128" for c
    using assms(1) that by (simp add: lowers_ascii_def)
  have self: "char_match u c c" if "c \<in> set h" for c
    using plain_char [OF assms(2) that] lower by (simp add: char_match_def)
  have "glob u s s" if "set s \<subseteq> set h" for s
    using that
  proof (induction s)
    case (Cons c s)
    then have "c \<noteq> 42" using plain_char [OF assms(2), of c] by auto
    with Cons self show ?case by simp
  qed simp
  moreover have "\<not> char_match u 42 c" if "c \<in> set h" for c
    using plain_char [OF assms(2) that] lower [of 42]
    by (auto simp: char_match_def ascii_lower_def is_ascii_upper_def)
  ultimately show ?thesis
    using wildcard_match_is_glob [of u h h] plain_lower [OF assms] by simp
qed

lemma plain_hd: "plain_host h \<Longrightarrow> x \<in> {33, 91, 124} \<Longrightarrow> strip_prefix (x # xs) (h @ t) = None"
proof -
  assume h: "plain_host h" and x: "x \<in> {33, 91, 124}"
  then obtain c r where cr: "h = c # r" by (cases h) (auto simp: plain_host_def)
  with plain_char [OF h, of c] x show ?thesis by auto
qed

lemma plain_pattern:
  assumes "plain_host h"
  shows "split_host_port h = (h, None)" "strip_prefix [33] h = None" "strip_prefix (lit ''|1|'') h = None"
proof -
  have "58 \<notin> set h" using plain_char [OF assms, of 58] by auto
  then show "split_host_port h = (h, None)"
    using plain_hd [OF assms, of 91 "[]" "[]"]
    by (simp add: split_host_port_def rsplit_once_None [THEN iffD2])
  show "strip_prefix [33] h = None" "strip_prefix (lit ''|1|'') h = None"
    using plain_hd [OF assms, of 33 "[]" "[]"] plain_hd [OF assms, of 124 "[49, 124]" "[]"]
    by simp_all
qed

lemma candidate_matches:
  assumes "lowers_ascii u" and "plain_host h"
  shows "entry_matches cd u \<lparr>kh_marker = m, kh_patterns = [candidate u h port], kh_key_type = kt,
           kh_key = k, kh_comment = c, kh_line = n\<rparr> h port"
proof -
  have wild: "wildcard_match u h h" by (rule plain_wildcard [OF assms])
  have low: "str_lower u h = h" by (rule plain_lower [OF assms])
  have no: "x \<notin> set h" if "x \<in> {58, 93}" for x
    using plain_char [OF assms(2), of x] that by auto
  have port: "unat port \<le> 65535" using unsigned_less [of port, where ?'a = nat] by simp
  show ?thesis
  proof (cases "port = 22")
    case True
    show ?thesis
      using True wild low plain_pattern [OF assms(2)]
      by (simp add: entry_matches_def candidate_def pattern_matches_def)
  next
    case False
    have "split_once 93 (h @ 93 # 58 # show_nat (unat port)) = Some (h, 58 # show_nat (unat port))"
      by (rule split_once_append) (simp add: no)
    then have "split_host_port (91 # h @ 93 # 58 # show_nat (unat port)) = (h, Some (unat port))"
      using port by (simp add: split_host_port_def parse_show)
    then show ?thesis
      using False wild low by (simp add: entry_matches_def candidate_def pattern_matches_def)
  qed
qed

section \<open>The file format\<close>

definition word :: "ustring \<Rightarrow> bool" where
  "word w \<longleftrightarrow> w \<noteq> [] \<and> (\<forall>c \<in> set w. \<not> is_whitespace c)"

lemma space_ws [simp]: "is_whitespace 32"
  by (simp add: is_whitespace_def)

lemma trim_ends: "s \<noteq> [] \<Longrightarrow> \<not> is_whitespace (hd s) \<Longrightarrow> \<not> is_whitespace (last s) \<Longrightarrow> trim s = s"
proof -
  assume s: "s \<noteq> []" "\<not> is_whitespace (hd s)" "\<not> is_whitespace (last s)"
  then have "dropWhile is_whitespace s = s" "dropWhile is_whitespace (rev s) = rev s"
    by (simp_all add: dropWhile_eq_self_iff hd_rev)
  then show "trim s = s" by (simp add: trim_def trim_start_def trim_end_def)
qed

lemma split_join_words:
  "\<forall>w \<in> set ws. word w \<Longrightarrow> ws \<noteq> [] \<Longrightarrow> split_pred is_whitespace (join [32] ws) = ws"
proof (induction "[32::nat]" ws rule: join.induct)
  case (2 w)
  then show ?case by (simp add: word_def split_pred_no_sep)
next
  case (3 w v ws)
  then have "split_pred is_whitespace (w @ 32 # join [32] (v # ws)) = w # v # ws"
    by (subst split_pred_append) (auto simp: word_def)
  then show ?case by simp
qed simp

lemma join_words_ends:
  assumes "\<forall>w \<in> set ws. word w" and "ws \<noteq> []"
  shows "join [32] ws \<noteq> [] \<and> hd (join [32] ws) = hd (hd ws) \<and> last (join [32] ws) = last (last ws)"
  using assms
proof (induction "[32::nat]" ws rule: join.induct)
  case (3 w v ws)
  then have "w \<noteq> []" "join [32] (v # ws) \<noteq> []" "last (join [32] (v # ws)) = last (last (v # ws))"
    by (simp_all add: word_def)
  then show ?case by (simp add: hd_append)
qed (simp_all add: word_def)

lemma words_line:
  assumes "\<forall>w \<in> set ws. word w" and "ws \<noteq> []"
  shows "trim (join [32] ws) = join [32] ws" "split_whitespace (join [32] ws) = ws"
    "strip_cr (join [32] ws) = join [32] ws" "10 \<notin> set (join [32] ws)"
proof -
  note e = join_words_ends [OF assms]
  have "word (hd ws)" "word (last ws)" using assms by simp_all
  then have f: "\<not> is_whitespace (hd (hd ws))" "\<not> is_whitespace (last (last ws))"
    by (simp_all add: word_def)
  show "trim (join [32] ws) = join [32] ws" using e f by (intro trim_ends) auto
  show "split_whitespace (join [32] ws) = ws"
    using split_join_words [OF assms] assms(1) by (simp add: split_whitespace_def word_def)
  have "last (join [32] ws) \<noteq> 13" using e f by (auto simp: is_whitespace_def)
  then show "strip_cr (join [32] ws) = join [32] ws" by (simp add: strip_cr_def)
  have "c = 32 \<or> \<not> is_whitespace c" if "c \<in> set (join [32] ws)" for c
    using assms(1) that
    by (induction "[32::nat]" ws rule: join.induct) (auto simp: word_def)
  from this [of 10] show "10 \<notin> set (join [32] ws)" by (auto simp: is_whitespace_def)
qed

text \<open>The entries that the line syntax can express.\<close>

definition wf_entry :: "known_host_entry \<Rightarrow> bool" where
  "wf_entry e \<longleftrightarrow> kh_patterns e \<noteq> [] \<and> (\<forall>p \<in> set (kh_patterns e). 44 \<notin> set p)
     \<and> word (join [44] (kh_patterns e)) \<and> hd (join [44] (kh_patterns e)) \<notin> {35, 64}
     \<and> word (kh_key_type e) \<and> kh_key e \<noteq> []
     \<and> (\<exists>ws. kh_comment e = join [32] ws \<and> (\<forall>w \<in> set ws. word w))"

text \<open>What the code relies on of the base64 crate.\<close>

definition base64_laws :: "codec \<Rightarrow> bool" where
  "base64_laws cd \<longleftrightarrow>
     (\<forall>k. b64_decode cd (b64_encode cd k) = Some k \<and> (k \<noteq> [] \<longrightarrow> word (b64_encode cd k)))"

fun renumber :: "nat \<Rightarrow> known_host_entry list \<Rightarrow> known_host_entry list" where
  "renumber n [] = []"
| "renumber n (e # es) = e\<lparr>kh_line := n\<rparr> # renumber (n + 1) es"

definition marker_words :: "marker \<Rightarrow> ustring list" where
  "marker_words m = (case m of NoMarker \<Rightarrow> [] | CertAuthority \<Rightarrow> [lit ''@cert-authority'']
                       | RevokedMarker \<Rightarrow> [lit ''@revoked''])"

lemma marker_words_word: "w \<in> set (marker_words m) \<Longrightarrow> word w"
  by (cases m) (auto simp: marker_words_def word_def is_whitespace_def)

lemma entry_words:
  assumes "wf_entry e" and "base64_laws cd"
  obtains cs where "entry_to_line cd e = join [32] (marker_words (kh_marker e)
        @ [join [44] (kh_patterns e), kh_key_type e, b64_encode cd (kh_key e)] @ cs)"
    "\<forall>w \<in> set (marker_words (kh_marker e)
        @ [join [44] (kh_patterns e), kh_key_type e, b64_encode cd (kh_key e)] @ cs). word w"
    "kh_comment e = join [32] cs"
proof -
  obtain cs where cs: "kh_comment e = join [32] cs" "\<forall>w \<in> set cs. word w"
    using assms(1) by (auto simp: wf_entry_def)
  let ?ws = "[join [44] (kh_patterns e), kh_key_type e, b64_encode cd (kh_key e)] @ cs"
  have tail: "join [32] ?ws = join [44] (kh_patterns e) @ [32] @ kh_key_type e @ [32]
       @ b64_encode cd (kh_key e) @ (if kh_comment e = [] then [] else [32] @ kh_comment e)"
  proof (cases cs)
    case Nil
    then show ?thesis using cs by simp
  next
    case (Cons c r)
    then have "join [32] cs \<noteq> []" using join_words_ends [OF cs(2)] by simp
    with cs(1) Cons show ?thesis by simp
  qed
  have "entry_to_line cd e = join [32] (marker_words (kh_marker e) @ ?ws)"
    by (cases "kh_marker e") (simp_all add: entry_to_line_def marker_text_def marker_words_def
        tail [simplified])
  moreover have "\<forall>w \<in> set (marker_words (kh_marker e) @ ?ws). word w"
    using assms cs marker_words_word by (auto simp: wf_entry_def base64_laws_def)
  ultimately show ?thesis using that cs(1) by blast
qed

lemma parse_entry_line:
  assumes "wf_entry e" and "base64_laws cd"
  shows "entry_parse cd (entry_to_line cd e) n = Inr (Some (e\<lparr>kh_line := n\<rparr>))"
    and "strip_cr (entry_to_line cd e) = entry_to_line cd e" and "10 \<notin> set (entry_to_line cd e)"
proof -
  obtain cs where cs: "entry_to_line cd e = join [32] (marker_words (kh_marker e)
        @ [join [44] (kh_patterns e), kh_key_type e, b64_encode cd (kh_key e)] @ cs)"
    "\<forall>w \<in> set (marker_words (kh_marker e)
        @ [join [44] (kh_patterns e), kh_key_type e, b64_encode cd (kh_key e)] @ cs). word w"
    "kh_comment e = join [32] cs"
    by (rule entry_words [OF assms])
  let ?ws = "marker_words (kh_marker e)
        @ [join [44] (kh_patterns e), kh_key_type e, b64_encode cd (kh_key e)] @ cs"
  have ne: "?ws \<noteq> []" by simp
  note line = words_line [OF cs(2) ne]
  show "strip_cr (entry_to_line cd e) = entry_to_line cd e" "10 \<notin> set (entry_to_line cd e)"
    unfolding cs(1) by (rule line)+
  let ?pf = "join [44] (kh_patterns e)"
  have pf: "?pf \<noteq> []" "hd ?pf \<noteq> 35" "hd ?pf \<noteq> 64"
    using assms(1) by (auto simp: wf_entry_def word_def)
  have "marker_of ?pf = NoMarker"
    using pf(3) by (auto simp: marker_of_def)
  moreover have "hd (join [32] ?ws) \<noteq> 35"
    using join_words_ends [OF cs(2) ne] pf
    by (cases "kh_marker e") (simp_all add: marker_words_def)
  then have "\<not> starts_with [35] (join [32] ?ws)" by (auto simp: starts_with_iff)
  moreover have "join [32] ?ws \<noteq> []" using join_words_ends [OF cs(2) ne] by simp
  moreover have "split_char 44 ?pf = kh_patterns e"
    by (rule split_char_join) (use assms(1) in \<open>auto simp: wf_entry_def\<close>)
  moreover have "b64_decode cd (b64_encode cd (kh_key e)) = Some (kh_key e)"
    using assms(2) by (simp add: base64_laws_def)
  moreover have "kh_key e \<noteq> []" using assms(1) by (simp add: wf_entry_def)
  ultimately show "entry_parse cd (entry_to_line cd e) n = Inr (Some (e\<lparr>kh_line := n\<rparr>))"
    unfolding cs(1) entry_parse_def Let_def line(1,2)
    using cs(3) by (cases "kh_marker e") (simp_all add: marker_words_def marker_of_def)
qed

lemma parse_lines_run:
  assumes "base64_laws cd" and "\<forall>e \<in> set es. wf_entry e"
  shows "parse_lines cd (map (entry_to_line cd) es) n = renumber n es"
  using assms(2) by (induction es arbitrary: n) (simp_all add: parse_entry_line assms(1))

section \<open>Properties\<close>

text \<open>A codec for the witnesses: base64 writes each byte as one character above the BMP.\<close>

definition toy_codec :: codec where
  "toy_codec = \<lparr>b64_encode = map (\<lambda>b. unat b + 0x10000), b64_encode_no_pad = map (\<lambda>b. unat b + 0x10000),
     b64_decode = (\<lambda>s. Some (map (\<lambda>c. byte (c - 0x10000)) s)), hmac_sha1 = (\<lambda>k m. Some (k @ m)),
     sha256 = (\<lambda>m. m)\<rparr>"

text \<open>
  A key accepted for a host is trusted from then on for that host and port, whatever the
  database held before, as long as no line revokes it.
\<close>

theorem accepted_key_is_trusted:
  assumes "lowers_ascii u" and "plain_host host"
    and "\<forall>e \<in> set (db_entries db). entry_matches cd u e host port \<and> kh_key e = key
           \<longrightarrow> kh_marker e \<noteq> RevokedMarker"
  shows "known_hosts_check cd u (known_hosts_accept cd u host port kt key comment db) host port kt' key
     = Trusted"
  unfolding known_hosts_check_def known_hosts_accept_def
  by (rule check_loop_accepts) (use assms candidate_matches [OF assms(1,2)] in auto)

theorem accepted_key_is_trusted_witness:
  "known_hosts_check toy_codec ascii_unicode (known_hosts_accept toy_codec ascii_unicode (lit ''db01.example'') 2222
      (lit ''ssh-ed25519'') [1, 2, 3] [] known_hosts_empty) (lit ''db01.example'') 2222 (lit ''ssh-ed25519'') [1, 2, 3]
   = Trusted"
  by (rule accepted_key_is_trusted)
    (simp_all add: known_hosts_empty_def plain_host_def is_ascii_lower_def is_ascii_digit_def)

text \<open>
  Only recorded keys are trusted: when the check says so, a line of the database without a
  marker applies to the host and holds exactly this key.
\<close>

theorem trusted_only_if_recorded:
  assumes "known_hosts_check cd u db host port kt key = Trusted"
  shows "\<exists>e \<in> set (db_entries db). kh_marker e = NoMarker \<and> entry_matches cd u e host port \<and> kh_key e = key"
  using assms unfolding known_hosts_check_def by (rule check_loop_trusted)

theorem trusted_only_if_recorded_witness:
  "\<exists>e \<in> set (db_entries (known_hosts_accept toy_codec ascii_unicode (lit ''h'') 22 (lit ''k'') [7] [] known_hosts_empty)).
     kh_marker e = NoMarker \<and> entry_matches toy_codec ascii_unicode e (lit ''h'') 22 \<and> kh_key e = [7]"
proof (rule trusted_only_if_recorded)
  show "known_hosts_check toy_codec ascii_unicode
      (known_hosts_accept toy_codec ascii_unicode (lit ''h'') 22 (lit ''k'') [7] [] known_hosts_empty)
      (lit ''h'') 22 (lit ''k'') [7] = Trusted"
    unfolding known_hosts_check_def known_hosts_accept_def
    by (rule check_loop_accepts)
      (use candidate_matches [of ascii_unicode "lit ''h''"] in
        \<open>auto simp: known_hosts_empty_def plain_host_def is_ascii_lower_def\<close>)
qed

text \<open>
  C7: a changed key is detected. When a line that is not revoked applies to the host with the
  same key type and another key, and the presented key is on no such line, the check reports
  the change, with the fingerprint of the first of these lines.
\<close>

theorem changed_key_detected:
  assumes "e \<in> set (db_entries db)" and "conflicting cd u host port kt key e"
    and "\<forall>e \<in> set (db_entries db). entry_matches cd u e host port \<and> kh_key e = key \<longrightarrow> kh_marker e = CertAuthority"
  shows "\<exists>f. find (conflicting cd u host port kt key) (db_entries db) = Some f
     \<and> known_hosts_check cd u db host port kt key = Changed (entry_fingerprint cd f) kt"
proof -
  obtain f where f: "find (conflicting cd u host port kt key) (db_entries db) = Some f"
    using assms(1,2) by (metis find_None_iff not_None_eq)
  then have "kh_key_type f = kt" by (auto simp: find_Some_iff conflicting_def)
  with f check_loop_changed [OF assms(3), of kt None None] show ?thesis
    by (simp add: known_hosts_check_def)
qed

theorem changed_key_detected_witness:
  "\<exists>f. find (conflicting toy_codec ascii_unicode (lit ''h'') 22 (lit ''k'') [8])
        (db_entries (known_hosts_accept toy_codec ascii_unicode (lit ''h'') 22 (lit ''k'') [7] [] known_hosts_empty)) = Some f
     \<and> known_hosts_check toy_codec ascii_unicode
        (known_hosts_accept toy_codec ascii_unicode (lit ''h'') 22 (lit ''k'') [7] [] known_hosts_empty)
        (lit ''h'') 22 (lit ''k'') [8] = Changed (entry_fingerprint toy_codec f) (lit ''k'')"
proof (rule changed_key_detected)
  let ?e = "\<lparr>kh_marker = NoMarker, kh_patterns = [candidate ascii_unicode (lit ''h'') 22],
             kh_key_type = lit ''k'', kh_key = [7], kh_comment = [], kh_line = 0\<rparr>"
  show "?e \<in> set (db_entries (known_hosts_accept toy_codec ascii_unicode (lit ''h'') 22 (lit ''k'') [7] [] known_hosts_empty))"
    by (simp add: known_hosts_accept_def known_hosts_empty_def)
  show "conflicting toy_codec ascii_unicode (lit ''h'') 22 (lit ''k'') [8] ?e"
    unfolding conflicting_def
    using candidate_matches [of ascii_unicode "lit ''h''" toy_codec NoMarker 22 "lit ''k''" "[7]" "[]" 0]
    by (simp add: plain_host_def is_ascii_lower_def)
qed (simp add: known_hosts_accept_def known_hosts_empty_def)

text \<open>
  C8: file round trip: a database of entries that the line syntax can express is read back from
  its serialised form, entry by entry, with the line numbers of the new file.
\<close>

theorem known_hosts_round_trip:
  assumes "base64_laws cd" and "\<forall>e \<in> set (db_entries db). wf_entry e"
  shows "known_hosts_parse cd (known_hosts_to_string cd db)
     = \<lparr>db_entries = renumber 1 (db_entries db), db_path = None\<rparr>"
proof -
  have "known_hosts_to_string cd db = concat (map (\<lambda>l. l @ [10]) (map (entry_to_line cd) (db_entries db)))"
    by (simp add: known_hosts_to_string_def comp_def)
  moreover have "str_lines \<dots> = map (entry_to_line cd) (db_entries db)"
    by (rule lines_of_concat) (use assms parse_entry_line in auto)
  ultimately show ?thesis
    by (simp add: known_hosts_parse_def parse_lines_run assms)
qed

text \<open>A codec that satisfies the laws: every byte as one character, shifted out of the spaces.\<close>

theorem known_hosts_round_trip_witness:
  "known_hosts_parse toy_codec (known_hosts_to_string toy_codec
      \<lparr>db_entries = [\<lparr>kh_marker = RevokedMarker, kh_patterns = [lit ''a'', lit ''!b''], kh_key_type = lit ''k'',
         kh_key = [7], kh_comment = lit ''me'', kh_line = 9\<rparr>], db_path = None\<rparr>)
   = \<lparr>db_entries = renumber 1 [\<lparr>kh_marker = RevokedMarker, kh_patterns = [lit ''a'', lit ''!b''],
         kh_key_type = lit ''k'', kh_key = [7], kh_comment = lit ''me'', kh_line = 9\<rparr>], db_path = None\<rparr>"
proof -
  have laws: "base64_laws toy_codec"
    by (auto simp: base64_laws_def toy_codec_def comp_def word_def is_whitespace_def)
  have "wf_entry \<lparr>kh_marker = RevokedMarker, kh_patterns = [lit ''a'', lit ''!b''], kh_key_type = lit ''k'',
         kh_key = [7], kh_comment = lit ''me'', kh_line = 9\<rparr>"
    unfolding wf_entry_def
    by (auto simp: word_def is_whitespace_def intro!: exI [of _ "[lit ''me'']"])
  with known_hosts_round_trip [OF laws] show ?thesis by simp
qed

section \<open>Order and ports\<close>

text \<open>
  The first line with the presented key decides: a \<open>@revoked\<close> line after it is never read.
\<close>

lemma revoked_line_after_trusted_ignored:
  assumes "db_entries db = e # es" and "kh_marker e = NoMarker" and "entry_matches cd u e host port"
    and "kh_key e = key"
  shows "known_hosts_check cd u db host port kt key = Trusted"
  using assms by (simp add: known_hosts_check_def)

text \<open>
  A certificate authority line is compared like a host key line: a server with a plain key of the
  same type is reported as changed.
\<close>

lemma certificate_authority_reports_change:
  assumes "db_entries db = [e]" and "kh_marker e = CertAuthority" and "entry_matches cd u e host port"
    and "kh_key e \<noteq> key" and "kh_key_type e = kt"
  shows "known_hosts_check cd u db host port kt key = Changed (entry_fingerprint cd e) kt"
  using assms by (simp add: known_hosts_check_def)

text \<open>A pattern without a port applies to every port, so accepting a key on one port drops the line of another.\<close>

lemma portless_pattern_any_port:
  assumes "lowers_ascii u" and "plain_host h"
  shows "entry_matches cd u \<lparr>kh_marker = m, kh_patterns = [candidate u h 22], kh_key_type = kt,
           kh_key = k, kh_comment = c, kh_line = n\<rparr> h port"
  using plain_wildcard [OF assms] plain_lower [OF assms] plain_pattern [OF assms(2)]
  by (simp add: entry_matches_def candidate_def pattern_matches_def)

text \<open>A missing file gives a database without a path, which then refuses to be saved.\<close>

lemma missing_file_cannot_be_saved:
  "known_hosts_load cd path (Inl (IoNotFound, msg)) = Inr known_hosts_empty"
  "known_hosts_save cd fs known_hosts_empty = fail EConfig (lit ''the known hosts database has no file'')"
  by (simp_all add: known_hosts_load_def known_hosts_save_def known_hosts_empty_def)

end
