(* ===== verification/Rdt_Ids.thy ===== *)
theory Rdt_Ids
  imports Rdt_Error
begin

text \<open>
  Identifiers and secrets of \<open>rdt-types\<close>: \<open>ids.rs\<close> (eight random bytes shown as sixteen
  hexadecimal characters) and \<open>secret.rs\<close> (values compared without an early exit). The bytes
  of a fresh identifier come from the operating system and are an argument.
\<close>

section \<open>Identifiers\<close>

definition id_bytes :: nat where
  "id_bytes = 8"

datatype id_parse_error = Length nat | NotHex

type_synonym rdt_id = "u8 list"

definition id_new :: "(nat \<Rightarrow> u8) \<Rightarrow> rdt_id" where
  "id_new random = map random [0..<id_bytes]"

definition id_display :: "rdt_id \<Rightarrow> ustring" where
  "id_display b = concat (map show_hex_byte b)"

text \<open>\<open>&text[i..j]\<close>: the indices are bytes, and must lie on character boundaries.\<close>

definition is_boundary :: "u8 list \<Rightarrow> nat \<Rightarrow> bool" where
  "is_boundary bs k \<longleftrightarrow> k = 0 \<or> k = length bs \<or> k < length bs \<and> \<not> is_cont (bs ! k)"

definition str_slice :: "u8 list \<Rightarrow> nat \<Rightarrow> nat \<Rightarrow> u8 list option" where
  "str_slice bs i j =
     (if i \<le> j \<and> is_boundary bs i \<and> is_boundary bs j then Some (take (j - i) (drop i bs)) else None)"

text \<open>\<open>u8::from_str_radix(_, 16)\<close>, with its optional plus sign.\<close>

fun hex_digits :: "nat \<Rightarrow> u8 list \<Rightarrow> nat option" where
  "hex_digits acc [] = Some acc"
| "hex_digits acc (b # bs) =
     (case hex_value (unat b) of
        Some d \<Rightarrow> if acc * 16 + d < 256 then hex_digits (acc * 16 + d) bs else None
      | None \<Rightarrow> None)"

definition radix16 :: "u8 list \<Rightarrow> u8 option" where
  "radix16 bs =
     (case bs of
        [] \<Rightarrow> None
      | b # r \<Rightarrow>
          if r = [] \<and> (b = 0x2B \<or> b = 0x2D) then None
          else map_option word_of_nat (hex_digits 0 (if b = 0x2B then r else bs)))"

fun id_pairs :: "u8 list \<Rightarrow> nat list \<Rightarrow> rdt_id \<Rightarrow> (id_parse_error + rdt_id) option" where
  "id_pairs bs [] out = Some (Inr out)"
| "id_pairs bs (i # is) out =
     (case str_slice bs (i * 2) (i * 2 + 2) of
        None \<Rightarrow> None
      | Some pair \<Rightarrow>
          (case radix16 pair of
             None \<Rightarrow> Some (Inl NotHex)
           | Some v \<Rightarrow> id_pairs bs is (out[i := v])))"

definition id_from_str :: "ustring \<Rightarrow> (id_parse_error + rdt_id) option" where
  "id_from_str text =
     (if str_len text \<noteq> id_bytes * 2 then Some (Inl (Length (str_len text)))
      else id_pairs (as_bytes text) [0..<id_bytes] (replicate id_bytes 0))"

definition id_error_display :: "id_parse_error \<Rightarrow> ustring" where
  "id_error_display e =
     (case e of
        Length n \<Rightarrow> lit ''identifier must be '' @ show_nat (id_bytes * 2) @ lit '' hex characters, got '' @ show_nat n
      | NotHex \<Rightarrow> lit ''identifier must be hexadecimal'')"

section \<open>Secrets\<close>

definition redacted :: ustring where
  "redacted = lit ''<redacted>''"

definition secret_from_untrusted :: "ustring \<Rightarrow> ustring rdt_result" where
  "secret_from_untrusted value =
     (if value = redacted then
        fail EConfig (lit ''refusing to read a redacted secret; the original value was never stored'')
      else Inr value)"

definition secret_debug :: "ustring \<Rightarrow> ustring" where
  "secret_debug s = lit ''Secret('' @ redacted @ lit '', '' @ show_nat (str_len s) @ lit '' bytes)''"

definition secret_display :: "ustring \<Rightarrow> ustring" where
  "secret_display s = redacted"

definition constant_time_eq :: "u8 list \<Rightarrow> u8 list \<Rightarrow> bool" where
  "constant_time_eq a b =
     (let at = (\<lambda>xs i. case vec_get xs i of Some x \<Rightarrow> x | None \<Rightarrow> 0);
          diff0 = word_of_nat (length a XOR length b) :: u8
      in fold (\<lambda>i d. d OR (at a i XOR at b i)) [0..<max (length a) (length b)] diff0 = 0)"

definition secret_equals :: "ustring \<Rightarrow> ustring \<Rightarrow> bool" where
  "secret_equals s t = constant_time_eq (as_bytes s) (as_bytes t)"

definition secret_bytes_utf8 :: "u8 list \<Rightarrow> ustring option" where
  "secret_bytes_utf8 b = from_utf8 b"

section \<open>Facts\<close>

lemma hex_digit_ascii: "d < 16 \<Longrightarrow> hex_digit d < 128"
  by (simp add: hex_digit_def)

lemma show_hex_bytes: "as_bytes (show_hex_byte b) = [byte (hex_digit (unat b div 16)), byte (hex_digit (unat b mod 16))]"
proof -
  have "unat b div 16 < 16" using unat_u8_less [of b] by linarith
  then show ?thesis
    using hex_digit_ascii [of "unat b div 16"] hex_digit_ascii [of "unat b mod 16"]
    by (simp add: as_bytes_def show_hex_byte_def encode_utf8_def)
qed

lemma hex_digit_bounds: "d < 16 \<Longrightarrow> 48 \<le> hex_digit d \<and> hex_digit d < 128"
  by (auto simp: hex_digit_def)

lemma radix16_pair:
  "radix16 [byte (hex_digit (unat b div 16)), byte (hex_digit (unat b mod 16))] = Some b"
proof -
  have h: "unat b div 16 < 16" using unat_u8_less [of b] by linarith
  have p: "byte (hex_digit (unat b div 16)) \<noteq> 0x2B"
  proof
    assume "byte (hex_digit (unat b div 16)) = 0x2B"
    then have "unat (byte (hex_digit (unat b div 16))) = 0x2B" by simp
    with hex_digit_bounds [OF h] show False by simp
  qed
  have "unat b div 16 * 16 + unat b mod 16 = unat b" by simp
  with h p hex_digit_bounds [OF h] hex_digit_bounds [of "unat b mod 16"] show ?thesis
    by (simp add: radix16_def)
qed

text \<open>A string of ASCII characters has a boundary everywhere.\<close>

lemma ascii_bytes: "\<forall>c \<in> set s. c < 128 \<Longrightarrow> as_bytes s = map byte s"
  by (induction s) (auto simp: as_bytes_def encode_utf8_def)

lemma ascii_boundary:
  "\<forall>c \<in> set s. c < 128 \<Longrightarrow> k \<le> length s \<Longrightarrow> is_boundary (map byte s) k"
proof -
  assume s: "\<forall>c \<in> set s. c < 128" "k \<le> length s"
  have "\<not> is_cont (map byte s ! k)" if "k < length s"
  proof -
    have "s ! k < 128" using s(1) that by simp
    then have "unat (byte (s ! k)) < 128" by simp
    then show ?thesis using that by (simp add: is_cont_def)
  qed
  with s(2) show ?thesis by (auto simp: is_boundary_def)
qed

lemma id_display_ascii: "c \<in> set (id_display b) \<Longrightarrow> c < 128"
proof -
  have "unat x div 16 < 16" for x :: u8 using unat_u8_less [of x] by linarith
  then show "c \<in> set (id_display b) \<Longrightarrow> c < 128"
    using hex_digit_ascii by (auto simp: id_display_def show_hex_byte_def)
qed

lemma length_id_display [simp]: "length (id_display b) = 2 * length b"
  by (induction b) (simp_all add: id_display_def show_hex_byte_def)

lemma str_len_ascii: "\<forall>c \<in> set s. c < 128 \<Longrightarrow> str_len s = length s"
  by (induction s) (simp_all add: str_len_def len_utf8_def)

lemma drop_id_display:
  "i < length b \<Longrightarrow> take 2 (drop (i * 2) (id_display b)) = show_hex_byte (b ! i)"
proof (induction b arbitrary: i)
  case (Cons x b)
  have x: "id_display (x # b) = show_hex_byte x @ id_display b" by (simp add: id_display_def)
  show ?case
  proof (cases i)
    case 0
    then show ?thesis by (simp add: x show_hex_byte_def)
  next
    case (Suc j)
    then have "drop (i * 2) (id_display (x # b)) = drop (j * 2) (id_display b)"
      unfolding x by (simp add: show_hex_byte_def)
    with Suc Cons show ?thesis by simp
  qed
qed simp

lemma id_pairs_run:
  assumes "length b = id_bytes" and "length out = id_bytes" and "n \<le> id_bytes"
    and "take n out = take n b"
  shows "id_pairs (as_bytes (id_display b)) [n..<id_bytes] out = Some (Inr b)"
  using assms(2-4)
proof (induction "id_bytes - n" arbitrary: n out)
  case 0
  then have "n = id_bytes" by simp
  with 0 assms(1) show ?case by simp
next
  case (Suc k)
  then have n: "n < id_bytes" by simp
  have asc: "\<forall>c \<in> set (id_display b). c < 128" using id_display_ascii by blast
  have bs: "as_bytes (id_display b) = map byte (id_display b)" by (rule ascii_bytes [OF asc])
  have "is_boundary (map byte (id_display b)) (n * 2)"
    "is_boundary (map byte (id_display b)) (n * 2 + 2)"
    using n assms(1) by (intro ascii_boundary asc; simp)+
  then have "str_slice (as_bytes (id_display b)) (n * 2) (n * 2 + 2)
      = Some (map byte (take 2 (drop (n * 2) (id_display b))))"
    by (simp add: str_slice_def bs take_map drop_map)
  also have "take 2 (drop (n * 2) (id_display b)) = show_hex_byte (b ! n)"
    using n assms(1) by (intro drop_id_display) simp
  finally have "str_slice (as_bytes (id_display b)) (n * 2) (n * 2 + 2)
      = Some [byte (hex_digit (unat (b ! n) div 16)), byte (hex_digit (unat (b ! n) mod 16))]"
    by (simp add: show_hex_byte_def)
  moreover have "id_pairs (as_bytes (id_display b)) [Suc n..<id_bytes] (out[n := b ! n]) = Some (Inr b)"
    using Suc n assms(1) by (intro Suc.hyps) (simp_all add: take_Suc_conv_app_nth)
  ultimately show ?case using n by (simp add: upt_conv_Cons radix16_pair)
qed

lemma fold_or_zero:
  "fold (\<lambda>i d. d OR f i) xs d = (0 :: u8) \<longleftrightarrow> d = 0 \<and> (\<forall>i \<in> set xs. f i = 0)"
proof (induction xs arbitrary: d)
  case (Cons x xs)
  have "d OR f x = 0 \<longleftrightarrow> d = 0 \<and> f x = 0" by (rule or_eq_0_iff)
  with Cons show ?case by auto
qed simp

text \<open>What the comparison decides: equal lengths modulo 256 and equal bytes after padding.\<close>

lemma constant_time_eq_iff:
  "constant_time_eq a b \<longleftrightarrow> length a mod 256 = length b mod 256
     \<and> (\<forall>i < max (length a) (length b).
          (if i < length a then a ! i else 0) = (if i < length b then b ! i else 0))"
proof -
  have len: "(word_of_nat (length a XOR length b) :: u8) = 0 \<longleftrightarrow> length a mod 256 = length b mod 256"
  proof -
    have "(word_of_nat (length a XOR length b) :: u8) = 0
        \<longleftrightarrow> take_bit 8 (length a XOR length b) = 0"
      by (simp add: word_of_nat_eq_0_iff take_bit_eq_mod mod_eq_0_iff_dvd)
    also have "\<dots> \<longleftrightarrow> take_bit 8 (length a) XOR take_bit 8 (length b) = 0"
      by (simp only: take_bit_xor)
    also have "\<dots> \<longleftrightarrow> take_bit 8 (length a) = take_bit 8 (length b)"
      by (auto simp: bit_eq_iff bit_simps)
    finally show ?thesis by (simp add: take_bit_eq_mod)
  qed
  have x: "x XOR y = 0 \<longleftrightarrow> x = y" for x y :: u8 by (auto simp: bit_eq_iff bit_simps)
  have get: "(case vec_get xs i of None \<Rightarrow> 0 | Some x \<Rightarrow> x) = (if i < length xs then xs ! i else 0)"
    for xs :: "u8 list" and i by (simp add: vec_get_def)
  show ?thesis
    by (simp add: constant_time_eq_def Let_def fold_or_zero len x get)
      (auto simp: less_max_iff_disj)
qed

section \<open>Properties\<close>

text \<open>
  Identifiers round trip: the sixteen characters an identifier is shown as parse back to
  its bytes.
\<close>

theorem id_round_trip:
  assumes "length b = id_bytes"
  shows "id_from_str (id_display b) = Some (Inr b)"
proof -
  have "str_len (id_display b) = 16"
    using assms id_display_ascii by (subst str_len_ascii) (auto simp: id_bytes_def)
  then show ?thesis
    using id_pairs_run [OF assms, of "replicate id_bytes 0" 0] by (simp add: id_from_str_def id_bytes_def)
qed

theorem id_round_trip_witness:
  "id_from_str (id_display (id_new (\<lambda>i. word_of_nat i))) = Some (Inr (id_new (\<lambda>i. word_of_nat i)))"
  by (rule id_round_trip) (simp add: id_new_def)

text \<open>
  The parser slices the text at byte positions. A text of sixteen bytes in which a
  character of two or more bytes follows one ASCII character panics instead of being refused.
\<close>

theorem id_from_str_panics:
  assumes "c < 0x80" and "0x80 \<le> d" and "is_scalar d" and "str_len (c # d # s) = 16"
  shows "id_from_str (c # d # s) = None"
proof -
  have cont: "is_cont (byte (0x80 + m mod 64))" for m
  proof -
    have "m mod 64 < 64" by simp
    then have "0x80 + m mod 64 < 192" "0x80 + m mod 64 < 256" by linarith+
    then show ?thesis unfolding is_cont_def by (simp only: unat_byte) simp
  qed
  have "\<exists>x y r. encode_utf8 d = x # y # r \<and> is_cont y"
    using assms(2) cont by (simp add: encode_utf8_def)
  then obtain x y r where xy: "encode_utf8 d = x # y # r" "is_cont y" by blast
  have "as_bytes (c # d # s) = byte c # x # y # r @ as_bytes s"
    using assms(1) xy(1) by (simp add: as_bytes_def encode_utf8_def [of c])
  then have "str_slice (as_bytes (c # d # s)) 0 2 = None"
    using xy(2) by (simp add: str_slice_def is_boundary_def)
  then have "str_slice (as_bytes (c # d # s)) 0 (Suc (Suc 0)) = None" by (simp add: numeral_2_eq_2)
  then show ?thesis
    using assms(4) by (simp add: id_from_str_def id_bytes_def upt_conv_Cons)
qed

theorem id_from_str_panics_witness: "id_from_str (0x61 # 0xE9 # replicate 13 0x61) = None"
  by (rule id_from_str_panics) (simp_all add: is_scalar_def str_len_def len_utf8_def sum_list_replicate)

text \<open>
  The comparison of secrets is equality for secrets of the same length.
\<close>

theorem constant_time_eq_same_length:
  assumes "length a = length b"
  shows "constant_time_eq a b \<longleftrightarrow> a = b"
  using assms by (auto simp: constant_time_eq_iff list_eq_iff_nth_eq)

theorem constant_time_eq_same_length_witness: "\<not> constant_time_eq [1, 2] [1, 3]"
  using constant_time_eq_same_length [of "[1, 2]" "[1, 3]"] by simp

text \<open>
  It is not equality in general. The difference of the lengths is reduced to one byte, so a
  secret equals itself followed by any multiple of 256 zero bytes.
\<close>

theorem constant_time_eq_ignores_padding:
  "constant_time_eq a (a @ replicate (256 * k) 0)"
  by (auto simp: constant_time_eq_iff nth_append)

end
