(* ===== verification/Rdt_Redact.thy ===== *)
theory Rdt_Redact
  imports Rdt_Ids
begin

text \<open>
  Redaction, \<open>crates/rdt-types/src/redact.rs\<close>: known secret values and the values of sensitive
  looking \<open>key=value\<close> and \<open>Key: value\<close> pairs are replaced by a marker.
\<close>

section \<open>The redactor\<close>

definition sensitive_keys :: "ustring list" where
  "sensitive_keys = map lit
     [''password'', ''passwd'', ''passphrase'', ''pass'', ''secret'', ''token'', ''apikey'',
      ''api_key'', ''authorization'', ''auth'', ''credential'', ''credentials'', ''private_key'',
      ''privatekey'', ''otp'', ''pin'']"

definition redact_secret_in :: "ustring \<Rightarrow> ustring \<Rightarrow> ustring" where
  "redact_secret_in text secret = (if secret = [] then text else replace_str secret redacted text)"

type_synonym redactor = "ustring list"

definition redactor_new :: redactor where
  "redactor_new = []"

definition with_secret :: "ustring \<Rightarrow> redactor \<Rightarrow> redactor" where
  "with_secret secret r = (if str_len secret \<ge> 4 \<and> secret \<notin> set r then r @ [secret] else r)"

definition secret_count :: "redactor \<Rightarrow> nat" where
  "secret_count r = length r"

definition is_key_char :: "uchar \<Rightarrow> bool" where
  "is_key_char c \<longleftrightarrow> is_ascii_alphanumeric c \<or> c = 95 \<or> c = 45"

fun key_start :: "ustring \<Rightarrow> nat \<Rightarrow> nat" where
  "key_start cs 0 = 0"
| "key_start cs (Suc n) = (if is_key_char (cs ! n) then key_start cs n else Suc n)"

definition separator_len :: "ustring \<Rightarrow> nat \<Rightarrow> nat" where
  "separator_len cs i =
     (if cs ! i = 61 then 1
      else if cs ! i = 58 \<and> vec_get cs (i + 1) = Some 32 then 2
      else 0)"

definition ends_value :: "bool \<Rightarrow> uchar \<Rightarrow> bool" where
  "ends_value header c = (if header then c = 10 else is_whitespace c \<or> c = 44 \<or> c = 59)"

definition value_end :: "bool \<Rightarrow> ustring \<Rightarrow> nat \<Rightarrow> nat" where
  "value_end header cs i = i + length (takeWhile (\<lambda>c. \<not> ends_value header c) (drop i cs))"

definition sensitive_key :: "ustring \<Rightarrow> bool" where
  "sensitive_key key \<longleftrightarrow>
     list_ex (\<lambda>k. eq_ignore_ascii_case key k \<or> ends_with k key) sensitive_keys"

function scrub_loop :: "ustring \<Rightarrow> nat \<Rightarrow> ustring \<Rightarrow> ustring" where
  "scrub_loop cs index out =
     (if index < length cs then
        (let sep = separator_len cs index in
         if sep = 0 then scrub_loop cs (index + 1) (out @ [cs ! index])
         else
           (let start = key_start cs index;
                key = take (index - start) (drop start cs);
                popped = take (length out - (index - start)) out;
                out' = popped @ key @ take sep (drop index cs);
                vstart = index + sep;
                vend = value_end (sep = 2) cs vstart in
            scrub_loop cs vend
              (if sensitive_key key \<and> vend > vstart then out' @ redacted
               else out' @ take (vend - vstart) (drop vstart cs))))
      else out)"
  by pat_completeness auto
termination
  by (relation "measure (\<lambda>(cs, index, out). length cs - index)") (auto simp: value_end_def)

declare scrub_loop.simps [simp del]

definition scrub_sensitive_pairs :: "ustring \<Rightarrow> ustring" where
  "scrub_sensitive_pairs text = scrub_loop text 0 []"

definition redact :: "redactor \<Rightarrow> ustring \<Rightarrow> ustring" where
  "redact r text =
     scrub_sensitive_pairs
       (fold (\<lambda>secret out. if contains_str secret out then replace_str secret redacted out else out)
          r text)"

definition redact_show :: "redactor \<Rightarrow> ustring \<Rightarrow> bool \<Rightarrow> ustring" where
  "redact_show r value is_secret = (if is_secret then redacted else redact r value)"

section \<open>Texts with segments replaced by the marker\<close>

inductive marked :: "ustring \<Rightarrow> ustring \<Rightarrow> bool" where
  marked_Nil: "marked [] []"
| marked_Cons: "marked x y \<Longrightarrow> marked (c # x) (c # y)"
| marked_segment: "marked x y \<Longrightarrow> marked (seg @ x) (redacted @ y)"

inductive_cases marked_NilE: "marked x []"

lemma marked_refl: "marked x x"
  by (induction x) (auto intro: marked.intros)

lemma marked_append: "marked x y \<Longrightarrow> marked u v \<Longrightarrow> marked (x @ u) (y @ v)"
  by (induction rule: marked.induct) (auto intro: marked.intros)

lemma redacted_not_Nil [simp]: "redacted \<noteq> []"
  by (simp add: redacted_def)

text \<open>The texts that the marker cannot bring back: without angle brackets, and no part of the marker. Such a
  text is found in the result only where it was before.\<close>

definition hideable :: "ustring \<Rightarrow> bool" where
  "hideable s \<longleftrightarrow> 60 \<notin> set s \<and> 62 \<notin> set s \<and> \<not> contains_str s redacted"

lemma hideable_not_Nil: "hideable s \<Longrightarrow> s \<noteq> []"
  by (auto simp: hideable_def contains_str_iff) (metis append_Nil)

lemma redacted_ends: "hd redacted = 60" "last redacted = 62"
  by (simp_all add: redacted_def)

lemma marked_starts:
  assumes "60 \<notin> set s"
  shows "marked x y \<Longrightarrow> starts_with s y \<Longrightarrow> starts_with s x"
  using assms
proof (induction s arbitrary: x y)
  case Nil
  then show ?case by (simp add: starts_with_def)
next
  case (Cons c s)
  from Cons.prems(1) show ?case
  proof cases
    case (marked_segment x' y' seg)
    obtain r where "redacted @ y' = c # r"
      using Cons.prems(2) marked_segment(2) by (auto simp: starts_with_iff)
    then have "c = hd redacted" by (metis hd_append2 list.sel(1) redacted_not_Nil)
    with Cons.prems(3) show ?thesis by (simp add: redacted_ends)
  qed (use Cons in \<open>auto simp: starts_with_iff\<close>)
qed

lemma starts_contains: "starts_with s x \<Longrightarrow> contains_str s x"
  by (auto simp: starts_with_iff contains_str_iff intro: exI [of _ "[]"])

lemma contains_appendI: "contains_str s x \<Longrightarrow> contains_str s (w @ x)"
  by (auto simp: contains_str_iff) (metis append_assoc)

text \<open>An occurrence across a character that the text does not have lies on one side of it.\<close>

lemma contains_line:
  assumes "c \<notin> set x" and "contains_str x (l @ c # r)"
  shows "contains_str x l \<or> contains_str x r"
proof -
  obtain a b where ab: "l @ c # r = a @ x @ b" using assms(2) by (auto simp: contains_str_iff)
  then consider us where "l = a @ us" "us @ c # r = x @ b" | us where "l @ us = a" "c # r = us @ x @ b"
    by (auto simp: append_eq_append_conv2)
  then show ?thesis
  proof cases
    case 1
    then consider vs where "us = x @ vs" | vs where "us @ vs = x" "c # r = vs @ b"
      by (auto simp: append_eq_append_conv2)
    then show ?thesis
    proof cases
      case 1
      with \<open>l = a @ us\<close> show ?thesis by (auto simp: contains_str_iff)
    next
      case 2
      with assms(1) have "vs = []" by (cases vs) auto
      with 2 \<open>l = a @ us\<close> have "l = a @ x @ []" by simp
      then show ?thesis unfolding contains_str_iff by blast
    qed
  next
    case 2
    show ?thesis
    proof (cases us)
      case Nil
      with 2 assms(1) have "x = []" by (cases x) auto
      then show ?thesis by (auto simp: contains_str_iff intro: exI [of _ "[]"])
    next
      case (Cons d ds)
      with 2 have "r = ds @ x @ b" by simp
      then show ?thesis by (auto simp: contains_str_iff)
    qed
  qed
qed

lemma contains_after_marker:
  assumes "hideable s" and "contains_str s (redacted @ y)"
  shows "contains_str s y"
proof -
  have r: "redacted = butlast redacted @ [62]"
    using append_butlast_last_id [OF redacted_not_Nil] by (simp only: redacted_ends)
  have "\<not> contains_str s (butlast redacted)"
  proof
    assume "contains_str s (butlast redacted)"
    then obtain a b where "butlast redacted = a @ s @ b" by (auto simp: contains_str_iff)
    with r have "redacted = a @ s @ (b @ [62])" by (metis append.assoc)
    then have "contains_str s redacted" unfolding contains_str_iff by blast
    with assms(1) show False by (simp add: hideable_def)
  qed
  moreover have "contains_str s (butlast redacted @ 62 # y)" using assms(2) r by (metis append.assoc append_Cons append_Nil)
  ultimately show ?thesis using contains_line [of 62 s] assms(1) by (auto simp: hideable_def)
qed

lemma marked_contains:
  assumes "hideable s"
  shows "marked x y \<Longrightarrow> contains_str s y \<Longrightarrow> contains_str s x"
proof (induction rule: marked.induct)
  case (marked_Cons x y c)
  show ?case
  proof (cases "starts_with s (c # y)")
    case True
    then have "starts_with s (c # x)"
      using marked_starts [OF _ marked.marked_Cons [OF marked_Cons.hyps]] assms by (simp add: hideable_def)
    then show ?thesis by (rule starts_contains)
  next
    case False
    with marked_Cons show ?thesis by simp
  qed
next
  case (marked_segment x y seg)
  then show ?case
    using contains_after_marker [OF assms] by (blast intro: contains_appendI)
qed simp

section \<open>Literal secrets\<close>

lemma replace_marked: "s \<noteq> [] \<Longrightarrow> marked x (replace_str s redacted x)"
proof (induction x rule: length_induct)
  case (1 x)
  show ?case
  proof (cases x)
    case Nil
    then show ?thesis by (simp add: marked.intros)
  next
    case (Cons c y)
    show ?thesis
    proof (cases "starts_with s x")
      case True
      then obtain r where r: "x = s @ r" by (auto simp: starts_with_iff)
      moreover have "marked r (replace_str s redacted r)" using 1 r by simp
      ultimately show ?thesis
        using 1(2) by (auto simp: replace_str_match intro: marked_segment)
    next
      case False
      with 1 Cons show ?thesis by (auto simp: replace_str_other intro: marked_Cons)
    qed
  qed
qed

lemma replace_gone:
  assumes "hideable s"
  shows "\<not> contains_str s (replace_str s redacted x)"
proof (induction x rule: length_induct)
  case (1 x)
  show ?case
  proof (cases x)
    case Nil
    with hideable_not_Nil [OF assms] show ?thesis by simp
  next
    case (Cons c y)
    show ?thesis
    proof (cases "starts_with s x")
      case True
      then obtain r where r: "x = s @ r" by (auto simp: starts_with_iff)
      then have "\<not> contains_str s (replace_str s redacted r)" using 1 hideable_not_Nil [OF assms] by simp
      then show ?thesis
        using contains_after_marker [OF assms] by (auto simp: r replace_str_match hideable_not_Nil [OF assms])
    next
      case False
      then have eq: "replace_str s redacted x = c # replace_str s redacted y"
        by (simp add: Cons replace_str_other)
      have "\<not> starts_with s (c # replace_str s redacted y)"
        using False marked_starts [OF _ replace_marked [OF hideable_not_Nil [OF assms], of x]] eq assms
        by (auto simp: hideable_def)
      with 1 Cons eq show ?thesis by simp
    qed
  qed
qed

definition scrub_secrets :: "redactor \<Rightarrow> ustring \<Rightarrow> ustring" where
  "scrub_secrets r text =
     fold (\<lambda>secret out. if contains_str secret out then replace_str secret redacted out else out)
       r text"

lemma scrub_secrets_keeps_out:
  assumes "hideable s" and "\<forall>x \<in> set r. x \<noteq> []" and "\<not> contains_str s x"
  shows "\<not> contains_str s (scrub_secrets r x)"
  using assms(2,3)
proof (induction r arbitrary: x)
  case (Cons p r)
  then have "p \<noteq> []" by simp
  with Cons.prems marked_contains [OF assms(1) replace_marked]
  have "\<not> contains_str s (if contains_str p x then replace_str p redacted x else x)" by auto
  with Cons show ?case by (simp add: scrub_secrets_def)
qed (simp add: scrub_secrets_def)

lemma scrub_secrets_gone:
  assumes "hideable s" and "\<forall>x \<in> set r. x \<noteq> []" and "s \<in> set r"
  shows "\<not> contains_str s (scrub_secrets r x)"
  using assms(2,3)
proof (induction r arbitrary: x)
  case (Cons p r)
  let ?x = "if contains_str p x then replace_str p redacted x else x"
  have step: "scrub_secrets (p # r) x = scrub_secrets r ?x" by (simp add: scrub_secrets_def)
  show ?case
  proof (cases "p = s")
    case True
    then have "\<not> contains_str s ?x" using replace_gone [OF assms(1)] by auto
    then show ?thesis unfolding step using Cons.prems assms by (intro scrub_secrets_keeps_out) auto
  next
    case False
    with Cons show ?thesis unfolding step by simp
  qed
qed simp

section \<open>The scan for pairs\<close>

lemma key_start_le: "key_start cs i \<le> i"
  by (induction i) auto

lemma key_start_chars: "key_start cs i \<le> j \<Longrightarrow> j < i \<Longrightarrow> is_key_char (cs ! j)"
  by (induction i) (auto split: if_splits simp: less_Suc_eq)

definition key_at :: "ustring \<Rightarrow> nat \<Rightarrow> ustring" where
  "key_at cs i = take (i - key_start cs i) (drop (key_start cs i) cs)"

lemma take_key: "i \<le> length cs \<Longrightarrow> take i cs = take (key_start cs i) cs @ key_at cs i"
  using key_start_le [of cs i] by (simp add: key_at_def take_add [symmetric])

lemma key_at_Suc:
  "i < length cs \<Longrightarrow> is_key_char (cs ! i) \<Longrightarrow> key_at cs (Suc i) = key_at cs i @ [cs ! i]"
  using key_start_le [of cs i] by (simp add: key_at_def Suc_diff_le take_Suc_conv_app_nth)

text \<open>
  The invariant of the scan: the output is the input so far with some segments replaced, and in
  front of a separator or inside a key it ends with the key characters, unchanged.
\<close>

definition scan_inv :: "ustring \<Rightarrow> nat \<Rightarrow> ustring \<Rightarrow> bool" where
  "scan_inv cs i out \<longleftrightarrow> i \<le> length cs \<and> marked (take i cs) out
     \<and> (i < length cs \<and> (separator_len cs i \<noteq> 0 \<or> is_key_char (cs ! i)) \<longrightarrow>
          (\<exists>o'. out = o' @ key_at cs i \<and> marked (take (key_start cs i) cs) o'))"

lemma scan_inv_start: "scan_inv cs 0 []"
  by (simp add: scan_inv_def key_at_def marked.intros)

lemma marked_snoc: "marked x y \<Longrightarrow> marked (x @ [c]) (y @ [c])"
  by (rule marked_append) (auto intro: marked.intros)

lemma scan_inv_copy:
  assumes "scan_inv cs i out" and "i < length cs"
  shows "scan_inv cs (Suc i) (out @ [cs ! i])"
proof -
  have m: "marked (take (Suc i) cs) (out @ [cs ! i])"
    using assms by (simp add: scan_inv_def take_Suc_conv_app_nth marked_snoc)
  show ?thesis
  proof (cases "is_key_char (cs ! i)")
    case True
    then obtain o' where "out = o' @ key_at cs i" "marked (take (key_start cs i) cs) o'"
      using assms by (auto simp: scan_inv_def)
    with True m assms(2) show ?thesis by (auto simp: scan_inv_def key_at_Suc)
  next
    case False
    then have "key_at cs (Suc i) = []" by (simp add: key_at_def)
    with False m assms(2) show ?thesis by (simp add: scan_inv_def)
  qed
qed

lemma value_end_bounds: "i \<le> length cs \<Longrightarrow> i \<le> value_end h cs i \<and> value_end h cs i \<le> length cs"
  using length_takeWhile_le [of "\<lambda>c. \<not> ends_value h c" "drop i cs"] by (auto simp: value_end_def)

lemma value_end_stops:
  assumes "value_end h cs i < length cs"
  shows "ends_value h (cs ! value_end h cs i)"
proof -
  let ?w = "takeWhile (\<lambda>c. \<not> ends_value h c) (drop i cs)"
  have "length ?w < length (drop i cs)" using assms by (simp add: value_end_def)
  then have "ends_value h (drop i cs ! length ?w)" using nth_length_takeWhile by blast
  then show ?thesis using assms by (simp add: value_end_def)
qed

lemma ends_value_plain:
  assumes "ends_value h (cs ! i)"
  shows "separator_len cs i = 0" "\<not> is_key_char (cs ! i)"
  using assms by (auto simp: ends_value_def separator_len_def is_key_char_def is_whitespace_def
      is_ascii_alphanumeric_def is_ascii_digit_def is_ascii_upper_def is_ascii_lower_def split: if_splits)

lemma take_between: "i \<le> j \<Longrightarrow> take j xs = take i xs @ take (j - i) (drop i xs)"
  by (metis le_add_diff_inverse take_add)

lemma scan_inv_pair:
  assumes "scan_inv cs i out" and "i < length cs" and "separator_len cs i = sep" and "sep \<noteq> 0"
    and "j = value_end h cs (i + sep)" and "v = redacted \<or> v = take (j - (i + sep)) (drop (i + sep) cs)"
  shows "scan_inv cs j (take (length out - (i - key_start cs i)) out @ key_at cs i @ take sep (drop i cs) @ v)"
proof -
  obtain o' where o': "out = o' @ key_at cs i" "marked (take (key_start cs i) cs) o'"
    using assms(1-4) by (auto simp: scan_inv_def)
  have "length (key_at cs i) = i - key_start cs i" using assms(2) by (simp add: key_at_def)
  then have pop: "take (length out - (i - key_start cs i)) out = o'" using o'(1) by simp
  have sep: "i + sep \<le> length cs"
    using assms(2-4) by (auto simp: separator_len_def vec_get_def split: if_splits)
  have j: "i + sep \<le> j" "j \<le> length cs" using value_end_bounds [OF sep, of h] assms(5) by auto
  have "take j cs = take (key_start cs i) cs @ key_at cs i @ take sep (drop i cs)
      @ take (j - (i + sep)) (drop (i + sep) cs)"
    using take_between [OF j(1), of cs] take_key [of i cs] assms(2) by (simp add: take_add)
  moreover have "marked (take (j - (i + sep)) (drop (i + sep) cs)) v"
  proof (cases "v = redacted")
    case True
    then show ?thesis using marked_segment [OF marked_Nil, of "take (j - (i + sep)) (drop (i + sep) cs)"]
      by (simp only: append_Nil2)
  next
    case False
    with assms(6) show ?thesis by (simp add: marked_refl)
  qed
  ultimately have "marked (take j cs) (o' @ key_at cs i @ take sep (drop i cs) @ v)"
    using marked_append [OF o'(2) marked_append [OF marked_refl marked_append [OF marked_refl]]]
    by (simp only:)
  moreover have "j < length cs \<Longrightarrow> separator_len cs j = 0 \<and> \<not> is_key_char (cs ! j)"
    using ends_value_plain [OF value_end_stops [of h cs "i + sep"]] assms(5) by simp
  ultimately show ?thesis using j pop by (auto simp: scan_inv_def)
qed

lemma scrub_loop_marked: "scan_inv cs i out \<Longrightarrow> marked cs (scrub_loop cs i out)"
proof (induction "length cs - i" arbitrary: i out rule: less_induct)
  case (less i out)
  show ?case
  proof (cases "i < length cs")
    case False
    then have "scrub_loop cs i out = out" by (simp add: scrub_loop.simps [of cs i])
    with False less(2) show ?thesis by (simp add: scan_inv_def)
  next
    case True
    let ?sep = "separator_len cs i"
    show ?thesis
    proof (cases "?sep = 0")
      case zero: True
      have "marked cs (scrub_loop cs (i + 1) (out @ [cs ! i]))"
        by (rule less(1)) (use True scan_inv_copy [OF less(2)] in auto)
      with True zero show ?thesis by (simp add: scrub_loop.simps [of cs i] Let_def)
    next
      case sep: False
      let ?j = "value_end (?sep = 2) cs (i + ?sep)"
      let ?v = "if sensitive_key (key_at cs i) \<and> ?j > i + ?sep then redacted
                else take (?j - (i + ?sep)) (drop (i + ?sep) cs)"
      let ?out = "take (length out - (i - key_start cs i)) out @ key_at cs i @ take ?sep (drop i cs) @ ?v"
      have eq: "scrub_loop cs i out = scrub_loop cs ?j ?out"
        using True sep by (simp add: scrub_loop.simps [of cs i] Let_def key_at_def)
      have "scan_inv cs ?j ?out"
        by (rule scan_inv_pair [OF less(2) True refl sep refl]) auto
      moreover have "length cs - ?j < length cs - i"
        using True sep by (simp add: value_end_def)
      ultimately show ?thesis unfolding eq by (intro less(1))
    qed
  qed
qed

lemma redact_eq: "redact r text = scrub_sensitive_pairs (scrub_secrets r text)"
  by (simp add: redact_def scrub_secrets_def)

lemma scrub_marked: "marked x (scrub_sensitive_pairs x)"
  unfolding scrub_sensitive_pairs_def by (rule scrub_loop_marked [OF scan_inv_start])

section \<open>Pairs\<close>

lemma key_char_separator: "is_key_char (cs ! i) \<Longrightarrow> separator_len cs i = 0"
  by (auto simp: separator_len_def is_key_char_def is_ascii_alphanumeric_def is_ascii_digit_def
      is_ascii_upper_def is_ascii_lower_def)

text \<open>The scan copies the key characters at the start of a text.\<close>

lemma scrub_key:
  assumes "\<forall>c \<in> set k. is_key_char c"
  shows "scrub_sensitive_pairs (k @ r) = scrub_loop (k @ r) (length k) k" "key_start (k @ r) (length k) = 0"
proof -
  have key: "is_key_char ((k @ r) ! i)" if "i < length k" for i
    using assms that by (simp add: nth_append)
  have "scrub_loop (k @ r) 0 [] = scrub_loop (k @ r) i (take i k)" if "i \<le> length k" for i
    using that
  proof (induction i)
    case (Suc i)
    then have "scrub_loop (k @ r) i (take i k) = scrub_loop (k @ r) (Suc i) (take i k @ [(k @ r) ! i])"
      using key_char_separator [OF key [of i]] by (simp add: scrub_loop.simps [of "k @ r" i] Let_def)
    with Suc show ?case by (simp add: nth_append take_Suc_conv_app_nth)
  qed simp
  from this [of "length k"] show "scrub_sensitive_pairs (k @ r) = scrub_loop (k @ r) (length k) k"
    by (simp add: scrub_sensitive_pairs_def)
  have "key_start (k @ r) i = 0" if "i \<le> length k" for i
    using that key by (induction i) simp_all
  then show "key_start (k @ r) (length k) = 0" by simp
qed

lemma value_end_all:
  "\<forall>c \<in> set v. \<not> ends_value h c \<Longrightarrow> value_end h (x @ v) (length x) = length (x @ v)"
  by (simp add: value_end_def takeWhile_eq_all_conv [THEN iffD2])

lemma scrub_pair:
  assumes "\<forall>c \<in> set k. is_key_char c" and "sep = [61] \<and> h = False \<or> sep = [58, 32] \<and> h = True"
    and "\<forall>c \<in> set v. \<not> ends_value h c"
  shows "scrub_sensitive_pairs (k @ sep @ v)
     = k @ sep @ (if sensitive_key k \<and> v \<noteq> [] then redacted else v)"
proof -
  let ?cs = "k @ sep @ v"
  have sl: "separator_len ?cs (length k) = length sep" "sep \<noteq> []" "(length sep = 2) = h"
    using assms(2) by (auto simp: separator_len_def vec_get_def nth_append)
  have "value_end h ((k @ sep) @ v) (length (k @ sep)) = length ((k @ sep) @ v)"
    using assms(3) by (rule value_end_all)
  then have vend: "value_end h ?cs (length k + length sep) = length k + length sep + length v"
    by (simp add: add.assoc)
  have "scrub_loop ?cs (length k) k = scrub_loop ?cs (length k + length sep + length v)
      (k @ sep @ (if sensitive_key k \<and> v \<noteq> [] then redacted else v))"
    using sl vend scrub_key(2) [OF assms(1), of "sep @ v"]
    by (simp add: scrub_loop.simps [of ?cs "length k"] Let_def)
  then show ?thesis
    unfolding scrub_key(1) [OF assms(1)]
    by (simp add: scrub_loop.simps [of ?cs "length k + length sep + length v"])
qed

section \<open>Properties\<close>

text \<open>
  C9: redaction hides every registered secret that has no angle bracket and is no part of the marker
  \<open><redacted>\<close>: it does not occur in the output, whatever the input and whichever other secrets are
  registered.
\<close>

theorem redact_hides_secrets:
  assumes "s \<in> set r" and "\<forall>x \<in> set r. x \<noteq> []" and "hideable s"
  shows "\<not> contains_str s (redact r text)"
  unfolding redact_eq
  using marked_contains [OF assms(3) scrub_marked] scrub_secrets_gone [OF assms(3,2,1)] by blast

theorem redact_hides_secrets_witness:
  "\<not> contains_str (lit ''hunter2'') (redact (with_secret (lit ''hunter2'') redactor_new) (lit ''login hunter2 ok''))"
  by (rule redact_hides_secrets)
    (simp_all add: with_secret_def redactor_new_def str_len_def len_utf8_def redacted_def hideable_def starts_with_def)

text \<open>
  The value of a pair with a sensitive key is replaced: up to the next delimiter after
  \<open>=\<close>, up to the end of the line after \<open>: \<close>.
\<close>

theorem sensitive_pair_redacted:
  assumes "\<forall>c \<in> set k. is_key_char c" and "sensitive_key k" and "v \<noteq> []"
    and "sep = [61] \<and> h = False \<or> sep = [58, 32] \<and> h = True"
    and "\<forall>c \<in> set v. \<not> ends_value h c"
  shows "scrub_sensitive_pairs (k @ sep @ v) = k @ sep @ redacted"
  using scrub_pair [OF assms(1,4,5)] assms(2,3) by simp

theorem sensitive_pair_redacted_witness:
  "scrub_sensitive_pairs (lit ''Authorization'' @ [58, 32] @ lit ''Bearer abc'')
     = lit ''Authorization'' @ [58, 32] @ redacted"
  by (rule sensitive_pair_redacted [where h = True])
    (simp_all add: is_key_char_def is_ascii_alphanumeric_def is_ascii_digit_def is_ascii_upper_def
      is_ascii_lower_def sensitive_key_def sensitive_keys_def eq_ignore_ascii_case_def
      to_ascii_lowercase_def ascii_lower_def ends_value_def)

text \<open>
  A line that starts with a harmless header is not scanned any further. Whatever follows
  \<open>key: \<close> on the line is copied, passwords in it included.
\<close>

theorem harmless_header_hides_pairs:
  assumes "\<forall>c \<in> set k. is_key_char c" and "\<not> sensitive_key k" and "10 \<notin> set v"
  shows "scrub_sensitive_pairs (k @ [58, 32] @ v) = k @ [58, 32] @ v"
  using scrub_pair [OF assms(1), of "[58, 32]" True v] assms(2,3) by (auto simp: ends_value_def)

theorem harmless_header_hides_pairs_witness:
  "scrub_sensitive_pairs (lit ''ssh'' @ [58, 32] @ lit ''password=hunter2'')
     = lit ''ssh'' @ [58, 32] @ lit ''password=hunter2''"
  by (rule harmless_header_hides_pairs)
    (simp_all add: is_key_char_def is_ascii_alphanumeric_def is_ascii_digit_def is_ascii_upper_def
      is_ascii_lower_def sensitive_key_def sensitive_keys_def eq_ignore_ascii_case_def
      to_ascii_lowercase_def ascii_lower_def ends_with_def starts_with_def)

end
