(* ===== verification/Rust_Arith.thy ===== *)
theory Rust_Arith
  imports Rust_Prelude
begin

text \<open>
  Checked machine arithmetic, for code that relies on a plain \<open>+\<close>, \<open>-\<close> or \<open>*\<close> not to overflow:
  \<open>None\<close> is the panic of a build with overflow checks. And copies between byte slices, which
  panic when a range leaves its slice.
\<close>

named_theorems ck_simps \<open>checked operations in range\<close>

definition ck_add :: "'a::len word \<Rightarrow> 'a word \<Rightarrow> 'a word option" where
  "ck_add a b = (if unat a + unat b < 2 ^ LENGTH('a) then Some (a + b) else None)"

definition ck_sub :: "'a::len word \<Rightarrow> 'a word \<Rightarrow> 'a word option" where
  "ck_sub a b = (if b \<le> a then Some (a - b) else None)"

definition ck_mul :: "'a::len word \<Rightarrow> 'a word \<Rightarrow> 'a word option" where
  "ck_mul a b = (if unat a * unat b < 2 ^ LENGTH('a) then Some (a * b) else None)"

lemma ck_addI [ck_simps]: "unat a + unat b < 2 ^ LENGTH('a) \<Longrightarrow> ck_add a b = Some (a + b)"
  for a b :: "'a::len word"
  by (simp add: ck_add_def)

lemma ck_subI [ck_simps]: "unat b \<le> unat a \<Longrightarrow> ck_sub a b = Some (a - b)"
  by (simp add: ck_sub_def word_le_nat_alt)

lemma ck_mulI [ck_simps]: "unat a * unat b < 2 ^ LENGTH('a) \<Longrightarrow> ck_mul a b = Some (a * b)"
  for a b :: "'a::len word"
  by (simp add: ck_mul_def)

lemma unat_add_ck [ck_simps]: "unat a + unat b < 2 ^ LENGTH('a) \<Longrightarrow> unat (a + b) = unat a + unat b"
  for a b :: "'a::len word"
  using unat_add_lem by blast

lemma unat_mul_ck [ck_simps]: "unat a * unat b < 2 ^ LENGTH('a) \<Longrightarrow> unat (a * b) = unat a * unat b"
  for a b :: "'a::len word"
  using unat_mult_lem by blast

lemma unat_sub_ck [ck_simps]: "unat b \<le> unat a \<Longrightarrow> unat (a - b) = unat a - unat b"
  by (simp add: unat_sub word_le_nat_alt)

lemma unat_u32_less: "unat w < 4294967296" for w :: u32
  using unsigned_less [of w] by simp

lemma unat_word_of_nat: "n < 2 ^ LENGTH('a) \<Longrightarrow> unat (word_of_nat n :: 'a::len word) = n"
  by (simp add: unsigned_of_nat take_bit_nat_eq_self)

lemma fold_opt_cong:
  assumes "\<And>x s. x \<in> set xs \<Longrightarrow> f x s = g x s"
  shows "fold_opt f xs s = fold_opt g xs s"
  using assms
proof (induction xs arbitrary: s)
  case (Cons x xs)
  then have "f x s = g x s" and "fold_opt f xs = fold_opt g xs" by (simp_all add: fun_eq_iff)
  then show ?case by simp
qed simp

lemma unat_min_word: "unat (min a b) = min (unat a) (unat b)"
  by (simp add: min_def word_le_nat_alt)

lemma unat_max_of_words: "unat (max a b) = max (unat a) (unat b)"
  by (simp add: max_def word_le_nat_alt)

section \<open>Slices\<close>

text \<open>\<open>dst[t..t + n].copy_from_slice(&src[s..s + n])\<close>\<close>

definition copy_slice :: "'a list \<Rightarrow> nat \<Rightarrow> 'a list \<Rightarrow> nat \<Rightarrow> nat \<Rightarrow> 'a list option" where
  "copy_slice dst t src s n =
     (if t + n \<le> length dst \<and> s + n \<le> length src
      then Some (take t dst @ take n (drop s src) @ drop (t + n) dst) else None)"

lemma copy_slice_nth:
  assumes "t + n \<le> length dst" and "s + n \<le> length src"
  shows "\<exists>d. copy_slice dst t src s n = Some d \<and> length d = length dst
     \<and> (\<forall>i < n. d ! (t + i) = src ! (s + i))
     \<and> (\<forall>j < length dst. j < t \<or> t + n \<le> j \<longrightarrow> d ! j = dst ! j)"
  using assms by (auto simp: copy_slice_def nth_append)

text \<open>
  Copying rows: row \<open>k\<close> of the source, at a distance of \<open>sstr\<close>, goes to row \<open>k\<close> of the
  destination, at a distance of \<open>str\<close> from \<open>off\<close> on.
\<close>

definition copy_rows ::
  "nat \<Rightarrow> nat \<Rightarrow> 'a list \<Rightarrow> nat \<Rightarrow> nat \<Rightarrow> nat \<Rightarrow> 'a list \<Rightarrow> 'a list option" where
  "copy_rows off str src sstr n rows dst =
     fold_opt (\<lambda>k d. copy_slice d (off + k * str) src (k * sstr) n) [0..<rows] dst"

lemma copy_rows_nth:
  assumes "n \<le> str" and "\<And>k. k < rows \<Longrightarrow> off + k * str + n \<le> length dst"
    and "\<And>k. k < rows \<Longrightarrow> k * sstr + n \<le> length src"
  shows "\<exists>d. copy_rows off str src sstr n rows dst = Some d \<and> length d = length dst
     \<and> (\<forall>k < rows. \<forall>i < n. d ! (off + k * str + i) = src ! (k * sstr + i))
     \<and> (\<forall>j < length dst. (\<forall>k < rows. j < off + k * str \<or> off + k * str + n \<le> j) \<longrightarrow> d ! j = dst ! j)"
  using assms
proof (induction rows)
  case 0
  show ?case by (simp add: copy_rows_def)
next
  case (Suc r)
  then obtain d where d: "copy_rows off str src sstr n r dst = Some d" "length d = length dst"
    "\<forall>k < r. \<forall>i < n. d ! (off + k * str + i) = src ! (k * sstr + i)"
    "\<forall>j < length dst. (\<forall>k < r. j < off + k * str \<or> off + k * str + n \<le> j) \<longrightarrow> d ! j = dst ! j"
    by fastforce
  obtain e where e: "copy_slice d (off + r * str) src (r * sstr) n = Some e" "length e = length d"
    "\<forall>i < n. e ! (off + r * str + i) = src ! (r * sstr + i)"
    "\<forall>j < length d. j < off + r * str \<or> off + r * str + n \<le> j \<longrightarrow> e ! j = d ! j"
    using copy_slice_nth [of "off + r * str" n d "r * sstr" src] Suc.prems d(2) by fastforce
  have "copy_rows off str src sstr n (Suc r) dst = Some e"
    using d(1) e(1) by (simp add: copy_rows_def fold_opt_append)
  moreover have "e ! (off + k * str + i) = src ! (k * sstr + i)" if "k < Suc r" "i < n" for k i
  proof (cases "k = r")
    case False
    then have "k < r" using that by simp
    then have "Suc k * str \<le> r * str" by (intro mult_le_mono1) simp
    then have "off + k * str + i < off + r * str" using that assms(1) by simp
    then show ?thesis
      using e(4) d(2,3) \<open>k < r\<close> that Suc.prems(2) [of r] by simp
  qed (use e(3) that in simp)
  moreover have "e ! j = dst ! j"
    if "j < length dst" "\<forall>k < Suc r. j < off + k * str \<or> off + k * str + n \<le> j" for j
  proof -
    have "j < off + r * str \<or> off + r * str + n \<le> j" using that(2) by blast
    then have "e ! j = d ! j" using e(4) d(2) that(1) by auto
    also have "\<dots> = dst ! j" using d(4) that by simp
    finally show ?thesis .
  qed
  ultimately show ?case using d(2) e(2) by (intro exI [of _ e]) simp
qed

text \<open>Positions in a table of rows are determined by row and column.\<close>

lemma table_unique:
  assumes "a * w + u = b * w + v" and "u < w" and "v < w"
  shows "a = b \<and> u = (v::nat)"
proof -
  have "a = (a * w + u) div w" "b = (b * w + v) div w" using assms(2,3) by simp_all
  with assms show ?thesis by simp
qed

end
