(* ===== verification/Rdt_Time.thy ===== *)
theory Rdt_Time
  imports Rust_Str Rust_Arith
begin

text \<open>
  Timestamps, \<open>crates/rdt-types/src/timeutil.rs\<close>: milliseconds since the epoch as an RFC 3339
  string. \<open>i64\<close> and \<open>u64\<close> values of the date algorithm are integers: the largest stamp is
  about \<open>2 ^ 38\<close> days, far from any wrap-around.
\<close>

section \<open>Stamps\<close>

definition stamp_secs :: "u64 \<Rightarrow> u64" where
  "stamp_secs millis = millis div 1000"

text \<open>\<open>now.millis.saturating_sub(self.millis)\<close>; the current time is an argument.\<close>

definition elapsed_millis :: "u64 \<Rightarrow> u64 \<Rightarrow> u64" where
  "elapsed_millis now stamp = sat_sub now stamp"

text \<open>Division of \<open>i64\<close> truncates towards zero; the numerators here decide the sign first.\<close>

definition tdiv :: "int \<Rightarrow> int \<Rightarrow> int" where
  "tdiv a b = sgn a * (\<bar>a\<bar> div b)"

definition civil_from_days :: "int \<Rightarrow> int \<times> int \<times> int" where
  "civil_from_days days =
     (let z = days + 719468;
          era = tdiv (if z \<ge> 0 then z else z - 146096) 146097;
          doe = z - era * 146097;
          yoe = (doe - doe div 1460 + doe div 36524 - doe div 146096) div 365;
          y = yoe + era * 400;
          doy = doe - (365 * yoe + yoe div 4 - yoe div 100);
          mp = (5 * doy + 2) div 153;
          d = doy - (153 * mp + 2) div 5 + 1;
          m = (if mp < 10 then mp + 3 else mp - 9)
      in (if m \<le> 2 then y + 1 else y, m, d))"

definition format_rfc3339 :: "u64 \<Rightarrow> ustring" where
  "format_rfc3339 millis =
     (let (year, month, day) = civil_from_days (int (unat millis div 86400000));
          remainder = unat millis mod 86400000;
          hour = remainder div 3600000;
          minute = remainder mod 3600000 div 60000;
          second = remainder mod 60000 div 1000;
          milli = remainder mod 1000
      in show_padded 4 (nat year) @ [45] @ show_padded 2 (nat month) @ [45]
         @ show_padded 2 (nat day) @ [84] @ show_padded 2 hour @ [58] @ show_padded 2 minute
         @ [58] @ show_padded 2 second @ [46] @ show_padded 3 milli @ [90])"

definition format_uptime :: "u64 \<Rightarrow> ustring" where
  "format_uptime total_seconds =
     (let t = unat total_seconds;
          days = t div 86400;
          hours = t mod 86400 div 3600;
          minutes = t mod 3600 div 60;
          seconds = t mod 60;
          clock = show_padded 2 hours @ [58] @ show_padded 2 minutes @ [58] @ show_padded 2 seconds
      in if days > 0 then show_nat days @ lit ''d '' @ clock else clock)"

section \<open>The Gregorian calendar\<close>

definition leap :: "int \<Rightarrow> bool" where
  "leap y \<longleftrightarrow> y mod 4 = 0 \<and> y mod 100 \<noteq> 0 \<or> y mod 400 = 0"

definition month_length :: "int \<Rightarrow> int \<Rightarrow> int" where
  "month_length y m =
     (if m = 2 then (if leap y then 29 else 28)
      else if m = 4 \<or> m = 6 \<or> m = 9 \<or> m = 11 then 30 else 31)"

text \<open>Days from the start of year \<open>y\<close> to the start of month \<open>m\<close>.\<close>

definition month_start :: "int \<Rightarrow> int \<Rightarrow> int" where
  "month_start y m = sum_list (map (month_length y) [1..m - 1])"

text \<open>Days from 0001-01-01 to the start of year \<open>y\<close>, and from the epoch to a date.\<close>

definition year_start :: "int \<Rightarrow> int" where
  "year_start y = 365 * (y - 1) + (y - 1) div 4 - (y - 1) div 100 + (y - 1) div 400"

definition days_of :: "int \<times> int \<times> int \<Rightarrow> int" where
  "days_of = (\<lambda>(y, m, d). year_start y + month_start y m + (d - 1) - 719162)"

definition valid_date :: "int \<times> int \<times> int \<Rightarrow> bool" where
  "valid_date = (\<lambda>(y, m, d). 1 \<le> m \<and> m \<le> 12 \<and> 1 \<le> d \<and> d \<le> month_length y m)"

lemma month_starts:
  "month_start y 1 = 0" "month_start y 2 = 31"
  "month_start y 3 = (if leap y then 60 else 59)" "month_start y 4 = (if leap y then 91 else 90)"
  "month_start y 5 = (if leap y then 121 else 120)" "month_start y 6 = (if leap y then 152 else 151)"
  "month_start y 7 = (if leap y then 182 else 181)" "month_start y 8 = (if leap y then 213 else 212)"
  "month_start y 9 = (if leap y then 244 else 243)" "month_start y 10 = (if leap y then 274 else 273)"
  "month_start y 11 = (if leap y then 305 else 304)" "month_start y 12 = (if leap y then 335 else 334)"
  by (simp_all add: month_start_def month_length_def upto.simps)

text \<open>Days of the first of March, from which the algorithm counts.\<close>

definition march :: "int \<Rightarrow> int" where
  "march y = 365 * y + y div 4 - y div 100 + y div 400"

lemma div_pred: "0 < k \<Longrightarrow> (y - 1) div k = y div k - (if y mod k = 0 then 1 else 0)" for y k :: int
proof -
  assume k: "0 < k"
  show ?thesis
  proof (cases "y mod k = 0")
    case True
    then obtain q where "y = k * q" by (auto simp: mod_eq_0_iff_dvd)
    moreover have "(k * q - 1) div k = q - 1"
      using k by (intro int_div_pos_eq [of _ _ _ "k - 1"]) (auto simp: algebra_simps)
    ultimately show ?thesis using k by simp
  next
    case False
    have "0 \<le> y mod k" using k by simp
    with False have "1 \<le> y mod k" by linarith
    moreover have "y mod k < k" using k by simp
    ultimately have "(y - 1) div k = y div k"
      by (intro int_div_pos_eq [of _ _ _ "y mod k - 1"]) (auto simp: algebra_simps)
    with False show ?thesis by simp
  qed
qed

lemma year_start_march: "year_start y = march y - 365 - (if leap y then 1 else 0)"
proof -
  have "y mod 400 = 0 \<Longrightarrow> y mod 100 = 0" "y mod 100 = 0 \<Longrightarrow> y mod 4 = 0"
    by presburger+
  then show ?thesis
    by (simp add: year_start_def march_def leap_def div_pred)
qed

lemma march_era: "march (a + k * 400) = march a + 146097 * k"
proof -
  have "(a + k * 400) div 4 = a div 4 + 100 * k" "(a + k * 400) div 100 = a div 100 + 4 * k"
    "(a + k * 400) div 400 = a div 400 + k"
    using div_mult_self1 [of 4 a "k * 100"] div_mult_self1 [of 100 a "k * 4"]
      div_mult_self1 [of 400 a k] by (simp_all add: mult.assoc)
  then show ?thesis by (simp add: march_def)
qed

lemma leap_era: "leap (a + k * 400) = leap a"
proof -
  have "(a + k * 400) mod 4 = a mod 4" "(a + k * 400) mod 100 = a mod 100"
    "(a + k * 400) mod 400 = a mod 400"
    using mod_mult_self1 [of a "k * 100" 4] mod_mult_self1 [of a "k * 4" 100]
      mod_mult_self1 [of a k 400] by (simp_all add: mult.assoc)
  then show ?thesis by (simp add: leap_def)
qed

lemma march_Suc: "year_start (y + 1) = march y"
  by (simp add: year_start_def march_def)

text \<open>The year of a day inside its era of 400 years that begin in March.\<close>

lemma year_of_era:
  fixes C Q Y D doe :: int
  assumes "0 \<le> C" "C \<le> 3" "0 \<le> Q" "Q \<le> 24" "0 \<le> Y" "Y \<le> 3" "0 \<le> D"
    and D: "D \<le> (if Y = 3 \<and> (Q < 24 \<or> C = 3) then 365 else 364)"
    and doe: "doe = 36524 * C + 1461 * Q + 365 * Y + D"
  shows "(doe - doe div 1460 + doe div 36524 - doe div 146096) div 365 = 100 * C + 4 * Q + Y"
proof -
  define e where "e = (if 1460 \<le> 24 * C + Q + 365 * Y + D then 1 else 0 :: int)"
  have D365: "D \<le> 365" "D = 365 \<Longrightarrow> Y = 3 \<and> (Q < 24 \<or> C = 3)" using D by (auto split: if_splits)
  have "doe div 1460 = 25 * C + Q + e"
    by (rule int_div_pos_eq [of _ _ _ "24 * C + Q + 365 * Y + D - 1460 * e"])
      (use assms(1-7) D365 in \<open>auto simp: doe e_def\<close>)
  moreover have "doe div 36524 - doe div 146096 = C"
  proof (cases "doe = 146096")
    case True
    then have "C = 3" using assms(1-7) D365 doe by (cases "C = 3") auto
    with True show ?thesis by simp
  next
    case False
    have "1461 * Q + 365 * Y + D < 36524 \<or> C = 3 \<and> 1461 * Q + 365 * Y + D = 36524"
      using assms(1-7) D365 by (cases "D = 365"; cases "Q < 24") auto
    then have r: "1461 * Q + 365 * Y + D < 36524" using False doe by auto
    have "doe div 36524 = C"
      by (rule int_div_pos_eq [of _ _ _ "1461 * Q + 365 * Y + D"]) (use r assms(1-7) doe in auto)
    moreover have "doe div 146096 = 0"
      using r assms(1-7) doe by (intro div_pos_pos_trivial) auto
    ultimately show ?thesis by simp
  qed
  ultimately have "doe - doe div 1460 + doe div 36524 - doe div 146096
      = 365 * (100 * C + 4 * Q + Y) + (D - e)" using doe by simp
  moreover have "0 \<le> D - e" using assms(1-7) by (auto simp: e_def)
  moreover have "D - e < 365"
    using assms(1-7) D365 by (cases "D = 365") (auto simp: e_def)
  ultimately show ?thesis by (intro int_div_pos_eq) auto
qed

lemma era_parts:
  fixes doe :: int
  assumes "0 \<le> doe" and "doe \<le> 146096"
  obtains C Q Y D where "0 \<le> C" "C \<le> 3" "0 \<le> Q" "Q \<le> 24" "0 \<le> Y" "Y \<le> 3" "0 \<le> D"
    "D \<le> (if Y = 3 \<and> (Q < 24 \<or> C = 3) then 365 else 364)"
    "doe = 36524 * C + 1461 * Q + 365 * Y + D"
proof -
  define C where "C = min (doe div 36524) 3"
  define r where "r = doe - 36524 * C"
  define s where "s = r mod 1461"
  define Y where "Y = min (s div 365) 3"
  have C: "0 \<le> C" "C \<le> 3" "0 \<le> r" "r \<le> 36524" "C < 3 \<Longrightarrow> r < 36524"
    unfolding r_def C_def using assms by (auto simp: min_def; presburger)+
  have Q: "0 \<le> r div 1461" "r div 1461 \<le> 24" "r = 1461 * (r div 1461) + s" "0 \<le> s" "s \<le> 1460"
    unfolding s_def using C(3,4) by (auto; presburger)+
  have Y: "0 \<le> Y" "Y \<le> 3" "0 \<le> s - 365 * Y" "s - 365 * Y \<le> (if Y = 3 then 365 else 364)"
    unfolding Y_def using Q(4,5) by (auto simp: min_def; presburger)+
  show ?thesis
  proof (rule that [of C "r div 1461" Y "s - 365 * Y"])
    show "s - 365 * Y \<le> (if Y = 3 \<and> (r div 1461 < 24 \<or> C = 3) then 365 else 364)"
      using Y Q C by (auto split: if_splits)
    show "doe = 36524 * C + 1461 * (r div 1461) + 365 * Y + (s - 365 * Y)"
      using Q(3) by (simp add: r_def)
  qed (use C Q Y in auto)
qed

text \<open>The month and day of a day of a year that begins in March.\<close>

lemma month_of_year:
  fixes doy y mp :: int
  assumes "0 \<le> doy" and leap: "doy \<le> (if leap (y + 1) then 365 else 364)"
    and mp: "153 * mp \<le> 5 * doy + 2" "5 * doy + 2 < 153 * mp + 153"
  shows "valid_date (if (if mp < 10 then mp + 3 else mp - 9) \<le> 2 then y + 1 else y,
           if mp < 10 then mp + 3 else mp - 9, doy - (153 * mp + 2) div 5 + 1)
       \<and> days_of (if (if mp < 10 then mp + 3 else mp - 9) \<le> 2 then y + 1 else y,
           if mp < 10 then mp + 3 else mp - 9, doy - (153 * mp + 2) div 5 + 1) = march y + doy - 719468"
proof -
  have doy: "doy \<le> 365" using leap by (auto split: if_splits)
  have "0 \<le> mp" "mp \<le> 11" using mp assms(1) doy by linarith+
  then have cases: "mp \<in> {0, 1, 2, 3, 4, 5, 6, 7, 8, 9, 10, 11}"
    unfolding insert_iff empty_iff by presburger
  have "(153 * mp + 2) div 5 \<le> (5 * doy + 4) div 5"
    by (rule zdiv_mono1) (use mp in auto)
  moreover have "(5 * (doy + 1)) div 5 \<le> (153 * mp + 155) div 5"
    by (rule zdiv_mono1) (use mp in auto)
  ultimately have bounds: "(153 * mp + 2) div 5 \<le> doy" "doy < (153 * mp + 155) div 5"
    by simp_all
  have year: "year_start y = march y - 365 - (if leap y then 1 else 0)" "year_start (y + 1) = march y"
    by (rule year_start_march, rule march_Suc)
  show ?thesis
  proof (cases "leap y"; cases "leap (y + 1)")
  qed (use cases bounds leap year in
      \<open>elim insertE emptyE; simp add: valid_date_def days_of_def month_starts month_length_def\<close>)+
qed

section \<open>Property\<close>

text \<open>The fourth year of a group of four is followed by a leap year, unless the century ends.\<close>

lemma leap_after_fourth:
  fixes Q C :: int
  assumes "0 \<le> Q" "Q \<le> 24" "Q < 24 \<or> C = 3"
  shows "leap (100 * C + 4 * (Q + 1))"
proof (cases "Q = 24")
  case True
  then have "C = 3" using assms(3) by simp
  with True show ?thesis by (simp add: leap_def)
next
  case False
  then have "(100 * C + 4 * (Q + 1)) mod 100 = 4 * (Q + 1)"
    using assms(1,2) by (simp add: mod_pos_pos_trivial del: dvd_imp_mod_0)
  then have "(100 * C + 4 * (Q + 1)) mod 100 \<noteq> 0" using assms(1) by (simp only:) simp
  moreover have "(100 * C + 4 * (Q + 1)) mod 4 = 0" by presburger
  ultimately show ?thesis unfolding leap_def by blast
qed

text \<open>
  The calendar date of a day is correct: the date exists in the Gregorian calendar and is
  that many days after 1970-01-01.
\<close>

theorem civil_from_days_correct:
  assumes "0 \<le> n"
  shows "valid_date (civil_from_days n) \<and> days_of (civil_from_days n) = n"
proof -
  let ?z = "n + 719468"
  let ?era = "?z div 146097" and ?doe = "?z mod 146097"
  have era: "tdiv (if ?z \<ge> 0 then ?z else ?z - 146096) 146097 = ?era"
    using assms by (simp add: tdiv_def sgn_if)
  have doe: "?z - ?era * 146097 = ?doe" by (simp add: minus_div_mult_eq_mod)
  have "0 \<le> ?doe" "?doe \<le> 146096"
    using pos_mod_bound [of 146097 ?z] by simp_all
  then obtain C Q Y D where cq: "0 \<le> C" "C \<le> 3" "0 \<le> Q" "Q \<le> 24" "0 \<le> Y" "Y \<le> 3" "0 \<le> D"
    "D \<le> (if Y = 3 \<and> (Q < 24 \<or> C = 3) then 365 else 364)"
    "?doe = 36524 * C + 1461 * Q + 365 * Y + D" by (rule era_parts)
  let ?yoe = "100 * C + 4 * Q + Y"
  have yoe: "(?doe - ?doe div 1460 + ?doe div 36524 - ?doe div 146096) div 365 = ?yoe"
    using cq by (rule year_of_era)
  have q4: "?yoe div 4 = 25 * C + Q" by (rule int_div_pos_eq [of _ _ _ Y]) (use cq in auto)
  have q100: "?yoe div 100 = C" by (rule int_div_pos_eq [of _ _ _ "4 * Q + Y"]) (use cq in auto)
  have doy: "?doe - (365 * ?yoe + ?yoe div 4 - ?yoe div 100) = D" using cq(9) q4 q100 by simp
  let ?y = "?yoe + ?era * 400"
  have y400: "?yoe div 400 = 0" using cq by (intro div_pos_pos_trivial) auto
  have march: "march ?y + D - 719468 = n"
  proof -
    have "march ?yoe = ?doe - D" unfolding march_def q4 q100 y400 using cq(9) by simp
    then have "march ?y + D - 719468 = 146097 * ?era + ?doe - 719468" unfolding march_era by simp
    also have "\<dots> = n" unfolding mult_div_mod_eq by simp
    finally show ?thesis .
  qed
  have "leap (?yoe + 1)" if "Y = 3" "Q < 24 \<or> C = 3"
    using leap_after_fourth [OF cq(3,4) that(2)] that(1) by (simp add: algebra_simps)
  then have "D \<le> (if leap (?yoe + 1) then 365 else 364)"
    using cq(8) by (auto split: if_splits)
  then have "D \<le> (if leap (?y + 1) then 365 else 364)"
    using leap_era [of "?yoe + 1" ?era] by (simp add: algebra_simps)
  moreover have "153 * ((5 * D + 2) div 153) \<le> 5 * D + 2" "5 * D + 2 < 153 * ((5 * D + 2) div 153) + 153"
    using mult_div_mod_eq [of 153 "5 * D + 2"] pos_mod_sign [of 153 "5 * D + 2"]
      pos_mod_bound [of 153 "5 * D + 2"] by linarith+
  ultimately show ?thesis
    unfolding civil_from_days_def era doe Let_def yoe doy
    using month_of_year [OF cq(7), of ?y "(5 * D + 2) div 153"] march by simp
qed

theorem civil_from_days_correct_witness:
  "valid_date (civil_from_days 19782) \<and> days_of (civil_from_days 19782) = 19782"
  by (rule civil_from_days_correct) simp

section \<open>The type of timestamps\<close>

text \<open>
  The type of timestamps, \<open>crates/rdt-types/src/timeutil.rs\<close>: milliseconds since the epoch behind a
  constructor, with the derived order, and the clock of the system, which is an argument: the
  milliseconds since the epoch, negative for a clock before it.
\<close>

datatype utc_stamp = Utc_Stamp (stamp_millis: u64)

definition stamp_from_millis :: "u64 \<Rightarrow> utc_stamp" where
  "stamp_from_millis = Utc_Stamp"

text \<open>\<open>duration_since(UNIX_EPOCH).unwrap_or(ZERO).as_millis().min(u64::MAX)\<close>\<close>

definition utc_now :: "int \<Rightarrow> utc_stamp" where
  "utc_now clock = stamp_from_millis (word_of_int (min (if clock < 0 then 0 else clock) (2 ^ 64 - 1)))"

definition stamp_seconds :: "utc_stamp \<Rightarrow> u64" where
  "stamp_seconds s = stamp_secs (stamp_millis s)"

definition stamp_elapsed :: "int \<Rightarrow> utc_stamp \<Rightarrow> u64" where
  "stamp_elapsed clock s = elapsed_millis (stamp_millis (utc_now clock)) (stamp_millis s)"

definition to_rfc3339 :: "utc_stamp \<Rightarrow> ustring" where
  "to_rfc3339 s = format_rfc3339 (stamp_millis s)"

text \<open>The derived order of the only field.\<close>

instantiation utc_stamp :: linorder
begin

definition less_eq_utc_stamp :: "utc_stamp \<Rightarrow> utc_stamp \<Rightarrow> bool" where
  "s \<le> t \<longleftrightarrow> stamp_millis s \<le> stamp_millis t"

definition less_utc_stamp :: "utc_stamp \<Rightarrow> utc_stamp \<Rightarrow> bool" where
  "s < t \<longleftrightarrow> stamp_millis s < stamp_millis t"

instance
  by standard (auto simp: less_eq_utc_stamp_def less_utc_stamp_def utc_stamp.expand)

end

lemma now_is_monotone: "c \<le> d \<Longrightarrow> utc_now c \<le> utc_now d"
proof -
  assume "c \<le> d"
  then have "min (if c < 0 then 0 else c) (2 ^ 64 - 1) \<le> min (if d < 0 then 0 else d) (2 ^ 64 - 1)" by auto
  then show ?thesis
    by (simp add: less_eq_utc_stamp_def utc_now_def stamp_from_millis_def word_le_def uint_word_of_int take_bit_int_eq_self)
qed

lemma elapsed_is_zero_iff: "stamp_elapsed c s = 0 \<longleftrightarrow> utc_now c \<le> s"
  by (auto simp: stamp_elapsed_def elapsed_millis_def sat_sub_def less_eq_utc_stamp_def word_le_less_eq)

lemma seconds_are_monotone: "s \<le> t \<Longrightarrow> stamp_seconds s \<le> stamp_seconds t"
  by (simp add: stamp_seconds_def stamp_secs_def less_eq_utc_stamp_def word_le_nat_alt unat_div_distrib div_le_mono)

end
