(* ===== verification/Log_Buffer.thy ===== *)
theory Log_Buffer
  imports Rdt_Redact Rdt_Time
begin

text \<open>
  Logging, \<open>crates/rdt-logging/src/buffer.rs\<close> and \<open>audit.rs\<close>: the ring buffer of the log
  viewer, which meets the bounded buffer contract, and the append-only audit trail. JSON
  encoding and decoding are parameters; a file is its contents. The counter of dropped lines
  is a \<open>u64\<close> and wraps around, as in a release build.
\<close>

section \<open>The ring buffer\<close>

record log_entry =
  le_stamp :: u64
  le_level :: ustring
  le_target :: ustring
  le_message :: ustring

record log_buffer =
  lb_entries :: "log_entry list"
  lb_capacity :: nat
  lb_dropped :: u64

definition log_new :: "nat \<Rightarrow> log_buffer" where
  "log_new capacity = \<lparr>lb_entries = [], lb_capacity = capacity, lb_dropped = 0\<rparr>"

text \<open>\<open>while self.entries.len() >= self.capacity\<close>, the capacity not being zero.\<close>

function make_room :: "nat \<Rightarrow> log_entry list \<Rightarrow> u64 \<Rightarrow> log_entry list \<times> u64" where
  "make_room capacity es dropped =
     (if es \<noteq> [] \<and> length es \<ge> capacity then make_room capacity (tl es) (dropped + 1) else (es, dropped))"
  by pat_completeness auto
termination
  by (relation "measure (\<lambda>(capacity, es, dropped). length es)") auto

declare make_room.simps [simp del]

definition log_push :: "log_entry \<Rightarrow> log_buffer \<Rightarrow> log_buffer" where
  "log_push e b =
     (if lb_capacity b = 0 then b
      else (let (es, dropped) = make_room (lb_capacity b) (lb_entries b) (lb_dropped b) in
            b\<lparr>lb_entries := es @ [e], lb_dropped := dropped\<rparr>))"

definition log_clear :: "log_buffer \<Rightarrow> log_buffer" where
  "log_clear b = b\<lparr>lb_entries := []\<rparr>"

datatype level = Trace | Debug | Info | Warn | LError

definition level_str :: "level \<Rightarrow> ustring" where
  "level_str l =
     (case l of Trace \<Rightarrow> lit ''trace'' | Debug \<Rightarrow> lit ''debug'' | Info \<Rightarrow> lit ''info''
      | Warn \<Rightarrow> lit ''warn'' | LError \<Rightarrow> lit ''error'')"

definition level_rank :: "ustring \<Rightarrow> nat" where
  "level_rank level =
     (let l = to_ascii_lowercase level in
      if l = lit ''trace'' then 0 else if l = lit ''debug'' then 1 else if l = lit ''info'' then 2
      else if l = lit ''warn'' then 3 else if l = lit ''error'' then 4 else 2)"

definition log_filter :: "ustring \<Rightarrow> level \<Rightarrow> log_buffer \<Rightarrow> log_entry list" where
  "log_filter needle0 min_level b =
     (let needle = trim needle0;
          hit = (\<lambda>s. contains_str (to_ascii_lowercase needle) (to_ascii_lowercase s)) in
      filter (\<lambda>e. needle = [] \<or> hit (le_message e) \<or> hit (le_target e))
        (filter (\<lambda>e. level_rank (le_level e) \<ge> level_rank (level_str min_level)) (lb_entries b)))"

section \<open>The audit trail\<close>

datatype audit_kind =
    SessionConnect | SessionEstablished | SessionClosed | SessionReconnect | AuthAttempt
  | HostKeyAccepted | HostKeyRejected | CertificateDecision | FileTransfer | ClipboardTransfer
  | ConfigChanged | VaultAccess | ServiceChanged | CommandExecuted

definition audit_kind_str :: "audit_kind \<Rightarrow> string" where
  "audit_kind_str k =
     (case k of
        SessionConnect \<Rightarrow> ''session_connect''
      | SessionEstablished \<Rightarrow> ''session_established''
      | SessionClosed \<Rightarrow> ''session_closed''
      | SessionReconnect \<Rightarrow> ''session_reconnect''
      | AuthAttempt \<Rightarrow> ''auth_attempt''
      | HostKeyAccepted \<Rightarrow> ''host_key_accepted''
      | HostKeyRejected \<Rightarrow> ''host_key_rejected''
      | CertificateDecision \<Rightarrow> ''certificate_decision''
      | FileTransfer \<Rightarrow> ''file_transfer''
      | ClipboardTransfer \<Rightarrow> ''clipboard_transfer''
      | ConfigChanged \<Rightarrow> ''config_changed''
      | VaultAccess \<Rightarrow> ''vault_access''
      | ServiceChanged \<Rightarrow> ''service_changed''
      | CommandExecuted \<Rightarrow> ''command_executed'')"

datatype audit_outcome = Success | Failure | Denied | InfoOnly

record audit_event =
  ae_stamp :: u64
  ae_kind :: audit_kind
  ae_outcome :: audit_outcome
  ae_session :: "ustring option"
  ae_profile :: "ustring option"
  ae_detail :: ustring

text \<open>The stamp is the current time, an argument.\<close>

definition event_new :: "u64 \<Rightarrow> audit_kind \<Rightarrow> audit_outcome \<Rightarrow> ustring \<Rightarrow> audit_event" where
  "event_new now kind outcome detail =
     \<lparr>ae_stamp = now, ae_kind = kind, ae_outcome = outcome, ae_session = None, ae_profile = None,
      ae_detail = detail\<rparr>"

definition event_info :: "u64 \<Rightarrow> audit_kind \<Rightarrow> ustring \<Rightarrow> audit_event" where
  "event_info now kind detail = event_new now kind InfoOnly detail"

definition with_session :: "ustring \<Rightarrow> audit_event \<Rightarrow> audit_event" where
  "with_session s e = e\<lparr>ae_session := Some s\<rparr>"

definition with_profile :: "ustring \<Rightarrow> audit_event \<Rightarrow> audit_event" where
  "with_profile p e = e\<lparr>ae_profile := Some p\<rparr>"

text \<open>The JSON library: an event as one line or an error message, and a line as an event if it is one.\<close>

record json =
  to_json :: "audit_event \<Rightarrow> ustring + ustring"
  from_json :: "ustring \<Rightarrow> audit_event option"

text \<open>\<open>AuditLog::record\<close> on the contents of the file; the redactor is the log's own.\<close>

definition audit_record :: "json \<Rightarrow> redactor \<Rightarrow> audit_event \<Rightarrow> ustring \<Rightarrow> ustring rdt_result" where
  "audit_record js r event content =
     (let e = event\<lparr>ae_detail := redact r (ae_detail event)\<rparr> in
      case to_json js e of
        Inl err \<Rightarrow> fail EInternal (lit ''cannot encode audit event: '' @ err)
      | Inr line \<Rightarrow> Inr (content @ line @ [10]))"

definition read_recent :: "json \<Rightarrow> nat \<Rightarrow> ustring \<Rightarrow> audit_event list" where
  "read_recent js limit content =
     (let events = List.map_filter (from_json js) (str_lines content);
          skip = length events - limit in
      drop skip events)"

section \<open>The buffer keeps its contract\<close>

definition log_inv :: "log_buffer \<Rightarrow> bool" where
  "log_inv b \<longleftrightarrow> length (lb_entries b) \<le> lb_capacity b"

lemma make_room_last_n:
  "0 < n \<Longrightarrow> fst (make_room n es d) = last_n (n - 1) es
     \<and> snd (make_room n es d) + of_nat (length (fst (make_room n es d))) = d + of_nat (length es)"
proof (induction n es d rule: make_room.induct)
  case (1 n es d)
  show ?case
  proof (cases "es \<noteq> [] \<and> length es \<ge> n")
    case True
    then obtain x ys where xs: "es = x # ys" by (cases es) auto
    have "last_n (n - 1) (x # ys) = last_n (n - 1) ys"
      using True xs 1(2) by (simp add: last_n_def Suc_diff_le)
    moreover have "make_room n es d = make_room n ys (d + 1)"
      using True xs by (simp add: make_room.simps [of n "x # ys" d])
    ultimately show ?thesis
      using 1(1) [OF True 1(2)] xs by (cases "make_room n ys (d + 1)") auto
  next
    case False
    then have "length es \<le> n - 1" by auto
    with False show ?thesis by (auto simp: make_room.simps [of n es d])
  qed
qed

lemma log_push_entries:
  "lb_entries (log_push e b) = (if lb_capacity b = 0 then lb_entries b
     else last_n (lb_capacity b) (lb_entries b @ [e]))"
proof (cases "lb_capacity b = 0")
  case False
  then obtain k where k: "lb_capacity b = Suc k" by (cases "lb_capacity b") auto
  then have "lb_entries (log_push e b) = last_n k (lb_entries b) @ [e]"
    using make_room_last_n [of "lb_capacity b" "lb_entries b" "lb_dropped b"]
    by (simp add: log_push_def case_prod_beta)
  also have "\<dots> = last_n (Suc k) (lb_entries b @ [e])" by (simp add: last_n_def)
  finally show ?thesis using k by simp
qed (simp add: log_push_def)

lemma log_push_capacity [simp]: "lb_capacity (log_push e b) = lb_capacity b"
  by (simp add: log_push_def case_prod_beta)

lemma log_push_dropped:
  "lb_capacity b \<noteq> 0 \<Longrightarrow>
     lb_dropped (log_push e b) + of_nat (length (lb_entries (log_push e b)))
       = lb_dropped b + of_nat (length (lb_entries b)) + 1"
  using make_room_last_n [of "lb_capacity b" "lb_entries b" "lb_dropped b"]
  by (cases "make_room (lb_capacity b) (lb_entries b) (lb_dropped b)") (auto simp: log_push_def)

interpretation lb: bounded_buffer log_push lb_entries lb_capacity log_inv
  by unfold_locales (auto simp: log_push_entries log_inv_def)

lemma log_dropped_fold:
  "lb_capacity b \<noteq> 0 \<Longrightarrow>
     lb_dropped (fold log_push xs b) + of_nat (length (lb_entries (fold log_push xs b)))
       = lb_dropped b + of_nat (length (lb_entries b)) + of_nat (length xs)"
proof (induction xs arbitrary: b)
  case (Cons x xs)
  then show ?case using log_push_dropped [of b x] by simp
qed simp

section \<open>The audit trail is read back\<close>

text \<open>What the code relies on of the JSON library: an event is one line and decodes to itself.\<close>

definition json_law :: "json \<Rightarrow> audit_event \<Rightarrow> bool" where
  "json_law js e \<longleftrightarrow>
     (\<exists>l. to_json js e = Inr l \<and> from_json js l = Some e \<and> 10 \<notin> set l \<and> (l = [] \<or> last l \<noteq> 13))"

definition redacted_event :: "redactor \<Rightarrow> audit_event \<Rightarrow> audit_event" where
  "redacted_event r e = e\<lparr>ae_detail := redact r (ae_detail e)\<rparr>"

fun record_all :: "json \<Rightarrow> redactor \<Rightarrow> audit_event list \<Rightarrow> ustring \<Rightarrow> ustring rdt_result" where
  "record_all js r [] content = Inr content"
| "record_all js r (e # es) content = and_then (audit_record js r e content) (record_all js r es)"

definition line_of :: "json \<Rightarrow> audit_event \<Rightarrow> ustring" where
  "line_of js e = (case to_json js e of Inr l \<Rightarrow> l | Inl _ \<Rightarrow> [])"

lemma record_all_file:
  assumes "\<forall>e \<in> set es. json_law js (redacted_event r e)"
  shows "record_all js r es content
     = Inr (content @ concat (map (\<lambda>l. l @ [10]) (map (line_of js) (map (redacted_event r) es))))"
  using assms
proof (induction es arbitrary: content)
  case (Cons e es)
  then obtain l where "to_json js (redacted_event r e) = Inr l"
    by (auto simp: json_law_def)
  with Cons show ?case by (simp add: audit_record_def redacted_event_def line_of_def Let_def)
qed simp

lemma line_facts:
  assumes "json_law js e"
  shows "10 \<notin> set (line_of js e) \<and> strip_cr (line_of js e) = line_of js e
     \<and> from_json js (line_of js e) = Some e"
proof -
  obtain l where "to_json js e = Inr l" "from_json js l = Some e" "10 \<notin> set l" "l = [] \<or> last l \<noteq> 13"
    using assms by (auto simp: json_law_def)
  then show ?thesis by (auto simp: line_of_def strip_cr_def)
qed

lemma read_lines:
  "\<forall>e \<in> set es. json_law js e \<Longrightarrow> List.map_filter (from_json js) (map (line_of js) es) = es"
  by (induction es) (simp_all add: line_facts)

section \<open>Properties\<close>

text \<open>
  The log viewer's ring holds exactly the last lines it was given, as many as its capacity,
  and counts every line it dropped, in 64 bits.
\<close>

theorem log_buffer_keeps_last:
  assumes "0 < n"
  shows "lb_entries (fold log_push xs (log_new n)) = last_n n xs
     \<and> lb_dropped (fold log_push xs (log_new n)) = of_nat (length xs - n)"
proof -
  have inv: "log_inv (log_new n)" by (simp add: log_inv_def log_new_def)
  have "lb_entries (fold log_push xs (log_new n)) = last_n n xs"
    using lb.contents_fold [OF inv, of xs] by (simp add: log_new_def)
  moreover have "lb_dropped (fold log_push xs (log_new n)) + of_nat (min n (length xs)) = of_nat (length xs)"
    using log_dropped_fold [of "log_new n" xs] assms calculation by (simp add: log_new_def)
  ultimately show ?thesis by (simp add: min_def of_nat_diff eq_diff_eq split: if_splits)
qed

definition sample_line :: "nat \<Rightarrow> log_entry" where
  "sample_line n = \<lparr>le_stamp = of_nat n, le_level = lit ''info'', le_target = lit ''t'', le_message = lit ''m''\<rparr>"

theorem log_buffer_keeps_last_witness:
  "lb_entries (fold log_push (map sample_line [0, 1, 2]) (log_new 2)) = last_n 2 (map sample_line [0, 1, 2])
     \<and> lb_dropped (fold log_push (map sample_line [0, 1, 2]) (log_new 2)) = of_nat (length (map sample_line [0, 1, 2]) - 2)"
  by (rule log_buffer_keeps_last) simp

text \<open>
  The audit trail is read back: after any events have been recorded in an empty file, the
  last \<open>limit\<close> of them come back in order, their details redacted.
\<close>

theorem audit_read_back:
  assumes "\<forall>e \<in> set es. json_law js (redacted_event r e)"
  shows "\<exists>content. record_all js r es [] = Inr content
     \<and> read_recent js limit content = last_n limit (map (redacted_event r) es)"
proof -
  let ?evs = "map (redacted_event r) es"
  have laws: "\<forall>e \<in> set ?evs. json_law js e" using assms by simp
  then have "str_lines (concat (map (\<lambda>l. l @ [10]) (map (line_of js) ?evs))) = map (line_of js) ?evs"
    using line_facts by (intro lines_of_concat) auto
  then have "read_recent js limit (concat (map (\<lambda>l. l @ [10]) (map (line_of js) ?evs))) = last_n limit ?evs"
    using read_lines [OF laws] by (simp only: read_recent_def last_n_def Let_def)
  then show ?thesis using record_all_file [OF assms, of "[]"] by (simp only: append_Nil) blast
qed

theorem audit_read_back_witness:
  "\<exists>content. record_all \<lparr>to_json = (\<lambda>e. Inr (ae_detail e)), from_json = (\<lambda>l. Some (event_new 0 VaultAccess Success l))\<rparr>
      [] [event_new 0 VaultAccess Success (lit ''ok'')] [] = Inr content
   \<and> read_recent \<lparr>to_json = (\<lambda>e. Inr (ae_detail e)), from_json = (\<lambda>l. Some (event_new 0 VaultAccess Success l))\<rparr>
      5 content = last_n 5 (map (redacted_event []) [event_new 0 VaultAccess Success (lit ''ok'')])"
proof (rule audit_read_back)
  have "redact [] (lit ''ok'') = lit ''ok''"
    using scrub_key(1) [of "lit ''ok''" "[]"]
    by (simp add: redact_eq scrub_secrets_def is_key_char_def is_ascii_alphanumeric_def is_ascii_digit_def
        is_ascii_upper_def is_ascii_lower_def scrub_loop.simps [of "[111, 107]" "Suc (Suc 0)"])
  then show "\<forall>e \<in> set [event_new 0 VaultAccess Success (lit ''ok'')].
      json_law \<lparr>to_json = (\<lambda>e. Inr (ae_detail e)), from_json = (\<lambda>l. Some (event_new 0 VaultAccess Success l))\<rparr>
        (redacted_event [] e)"
    by (simp add: json_law_def redacted_event_def event_new_def)
qed

end
