(* ===== verification/Sess_Manager.thy ===== *)
theory Sess_Manager
  imports Log_Buffer Rdt_Proto "HOL-Library.AList"
begin

text \<open>
  Session orchestration, \<open>crates/rdt-session/src/lib.rs\<close> and \<open>handle.rs\<close>. The hash map of
  sessions is an association list with one pair per key, whose order nothing depends on. A
  command channel and a cancellation token are numbers; the manager's state holds what was sent
  on the event channel, handed to the audit log and fired as cancellation, and a predicate says
  which command channels are still open. Clocks are arguments. The mutex is not held throughout
  a method: each access to the shared state is a definition of its own, of which the methods are
  composed, and the last section interleaves the accesses of concurrent calls.
\<close>

section \<open>States\<close>

datatype session_state =
    Idle | Connecting | Authenticating | Connected | Reconnecting | Disconnected | Failed | Cancelled

definition is_active :: "session_state \<Rightarrow> bool" where
  "is_active s \<longleftrightarrow> s = Connected"

definition is_terminal :: "session_state \<Rightarrow> bool" where
  "is_terminal s \<longleftrightarrow> s \<in> {Disconnected, Failed, Cancelled}"

definition is_pending :: "session_state \<Rightarrow> bool" where
  "is_pending s \<longleftrightarrow> s \<in> {Connecting, Authenticating, Reconnecting}"

datatype session_command =
    TerminalInput "u8 list" | Resize u32 u32 | RemoteInput "u8 list" | Clipboard ustring
  | ListDirectory ustring | Upload ustring ustring | Download ustring ustring
  | CancelTransfer | Disconnect

datatype session_event =
    Output "u8 list" | Frame | TransferProgress ustring u64 "u64 option" | TransferComplete ustring u64
  | TransferFailed ustring ustring | Directory ustring "(ustring \<times> bool \<times> u64 option) list"
  | CredentialNeeded ustring bool | Closed ustring

section \<open>The manager\<close>

record session_info =
  si_id :: rdt_id
  si_profile :: "rdt_id option"
  si_protocol :: protocol
  si_address :: ustring
  si_state :: session_state
  si_detail :: ustring
  si_started :: nat
  si_attempt :: u32

record manager_policy =
  mp_max_concurrent :: nat
  mp_reconnect :: reconnect_policy
  mp_audit :: bool

definition manager_policy_default :: manager_policy where
  "manager_policy_default =
     \<lparr>mp_max_concurrent = 16, mp_reconnect = reconnect_default, mp_audit = True\<rparr>"

record session_slot =
  sl_info :: session_info
  sl_commands :: nat
  sl_cancel :: nat

record manager =
  mg_sessions :: "(rdt_id \<times> session_slot) list"
  mg_policy :: manager_policy
  mg_events :: "(rdt_id \<times> session_state \<times> ustring) list"
  mg_audit :: "audit_event list"
  mg_cancelled :: "nat list"

record session_handle =
  sh_id :: rdt_id
  sh_commands :: nat

definition manager_new :: "manager_policy \<Rightarrow> manager rdt_result" where
  "manager_new policy =
     (if mp_max_concurrent policy = 0 then
        fail EConfig (lit ''at least one concurrent session must be allowed'')
      else Inr \<lparr>mg_sessions = [], mg_policy = policy, mg_events = [], mg_audit = [], mg_cancelled = []\<rparr>)"

definition slot_live :: "rdt_id \<times> session_slot \<Rightarrow> bool" where
  "slot_live p \<longleftrightarrow> \<not> is_terminal (si_state (sl_info (snd p)))"

definition active_count :: "manager \<Rightarrow> nat" where
  "active_count m = length (filter slot_live (mg_sessions m))"

text \<open>Sorting by the reverse of the elapsed time: the earliest start comes first.\<close>

definition manager_list :: "manager \<Rightarrow> session_info list" where
  "manager_list m = sort_key si_started (map (sl_info \<circ> snd) (mg_sessions m))"

definition manager_get :: "rdt_id \<Rightarrow> manager \<Rightarrow> session_info option" where
  "manager_get i m = map_option sl_info (map_of (mg_sessions m) i)"

definition audit_kind_of :: "session_state \<Rightarrow> audit_kind" where
  "audit_kind_of s =
     (case s of
        Connecting \<Rightarrow> SessionConnect
      | Authenticating \<Rightarrow> AuthAttempt
      | Connected \<Rightarrow> SessionEstablished
      | Reconnecting \<Rightarrow> SessionReconnect
      | Disconnected \<Rightarrow> SessionClosed
      | Cancelled \<Rightarrow> SessionClosed
      | Failed \<Rightarrow> SessionClosed
      | Idle \<Rightarrow> SessionConnect)"

definition audit_outcome_of :: "session_state \<Rightarrow> audit_outcome" where
  "audit_outcome_of s =
     (case s of Failed \<Rightarrow> Failure | Cancelled \<Rightarrow> Denied | Connected \<Rightarrow> Success | _ \<Rightarrow> InfoOnly)"

text \<open>\<open>release\<close> clones and drops the command sender, which changes nothing.\<close>

definition manager_release :: "rdt_id \<Rightarrow> manager \<Rightarrow> manager" where
  "manager_release i m = m"

text \<open>The number of attempts is a \<open>u32\<close>; \<open>+= 1\<close> wraps around as in a release build.\<close>

definition slot_transition :: "session_state \<Rightarrow> ustring \<Rightarrow> session_slot \<Rightarrow> session_slot" where
  "slot_transition state detail slot =
     slot\<lparr>sl_info := (sl_info slot)
       \<lparr>si_state := state, si_detail := detail,
        si_attempt := (if state = Reconnecting then si_attempt (sl_info slot) + 1
                       else si_attempt (sl_info slot))\<rparr>\<rparr>"

text \<open>The accesses of a transition: the slot, under the lock, then the event channel and the audit log,
  after the lock is released.\<close>

definition mark_slot :: "rdt_id \<Rightarrow> session_state \<Rightarrow> ustring \<Rightarrow> manager \<Rightarrow> manager" where
  "mark_slot i state detail m =
     (case map_of (mg_sessions m) i of
        Some slot \<Rightarrow> m\<lparr>mg_sessions := AList.update i (slot_transition state detail slot) (mg_sessions m)\<rparr>
      | None \<Rightarrow> m)"

definition announce :: "rdt_id \<Rightarrow> session_state \<Rightarrow> ustring \<Rightarrow> manager \<Rightarrow> manager" where
  "announce i state detail m = m\<lparr>mg_events := mg_events m @ [(i, state, detail)]\<rparr>"

definition record_transition :: "u64 \<Rightarrow> rdt_id \<Rightarrow> session_state \<Rightarrow> ustring \<Rightarrow> manager \<Rightarrow> manager" where
  "record_transition now i state detail m =
     (if mp_audit (mg_policy m)
      then m\<lparr>mg_audit := mg_audit m @
             [with_session (id_display i)
                (event_new now (audit_kind_of state) (audit_outcome_of state) detail)]\<rparr>
      else m)"

definition manager_transition ::
  "u64 \<Rightarrow> rdt_id \<Rightarrow> session_state \<Rightarrow> ustring \<Rightarrow> manager \<Rightarrow> manager" where
  "manager_transition now i state detail m =
     (let m3 = record_transition now i state detail (announce i state detail (mark_slot i state detail m))
      in (if is_terminal state then manager_release i m3 else m3))"

text \<open>Registering counts and inserts under one lock, and reports the transition without it.\<close>

definition new_slot ::
  "nat \<Rightarrow> rdt_id \<Rightarrow> rdt_id option \<Rightarrow> protocol \<Rightarrow> ustring \<Rightarrow> nat \<Rightarrow> nat \<Rightarrow> session_slot" where
  "new_slot started i profile proto address commands cancel =
     \<lparr>sl_info = \<lparr>si_id = i, si_profile = profile, si_protocol = proto,
        si_address = address, si_state = Connecting, si_detail = lit ''connecting'',
        si_started = started, si_attempt = 0\<rparr>,
      sl_commands = commands, sl_cancel = cancel\<rparr>"

definition manager_insert :: "rdt_id \<Rightarrow> session_slot \<Rightarrow> manager \<Rightarrow> unit rdt_result \<times> manager" where
  "manager_insert i slot m =
     (if active_count m \<ge> mp_max_concurrent (mg_policy m) then
        (fail ESessionState (lit ''the limit of '' @ show_nat (mp_max_concurrent (mg_policy m))
           @ lit '' concurrent sessions is reached''), m)
      else (Inr (), m\<lparr>mg_sessions := AList.update i slot (mg_sessions m)\<rparr>))"

definition manager_register ::
  "u64 \<Rightarrow> nat \<Rightarrow> rdt_id \<Rightarrow> rdt_id option \<Rightarrow> protocol \<Rightarrow> ustring \<Rightarrow> nat \<Rightarrow> nat
     \<Rightarrow> manager \<Rightarrow> session_handle rdt_result \<times> manager" where
  "manager_register now started i profile proto address commands cancel m =
     (case manager_insert i (new_slot started i profile proto address commands cancel) m of
        (Inl e, m1) \<Rightarrow> (Inl e, m1)
      | (Inr _, m1) \<Rightarrow>
          (Inr \<lparr>sh_id = i, sh_commands = commands\<rparr>, manager_transition now i Connecting (lit ''connecting'') m1))"

text \<open>Sending succeeds while the receiver of the channel exists; the command is the result.\<close>

definition channel_send :: "(nat \<Rightarrow> bool) \<Rightarrow> nat \<Rightarrow> session_command \<Rightarrow> (nat \<times> session_command) rdt_result" where
  "channel_send is_open ch command =
     (if is_open ch then Inr (ch, command) else fail ESessionState (lit ''the session is closed''))"

definition manager_send ::
  "(nat \<Rightarrow> bool) \<Rightarrow> rdt_id \<Rightarrow> session_command \<Rightarrow> manager \<Rightarrow> (nat \<times> session_command) rdt_result" where
  "manager_send is_open i command m =
     (case map_of (mg_sessions m) i of
        None \<Rightarrow> fail ESessionState (lit ''no such session'')
      | Some slot \<Rightarrow> channel_send is_open (sl_commands slot) command)"

definition handle_send :: "(nat \<Rightarrow> bool) \<Rightarrow> session_handle \<Rightarrow> session_command \<Rightarrow> (nat \<times> session_command) rdt_result" where
  "handle_send is_open h command = channel_send is_open (sh_commands h) command"

text \<open>Cancelling takes the slot out under the lock, fires its token and reports the transition without it.\<close>

definition take_slot :: "rdt_id \<Rightarrow> manager \<Rightarrow> nat option \<times> manager" where
  "take_slot i m =
     (case map_of (mg_sessions m) i of
        Some slot \<Rightarrow> (Some (sl_cancel slot), m\<lparr>mg_sessions := AList.delete i (mg_sessions m)\<rparr>)
      | None \<Rightarrow> (None, m))"

definition fire_token :: "nat option \<Rightarrow> manager \<Rightarrow> manager" where
  "fire_token token m = (case token of Some c \<Rightarrow> m\<lparr>mg_cancelled := mg_cancelled m @ [c]\<rparr> | None \<Rightarrow> m)"

definition manager_cancel :: "u64 \<Rightarrow> rdt_id \<Rightarrow> manager \<Rightarrow> manager" where
  "manager_cancel now i m =
     (case take_slot i m of
        (token, m1) \<Rightarrow> manager_transition now i Cancelled (lit ''cancelled by the user'') (fire_token token m1))"

definition manager_cancel_all :: "u64 \<Rightarrow> manager \<Rightarrow> manager" where
  "manager_cancel_all now m = fold (manager_cancel now) (map fst (mg_sessions m)) m"

definition manager_prune :: "manager \<Rightarrow> nat \<times> manager" where
  "manager_prune m =
     (let kept = filter slot_live (mg_sessions m) in
      (length (mg_sessions m) - length kept, m\<lparr>mg_sessions := kept\<rparr>))"

text \<open>
  \<open>Some(delay_for(attempt))\<close> with \<open>delay_for\<close> itself an option; the outermost \<open>None\<close> is the
  overflow of \<open>delay_for\<close>.
\<close>

definition next_retry_delay :: "manager \<Rightarrow> u32 \<Rightarrow> u64 option option option" where
  "next_retry_delay m attempt =
     (if \<not> rc_enabled (mp_reconnect (mg_policy m)) then Some None
      else map_option Some (delay_for (mp_reconnect (mg_policy m)) attempt))"

section \<open>Calls one after the other\<close>

text \<open>
  The calls the application makes when each returns before the next begins. The code does not check
  which states a caller may report; with \<open>g\<close> the callers keep to a discipline: a transition reported
  for a finished session only names another final state.
\<close>

inductive mstep :: "bool \<Rightarrow> manager \<Rightarrow> manager \<Rightarrow> bool" for g :: bool where
  step_register:
    "manager_register now started i profile proto address commands cancel m = (r, m') \<Longrightarrow> mstep g m m'"
| step_transition:
    "(\<And>info. g \<Longrightarrow> manager_get i m = Some info \<Longrightarrow> is_terminal (si_state info) \<Longrightarrow> is_terminal state) \<Longrightarrow>
       mstep g m (manager_transition now i state detail m)"
| step_cancel: "mstep g m (manager_cancel now i m)"
| step_cancel_all: "mstep g m (manager_cancel_all now m)"
| step_prune: "mstep g m (snd (manager_prune m))"

definition manager_reachable :: "bool \<Rightarrow> manager_policy \<Rightarrow> manager \<Rightarrow> bool" where
  "manager_reachable g p m \<longleftrightarrow> (\<exists>m0. manager_new p = Inr m0 \<and> (mstep g)\<^sup>*\<^sup>* m0 m)"

section \<open>Concurrent calls\<close>

text \<open>Calls of several threads overlap: what a thread has still to do is a list of accesses, any thread
  may make its next one, and an access may add others to its thread.\<close>

datatype manager_access =
    Mark rdt_id session_state ustring
  | Announce rdt_id session_state ustring
  | Record u64 rdt_id session_state ustring
  | Release rdt_id
  | Insert u64 rdt_id session_slot
  | Take u64 rdt_id
  | Fire "nat option"
  | Take_All u64
  | Prune

definition transition_accesses :: "u64 \<Rightarrow> rdt_id \<Rightarrow> session_state \<Rightarrow> ustring \<Rightarrow> manager_access list" where
  "transition_accesses now i state detail =
     [Mark i state detail, Announce i state detail, Record now i state detail]
     @ (if is_terminal state then [Release i] else [])"

fun access :: "manager_access \<Rightarrow> manager \<Rightarrow> manager \<times> manager_access list" where
  "access (Mark i state detail) m = (mark_slot i state detail m, [])"
| "access (Announce i state detail) m = (announce i state detail m, [])"
| "access (Record now i state detail) m = (record_transition now i state detail m, [])"
| "access (Release i) m = (manager_release i m, [])"
| "access (Insert now i slot) m =
     (case manager_insert i slot m of
        (Inl e, m1) \<Rightarrow> (m1, [])
      | (Inr _, m1) \<Rightarrow> (m1, transition_accesses now i Connecting (lit ''connecting'')))"
| "access (Take now i) m =
     (case take_slot i m of
        (token, m1) \<Rightarrow> (m1, Fire token # transition_accesses now i Cancelled (lit ''cancelled by the user'')))"
| "access (Fire token) m = (fire_token token m, [])"
| "access (Take_All now) m = (m, map (\<lambda>p. Take now (fst p)) (mg_sessions m))"
| "access Prune m = (snd (manager_prune m), [])"

datatype manager_call =
    Call_Register u64 rdt_id session_slot
  | Call_Transition u64 rdt_id session_state ustring
  | Call_Cancel u64 rdt_id
  | Call_Cancel_All u64
  | Call_Prune

fun call_accesses :: "manager_call \<Rightarrow> manager_access list" where
  "call_accesses (Call_Register now i slot) = [Insert now i slot]"
| "call_accesses (Call_Transition now i state detail) = transition_accesses now i state detail"
| "call_accesses (Call_Cancel now i) = [Take now i]"
| "call_accesses (Call_Cancel_All now) = [Take_All now]"
| "call_accesses Call_Prune = [Prune]"

inductive overlap :: "manager \<times> manager_access list list \<Rightarrow> manager \<times> manager_access list list \<Rightarrow> bool" where
  overlap_call: "overlap (m, ts) (m, ts @ [call_accesses c])"
| overlap_access:
    "access x m = (m', ys) \<Longrightarrow> overlap (m, ts @ (x # xs) # us) (m', ts @ (ys @ xs) # us)"

definition overlapping :: "manager_policy \<Rightarrow> manager \<Rightarrow> manager_access list list \<Rightarrow> bool" where
  "overlapping p m ts \<longleftrightarrow> (\<exists>m0. manager_new p = Inr m0 \<and> overlap\<^sup>*\<^sup>* (m0, []) (m, ts))"

section \<open>What cancelling leaves\<close>

text \<open>
  What cancelling leaves of the sessions. The control socket and the window only ever end sessions, and
  both proofs rest on the relation \<open>sessions_left\<close>.
\<close>

text \<open>The sessions after a command are those before, or those before without the one that was named.\<close>

definition sessions_left :: "manager \<Rightarrow> manager \<Rightarrow> bool" where
  "sessions_left m m' \<longleftrightarrow> map_of (mg_sessions m') \<subseteq>\<^sub>m map_of (mg_sessions m) \<and> mg_policy m' = mg_policy m"

lemma sessions_left_refl [simp]: "sessions_left m m"
  by (simp add: sessions_left_def)

lemma sessions_left_trans: "sessions_left m m1 \<Longrightarrow> sessions_left m1 m2 \<Longrightarrow> sessions_left m m2"
  by (auto simp: sessions_left_def intro: map_le_trans)

lemma sessions_left_get: "sessions_left m m' \<Longrightarrow> manager_get i m' = Some info \<Longrightarrow> manager_get i m = Some info"
  by (auto simp: sessions_left_def manager_get_def map_le_def dom_def)

lemma sessions_left_none: "sessions_left m m' \<Longrightarrow> mg_sessions m = [] \<Longrightarrow> mg_sessions m' = []"
  by (cases "mg_sessions m'") (auto simp: sessions_left_def map_le_def dom_def split: if_splits)

text \<open>The command channels of the sessions.\<close>

definition channels :: "manager \<Rightarrow> nat set" where
  "channels m = sl_commands ` ran (map_of (mg_sessions m))"

lemma sessions_left_channels: "sessions_left m m' \<Longrightarrow> channels m' \<subseteq> channels m"
  by (fastforce simp: sessions_left_def channels_def map_le_def ran_def dom_def)

lemma send_to_channel: "manager_send is_open i c m = Inr (n, c') \<Longrightarrow> n \<in> channels m \<and> c' = c"
  by (auto simp: manager_send_def channel_send_def channels_def fail_def intro: ranI split: option.splits if_splits)

text \<open>Cancelling removes the session before it reports the transition, which then finds none.\<close>

lemma transition_fields [simp]:
  "mg_policy (manager_transition now i s d m) = mg_policy m"
  "mg_events (manager_transition now i s d m) = mg_events m @ [(i, s, d)]"
  "mg_cancelled (manager_transition now i s d m) = mg_cancelled m"
  "mg_sessions (manager_transition now i s d m) =
     (case map_of (mg_sessions m) i of
        Some slot \<Rightarrow> AList.update i (slot_transition s d slot) (mg_sessions m)
      | None \<Rightarrow> mg_sessions m)"
  "mg_audit (manager_transition now i s d m) = mg_audit m @
     (if mp_audit (mg_policy m) then [with_session (id_display i)
        (event_new now (audit_kind_of s) (audit_outcome_of s) d)] else [])"
  by (simp_all add: manager_transition_def mark_slot_def announce_def record_transition_def manager_release_def Let_def
      split: option.split)

lemma unlisted: "map_of al i = None \<Longrightarrow> AList.delete i al = al"
  by (simp add: map_of_eq_None_iff AList.delete_id)

lemma cancel_fields:
  "mg_policy (manager_cancel now i m) = mg_policy m"
  "mg_sessions (manager_cancel now i m) = AList.delete i (mg_sessions m)"
  "mg_events (manager_cancel now i m) = mg_events m @ [(i, Cancelled, lit ''cancelled by the user'')]"
  "mg_cancelled (manager_cancel now i m) =
     mg_cancelled m @ (case map_of (mg_sessions m) i of Some slot \<Rightarrow> [sl_cancel slot] | None \<Rightarrow> [])"
  "mg_audit (manager_cancel now i m) = mg_audit m @
     (if mp_audit (mg_policy m) then [with_session (id_display i)
        (event_new now (audit_kind_of Cancelled) (audit_outcome_of Cancelled) (lit ''cancelled by the user''))] else [])"
  by (cases "map_of (mg_sessions m) i";
      simp add: manager_cancel_def take_slot_def fire_token_def AList.delete_conv' unlisted del: lit_simps)+

lemma cancel_sessions: "mg_sessions (manager_cancel now i m) = AList.delete i (mg_sessions m)
   \<and> mg_policy (manager_cancel now i m) = mg_policy m"
  by (simp add: cancel_fields)

lemma sessions_left_cancel: "sessions_left m (manager_cancel now i m)"
  using cancel_sessions [of now i m] by (auto simp: sessions_left_def map_le_def AList.delete_conv')

end
