(* ===== verification/Sess_Manager_Props.thy ===== *)
theory Sess_Manager_Props
  imports Sess_Manager "HOL-Library.Multiset"
begin

text \<open>
  Invariants of the session manager: the concurrency limit over all states that calls reach one after
  the other, and an audit record for every broadcast transition, however calls overlap.
\<close>

section \<open>Counting live sessions\<close>

definition live :: "(rdt_id \<times> session_slot) list \<Rightarrow> nat" where
  "live al = length (filter slot_live al)"

lemma live_update: "live (AList.update i s al) \<le> live al + (if slot_live (i, s) then 1 else 0)"
  by (induction al) (auto simp: live_def slot_live_def)

lemma live_update_keep:
  "map_of al i = Some old \<Longrightarrow> (slot_live (i, s) \<Longrightarrow> slot_live (i, old)) \<Longrightarrow>
     live (AList.update i s al) \<le> live al"
  by (induction al) (auto simp: live_def slot_live_def split: if_splits)

lemma live_filter: "live (filter P al) \<le> live al"
  by (induction al) (auto simp: live_def)

lemma active_count_live: "active_count m = live (mg_sessions m)"
  by (simp add: active_count_def live_def)

lemma slot_transition_state [simp]: "si_state (sl_info (slot_transition s d slot)) = s"
  by (simp add: slot_transition_def)

lemma live_transition:
  assumes "\<And>slot. map_of (mg_sessions m) i = Some slot \<Longrightarrow>
             is_terminal (si_state (sl_info slot)) \<Longrightarrow> is_terminal s"
  shows "live (mg_sessions (manager_transition now i s d m)) \<le> live (mg_sessions m)"
proof (cases "map_of (mg_sessions m) i")
  case (Some slot)
  have "live (AList.update i (slot_transition s d slot) (mg_sessions m)) \<le> live (mg_sessions m)"
    using assms [OF Some] by (intro live_update_keep [OF Some]) (auto simp: slot_live_def)
  with Some show ?thesis by simp
qed simp

lemma register_live:
  assumes "manager_register now started i profile proto address commands cancel m = (r, m')"
    and "live (mg_sessions m) \<le> mp_max_concurrent (mg_policy m)"
  shows "live (mg_sessions m') \<le> mp_max_concurrent (mg_policy m) \<and> mg_policy m' = mg_policy m"
proof (cases "active_count m \<ge> mp_max_concurrent (mg_policy m)")
  case True
  with assms show ?thesis by (simp add: manager_register_def manager_insert_def fail_def)
next
  case False
  let ?slot = "new_slot started i profile proto address commands cancel"
  let ?m1 = "m\<lparr>mg_sessions := AList.update i ?slot (mg_sessions m)\<rparr>"
  have m': "m' = manager_transition now i Connecting (lit ''connecting'') ?m1"
    using assms(1) False by (simp add: manager_register_def manager_insert_def)
  have "live (mg_sessions m') \<le> live (mg_sessions ?m1)"
    unfolding m' by (rule live_transition) (auto simp: update_Some_unfold new_slot_def is_terminal_def update_conv')
  also have "\<dots> \<le> live (mg_sessions m) + 1"
    using live_update [of i ?slot "mg_sessions m"] by (simp split: if_splits)
  also have "\<dots> \<le> mp_max_concurrent (mg_policy m)" using False by (simp add: active_count_live)
  finally show ?thesis by (simp add: m')
qed

definition manager_inv :: "bool \<Rightarrow> manager_policy \<Rightarrow> manager \<Rightarrow> bool" where
  "manager_inv g p m \<longleftrightarrow> mg_policy m = p \<and> (g \<longrightarrow> live (mg_sessions m) \<le> mp_max_concurrent p)
     \<and> (mp_audit p \<longrightarrow> map (\<lambda>e. (ae_session e, ae_kind e, ae_outcome e, ae_detail e)) (mg_audit m)
         = map (\<lambda>(i, s, d). (Some (id_display i), audit_kind_of s, audit_outcome_of s, d)) (mg_events m))"

lemma inv_transition:
  assumes "manager_inv g p m"
    and "g \<Longrightarrow> live (mg_sessions (manager_transition now i s d m)) \<le> mp_max_concurrent p"
  shows "manager_inv g p (manager_transition now i s d m)"
  using assms by (auto simp: manager_inv_def with_session_def event_new_def simp del: transition_fields(4))

lemma inv_register:
  assumes "manager_register now started i profile proto address commands cancel m = (r, m')"
    and "manager_inv g p m"
  shows "manager_inv g p m'"
proof (cases "active_count m \<ge> mp_max_concurrent (mg_policy m)")
  case True
  with assms show ?thesis by (simp add: manager_register_def manager_insert_def fail_def)
next
  case False
  then obtain al where m': "m' = manager_transition now i Connecting (lit ''connecting'') (m\<lparr>mg_sessions := al\<rparr>)"
    using assms(1) by (auto simp: manager_register_def manager_insert_def)
  moreover have "g \<Longrightarrow> live (mg_sessions m') \<le> mp_max_concurrent p"
    using register_live [OF assms(1)] assms(2) by (simp add: manager_inv_def)
  ultimately show ?thesis
    using assms(2) by (auto simp: manager_inv_def with_session_def event_new_def
        simp del: transition_fields(4))
qed

lemma inv_cancel:
  assumes "manager_inv g p m"
  shows "manager_inv g p (manager_cancel now i m)"
proof -
  have "live (AList.delete i (mg_sessions m)) \<le> live (mg_sessions m)"
    unfolding AList.delete_eq by (rule live_filter)
  with assms show ?thesis by (auto simp: manager_inv_def cancel_fields with_session_def event_new_def simp del: lit_simps)
qed

lemma inv_cancel_fold: "manager_inv g p m \<Longrightarrow> manager_inv g p (fold (manager_cancel now) is m)"
  by (induction "is" arbitrary: m) (auto intro: inv_cancel)

lemma mstep_inv: "mstep g m m' \<Longrightarrow> manager_inv g p m \<Longrightarrow> manager_inv g p m'"
proof (induction rule: mstep.induct)
  case (step_register now started i profile proto address commands cancel m r m')
  then show ?case by (rule inv_register)
next
  case (step_transition i m state now detail)
  have "g \<Longrightarrow> live (mg_sessions (manager_transition now i state detail m)) \<le> live (mg_sessions m)"
    by (rule live_transition) (use step_transition.hyps in \<open>auto simp: manager_get_def\<close>)
  then show ?case
    using step_transition.prems by (intro inv_transition) (auto simp: manager_inv_def)
next
  case (step_cancel m now i)
  then show ?case by (rule inv_cancel)
next
  case (step_cancel_all m now)
  then show ?case unfolding manager_cancel_all_def by (rule inv_cancel_fold)
next
  case (step_prune m)
  then show ?case
    using live_filter [of slot_live "mg_sessions m"]
    by (auto simp: manager_inv_def manager_prune_def Let_def)
qed

lemma reachable_inv:
  assumes "manager_reachable g p m"
  shows "manager_inv g p m"
proof -
  obtain m0 where m0: "manager_new p = Inr m0" "(mstep g)\<^sup>*\<^sup>* m0 m"
    using assms by (auto simp: manager_reachable_def)
  have "manager_inv g p m0" using m0(1)
    by (auto simp: manager_new_def manager_inv_def live_def split: if_splits)
  with m0(2) show ?thesis by (induction rule: rtranclp_induct) (auto intro: mstep_inv)
qed

section \<open>Properties\<close>

text \<open>
  C11: while no caller revives a finished session, at most the configured number of sessions is
  not finished, in every reachable state of the manager.
\<close>

theorem concurrency_limit:
  assumes "manager_reachable True p m"
  shows "active_count m \<le> mp_max_concurrent p"
  using reachable_inv [OF assms] by (simp add: manager_inv_def active_count_live)

lemma new_reachable: "manager_new p = Inr m \<Longrightarrow> manager_reachable g p m"
  by (auto simp: manager_reachable_def)

lemma step_reachable: "manager_reachable g p m \<Longrightarrow> mstep g m m' \<Longrightarrow> manager_reachable g p m'"
  by (auto simp: manager_reachable_def intro: rtranclp.rtrancl_into_rtrancl)

text \<open>A reachable state with one session, for the witnesses.\<close>

definition sample :: manager where
  "sample = snd (manager_register 0 0 [1] None Ssh (lit ''h:22'') 0 0
     \<lparr>mg_sessions = [], mg_policy = manager_policy_default, mg_events = [], mg_audit = [], mg_cancelled = []\<rparr>)"

lemma sample_reachable: "manager_reachable g manager_policy_default sample"
proof (rule step_reachable [OF new_reachable])
  show "manager_new manager_policy_default = Inr
      \<lparr>mg_sessions = [], mg_policy = manager_policy_default, mg_events = [], mg_audit = [], mg_cancelled = []\<rparr>"
    by (simp add: manager_new_def manager_policy_default_def)
  show "mstep g \<lparr>mg_sessions = [], mg_policy = manager_policy_default, mg_events = [], mg_audit = [], mg_cancelled = []\<rparr> sample"
    unfolding sample_def by (rule mstep.step_register) (rule prod.collapse [symmetric])
qed

theorem concurrency_limit_witness: "active_count sample \<le> mp_max_concurrent manager_policy_default"
  by (rule concurrency_limit [OF sample_reachable])

text \<open>Calls that do not overlap are audited in the order in which they are broadcast.\<close>

lemma audited_in_order:
  assumes "manager_reachable g p m" and "mp_audit p"
  shows "map (\<lambda>e. (ae_session e, ae_kind e, ae_outcome e, ae_detail e)) (mg_audit m)
     = map (\<lambda>(i, s, d). (Some (id_display i), audit_kind_of s, audit_outcome_of s, d)) (mg_events m)"
  using reachable_inv [OF assms(1)] assms(2) by (simp add: manager_inv_def)

text \<open>
  Cancelling forgets the session: its entry is removed before the transition is recorded, so
  a lookup finds nothing, while its cancellation token is fired and the transition broadcast.
\<close>

theorem cancel_forgets_session:
  assumes "map_of (mg_sessions m) i = Some slot"
  shows "manager_get i (manager_cancel now i m) = None
     \<and> mg_cancelled (manager_cancel now i m) = mg_cancelled m @ [sl_cancel slot]
     \<and> mg_events (manager_cancel now i m) = mg_events m @ [(i, Cancelled, lit ''cancelled by the user'')]
     \<and> (\<forall>j. j \<noteq> i \<longrightarrow> manager_get j (manager_cancel now i m) = manager_get j m)"
  using assms
  by (simp add: cancel_fields manager_get_def delete_conv' del: lit_simps)

theorem cancel_forgets_session_witness:
  "manager_get [1] (manager_cancel 5 [1] sample) = None"
proof -
  have "map_of (mg_sessions sample) [1] = Some (snd (hd (mg_sessions sample)))"
    by (simp add: sample_def manager_register_def manager_insert_def manager_policy_default_def active_count_def)
  from cancel_forgets_session [OF this, of 5] show ?thesis by simp
qed

text \<open>
  Without the discipline the limit fails: with a limit of one, a session that is reported
  disconnected, a second one that is registered, and a late report for the first leave two
  sessions live.
\<close>

definition revived :: manager where
  "revived =
     (let m0 = \<lparr>mg_sessions = [], mg_policy = manager_policy_default\<lparr>mp_max_concurrent := 1\<rparr>,
                mg_events = [], mg_audit = [], mg_cancelled = []\<rparr>;
          m1 = snd (manager_register 0 0 [1] None Ssh (lit ''h:22'') 0 0 m0);
          m2 = manager_transition 0 [1] Disconnected [] m1;
          m3 = snd (manager_register 0 0 [2] None Ssh (lit ''h:22'') 1 1 m2)
      in manager_transition 0 [1] Reconnecting [] m3)"

lemma revival_breaks_limit:
  "manager_reachable False (manager_policy_default\<lparr>mp_max_concurrent := 1\<rparr>) revived"
  "active_count revived = 2"
proof -
  have reg: "manager_reachable False p m \<Longrightarrow>
      manager_reachable False p (snd (manager_register 0 0 i None Ssh a c c' m))" for p m i a c c'
    by (erule step_reachable, rule mstep.step_register) (rule prod.collapse [symmetric])
  have tr: "manager_reachable False p m \<Longrightarrow> manager_reachable False p (manager_transition 0 i s d m)"
    for p m i s d
    by (erule step_reachable, rule mstep.step_transition) simp
  show "manager_reachable False (manager_policy_default\<lparr>mp_max_concurrent := 1\<rparr>) revived"
    unfolding revived_def Let_def
    by (intro tr reg new_reachable) (simp add: manager_new_def manager_policy_default_def)
  show "active_count revived = 2"
    by (simp add: revived_def Let_def manager_register_def manager_insert_def new_slot_def active_count_def slot_live_def
        manager_policy_default_def is_terminal_def slot_transition_def)
qed

section \<open>Overlapping calls\<close>

text \<open>What the audit log is to say of a transition.\<close>

definition recorded_as :: "session_state \<Rightarrow> audit_kind \<times> audit_outcome" where
  "recorded_as s =
     (case s of
        Idle \<Rightarrow> (SessionConnect, InfoOnly) | Connecting \<Rightarrow> (SessionConnect, InfoOnly)
      | Authenticating \<Rightarrow> (AuthAttempt, InfoOnly) | Connected \<Rightarrow> (SessionEstablished, Success)
      | Reconnecting \<Rightarrow> (SessionReconnect, InfoOnly) | Disconnected \<Rightarrow> (SessionClosed, InfoOnly)
      | Failed \<Rightarrow> (SessionClosed, Failure) | Cancelled \<Rightarrow> (SessionClosed, Denied))"

definition trail_entry ::
  "rdt_id \<times> session_state \<times> ustring \<Rightarrow> ustring option \<times> (audit_kind \<times> audit_outcome) \<times> ustring" where
  "trail_entry = (\<lambda>(i, s, d). (Some (id_display i), recorded_as s, d))"

definition recorded_entry :: "audit_event \<Rightarrow> ustring option \<times> (audit_kind \<times> audit_outcome) \<times> ustring" where
  "recorded_entry e = (ae_session e, (ae_kind e, ae_outcome e), ae_detail e)"

lemma entry_recorded:
  "recorded_entry (with_session (id_display i) (event_new now (audit_kind_of s) (audit_outcome_of s) d)) = trail_entry (i, s, d)"
  by (cases s) (simp_all add: recorded_entry_def trail_entry_def recorded_as_def with_session_def event_new_def
      audit_kind_of_def audit_outcome_of_def)

text \<open>What a thread has broadcast and not yet recorded; the accesses to come are broadcasts followed by
  their records, and others.\<close>

definition owed :: "manager_access list \<Rightarrow> (rdt_id \<times> session_state \<times> ustring) list" where
  "owed xs = (case xs of Record now i s d # _ \<Rightarrow> [(i, s, d)] | _ \<Rightarrow> [])"

definition silent :: "manager_access \<Rightarrow> bool" where
  "silent x \<longleftrightarrow> (case x of Announce _ _ _ \<Rightarrow> False | Record _ _ _ _ \<Rightarrow> False | _ \<Rightarrow> True)"

inductive balanced :: "manager_access list \<Rightarrow> bool" where
  balanced_Nil: "balanced []"
| balanced_pair: "balanced xs \<Longrightarrow> balanced (Announce i s d # Record now i s d # xs)"
| balanced_silent: "silent x \<Longrightarrow> balanced xs \<Longrightarrow> balanced (x # xs)"

inductive_cases balanced_ConsE: "balanced (x # xs)"

lemmas balanced_intros = balanced_Nil balanced_pair balanced_silent

lemma balanced_append: "balanced xs \<Longrightarrow> balanced ys \<Longrightarrow> balanced (xs @ ys)"
  by (induction rule: balanced.induct) (auto intro: balanced_intros)

lemma balanced_owes_nothing: "balanced xs \<Longrightarrow> owed xs = []"
  by (induction rule: balanced.induct) (auto simp: owed_def silent_def split: manager_access.splits)

lemma balanced_takes: "balanced (map (\<lambda>p. Take now (fst p)) ps)"
  by (induction ps) (auto intro: balanced_intros simp: silent_def)

lemma balanced_transition: "balanced (transition_accesses now i s d)"
  by (auto simp: transition_accesses_def silent_def intro!: balanced_intros)

lemma balanced_call: "balanced (call_accesses c)"
  by (cases c) (auto simp: balanced_transition silent_def intro!: balanced_intros)

definition thread_ok :: "manager_access list \<Rightarrow> bool" where
  "thread_ok xs \<longleftrightarrow> balanced xs \<or> (\<exists>now i s d ys. xs = Record now i s d # ys \<and> balanced ys)"

definition trail_inv :: "manager_policy \<Rightarrow> manager \<Rightarrow> manager_access list list \<Rightarrow> bool" where
  "trail_inv p m ts \<longleftrightarrow> mg_policy m = p \<and> list_all thread_ok ts
     \<and> (mp_audit p \<longrightarrow> mset (map trail_entry (mg_events m))
          = mset (map recorded_entry (mg_audit m)) + mset (map trail_entry (concat (map owed ts))))"

lemma silent_access:
  assumes "silent x" and "access x m = (m', ys)"
  shows "mg_policy m' = mg_policy m \<and> mg_events m' = mg_events m \<and> mg_audit m' = mg_audit m \<and> balanced ys"
  using assms
  by (cases x) (auto simp: silent_def mark_slot_def manager_release_def manager_insert_def take_slot_def fire_token_def
      manager_prune_def Let_def fail_def balanced_transition balanced_takes intro!: balanced_intros
      simp del: lit_simps split: option.splits if_splits)

lemma trail_step:
  assumes "access x m = (m', ys)" and "trail_inv p m (ts @ (x # xs) # us)"
  shows "trail_inv p m' (ts @ (ys @ xs) # us)"
proof -
  have ok: "thread_ok (x # xs)" using assms(2) by (simp add: trail_inv_def)
  then consider (other) "silent x" "balanced xs"
    | (told) i s d now zs where "x = Announce i s d" "xs = Record now i s d # zs" "balanced zs"
    | (noted) now i s d where "x = Record now i s d" "balanced xs"
    by (auto simp: thread_ok_def elim!: balanced_ConsE)
  then show ?thesis
  proof cases
    case other
    note same = silent_access [OF other(1) assms(1)]
    then have "balanced (ys @ xs)" using other(2) balanced_append by blast
    moreover have "balanced (x # xs)" using other by (rule balanced_silent)
    ultimately show ?thesis using assms(2) same by (simp add: trail_inv_def thread_ok_def balanced_owes_nothing)
  next
    case told
    then have "m' = announce i s d m" "ys = []" using assms(1) by simp_all
    with told assms(2) show ?thesis
      by (auto simp: trail_inv_def thread_ok_def announce_def owed_def)
  next
    case noted
    then have "m' = record_transition now i s d m" "ys = []" using assms(1) by simp_all
    with noted assms(2) show ?thesis
      by (auto simp: trail_inv_def thread_ok_def record_transition_def balanced_owes_nothing entry_recorded)
        (simp_all add: owed_def)
  qed
qed

lemma trail_overlap: "overlap x y \<Longrightarrow> trail_inv p (fst x) (snd x) \<Longrightarrow> trail_inv p (fst y) (snd y)"
proof (induction rule: overlap.induct)
  case (overlap_call m ts c)
  then show ?case
    using balanced_call [of c] by (simp add: trail_inv_def thread_ok_def balanced_owes_nothing)
next
  case (overlap_access x m m' ys ts xs us)
  then show ?case using trail_step by simp
qed

lemma trail_reachable:
  assumes "overlapping p m ts"
  shows "trail_inv p m ts"
proof -
  obtain m0 where m0: "manager_new p = Inr m0" "overlap\<^sup>*\<^sup>* (m0, []) (m, ts)" using assms by (auto simp: overlapping_def)
  have "trail_inv p m0 []" using m0(1) by (auto simp: manager_new_def trail_inv_def fail_def split: if_splits)
  with m0(2) have "trail_inv p (fst (m, ts)) (snd (m, ts))"
    by (induction rule: rtranclp_induct) (auto dest: trail_overlap)
  then show ?thesis by simp
qed

lemma owed_by_busy: "length (concat (map owed ts)) \<le> length (filter (\<lambda>t. t \<noteq> []) ts)"
  by (induction ts) (auto simp: owed_def split: list.split manager_access.split)

text \<open>
  C12: when auditing is on, however the calls of several threads overlap, every transition that was
  broadcast has its record in the audit log, with its session and its detail and with the kind and the
  outcome of the table \<open>recorded_as\<close>, and the log holds nothing else; only a call that has not returned
  can still owe the record of the transition it broadcast last. So once all calls have returned, the
  records are those of the broadcast transitions, as often as they were broadcast. The order may
  differ: the code broadcasts and records after it has released the lock.
\<close>

theorem every_transition_audited:
  assumes "overlapping p m ts" and "mp_audit p"
  shows "\<exists>pending. mset (map trail_entry (mg_events m)) = mset (map recorded_entry (mg_audit m)) + mset (map trail_entry pending)
     \<and> length pending \<le> length (filter (\<lambda>t. t \<noteq> []) ts)"
  using trail_reachable [OF assms(1)] assms(2) owed_by_busy [of ts] unfolding trail_inv_def by blast

text \<open>A call that is not interrupted does what the method does.\<close>

lemma overlap_last: "access x m = (m', ys) \<Longrightarrow> overlap\<^sup>*\<^sup>* (m', ts @ [ys @ xs]) y \<Longrightarrow> overlap\<^sup>*\<^sup>* (m, ts @ [x # xs]) y"
  using overlap_access [of x m m' ys ts xs "[]"] by (auto intro: converse_rtranclp_into_rtranclp)

lemma transition_alone:
  "overlap\<^sup>*\<^sup>* (manager_transition now i s d m, ts @ [xs]) y \<Longrightarrow> overlap\<^sup>*\<^sup>* (m, ts @ [transition_accesses now i s d @ xs]) y"
  by (auto simp: transition_accesses_def manager_transition_def Let_def split: if_splits
      intro!: overlap_last [OF access.simps(1)] overlap_last [OF access.simps(2)] overlap_last [OF access.simps(3)]
        overlap_last [OF access.simps(4)])

lemma cancel_alone:
  assumes "overlap\<^sup>*\<^sup>* (manager_cancel now i m, ts @ [xs]) y"
  shows "overlap\<^sup>*\<^sup>* (m, ts @ [Take now i # xs]) y"
proof -
  obtain token m1 where t: "take_slot i m = (token, m1)" by fastforce
  let ?ys = "transition_accesses now i Cancelled (lit ''cancelled by the user'')"
  have "overlap\<^sup>*\<^sup>* (m1, ts @ [Fire token # ?ys @ xs]) y"
    by (rule overlap_last [OF access.simps(7)]) (use assms t in \<open>simp add: manager_cancel_def transition_alone del: lit_simps\<close>)
  then show ?thesis using t by (intro overlap_last [of "Take now i" m m1 "Fire token # ?ys"]) (simp_all del: lit_simps)
qed

lemma cancels_alone:
  "overlap\<^sup>*\<^sup>* (fold (manager_cancel now) (map fst ps) m, ts @ [xs]) y \<Longrightarrow>
     overlap\<^sup>*\<^sup>* (m, ts @ [map (\<lambda>p. Take now (fst p)) ps @ xs]) y"
  by (induction ps arbitrary: m) (auto intro: cancel_alone)

lemma register_alone:
  assumes "manager_register now started i profile proto address commands cancel m = (r, m')"
    and "overlap\<^sup>*\<^sup>* (m', ts @ [xs]) y"
  shows "overlap\<^sup>*\<^sup>* (m, ts @ [Insert now i (new_slot started i profile proto address commands cancel) # xs]) y"
proof (cases "manager_insert i (new_slot started i profile proto address commands cancel) m")
  case (Pair r1 m1)
  then show ?thesis
  proof (cases r1)
    case (Inl e)
    with assms Pair show ?thesis by (intro overlap_last [of _ m m1 "[]"]) (simp_all add: manager_register_def)
  next
    case (Inr u)
    let ?ys = "transition_accesses now i Connecting (lit ''connecting'')"
    have "overlap\<^sup>*\<^sup>* (m1, ts @ [?ys @ xs]) y"
      using assms Pair Inr by (intro transition_alone) (simp add: manager_register_def del: lit_simps)
    with Pair Inr show ?thesis by (intro overlap_last [of _ m m1 ?ys]) (simp_all del: lit_simps)
  qed
qed

lemma step_alone: "mstep g m m' \<Longrightarrow> overlap\<^sup>*\<^sup>* (m, ts) (m', ts @ [[]])"
proof (induction rule: mstep.induct)
  case (step_register now started i profile proto address commands cancel m r m')
  let ?slot = "new_slot started i profile proto address commands cancel"
  from register_alone [OF step_register, of ts "[]"] overlap_call [of m ts "Call_Register now i ?slot"]
  show ?case by (auto intro: converse_rtranclp_into_rtranclp)
next
  case (step_transition i m state now detail)
  from transition_alone [of now i state detail m ts "[]"] overlap_call [of m ts "Call_Transition now i state detail"]
  show ?case by (auto intro: converse_rtranclp_into_rtranclp)
next
  case (step_cancel m now i)
  from cancel_alone [of now i m ts "[]"] overlap_call [of m ts "Call_Cancel now i"]
  show ?case by (auto intro: converse_rtranclp_into_rtranclp)
next
  case (step_cancel_all m now)
  have "overlap\<^sup>*\<^sup>* (m, ts @ [[Take_All now]]) (manager_cancel_all now m, ts @ [[]])"
    by (rule overlap_last [OF access.simps(8)], rule cancels_alone) (simp add: manager_cancel_all_def)
  with overlap_call [of m ts "Call_Cancel_All now"] show ?case by (auto intro: converse_rtranclp_into_rtranclp)
next
  case (step_prune m)
  have "overlap\<^sup>*\<^sup>* (m, ts @ [[Prune]]) (snd (manager_prune m), ts @ [[]])"
    by (rule overlap_last [OF access.simps(9)]) simp
  with overlap_call [of m ts Call_Prune] show ?case by (auto intro: converse_rtranclp_into_rtranclp)
qed

text \<open>Schedules: each number names the thread whose turn it is.\<close>

definition turn :: "nat \<Rightarrow> manager \<times> manager_access list list \<Rightarrow> manager \<times> manager_access list list" where
  "turn k = (\<lambda>(m, ts).
     (if k < length ts then
        (case ts ! k of
           [] \<Rightarrow> (m, ts)
         | x # xs \<Rightarrow> (case access x m of (m', ys) \<Rightarrow> (m', ts[k := ys @ xs])))
      else (m, ts)))"

lemma turn_overlaps: "overlap\<^sup>*\<^sup>* y (turn k y)"
proof (cases y)
  case (Pair m ts)
  show ?thesis
  proof (cases "k < length ts \<and> ts ! k \<noteq> []")
    case True
    then obtain x xs where x: "ts ! k = x # xs" by (cases "ts ! k") auto
    obtain m' ys where a: "access x m = (m', ys)" by fastforce
    have "take k ts @ (x # xs) # drop (Suc k) ts = ts" using id_take_nth_drop [of k ts] True x by simp
    with overlap_access [OF a, of "take k ts" xs "drop (Suc k) ts"] True
    have "overlap (m, ts) (m', ts[k := ys @ xs])" by (simp add: upd_conv_take_nth_drop)
    with Pair True x a show ?thesis by (simp add: turn_def)
  qed (use Pair in \<open>auto simp: turn_def split: list.split\<close>)
qed

lemma turns_overlap: "overlap\<^sup>*\<^sup>* y (fold turn ks y)"
proof (induction ks arbitrary: y)
  case (Cons k ks)
  from rtranclp_trans [OF turn_overlaps Cons] show ?case by simp
qed simp

text \<open>
  A race: a limit of one, a registration that is interrupted before it reports its transition, a
  connection that ends at once, a second registration. When the first resumes it marks its finished
  session as connecting again: two sessions are live, although no caller reported a transition of a
  finished session. The records of the log are not in the order of the broadcasts.
\<close>

definition race_start :: "manager \<times> manager_access list list" where
  "race_start =
     (\<lparr>mg_sessions = [], mg_policy = manager_policy_default\<lparr>mp_max_concurrent := 1\<rparr>, mg_events = [], mg_audit = [],
       mg_cancelled = []\<rparr>,
      map call_accesses
        [Call_Register 0 [1] (new_slot 0 [1] None Ssh (lit ''h:22'') 0 0), Call_Transition 0 [1] Disconnected [],
         Call_Register 0 [2] (new_slot 1 [2] None Ssh (lit ''h:22'') 1 1)])"

definition raced :: "manager \<times> manager_access list list" where
  "raced = fold turn [0, 1, 1, 2, 2, 2, 2, 1, 1, 0, 0, 0] race_start"

lemma race_overlaps: "overlapping (manager_policy_default\<lparr>mp_max_concurrent := 1\<rparr>) (fst raced) (snd raced)"
proof -
  let ?m0 = "fst race_start"
  have "overlap\<^sup>*\<^sup>* (?m0, []) (?m0, map call_accesses cs)" for cs
    by (induction cs rule: rev_induct) (auto intro: rtranclp.rtrancl_into_rtrancl overlap_call)
  then have "overlap\<^sup>*\<^sup>* (?m0, []) race_start" by (metis race_start_def fst_conv)
  then have "overlap\<^sup>*\<^sup>* (?m0, []) raced" unfolding raced_def using turns_overlap rtranclp_trans by metis
  moreover have "manager_new (manager_policy_default\<lparr>mp_max_concurrent := 1\<rparr>) = Inr ?m0"
    by (simp add: manager_new_def race_start_def manager_policy_default_def)
  ultimately show ?thesis by (auto simp: overlapping_def)
qed

lemma registration_race: "active_count (fst raced) = 2" "snd raced = [[], [], []]"
  by code_simp+

lemma race_order:
  "map (\<lambda>(i, s, d). (i, s)) (mg_events (fst raced)) = [([1], Disconnected), ([2], Connecting), ([1], Connecting)]"
  "map (\<lambda>e. (ae_session e, ae_kind e)) (mg_audit (fst raced)) =
     [(Some (id_display [2]), SessionConnect), (Some (id_display [1]), SessionClosed), (Some (id_display [1]), SessionConnect)]"
  by code_simp+

theorem every_transition_audited_witness:
  "mset (map trail_entry (mg_events (fst raced))) = mset (map recorded_entry (mg_audit (fst raced)))"
  using every_transition_audited [OF race_overlaps] registration_race(2) by (auto simp: manager_policy_default_def)

end
