(* ===== verification/Rust_Io.thy ===== *)
theory Rust_Io
  imports Rdt_Error
begin

text \<open>
  Files as the crates use them: a map from paths to contents, and a script of the failures the
  operating system will report. Every call takes the next entry of the script; \<open>None\<close>, or the
  end of the script, lets it succeed. A failing write leaves a prefix of its data behind. So a
  statement about every state is a statement about every interleaving of failures.

  Directories and permissions have no contents: creating and restricting only succeed or fail.
\<close>

section \<open>Calls that may fail\<close>

record fault =
  ft_error :: io_error
  ft_written :: nat

record fs =
  fs_files :: "ustring \<Rightarrow> u8 list option"
  fs_faults :: "fault option list"

type_synonym 'a io = "fs \<Rightarrow> (io_error + 'a) \<times> fs"
type_synonym 'a run = "fs \<Rightarrow> 'a rdt_result \<times> fs"

named_theorems yields_intros \<open>what holds of the files after a successful run\<close>
named_theorems touch_intros \<open>which paths a run may change\<close>

fun next_fault :: "fs \<Rightarrow> fault option" where
  "next_fault s = (case fs_faults s of [] \<Rightarrow> None | f # _ \<Rightarrow> f)"

definition after_call :: "fs \<Rightarrow> fs" where
  "after_call s = s\<lparr>fs_faults := tl (fs_faults s)\<rparr>"

definition set_file :: "ustring \<Rightarrow> u8 list option \<Rightarrow> fs \<Rightarrow> fs" where
  "set_file p c s = s\<lparr>fs_files := (fs_files s)(p := c)\<rparr>"

definition not_found :: io_error where
  "not_found = (IoNotFound, lit ''No such file or directory (os error 2)'')"

text \<open>A call without an effect on contents: \<open>create_dir_all\<close>, \<open>sync_all\<close>, \<open>restrict_to_owner\<close>.\<close>

definition io_touch :: "unit io" where
  "io_touch s =
     (case next_fault s of Some f \<Rightarrow> Inl (ft_error f) | None \<Rightarrow> Inr (), after_call s)"

definition io_read :: "ustring \<Rightarrow> u8 list io" where
  "io_read p s =
     (case next_fault s of
        Some f \<Rightarrow> Inl (ft_error f)
      | None \<Rightarrow> (case fs_files s p of Some c \<Rightarrow> Inr c | None \<Rightarrow> Inl not_found), after_call s)"

definition io_create :: "ustring \<Rightarrow> unit io" where
  "io_create p s =
     (case next_fault s of
        Some f \<Rightarrow> (Inl (ft_error f), after_call s)
      | None \<Rightarrow> (Inr (), set_file p (Some []) (after_call s)))"

text \<open>\<open>write_all\<close> on a file that was opened for writing, at its end.\<close>

definition io_write_all :: "ustring \<Rightarrow> u8 list \<Rightarrow> unit io" where
  "io_write_all p bytes s =
     (let old = (case fs_files s p of Some c \<Rightarrow> c | None \<Rightarrow> []) in
      case next_fault s of
        Some f \<Rightarrow> (Inl (ft_error f), set_file p (Some (old @ take (ft_written f) bytes)) (after_call s))
      | None \<Rightarrow> (Inr (), set_file p (Some (old @ bytes)) (after_call s)))"

text \<open>\<open>fs::write\<close> truncates the file, then writes: both steps can fail.\<close>

definition io_write :: "ustring \<Rightarrow> u8 list \<Rightarrow> unit io" where
  "io_write p bytes s =
     (case io_create p s of (Inl e, s') \<Rightarrow> (Inl e, s') | (Inr _, s') \<Rightarrow> io_write_all p bytes s')"

text \<open>\<open>fs::rename\<close> is atomic: it fails without an effect.\<close>

definition io_rename :: "ustring \<Rightarrow> ustring \<Rightarrow> unit io" where
  "io_rename p q s =
     (case next_fault s of
        Some f \<Rightarrow> (Inl (ft_error f), after_call s)
      | None \<Rightarrow>
          (case fs_files s p of
             None \<Rightarrow> (Inl not_found, after_call s)
           | Some c \<Rightarrow> (Inr (), set_file q (Some c) (set_file p None (after_call s)))))"

definition io_remove :: "ustring \<Rightarrow> unit io" where
  "io_remove p s =
     (case next_fault s of
        Some f \<Rightarrow> (Inl (ft_error f), after_call s)
      | None \<Rightarrow>
          (case fs_files s p of
             None \<Rightarrow> (Inl not_found, after_call s)
           | Some _ \<Rightarrow> (Inr (), set_file p None (after_call s))))"

section \<open>Runs\<close>

text \<open>\<open>map_err\<close> with the conversion of the call site, and the \<open>?\<close> operator, over any state.\<close>

definition on_err :: "(io_error \<Rightarrow> rdt_error) \<Rightarrow> 'a io \<Rightarrow> 'a run" where
  "on_err f call s = (case call s of (Inl e, s') \<Rightarrow> (Inl (f e), s') | (Inr x, s') \<Rightarrow> (Inr x, s'))"

definition run_then :: "('s \<Rightarrow> 'a rdt_result \<times> 's) \<Rightarrow> ('a \<Rightarrow> 's \<Rightarrow> 'b rdt_result \<times> 's) \<Rightarrow> 's \<Rightarrow> 'b rdt_result \<times> 's" where
  "run_then r g s = (case r s of (Inl e, s') \<Rightarrow> (Inl e, s') | (Inr x, s') \<Rightarrow> g x s')"

text \<open>\<open>let _ = call;\<close>\<close>

definition run_ignore :: "'a io \<Rightarrow> fs \<Rightarrow> fs" where
  "run_ignore call s = snd (call s)"

definition pure_run :: "'a rdt_result \<Rightarrow> 's \<Rightarrow> 'a rdt_result \<times> 's" where
  "pure_run r s = (r, s)"

text \<open>\<open>RdtError::from\<close> on an I/O error, and errors that prefix what was attempted.\<close>

definition from_io :: "io_error \<Rightarrow> rdt_error" where
  "from_io e = error_of_io (fst e) (snd e)"

definition with_what :: "error_code \<Rightarrow> ustring \<Rightarrow> io_error \<Rightarrow> rdt_error" where
  "with_what code what e = error_new code (what @ lit '': '' @ snd e)"

definition plain_err :: "error_code \<Rightarrow> io_error \<Rightarrow> rdt_error" where
  "plain_err code e = error_new code (snd e)"

text \<open>\<open>read_to_string\<close>: bytes that are not UTF-8 are an error of an other kind.\<close>

definition io_read_string :: "ustring \<Rightarrow> ustring io" where
  "io_read_string p s =
     (case io_read p s of
        (Inl e, s') \<Rightarrow> (Inl e, s')
      | (Inr bytes, s') \<Rightarrow>
          ((case from_utf8 bytes of
              Some t \<Rightarrow> Inr t
            | None \<Rightarrow> Inl (IoOther, lit ''stream did not contain valid UTF-8'')), s'))"

section \<open>Paths\<close>

definition path_split :: "ustring \<Rightarrow> ustring \<times> ustring" where
  "path_split p = (case rsplit_once 47 p of Some (d, f) \<Rightarrow> (d @ [47], f) | None \<Rightarrow> ([], p))"

text \<open>\<open>Path::with_extension\<close> on a path that names a file: the part of the name after its last
  dot is replaced, unless that dot begins the name.\<close>

definition with_extension :: "ustring \<Rightarrow> ustring \<Rightarrow> ustring" where
  "with_extension ext p =
     (let (d, f) = path_split p;
          stem = (case rsplit_once 46 f of Some (a, b) \<Rightarrow> if a = [] then f else a | None \<Rightarrow> f)
      in d @ stem @ [46] @ ext)"

definition path_join :: "ustring \<Rightarrow> ustring \<Rightarrow> ustring" where
  "path_join d f = (if starts_with [47] f then f else if d = [] \<or> last d = 47 then d @ f else d @ [47] @ f)"

section \<open>What the calls change\<close>

lemma after_call_files [simp]: "fs_files (after_call s) = fs_files s"
  by (simp add: after_call_def)

lemma set_file_files [simp]: "fs_files (set_file p c s) = (fs_files s)(p := c)"
  by (simp add: set_file_def)

lemma io_touch_files [simp]: "fs_files (snd (io_touch s)) = fs_files s"
  by (simp add: io_touch_def)

lemma io_read_files [simp]: "fs_files (snd (io_read p s)) = fs_files s"
  by (simp add: io_read_def)

lemma io_read_Inr: "io_read p s = (Inr c, s') \<Longrightarrow> fs_files s p = Some c \<and> fs_files s' = fs_files s"
  by (auto simp: io_read_def split: option.splits)

lemma io_read_string_files [simp]: "fs_files (snd (io_read_string p s)) = fs_files s"
  using io_read_files [of p s] by (auto simp: io_read_string_def simp del: io_read_files split: prod.split sum.split)

text \<open>A run that changes no file outside a set of paths.\<close>

definition touches :: "ustring set \<Rightarrow> 'a run \<Rightarrow> bool" where
  "touches P r \<longleftrightarrow> (\<forall>s. \<forall>p. p \<notin> P \<longrightarrow> fs_files (snd (r s)) p = fs_files s p)"

lemma touchesD: "touches P r \<Longrightarrow> r s = (x, s') \<Longrightarrow> p \<notin> P \<Longrightarrow> fs_files s' p = fs_files s p"
  unfolding touches_def by (metis snd_conv)

lemma touches_mono: "touches P r \<Longrightarrow> P \<subseteq> Q \<Longrightarrow> touches Q r"
  by (auto simp: touches_def)

lemma touches_on_err:
  "(\<And>s p. p \<notin> P \<Longrightarrow> fs_files (snd (call s)) p = fs_files s p) \<Longrightarrow> touches P (on_err f call)"
  unfolding touches_def on_err_def by (auto split: prod.splits sum.splits) (metis snd_conv)+

lemma touches_then [touch_intros]:
  assumes "touches P r" and "\<And>x. touches P (g x)"
  shows "touches P (run_then r g)"
  unfolding touches_def
proof (intro allI impI)
  fix s p
  assume p: "p \<notin> P"
  obtain x s1 where r: "r s = (x, s1)" by fastforce
  then have s1: "fs_files s1 p = fs_files s p" using assms(1) p by (rule_tac touchesD)
  show "fs_files (snd (run_then r g s)) p = fs_files s p"
  proof (cases x)
    case (Inl e)
    with r s1 show ?thesis by (simp add: run_then_def)
  next
    case (Inr y)
    obtain z s2 where g: "g y s1 = (z, s2)" by fastforce
    from touchesD [OF assms(2) this p] s1 r Inr g show ?thesis by (simp add: run_then_def)
  qed
qed

lemma touches_pure [touch_intros]: "touches P (pure_run x)"
  by (simp add: touches_def pure_run_def)

lemma touches_calls [touch_intros]:
  "touches P (on_err f io_touch)"
  "p \<in> P \<Longrightarrow> touches P (on_err f (io_create p))"
  "p \<in> P \<Longrightarrow> touches P (on_err f (io_write_all p b))"
  "p \<in> P \<Longrightarrow> q \<in> P \<Longrightarrow> touches P (on_err f (io_rename p q))"
  "p \<in> P \<Longrightarrow> touches P (on_err f (io_remove p))"
  "touches P (on_err f (io_read p))"
  "p \<in> P \<Longrightarrow> touches P (on_err f (io_write p b))"
  by (rule touches_on_err; auto simp: io_write_def io_create_def io_write_all_def io_rename_def io_remove_def Let_def
        split: option.split)+

lemma run_then_Inr:
  "run_then r g s = (Inr y, s') \<longleftrightarrow> (\<exists>x s1. r s = (Inr x, s1) \<and> g x s1 = (Inr y, s'))"
  by (auto simp: run_then_def split: prod.splits sum.splits)

lemma run_then_Inl:
  "run_then r g s = (Inl e, s') \<longleftrightarrow>
     r s = (Inl e, s') \<or> (\<exists>x s1. r s = (Inr x, s1) \<and> g x s1 = (Inl e, s'))"
  by (auto simp: run_then_def split: prod.splits sum.splits)

text \<open>A partial correctness triple: what holds of the files when the run succeeds.\<close>

definition yields :: "(fs \<Rightarrow> bool) \<Rightarrow> 'a run \<Rightarrow> (fs \<Rightarrow> bool) \<Rightarrow> bool" where
  "yields P r Q \<longleftrightarrow> (\<forall>s x s'. P s \<longrightarrow> r s = (Inr x, s') \<longrightarrow> Q s')"

lemma yieldsD: "yields P r Q \<Longrightarrow> P s \<Longrightarrow> r s = (Inr x, s') \<Longrightarrow> Q s'"
  by (auto simp: yields_def)

lemma yields_then [yields_intros]:
  "yields P r Q \<Longrightarrow> (\<And>x. yields Q (g x) R) \<Longrightarrow> yields P (run_then r g) R"
  by (fastforce simp: yields_def run_then_Inr)

lemma yields_calls [yields_intros]:
  "yields (\<lambda>s. fs_files s p = v) (on_err f io_touch) (\<lambda>s. fs_files s p = v)"
  "yields (\<lambda>s. True) (on_err f (io_create p)) (\<lambda>s. fs_files s p = Some [])"
  "yields (\<lambda>s. fs_files s p = Some c) (on_err f (io_write_all p b)) (\<lambda>s. fs_files s p = Some (c @ b))"
  "yields (\<lambda>s. True) (on_err f (io_write p b)) (\<lambda>s. fs_files s p = Some b)"
  by (auto simp: yields_def on_err_def io_write_def io_touch_def io_create_def io_write_all_def Let_def
      split: prod.splits sum.splits option.splits)

lemma yields_skip: "yields (\<lambda>s. True) r (\<lambda>s. True)"
  by (simp add: yields_def)

lemma rename_Inr:
  "on_err f (io_rename p q) s = (Inr x, s') \<Longrightarrow>
     \<exists>c. fs_files s p = Some c \<and> fs_files s' = (fs_files s)(p := None, q \<mapsto> c)"
  by (auto simp: on_err_def io_rename_def split: prod.splits sum.splits option.splits)

lemma rename_Inl: "on_err f (io_rename p q) s = (Inl e, s') \<Longrightarrow> fs_files s' = fs_files s"
  by (auto simp: on_err_def io_rename_def split: prod.splits sum.splits option.splits)

lemma run_then_assoc: "run_then (run_then r g) h = run_then r (\<lambda>x. run_then (g x) h)"
  by (rule ext) (auto simp: run_then_def split: prod.split sum.split)

text \<open>Preparing a temporary file and renaming it over the target.\<close>

lemma replace_by_rename:
  assumes "touches {tmp} prepare" and "yields (\<lambda>s. True) prepare (\<lambda>s. fs_files s tmp = Some c)"
    and "tmp \<noteq> path" and "run_then prepare (\<lambda>_. on_err f (io_rename tmp path)) s = (r, s')"
  shows "(\<forall>x. r = Inr x \<longrightarrow> fs_files s' = (fs_files s)(tmp := None, path \<mapsto> c))
     \<and> (\<forall>e. r = Inl e \<longrightarrow> (\<forall>p. p \<noteq> tmp \<longrightarrow> fs_files s' p = fs_files s p))"
proof (cases r)
  case (Inl e)
  with assms(4) consider "prepare s = (Inl e, s')"
    | x s1 where "prepare s = (Inr x, s1)" "on_err f (io_rename tmp path) s1 = (Inl e, s')"
    by (auto simp: run_then_Inl)
  then show ?thesis
  proof cases
    case 1
    from touchesD [OF assms(1) this] Inl show ?thesis by simp
  next
    case 2
    from touchesD [OF assms(1) 2(1)] rename_Inl [OF 2(2)] Inl show ?thesis by simp
  qed
next
  case (Inr y)
  with assms(4) obtain x s1 where 1: "prepare s = (Inr x, s1)"
    and 2: "on_err f (io_rename tmp path) s1 = (Inr y, s')" by (auto simp: run_then_Inr)
  have "fs_files s1 tmp = Some c" using yieldsD [OF assms(2) _ 1] by simp
  with rename_Inr [OF 2] have "fs_files s' = (fs_files s1)(tmp := None, path \<mapsto> c)" by simp
  with touchesD [OF assms(1) 1] Inr show ?thesis by auto
qed

section \<open>Replacing a file\<close>

text \<open>
  The contract of a save operation that replaces a file as a whole: when it reports success the
  file holds the encoding of what was saved, when it reports an error the file is as before. The
  client saves again and again, whatever fails.
\<close>

fun run_saves :: "('c \<Rightarrow> unit run) \<Rightarrow> 'c list \<Rightarrow> fs \<Rightarrow> fs \<times> 'c list" where
  "run_saves save [] s = (s, [])"
| "run_saves save (c # cs) s =
     (case save c s of
        (Inr _, s') \<Rightarrow> (let (t, ok) = run_saves save cs s' in (t, c # ok))
      | (Inl _, s') \<Rightarrow> run_saves save cs s')"

locale atomic_save =
  fixes save :: "'c \<Rightarrow> unit run"
    and path :: ustring
    and encode :: "'c \<Rightarrow> u8 list"
    and admissible :: "'c \<Rightarrow> bool"
  assumes saved: "admissible c \<Longrightarrow> save c s = (Inr x, s') \<Longrightarrow> fs_files s' path = Some (encode c)"
    and kept: "admissible c \<Longrightarrow> save c s = (Inl e, s') \<Longrightarrow> fs_files s' path = fs_files s path"
begin

text \<open>The file always holds the last save that reported success.\<close>

lemma run_saves_last:
  "\<forall>c \<in> set cs. admissible c \<Longrightarrow> run_saves save cs s = (t, ok) \<Longrightarrow>
     fs_files t path = (if ok = [] then fs_files s path else Some (encode (last ok)))"
proof (induction cs arbitrary: s t ok)
  case (Cons c cs)
  obtain r s1 where c: "save c s = (r, s1)" by fastforce
  show ?case
  proof (cases r)
    case (Inl e)
    with Cons c kept show ?thesis by auto
  next
    case (Inr u)
    obtain t' d where d: "run_saves save cs s1 = (t', d)" by fastforce
    from Cons.IH [OF _ d] Cons.prems(1) saved c Inr have "fs_files t' path = Some (encode (last (c # d)))" by auto
    with Cons.prems c Inr d show ?thesis by auto
  qed
qed simp

end

end
