(* ===== verification/Rdt_Config.thy ===== *)
theory Rdt_Config
  imports Rust_Io Rdt_Proto Rdt_Ids "HOL-Library.List_Lexorder" "HOL-Library.Product_Lexorder"
begin

text \<open>
  The configuration, \<open>crates/rdt-config/src\<close>: \<open>settings.rs\<close>, \<open>profile.rs\<close>, \<open>migrate.rs\<close> and
  \<open>store.rs\<close>. The TOML library is the parameter \<open>toml\<close>, over an unknown type of values; the
  \<open>Debug\<close> rendering of a string in messages is the parameter \<open>dbg\<close>. Paths are texts. A method of
  the store takes the store and returns it with the result; the locks of the original only
  serialise the methods. Font sizes are rationals. The order of strings is that of their
  characters, which is the order of their UTF-8 bytes.
\<close>

section \<open>Settings\<close>

definition current_schema_version :: u32 where
  "current_schema_version = 1"

datatype theme = System | Light | Dark

datatype log_level = LlError | LlWarn | LlInfo | LlDebug | LlTrace

definition as_filter :: "log_level \<Rightarrow> string" where
  "as_filter l =
     (case l of LlError \<Rightarrow> ''error'' | LlWarn \<Rightarrow> ''warn'' | LlInfo \<Rightarrow> ''info''
      | LlDebug \<Rightarrow> ''debug'' | LlTrace \<Rightarrow> ''trace'')"

record ui_settings =
  us_theme :: theme
  us_scale_percent :: u16
  us_show_status_bar :: bool
  us_start_page :: ustring
  us_confirm_disconnect :: bool
  us_wrap_logs :: bool

definition ui_settings_default :: ui_settings where
  "ui_settings_default =
     \<lparr>us_theme = System, us_scale_percent = 100, us_show_status_bar = True,
      us_start_page = lit ''dashboard'', us_confirm_disconnect = True, us_wrap_logs = False\<rparr>"

record security_settings =
  sec_remote_to_local :: bool
  sec_local_to_remote :: bool
  sec_redact_logs :: bool
  sec_vault_lock_minutes :: u32
  sec_revoke_agent :: bool

definition security_settings_default :: security_settings where
  "security_settings_default =
     \<lparr>sec_remote_to_local = True, sec_local_to_remote = True, sec_redact_logs = True,
      sec_vault_lock_minutes = 15, sec_revoke_agent = True\<rparr>"

record session_settings =
  ses_max_concurrent :: nat
  ses_keep_alive :: bool
  ses_audit :: bool
  ses_retention_days :: u32

definition session_settings_default :: session_settings where
  "session_settings_default =
     \<lparr>ses_max_concurrent = 16, ses_keep_alive = True, ses_audit = True, ses_retention_days = 90\<rparr>"

record settings =
  st_ui :: ui_settings
  st_security :: security_settings
  st_session :: session_settings
  st_terminal :: terminal_options
  st_log_level :: log_level
  st_log_max_mib :: u32
  st_log_keep :: nat

definition settings_default :: settings where
  "settings_default =
     \<lparr>st_ui = ui_settings_default, st_security = security_settings_default,
      st_session = session_settings_default, st_terminal = terminal_options_default,
      st_log_level = LlInfo, st_log_max_mib = 16, st_log_keep = 5\<rparr>"

section \<open>Profiles\<close>

record profile =
  cp_id :: rdt_id
  cp_name :: ustring
  cp_group :: "ustring option"
  cp_endpoint :: endpoint
  cp_protocol :: protocol
  cp_auth :: auth_method
  cp_jump_host :: "endpoint option"
  cp_ssh :: ssh_options
  cp_rdp :: rdp_options
  cp_notes :: ustring
  cp_tags :: "ustring list"
  cp_connect_on_startup :: bool
  cp_sort_index :: u32

definition profile_new :: "rdt_id \<Rightarrow> ustring \<Rightarrow> ustring \<Rightarrow> u16 \<Rightarrow> protocol \<Rightarrow> profile" where
  "profile_new i name host port proto =
     \<lparr>cp_id = i, cp_name = name, cp_group = None, cp_endpoint = \<lparr>ep_host = host, ep_port = port\<rparr>,
      cp_protocol = proto, cp_auth = auth_method_default, cp_jump_host = None,
      cp_ssh = ssh_options_default, cp_rdp = rdp_options_default, cp_notes = [], cp_tags = [],
      cp_connect_on_startup = False, cp_sort_index = 0\<rparr>"

definition profile_address :: "profile \<Rightarrow> ustring" where
  "profile_address p =
     ep_host (cp_endpoint p) @ [58] @ show_nat (unat (ep_port (cp_endpoint p)))"

definition profile_default_port :: "protocol \<Rightarrow> u16" where
  "profile_default_port proto = (case proto of Ssh \<Rightarrow> 22 | Rdp \<Rightarrow> 3389)"

definition profile_validate :: "profile \<Rightarrow> unit rdt_result" where
  "profile_validate p =
     (let host = ep_host (cp_endpoint p) in
      if trim (cp_name p) = [] then fail EConfig (lit ''profile name must not be empty'')
      else if str_len (cp_name p) > 120 then
        fail EConfig (lit ''profile name is longer than 120 characters'')
      else if trim host = [] then fail EConfig (lit ''host must not be empty'')
      else if ep_port (cp_endpoint p) = 0 then fail EConfig (lit ''port must not be zero'')
      else if list_ex is_whitespace host then fail EConfig (lit ''host must not contain whitespace'')
      else if list_ex (\<lambda>tag. trim tag = []) (cp_tags p) then fail EConfig (lit ''tags must not be empty'')
      else if so_host_key_policy (cp_ssh p) \<noteq> Strict
           \<and> auto_accepts_unknown (so_host_key_policy (cp_ssh p)) then
        fail EConfig (lit ''host key policy must not auto-accept unknown keys'')
      else if ro_cert_policy (cp_rdp p) \<notin> {Verify, VerifyOrPinned, TrustOnFirstUse} then
        fail EConfig (lit ''certificate policy must verify the server certificate'')
      else Inr ())"

definition profile_is_valid :: "profile \<Rightarrow> bool" where
  "profile_is_valid p \<longleftrightarrow> profile_validate p = Inr ()"

section \<open>Documents and their migration\<close>

record config =
  cf_version :: u32
  cf_settings :: settings
  cf_profiles :: "profile list"

definition config_default :: config where
  "config_default =
     \<lparr>cf_version = current_schema_version, cf_settings = settings_default, cf_profiles = []\<rparr>"

text \<open>
  The TOML library: the version of a document, if it has one; a document as a value, the value
  with the version field set (if it is a table), and the value as a document; a document as a
  configuration and back. Errors are texts.
\<close>

record 'v toml =
  tm_version :: "ustring \<Rightarrow> u32 option"
  tm_value :: "ustring \<Rightarrow> ustring + 'v"
  tm_stamp :: "u32 \<Rightarrow> 'v \<Rightarrow> 'v"
  tm_print :: "'v \<Rightarrow> ustring + ustring"
  tm_decode :: "ustring \<Rightarrow> ustring + config"
  tm_encode :: "config \<Rightarrow> ustring + ustring"

definition document_version :: "'v toml \<Rightarrow> ustring \<Rightarrow> u32" where
  "document_version tm txt = (case tm_version tm txt of Some v \<Rightarrow> v | None \<Rightarrow> 0)"

definition migrate :: "'v toml \<Rightarrow> ustring \<Rightarrow> ustring rdt_result" where
  "migrate tm txt =
     (let version = document_version tm txt in
      if version = current_schema_version then Inr txt
      else if version > current_schema_version then
        fail EUnsupported (lit ''configuration was written by schema version '' @ show_nat (unat version)
          @ lit ''; this build understands up to '' @ show_nat (unat current_schema_version))
      else
        (case tm_value tm txt of
           Inl err \<Rightarrow> fail EConfig (lit ''cannot parse configuration: '' @ err)
         | Inr value \<Rightarrow>
             (case tm_print tm (tm_stamp tm current_schema_version value) of
                Inl err \<Rightarrow> fail EConfig (lit ''cannot re-encode configuration: '' @ err)
              | Inr out \<Rightarrow> Inr out)))"

section \<open>The store\<close>

datatype sort_order = Manual | ByName | ByGroup | RecentlyUsed

datatype load_error = Missing | LoadFailed rdt_error

definition load_error_display :: "load_error \<Rightarrow> ustring" where
  "load_error_display e =
     (case e of Missing \<Rightarrow> lit ''no configuration file yet'' | LoadFailed err \<Rightarrow> error_display err)"

record config_store =
  cs_path :: ustring
  cs_config :: config
  cs_dirty :: bool

definition in_memory :: config_store where
  "in_memory = \<lparr>cs_path = [], cs_config = config_default, cs_dirty = False\<rparr>"

definition config_load :: "'v toml \<Rightarrow> ustring \<Rightarrow> fs \<Rightarrow> (load_error + config_store) \<times> fs" where
  "config_load tm path s =
     (case io_read_string path s of
        (Inl (kind, msg), s') \<Rightarrow>
          (if kind = IoNotFound then
             Inr \<lparr>cs_path = path, cs_config = config_default, cs_dirty = True\<rparr>
           else Inl (LoadFailed (error_new EConfig msg)), s')
      | (Inr txt, s') \<Rightarrow>
          (case migrate tm txt of
             Inl e \<Rightarrow> Inl (LoadFailed e)
           | Inr migrated \<Rightarrow>
               (case tm_decode tm migrated of
                  Inl err \<Rightarrow> Inl (LoadFailed (error_new EConfig (lit ''cannot parse configuration: '' @ err)))
                | Inr config \<Rightarrow> Inr \<lparr>cs_path = path, cs_config = config, cs_dirty = False\<rparr>), s'))"

abbreviation cs_profiles :: "config_store \<Rightarrow> profile list" where
  "cs_profiles st \<equiv> cf_profiles (cs_config st)"

text \<open>Writing the profile list marks the store dirty.\<close>

definition set_profiles :: "profile list \<Rightarrow> config_store \<Rightarrow> config_store" where
  "set_profiles ps st = st\<lparr>cs_config := (cs_config st)\<lparr>cf_profiles := ps\<rparr>, cs_dirty := True\<rparr>"

definition set_settings :: "settings \<Rightarrow> config_store \<Rightarrow> config_store" where
  "set_settings x st = st\<lparr>cs_config := (cs_config st)\<lparr>cf_settings := x\<rparr>, cs_dirty := True\<rparr>"

definition profiles_in :: "unicode \<Rightarrow> sort_order \<Rightarrow> config_store \<Rightarrow> profile list" where
  "profiles_in u order st =
     (case order of
        Manual \<Rightarrow> sort_key (\<lambda>p. (cp_sort_index p, cp_name p)) (cs_profiles st)
      | ByName \<Rightarrow> sort_key (\<lambda>p. str_lower u (cp_name p)) (cs_profiles st)
      | ByGroup \<Rightarrow>
          sort_key (\<lambda>p. (case cp_group p of Some g \<Rightarrow> g | None \<Rightarrow> [], str_lower u (cp_name p)))
            (cs_profiles st)
      | RecentlyUsed \<Rightarrow> sort_key (\<lambda>p. str_lower u (cp_name p)) (cs_profiles st))"

definition find_profile :: "rdt_id \<Rightarrow> config_store \<Rightarrow> profile option" where
  "find_profile i st = find (\<lambda>p. cp_id p = i) (cs_profiles st)"

definition find_by_name :: "ustring \<Rightarrow> config_store \<Rightarrow> profile option" where
  "find_by_name name st = find (\<lambda>p. eq_ignore_ascii_case (cp_name p) name) (cs_profiles st)"

definition name_taken :: "(ustring \<Rightarrow> ustring) \<Rightarrow> profile \<Rightarrow> 'a rdt_result" where
  "name_taken dbg p = fail EConfig (lit ''a profile named '' @ dbg (cp_name p) @ lit '' already exists'')"

definition add_profile ::
  "(ustring \<Rightarrow> ustring) \<Rightarrow> profile \<Rightarrow> config_store \<Rightarrow> rdt_id rdt_result \<times> config_store" where
  "add_profile dbg p st =
     (case profile_validate p of
        Inl e \<Rightarrow> (Inl e, st)
      | Inr _ \<Rightarrow>
          if list_ex (\<lambda>x. eq_ignore_ascii_case (cp_name x) (cp_name p)) (cs_profiles st) then
            (name_taken dbg p, st)
          else (Inr (cp_id p), set_profiles (cs_profiles st @ [p]) st))"

fun position :: "('a \<Rightarrow> bool) \<Rightarrow> 'a list \<Rightarrow> nat option" where
  "position P [] = None"
| "position P (x # xs) = (if P x then Some 0 else map_option Suc (position P xs))"

definition update_profile ::
  "(ustring \<Rightarrow> ustring) \<Rightarrow> profile \<Rightarrow> config_store \<Rightarrow> unit rdt_result \<times> config_store" where
  "update_profile dbg p st =
     (case profile_validate p of
        Inl e \<Rightarrow> (Inl e, st)
      | Inr _ \<Rightarrow>
          (case position (\<lambda>x. cp_id x = cp_id p) (cs_profiles st) of
             None \<Rightarrow> (fail ENotFound (lit ''no profile with that identifier''), st)
           | Some index \<Rightarrow>
               if list_ex (\<lambda>(k, x). k \<noteq> index \<and> eq_ignore_ascii_case (cp_name x) (cp_name p))
                    (enumerate 0 (cs_profiles st)) then
                 (name_taken dbg p, st)
               else (Inr (), set_profiles ((cs_profiles st)[index := p]) st)))"

definition remove_profile :: "rdt_id \<Rightarrow> config_store \<Rightarrow> unit rdt_result \<times> config_store" where
  "remove_profile i st =
     (let kept = filter (\<lambda>p. cp_id p \<noteq> i) (cs_profiles st) in
      if length kept = length (cs_profiles st) then
        (fail ENotFound (lit ''no profile with that identifier''), st)
      else (Inr (), set_profiles kept st))"

definition to_toml :: "'v toml \<Rightarrow> config_store \<Rightarrow> ustring rdt_result" where
  "to_toml tm st =
     (case tm_encode tm (cs_config st) of
        Inl err \<Rightarrow> fail EConfig (lit ''cannot encode configuration: '' @ err)
      | Inr txt \<Rightarrow> Inr txt)"

text \<open>The temporary name is the path with the extension \<open>tmp\<close>; its parent is created first.\<close>

definition atomic_write :: "ustring \<Rightarrow> u8 list \<Rightarrow> unit run" where
  "atomic_write path contents =
     (let tmp = with_extension (lit ''tmp'') path in
      run_then (on_err (with_what EIo (lit ''cannot create directory'')) io_touch) (\<lambda>_.
      run_then (on_err (with_what EIo (lit ''cannot create file'')) (io_create tmp)) (\<lambda>_.
      run_then (on_err (plain_err EPermission) io_touch) (\<lambda>_.
      run_then (on_err (with_what EIo (lit ''cannot write file'')) (io_write_all tmp contents)) (\<lambda>_.
      run_then (on_err (with_what EIo (lit ''cannot flush file'')) io_touch) (\<lambda>_.
      on_err (with_what EIo (lit ''cannot replace file'')) (io_rename tmp path)))))))"

definition config_save :: "'v toml \<Rightarrow> config_store \<Rightarrow> fs \<Rightarrow> (unit rdt_result \<times> config_store) \<times> fs" where
  "config_save tm st s =
     (if cs_path st = [] then ((fail EConfig (lit ''the store is not attached to a file''), st), s)
      else
        (case to_toml tm st of
           Inl e \<Rightarrow> ((Inl e, st), s)
         | Inr txt \<Rightarrow>
             (case atomic_write (cs_path st) (as_bytes txt) s of
                (Inl e, s') \<Rightarrow> ((Inl e, st), s')
              | (Inr _, s') \<Rightarrow> ((Inr (), st\<lparr>cs_dirty := False\<rparr>), s'))))"

definition config_reload ::
  "'v toml \<Rightarrow> config_store \<Rightarrow> fs \<Rightarrow> ((load_error + unit) \<times> config_store) \<times> fs" where
  "config_reload tm st s =
     (case config_load tm (cs_path st) s of
        (Inl e, s') \<Rightarrow> ((Inl e, st), s')
      | (Inr new, s') \<Rightarrow> ((Inr (), st\<lparr>cs_config := cs_config new, cs_dirty := False\<rparr>), s'))"

end
