(* ===== verification/Rdt_Config_Props.thy ===== *)
theory Rdt_Config_Props
  imports Rdt_Config
begin

text \<open>
  What the configuration store promises: the invariant of the profile list over every sequence
  of edits, the list as a map from identifiers, the orders of the list, and saving to a file that
  is replaced as a whole.
\<close>

section \<open>The invariant of the profile list\<close>

definition names_unique :: "profile list \<Rightarrow> bool" where
  "names_unique ps \<longleftrightarrow> distinct (map (to_ascii_lowercase \<circ> cp_name) ps)"

definition store_inv :: "config_store \<Rightarrow> bool" where
  "store_inv st \<longleftrightarrow> names_unique (cs_profiles st) \<and> list_all profile_is_valid (cs_profiles st)"

lemma set_profiles_fields [simp]:
  "cs_profiles (set_profiles ps st) = ps" "cs_path (set_profiles ps st) = cs_path st"
  "cs_dirty (set_profiles ps st)" "cf_settings (cs_config (set_profiles ps st)) = cf_settings (cs_config st)"
  by (simp_all add: set_profiles_def)

lemma add_profile_cases:
  "add_profile dbg p st = (r, st') \<Longrightarrow>
     (\<exists>e. r = Inl e \<and> st' = st)
     \<or> r = Inr (cp_id p) \<and> st' = set_profiles (cs_profiles st @ [p]) st \<and> profile_is_valid p
       \<and> (\<forall>x \<in> set (cs_profiles st). \<not> eq_ignore_ascii_case (cp_name x) (cp_name p))"
  by (cases "profile_validate p") (auto simp: add_profile_def name_taken_def fail_def profile_is_valid_def list_ex_iff
      split: if_splits)

lemma position_Some:
  "position P xs = Some k \<longleftrightarrow> k < length xs \<and> P (xs ! k) \<and> (\<forall>j < k. \<not> P (xs ! j))"
proof (induction xs arbitrary: k)
  case (Cons x xs)
  then show ?case by (cases k) (auto simp: less_Suc_eq_0_disj)
qed simp

lemma position_None: "position P xs = None \<longleftrightarrow> (\<forall>x \<in> set xs. \<not> P x)"
  by (induction xs) auto

lemma update_profile_cases:
  "update_profile dbg p st = (r, st') \<Longrightarrow>
     (\<exists>e. r = Inl e \<and> st' = st)
     \<or> (\<exists>k. r = Inr () \<and> st' = set_profiles ((cs_profiles st)[k := p]) st \<and> profile_is_valid p
         \<and> position (\<lambda>x. cp_id x = cp_id p) (cs_profiles st) = Some k
         \<and> (\<forall>j < length (cs_profiles st). j \<noteq> k \<longrightarrow>
              \<not> eq_ignore_ascii_case (cp_name (cs_profiles st ! j)) (cp_name p)))"
proof (cases "profile_validate p")
  case (Inl e)
  moreover assume "update_profile dbg p st = (r, st')"
  ultimately have "r = Inl e" "st' = st" by (simp_all add: update_profile_def)
  then show ?thesis by blast
next
  case (Inr u)
  moreover assume "update_profile dbg p st = (r, st')"
  ultimately show ?thesis
    by (auto simp: update_profile_def name_taken_def fail_def profile_is_valid_def list_ex_iff
        in_set_enumerate_eq split: if_splits option.splits)
qed

lemma remove_profile_cases:
  "remove_profile i st = (r, st') \<Longrightarrow>
     (\<exists>e. r = Inl e \<and> st' = st \<and> (\<forall>p \<in> set (cs_profiles st). cp_id p \<noteq> i))
     \<or> r = Inr () \<and> st' = set_profiles (filter (\<lambda>p. cp_id p \<noteq> i) (cs_profiles st)) st"
  using length_filter_less [of _ "cs_profiles st" "\<lambda>p. cp_id p \<noteq> i"]
  by (fastforce simp: remove_profile_def fail_def Let_def split: if_splits)

lemma eq_ignore_iff: "eq_ignore_ascii_case a b \<longleftrightarrow> to_ascii_lowercase a = to_ascii_lowercase b"
  by (simp add: eq_ignore_ascii_case_def)

lemma names_unique_snoc:
  "names_unique ps \<Longrightarrow> (\<And>x. x \<in> set ps \<Longrightarrow> \<not> eq_ignore_ascii_case (cp_name x) (cp_name p)) \<Longrightarrow>
     names_unique (ps @ [p])"
  by (force simp: names_unique_def eq_ignore_iff)

lemma names_unique_update:
  assumes "names_unique ps" and "k < length ps"
    and "\<And>j. j < length ps \<Longrightarrow> j \<noteq> k \<Longrightarrow> \<not> eq_ignore_ascii_case (cp_name (ps ! j)) (cp_name p)"
  shows "names_unique (ps[k := p])"
  unfolding names_unique_def distinct_conv_nth
proof (intro allI impI)
  fix i j
  assume *: "i < length (map (to_ascii_lowercase \<circ> cp_name) (ps[k := p]))"
    "j < length (map (to_ascii_lowercase \<circ> cp_name) (ps[k := p]))" "i \<noteq> j"
  then show "map (to_ascii_lowercase \<circ> cp_name) (ps[k := p]) ! i
      \<noteq> map (to_ascii_lowercase \<circ> cp_name) (ps[k := p]) ! j"
    using assms(1) assms(3) [of i] assms(3) [of j]
    by (cases "i = k"; cases "j = k") (auto simp: names_unique_def distinct_conv_nth eq_ignore_iff)
qed

lemma names_unique_filter: "names_unique ps \<Longrightarrow> names_unique (filter P ps)"
  unfolding names_unique_def by (rule distinct_map_filter)

section \<open>Edits\<close>

inductive cstep :: "config_store \<Rightarrow> config_store \<Rightarrow> bool" where
  step_settings: "cstep st (set_settings x st)"
| step_add: "add_profile dbg p st = (r, st') \<Longrightarrow> cstep st st'"
| step_update: "update_profile dbg p st = (r, st') \<Longrightarrow> cstep st st'"
| step_remove: "remove_profile i st = (r, st') \<Longrightarrow> cstep st st'"

lemma cstep_inv: "cstep st st' \<Longrightarrow> store_inv st \<Longrightarrow> store_inv st'"
proof (induction rule: cstep.induct)
  case (step_settings st x)
  then show ?case by (simp add: store_inv_def set_settings_def)
next
  case (step_add dbg p st r st')
  from add_profile_cases [OF step_add.hyps] step_add.prems show ?case
    by (auto simp: store_inv_def intro!: names_unique_snoc)
next
  case (step_update dbg p st r st')
  from update_profile_cases [OF step_update.hyps] step_update.prems show ?case
    by (auto simp: store_inv_def position_Some list_all_iff intro!: names_unique_update
        dest!: set_update_subset_insert [THEN subsetD])
next
  case (step_remove i st r st')
  from remove_profile_cases [OF step_remove.hyps] step_remove.prems show ?case
    by (auto simp: store_inv_def list_all_iff intro!: names_unique_filter)
qed

lemma csteps_inv: "cstep\<^sup>*\<^sup>* st st' \<Longrightarrow> store_inv st \<Longrightarrow> store_inv st'"
  by (induction rule: rtranclp_induct) (auto intro: cstep_inv)

lemma in_memory_inv: "store_inv in_memory"
  by (simp add: store_inv_def in_memory_def config_default_def names_unique_def)

text \<open>A store is also replaced as a whole, by what a file holds. The second part of the state is the
  profile list that was read last; nothing checks it.\<close>

inductive store_step :: "'v toml \<Rightarrow> config_store \<times> profile list \<Rightarrow> config_store \<times> profile list \<Rightarrow> bool" for tm where
  store_edit: "cstep st st' \<Longrightarrow> store_step tm (st, base) (st', base)"
| store_save: "config_save tm st s = ((r, st'), s') \<Longrightarrow> store_step tm (st, base) (st', base)"
| store_load: "config_load tm path s = (Inr st', s') \<Longrightarrow> store_step tm (st, base) (st', cs_profiles st')"
| store_reload: "config_reload tm st s = ((Inr (), st'), s') \<Longrightarrow> store_step tm (st, base) (st', cs_profiles st')"
| store_kept: "config_reload tm st s = ((Inl e, st'), s') \<Longrightarrow> store_step tm (st, base) (st', base)"

definition clash_in :: "profile list \<Rightarrow> profile \<Rightarrow> profile \<Rightarrow> bool" where
  "clash_in base p q \<longleftrightarrow> (eq_ignore_ascii_case (cp_name p) (cp_name q) \<longrightarrow> p \<in> set base \<and> q \<in> set base)"

definition grown_from :: "profile list \<Rightarrow> profile list \<Rightarrow> bool" where
  "grown_from base ps \<longleftrightarrow> (\<forall>p \<in> set ps. profile_is_valid p \<or> p \<in> set base) \<and> sorted_wrt (clash_in base) ps"

lemma grown_from_self: "grown_from base base"
  by (auto simp: grown_from_def clash_in_def sorted_wrt_iff_nth_less)

lemma eq_ignore_sym: "eq_ignore_ascii_case a b \<longleftrightarrow> eq_ignore_ascii_case b a"
  by (auto simp: eq_ignore_iff)

lemma grown_from_update:
  assumes "grown_from base ps" and "profile_is_valid p"
    and "\<And>j. j < length ps \<Longrightarrow> j \<noteq> k \<Longrightarrow> \<not> eq_ignore_ascii_case (cp_name (ps ! j)) (cp_name p)"
  shows "grown_from base (ps[k := p])"
proof -
  have "clash_in base (ps[k := p] ! i) (ps[k := p] ! j)" if "i < j" "j < length ps" for i j
    using that assms(1) assms(3) [of i] assms(3) [of j]
    by (cases "i = k"; cases "j = k")
      (auto simp: grown_from_def sorted_wrt_iff_nth_less clash_in_def eq_ignore_sym [of "cp_name p"])
  moreover have "\<forall>q \<in> set (ps[k := p]). profile_is_valid q \<or> q \<in> set base"
    using assms(1,2) set_update_subset_insert [of ps k p] by (auto simp: grown_from_def)
  ultimately show ?thesis by (simp add: grown_from_def sorted_wrt_iff_nth_less)
qed

lemma cstep_grown: "cstep st st' \<Longrightarrow> grown_from base (cs_profiles st) \<Longrightarrow> grown_from base (cs_profiles st')"
proof (induction rule: cstep.induct)
  case (step_settings st x)
  then show ?case by (simp add: set_settings_def)
next
  case (step_add dbg p st r st')
  from add_profile_cases [OF step_add.hyps] step_add.prems show ?case
    by (auto simp: grown_from_def sorted_wrt_append clash_in_def)
next
  case (step_update dbg p st r st')
  from update_profile_cases [OF step_update.hyps] step_update.prems show ?case by (auto intro!: grown_from_update)
next
  case (step_remove i st r st')
  from remove_profile_cases [OF step_remove.hyps] step_remove.prems show ?case
    by (auto simp: grown_from_def intro: sorted_wrt_filter)
qed

lemma save_profiles: "config_save tm st s = ((r, st'), s') \<Longrightarrow> cs_config st' = cs_config st"
  by (auto simp: config_save_def split: if_splits sum.splits prod.splits)

lemma reload_kept: "config_reload tm st s = ((Inl e, st'), s') \<Longrightarrow> st' = st"
  by (auto simp: config_reload_def split: sum.splits prod.splits)

definition store_ok :: "config_store \<times> profile list \<Rightarrow> bool" where
  "store_ok = (\<lambda>(st, base). grown_from base (cs_profiles st)
     \<and> (names_unique base \<and> (\<forall>p \<in> set base. profile_is_valid p) \<longrightarrow> store_inv st))"

lemma store_step_ok: "store_step tm x y \<Longrightarrow> store_ok x \<Longrightarrow> store_ok y"
proof (induction rule: store_step.induct)
  case (store_edit st st' base)
  then show ?case using cstep_grown cstep_inv by (auto simp: store_ok_def)
next
  case (store_save st s r st' s' base)
  then show ?case using save_profiles [OF store_save.hyps] by (simp add: store_ok_def store_inv_def)
next
  case (store_load path s st' s' st base)
  then show ?case by (auto simp: store_ok_def grown_from_self store_inv_def list_all_iff)
next
  case (store_reload st s st' s' base)
  then show ?case by (auto simp: store_ok_def grown_from_self store_inv_def list_all_iff)
next
  case (store_kept st s e st' s' base)
  then show ?case using reload_kept [OF store_kept.hyps] by simp
qed

lemma store_steps_ok: "(store_step tm)\<^sup>*\<^sup>* x y \<Longrightarrow> store_ok x \<Longrightarrow> store_ok y"
  by (induction rule: rtranclp_induct) (auto intro: store_step_ok)

section \<open>Replacing the file\<close>

definition tmp_path :: "ustring \<Rightarrow> ustring" where
  "tmp_path path = with_extension (lit ''tmp'') path"

definition write_tmp :: "ustring \<Rightarrow> u8 list \<Rightarrow> unit run" where
  "write_tmp path contents =
     (let tmp = tmp_path path in
      run_then (on_err (with_what EIo (lit ''cannot create directory'')) io_touch) (\<lambda>_.
      run_then (on_err (with_what EIo (lit ''cannot create file'')) (io_create tmp)) (\<lambda>_.
      run_then (on_err (plain_err EPermission) io_touch) (\<lambda>_.
      run_then (on_err (with_what EIo (lit ''cannot write file'')) (io_write_all tmp contents)) (\<lambda>_.
      on_err (with_what EIo (lit ''cannot flush file'')) io_touch)))))"

lemma atomic_write_parts:
  "atomic_write path c = run_then (write_tmp path c)
     (\<lambda>_. on_err (with_what EIo (lit ''cannot replace file'')) (io_rename (tmp_path path) path))"
  by (simp add: atomic_write_def write_tmp_def tmp_path_def Let_def run_then_assoc)

lemma write_tmp_touches: "touches {tmp_path path} (write_tmp path c)"
  unfolding write_tmp_def Let_def by (intro touch_intros) simp_all

lemma write_tmp_yields: "yields (\<lambda>s. True) (write_tmp path c) (\<lambda>s. fs_files s (tmp_path path) = Some c)"
  unfolding write_tmp_def Let_def
  by (rule yields_then [OF yields_skip], rule yields_then [OF yields_calls(2)],
      rule yields_then [OF yields_calls(1)], rule yields_then [OF yields_calls(3)])
    (rule yields_calls(1) [where v = "Some c", simplified] | simp)+

lemma atomic_write_spec:
  assumes "tmp_path path \<noteq> path" and "atomic_write path c s = (r, s')"
  shows "(\<forall>x. r = Inr x \<longrightarrow> fs_files s' = (fs_files s)(tmp_path path := None, path \<mapsto> c))
     \<and> (\<forall>e. r = Inl e \<longrightarrow> (\<forall>p. p \<noteq> tmp_path path \<longrightarrow> fs_files s' p = fs_files s p))"
  by (rule replace_by_rename [OF write_tmp_touches write_tmp_yields assms(1)])
    (use assms(2) in \<open>simp add: atomic_write_parts\<close>)


text \<open>Saving a store attached to a file is an atomic save of that file.\<close>

definition save_store :: "'v toml \<Rightarrow> config_store \<Rightarrow> unit run" where
  "save_store tm st s = (fst (fst (config_save tm st s)), snd (config_save tm st s))"

definition store_bytes :: "'v toml \<Rightarrow> config_store \<Rightarrow> u8 list" where
  "store_bytes tm st = (case to_toml tm st of Inr txt \<Rightarrow> as_bytes txt | Inl _ \<Rightarrow> [])"

definition attached :: "ustring \<Rightarrow> config_store \<Rightarrow> bool" where
  "attached path st \<longleftrightarrow> cs_path st = path \<and> tmp_path path \<noteq> path"

lemma save_store_cases:
  assumes "attached path st" and "save_store tm st s = (r, s')"
  shows "(\<exists>e. r = Inl e \<and> s' = s) \<or> atomic_write path (store_bytes tm st) s = (r, s')"
  using assms
  by (auto simp: save_store_def config_save_def attached_def store_bytes_def to_toml_def fail_def
      split: if_splits sum.splits prod.splits)

interpretation cfg: atomic_save "save_store tm" path "store_bytes tm" "attached path" for tm path
proof
  fix c s x s' e
  assume a: "attached path c"
  then have ne: "tmp_path path \<noteq> path" by (simp add: attached_def)
  show "save_store tm c s = (Inr x, s') \<Longrightarrow> fs_files s' path = Some (store_bytes tm c)"
    using save_store_cases [OF a] atomic_write_spec [OF ne] by fastforce
  show "save_store tm c s = (Inl e, s') \<Longrightarrow> fs_files s' path = fs_files s path"
    using save_store_cases [OF a] atomic_write_spec [OF ne] ne by (metis Inl_inject)
qed

section \<open>Loading what was saved\<close>

text \<open>What is relied on of the TOML library: an encoded configuration decodes to itself and
  declares its version.\<close>

definition toml_law :: "'v toml \<Rightarrow> config \<Rightarrow> bool" where
  "toml_law tm c \<longleftrightarrow> (\<exists>txt. tm_encode tm c = Inr txt \<and> tm_decode tm txt = Inr c
     \<and> tm_version tm txt = Some (cf_version c) \<and> (\<forall>x \<in> set txt. is_scalar x))"

lemma load_after_save:
  assumes "toml_law tm (cs_config st)" and "cf_version (cs_config st) = current_schema_version"
    and "attached (cs_path st) st" and "config_save tm st s = ((Inr (), st'), s')" and "fs_faults s' = []"
  shows "fst (config_load tm (cs_path st) s') = Inr st'"
proof -
  obtain doc where doc: "tm_encode tm (cs_config st) = Inr doc" "tm_decode tm doc = Inr (cs_config st)"
    "tm_version tm doc = Some current_schema_version" "\<forall>x \<in> set doc. is_scalar x"
    using assms(1,2) by (auto simp: toml_law_def)
  have "save_store tm st s = (Inr (), s')" using assms(4) by (simp add: save_store_def)
  from cfg.saved [OF assms(3) this] have "fs_files s' (cs_path st) = Some (as_bytes doc)"
    by (simp add: store_bytes_def to_toml_def doc)
  then have "io_read_string (cs_path st) s' = (Inr doc, after_call s')"
    using assms(5) doc(4) by (simp add: io_read_string_def io_read_def from_utf8_as_bytes)
  moreover have "st' = st\<lparr>cs_dirty := False\<rparr>"
    using assms(4) by (auto simp: config_save_def fail_def split: if_splits sum.splits prod.splits)
  ultimately show ?thesis
    using doc by (simp add: config_load_def migrate_def document_version_def)
qed

section \<open>The list as a map\<close>

definition ids_unique :: "profile list \<Rightarrow> bool" where
  "ids_unique ps \<longleftrightarrow> distinct (map cp_id ps)"

definition profile_map :: "config_store \<Rightarrow> rdt_id \<Rightarrow> profile option" where
  "profile_map st i = find_profile i st"

lemma find_append: "find P (xs @ ys) = (case find P xs of Some x \<Rightarrow> Some x | None \<Rightarrow> find P ys)"
  by (induction xs) auto

lemma find_filter_other:
  "find (\<lambda>p. cp_id p = j) (filter (\<lambda>p. cp_id p \<noteq> i) ps) = (if j = i then None else find (\<lambda>p. cp_id p = j) ps)"
  by (induction ps) auto

lemma find_update:
  "position (\<lambda>x. cp_id x = cp_id p) ps = Some k \<Longrightarrow>
     find (\<lambda>x. cp_id x = j) (ps[k := p]) = (if j = cp_id p then Some p else find (\<lambda>x. cp_id x = j) ps)"
  by (induction ps arbitrary: k) (auto split: if_splits)

lemma find_fresh: "i \<notin> cp_id ` set ps \<Longrightarrow> find (\<lambda>x. cp_id x = i) ps = None"
  by (auto simp: find_None_iff)

lemma add_refines:
  assumes "add_profile dbg p st = (r, st')" and "cp_id p \<notin> cp_id ` set (cs_profiles st)"
  shows "profile_map st' = (if r = Inr (cp_id p) then (profile_map st)(cp_id p \<mapsto> p) else profile_map st)"
  using add_profile_cases [OF assms(1)] find_fresh [OF assms(2)]
  by (auto simp: fun_eq_iff profile_map_def find_profile_def find_append split: option.split)

lemma update_refines:
  assumes "update_profile dbg p st = (r, st')"
  shows "profile_map st' = (if r = Inr () then (profile_map st)(cp_id p \<mapsto> p) else profile_map st)"
  using update_profile_cases [OF assms]
  by (auto simp: fun_eq_iff profile_map_def find_profile_def find_update)

lemma remove_refines:
  assumes "remove_profile i st = (r, st')"
  shows "profile_map st' = (profile_map st)(i := None)"
  using remove_profile_cases [OF assms]
  by (auto simp: fun_eq_iff profile_map_def find_profile_def find_filter_other find_None_iff)

section \<open>Properties\<close>

text \<open>Concrete stores for the witnesses.\<close>

definition web :: profile where
  "web = profile_new [1] (lit ''web'') (lit ''h'') 22 Ssh"

definition one_profile :: config_store where
  "one_profile = snd (add_profile id web in_memory)"

lemma web_valid: "profile_validate web = Inr ()"
  by (simp add: profile_validate_def web_def profile_new_def ssh_options_default_def rdp_options_default_def
      trim_no_whitespace is_whitespace_def str_len_def len_utf8_def auto_accepts_unknown_def Let_def)

lemma one_profile_add: "add_profile id web in_memory = (Inr [1], one_profile)"
  using web_valid by (simp add: one_profile_def add_profile_def in_memory_def config_default_def web_def profile_new_def)

lemma one_profile_list: "cs_profiles one_profile = [web]"
  using web_valid by (simp add: one_profile_def add_profile_def in_memory_def config_default_def)

text \<open>A TOML library that knows one document.\<close>

definition toy_toml :: "unit toml" where
  "toy_toml = \<lparr>tm_version = (\<lambda>_. Some 1), tm_value = (\<lambda>_. Inr ()), tm_stamp = (\<lambda>_ v. v),
     tm_print = (\<lambda>_. Inr []), tm_decode = (\<lambda>_. Inr config_default), tm_encode = (\<lambda>_. Inr [])\<rparr>"

definition toy_store :: config_store where
  "toy_store = in_memory\<lparr>cs_path := lit ''a''\<rparr>"

definition no_files :: fs where
  "no_files = \<lparr>fs_files = Map.empty, fs_faults = []\<rparr>"

lemma toy_tmp: "tmp_path (lit ''a'') = lit ''a.tmp''"
  by (simp add: tmp_path_def with_extension_def path_split_def rsplit_once_def split_once_def)

text \<open>
  C13: whatever is loaded, reloaded, saved, and edited, in any order, starting from the empty store:
  every profile is valid or comes as it is from the file that was read last, and two profiles whose
  names differ in case at most both come from that file. So edits never bring in an invalid profile or a
  second use of a name, and a store read from a file without such profiles, or from none, has none. (A
  file that has them is accepted by loading, see \<open>load_does_not_validate\<close>.)
\<close>

theorem profiles_stay_valid:
  assumes "(store_step tm)\<^sup>*\<^sup>* (in_memory, []) (st, base)"
  shows "(\<forall>p \<in> set (cs_profiles st). profile_is_valid p \<or> p \<in> set base)
     \<and> sorted_wrt (\<lambda>p q. eq_ignore_ascii_case (cp_name p) (cp_name q) \<longrightarrow> p \<in> set base \<and> q \<in> set base) (cs_profiles st)
     \<and> (names_unique base \<and> (\<forall>p \<in> set base. profile_is_valid p) \<longrightarrow>
          names_unique (cs_profiles st) \<and> (\<forall>p \<in> set (cs_profiles st). profile_is_valid p))"
proof -
  have "store_ok (in_memory, [])"
    using in_memory_inv by (simp add: store_ok_def grown_from_def in_memory_def config_default_def)
  from store_steps_ok [OF assms this] show ?thesis
    by (simp add: store_ok_def grown_from_def clash_in_def [abs_def] store_inv_def list_all_iff)
qed

text \<open>A file with an invalid profile, to which a valid one is added.\<close>

definition bad_profile :: profile where
  "bad_profile = profile_new [2] [] (lit ''h'') 22 Ssh"

definition bad_store :: config_store where
  "bad_store = \<lparr>cs_path = lit ''a'', cs_config = config_default\<lparr>cf_profiles := [bad_profile]\<rparr>, cs_dirty = False\<rparr>"

definition bad_toml :: "unit toml" where
  "bad_toml = toy_toml\<lparr>tm_decode := \<lambda>_. Inr (config_default\<lparr>cf_profiles := [bad_profile]\<rparr>)\<rparr>"

lemma bad_load:
  "config_load bad_toml (lit ''a'') \<lparr>fs_files = [lit ''a'' \<mapsto> []], fs_faults = []\<rparr>
     = (Inr bad_store, \<lparr>fs_files = [lit ''a'' \<mapsto> []], fs_faults = []\<rparr>)"
  by (simp add: config_load_def io_read_string_def io_read_def after_call_def migrate_def document_version_def bad_toml_def
      toy_toml_def bad_store_def current_schema_version_def)

lemma bad_add: "add_profile id web bad_store = (Inr [1], set_profiles [bad_profile, web] bad_store)"
  using web_valid by (simp add: add_profile_def bad_store_def bad_profile_def web_def profile_new_def eq_ignore_ascii_case_def
      to_ascii_lowercase_def)

theorem profiles_stay_valid_witness:
  "\<exists>st. (store_step bad_toml)\<^sup>*\<^sup>* (in_memory, []) (st, [bad_profile]) \<and> cs_profiles st = [bad_profile, web]
     \<and> (\<forall>p \<in> set (cs_profiles st). profile_is_valid p \<or> p \<in> {bad_profile})"
proof -
  let ?st = "set_profiles [bad_profile, web] bad_store"
  have "store_step bad_toml (in_memory, []) (bad_store, cs_profiles bad_store)" using bad_load by (rule store_load)
  moreover have "store_step bad_toml (bad_store, cs_profiles bad_store) (?st, cs_profiles bad_store)"
    by (rule store_edit [OF step_add [OF bad_add]])
  ultimately have steps: "(store_step bad_toml)\<^sup>*\<^sup>* (in_memory, []) (?st, [bad_profile])"
    by (simp add: bad_store_def)
  from profiles_stay_valid [OF this] have "\<forall>p \<in> set (cs_profiles ?st). profile_is_valid p \<or> p \<in> {bad_profile}" by simp
  with steps show ?thesis by (intro exI [of _ ?st]) simp
qed

text \<open>
  Seen as a map from identifiers, the list is edited pointwise: a successful addition of a
  fresh profile inserts it, a successful replacement overwrites the entry, a successful removal
  deletes it, and a refused edit changes nothing.
\<close>

theorem profile_list_refines_map:
  "(\<forall>p r st'. add_profile dbg p st = (r, st') \<and> cp_id p \<notin> cp_id ` set (cs_profiles st) \<longrightarrow>
      profile_map st' = (if r = Inr (cp_id p) then (profile_map st)(cp_id p \<mapsto> p) else profile_map st))
   \<and> (\<forall>p r st'. update_profile dbg p st = (r, st') \<longrightarrow>
      profile_map st' = (if r = Inr () then (profile_map st)(cp_id p \<mapsto> p) else profile_map st))
   \<and> (\<forall>i r st'. remove_profile i st = (r, st') \<longrightarrow> profile_map st' = (profile_map st)(i := None))"
  using add_refines update_refines remove_refines by blast

theorem profile_list_refines_map_witness:
  "profile_map one_profile = (profile_map in_memory)([1] \<mapsto> web)
     \<and> profile_map (snd (remove_profile [1] one_profile)) [1] = None"
proof -
  have i: "cp_id web = [1]" by (simp add: web_def profile_new_def)
  have "profile_map one_profile = (profile_map in_memory)([1] \<mapsto> web)"
    using profile_list_refines_map [where st = in_memory and dbg = id] one_profile_add i
    by (fastforce simp: in_memory_def config_default_def)
  moreover have "profile_map (snd (remove_profile [1] one_profile)) = (profile_map one_profile)([1] := None)"
    using profile_list_refines_map [where st = one_profile and dbg = id] by (metis surjective_pairing)
  ultimately show ?thesis by simp
qed

text \<open>
  C14: a store that was saved is loaded back: when the save reports success, loading the file
  gives the saved settings and profiles.
\<close>

theorem saved_config_loads:
  assumes "toml_law tm (cs_config st)" and "cf_version (cs_config st) = current_schema_version"
    and "cs_path st = path" and "tmp_path path \<noteq> path"
    and "config_save tm st s = ((Inr (), st'), s')" and "fs_faults s' = []"
  shows "fst (config_load tm path s') = Inr st'"
  using load_after_save [OF assms(1,2) _ assms(5,6)] assms(3,4) by (simp add: attached_def)

theorem saved_config_loads_witness:
  "fst (config_load toy_toml (lit ''a'') (snd (config_save toy_toml toy_store no_files))) = Inr toy_store"
proof (rule saved_config_loads)
  show "toml_law toy_toml (cs_config toy_store)"
    by (simp add: toml_law_def toy_toml_def toy_store_def in_memory_def config_default_def current_schema_version_def)
  show "cf_version (cs_config toy_store) = current_schema_version"
    by (simp add: toy_store_def in_memory_def config_default_def)
  show "cs_path toy_store = lit ''a''" by (simp add: toy_store_def)
  show "tmp_path (lit ''a'') \<noteq> lit ''a''" using toy_tmp by simp
  show "config_save toy_toml toy_store no_files
      = ((Inr (), toy_store), snd (config_save toy_toml toy_store no_files))"
    and "fs_faults (snd (config_save toy_toml toy_store no_files)) = []"
    by (simp_all add: config_save_def toy_store_def in_memory_def to_toml_def toy_toml_def atomic_write_def Let_def
        toy_tmp [unfolded tmp_path_def] run_then_def on_err_def io_touch_def io_create_def io_write_all_def io_rename_def
        no_files_def after_call_def set_file_def)
qed

text \<open>
  C15: saving survives failures: when stores attached to one file are saved again and again, with
  any failures of the file system, the file holds the encoding of the last save that reported
  success, or what it held at first when none did.
\<close>

theorem config_file_is_last_success:
  assumes "\<forall>st \<in> set sts. cs_path st = path" and "tmp_path path \<noteq> path"
    and "run_saves (save_store tm) sts s = (t, ok)"
  shows "fs_files t path = (if ok = [] then fs_files s path else Some (store_bytes tm (last ok)))"
  using cfg.run_saves_last [OF _ assms(3)] assms(1,2) by (simp add: attached_def)

theorem config_file_is_last_success_witness:
  "fs_files (fst (run_saves (save_store toy_toml) [toy_store, toy_store]
      (no_files\<lparr>fs_faults := [None, None, None, Some \<lparr>ft_error = not_found, ft_written = 0\<rparr>]\<rparr>))) (lit ''a'')
   = Some (store_bytes toy_toml toy_store)"
proof -
  let ?s = "no_files\<lparr>fs_faults := [None, None, None, Some \<lparr>ft_error = not_found, ft_written = 0\<rparr>]\<rparr>"
  have "snd (run_saves (save_store toy_toml) [toy_store, toy_store] ?s) = [toy_store]"
    by (simp add: save_store_def config_save_def toy_store_def in_memory_def to_toml_def toy_toml_def atomic_write_def
        Let_def toy_tmp [unfolded tmp_path_def] run_then_def on_err_def io_touch_def io_create_def io_write_all_def
        io_rename_def no_files_def after_call_def set_file_def)
  then have r: "run_saves (save_store toy_toml) [toy_store, toy_store] ?s
      = (fst (run_saves (save_store toy_toml) [toy_store, toy_store] ?s), [toy_store])"
    by (metis surjective_pairing)
  have "\<forall>st \<in> set [toy_store, toy_store]. cs_path st = lit ''a''" by (simp add: toy_store_def)
  moreover have "tmp_path (lit ''a'') \<noteq> lit ''a''" using toy_tmp by simp
  ultimately show ?thesis using config_file_is_last_success [OF _ _ r] by (simp del: run_saves.simps)
qed

section \<open>Limits of the checks\<close>

text \<open>Only the strict host key policy passes validation.\<close>

lemma valid_profile_is_strict: "profile_is_valid p \<Longrightarrow> so_host_key_policy (cp_ssh p) = Strict"
  by (cases "so_host_key_policy (cp_ssh p)")
    (auto simp: profile_is_valid_def profile_validate_def auto_accepts_unknown_def Let_def split: if_splits)

text \<open>Every certificate policy passes: the last check of \<open>validate\<close> never fires.\<close>

lemma every_cert_policy_passes: "ro_cert_policy (cp_rdp p) \<in> {Verify, VerifyOrPinned, TrustOnFirstUse}"
  by (cases "ro_cert_policy (cp_rdp p)") simp_all

text \<open>Loading does not validate: any document that decodes is accepted as it is.\<close>

lemma load_does_not_validate:
  assumes "fs_faults s = []" and "fs_files s path = Some (as_bytes doc)" and "\<forall>x \<in> set doc. is_scalar x"
    and "tm_version tm doc = Some current_schema_version" and "tm_decode tm doc = Inr c"
  shows "fst (config_load tm path s) = Inr \<lparr>cs_path = path, cs_config = c, cs_dirty = False\<rparr>"
  using assms
  by (simp add: config_load_def io_read_string_def io_read_def from_utf8_as_bytes migrate_def document_version_def)

text \<open>Migration ends at the current version and is idempotent; newer documents are refused.\<close>

lemma migrate_idempotent:
  assumes "\<And>v out. tm_print tm (tm_stamp tm current_schema_version v) = Inr out \<Longrightarrow>
             tm_version tm out = Some current_schema_version"
    and "migrate tm doc = Inr out"
  shows "document_version tm out = current_schema_version \<and> migrate tm out = Inr out"
  using assms by (auto simp: migrate_def document_version_def Let_def split: if_splits sum.splits)

lemma migrate_refuses_newer:
  "document_version tm doc > current_schema_version \<Longrightarrow> \<exists>e. migrate tm doc = Inl e \<and> e_code e = EUnsupported"
  by (auto simp: migrate_def Let_def fail_def)

end
