(* ===== verification/Rdp_Framebuffer.thy ===== *)
theory Rdp_Framebuffer
  imports Rust_Arith
begin

text \<open>
  The remote desktop image, \<open>crates/rdt-rdp/src/framebuffer.rs\<close>: a flat vector of BGRA bytes
  with a damage rectangle. Coordinates are \<open>u32\<close> and their arithmetic is checked; offsets that
  the code converts to \<open>usize\<close> first are naturals.
\<close>

section \<open>Rectangles\<close>

record damage_rect =
  dr_left :: u32
  dr_top :: u32
  dr_width :: u32
  dr_height :: u32

definition rect_is_empty :: "damage_rect \<Rightarrow> bool" where
  "rect_is_empty r \<longleftrightarrow> dr_width r = 0 \<or> dr_height r = 0"

definition rect_clamped :: "damage_rect \<Rightarrow> u32 \<Rightarrow> u32 \<Rightarrow> damage_rect option" where
  "rect_clamped r width height = do {
     (let left = min (dr_left r) (sat_sub width 1);
          top' = min (dr_top r) (sat_sub height 1) in do {
       w \<leftarrow> ck_sub width left;
       h \<leftarrow> ck_sub height top';
       Some \<lparr>dr_left = left, dr_top = top', dr_width = min (dr_width r) w, dr_height = min (dr_height r) h\<rparr>
     })
   }"

definition rect_union :: "damage_rect \<Rightarrow> damage_rect \<Rightarrow> damage_rect option" where
  "rect_union a b =
     (if rect_is_empty a then Some b
      else if rect_is_empty b then Some a
      else do {
        (let left = min (dr_left a) (dr_left b); top' = min (dr_top a) (dr_top b) in do {
          ra \<leftarrow> ck_add (dr_left a) (dr_width a);
          rb \<leftarrow> ck_add (dr_left b) (dr_width b);
          ba \<leftarrow> ck_add (dr_top a) (dr_height a);
          bb \<leftarrow> ck_add (dr_top b) (dr_height b);
          w \<leftarrow> ck_sub (max ra rb) left;
          h \<leftarrow> ck_sub (max ba bb) top';
          Some \<lparr>dr_left = left, dr_top = top', dr_width = w, dr_height = h\<rparr>
        })
      })"

section \<open>The framebuffer\<close>

record framebuffer =
  fb_width :: u32
  fb_height :: u32
  fb_pixels :: "u8 list"
  fb_damage :: "damage_rect list"

text \<open>\<open>vec![0u8; (width * height * 4) as usize]\<close>\<close>

definition black :: "u32 \<Rightarrow> u32 \<Rightarrow> u8 list option" where
  "black width height = do {
     a \<leftarrow> ck_mul width height;
     n \<leftarrow> ck_mul a 4;
     Some (replicate (unat n) 0)
   }"

definition fb_new :: "u32 \<Rightarrow> u32 \<Rightarrow> framebuffer option" where
  "fb_new width height =
     (let width = max width 1; height = max height 1 in do {
        pixels \<leftarrow> black width height;
        Some \<lparr>fb_width = width, fb_height = height, fb_pixels = pixels, fb_damage = []\<rparr>
      })"

definition fb_stride :: "framebuffer \<Rightarrow> nat" where
  "fb_stride fb = unat (fb_width fb) * 4"

definition mark_dirty :: "damage_rect \<Rightarrow> framebuffer \<Rightarrow> framebuffer option" where
  "mark_dirty rect fb =
     (if fb_damage fb = [] then Some (fb\<lparr>fb_damage := [rect]\<rparr>)
      else do {
        merged \<leftarrow> rect_union (last (fb_damage fb)) rect;
        Some (fb\<lparr>fb_damage := butlast (fb_damage fb) @ [merged]\<rparr>)
      })"

definition take_damage :: "framebuffer \<Rightarrow> damage_rect list \<times> framebuffer" where
  "take_damage fb = (fb_damage fb, fb\<lparr>fb_damage := []\<rparr>)"

definition fb_is_dirty :: "framebuffer \<Rightarrow> bool" where
  "fb_is_dirty fb \<longleftrightarrow> fb_damage fb \<noteq> []"

definition fb_resize :: "u32 \<Rightarrow> u32 \<Rightarrow> framebuffer \<Rightarrow> framebuffer option" where
  "fb_resize width height fb =
     (let width = max width 1; height = max height 1 in
      if width = fb_width fb \<and> height = fb_height fb then Some fb
      else do {
        fresh \<leftarrow> black width height;
        row_bytes \<leftarrow> ck_mul (min width (fb_width fb)) 4;
        next' \<leftarrow> copy_rows 0 (unat width * 4) (fb_pixels fb) (fb_stride fb) (unat row_bytes)
                   (unat (min height (fb_height fb))) fresh;
        mark_dirty \<lparr>dr_left = 0, dr_top = 0, dr_width = width, dr_height = height\<rparr>
          (fb\<lparr>fb_width := width, fb_height := height, fb_pixels := next', fb_damage := []\<rparr>)
      })"

text \<open>The offset of a row of a rectangle: \<open>((rect.top + row) * self.width + rect.left) as usize * 4\<close>.\<close>

definition row_offset :: "framebuffer \<Rightarrow> damage_rect \<Rightarrow> u32 \<Rightarrow> nat option" where
  "row_offset fb rect row = do {
     y \<leftarrow> ck_add (dr_top rect) row;
     a \<leftarrow> ck_mul y (fb_width fb);
     b \<leftarrow> ck_add a (dr_left rect);
     Some (unat b * 4)
   }"

definition blit_row :: "framebuffer \<Rightarrow> damage_rect \<Rightarrow> u8 list \<Rightarrow> nat \<Rightarrow> u8 list \<Rightarrow> u8 list option" where
  "blit_row fb rect data row pixels = do {
     target \<leftarrow> row_offset fb rect (word_of_nat row);
     s \<leftarrow> ck_mul (word_of_nat row) (dr_width rect);
     copy_slice pixels target data (unat s * 4) (unat (dr_width rect) * 4)
   }"

definition fb_blit :: "damage_rect \<Rightarrow> u8 list \<Rightarrow> framebuffer \<Rightarrow> framebuffer option" where
  "fb_blit rect0 data fb = do {
     rect \<leftarrow> rect_clamped rect0 (fb_width fb) (fb_height fb);
     (if rect_is_empty rect then Some fb
      else do {
        a \<leftarrow> ck_mul (dr_width rect) (dr_height rect);
        expected \<leftarrow> ck_mul a 4;
        (if length data < unat expected then Some fb
         else do {
           pixels \<leftarrow> fold_opt (blit_row fb rect data) [0..<unat (dr_height rect)] (fb_pixels fb);
           mark_dirty rect (fb\<lparr>fb_pixels := pixels\<rparr>)
         })
      })
   }"

definition fill_row :: "framebuffer \<Rightarrow> damage_rect \<Rightarrow> u8 list \<Rightarrow> nat \<Rightarrow> u8 list \<Rightarrow> u8 list option" where
  "fill_row fb rect bgra row pixels = do {
     start \<leftarrow> row_offset fb rect (word_of_nat row);
     fold_opt (\<lambda>column px. copy_slice px (start + column * 4) bgra 0 4)
       [0..<unat (dr_width rect)] pixels
   }"

definition fb_fill :: "damage_rect \<Rightarrow> u8 list \<Rightarrow> framebuffer \<Rightarrow> framebuffer option" where
  "fb_fill rect0 bgra fb = do {
     rect \<leftarrow> rect_clamped rect0 (fb_width fb) (fb_height fb);
     pixels \<leftarrow> fold_opt (fill_row fb rect bgra) [0..<unat (dr_height rect)] (fb_pixels fb);
     mark_dirty rect (fb\<lparr>fb_pixels := pixels\<rparr>)
   }"

section \<open>Well-formed framebuffers\<close>

definition in_bounds :: "u32 \<Rightarrow> u32 \<Rightarrow> damage_rect \<Rightarrow> bool" where
  "in_bounds w h r \<longleftrightarrow> unat (dr_left r) + unat (dr_width r) \<le> unat w
     \<and> unat (dr_top r) + unat (dr_height r) \<le> unat h"

definition fb_wf :: "framebuffer \<Rightarrow> bool" where
  "fb_wf fb \<longleftrightarrow> 0 < unat (fb_width fb) \<and> 0 < unat (fb_height fb)
     \<and> unat (fb_width fb) * unat (fb_height fb) * 4 < 2 ^ 32
     \<and> length (fb_pixels fb) = unat (fb_width fb) * unat (fb_height fb) * 4
     \<and> length (fb_damage fb) \<le> 1 \<and> list_all (in_bounds (fb_width fb) (fb_height fb)) (fb_damage fb)"

lemma rect_clamped_ok:
  assumes "0 < unat w" and "0 < unat h"
  shows "\<exists>c. rect_clamped r w h = Some c \<and> in_bounds w h c
     \<and> dr_left c = min (dr_left r) (w - 1) \<and> dr_top c = min (dr_top r) (h - 1)
     \<and> unat (dr_width c) = min (unat (dr_width r)) (unat w - unat (dr_left c))
     \<and> unat (dr_height c) = min (unat (dr_height r)) (unat h - unat (dr_top c))"
  using assms
  by (auto simp: rect_clamped_def Let_def ck_sub_def in_bounds_def sat_sub_def word_le_nat_alt
      unat_min_word unat_sub min_def split: if_splits)

lemma fb_wfD:
  assumes "fb_wf fb"
  shows "0 < unat (fb_width fb)" "0 < unat (fb_height fb)"
    "unat (fb_width fb) * unat (fb_height fb) * 4 < 2 ^ 32"
    "length (fb_pixels fb) = unat (fb_width fb) * unat (fb_height fb) * 4"
  using assms by (simp_all add: fb_wf_def)

lemma table_bound:
  assumes "y < h" and "x \<le> (w::nat)"
  shows "y * w + x \<le> w * h"
proof -
  have "y * w + x \<le> y * w + w" using assms(2) by simp
  also have "\<dots> = Suc y * w" by simp
  also have "\<dots> \<le> h * w" using assms(1) by (intro mult_le_mono1) simp
  finally show ?thesis by (simp add: mult.commute)
qed

lemma black_ok:
  "unat w * unat h * 4 < 2 ^ 32 \<Longrightarrow> black w h = Some (replicate (unat w * unat h * 4) 0)"
  using unat_u32_less [of w]
  by (simp add: black_def ck_mulI unat_mul_ck mult.commute)

lemma rect_union_ok:
  assumes "in_bounds w h a" and "in_bounds w h b"
  shows "\<exists>c. rect_union a b = Some c \<and> in_bounds w h c"
proof (cases "rect_is_empty a \<or> rect_is_empty b")
  case True
  with assms show ?thesis by (auto simp: rect_union_def)
next
  case False
  have w: "unat w < 4294967296" "unat h < 4294967296" using unat_u32_less [of "w"] unat_u32_less [of "h"] by simp_all
  note b = assms [unfolded in_bounds_def]
  have s: "unat (dr_left a + dr_width a) = unat (dr_left a) + unat (dr_width a)"
    "unat (dr_left b + dr_width b) = unat (dr_left b) + unat (dr_width b)"
    "unat (dr_top a + dr_height a) = unat (dr_top a) + unat (dr_height a)"
    "unat (dr_top b + dr_height b) = unat (dr_top b) + unat (dr_height b)"
    using b w by (simp_all add: unat_add_ck)
  have l: "unat (min (dr_left a) (dr_left b)) \<le> unat (max (dr_left a + dr_width a) (dr_left b + dr_width b))"
    "unat (min (dr_top a) (dr_top b)) \<le> unat (max (dr_top a + dr_height a) (dr_top b + dr_height b))"
    by (simp_all add: unat_min_word unat_max_of_words s)
  have "rect_union a b = Some \<lparr>dr_left = min (dr_left a) (dr_left b), dr_top = min (dr_top a) (dr_top b),
      dr_width = max (dr_left a + dr_width a) (dr_left b + dr_width b) - min (dr_left a) (dr_left b),
      dr_height = max (dr_top a + dr_height a) (dr_top b + dr_height b) - min (dr_top a) (dr_top b)\<rparr>"
    using False b w l by (simp add: rect_union_def ck_addI ck_subI Let_def)
  then show ?thesis
    using b l by (simp add: in_bounds_def unat_sub_ck) (simp add: unat_min_word unat_max_of_words s)
qed

lemma mark_dirty_ok:
  assumes "list_all (in_bounds (fb_width fb) (fb_height fb)) (fb_damage fb)" and "length (fb_damage fb) \<le> 1"
    and "in_bounds (fb_width fb) (fb_height fb) r"
  shows "\<exists>d. mark_dirty r fb = Some (fb\<lparr>fb_damage := [d]\<rparr>) \<and> in_bounds (fb_width fb) (fb_height fb) d"
proof (cases "fb_damage fb")
  case Nil
  with assms(3) show ?thesis by (auto simp: mark_dirty_def)
next
  case (Cons d ds)
  with assms have "ds = []" "in_bounds (fb_width fb) (fb_height fb) d" by auto
  with Cons rect_union_ok [OF this(2) assms(3)] show ?thesis by (auto simp: mark_dirty_def)
qed

lemma row_offset_ok:
  assumes "fb_wf fb" and "in_bounds (fb_width fb) (fb_height fb) r" and "row < unat (dr_height r)"
  shows "row_offset fb r (word_of_nat row)
     = Some (((unat (dr_top r) + row) * unat (fb_width fb) + unat (dr_left r)) * 4)"
proof -
  note w = fb_wfD [OF assms(1)]
  have "row < 4294967296" using assms(3) unat_u32_less [of "dr_height r"] by linarith
  then have row: "unat (word_of_nat row :: u32) = row" by (simp add: unat_word_of_nat)
  have y: "unat (dr_top r) + row < unat (fb_height fb)" using assms(2,3) by (simp add: in_bounds_def)
  have "(unat (dr_top r) + row) * unat (fb_width fb) + unat (dr_left r)
      \<le> unat (fb_width fb) * unat (fb_height fb)"
    using table_bound [OF y, of "unat (dr_left r)" "unat (fb_width fb)"] assms(2) by (simp add: in_bounds_def)
  then have b: "(unat (dr_top r) + row) * unat (fb_width fb) + unat (dr_left r) < 2 ^ 32"
    using w(3) by linarith
  have 1: "unat (dr_top r + word_of_nat row) = unat (dr_top r) + row"
    using y unat_u32_less [of "fb_height fb"] by (simp add: unat_add_ck row)
  then have 2: "unat ((dr_top r + word_of_nat row) * fb_width fb) = (unat (dr_top r) + row) * unat (fb_width fb)"
    using b by (simp add: unat_mul_ck)
  show ?thesis
    using y b 1 2 unat_u32_less [of "fb_height fb"]
    by (simp add: row_offset_def ck_addI ck_mulI row unat_add_ck)
qed

lemma blit_rows:
  assumes "fb_wf fb" and "in_bounds (fb_width fb) (fb_height fb) r"
  shows "fold_opt (blit_row fb r data) [0..<unat (dr_height r)] px
     = copy_rows ((unat (dr_top r) * unat (fb_width fb) + unat (dr_left r)) * 4) (unat (fb_width fb) * 4)
         data (unat (dr_width r) * 4) (unat (dr_width r) * 4) (unat (dr_height r)) px"
  unfolding copy_rows_def
proof (rule fold_opt_cong)
  fix row s
  assume "row \<in> set [0..<unat (dr_height r)]"
  then have row: "row < unat (dr_height r)" by simp
  then have n: "unat (word_of_nat row :: u32) = row"
    using unat_u32_less [of "dr_height r"] by (simp add: unat_word_of_nat)
  have "row * unat (dr_width r) \<le> unat (fb_height fb) * unat (fb_width fb)"
    using assms(2) row by (intro mult_le_mono) (simp_all add: in_bounds_def)
  then have m: "row * unat (dr_width r) < 2 ^ 32"
    using fb_wfD(3) [OF assms(1)] by (simp add: mult.commute)
  have "ck_mul (word_of_nat row) (dr_width r) = Some (word_of_nat row * dr_width r)"
    and "unat (word_of_nat row * dr_width r) = row * unat (dr_width r)"
    using m n by (simp_all add: ck_mulI unat_mul_ck)
  then have "blit_row fb r data row s = copy_slice s
      (((unat (dr_top r) + row) * unat (fb_width fb) + unat (dr_left r)) * 4)
      data (row * unat (dr_width r) * 4) (unat (dr_width r) * 4)"
    by (simp add: blit_row_def row_offset_ok [OF assms row])
  also have "((unat (dr_top r) + row) * unat (fb_width fb) + unat (dr_left r)) * 4
      = (unat (dr_top r) * unat (fb_width fb) + unat (dr_left r)) * 4 + row * (unat (fb_width fb) * 4)"
    by (simp add: algebra_simps)
  finally show "blit_row fb r data row s = copy_slice s
      ((unat (dr_top r) * unat (fb_width fb) + unat (dr_left r)) * 4 + row * (unat (fb_width fb) * 4))
      data (row * (unat (dr_width r) * 4)) (unat (dr_width r) * 4)"
    by (simp add: mult.assoc)
qed

section \<open>Images\<close>

text \<open>The four bytes of the pixel in column \<open>x\<close> and row \<open>y\<close> of a bitmap of width \<open>w\<close>.\<close>

definition pixel_at :: "u8 list \<Rightarrow> nat \<Rightarrow> nat \<Rightarrow> nat \<Rightarrow> u8 list" where
  "pixel_at ps w x y = map (\<lambda>c. ps ! ((y * w + x) * 4 + c)) [0..<4]"

definition shown :: "framebuffer \<Rightarrow> nat \<Rightarrow> nat \<Rightarrow> u8 list" where
  "shown fb x y = pixel_at (fb_pixels fb) (unat (fb_width fb)) x y"

lemma pixel_eqI:
  "(\<And>c. c < 4 \<Longrightarrow> ps ! ((y * w + x) * 4 + c) = qs ! ((y' * w' + x') * 4 + c)) \<Longrightarrow>
     pixel_at ps w x y = pixel_at qs w' x' y'"
  by (simp add: pixel_at_def)

lemma byte_pixel:
  "A * 4 \<le> B * 4 + c \<Longrightarrow> c < 4 \<Longrightarrow> A \<le> (B::nat)"
  "B * 4 + c < A * 4 \<Longrightarrow> B < (A::nat)"
  by arith+

text \<open>Copying a block of rows changes exactly the pixels of the block.\<close>

lemma block_pixel:
  fixes x y W :: nat
  assumes "(top' * W + left) * 4 + k * (W * 4) \<le> (y * W + x) * 4 + c"
    and "(y * W + x) * 4 + c < (top' * W + left) * 4 + k * (W * 4) + cw * 4"
    and "c < 4" and "x < W" and "left + cw \<le> W"
  shows "y = top' + k \<and> left \<le> x \<and> x < left + cw"
proof -
  have "((top' + k) * W + left) * 4 \<le> (y * W + x) * 4 + c" "(y * W + x) * 4 + c < ((top' + k) * W + left + cw) * 4"
    using assms(1,2) by (simp_all add: distrib_right)
  then have "(top' + k) * W + left \<le> y * W + x" and less: "y * W + x < (top' + k) * W + left + cw"
    using byte_pixel assms(3) by blast+
  then obtain l where "y * W + x = (top' + k) * W + left + l" using le_Suc_ex by blast
  with less have l: "y * W + x = (top' + k) * W + (left + l)" "l < cw" by simp_all
  with table_unique [OF l(1) assms(4)] assms(5) show ?thesis by auto
qed

lemma block_source:
  assumes "\<And>i. i < cw * 4 \<Longrightarrow> d ! ((top' * W + left) * 4 + k * (W * 4) + i) = src ! (k * (sw * 4) + i)"
    and "l < (cw::nat)"
  shows "pixel_at d W (left + l) (top' + k) = pixel_at src sw l k"
proof (rule pixel_eqI)
  fix c :: nat
  assume "c < 4"
  then have i: "l * 4 + c < cw * 4" using assms(2) by linarith
  have "((top' + k) * W + (left + l)) * 4 + c = (top' * W + left) * 4 + k * (W * 4) + (l * 4 + c)"
    by (simp add: distrib_right)
  moreover have "(k * sw + l) * 4 + c = k * (sw * 4) + (l * 4 + c)" by (simp add: distrib_right)
  ultimately show "d ! (((top' + k) * W + (left + l)) * 4 + c) = src ! ((k * sw + l) * 4 + c)"
    using assms(1) [OF i] by (simp only:)
qed

lemma copy_rows_pixels:
  assumes "left + cw \<le> W" and "top' + ch \<le> H" and "length dst = W * H * 4"
    and "\<And>k. k < ch \<Longrightarrow> k * (sw * 4) + cw * 4 \<le> length src"
  shows "\<exists>d. copy_rows ((top' * W + left) * 4) (W * 4) src (sw * 4) (cw * 4) ch dst = Some d
     \<and> length d = length dst
     \<and> (\<forall>x < W. \<forall>y < H. pixel_at d W x y =
          (if left \<le> x \<and> x < left + cw \<and> top' \<le> y \<and> y < top' + ch
           then pixel_at src sw (x - left) (y - top') else pixel_at dst W x y))"
proof -
  have "(top' * W + left) * 4 + k * (W * 4) + cw * 4 \<le> length dst" if "k < ch" for k
    using table_bound [of "top' + k" H "left + cw" W] assms(1-3) that by (simp add: algebra_simps)
  then obtain d where d: "copy_rows ((top' * W + left) * 4) (W * 4) src (sw * 4) (cw * 4) ch dst = Some d"
    "length d = length dst"
    and ins: "\<And>k i. k < ch \<Longrightarrow> i < cw * 4 \<Longrightarrow>
      d ! ((top' * W + left) * 4 + k * (W * 4) + i) = src ! (k * (sw * 4) + i)"
    and out: "\<And>j. j < length dst \<Longrightarrow> (\<And>k. k < ch \<Longrightarrow> j < (top' * W + left) * 4 + k * (W * 4)
      \<or> (top' * W + left) * 4 + k * (W * 4) + cw * 4 \<le> j) \<Longrightarrow> d ! j = dst ! j"
    using copy_rows_nth [of "cw * 4" "W * 4" ch "(top' * W + left) * 4" dst "sw * 4" src] assms(1,4)
    by fastforce
  have inside: "pixel_at d W x y = pixel_at src sw (x - left) (y - top')"
    if "left \<le> x" "x < left + cw" "top' \<le> y" "y < top' + ch" for x y
    using block_source [of cw d top' W left "y - top'" src sw "x - left", OF ins] that by simp
  have outside: "pixel_at d W x y = pixel_at dst W x y"
    if "x < W" "y < H" and o: "\<not> (left \<le> x \<and> x < left + cw \<and> top' \<le> y \<and> y < top' + ch)" for x y
  proof (rule pixel_eqI)
    fix c :: nat
    assume c: "c < 4"
    show "d ! ((y * W + x) * 4 + c) = dst ! ((y * W + x) * 4 + c)"
    proof (rule out)
      have "y * W + Suc x \<le> W * H" using that(1,2) by (intro table_bound) simp_all
      then have "(y * W + Suc x) * 4 \<le> length dst" unfolding assms(3) by (rule mult_le_mono1)
      moreover have "(y * W + Suc x) * 4 = (y * W + x) * 4 + 4" by simp
      ultimately show "(y * W + x) * 4 + c < length dst" using c by (simp only:)
      fix k
      assume k: "k < ch"
      show "(y * W + x) * 4 + c < (top' * W + left) * 4 + k * (W * 4)
          \<or> (top' * W + left) * 4 + k * (W * 4) + cw * 4 \<le> (y * W + x) * 4 + c"
      proof (rule ccontr)
        assume "\<not> ?thesis"
        then have "(top' * W + left) * 4 + k * (W * 4) \<le> (y * W + x) * 4 + c"
          "(y * W + x) * 4 + c < (top' * W + left) * 4 + k * (W * 4) + cw * 4"
          by (simp_all only: de_Morgan_disj not_less not_le)
        from block_pixel [OF this c that(1) assms(1)] o k show False by simp
      qed
    qed
  qed
  show ?thesis using d inside outside by (intro exI [of _ d]) auto
qed

end
