(* ===== verification/Rdp_Framebuffer_Props.thy ===== *)
theory Rdp_Framebuffer_Props
  imports Rdp_Framebuffer
begin

text \<open>
  What the framebuffer promises: the pixels after a blit, a fill or a resize, that no operation
  within the size limits panics, and where the code does not clip the way its comments say.
\<close>

section \<open>Blits\<close>

lemma rect_clamped_id:
  assumes "in_bounds w h r" and "\<not> rect_is_empty r"
  shows "rect_clamped r w h = Some r"
proof -
  have p: "0 < unat (dr_width r)" "0 < unat (dr_height r)"
    using assms(2) by (simp_all add: rect_is_empty_def unat_gt_0)
  with assms(1) have l: "unat (dr_left r) < unat w" "unat (dr_top r) < unat h" and "0 < unat w" "0 < unat h"
    by (simp_all add: in_bounds_def)
  then obtain c where c: "rect_clamped r w h = Some c"
    "dr_left c = min (dr_left r) (w - 1)" "dr_top c = min (dr_top r) (h - 1)"
    "unat (dr_width c) = min (unat (dr_width r)) (unat w - unat (dr_left c))"
    "unat (dr_height c) = min (unat (dr_height r)) (unat h - unat (dr_top c))"
    using rect_clamped_ok by blast
  have "unat (w - 1) = unat w - 1" "unat (h - 1) = unat h - 1"
    using \<open>0 < unat w\<close> \<open>0 < unat h\<close> by (simp_all add: unat_sub_ck)
  with l have "dr_left r \<le> w - 1" "dr_top r \<le> h - 1" by (simp_all add: word_le_nat_alt)
  then have "dr_left c = dr_left r" "dr_top c = dr_top r" using c(2,3) by (simp_all add: min_absorb1)
  moreover from this have "unat (dr_width c) = unat (dr_width r)" "unat (dr_height c) = unat (dr_height r)"
    using c(4,5) assms(1) l by (auto simp: in_bounds_def min_def)
  ultimately show ?thesis
    using c(1) by (auto intro!: damage_rect.equality unsigned_word_eqI)
qed

definition inside :: "damage_rect \<Rightarrow> nat \<Rightarrow> nat \<Rightarrow> bool" where
  "inside r x y \<longleftrightarrow> unat (dr_left r) \<le> x \<and> x < unat (dr_left r) + unat (dr_width r)
     \<and> unat (dr_top r) \<le> y \<and> y < unat (dr_top r) + unat (dr_height r)"

text \<open>A block of rows of a bitmap that holds them all lies inside the bitmap.\<close>

lemma rows_in_data:
  assumes "w * h * 4 \<le> length data" and "k < h"
  shows "k * (w * 4) + w * 4 \<le> length data"
proof -
  have "k * (w * 4) + w * 4 = Suc k * (w * 4)" by simp
  also have "\<dots> \<le> h * (w * 4)" using assms(2) by (intro mult_le_mono1) simp
  also have "\<dots> = w * h * 4" by simp
  finally show ?thesis using assms(1) by (rule le_trans)
qed

lemma in_bounds_area:
  assumes "fb_wf fb" and "in_bounds (fb_width fb) (fb_height fb) r"
  shows "unat (dr_width r) * unat (dr_height r) * 4 < 2 ^ 32"
proof -
  have "unat (dr_width r) * unat (dr_height r) \<le> unat (fb_width fb) * unat (fb_height fb)"
    using assms(2) by (intro mult_le_mono) (simp_all add: in_bounds_def)
  then show ?thesis using fb_wfD(3) [OF assms(1)] by linarith
qed


lemma ck_area:
  fixes w h :: u32
  assumes "unat w * unat h * 4 < 2 ^ 32"
  shows "ck_mul w h = Some (w * h)" "ck_mul (w * h) 4 = Some (w * h * 4)"
    "unat (w * h * 4) = unat w * unat h * 4"
proof -
  have "unat w * unat h < 2 ^ 32" using assms by linarith
  then have "unat w * unat h < 2 ^ LENGTH(32)" by simp
  note m = ck_mulI [OF this] unat_mul_ck [OF this]
  have "unat (w * h) * unat (4 :: u32) < 2 ^ LENGTH(32)" unfolding m(2) using assms by simp
  note n = ck_mulI [OF this] unat_mul_ck [OF this]
  show "ck_mul w h = Some (w * h)" "ck_mul (w * h) 4 = Some (w * h * 4)" by (rule m n)+
  show "unat (w * h * 4) = unat w * unat h * 4" unfolding n(2) m(2) by simp
qed

text \<open>The pixels that the damage covers, and what it means to repaint a rectangle.\<close>

definition covered :: "framebuffer \<Rightarrow> nat \<Rightarrow> nat \<Rightarrow> bool" where
  "covered fb x y \<longleftrightarrow> list_ex (\<lambda>r. inside r x y) (fb_damage fb)"

definition repaints :: "framebuffer \<Rightarrow> damage_rect \<Rightarrow> (nat \<Rightarrow> nat \<Rightarrow> u8 list) \<Rightarrow> framebuffer \<Rightarrow> bool" where
  "repaints fb r f fb' \<longleftrightarrow> fb_wf fb' \<and> fb_width fb' = fb_width fb \<and> fb_height fb' = fb_height fb
     \<and> (\<forall>x < unat (fb_width fb). \<forall>y < unat (fb_height fb).
          shown fb' x y = (if inside r x y then f x y else shown fb x y))
     \<and> (\<forall>x y. covered fb x y \<or> inside r x y \<longrightarrow> covered fb' x y)"

lemma repaints_image:
  assumes "repaints fb r f fb'"
  shows "fb_wf fb'" "fb_width fb' = fb_width fb" "fb_height fb' = fb_height fb"
    "x < unat (fb_width fb) \<Longrightarrow> y < unat (fb_height fb) \<Longrightarrow>
      shown fb' x y = (if inside r x y then f x y else shown fb x y)"
    "covered fb x y \<or> inside r x y \<Longrightarrow> covered fb' x y"
  using assms by (auto simp: repaints_def)

lemma rect_union_covers:
  assumes "in_bounds w h a" and "in_bounds w h b" and "rect_union a b = Some c"
    and "inside a x y \<or> inside b x y"
  shows "inside c x y"
proof (cases "rect_is_empty a \<or> rect_is_empty b")
  case True
  then show ?thesis using assms(3,4)
    by (auto simp: rect_union_def rect_is_empty_def inside_def split: if_splits)
next
  case False
  show ?thesis using False assms unat_u32_less [of w] unat_u32_less [of h]
    by (auto simp: rect_union_def ck_add_def ck_sub_def in_bounds_def inside_def Let_def word_le_nat_alt
        unat_sub_ck unat_min_word unat_max_of_words unat_add_ck split: if_splits)
qed

lemma mark_dirty_repaints:
  assumes wf: "fb_wf fb" and b: "in_bounds (fb_width fb) (fb_height fb) r"
    and len: "length px = length (fb_pixels fb)"
    and px: "\<And>x y. x < unat (fb_width fb) \<Longrightarrow> y < unat (fb_height fb) \<Longrightarrow>
      pixel_at px (unat (fb_width fb)) x y = (if inside r x y then f x y else shown fb x y)"
  shows "\<exists>fb'. mark_dirty r (fb\<lparr>fb_pixels := px\<rparr>) = Some fb' \<and> repaints fb r f fb'"
proof -
  let ?g = "fb\<lparr>fb_pixels := px\<rparr>"
  have d: "list_all (in_bounds (fb_width fb) (fb_height fb)) (fb_damage fb)" "length (fb_damage fb) \<le> 1"
    using wf by (simp_all add: fb_wf_def)
  then obtain c where c: "mark_dirty r ?g = Some (?g\<lparr>fb_damage := [c]\<rparr>)"
    "in_bounds (fb_width fb) (fb_height fb) c"
    using mark_dirty_ok [of ?g r] b by auto
  have "inside c x y" if "covered fb x y \<or> inside r x y" for x y
  proof (cases "fb_damage fb")
    case Nil
    with c(1) that show ?thesis by (simp add: mark_dirty_def covered_def) (metis framebuffer.ext_inject framebuffer.surjective framebuffer.update_convs(4) list.inject)
  next
    case (Cons a as)
    with d have a: "fb_damage fb = [a]" "in_bounds (fb_width fb) (fb_height fb) a" by auto
    with c(1) have "rect_union a r = Some c"
      by (auto simp: mark_dirty_def split: bind_splits) (metis framebuffer.ext_inject framebuffer.surjective framebuffer.update_convs(4) list.inject)
    with rect_union_covers [OF a(2) b this] that a(1) show ?thesis by (simp add: covered_def)
  qed
  then have "repaints fb r f (?g\<lparr>fb_damage := [c]\<rparr>)"
    using wf c(2) len px by (auto simp: repaints_def fb_wf_def shown_def covered_def)
  with c(1) show ?thesis by blast
qed

lemma fb_blit_clamped:
  assumes wf: "fb_wf fb" and c: "rect_clamped r0 (fb_width fb) (fb_height fb) = Some r"
    and b: "in_bounds (fb_width fb) (fb_height fb) r" and "\<not> rect_is_empty r"
    and len: "unat (dr_width r) * unat (dr_height r) * 4 \<le> length data"
  shows "\<exists>fb'. fb_blit r0 data fb = Some fb' \<and> repaints fb r
     (\<lambda>x y. pixel_at data (unat (dr_width r)) (x - unat (dr_left r)) (y - unat (dr_top r))) fb'"
proof -
  note area = in_bounds_area [OF wf b]
  obtain px where px: "fold_opt (blit_row fb r data) [0..<unat (dr_height r)] (fb_pixels fb) = Some px"
    "length px = length (fb_pixels fb)"
    and im: "\<And>x y. x < unat (fb_width fb) \<Longrightarrow> y < unat (fb_height fb) \<Longrightarrow>
      pixel_at px (unat (fb_width fb)) x y =
        (if inside r x y
         then pixel_at data (unat (dr_width r)) (x - unat (dr_left r)) (y - unat (dr_top r))
         else shown fb x y)"
    using copy_rows_pixels [of "unat (dr_left r)" "unat (dr_width r)" "unat (fb_width fb)" "unat (dr_top r)"
        "unat (dr_height r)" "unat (fb_height fb)" "fb_pixels fb" "unat (dr_width r)" data]
      rows_in_data [OF len] b fb_wfD(4) [OF wf]
    unfolding blit_rows [OF wf b] inside_def shown_def in_bounds_def by blast
  obtain fb' where "mark_dirty r (fb\<lparr>fb_pixels := px\<rparr>) = Some fb'"
    "repaints fb r (\<lambda>x y. pixel_at data (unat (dr_width r)) (x - unat (dr_left r)) (y - unat (dr_top r))) fb'"
    using mark_dirty_repaints [OF wf b px(2) im] by blast
  then show ?thesis using c assms(4) ck_area [OF area] len px(1) by (simp add: fb_blit_def)
qed

lemma fb_blit_dropped:
  assumes wf: "fb_wf fb" and c: "rect_clamped r0 (fb_width fb) (fb_height fb) = Some r"
    and b: "in_bounds (fb_width fb) (fb_height fb) r"
    and "rect_is_empty r \<or> length data < unat (dr_width r) * unat (dr_height r) * 4"
  shows "fb_blit r0 data fb = Some fb"
  using c assms(4) ck_area [OF in_bounds_area [OF wf b]] by (auto simp: fb_blit_def)

section \<open>Fills\<close>

text \<open>Writing the four bytes of one pixel.\<close>

lemma put_pixel:
  assumes "x0 < W" and "y0 < H" and "length px = W * H * 4" and "length bgra = 4"
  shows "\<exists>d. copy_slice px ((y0 * W + x0) * 4) bgra 0 4 = Some d \<and> length d = length px
     \<and> (\<forall>x < W. \<forall>y < H. pixel_at d W x y = (if x = x0 \<and> y = y0 then bgra else pixel_at px W x y))"
proof -
  have b: "pixel_at bgra (Suc 0) 0 0 = bgra"
    using assms(4) by (auto simp: pixel_at_def intro!: nth_equalityI)
  obtain d where "copy_rows ((y0 * W + x0) * 4) (W * 4) bgra (1 * 4) (1 * 4) 1 px = Some d"
    "length d = length px"
    "\<forall>x < W. \<forall>y < H. pixel_at d W x y =
          (if x0 \<le> x \<and> x < x0 + 1 \<and> y0 \<le> y \<and> y < y0 + 1
           then pixel_at bgra 1 (x - x0) (y - y0) else pixel_at px W x y)"
    using copy_rows_pixels [of x0 1 W y0 1 H px 1 bgra] assms by fastforce
  moreover have "x0 \<le> x \<and> x < x0 + 1 \<and> y0 \<le> y \<and> y < y0 + 1 \<longleftrightarrow> x = x0 \<and> y = y0" for x y by auto
  ultimately show ?thesis by (intro exI [of _ d]) (auto simp: copy_rows_def b bind_eq_Some_conv)
qed

lemma fill_columns:
  assumes "left + n \<le> W" and "y0 < H" and "length px = W * H * 4" and "length bgra = 4"
  shows "\<exists>d. fold_opt (\<lambda>column px. copy_slice px ((y0 * W + left) * 4 + column * 4) bgra 0 4) [0..<n] px = Some d
     \<and> length d = length px
     \<and> (\<forall>x < W. \<forall>y < H. pixel_at d W x y =
          (if left \<le> x \<and> x < left + n \<and> y = y0 then bgra else pixel_at px W x y))"
  using assms(1)
proof (induction n)
  case (Suc n)
  then obtain d where d: "fold_opt (\<lambda>column px. copy_slice px ((y0 * W + left) * 4 + column * 4) bgra 0 4) [0..<n] px = Some d"
    "length d = length px"
    "\<forall>x < W. \<forall>y < H. pixel_at d W x y =
      (if left \<le> x \<and> x < left + n \<and> y = y0 then bgra else pixel_at px W x y)" by auto
  have off: "(y0 * W + left) * 4 + n * 4 = (y0 * W + (left + n)) * 4" by simp
  obtain e where e: "copy_slice d ((y0 * W + left) * 4 + n * 4) bgra 0 4 = Some e" "length e = length d"
    "\<forall>x < W. \<forall>y < H. pixel_at e W x y = (if x = left + n \<and> y = y0 then bgra else pixel_at d W x y)"
    unfolding off using put_pixel [of "left + n" W y0 H d bgra] d(2) Suc.prems assms(2-4) by auto
  show ?case
    using d e by (simp add: fold_opt_append less_Suc_eq del: distrib_right_numeral)
qed auto

lemma fill_rows:
  assumes wf: "fb_wf fb" and b: "in_bounds (fb_width fb) (fb_height fb) r" and "length bgra = 4"
    and "n \<le> unat (dr_height r)"
  shows "\<exists>d. fold_opt (fill_row fb r bgra) [0..<n] (fb_pixels fb) = Some d
     \<and> length d = length (fb_pixels fb)
     \<and> (\<forall>x < unat (fb_width fb). \<forall>y < unat (fb_height fb). pixel_at d (unat (fb_width fb)) x y =
          (if inside r x y \<and> y < unat (dr_top r) + n then bgra else shown fb x y))"
  using assms(4)
proof (induction n)
  case 0
  show ?case by (auto simp: shown_def inside_def)
next
  case (Suc n)
  then obtain d where d: "fold_opt (fill_row fb r bgra) [0..<n] (fb_pixels fb) = Some d"
    "length d = length (fb_pixels fb)"
    "\<forall>x < unat (fb_width fb). \<forall>y < unat (fb_height fb). pixel_at d (unat (fb_width fb)) x y =
          (if inside r x y \<and> y < unat (dr_top r) + n then bgra else shown fb x y)" by auto
  have n: "n < unat (dr_height r)" using Suc.prems by simp
  have "fill_row fb r bgra n d
      = fold_opt (\<lambda>column px. copy_slice px (((unat (dr_top r) + n) * unat (fb_width fb) + unat (dr_left r)) * 4
          + column * 4) bgra 0 4) [0..<unat (dr_width r)] d"
    by (simp add: fill_row_def row_offset_ok [OF wf b n])
  with fill_columns [of "unat (dr_left r)" "unat (dr_width r)" "unat (fb_width fb)" "unat (dr_top r) + n"
      "unat (fb_height fb)" d bgra] d(2) assms(3) b n fb_wfD(4) [OF wf]
  obtain e where e: "fill_row fb r bgra n d = Some e" "length e = length d"
    "\<forall>x < unat (fb_width fb). \<forall>y < unat (fb_height fb). pixel_at e (unat (fb_width fb)) x y =
      (if unat (dr_left r) \<le> x \<and> x < unat (dr_left r) + unat (dr_width r) \<and> y = unat (dr_top r) + n
       then bgra else pixel_at d (unat (fb_width fb)) x y)"
    by (auto simp: in_bounds_def)
  with d n show ?case by (auto simp: fold_opt_append inside_def)
qed

lemma fb_fill_clamped:
  assumes wf: "fb_wf fb" and c: "rect_clamped r0 (fb_width fb) (fb_height fb) = Some r"
    and b: "in_bounds (fb_width fb) (fb_height fb) r" and "length bgra = 4"
  shows "\<exists>fb'. fb_fill r0 bgra fb = Some fb' \<and> repaints fb r (\<lambda>x y. bgra) fb'"
proof -
  obtain px where px: "fold_opt (fill_row fb r bgra) [0..<unat (dr_height r)] (fb_pixels fb) = Some px"
    "length px = length (fb_pixels fb)"
    and im: "\<And>x y. x < unat (fb_width fb) \<Longrightarrow> y < unat (fb_height fb) \<Longrightarrow>
      pixel_at px (unat (fb_width fb)) x y = (if inside r x y then bgra else shown fb x y)"
    using fill_rows [OF wf b assms(4) order_refl] by (auto simp: inside_def)
  show ?thesis using mark_dirty_repaints [OF wf b px(2) im] c px(1) by (simp add: fb_fill_def)
qed

section \<open>Resizing\<close>

lemma byte_less: "A < B \<Longrightarrow> c < 4 \<Longrightarrow> A * 4 + c < B * (4::nat)"
  by linarith

lemma pixel_at_zero:
  "x < w \<Longrightarrow> y < h \<Longrightarrow> pixel_at (replicate (w * h * 4) 0) w x y = [0, 0, 0, 0]"
proof -
  assume a: "x < w" "y < h"
  have "y * w + Suc x \<le> w * h" using a by (intro table_bound) simp_all
  then have "y * w + x < w * h" by simp
  note l = byte_less [OF this]
  have "pixel_at (replicate (w * h * 4) 0) w x y = map (\<lambda>c. 0) [0..<4]"
    unfolding pixel_at_def by (intro map_cong refl nth_replicate l) simp
  then show ?thesis by (simp add: upt_rec)
qed

lemma fb_resize_ok:
  fixes w h :: u32
  assumes wf: "fb_wf fb" and size: "unat (max w 1) * unat (max h 1) * 4 < 2 ^ 32"
    and new: "\<not> (max w 1 = fb_width fb \<and> max h 1 = fb_height fb)"
  shows "\<exists>fb'. fb_resize w h fb = Some fb' \<and> fb_wf fb'
     \<and> fb_width fb' = max w 1 \<and> fb_height fb' = max h 1
     \<and> (\<forall>x < unat (max w 1). \<forall>y < unat (max h 1). covered fb' x y \<and> shown fb' x y =
          (if x < unat (fb_width fb) \<and> y < unat (fb_height fb) then shown fb x y else [0, 0, 0, 0]))"
proof -
  let ?W = "max w 1" and ?H = "max h 1"
  let ?n = "min ?W (fb_width fb)" and ?m = "min ?H (fb_height fb)"
  have "unat (fb_width fb) * 4 \<le> unat (fb_width fb) * unat (fb_height fb) * 4"
    using fb_wfD(2) [OF wf] by simp
  then have "unat (fb_width fb) * 4 < 2 ^ 32" using fb_wfD(3) [OF wf] by linarith
  then have "unat ?n * unat (4 :: u32) < 2 ^ LENGTH(32)" by (simp add: unat_min_word)
  note row = ck_mulI [OF this] unat_mul_ck [OF this]
  have data: "k * (unat (fb_width fb) * 4) + unat ?n * 4 \<le> length (fb_pixels fb)" if "k < unat ?m" for k
    using rows_in_data [of "unat (fb_width fb)" "unat (fb_height fb)" "fb_pixels fb" k] that fb_wfD(4) [OF wf]
    by (simp add: unat_min_word)
  obtain px where px: "copy_rows 0 (unat ?W * 4) (fb_pixels fb) (fb_stride fb) (unat ?n * 4) (unat ?m)
      (replicate (unat ?W * unat ?H * 4) 0) = Some px" "length px = unat ?W * unat ?H * 4"
    and im: "\<And>x y. x < unat ?W \<Longrightarrow> y < unat ?H \<Longrightarrow> pixel_at px (unat ?W) x y =
      (if x < unat ?n \<and> y < unat ?m then shown fb x y
       else pixel_at (replicate (unat ?W * unat ?H * 4) 0) (unat ?W) x y)"
    using copy_rows_pixels [of 0 "unat ?n" "unat ?W" 0 "unat ?m" "unat ?H"
        "replicate (unat ?W * unat ?H * 4) 0" "unat (fb_width fb)" "fb_pixels fb"] data
    by (auto simp: fb_stride_def shown_def unat_min_word)
  let ?fb = "fb\<lparr>fb_width := ?W, fb_height := ?H, fb_pixels := px,
    fb_damage := [\<lparr>dr_left = 0, dr_top = 0, dr_width = ?W, dr_height = ?H\<rparr>]\<rparr>"
  have "fb_resize w h fb = Some ?fb"
    using new px(1) row black_ok [OF size] by (auto simp: fb_resize_def Let_def mark_dirty_def)
  moreover have "fb_wf ?fb"
    using size px(2) by (simp add: fb_wf_def in_bounds_def unat_max_of_words less_max_iff_disj)
  ultimately show ?thesis
    using im by (simp add: shown_def pixel_at_zero covered_def inside_def unat_min_word)
qed

section \<open>Operations\<close>

datatype fb_op =
    Op_Blit damage_rect "u8 list"
  | Op_Fill damage_rect "u8 list"
  | Op_Resize u32 u32

fun fb_step :: "fb_op \<Rightarrow> framebuffer \<Rightarrow> framebuffer option" where
  "fb_step (Op_Blit r data) fb = fb_blit r data fb"
| "fb_step (Op_Fill r bgra) fb = fb_fill r bgra fb"
| "fb_step (Op_Resize w h) fb = fb_resize w h fb"

text \<open>A colour has four bytes (the type of the code says so), and a size fits an image of less than
  \<open>2 ^ 32\<close> bytes (which the code does not check).\<close>

fun op_fits :: "fb_op \<Rightarrow> bool" where
  "op_fits (Op_Blit r data) \<longleftrightarrow> True"
| "op_fits (Op_Fill r bgra) \<longleftrightarrow> length bgra = 4"
| "op_fits (Op_Resize w h) \<longleftrightarrow> unat (max w 1) * unat (max h 1) * 4 < 2 ^ 32"

text \<open>What a renderer relies on that last uploaded the image of \<open>old\<close>.\<close>

definition up_to_date :: "framebuffer \<Rightarrow> framebuffer \<Rightarrow> bool" where
  "up_to_date old fb \<longleftrightarrow> fb_wf fb
     \<and> (\<forall>x < unat (fb_width fb). \<forall>y < unat (fb_height fb). \<not> covered fb x y \<longrightarrow>
          x < unat (fb_width old) \<and> y < unat (fb_height old) \<and> shown fb x y = shown old x y)"

lemma up_to_date_repaints: "up_to_date old fb \<Longrightarrow> repaints fb r f fb' \<Longrightarrow> up_to_date old fb'"
  unfolding up_to_date_def by (auto simp: repaints_image) (metis repaints_image(4,5))+

lemma fb_clamp:
  assumes "fb_wf fb"
  obtains c where "rect_clamped r (fb_width fb) (fb_height fb) = Some c"
    and "in_bounds (fb_width fb) (fb_height fb) c"
  using rect_clamped_ok [OF fb_wfD(1,2) [OF assms]] by blast

lemma fb_step_up_to_date:
  assumes "op_fits op"
  shows "keeps (up_to_date old) (fb_step op)"
proof (rule keepsI)
  fix fb
  assume up: "up_to_date old fb"
  then have wf: "fb_wf fb" by (simp add: up_to_date_def)
  show "\<exists>fb'. fb_step op fb = Some fb' \<and> up_to_date old fb'"
  proof (cases op)
    case (Op_Blit r data)
    obtain c where c: "rect_clamped r (fb_width fb) (fb_height fb) = Some c"
      "in_bounds (fb_width fb) (fb_height fb) c" using fb_clamp [OF wf] .
    show ?thesis
    proof (cases "rect_is_empty c \<or> length data < unat (dr_width c) * unat (dr_height c) * 4")
      case True
      with fb_blit_dropped [OF wf c] up show ?thesis by (simp add: Op_Blit)
    next
      case False
      then have "\<not> rect_is_empty c" "unat (dr_width c) * unat (dr_height c) * 4 \<le> length data" by simp_all
      with fb_blit_clamped [OF wf c] up_to_date_repaints [OF up] show ?thesis
        unfolding Op_Blit fb_step.simps by blast
    qed
  next
    case (Op_Fill r bgra)
    obtain c where c: "rect_clamped r (fb_width fb) (fb_height fb) = Some c"
      "in_bounds (fb_width fb) (fb_height fb) c" using fb_clamp [OF wf] .
    have "length bgra = 4" using assms by (simp add: Op_Fill)
    with fb_fill_clamped [OF wf c] up_to_date_repaints [OF up] show ?thesis
      unfolding Op_Fill fb_step.simps by blast
  next
    case (Op_Resize w h)
    with assms have "unat (max w 1) * unat (max h 1) * 4 < 2 ^ 32" by simp
    with fb_resize_ok [OF wf this] up show ?thesis
      by (cases "max w 1 = fb_width fb \<and> max h 1 = fb_height fb")
        (auto simp: Op_Resize up_to_date_def fb_resize_def)
  qed
qed

text \<open>C16: A blit of a bitmap into a nonempty rectangle inside the screen never panics. It replaces
  exactly the pixels of the rectangle, each by the pixel of the bitmap in the same place, and leaves
  the rest of the image alone.\<close>

theorem blit_replaces_rectangle:
  assumes "fb_wf fb" and "in_bounds (fb_width fb) (fb_height fb) r" and "\<not> rect_is_empty r"
    and "unat (dr_width r) * unat (dr_height r) * 4 \<le> length data"
  shows "\<exists>fb'. fb_blit r data fb = Some fb' \<and> fb_wf fb'
     \<and> fb_width fb' = fb_width fb \<and> fb_height fb' = fb_height fb
     \<and> (\<forall>x < unat (fb_width fb). \<forall>y < unat (fb_height fb). shown fb' x y =
          (if inside r x y
           then pixel_at data (unat (dr_width r)) (x - unat (dr_left r)) (y - unat (dr_top r))
           else shown fb x y))"
  using fb_blit_clamped [OF assms(1) rect_clamped_id [OF assms(2,3)] assms(2-4)]
proof (elim exE conjE)
  fix fb'
  assume f: "fb_blit r data fb = Some fb'"
    and p: "repaints fb r
      (\<lambda>x y. pixel_at data (unat (dr_width r)) (x - unat (dr_left r)) (y - unat (dr_top r))) fb'"
  show ?thesis by (intro exI [of _ fb'] conjI allI impI f repaints_image [OF p])
qed

text \<open>C17: No sequence of blits, fills and resizes within the size limit panics, and after it the
  damage that the renderer takes covers every pixel that is new or differs from the image at the
  time the damage was last taken: uploading the damaged rectangle brings the texture up to date.\<close>

theorem damage_covers_changes:
  assumes "fb_wf fb" and "list_all op_fits ops"
  shows "\<exists>fb'. fold_opt fb_step ops (snd (take_damage fb)) = Some fb' \<and> fb_wf fb'
     \<and> (\<forall>x < unat (fb_width fb'). \<forall>y < unat (fb_height fb').
          \<not> list_ex (\<lambda>r. inside r x y) (fst (take_damage fb')) \<longrightarrow>
            x < unat (fb_width fb) \<and> y < unat (fb_height fb) \<and> shown fb' x y = shown fb x y)"
proof -
  have "keeps (up_to_date fb) (fold_opt fb_step ops)"
    using assms(2) by (intro keeps_fold fb_step_up_to_date) (auto simp: list_all_iff)
  moreover have "up_to_date fb (snd (take_damage fb))"
    using assms(1) by (simp add: up_to_date_def take_damage_def fb_wf_def shown_def)
  ultimately obtain fb' where "fold_opt fb_step ops (snd (take_damage fb)) = Some fb'" "up_to_date fb fb'"
    by (rule keepsE)
  then show ?thesis
    by (intro exI [of _ fb']) (simp add: up_to_date_def take_damage_def covered_def)
qed

text \<open>Resizing keeps the overlap of the old and the new screen and paints the rest black.\<close>

theorem resize_keeps_overlap:
  assumes "fb_wf fb" and "unat (max w 1) * unat (max h 1) * 4 < 2 ^ 32"
    and "\<not> (max w 1 = fb_width fb \<and> max h 1 = fb_height fb)"
  shows "\<exists>fb'. fb_resize w h fb = Some fb' \<and> fb_wf fb'
     \<and> fb_width fb' = max w 1 \<and> fb_height fb' = max h 1
     \<and> (\<forall>x < unat (max w 1). \<forall>y < unat (max h 1). shown fb' x y =
          (if x < unat (fb_width fb) \<and> y < unat (fb_height fb) then shown fb x y else [0, 0, 0, 0]))"
  using fb_resize_ok [OF assms] by blast

section \<open>Examples\<close>

definition black_2x2 :: framebuffer where
  "black_2x2 = \<lparr>fb_width = 2, fb_height = 2, fb_pixels = replicate 16 0, fb_damage = []\<rparr>"

definition corner :: damage_rect where
  "corner = \<lparr>dr_left = 1, dr_top = 1, dr_width = 1, dr_height = 1\<rparr>"

lemmas fb_eval = fb_new_def black_def fb_blit_def rect_clamped_def rect_is_empty_def blit_row_def row_offset_def
  copy_slice_def mark_dirty_def ck_add_def ck_sub_def ck_mul_def sat_sub_def black_2x2_def Let_def upt_rec

lemma black_2x2_is_new: "fb_new 2 2 = Some black_2x2"
  by (simp add: fb_eval max_def word_le_nat_alt)

lemma black_2x2_wf: "fb_wf black_2x2"
  by (simp add: fb_wf_def black_2x2_def)

theorem blit_replaces_rectangle_witness:
  "\<exists>fb'. fb_blit corner [1, 2, 3, 4] black_2x2 = Some fb'
     \<and> shown fb' 1 1 = [1, 2, 3, 4] \<and> shown fb' 0 1 = [0, 0, 0, 0]"
proof -
  obtain fb' where f: "fb_blit corner [1, 2, 3, 4] black_2x2 = Some fb'"
    "\<forall>x < unat (fb_width black_2x2). \<forall>y < unat (fb_height black_2x2). shown fb' x y =
      (if inside corner x y
       then pixel_at [1, 2, 3, 4] (unat (dr_width corner)) (x - unat (dr_left corner)) (y - unat (dr_top corner))
       else shown black_2x2 x y)"
    using blit_replaces_rectangle [OF black_2x2_wf, of corner "[1, 2, 3, 4]"]
    by (auto simp: corner_def black_2x2_def in_bounds_def rect_is_empty_def)
  have "shown fb' 1 1 = [1, 2, 3, 4]" "shown fb' 0 1 = [0, 0, 0, 0]"
    using f(2) [rule_format, of 1 1] f(2) [rule_format, of 0 1]
    by (simp_all add: black_2x2_def corner_def inside_def) (simp_all add: pixel_at_def shown_def upt_rec)
  with f(1) show ?thesis by blast
qed

theorem damage_covers_changes_witness:
  "\<exists>fb'. fold_opt fb_step [Op_Blit corner [1, 2, 3, 4], Op_Resize 3 3] (snd (take_damage black_2x2)) = Some fb'
     \<and> fb_wf fb'"
  using damage_covers_changes [OF black_2x2_wf, of "[Op_Blit corner [1, 2, 3, 4], Op_Resize 3 3]"]
  by auto

theorem resize_keeps_overlap_witness:
  "\<exists>fb'. fb_resize 3 0 black_2x2 = Some fb' \<and> fb_width fb' = 3 \<and> fb_height fb' = 1"
  using resize_keeps_overlap [OF black_2x2_wf, of 3 0] by (auto simp: black_2x2_def)

section \<open>Where the code departs from its comments\<close>

text \<open>
  Clamping moves a rectangle instead of clipping it: one that hangs over the right edge is narrowed,
  and its rows are then read from the bitmap at the narrowed width, so that every row but the first
  is taken from the wrong place. Here a bitmap of two columns is drawn with its second column off
  the screen; its first column is 1, 3 and the second row shows the 2 of the first row.
\<close>

lemma overhanging_blit_is_smeared:
  "map_option fb_pixels (fb_blit \<lparr>dr_left = 1, dr_top = 0, dr_width = 2, dr_height = 2\<rparr>
     [1, 1, 1, 1, 2, 2, 2, 2, 3, 3, 3, 3, 4, 4, 4, 4] black_2x2)
   = Some [0, 0, 0, 0, 1, 1, 1, 1, 0, 0, 0, 0, 2, 2, 2, 2]"
  by (simp add: fb_eval min_def word_le_nat_alt) (simp add: numeral_eq_Suc)

text \<open>A rectangle that lies off the screen is not dropped either: it paints the nearest pixel.\<close>

lemma off_screen_blit_paints_the_edge:
  "map_option fb_pixels (fb_blit \<lparr>dr_left = 9, dr_top = 9, dr_width = 1, dr_height = 1\<rparr>
     [7, 7, 7, 7] black_2x2)
   = Some [0, 0, 0, 0, 0, 0, 0, 0, 0, 0, 0, 0, 7, 7, 7, 7]"
  by (simp add: fb_eval min_def word_le_nat_alt) (simp add: numeral_eq_Suc)

text \<open>The byte count is computed in 32 bits. A screen of 32768 by 32768 pixels, which a session that
  reads its size from two 16-bit fields can ask for, does not fit.\<close>

lemma large_screen_overflows: "fb_new 32768 32768 = None"
  by (simp add: fb_new_def black_def ck_mul_def max_def word_le_nat_alt)

end
