(* ===== verification/Rust_Map.thy ===== *)
theory Rust_Map
  imports Rust_Prelude "HOL-Library.List_Lexorder"
begin

text \<open>
  Keyed stores. A \<open>BTreeMap\<close> is the list of its entries in the order of their keys. What several
  components promise of their stores, that a lookup returns what was written last under the key,
  is the contract \<open>key_store\<close>, whose keys may be normalised before they are compared.
\<close>

section \<open>\<open>BTreeMap\<close>\<close>

fun bt_insert :: "'k::linorder \<Rightarrow> 'v \<Rightarrow> ('k \<times> 'v) list \<Rightarrow> ('k \<times> 'v) list" where
  "bt_insert k v [] = [(k, v)]"
| "bt_insert k v ((j, w) # m) =
     (if k < j then (k, v) # (j, w) # m
      else if k = j then (k, v) # m
      else (j, w) # bt_insert k v m)"

definition bt_remove :: "'k \<Rightarrow> ('k \<times> 'v) list \<Rightarrow> ('k \<times> 'v) list" where
  "bt_remove k m = filter (\<lambda>(j, _). j \<noteq> k) m"

definition bt_keys :: "('k \<times> 'v) list \<Rightarrow> 'k list" where
  "bt_keys m = map fst m"

definition bt_wf :: "('k::linorder \<times> 'v) list \<Rightarrow> bool" where
  "bt_wf m \<longleftrightarrow> sorted_wrt (<) (map fst m)"

lemma bt_wf_Nil [simp]: "bt_wf []"
  by (simp add: bt_wf_def)

lemma bt_wf_Cons: "bt_wf ((k, v) # m) \<longleftrightarrow> (\<forall>j \<in> fst ` set m. k < j) \<and> bt_wf m"
  by (auto simp: bt_wf_def)

lemma bt_insert_keys: "fst ` set (bt_insert k v m) = insert k (fst ` set m)"
  by (induction k v m rule: bt_insert.induct) auto

lemma bt_insert_wf [simp]: "bt_wf m \<Longrightarrow> bt_wf (bt_insert k v m)"
  by (induction k v m rule: bt_insert.induct) (auto simp: bt_wf_Cons bt_insert_keys dest: order.strict_trans)

lemma bt_wf_head_fresh: "bt_wf ((k, v) # m) \<Longrightarrow> j \<le> k \<Longrightarrow> map_of m j = None"
  by (force simp: bt_wf_Cons map_of_eq_None_iff)

lemma map_of_bt_insert [simp]: "bt_wf m \<Longrightarrow> map_of (bt_insert k v m) = (map_of m)(k \<mapsto> v)"
  by (induction k v m rule: bt_insert.induct) (auto simp: bt_wf_Cons fun_upd_twist)

lemma bt_remove_wf [simp]: "bt_wf m \<Longrightarrow> bt_wf (bt_remove k m)"
  unfolding bt_wf_def bt_remove_def by (induction m) auto

lemma map_of_bt_remove [simp]: "map_of (bt_remove k m) = (map_of m)(k := None)"
  unfolding bt_remove_def by (induction m) auto

lemma map_of_bt_remove_absent: "map_of m k = None \<Longrightarrow> bt_remove k m = m"
  unfolding bt_remove_def by (induction m) (auto split: if_splits)

lemma bt_keys_lookup: "set (bt_keys m) = dom (map_of m)"
  by (simp add: bt_keys_def dom_map_of_conv_image_fst)

lemma bt_keys_sorted: "bt_wf m \<Longrightarrow> sorted (bt_keys m) \<and> distinct (bt_keys m)"
  by (simp add: bt_wf_def bt_keys_def strict_sorted_iff)

section \<open>Keyed stores\<close>

datatype ('k, 'v) edit = Put 'k 'v | Del 'k

fun edit_key :: "('k, 'v) edit \<Rightarrow> 'k" where
  "edit_key (Put k v) = k"
| "edit_key (Del k) = k"

fun edit_value :: "('k, 'v) edit \<Rightarrow> 'v option" where
  "edit_value (Put k v) = Some v"
| "edit_value (Del k) = None"

locale key_store =
  fixes norm :: "'k \<Rightarrow> 'n"
    and lookup :: "'s \<Rightarrow> 'k \<Rightarrow> 'v option"
    and put :: "'k \<Rightarrow> 'v \<Rightarrow> 's \<Rightarrow> 's"
    and del :: "'k \<Rightarrow> 's \<Rightarrow> 's"
    and inv :: "'s \<Rightarrow> bool"
    and valid :: "'v \<Rightarrow> bool"
  assumes put_inv: "inv s \<Longrightarrow> valid v \<Longrightarrow> inv (put k v s)"
    and del_inv: "inv s \<Longrightarrow> inv (del k s)"
    and lookup_put: "inv s \<Longrightarrow> valid v \<Longrightarrow> lookup (put k v s) j = (if norm j = norm k then Some v else lookup s j)"
    and lookup_del: "inv s \<Longrightarrow> lookup (del k s) j = (if norm j = norm k then None else lookup s j)"
begin

definition edit :: "('k, 'v) edit \<Rightarrow> 's \<Rightarrow> 's" where
  "edit e s = (case e of Put k v \<Rightarrow> put k v s | Del k \<Rightarrow> del k s)"

definition valid_edit :: "('k, 'v) edit \<Rightarrow> bool" where
  "valid_edit e \<longleftrightarrow> (case e of Put k v \<Rightarrow> valid v | Del k \<Rightarrow> True)"

lemma edit_inv: "inv s \<Longrightarrow> valid_edit e \<Longrightarrow> inv (edit e s)"
  by (cases e) (simp_all add: edit_def valid_edit_def put_inv del_inv)

lemma lookup_edit:
  "inv s \<Longrightarrow> valid_edit e \<Longrightarrow> lookup (edit e s) j = (if norm j = norm (edit_key e) then edit_value e else lookup s j)"
  by (cases e) (simp_all add: edit_def valid_edit_def lookup_put lookup_del)

text \<open>The last edit of a key decides; without one the store answers as before.\<close>

lemma last_edit_wins:
  "inv s \<Longrightarrow> list_all valid_edit es \<Longrightarrow> lookup (fold edit es s) j =
     (case filter (\<lambda>e. norm (edit_key e) = norm j) es of
        [] \<Rightarrow> lookup s j
      | xs \<Rightarrow> edit_value (last xs))"
proof (induction es arbitrary: s)
  case (Cons e es)
  then have e: "valid_edit e" "list_all valid_edit es" by simp_all
  from Cons.IH [OF edit_inv [OF Cons.prems(1) e(1)] e(2)] lookup_edit [OF Cons.prems(1) e(1)] show ?case
    by (auto split: list.splits)
qed simp

lemma edits_inv: "inv s \<Longrightarrow> list_all valid_edit es \<Longrightarrow> inv (fold edit es s)"
  by (induction es arbitrary: s) (simp_all add: edit_inv)

end

interpretation bt: key_store "\<lambda>k. k" map_of bt_insert bt_remove bt_wf "\<lambda>_. True"
  by unfold_locales auto

end
