(* ===== verification/Rdp_Tls.thy ===== *)
theory Rdp_Tls
  imports Rust_Io Rust_Map Rdt_Proto
begin

text \<open>
  Certificates of remote desktop servers: the pin store and the verifier of
  \<open>crates/rdt-rdp/src/tls.rs\<close>, and their use during the connection, the module \<open>tls\<close> of
  \<open>crates/rdt-rdp/src/session.rs\<close>. SHA-256 is the parameter \<open>sha\<close>, the JSON library the record
  \<open>pins_json\<close>; the TLS handshake, done by another crate, is given by its result. The key/value
  context of errors is left out.
\<close>

section \<open>The pin store\<close>

datatype certificate_decision =
    VerifiedByCa
  | Pinned ustring
  | RecordedOnFirstUse ustring

record pinned =
  pc_entries :: "ustring \<rightharpoonup> ustring"
  pc_path :: "ustring option"

record pins_json =
  pj_decode :: "ustring \<Rightarrow> ustring + (ustring \<rightharpoonup> ustring)"
  pj_encode :: "(ustring \<rightharpoonup> ustring) \<Rightarrow> ustring + ustring"

definition pins_empty :: pinned where
  "pins_empty = \<lparr>pc_entries = Map.empty, pc_path = None\<rparr>"

definition pins_load :: "pins_json \<Rightarrow> ustring \<Rightarrow> pinned run" where
  "pins_load pj path s =
     (case io_read_string path s of
        (Inl (kind, msg), s') \<Rightarrow> ((if kind = IoNotFound then Inr pins_empty else fail EIo msg), s')
      | (Inr txt, s') \<Rightarrow>
          ((case pj_decode pj txt of
              Inl err \<Rightarrow> fail EConfig (lit ''cannot parse the pin store: '' @ err)
            | Inr entries \<Rightarrow> Inr \<lparr>pc_entries = entries, pc_path = Some path\<rparr>), s'))"

definition pin_get :: "unicode \<Rightarrow> ustring \<Rightarrow> pinned \<Rightarrow> ustring option" where
  "pin_get u host p = pc_entries p (str_lower u host)"

definition pin_put :: "unicode \<Rightarrow> ustring \<Rightarrow> ustring \<Rightarrow> pinned \<Rightarrow> pinned" where
  "pin_put u host fp p = p\<lparr>pc_entries := (pc_entries p)(str_lower u host \<mapsto> fp)\<rparr>"

definition unpin :: "unicode \<Rightarrow> ustring \<Rightarrow> pinned \<Rightarrow> bool \<times> pinned" where
  "unpin u host p =
     (pc_entries p (str_lower u host) \<noteq> None, p\<lparr>pc_entries := (pc_entries p)(str_lower u host := None)\<rparr>)"

definition pins_len :: "pinned \<Rightarrow> nat" where
  "pins_len p = card (dom (pc_entries p))"

definition pins_is_empty :: "pinned \<Rightarrow> bool" where
  "pins_is_empty p \<longleftrightarrow> pc_entries p = Map.empty"

text \<open>The parent directory is created, the text written, the file restricted to its owner.\<close>

definition pins_save :: "pins_json \<Rightarrow> pinned \<Rightarrow> unit run" where
  "pins_save pj p =
     (case pc_path p of
        None \<Rightarrow> pure_run (fail EConfig (lit ''the pin store has no file''))
      | Some path \<Rightarrow>
          run_then (on_err (plain_err EIo) io_touch) (\<lambda>_.
            (case pj_encode pj (pc_entries p) of
               Inl err \<Rightarrow> pure_run (fail EConfig (lit ''cannot encode the pin store: '' @ err))
             | Inr txt \<Rightarrow>
                 run_then (on_err (plain_err EIo) (io_write path (as_bytes txt))) (\<lambda>_.
                   on_err (plain_err EPermission) io_touch))))"

section \<open>The verifier\<close>

record cert_verifier =
  cv_policy :: cert_policy
  cv_pins :: pinned
  cv_host :: ustring

definition verifier_new :: "ustring \<Rightarrow> cert_policy \<Rightarrow> pinned \<Rightarrow> cert_verifier" where
  "verifier_new host policy pins = \<lparr>cv_policy = policy, cv_pins = pins, cv_host = host\<rparr>"

definition sha256_fingerprint :: "(u8 list \<Rightarrow> u8 list) \<Rightarrow> u8 list \<Rightarrow> ustring" where
  "sha256_fingerprint sha der = lit ''sha256:'' @ concat (map show_hex_byte (sha der))"

definition verify ::
  "unicode \<Rightarrow> pins_json \<Rightarrow> (u8 list \<Rightarrow> u8 list) \<Rightarrow> u8 list \<Rightarrow> bool \<Rightarrow> cert_verifier \<Rightarrow> fs
     \<Rightarrow> (certificate_decision rdt_result \<times> cert_verifier) \<times> fs" where
  "verify u pj sha der ca_verified v s =
     (let fp = sha256_fingerprint sha der in
      if ca_verified then ((Inr VerifiedByCa, v), s)
      else
        (case cv_policy v of
           Verify \<Rightarrow>
             ((fail ETls (lit ''the certificate presented by '' @ cv_host v
                 @ lit '' is not signed by a trusted authority''), v), s)
         | VerifyOrPinned \<Rightarrow>
             (case pin_get u (cv_host v) (cv_pins v) of
                Some expected \<Rightarrow>
                  if expected = fp then ((Inr (Pinned fp), v), s)
                  else ((fail ETls (lit ''the certificate for '' @ cv_host v @ lit '' changed; pinned ''
                    @ expected @ lit '', presented '' @ fp), v), s)
              | None \<Rightarrow>
                  ((fail ETls (lit ''no trusted certificate is recorded for '' @ cv_host v), v), s))
         | TrustOnFirstUse \<Rightarrow>
             (case pin_get u (cv_host v) (cv_pins v) of
                Some expected \<Rightarrow>
                  if expected = fp then ((Inr (Pinned fp), v), s)
                  else ((fail ETls (lit ''the certificate for '' @ cv_host v
                    @ lit '' changed since it was first trusted (pinned '' @ expected @ lit '')''), v), s)
              | None \<Rightarrow>
                  (let v' = v\<lparr>cv_pins := pin_put u (cv_host v) fp (cv_pins v)\<rparr> in
                   case pins_save pj (cv_pins v') s of
                     (Inl e, s') \<Rightarrow> ((Inl e, v'), s')
                   | (Inr _, s') \<Rightarrow> ((Inr (RecordedOnFirstUse fp), v'), s')))))"

section \<open>Connecting\<close>

definition rustls_webpki_verified :: "u8 list \<Rightarrow> bool" where
  "rustls_webpki_verified der \<longleftrightarrow> der \<noteq> []"

text \<open>\<open>init\<close> is the outcome of building the connector, \<open>handshake\<close> that of the handshake: an
  error text or the certificate the server presented.\<close>

definition tls_connect ::
  "unicode \<Rightarrow> pins_json \<Rightarrow> (u8 list \<Rightarrow> u8 list) \<Rightarrow> ustring \<Rightarrow> ustring + unit \<Rightarrow> ustring + u8 list
     \<Rightarrow> cert_verifier \<Rightarrow> fs \<Rightarrow> (ustring rdt_result \<times> cert_verifier) \<times> fs" where
  "tls_connect u pj sha peer init handshake v s =
     (case init of
        Inl err \<Rightarrow> ((fail ETls (lit ''cannot initialise TLS: '' @ err), v), s)
      | Inr _ \<Rightarrow>
          (case handshake of
             Inl err \<Rightarrow>
               ((fail ETls (lit ''TLS negotiation with '' @ peer @ lit '' failed: '' @ err), v), s)
           | Inr der \<Rightarrow>
               (case verify u pj sha der (rustls_webpki_verified der) v s of
                  ((Inl e, v'), s') \<Rightarrow> ((Inl e, v'), s')
                | ((Inr decision, v'), s') \<Rightarrow>
                    ((Inr (case decision of
                             Pinned fp \<Rightarrow> fp
                           | RecordedOnFirstUse fp \<Rightarrow> fp
                           | VerifiedByCa \<Rightarrow> sha256_fingerprint sha der), v'), s'))))"

section \<open>The pins as a keyed store\<close>

interpretation pins: key_store "str_lower u" "\<lambda>p h. pin_get u h p" "pin_put u" "\<lambda>h p. snd (unpin u h p)" "\<lambda>_. True" "\<lambda>_. True" for u
  by unfold_locales (auto simp: pin_get_def pin_put_def unpin_def)

lemma pins_save_Inr:
  assumes "pins_save pj p s = (Inr x, s')"
  shows "\<exists>path body. pc_path p = Some path \<and> pj_encode pj (pc_entries p) = Inr body
     \<and> fs_files s' = (fs_files s)(path \<mapsto> as_bytes body)"
proof -
  obtain path body where p: "pc_path p = Some path" "pj_encode pj (pc_entries p) = Inr body"
    using assms by (auto simp: pins_save_def pure_run_def run_then_Inr split: option.splits sum.splits)
  let ?body = "run_then (on_err (plain_err EIo) (io_write path (as_bytes body))) (\<lambda>_. on_err (plain_err EPermission) io_touch)"
  from assms p obtain y s1 where s1: "on_err (plain_err EIo) io_touch s = (Inr y, s1)" "?body s1 = (Inr x, s')"
    by (auto simp: pins_save_def run_then_Inr)
  have "touches {path} ?body" by (intro touch_intros) simp_all
  with s1 have o: "q \<noteq> path \<Longrightarrow> fs_files s' q = fs_files s1 q" for q by (meson singletonD touchesD)
  have "yields (\<lambda>s. True) ?body (\<lambda>s. fs_files s path = Some (as_bytes body))"
    by (rule yields_then [OF yields_calls(4)]) (rule yields_calls(1))
  with s1(2) have "fs_files s' path = Some (as_bytes body)" by (auto dest: yieldsD)
  moreover have "fs_files s1 = fs_files s"
    using s1(1) by (auto simp: on_err_def io_touch_def split: option.splits)
  ultimately have "fs_files s' = (fs_files s)(path \<mapsto> as_bytes body)" using o by (auto intro!: ext)
  with p show ?thesis by blast
qed

end
