(* ===== verification/Rdp_Tls_Props.thy ===== *)
theory Rdp_Tls_Props
  imports Rdp_Tls
begin

text \<open>
  What the certificate verifier promises when it is asked about a certificate that no authority
  vouches for, that a pin written on first use is found again, and that the connection code never
  asks it.
\<close>

lemma verify_untrusted_cases:
  assumes "verify u pj sha der False v s = ((Inr d, v'), s')"
  shows "cv_policy v \<noteq> Verify
     \<and> (pin_get u (cv_host v) (cv_pins v) = Some (sha256_fingerprint sha der)
          \<and> d = Pinned (sha256_fingerprint sha der) \<and> v' = v \<and> s' = s
        \<or> cv_policy v = TrustOnFirstUse \<and> pin_get u (cv_host v) (cv_pins v) = None
          \<and> d = RecordedOnFirstUse (sha256_fingerprint sha der)
          \<and> v' = v\<lparr>cv_pins := pin_put u (cv_host v) (sha256_fingerprint sha der) (cv_pins v)\<rparr>
          \<and> pins_save pj (cv_pins v') s = (Inr (), s'))"
proof (cases "cv_policy v")
  case Verify
  with assms show ?thesis by (simp add: verify_def Let_def del: lit_simps)
next
  case VerifyOrPinned
  with assms show ?thesis
    by (auto simp: verify_def Let_def simp del: lit_simps split: option.splits if_splits)
next
  case TrustOnFirstUse
  with assms show ?thesis
    by (auto simp: verify_def Let_def simp del: lit_simps split: option.splits if_splits prod.splits sum.splits)
qed

text \<open>C18: A certificate that no authority vouches for is accepted only under a policy that allows
  pins, and then only if its fingerprint is the one recorded for the host, or if the policy trusts
  the first use, the host had no pin, and the pin was written to the pin file.\<close>

theorem untrusted_needs_pin:
  assumes "verify u pj sha der False v s = ((Inr d, v'), s')"
  shows "cv_policy v \<noteq> Verify
     \<and> (pin_get u (cv_host v) (cv_pins v) = Some (sha256_fingerprint sha der) \<and> v' = v \<and> s' = s
        \<or> cv_policy v = TrustOnFirstUse \<and> pin_get u (cv_host v) (cv_pins v) = None
          \<and> pin_get u (cv_host v) (cv_pins v') = Some (sha256_fingerprint sha der)
          \<and> (\<exists>path body. pc_path (cv_pins v) = Some path
               \<and> pj_encode pj ((pc_entries (cv_pins v))(str_lower u (cv_host v) \<mapsto> sha256_fingerprint sha der))
                   = Inr body
               \<and> fs_files s' path = Some (as_bytes body)))"
  using verify_untrusted_cases [OF assms]
  by (auto simp: pin_put_def pin_get_def dest!: pins_save_Inr)

text \<open>What is relied on of the JSON library: an encoded pin table decodes to itself.\<close>

definition pins_json_law :: "pins_json \<Rightarrow> bool" where
  "pins_json_law pj \<longleftrightarrow> (\<forall>m body. pj_encode pj m = Inr body \<longrightarrow>
     pj_decode pj body = Inr m \<and> (\<forall>c \<in> set body. is_scalar c))"

lemma saved_pins_load:
  assumes "pins_json_law pj" and "pins_save pj p s = (Inr x, s')" and "pc_path p = Some path"
    and "fs_faults s' = []"
  shows "\<exists>s''. pins_load pj path s' = (Inr p, s'')"
proof -
  obtain body where body: "pj_encode pj (pc_entries p) = Inr body" "fs_files s' path = Some (as_bytes body)"
    using pins_save_Inr [OF assms(2)] assms(3) by auto
  with assms(1) have "pj_decode pj body = Inr (pc_entries p)" "\<forall>c \<in> set body. is_scalar c"
    by (auto simp: pins_json_law_def)
  with body(2) assms(3,4) show ?thesis
    by (simp add: pins_load_def io_read_string_def io_read_def from_utf8_as_bytes)
qed

text \<open>A certificate accepted on first use is remembered: a later connection that loads the pin
  file accepts, under the same policy, exactly the certificates with the same fingerprint.\<close>

theorem first_use_is_remembered:
  assumes "pins_json_law pj" and "pc_path (cv_pins v) = Some path"
    and "verify u pj sha der False v s = ((Inr (RecordedOnFirstUse fp), v'), s')" and "fs_faults s' = []"
  shows "\<exists>p s''. pins_load pj path s' = (Inr p, s'')
     \<and> (\<forall>der'. fst (fst (verify u pj sha der' False (verifier_new (cv_host v) TrustOnFirstUse p) s''))
            = Inr (Pinned fp) \<longleftrightarrow> sha256_fingerprint sha der' = fp)
     \<and> (\<forall>der' d. fst (fst (verify u pj sha der' False (verifier_new (cv_host v) TrustOnFirstUse p) s''))
            = Inr d \<longrightarrow> d = Pinned fp)"
proof -
  have c: "fp = sha256_fingerprint sha der"
    "v' = v\<lparr>cv_pins := pin_put u (cv_host v) fp (cv_pins v)\<rparr>" "pins_save pj (cv_pins v') s = (Inr (), s')"
    using verify_untrusted_cases [OF assms(3)] by auto
  moreover have "pc_path (cv_pins v') = Some path" using c(2) assms(2) by (simp add: pin_put_def)
  ultimately obtain s'' where l: "pins_load pj path s' = (Inr (cv_pins v'), s'')"
    using saved_pins_load [OF assms(1) _ _ assms(4)] by blast
  have g: "pin_get u (cv_host v) (cv_pins v') = Some fp"
    using c(2) by (simp add: pins.lookup_put)
  have "fst (fst (verify u pj sha der' False (verifier_new (cv_host v) TrustOnFirstUse (cv_pins v')) s''))
      = (if fp = sha256_fingerprint sha der' then Inr (Pinned fp)
         else fail ETls (lit ''the certificate for '' @ cv_host v
           @ lit '' changed since it was first trusted (pinned '' @ fp @ lit '')''))" for der'
    by (simp add: verify_def verifier_new_def g)
  with l show ?thesis by (intro exI [of _ "cv_pins v'"] exI [of _ s'']) auto
qed

text \<open>The connection code never consults the policy or the pins: whenever the handshake delivers
  a certificate, it is accepted, whatever the policy, the pins and the certificate are.\<close>

theorem any_certificate_accepted:
  assumes "der \<noteq> []"
  shows "tls_connect u pj sha peer (Inr ()) (Inr der) v s = ((Inr (sha256_fingerprint sha der), v), s)"
  using assms by (simp add: tls_connect_def verify_def rustls_webpki_verified_def)

text \<open>On a machine without a pin file the first use is refused: loading gives a store that has no
  path, which cannot be saved. The pin stays in memory, so a second attempt with the same verifier
  succeeds.\<close>

lemma first_use_without_file_fails:
  assumes "cv_policy v = TrustOnFirstUse" and "cv_pins v = pins_empty"
  shows "\<exists>v'. verify u pj sha der False v s
       = ((fail EConfig (lit ''the pin store has no file''), v'), s)
     \<and> verify u pj sha der False v' s = ((Inr (Pinned (sha256_fingerprint sha der)), v'), s)"
  using assms
  by (simp add: verify_def Let_def pins_save_def pure_run_def pins_empty_def pin_put_def pin_get_def fail_def)

lemma missing_pin_file_loads_empty:
  "fs_files s path = None \<Longrightarrow> fs_faults s = [] \<Longrightarrow> fst (pins_load pj path s) = Inr pins_empty"
  by (simp add: pins_load_def io_read_string_def io_read_def not_found_def)

section \<open>Examples\<close>

text \<open>A toy encoding of one-entry tables and a toy digest.\<close>

definition no_lower :: unicode where
  "no_lower = \<lparr>str_lower = (\<lambda>s. s), chr_lower = (\<lambda>c. [c])\<rparr>"

definition toy_pins :: "(ustring \<rightharpoonup> ustring) \<Rightarrow> pins_json" where
  "toy_pins m = \<lparr>pj_decode = (\<lambda>t. if t = [123] then Inr m else Inl []),
     pj_encode = (\<lambda>n. if n (lit ''h'') = m (lit ''h'') \<and> n = m then Inr [123] else Inl [])\<rparr>"

definition tofu_verifier :: cert_verifier where
  "tofu_verifier = verifier_new (lit ''h'') TrustOnFirstUse \<lparr>pc_entries = Map.empty, pc_path = Some (lit ''p'')\<rparr>"

definition pinned_h :: "ustring \<rightharpoonup> ustring" where
  "pinned_h = [lit ''h'' \<mapsto> sha256_fingerprint (\<lambda>d. d) [1]]"

definition empty_disk :: fs where
  "empty_disk = \<lparr>fs_files = Map.empty, fs_faults = []\<rparr>"

lemma toy_pins_law: "pins_json_law (toy_pins m)"
  by (auto simp: pins_json_law_def toy_pins_def is_scalar_def split: if_splits)

lemma tofu_first:
  "\<exists>v' s'. verify no_lower (toy_pins pinned_h) (\<lambda>d. d) [1] False tofu_verifier empty_disk
     = ((Inr (RecordedOnFirstUse (sha256_fingerprint (\<lambda>d. d) [1])), v'), s') \<and> fs_faults s' = []"
  by (simp add: verify_def tofu_verifier_def verifier_new_def no_lower_def pin_get_def pin_put_def Let_def
      pins_save_def toy_pins_def pinned_h_def run_then_def on_err_def io_touch_def io_write_def io_create_def
      io_write_all_def empty_disk_def after_call_def set_file_def)

theorem untrusted_needs_pin_witness:
  "\<exists>v' s'. verify no_lower (toy_pins pinned_h) (\<lambda>d. d) [1] False tofu_verifier empty_disk
       = ((Inr (RecordedOnFirstUse (sha256_fingerprint (\<lambda>d. d) [1])), v'), s')
     \<and> cv_policy tofu_verifier \<noteq> Verify
     \<and> pin_get no_lower (cv_host tofu_verifier) (cv_pins v') = Some (sha256_fingerprint (\<lambda>d. d) [1])"
proof -
  obtain v' s' where v: "verify no_lower (toy_pins pinned_h) (\<lambda>d. d) [1] False tofu_verifier empty_disk
     = ((Inr (RecordedOnFirstUse (sha256_fingerprint (\<lambda>d. d) [1])), v'), s')" using tofu_first by blast
  from untrusted_needs_pin [OF this]
  have "cv_policy tofu_verifier \<noteq> Verify"
    "pin_get no_lower (cv_host tofu_verifier) (cv_pins v') = Some (sha256_fingerprint (\<lambda>d. d) [1])" by auto
  with v show ?thesis by blast
qed

theorem first_use_is_remembered_witness:
  "\<exists>v' s' p s''. verify no_lower (toy_pins pinned_h) (\<lambda>d. d) [1] False tofu_verifier empty_disk
       = ((Inr (RecordedOnFirstUse (sha256_fingerprint (\<lambda>d. d) [1])), v'), s')
     \<and> pins_load (toy_pins pinned_h) (lit ''p'') s' = (Inr p, s'')
     \<and> fst (fst (verify no_lower (toy_pins pinned_h) (\<lambda>d. d) [1] False
           (verifier_new (cv_host tofu_verifier) TrustOnFirstUse p) s''))
         = Inr (Pinned (sha256_fingerprint (\<lambda>d. d) [1]))"
proof -
  obtain v' s' where v: "verify no_lower (toy_pins pinned_h) (\<lambda>d. d) [1] False tofu_verifier empty_disk
     = ((Inr (RecordedOnFirstUse (sha256_fingerprint (\<lambda>d. d) [1])), v'), s')" "fs_faults s' = []"
    using tofu_first by blast
  have "pc_path (cv_pins tofu_verifier) = Some (lit ''p'')" by (simp add: tofu_verifier_def verifier_new_def)
  from first_use_is_remembered [OF toy_pins_law this v] v(1) show ?thesis by blast
qed

theorem any_certificate_accepted_witness:
  "fst (fst (tls_connect no_lower (toy_pins pinned_h) (\<lambda>d. d) [] (Inr ()) (Inr [2])
     (verifier_new (lit ''h'') VerifyOrPinned \<lparr>pc_entries = pinned_h, pc_path = None\<rparr>) empty_disk))
   = Inr (sha256_fingerprint (\<lambda>d. d) [2])"
  using any_certificate_accepted [of "[2]"] by (simp del: lit_simps)

end
