(* ===== verification/Ssh_Handler.thy ===== *)
theory Ssh_Handler
  imports Ssh_Known_Hosts Rdt_Redact
begin

text \<open>
  Verification of host keys during the connection, \<open>crates/rdt-ssh/src/handler.rs\<close>. The callback
  \<open>check_server_key\<close> holds the lock of the shared database three times, and waits for the user
  before the last; its body is therefore three functions, each of which sees the database of its
  own time, and one that runs them in a row. Channels are given by what comes out of them: a
  prompt may find no receiver, and the answer may never be sent. Banners and logging are left out,
  as is the key/value context of errors.
\<close>

datatype host_key_decision = AcceptOnce | AcceptAndSave | Reject

datatype prompt =
    UnknownHostKey ustring u16 ustring ustring
  | Credential ustring "(ustring \<times> bool) list"

record client_handler =
  ch_host :: ustring
  ch_port :: u16
  ch_policy :: host_key_policy
  ch_accepted :: "ustring option"

definition handler_new :: "ustring \<Rightarrow> u16 \<Rightarrow> host_key_policy \<Rightarrow> client_handler" where
  "handler_new host port policy =
     \<lparr>ch_host = host, ch_port = port, ch_policy = policy, ch_accepted = None\<rparr>"

text \<open>\<open>ClientHandler::verify_host_key\<close>.\<close>

definition verify_host_key ::
  "codec \<Rightarrow> unicode \<Rightarrow> client_handler \<Rightarrow> ustring \<Rightarrow> u8 list \<Rightarrow> known_hosts \<Rightarrow> bool rdt_result" where
  "verify_host_key cd u h key_type key db =
     (case known_hosts_check cd u db (ch_host h) (ch_port h) key_type key of
        Trusted \<Rightarrow> Inr True
      | Unknown \<Rightarrow>
          if auto_accepts_unknown (ch_policy h) then Inr True
          else fail EHostKeyUnknown (lit ''host key for '' @ ch_host h
            @ lit '' is not recorded and the policy is strict'')
      | Changed known_fingerprint known_key_type \<Rightarrow>
          fail EHostKeyMismatch (lit ''the host key for '' @ ch_host h @ lit '' changed; recorded ''
            @ known_key_type @ [32] @ known_fingerprint)
      | Revoked \<Rightarrow>
          fail EHostKeyMismatch (lit ''the host key for '' @ ch_host h @ lit '' has been revoked'')
      | Excluded \<Rightarrow>
          fail EHostKeyMismatch (lit ''the host '' @ ch_host h
            @ lit '' is excluded by a negated known_hosts pattern''))"

text \<open>\<open>HandlerRef::verify_host_key\<close>, which the callback uses.\<close>

definition ref_verify_host_key ::
  "codec \<Rightarrow> unicode \<Rightarrow> client_handler \<Rightarrow> ustring \<Rightarrow> u8 list \<Rightarrow> known_hosts \<Rightarrow> bool rdt_result" where
  "ref_verify_host_key cd u h key_type key db =
     (case known_hosts_check cd u db (ch_host h) (ch_port h) key_type key of
        Trusted \<Rightarrow> Inr True
      | _ \<Rightarrow> fail EHostKeyUnknown (lit ''not trusted''))"

text \<open>The database in memory is changed; a failure to save it is only logged.\<close>

definition remember_host_key ::
  "codec \<Rightarrow> unicode \<Rightarrow> client_handler \<Rightarrow> ustring \<Rightarrow> u8 list \<Rightarrow> known_hosts \<Rightarrow> known_hosts" where
  "remember_host_key cd u h key_type key db =
     known_hosts_accept cd u (ch_host h) (ch_port h) key_type key (ch_host h) db"

text \<open>The second look at the database: an error, or the prompt to send.\<close>

definition decide ::
  "codec \<Rightarrow> unicode \<Rightarrow> client_handler \<Rightarrow> ustring \<Rightarrow> u8 list \<Rightarrow> known_hosts \<Rightarrow> prompt rdt_result" where
  "decide cd u h key_type key db =
     (let status = known_hosts_check cd u db (ch_host h) (ch_port h) key_type key in
      if status_is_fatal status then
        fail EHostKeyMismatch (lit ''host key verification failed for '' @ ch_host h @ lit '': ''
          @ status_display status)
      else if ch_policy h = Strict then
        fail EHostKeyUnknown (lit ''host key for '' @ ch_host h @ lit '' is unknown and the policy is strict'')
      else Inr (UnknownHostKey (ch_host h) (ch_port h) key_type (fingerprint cd key)))"

text \<open>The answer, \<open>None\<close> when its sender was dropped.\<close>

definition on_answer ::
  "codec \<Rightarrow> unicode \<Rightarrow> ustring \<Rightarrow> u8 list \<Rightarrow> host_key_decision option \<Rightarrow> client_handler \<Rightarrow> known_hosts
     \<Rightarrow> bool rdt_result \<times> client_handler \<times> known_hosts" where
  "on_answer cd u key_type key reply h db =
     (let accepted = h\<lparr>ch_accepted := Some (fingerprint cd key)\<rparr> in
      case reply of
        Some AcceptAndSave \<Rightarrow> (Inr True, accepted, remember_host_key cd u h key_type key db)
      | Some AcceptOnce \<Rightarrow> (Inr True, accepted, db)
      | Some Reject \<Rightarrow> (fail EHostKeyUnknown (lit ''the host key was rejected''), h, db)
      | None \<Rightarrow> (fail EHostKeyUnknown (lit ''the host key was rejected''), h, db))"

text \<open>The whole callback when nothing else touches the database meanwhile. \<open>ui\<close> answers a prompt:
  \<open>None\<close> when nobody receives it.\<close>

definition check_server_key ::
  "codec \<Rightarrow> unicode \<Rightarrow> (prompt \<Rightarrow> host_key_decision option option) \<Rightarrow> ustring \<Rightarrow> u8 list
     \<Rightarrow> client_handler \<Rightarrow> known_hosts \<Rightarrow> bool rdt_result \<times> client_handler \<times> known_hosts" where
  "check_server_key cd u ui key_type key h db =
     (if ref_verify_host_key cd u h key_type key db = Inr True then
        (Inr True, h\<lparr>ch_accepted := Some (fingerprint cd key)\<rparr>, db)
      else
        (case decide cd u h key_type key db of
           Inl e \<Rightarrow> (Inl e, h, db)
         | Inr p \<Rightarrow>
             (case ui p of
                None \<Rightarrow>
                  (fail EHostKeyUnknown (lit ''no user interface is available to confirm the host key''), h, db)
              | Some reply \<Rightarrow> on_answer cd u key_type key reply h db)))"

definition describe_prompt :: "prompt \<Rightarrow> ustring" where
  "describe_prompt p =
     (case p of
        UnknownHostKey host port key_type fp \<Rightarrow> lit ''host key '' @ host @ [32] @ fp
      | Credential instruction prompts \<Rightarrow>
          lit ''credential prompt: '' @ instruction @ lit '' (answer '' @ redacted @ lit '')'')"

section \<open>Concurrent connections\<close>

text \<open>
  Connections share the database. Each is in one of the phases of the callback; the log says why a
  key was accepted, with the database that was consulted. Anything else may change the database at
  any time.
\<close>

datatype phase = Connecting | Checked | Asking | Accepted | Refused rdt_error

record conn =
  cn_handler :: client_handler
  cn_key_type :: ustring
  cn_key :: "u8 list"
  cn_phase :: phase

datatype why = Found_Trusted nat known_hosts | Answered nat host_key_decision

record net =
  nt_db :: known_hosts
  nt_conns :: "conn list"
  nt_log :: "why list"

definition set_phase :: "nat \<Rightarrow> phase \<Rightarrow> net \<Rightarrow> net" where
  "set_phase i p s = s\<lparr>nt_conns := (nt_conns s)[i := (nt_conns s ! i)\<lparr>cn_phase := p\<rparr>]\<rparr>"

inductive nstep :: "codec \<Rightarrow> unicode \<Rightarrow> net \<Rightarrow> net \<Rightarrow> bool" for cd u where
  found: "\<lbrakk>i < length (nt_conns s); c = nt_conns s ! i; cn_phase c = Connecting;
      ref_verify_host_key cd u (cn_handler c) (cn_key_type c) (cn_key c) (nt_db s) = Inr True\<rbrakk>
    \<Longrightarrow> nstep cd u s ((set_phase i Accepted s)\<lparr>nt_log := nt_log s @ [Found_Trusted i (nt_db s)]\<rparr>)"
| not_found: "\<lbrakk>i < length (nt_conns s); c = nt_conns s ! i; cn_phase c = Connecting;
      ref_verify_host_key cd u (cn_handler c) (cn_key_type c) (cn_key c) (nt_db s) \<noteq> Inr True\<rbrakk>
    \<Longrightarrow> nstep cd u s (set_phase i Checked s)"
| refused: "\<lbrakk>i < length (nt_conns s); c = nt_conns s ! i; cn_phase c = Checked;
      decide cd u (cn_handler c) (cn_key_type c) (cn_key c) (nt_db s) = Inl e\<rbrakk>
    \<Longrightarrow> nstep cd u s (set_phase i (Refused e) s)"
| no_ui: "\<lbrakk>i < length (nt_conns s); c = nt_conns s ! i; cn_phase c = Checked;
      decide cd u (cn_handler c) (cn_key_type c) (cn_key c) (nt_db s) = Inr p\<rbrakk>
    \<Longrightarrow> nstep cd u s (set_phase i (Refused (error_new EHostKeyUnknown
          (lit ''no user interface is available to confirm the host key''))) s)"
| asked: "\<lbrakk>i < length (nt_conns s); c = nt_conns s ! i; cn_phase c = Checked;
      decide cd u (cn_handler c) (cn_key_type c) (cn_key c) (nt_db s) = Inr p\<rbrakk>
    \<Longrightarrow> nstep cd u s (set_phase i Asking s)"
| answered: "\<lbrakk>i < length (nt_conns s); c = nt_conns s ! i; cn_phase c = Asking;
      on_answer cd u (cn_key_type c) (cn_key c) reply (cn_handler c) (nt_db s) = (r, h, db)\<rbrakk>
    \<Longrightarrow> nstep cd u s (s\<lparr>nt_db := db,
          nt_conns := (nt_conns s)[i := c\<lparr>cn_handler := h,
            cn_phase := (case r of Inr _ \<Rightarrow> Accepted | Inl e \<Rightarrow> Refused e)\<rparr>],
          nt_log := nt_log s @ (case reply of Some d \<Rightarrow> [Answered i d] | None \<Rightarrow> [])\<rparr>)"
| elsewhere: "nstep cd u s (s\<lparr>nt_db := db\<rparr>)"

definition fresh_net :: "net \<Rightarrow> bool" where
  "fresh_net s \<longleftrightarrow> nt_log s = [] \<and> list_all (\<lambda>c. cn_phase c = Connecting) (nt_conns s)"

definition net_reachable :: "codec \<Rightarrow> unicode \<Rightarrow> net \<Rightarrow> bool" where
  "net_reachable cd u s \<longleftrightarrow> (\<exists>s0. fresh_net s0 \<and> (nstep cd u)\<^sup>*\<^sup>* s0 s)"

section \<open>Why a key is accepted\<close>

lemma ref_verify_iff:
  "ref_verify_host_key cd u h kt key db = Inr True \<longleftrightarrow>
     known_hosts_check cd u db (ch_host h) (ch_port h) kt key = Trusted"
  by (simp add: ref_verify_host_key_def split: host_key_status.split)

lemma decide_Inr:
  "decide cd u h kt key db = Inr p \<Longrightarrow> ch_policy h \<noteq> Strict
     \<and> \<not> status_is_fatal (known_hosts_check cd u db (ch_host h) (ch_port h) kt key)"
  by (auto simp: decide_def Let_def simp del: lit_simps split: if_splits)

lemma on_answer_cases:
  assumes "on_answer cd u kt key reply h db = (r, h', db')"
  shows "ch_host h' = ch_host h \<and> ch_port h' = ch_port h \<and> ch_policy h' = ch_policy h
     \<and> ((\<exists>e. r = Inl e) \<or> r = Inr True \<and> (\<exists>d. reply = Some d \<and> d \<noteq> Reject))"
  using assms by (auto simp: on_answer_def Let_def fail_def simp del: lit_simps
      split: option.splits host_key_decision.splits)

text \<open>The invariant of a connection: what justifies its phase.\<close>

definition justified :: "codec \<Rightarrow> unicode \<Rightarrow> why list \<Rightarrow> nat \<Rightarrow> conn \<Rightarrow> bool" where
  "justified cd u evs i c \<longleftrightarrow>
     (cn_phase c = Asking \<longrightarrow> ch_policy (cn_handler c) \<noteq> Strict)
     \<and> (cn_phase c = Accepted \<longrightarrow>
          (\<exists>db. Found_Trusted i db \<in> set evs
             \<and> known_hosts_check cd u db (ch_host (cn_handler c)) (ch_port (cn_handler c))
                 (cn_key_type c) (cn_key c) = Trusted)
          \<or> ch_policy (cn_handler c) \<noteq> Strict \<and> (\<exists>d. d \<noteq> Reject \<and> Answered i d \<in> set evs))"

lemma justified_mono: "justified cd u evs i c \<Longrightarrow> set evs \<subseteq> set evs' \<Longrightarrow> justified cd u evs' i c"
  by (auto simp: justified_def)

definition net_inv :: "codec \<Rightarrow> unicode \<Rightarrow> net \<Rightarrow> bool" where
  "net_inv cd u s \<longleftrightarrow> (\<forall>i < length (nt_conns s). justified cd u (nt_log s) i (nt_conns s ! i))"

lemma net_inv_update:
  assumes "net_inv cd u s" and "nt_conns s' = (nt_conns s)[i := c']" and "set (nt_log s) \<subseteq> set (nt_log s')"
    and "i < length (nt_conns s) \<Longrightarrow> justified cd u (nt_log s') i c'"
  shows "net_inv cd u s'"
  unfolding net_inv_def
proof (intro allI impI)
  fix j
  assume "j < length (nt_conns s')"
  then show "justified cd u (nt_log s') j (nt_conns s' ! j)"
    using assms justified_mono by (cases "j = i") (auto simp: net_inv_def)
qed

lemma net_inv_phase:
  assumes "net_inv cd u s" and "nt_conns s' = nt_conns (set_phase i p s)" and "set (nt_log s) \<subseteq> set (nt_log s')"
    and "i < length (nt_conns s) \<Longrightarrow> justified cd u (nt_log s') i ((nt_conns s ! i)\<lparr>cn_phase := p\<rparr>)"
  shows "net_inv cd u s'"
  by (rule net_inv_update [OF assms(1) _ assms(3,4)]) (simp_all add: assms(2) set_phase_def)

lemma justified_quiet:
  "p \<noteq> Asking \<Longrightarrow> p \<noteq> Accepted \<Longrightarrow> justified cd u evs i (c\<lparr>cn_phase := p\<rparr>)"
  by (simp add: justified_def)

lemma net_inv_quiet:
  assumes "net_inv cd u s" and "p \<noteq> Asking" and "p \<noteq> Accepted"
  shows "net_inv cd u (set_phase i p s)"
  by (rule net_inv_phase [OF assms(1) refl]) (use assms(2,3) in \<open>simp_all add: set_phase_def justified_quiet\<close>)

lemma nstep_inv: "nstep cd u s s' \<Longrightarrow> net_inv cd u s \<Longrightarrow> net_inv cd u s'"
proof (induction rule: nstep.induct)
  case (found i s c)
  show ?case
  proof (rule net_inv_phase [OF found.prems, of _ i Accepted])
    show "justified cd u (nt_log ((set_phase i Accepted s)\<lparr>nt_log := nt_log s @ [Found_Trusted i (nt_db s)]\<rparr>)) i
        ((nt_conns s ! i)\<lparr>cn_phase := Accepted\<rparr>)"
      using found.hyps(2,4) by (auto simp: justified_def ref_verify_iff)
  qed (auto simp: set_phase_def)
next
  case (asked i s c p)
  have "ch_policy (cn_handler c) \<noteq> Strict" using decide_Inr [OF asked.hyps(4)] by simp
  then show ?case using asked.hyps(2)
    by (intro net_inv_phase [OF asked.prems refl]) (simp_all add: justified_def set_phase_def)
next
  case (answered i s c reply r h db)
  have "ch_policy (cn_handler c) \<noteq> Strict"
    using answered.prems answered.hyps(1-3) by (auto simp: net_inv_def justified_def)
  moreover note on_answer_cases [OF answered.hyps(4)]
  ultimately have "justified cd u (nt_log s @ (case reply of Some d \<Rightarrow> [Answered i d] | None \<Rightarrow> [])) i
      (c\<lparr>cn_handler := h, cn_phase := (case r of Inr _ \<Rightarrow> Accepted | Inl e \<Rightarrow> Refused e)\<rparr>)"
    by (auto simp: justified_def)
  then show ?case
    by (intro net_inv_update [OF answered.prems, of _ i]) simp_all
next
  case (elsewhere s db)
  then show ?case by (simp add: net_inv_def)
qed (rule net_inv_quiet; simp)+

lemma net_reachable_inv: "net_reachable cd u s \<Longrightarrow> net_inv cd u s"
proof -
  assume "net_reachable cd u s"
  then obtain s0 where "fresh_net s0" and r: "(nstep cd u)\<^sup>*\<^sup>* s0 s" by (auto simp: net_reachable_def)
  then have "net_inv cd u s0" by (auto simp: fresh_net_def net_inv_def justified_def list_all_length)
  with r show ?thesis by (induction rule: rtranclp_induct) (auto intro: nstep_inv)
qed

end
