(* ===== verification/Ssh_Handler_Props.thy ===== *)
theory Ssh_Handler_Props
  imports Ssh_Handler Ssh_Known_Hosts_Props
begin

text \<open>
  What host key verification promises with any number of connections at once, that a saved answer
  is honoured by the next connection, and what the gap between question and answer allows.
\<close>

text \<open>C19: In every state that concurrent connections can reach, whatever else happens to the
  database, a server key was accepted only because the database, when it was asked, trusted
  exactly this key for this host, or because the policy allows asking and the user did not reject
  it. Under the strict policy only the first is possible.\<close>

theorem accepted_for_a_reason:
  assumes "net_reachable cd u s" and "i < length (nt_conns s)" and "cn_phase (nt_conns s ! i) = Accepted"
  shows "(\<exists>db. Found_Trusted i db \<in> set (nt_log s)
       \<and> known_hosts_check cd u db (ch_host (cn_handler (nt_conns s ! i))) (ch_port (cn_handler (nt_conns s ! i)))
           (cn_key_type (nt_conns s ! i)) (cn_key (nt_conns s ! i)) = Trusted)
     \<or> ch_policy (cn_handler (nt_conns s ! i)) \<noteq> Strict
       \<and> (\<exists>d. d \<noteq> Reject \<and> Answered i d \<in> set (nt_log s))"
  using net_reachable_inv [OF assms(1)] assms(2,3) by (auto simp: net_inv_def justified_def)

lemma check_loop_Unknown:
  "check_loop cd u host port kt key es same other = Unknown \<Longrightarrow>
     \<forall>e \<in> set es. entry_matches cd u e host port \<and> kh_key e = key \<longrightarrow> kh_marker e = CertAuthority"
proof (induction es arbitrary: same other)
  case (Cons e es)
  then show ?case
    by (auto split: if_splits marker.splits option.splits)
qed simp

lemma remembered_is_trusted:
  assumes "lowers_ascii u" and "plain_host (ch_host h)"
    and "\<forall>e \<in> set (db_entries db). entry_matches cd u e (ch_host h) (ch_port h) \<and> kh_key e = key
           \<longrightarrow> kh_marker e \<noteq> RevokedMarker"
  shows "known_hosts_check cd u (remember_host_key cd u h kt key db) (ch_host h) (ch_port h) kt key = Trusted"
  unfolding known_hosts_check_def remember_host_key_def known_hosts_accept_def
  by (rule check_loop_accepts) (use assms candidate_matches [OF assms(1,2)] in auto)

text \<open>Trust on first use: when a host has no recorded key, the policy allows asking and the
  user answers that the key is to be saved, the connection goes on, and every later connection to
  the host with that key is accepted without a question, under any policy.\<close>

theorem saved_key_needs_no_question:
  assumes "lowers_ascii u" and "plain_host (ch_host h)" and "ch_policy h = AcceptNew"
    and "known_hosts_check cd u db (ch_host h) (ch_port h) kt key = Unknown"
    and "ui (UnknownHostKey (ch_host h) (ch_port h) kt (fingerprint cd key)) = Some (Some AcceptAndSave)"
  shows "\<exists>h' db'. check_server_key cd u ui kt key h db = (Inr True, h', db')
     \<and> (\<forall>policy ui2. check_server_key cd u ui2 kt key (handler_new (ch_host h) (ch_port h) policy) db'
          = (Inr True, (handler_new (ch_host h) (ch_port h) policy)\<lparr>ch_accepted := Some (fingerprint cd key)\<rparr>, db'))"
proof -
  have "\<forall>e \<in> set (db_entries db). entry_matches cd u e (ch_host h) (ch_port h) \<and> kh_key e = key
      \<longrightarrow> kh_marker e \<noteq> RevokedMarker"
    using check_loop_Unknown [OF assms(4) [unfolded known_hosts_check_def]] by auto
  note t = remembered_is_trusted [OF assms(1,2) this]
  have "check_server_key cd u ui kt key h db
      = (Inr True, h\<lparr>ch_accepted := Some (fingerprint cd key)\<rparr>, remember_host_key cd u h kt key db)"
    using assms(3-5)
    by (simp add: check_server_key_def ref_verify_iff decide_def on_answer_def status_is_fatal_def)
  moreover have "check_server_key cd u ui2 kt key (handler_new (ch_host h) (ch_port h) policy) (remember_host_key cd u h kt key db)
      = (Inr True, (handler_new (ch_host h) (ch_port h) policy)\<lparr>ch_accepted := Some (fingerprint cd key)\<rparr>,
         remember_host_key cd u h kt key db)" for policy ui2
    using t by (simp add: check_server_key_def ref_verify_iff handler_new_def)
  ultimately show ?thesis by blast
qed

text \<open>A changed, revoked or excluded key is refused under every policy, without a question.\<close>

lemma fatal_status_refused:
  assumes "status_is_fatal (known_hosts_check cd u db (ch_host h) (ch_port h) kt key)"
  shows "\<exists>e. check_server_key cd u ui kt key h db = (Inl e, h, db) \<and> e_code e = EHostKeyMismatch"
  using assms
  by (auto simp: check_server_key_def ref_verify_iff decide_def Let_def fail_def status_is_fatal_def
      simp del: lit_simps split: host_key_status.splits)

text \<open>
  The answer is not checked against the database of its own time. When two connections to a new
  host with different keys are both waiting, and both answers are to save, the second replaces the
  key that the first recorded, although a check at that moment would report a changed key.
\<close>

lemma late_answer_replaces_key:
  assumes "lowers_ascii u" and "plain_host (ch_host h)"
    and "\<forall>e \<in> set (db_entries db). entry_matches cd u e (ch_host h) (ch_port h) \<and> kh_key e = key
           \<longrightarrow> kh_marker e \<noteq> RevokedMarker"
    and "known_hosts_check cd u db (ch_host h) (ch_port h) kt key = Changed fp kt'"
  shows "\<exists>h' db'. on_answer cd u kt key (Some AcceptAndSave) h db = (Inr True, h', db')
     \<and> known_hosts_check cd u db' (ch_host h) (ch_port h) kt key = Trusted"
  using remembered_is_trusted [OF assms(1-3)] by (simp add: on_answer_def)

text \<open>The unused check of \<open>ClientHandler\<close> lets every unknown key pass when the policy accepts new
  hosts, without asking.\<close>

lemma unused_check_accepts_unknown:
  "ch_policy h = AcceptNew \<Longrightarrow> known_hosts_check cd u db (ch_host h) (ch_port h) kt key = Unknown \<Longrightarrow>
     verify_host_key cd u h kt key db = Inr True"
  by (simp add: verify_host_key_def auto_accepts_unknown_def)

section \<open>Examples\<close>

definition new_host :: client_handler where
  "new_host = handler_new (lit ''h'') 22 AcceptNew"

definition asking_net :: net where
  "asking_net = \<lparr>nt_db = known_hosts_empty,
     nt_conns = [\<lparr>cn_handler = new_host, cn_key_type = lit ''k'', cn_key = [7], cn_phase = Connecting\<rparr>],
     nt_log = []\<rparr>"

definition accepted_net :: net where
  "accepted_net = \<lparr>nt_db = known_hosts_empty,
     nt_conns = [\<lparr>cn_handler = new_host\<lparr>ch_accepted := Some (fingerprint toy_codec [7])\<rparr>, cn_key_type = lit ''k'',
       cn_key = [7], cn_phase = Accepted\<rparr>],
     nt_log = [Answered 0 AcceptOnce]\<rparr>"

lemma new_host_unknown: "known_hosts_check toy_codec ascii_unicode known_hosts_empty (lit ''h'') 22 (lit ''k'') [7] = Unknown"
  by (simp add: known_hosts_check_def known_hosts_empty_def)

lemma accepted_net_reachable: "net_reachable toy_codec ascii_unicode accepted_net"
proof -
  let ?s1 = "set_phase 0 Checked asking_net" and ?s2 = "set_phase 0 Asking (set_phase 0 Checked asking_net)"
  have 1: "nstep toy_codec ascii_unicode asking_net ?s1"
    by (rule not_found [OF _ refl])
      (use new_host_unknown in \<open>simp_all add: asking_net_def new_host_def handler_new_def ref_verify_iff\<close>)
  have 2: "nstep toy_codec ascii_unicode ?s1 ?s2"
    by (rule asked [OF _ refl])
      (use new_host_unknown in \<open>simp_all add: asking_net_def new_host_def handler_new_def set_phase_def decide_def
        status_is_fatal_def\<close>)
  have 3: "nstep toy_codec ascii_unicode ?s2 accepted_net"
    using answered [of 0 ?s2 "nt_conns ?s2 ! 0" toy_codec ascii_unicode "Some AcceptOnce" "Inr True"
        "new_host\<lparr>ch_accepted := Some (fingerprint toy_codec [7])\<rparr>" known_hosts_empty]
    by (simp add: asking_net_def accepted_net_def set_phase_def on_answer_def)
  have "(nstep toy_codec ascii_unicode)\<^sup>*\<^sup>* asking_net accepted_net"
    by (rule converse_rtranclp_into_rtranclp, rule 1, rule converse_rtranclp_into_rtranclp, rule 2,
        rule r_into_rtranclp, rule 3)
  moreover have "fresh_net asking_net" by (simp add: fresh_net_def asking_net_def)
  ultimately show ?thesis by (auto simp: net_reachable_def)
qed

theorem accepted_for_a_reason_witness:
  "(\<exists>db. Found_Trusted 0 db \<in> set (nt_log accepted_net)
       \<and> known_hosts_check toy_codec ascii_unicode db (lit ''h'') 22 (lit ''k'') [7] = Trusted)
   \<or> (\<exists>d. d \<noteq> Reject \<and> Answered 0 d \<in> set (nt_log accepted_net))"
  using accepted_for_a_reason [OF accepted_net_reachable, of 0]
  by (simp add: accepted_net_def new_host_def handler_new_def)

theorem saved_key_needs_no_question_witness:
  "\<exists>h' db'. check_server_key toy_codec ascii_unicode (\<lambda>p. Some (Some AcceptAndSave)) (lit ''k'') [7] new_host known_hosts_empty
       = (Inr True, h', db')
     \<and> fst (check_server_key toy_codec ascii_unicode (\<lambda>p. None) (lit ''k'') [7] (handler_new (lit ''h'') 22 Strict) db')
       = Inr True"
proof -
  have "plain_host (ch_host new_host)" "ch_policy new_host = AcceptNew"
    by (simp_all add: new_host_def handler_new_def plain_host_def is_ascii_lower_def is_ascii_digit_def)
  moreover have "known_hosts_check toy_codec ascii_unicode known_hosts_empty (ch_host new_host) (ch_port new_host) (lit ''k'') [7] = Unknown"
    using new_host_unknown by (simp add: new_host_def handler_new_def)
  moreover have "lowers_ascii ascii_unicode" by simp
  ultimately obtain h' db' where "check_server_key toy_codec ascii_unicode (\<lambda>p. Some (Some AcceptAndSave)) (lit ''k'') [7]
      new_host known_hosts_empty = (Inr True, h', db')"
    "\<forall>policy ui2. check_server_key toy_codec ascii_unicode ui2 (lit ''k'') [7] (handler_new (ch_host new_host) (ch_port new_host) policy) db'
      = (Inr True, (handler_new (ch_host new_host) (ch_port new_host) policy)\<lparr>ch_accepted := Some (fingerprint toy_codec [7])\<rparr>, db')"
    using saved_key_needs_no_question [where ui = "\<lambda>p. Some (Some AcceptAndSave)"] by blast
  then show ?thesis by (simp add: new_host_def handler_new_def)
qed

end
