(* ===== verification/Rdt_Vault.thy ===== *)
theory Rdt_Vault
  imports Rust_Io Rust_Map Rdt_Proto
begin

text \<open>
  The encrypted vault, \<open>crates/rdt-secrets/src/vault.rs\<close>: the layout of the file, opening, and the
  operations on an unlocked vault, each of which writes the file again. The random salt and nonce
  are arguments. Argon2, ChaCha20-Poly1305, base64 and the JSON library are the parameters of
  \<open>vault_crypto\<close>. A method takes the vault and returns it with the result; secrets are texts.
\<close>

section \<open>The file\<close>

definition magic :: "u8 list" where
  "magic = as_bytes (lit ''RDTVLT1'') @ [0]"

definition memory_cost :: u32 where "memory_cost = 64 * 1024"
definition time_cost :: u32 where "time_cost = 3"
definition parallelism :: u32 where "parallelism = 1"
definition key_len :: nat where "key_len = 32"
definition salt_len :: nat where "salt_len = 16"
definition nonce_len :: nat where "nonce_len = 12"
definition header_len :: nat where "header_len = 8 + 4 + 4 + 4 + salt_len + nonce_len"

definition to_le_bytes :: "u32 \<Rightarrow> u8 list" where
  "to_le_bytes w = map (\<lambda>k. ucast (drop_bit (8 * k) w)) [0..<4]"

definition build_header :: "u8 list \<Rightarrow> u8 list" where
  "build_header salt =
     magic @ to_le_bytes memory_cost @ to_le_bytes time_cost @ to_le_bytes parallelism @ salt
       @ replicate nonce_len 0"

record payload =
  pm_version :: u32
  pm_entries :: "(ustring \<times> ustring) list"

text \<open>
  \<open>vc_kdf\<close> is \<open>Argon2id\<close> with the three costs and the key length; \<open>vc_seal\<close> and \<open>vc_open\<close> take
  the key, the nonce, the associated data and the message.
\<close>

record vault_crypto =
  vc_kdf :: "u32 \<Rightarrow> u32 \<Rightarrow> u32 \<Rightarrow> nat \<Rightarrow> u8 list \<Rightarrow> u8 list \<Rightarrow> ustring + u8 list"
  vc_seal :: "u8 list \<Rightarrow> u8 list \<Rightarrow> u8 list \<Rightarrow> u8 list \<Rightarrow> ustring + u8 list"
  vc_open :: "u8 list \<Rightarrow> u8 list \<Rightarrow> u8 list \<Rightarrow> u8 list \<Rightarrow> u8 list option"
  vc_to_json :: "payload \<Rightarrow> ustring + u8 list"
  vc_from_json :: "u8 list \<Rightarrow> ustring + payload"
  vc_b64_encode :: "u8 list \<Rightarrow> ustring"
  vc_b64_decode :: "ustring \<Rightarrow> u8 list option"

definition derive_key :: "vault_crypto \<Rightarrow> ustring \<Rightarrow> u8 list \<Rightarrow> u8 list rdt_result" where
  "derive_key cr passphrase salt =
     (case vc_kdf cr memory_cost time_cost parallelism key_len (as_bytes passphrase) salt of
        Inl err \<Rightarrow> fail ECrypto (lit ''key derivation failed: '' @ err)
      | Inr key \<Rightarrow> Inr key)"

section \<open>The vault\<close>

record vault =
  va_path :: ustring
  va_key :: "u8 list"
  va_header :: "u8 list"
  va_payload :: payload

text \<open>The bytes that \<open>save\<close> writes.\<close>

definition sealed :: "vault_crypto \<Rightarrow> u8 list \<Rightarrow> vault \<Rightarrow> u8 list rdt_result" where
  "sealed cr nonce v =
     (let header = take (header_len - nonce_len) (va_header v) @ nonce in
      case vc_to_json cr (va_payload v) of
        Inl err \<Rightarrow> fail EVault (lit ''cannot encode payload: '' @ err)
      | Inr plaintext \<Rightarrow>
          (case vc_seal cr (va_key v) nonce header plaintext of
             Inl err \<Rightarrow> fail EVault (lit ''encryption failed: '' @ err)
           | Inr ciphertext \<Rightarrow> Inr (header @ ciphertext)))"

definition write_vault :: "ustring \<Rightarrow> u8 list \<Rightarrow> unit run" where
  "write_vault path bytes =
     (let tmp = with_extension (lit ''vault.tmp'') path in
      run_then (on_err from_io io_touch) (\<lambda>_.
      run_then (on_err from_io (io_create tmp)) (\<lambda>_.
      run_then (on_err from_io (io_write_all tmp bytes)) (\<lambda>_.
      run_then (on_err from_io io_touch) (\<lambda>_.
      run_then (on_err from_io io_touch) (\<lambda>_.
      on_err from_io (io_rename tmp path)))))))"

definition vault_save :: "vault_crypto \<Rightarrow> u8 list \<Rightarrow> vault \<Rightarrow> unit run" where
  "vault_save cr nonce v =
     (case sealed cr nonce v of
        Inl e \<Rightarrow> pure_run (Inl e)
      | Inr bytes \<Rightarrow> write_vault (va_path v) bytes)"

definition empty_passphrase :: "'a rdt_result" where
  "empty_passphrase = fail EVault (lit ''the vault passphrase must not be empty'')"

definition vault_create :: "vault_crypto \<Rightarrow> u8 list \<Rightarrow> u8 list \<Rightarrow> ustring \<Rightarrow> ustring \<Rightarrow> vault run" where
  "vault_create cr salt nonce path passphrase =
     (if passphrase = [] then pure_run empty_passphrase
      else
        (case derive_key cr passphrase salt of
           Inl e \<Rightarrow> pure_run (Inl e)
         | Inr key \<Rightarrow>
             (let v = \<lparr>va_path = path, va_key = key, va_header = build_header salt,
                       va_payload = \<lparr>pm_version = 1, pm_entries = []\<rparr>\<rparr> in
              run_then (vault_save cr nonce v) (\<lambda>_. pure_run (Inr v)))))"

text \<open>Decoding the bytes of a vault file.\<close>

definition unseal :: "vault_crypto \<Rightarrow> ustring \<Rightarrow> ustring \<Rightarrow> u8 list \<Rightarrow> vault rdt_result" where
  "unseal cr path passphrase bytes =
     (if length bytes < header_len then fail EVault (lit ''vault file is truncated'')
      else if take 8 bytes \<noteq> magic then fail EVault (lit ''not an RDT vault file'')
      else
        (let header = take header_len bytes;
             salt = take salt_len (drop 20 header);
             nonce = drop 36 header in
         and_then (derive_key cr passphrase salt) (\<lambda>key.
           case vc_open cr key nonce header (drop header_len bytes) of
             None \<Rightarrow> fail EVault (lit ''decryption failed: wrong passphrase or corrupted file'')
           | Some plaintext \<Rightarrow>
               (case vc_from_json cr plaintext of
                  Inl err \<Rightarrow> fail EVault (lit ''corrupt vault payload: '' @ err)
                | Inr payload \<Rightarrow>
                    Inr \<lparr>va_path = path, va_key = key, va_header = header, va_payload = payload\<rparr>))))"

definition vault_open :: "vault_crypto \<Rightarrow> ustring \<Rightarrow> ustring \<Rightarrow> vault run" where
  "vault_open cr path passphrase =
     run_then (on_err (\<lambda>e. with_context (lit ''reading '' @ path) (from_io e)) (io_read path))
       (\<lambda>bytes. pure_run (unseal cr path passphrase bytes))"

section \<open>Entries\<close>

definition decode_entry :: "vault_crypto \<Rightarrow> ustring \<Rightarrow> ustring \<Rightarrow> ustring rdt_result" where
  "decode_entry cr key encoded =
     (case vc_b64_decode cr encoded of
        None \<Rightarrow> fail EVault (lit ''corrupt entry '' @ quoted key)
      | Some raw \<Rightarrow>
          (case from_utf8 raw of
             None \<Rightarrow> fail EVault (lit ''entry '' @ quoted key @ lit '' is not text'')
           | Some value \<Rightarrow> Inr value))"

definition no_entry :: "ustring \<Rightarrow> 'a rdt_result" where
  "no_entry key = fail EVault (lit ''no vault entry named '' @ quoted key)"

fun decode_entries :: "vault_crypto \<Rightarrow> (ustring \<times> ustring) list \<Rightarrow> (ustring \<times> ustring) list rdt_result" where
  "decode_entries cr [] = Inr []"
| "decode_entries cr ((key, encoded) # es) =
     and_then (decode_entry cr key encoded) (\<lambda>value.
     and_then (decode_entries cr es) (\<lambda>out. Inr ((key, value) # out)))"

abbreviation va_entries :: "vault \<Rightarrow> (ustring \<times> ustring) list" where
  "va_entries v \<equiv> pm_entries (va_payload v)"

definition with_entries :: "(ustring \<times> ustring) list \<Rightarrow> vault \<Rightarrow> vault" where
  "with_entries es v = v\<lparr>va_payload := (va_payload v)\<lparr>pm_entries := es\<rparr>\<rparr>"

definition vault_entries :: "vault_crypto \<Rightarrow> vault \<Rightarrow> (ustring \<times> ustring) list rdt_result" where
  "vault_entries cr v = decode_entries cr (va_entries v)"

definition vault_keys :: "vault \<Rightarrow> ustring list" where
  "vault_keys v = bt_keys (va_entries v)"

definition vault_get :: "vault_crypto \<Rightarrow> ustring \<Rightarrow> vault \<Rightarrow> ustring rdt_result" where
  "vault_get cr key v =
     (case map_of (va_entries v) key of
        None \<Rightarrow> no_entry key
      | Some encoded \<Rightarrow> decode_entry cr key encoded)"

definition saving :: "vault_crypto \<Rightarrow> u8 list \<Rightarrow> vault \<Rightarrow> fs \<Rightarrow> (unit rdt_result \<times> vault) \<times> fs" where
  "saving cr nonce v s = (case vault_save cr nonce v s of (r, s') \<Rightarrow> ((r, v), s'))"

definition vault_set ::
  "vault_crypto \<Rightarrow> u8 list \<Rightarrow> ustring \<Rightarrow> ustring \<Rightarrow> vault \<Rightarrow> fs \<Rightarrow> (unit rdt_result \<times> vault) \<times> fs" where
  "vault_set cr nonce key value v s =
     saving cr nonce (with_entries (bt_insert key (vc_b64_encode cr (as_bytes value)) (va_entries v)) v) s"

definition vault_delete ::
  "vault_crypto \<Rightarrow> u8 list \<Rightarrow> ustring \<Rightarrow> vault \<Rightarrow> fs \<Rightarrow> (unit rdt_result \<times> vault) \<times> fs" where
  "vault_delete cr nonce key v s =
     (if map_of (va_entries v) key = None then ((no_entry key, v), s)
      else saving cr nonce (with_entries (bt_remove key (va_entries v)) v) s)"

definition change_passphrase ::
  "vault_crypto \<Rightarrow> u8 list \<Rightarrow> u8 list \<Rightarrow> ustring \<Rightarrow> vault \<Rightarrow> fs \<Rightarrow> (unit rdt_result \<times> vault) \<times> fs" where
  "change_passphrase cr salt nonce passphrase v s =
     (if passphrase = [] then ((empty_passphrase, v), s)
      else
        (case derive_key cr passphrase salt of
           Inl e \<Rightarrow> ((Inl e, v), s)
         | Inr key \<Rightarrow> saving cr nonce (v\<lparr>va_key := key, va_header := build_header salt\<rparr>) s))"

section \<open>Handles\<close>

datatype vault_handle = Closed ustring | Open vault

definition handle_open :: "vault_crypto \<Rightarrow> ustring \<Rightarrow> ustring \<Rightarrow> vault_handle run" where
  "handle_open cr path passphrase =
     run_then (vault_open cr path passphrase) (\<lambda>v. pure_run (Inr (Open v)))"

fun handle_is_open :: "vault_handle \<Rightarrow> bool" where
  "handle_is_open (Open v) = True"
| "handle_is_open (Closed path) = False"

fun handle_path :: "vault_handle \<Rightarrow> ustring" where
  "handle_path (Closed path) = path"
| "handle_path (Open v) = va_path v"

definition locked :: "ustring \<Rightarrow> 'a rdt_result" where
  "locked path = fail EVault (lit ''vault '' @ path @ lit '' is locked'')"

fun handle_with :: "(vault \<Rightarrow> 'a rdt_result) \<Rightarrow> vault_handle \<Rightarrow> 'a rdt_result" where
  "handle_with action (Open v) = action v"
| "handle_with action (Closed path) = locked path"

fun handle_with_mut ::
  "(vault \<Rightarrow> fs \<Rightarrow> ('a rdt_result \<times> vault) \<times> fs) \<Rightarrow> vault_handle \<Rightarrow> fs \<Rightarrow> ('a rdt_result \<times> vault_handle) \<times> fs" where
  "handle_with_mut action (Open v) s = (case action v s of ((r, v'), s') \<Rightarrow> ((r, Open v'), s'))"
| "handle_with_mut action (Closed path) s = ((locked path, Closed path), s)"

definition handle_get :: "vault_crypto \<Rightarrow> ustring \<Rightarrow> vault_handle \<Rightarrow> ustring rdt_result" where
  "handle_get cr key = handle_with (vault_get cr key)"

definition handle_set ::
  "vault_crypto \<Rightarrow> u8 list \<Rightarrow> ustring \<Rightarrow> ustring \<Rightarrow> vault_handle \<Rightarrow> fs \<Rightarrow> (unit rdt_result \<times> vault_handle) \<times> fs" where
  "handle_set cr nonce key value = handle_with_mut (vault_set cr nonce key value)"

definition handle_delete ::
  "vault_crypto \<Rightarrow> u8 list \<Rightarrow> ustring \<Rightarrow> vault_handle \<Rightarrow> fs \<Rightarrow> (unit rdt_result \<times> vault_handle) \<times> fs" where
  "handle_delete cr nonce key = handle_with_mut (vault_delete cr nonce key)"

definition handle_keys :: "vault_handle \<Rightarrow> ustring list rdt_result" where
  "handle_keys = handle_with (\<lambda>v. Inr (vault_keys v))"

definition handle_entries :: "vault_crypto \<Rightarrow> vault_handle \<Rightarrow> (ustring \<times> ustring) list rdt_result" where
  "handle_entries cr = handle_with (vault_entries cr)"

end
