(* ===== verification/Rust_Lossy.thy ===== *)
theory Rust_Lossy
  imports Rust_Str
begin

text \<open>
  \<open>String::from_utf8_lossy\<close>: characters are decoded as \<open>from_utf8\<close> does; where that fails, the
  longest run of bytes that could still have begun a character becomes one replacement character.
\<close>

definition replacement :: uchar where
  "replacement = 0xFFFD"

text \<open>Whether a byte can follow the first byte of a character of three or four bytes.\<close>

definition second_ok :: "nat \<Rightarrow> nat \<Rightarrow> bool" where
  "second_ok n c \<longleftrightarrow>
     (if n = 0xE0 then 0xA0 \<le> c \<and> c < 0xC0
      else if n = 0xED then 0x80 \<le> c \<and> c < 0xA0
      else if n = 0xF0 then 0x90 \<le> c \<and> c < 0xC0
      else if n = 0xF4 then 0x80 \<le> c \<and> c < 0x90
      else 0x80 \<le> c \<and> c < 0xC0)"

text \<open>What follows the bytes that are replaced, given the first byte and those after it.\<close>

fun skip_bad :: "nat \<Rightarrow> u8 list \<Rightarrow> u8 list" where
  "skip_bad n [] = []"
| "skip_bad n (c1 # r) =
     (if 0xE0 \<le> n \<and> n < 0xF5 \<and> second_ok n (unat c1) then
        (case r of
           c2 # r' \<Rightarrow> if 0xF0 \<le> n \<and> is_cont c2 then r' else r
         | [] \<Rightarrow> [])
      else c1 # r)"

lemma skip_bad_length: "length (skip_bad n bs) \<le> length bs"
  by (cases bs) (auto split: list.split)

function utf8_lossy :: "u8 list \<Rightarrow> ustring" where
  "utf8_lossy [] = []"
| "utf8_lossy (b # bs) =
     (let n = unat b in
      if n < 0x80 then n # utf8_lossy bs
      else if n < 0xE0 then
        (case bs of
           c1 # r \<Rightarrow>
             if 0xC2 \<le> n \<and> is_cont c1 then ((n - 0xC0) * 64 + (unat c1 - 0x80)) # utf8_lossy r
             else replacement # utf8_lossy bs
         | [] \<Rightarrow> [replacement])
      else if n < 0xF0 then
        (case bs of
           c1 # c2 # r \<Rightarrow>
             (let c = (n - 0xE0) * 4096 + (unat c1 - 0x80) * 64 + (unat c2 - 0x80) in
              if is_cont c1 \<and> is_cont c2 \<and> 0x800 \<le> c \<and> is_scalar c then c # utf8_lossy r
              else replacement # utf8_lossy (skip_bad n bs))
         | _ \<Rightarrow> replacement # utf8_lossy (skip_bad n bs))
      else if n < 0xF5 then
        (case bs of
           c1 # c2 # c3 # r \<Rightarrow>
             (let c = (n - 0xF0) * 262144 + (unat c1 - 0x80) * 4096
                      + (unat c2 - 0x80) * 64 + (unat c3 - 0x80) in
              if is_cont c1 \<and> is_cont c2 \<and> is_cont c3 \<and> 0x10000 \<le> c \<and> is_scalar c then c # utf8_lossy r
              else replacement # utf8_lossy (skip_bad n bs))
         | _ \<Rightarrow> replacement # utf8_lossy (skip_bad n bs))
      else replacement # utf8_lossy bs)"
  by pat_completeness auto

termination
  by (relation "measure length") (auto simp: le_imp_less_Suc skip_bad_length)

declare utf8_lossy.simps(2) [simp del]

text \<open>Valid UTF-8 is decoded without a loss.\<close>

lemma if_then_Some: "(if P then map_option f x else None) = Some t \<longleftrightarrow> P \<and> (\<exists>y. x = Some y \<and> f y = t)"
  by (auto)

lemma utf8_lossy_valid: "from_utf8 bs = Some t \<Longrightarrow> utf8_lossy bs = t"
proof (induction "length bs" arbitrary: bs t rule: less_induct)
  case less
  show ?case
  proof (cases bs)
    case Nil
    with less show ?thesis by simp
  next
    case (Cons b r)
    note some = less.prems [unfolded Cons from_utf8.simps(2) Let_def]
    consider "unat b < 0x80" | "0x80 \<le> unat b" "unat b < 0xC2" | "0xC2 \<le> unat b" "unat b < 0xE0"
      | "0xE0 \<le> unat b" "unat b < 0xF0" | "0xF0 \<le> unat b" "unat b < 0xF5" | "0xF5 \<le> unat b" by linarith
    then show ?thesis
    proof cases
      case 1
      with some obtain y where "from_utf8 r = Some y" "t = unat b # y" by auto
      with less.hyps [of r y] 1 show ?thesis by (simp add: Cons utf8_lossy.simps(2))
    next
      case 3
      with some obtain c1 q y where "r = c1 # q" "is_cont c1" "from_utf8 q = Some y"
        "t = ((unat b - 0xC0) * 64 + (unat c1 - 0x80)) # y"
        by (cases r) (simp_all add: if_then_Some, blast)
      with less.hyps [of q y] 3 show ?thesis by (simp add: Cons utf8_lossy.simps(2))
    next
      case 4
      with some obtain c1 c2 q y c where "r = c1 # c2 # q" and "is_cont c1" "is_cont c2" "0x800 \<le> c" "is_scalar c"
        and "from_utf8 q = Some y" "t = c # y" and "c = (unat b - 0xE0) * 4096 + (unat c1 - 0x80) * 64 + (unat c2 - 0x80)"
        by (cases r; cases "tl r") (simp_all add: if_then_Some, blast)
      with less.hyps [of q y] 4 show ?thesis by (simp add: Cons utf8_lossy.simps(2))
    next
      case 5
      with some obtain c1 c2 c3 q y c where "r = c1 # c2 # c3 # q" and "is_cont c1" "is_cont c2" "is_cont c3"
        "0x10000 \<le> c" "is_scalar c" and "from_utf8 q = Some y" "t = c # y"
        and "c = (unat b - 0xF0) * 262144 + (unat c1 - 0x80) * 4096 + (unat c2 - 0x80) * 64 + (unat c3 - 0x80)"
        by (cases r; cases "tl r"; cases "tl (tl r)") (simp_all add: if_then_Some, blast)
      with less.hyps [of q y] 5 show ?thesis by (simp add: Cons utf8_lossy.simps(2))
    qed (use some in simp_all)
  qed
qed

lemma utf8_lossy_text: "\<forall>c \<in> set t. is_scalar c \<Longrightarrow> utf8_lossy (as_bytes t) = t"
  by (rule utf8_lossy_valid) (simp add: from_utf8_as_bytes)

text \<open>Decoding only produces scalar values.\<close>

lemma from_utf8_scalars: "from_utf8 bs = Some t \<Longrightarrow> \<forall>c \<in> set t. is_scalar c"
proof (induction "length bs" arbitrary: bs t rule: less_induct)
  case less
  show ?case
  proof (cases bs)
    case Nil
    with less show ?thesis by simp
  next
    case (Cons b r)
    note some = less.prems [unfolded Cons from_utf8.simps(2) Let_def]
    consider "unat b < 0x80" | "0x80 \<le> unat b" "unat b < 0xC2" | "0xC2 \<le> unat b" "unat b < 0xE0"
      | "0xE0 \<le> unat b" "unat b < 0xF0" | "0xF0 \<le> unat b" "unat b < 0xF5" | "0xF5 \<le> unat b" by linarith
    then show ?thesis
    proof cases
      case 1
      with some obtain y where "from_utf8 r = Some y" "t = unat b # y" by auto
      with less.hyps [of r y] 1 show ?thesis by (simp add: Cons is_scalar_def)
    next
      case 3
      with some obtain c1 q y where r: "r = c1 # q" "is_cont c1" "from_utf8 q = Some y"
        "t = ((unat b - 0xC0) * 64 + (unat c1 - 0x80)) # y"
        by (cases r) (simp_all add: if_then_Some, blast)
      have "(unat b - 0xC0) * 64 + (unat c1 - 0x80) < 0x800" using r(2) 3 by (simp add: is_cont_def) linarith
      with less.hyps [of q y] r show ?thesis by (simp add: Cons is_scalar_def)
    next
      case 4
      with some obtain c1 c2 q y c where "r = c1 # c2 # q" "is_scalar c" "from_utf8 q = Some y" "t = c # y"
        by (cases r; cases "tl r") (simp_all add: if_then_Some, blast)
      with less.hyps [of q y] show ?thesis by (simp add: Cons)
    next
      case 5
      with some obtain c1 c2 c3 q y c where "r = c1 # c2 # c3 # q" "is_scalar c" "from_utf8 q = Some y" "t = c # y"
        by (cases r; cases "tl r"; cases "tl (tl r)") (simp_all add: if_then_Some, blast)
      with less.hyps [of q y] show ?thesis by (simp add: Cons)
    qed (use some in simp_all)
  qed
qed

text \<open>A character cut in two is lost: both parts are replaced.\<close>

lemma utf8_lossy_cut: "utf8_lossy [0xC3] @ utf8_lossy [0xA9] = [replacement, replacement]"
  by (simp add: utf8_lossy.simps)

end
