(* ===== verification/Rdt_Secrets.thy ===== *)
theory Rdt_Secrets
  imports Rdt_Vault Rust_Lossy
begin

text \<open>
  The secret store, \<open>crates/rdt-secrets/src/lib.rs\<close>, and the keystore of a Linux desktop,
  \<open>keystore.rs\<close>. The keystore is another program, \<open>secret-tool\<close>, given by the parameter \<open>tool\<close>:
  what a run of it with given arguments and input returns, and how the state of the keyring changes.
  The mutex only serialises the methods. The backends of the other systems are in \<open>Rdt_Keystores\<close>.
\<close>

section \<open>The keystore\<close>

record proc_output =
  po_success :: bool
  po_stdout :: "u8 list"
  po_stderr :: "u8 list"

datatype tool_failure = Spawn ustring | Stdin ustring | Wait ustring

type_synonym 'w tool = "ustring \<Rightarrow> ustring list \<Rightarrow> u8 list \<Rightarrow> 'w \<Rightarrow> (tool_failure + proc_output) \<times> 'w"

datatype keystore_backend = SecretTool ustring | Unavailable ustring

text \<open>\<open>which\<close> is where the program was found, \<open>dbus\<close> whether a session bus address is set.\<close>

definition detect :: "ustring option \<Rightarrow> bool \<Rightarrow> keystore_backend" where
  "detect which dbus =
     (case which of
        None \<Rightarrow> Unavailable (lit ''secret-tool is not installed; install libsecret or use the encrypted vault'')
      | Some program \<Rightarrow>
          if \<not> dbus then Unavailable (lit ''no D-Bus session bus is available for the Secret Service'')
          else SecretTool program)"

definition ks_available :: "keystore_backend \<Rightarrow> bool" where
  "ks_available b = (case b of Unavailable _ \<Rightarrow> False | _ \<Rightarrow> True)"

definition ks_describe :: "keystore_backend \<Rightarrow> ustring" where
  "ks_describe b =
     (case b of
        SecretTool _ \<Rightarrow> lit ''freedesktop Secret Service via secret-tool''
      | Unavailable reason \<Rightarrow> reason)"

definition blob_name :: "(u8 list \<Rightarrow> u8 list) \<Rightarrow> ustring \<Rightarrow> ustring" where
  "blob_name sha key = concat (map show_hex_byte (sha (as_bytes key)))"

definition failure_text :: "tool_failure \<Rightarrow> ustring" where
  "failure_text f = (case f of Spawn m \<Rightarrow> m | Stdin m \<Rightarrow> m | Wait m \<Rightarrow> m)"

definition cannot_run :: "ustring \<Rightarrow> 'a rdt_result" where
  "cannot_run m = fail EKeystore (lit ''cannot run secret-tool: '' @ m)"

definition secret_tool_set ::
  "'w tool \<Rightarrow> ustring \<Rightarrow> ustring \<Rightarrow> ustring \<Rightarrow> 'w \<Rightarrow> unit rdt_result \<times> 'w" where
  "secret_tool_set tool program key value w =
     (case tool program [lit ''store'', lit ''--label=RDT secret'', lit ''rdt-key'', key] (as_bytes value) w of
        (r, w') \<Rightarrow>
          (case r of
             Inl (Spawn m) \<Rightarrow> cannot_run m
           | Inl (Stdin m) \<Rightarrow> fail EKeystore (lit ''cannot write the secret to secret-tool: '' @ m)
           | Inl (Wait m) \<Rightarrow> fail EKeystore m
           | Inr out \<Rightarrow>
               if po_success out then Inr ()
               else fail EKeystore (lit ''secret-tool store failed: '' @ trim (utf8_lossy (po_stderr out))), w'))"

fun drop_newlines :: "ustring \<Rightarrow> ustring" where
  "drop_newlines [] = []"
| "drop_newlines (c # cs) = (if c = 10 then drop_newlines cs else c # cs)"

definition secret_tool_get :: "'w tool \<Rightarrow> ustring \<Rightarrow> ustring \<Rightarrow> 'w \<Rightarrow> ustring rdt_result \<times> 'w" where
  "secret_tool_get tool program key w =
     (case tool program [lit ''lookup'', lit ''rdt-key'', key] [] w of
        (r, w') \<Rightarrow>
          (case r of
             Inl f \<Rightarrow> cannot_run (failure_text f)
           | Inr out \<Rightarrow>
               if \<not> po_success out then fail EKeystore (lit ''no keyring entry named '' @ quoted key)
               else Inr (rev (drop_newlines (rev (utf8_lossy (po_stdout out))))), w'))"

definition secret_tool_delete :: "'w tool \<Rightarrow> ustring \<Rightarrow> ustring \<Rightarrow> 'w \<Rightarrow> unit rdt_result \<times> 'w" where
  "secret_tool_delete tool program key w =
     (case tool program [lit ''clear'', lit ''rdt-key'', key] [] w of
        (r, w') \<Rightarrow>
          (case r of
             Inl f \<Rightarrow> cannot_run (failure_text f)
           | Inr out \<Rightarrow>
               if po_success out then Inr ()
               else fail EKeystore (lit ''secret-tool clear failed: '' @ trim (utf8_lossy (po_stderr out))), w'))"

definition ks_set :: "'w tool \<Rightarrow> keystore_backend \<Rightarrow> ustring \<Rightarrow> ustring \<Rightarrow> 'w \<Rightarrow> unit rdt_result \<times> 'w" where
  "ks_set tool b key value w =
     (case b of
        SecretTool program \<Rightarrow> secret_tool_set tool program key value w
      | Unavailable reason \<Rightarrow> (fail EKeystore reason, w))"

definition ks_get :: "'w tool \<Rightarrow> keystore_backend \<Rightarrow> ustring \<Rightarrow> 'w \<Rightarrow> ustring rdt_result \<times> 'w" where
  "ks_get tool b key w =
     (case b of
        SecretTool program \<Rightarrow> secret_tool_get tool program key w
      | Unavailable reason \<Rightarrow> (fail EKeystore reason, w))"

definition ks_delete :: "'w tool \<Rightarrow> keystore_backend \<Rightarrow> ustring \<Rightarrow> 'w \<Rightarrow> unit rdt_result \<times> 'w" where
  "ks_delete tool b key w =
     (case b of
        SecretTool program \<Rightarrow> secret_tool_delete tool program key w
      | Unavailable reason \<Rightarrow> (fail EKeystore reason, w))"

section \<open>The store\<close>

datatype resolved_backend = FromKeystore | FromVault

record secret_store =
  sc_keystore :: keystore_backend
  sc_vault :: vault_handle
  sc_path :: ustring
  sc_default :: secret_backend

text \<open>The outside world: the keyring and the files.\<close>

record 'w world =
  wd_ring :: 'w
  wd_fs :: fs

definition store_open :: "keystore_backend \<Rightarrow> ustring \<Rightarrow> secret_backend \<Rightarrow> secret_store" where
  "store_open ks path dflt =
     \<lparr>sc_keystore = ks, sc_vault = Closed path, sc_path = path, sc_default = dflt\<rparr>"

definition keystore_available :: "secret_store \<Rightarrow> bool" where
  "keystore_available st = ks_available (sc_keystore st)"

definition store_describe :: "secret_store \<Rightarrow> ustring" where
  "store_describe st =
     (if keystore_available st then
        lit ''OS keystore ('' @ ks_describe (sc_keystore st) @ lit '') with encrypted vault fallback''
      else lit ''encrypted vault only ('' @ ks_describe (sc_keystore st) @ lit '')'')"

definition store_unlock ::
  "vault_crypto \<Rightarrow> ustring \<Rightarrow> secret_store \<Rightarrow> fs \<Rightarrow> (unit rdt_result \<times> secret_store) \<times> fs" where
  "store_unlock cr passphrase st s =
     (case handle_open cr (sc_path st) passphrase s of
        (Inl e, s') \<Rightarrow> ((Inl e, st), s')
      | (Inr h, s') \<Rightarrow> ((Inr (), st\<lparr>sc_vault := h\<rparr>), s'))"

definition store_lock :: "secret_store \<Rightarrow> secret_store" where
  "store_lock st = st\<lparr>sc_vault := Closed (sc_path st)\<rparr>"

definition is_unlocked :: "secret_store \<Rightarrow> bool" where
  "is_unlocked st = handle_is_open (sc_vault st)"

definition vault_exists :: "secret_store \<Rightarrow> fs \<Rightarrow> bool" where
  "vault_exists st s \<longleftrightarrow> fs_files s (sc_path st) \<noteq> None"

definition create_vault ::
  "vault_crypto \<Rightarrow> u8 list \<Rightarrow> u8 list \<Rightarrow> ustring \<Rightarrow> secret_store \<Rightarrow> fs \<Rightarrow> (unit rdt_result \<times> secret_store) \<times> fs" where
  "create_vault cr salt nonce passphrase st s =
     (case vault_create cr salt nonce (sc_path st) passphrase s of
        (Inl e, s') \<Rightarrow> ((Inl e, st), s')
      | (Inr _, s') \<Rightarrow> store_unlock cr passphrase st s')"

definition store_in ::
  "vault_crypto \<Rightarrow> 'w tool \<Rightarrow> u8 list \<Rightarrow> secret_backend \<Rightarrow> ustring \<Rightarrow> ustring \<Rightarrow> secret_store \<Rightarrow> 'w world
     \<Rightarrow> (stored_secret rdt_result \<times> secret_store) \<times> 'w world" where
  "store_in cr tool nonce backend key value st w =
     (let finish = (\<lambda>r. and_then r (\<lambda>_. Inr \<lparr>ss_backend = backend, ss_key = key\<rparr>)) in
      case backend of
        OsKeystore \<Rightarrow>
          if \<not> keystore_available st then
            ((fail EKeystore (lit ''the OS keystore is unavailable on this machine ('' @ ks_describe (sc_keystore st)
                @ lit '')''), st), w)
          else
            (case ks_set tool (sc_keystore st) key value (wd_ring w) of
               (r, ring) \<Rightarrow> ((finish r, st), w\<lparr>wd_ring := ring\<rparr>))
      | EncryptedVault \<Rightarrow>
          (case handle_set cr nonce key value (sc_vault st) (wd_fs w) of
             ((r, h), s') \<Rightarrow> ((finish r, st\<lparr>sc_vault := h\<rparr>), w\<lparr>wd_fs := s'\<rparr>)))"

definition store_store ::
  "vault_crypto \<Rightarrow> 'w tool \<Rightarrow> u8 list \<Rightarrow> ustring \<Rightarrow> ustring \<Rightarrow> secret_store \<Rightarrow> 'w world
     \<Rightarrow> (stored_secret rdt_result \<times> secret_store) \<times> 'w world" where
  "store_store cr tool nonce key value st w =
     store_in cr tool nonce (if keystore_available st then OsKeystore else EncryptedVault) key value st w"

definition store_read ::
  "vault_crypto \<Rightarrow> 'w tool \<Rightarrow> stored_secret \<Rightarrow> secret_store \<Rightarrow> 'w world \<Rightarrow> ustring rdt_result \<times> 'w world" where
  "store_read cr tool r st w =
     (case ss_backend r of
        OsKeystore \<Rightarrow>
          (case ks_get tool (sc_keystore st) (ss_key r) (wd_ring w) of (v, ring) \<Rightarrow> (v, w\<lparr>wd_ring := ring\<rparr>))
      | EncryptedVault \<Rightarrow> (handle_get cr (ss_key r) (sc_vault st), w))"

definition resolved :: "secret_backend \<Rightarrow> resolved_backend" where
  "resolved b = (case b of OsKeystore \<Rightarrow> FromKeystore | EncryptedVault \<Rightarrow> FromVault)"

definition other_backend :: "secret_backend \<Rightarrow> secret_backend" where
  "other_backend b = (case b of OsKeystore \<Rightarrow> EncryptedVault | EncryptedVault \<Rightarrow> OsKeystore)"

definition read_lenient ::
  "vault_crypto \<Rightarrow> 'w tool \<Rightarrow> stored_secret \<Rightarrow> secret_store \<Rightarrow> 'w world
     \<Rightarrow> (ustring \<times> resolved_backend) rdt_result \<times> 'w world" where
  "read_lenient cr tool r st w =
     (case store_read cr tool r st w of
        (Inr value, w') \<Rightarrow> (Inr (value, resolved (ss_backend r)), w')
      | (Inl primary, w') \<Rightarrow>
          (let fallback = other_backend (ss_backend r) in
           case store_read cr tool \<lparr>ss_backend = fallback, ss_key = ss_key r\<rparr> st w' of
             (Inr value, w'') \<Rightarrow> (Inr (value, resolved fallback), w'')
           | (Inl _, w'') \<Rightarrow> (Inl primary, w'')))"

definition store_delete ::
  "vault_crypto \<Rightarrow> 'w tool \<Rightarrow> u8 list \<Rightarrow> stored_secret \<Rightarrow> secret_store \<Rightarrow> 'w world
     \<Rightarrow> (unit rdt_result \<times> secret_store) \<times> 'w world" where
  "store_delete cr tool nonce r st w =
     (case ss_backend r of
        OsKeystore \<Rightarrow>
          (case ks_delete tool (sc_keystore st) (ss_key r) (wd_ring w) of
             (v, ring) \<Rightarrow> ((v, st), w\<lparr>wd_ring := ring\<rparr>))
      | EncryptedVault \<Rightarrow>
          (case handle_delete cr nonce (ss_key r) (sc_vault st) (wd_fs w) of
             ((v, h), s') \<Rightarrow> ((v, st\<lparr>sc_vault := h\<rparr>), w\<lparr>wd_fs := s'\<rparr>)))"

definition store_vault_keys :: "secret_store \<Rightarrow> ustring list rdt_result" where
  "store_vault_keys st = handle_keys (sc_vault st)"

fun copy_entries :: "'w tool \<Rightarrow> keystore_backend \<Rightarrow> (ustring \<times> ustring) list \<Rightarrow> 'w \<Rightarrow> unit rdt_result \<times> 'w" where
  "copy_entries tool b [] w = (Inr (), w)"
| "copy_entries tool b ((key, value) # es) w =
     (case ks_set tool b key value w of
        (Inl e, w') \<Rightarrow> (Inl e, w')
      | (Inr _, w') \<Rightarrow> copy_entries tool b es w')"

definition migrate_vault_to_keystore ::
  "vault_crypto \<Rightarrow> 'w tool \<Rightarrow> secret_store \<Rightarrow> 'w \<Rightarrow> nat rdt_result \<times> 'w" where
  "migrate_vault_to_keystore cr tool st w =
     (if \<not> keystore_available st then
        (fail EKeystore (lit ''the OS keystore is unavailable on this machine''), w)
      else
        (case handle_entries cr (sc_vault st) of
           Inl e \<Rightarrow> (Inl e, w)
         | Inr entries \<Rightarrow>
             (case copy_entries tool (sc_keystore st) entries w of
                (Inl e, w') \<Rightarrow> (Inl e, w')
              | (Inr _, w') \<Rightarrow> (Inr (length entries), w'))))"

definition export_vault :: "vault_crypto \<Rightarrow> ustring \<Rightarrow> ustring \<Rightarrow> (ustring \<times> u8 list) list run" where
  "export_vault cr path passphrase =
     run_then (vault_open cr path passphrase) (\<lambda>v. pure_run
       (and_then (vault_entries cr v) (\<lambda>es. Inr (map (\<lambda>(key, value). (key, as_bytes value)) es))))"

end
