(* ===== verification/Rdt_Vault_Props.thy ===== *)
theory Rdt_Vault_Props
  imports Rdt_Vault
begin

text \<open>
  What the vault promises: the operations refine those of a passphrase with a map, whatever the
  file system does; a file written after a successful operation opens with the passphrase of the
  model and has the entries of the map; and only files sealed under the passphrase open.
\<close>

section \<open>What is relied on of the libraries\<close>

text \<open>
  Decryption inverts encryption, and accepts only what encryption produces (the tag is a function
  of the other inputs); JSON and base64 round trip; a decoded payload is a map.
\<close>

definition vault_laws :: "vault_crypto \<Rightarrow> bool" where
  "vault_laws cr \<longleftrightarrow>
     (\<forall>k n a pt ct. vc_seal cr k n a pt = Inr ct \<longleftrightarrow> vc_open cr k n a ct = Some pt)
     \<and> (\<forall>p bs. bt_wf (pm_entries p) \<longrightarrow> vc_to_json cr p = Inr bs \<longrightarrow> vc_from_json cr bs = Inr p)
     \<and> (\<forall>bs p. vc_from_json cr bs = Inr p \<longrightarrow> bt_wf (pm_entries p))
     \<and> (\<forall>bs. vc_b64_decode cr (vc_b64_encode cr bs) = Some bs)"

lemma vault_lawsD:
  assumes "vault_laws cr"
  shows "vc_seal cr k n a pt = Inr ct \<longleftrightarrow> vc_open cr k n a ct = Some pt"
    "bt_wf (pm_entries p) \<Longrightarrow> vc_to_json cr p = Inr bs \<Longrightarrow> vc_from_json cr bs = Inr p"
    "vc_from_json cr bs = Inr p \<Longrightarrow> bt_wf (pm_entries p)"
    "vc_b64_decode cr (vc_b64_encode cr bytes) = Some bytes"
  using assms unfolding vault_laws_def by blast+

section \<open>Headers\<close>

lemma magic_length [simp]: "length magic = 8"
  by (simp add: magic_def as_bytes_def encode_utf8_def)

lemma header_len_eq [simp]: "header_len = 48" "salt_len = 16" "nonce_len = 12"
  by (simp_all add: header_len_def salt_len_def nonce_len_def)

lemma build_header_layout:
  assumes "length salt = 16"
  shows "length (build_header salt) = 48" "take 8 (build_header salt) = magic"
    "take 16 (drop 20 (build_header salt)) = salt"
  using assms by (simp_all add: build_header_def to_le_bytes_def)

definition vault_wf :: "vault \<Rightarrow> bool" where
  "vault_wf v \<longleftrightarrow> length (va_header v) = header_len \<and> take 8 (va_header v) = magic \<and> bt_wf (va_entries v)"

definition unlocks :: "vault_crypto \<Rightarrow> ustring \<Rightarrow> vault \<Rightarrow> bool" where
  "unlocks cr passphrase v \<longleftrightarrow> derive_key cr passphrase (take salt_len (drop 20 (va_header v))) = Inr (va_key v)"

section \<open>Sealing and opening\<close>

lemma derive_key_Inr:
  "derive_key cr p salt = Inr key \<longleftrightarrow> vc_kdf cr memory_cost time_cost parallelism key_len (as_bytes p) salt = Inr key"
  by (simp add: derive_key_def split: sum.split)

lemma sealed_Inr:
  "sealed cr nonce v = Inr bytes \<longleftrightarrow>
     (\<exists>pt ct. vc_to_json cr (va_payload v) = Inr pt
        \<and> vc_seal cr (va_key v) nonce (take 36 (va_header v) @ nonce) pt = Inr ct
        \<and> bytes = take 36 (va_header v) @ nonce @ ct)"
  by (auto simp: sealed_def Let_def simp del: lit_simps split: sum.splits)

lemma unseal_sealed:
  assumes laws: "vault_laws cr" and wf: "vault_wf v" and un: "unlocks cr p v" and n: "length nonce = 12"
    and s: "sealed cr nonce v = Inr bytes"
  shows "unseal cr path p bytes = Inr (v\<lparr>va_path := path, va_header := take 36 (va_header v) @ nonce\<rparr>)"
proof -
  obtain pt ct where pt: "vc_to_json cr (va_payload v) = Inr pt"
    "vc_seal cr (va_key v) nonce (take 36 (va_header v) @ nonce) pt = Inr ct"
    and bytes: "bytes = take 36 (va_header v) @ nonce @ ct" using s by (auto simp: sealed_Inr)
  have h: "length (va_header v) = 48" "take 8 (va_header v) = magic" "bt_wf (pm_entries (va_payload v))"
    using wf by (simp_all add: vault_wf_def)
  have b: "48 \<le> length bytes" "take 8 bytes = magic" "take 48 bytes = take 36 (va_header v) @ nonce"
    "drop 48 bytes = ct" "drop 36 (take 48 bytes) = nonce"
    "take 16 (drop 20 (take 48 bytes)) = take 16 (drop 20 (va_header v))"
    using h n by (simp_all add: bytes min_def drop_take)
  have "derive_key cr p (take 16 (drop 20 (va_header v))) = Inr (va_key v)" using un by (simp add: unlocks_def)
  then show ?thesis
    using b pt vault_lawsD(1,2) [OF laws] h(3)
    by (simp add: unseal_def Let_def del: lit_simps)
qed

lemma unseal_Inr:
  assumes "unseal cr path p bytes = Inr v"
  shows "48 \<le> length bytes \<and> take 8 bytes = magic
     \<and> (\<exists>key pt. derive_key cr p (take 16 (drop 20 (take 48 bytes))) = Inr key
        \<and> vc_open cr key (drop 36 (take 48 bytes)) (take 48 bytes) (drop 48 bytes) = Some pt
        \<and> vc_from_json cr pt = Inr (va_payload v) \<and> va_header v = take 48 bytes \<and> va_key v = key)"
proof -
  let ?salt = "take 16 (drop 20 (take 48 bytes))"
  have b: "48 \<le> length bytes" "take 8 bytes = magic"
    using assms by (auto simp: unseal_def simp del: lit_simps split: if_splits)
  obtain key where key: "derive_key cr p ?salt = Inr key"
    using assms b by (cases "derive_key cr p ?salt") (simp_all add: unseal_def del: lit_simps)
  obtain pt where pt: "vc_open cr key (drop 36 (take 48 bytes)) (take 48 bytes) (drop 48 bytes) = Some pt"
    using assms b key by (cases "vc_open cr key (drop 36 (take 48 bytes)) (take 48 bytes) (drop 48 bytes)")
      (simp_all add: unseal_def del: lit_simps)
  show ?thesis
    using assms b key pt by (cases "vc_from_json cr pt") (auto simp: unseal_def simp del: lit_simps)
qed

lemma reopened_fields:
  assumes "vault_wf v" and "unlocks cr p v" and "length nonce = 12"
    and "w = v\<lparr>va_path := path, va_header := take 36 (va_header v) @ nonce\<rparr>"
  shows "vault_wf w \<and> unlocks cr p w \<and> va_entries w = va_entries v \<and> va_path w = path"
  using assms by (simp add: vault_wf_def unlocks_def drop_take min_def)

section \<open>Writing the file\<close>

definition vault_tmp :: "ustring \<Rightarrow> ustring" where
  "vault_tmp path = with_extension (lit ''vault.tmp'') path"

definition write_vault_tmp :: "ustring \<Rightarrow> u8 list \<Rightarrow> unit run" where
  "write_vault_tmp path bytes =
     (let tmp = vault_tmp path in
      run_then (on_err from_io io_touch) (\<lambda>_.
      run_then (on_err from_io (io_create tmp)) (\<lambda>_.
      run_then (on_err from_io (io_write_all tmp bytes)) (\<lambda>_.
      run_then (on_err from_io io_touch) (\<lambda>_.
      on_err from_io io_touch)))))"

lemma write_vault_parts:
  "write_vault path c = run_then (write_vault_tmp path c) (\<lambda>_. on_err from_io (io_rename (vault_tmp path) path))"
  by (simp add: write_vault_def write_vault_tmp_def vault_tmp_def Let_def run_then_assoc)

lemma write_vault_tmp_touches: "touches {vault_tmp path} (write_vault_tmp path c)"
  unfolding write_vault_tmp_def Let_def by (intro touch_intros) simp_all

lemma write_vault_tmp_yields:
  "yields (\<lambda>s. True) (write_vault_tmp path c) (\<lambda>s. fs_files s (vault_tmp path) = Some c)"
  unfolding write_vault_tmp_def Let_def
  by (rule yields_then [OF yields_skip], rule yields_then [OF yields_calls(2)],
      rule yields_then [OF yields_calls(3)])
    (rule yields_then [OF yields_calls(1) [where v = "Some c", simplified]]
      yields_calls(1) [where v = "Some c", simplified] | simp)+

lemma write_vault_spec:
  assumes "vault_tmp path \<noteq> path" and "write_vault path c s = (r, s')"
  shows "(\<forall>x. r = Inr x \<longrightarrow> fs_files s' = (fs_files s)(vault_tmp path := None, path \<mapsto> c))
     \<and> (\<forall>e. r = Inl e \<longrightarrow> (\<forall>p. p \<noteq> vault_tmp path \<longrightarrow> fs_files s' p = fs_files s p))"
  by (rule replace_by_rename [OF write_vault_tmp_touches write_vault_tmp_yields assms(1)])
    (use assms(2) in \<open>simp add: write_vault_parts\<close>)

definition vault_bytes :: "vault_crypto \<Rightarrow> u8 list \<times> vault \<Rightarrow> u8 list" where
  "vault_bytes cr nv = (case sealed cr (fst nv) (snd nv) of Inr bytes \<Rightarrow> bytes | Inl _ \<Rightarrow> [])"

definition vault_at :: "ustring \<Rightarrow> u8 list \<times> vault \<Rightarrow> bool" where
  "vault_at path nv \<longleftrightarrow> va_path (snd nv) = path \<and> vault_tmp path \<noteq> path"

lemma vault_save_cases:
  assumes "vault_save cr nonce v s = (r, s')"
  shows "(\<exists>e. sealed cr nonce v = Inl e \<and> r = Inl e \<and> s' = s)
     \<or> (\<exists>bytes. sealed cr nonce v = Inr bytes \<and> write_vault (va_path v) bytes s = (r, s'))"
  using assms by (cases "sealed cr nonce v") (auto simp: vault_save_def pure_run_def)

interpretation vlt: atomic_save "\<lambda>nv. vault_save cr (fst nv) (snd nv)" path "vault_bytes cr" "vault_at path" for cr path
proof
  fix c s x s' e
  assume a: "vault_at path c"
  then have ne: "vault_tmp path \<noteq> path" "va_path (snd c) = path" by (simp_all add: vault_at_def)
  show "vault_save cr (fst c) (snd c) s = (Inr x, s') \<Longrightarrow> fs_files s' path = Some (vault_bytes cr c)"
    using vault_save_cases [of cr "fst c" "snd c" s "Inr x" s'] write_vault_spec [OF ne(1)] ne(2)
    by (fastforce simp: vault_bytes_def)
  show "vault_save cr (fst c) (snd c) s = (Inl e, s') \<Longrightarrow> fs_files s' path = fs_files s path"
    using vault_save_cases [of cr "fst c" "snd c" s "Inl e" s'] write_vault_spec [OF ne(1)] ne(2) ne(1)
    by (metis)
qed

section \<open>The abstract vault\<close>

text \<open>A vault stands for the passphrase that unlocks it and a map from keys to texts.\<close>

type_synonym abs_vault = "ustring \<times> (ustring \<rightharpoonup> ustring)"

definition is_text :: "ustring \<Rightarrow> bool" where
  "is_text t \<longleftrightarrow> (\<forall>c \<in> set t. is_scalar c)"

definition vault_lookup :: "vault_crypto \<Rightarrow> vault \<Rightarrow> ustring \<Rightarrow> ustring option" where
  "vault_lookup cr v k = (case vault_get cr k v of Inr x \<Rightarrow> Some x | Inl _ \<Rightarrow> None)"

definition vault_rel :: "vault_crypto \<Rightarrow> vault \<Rightarrow> abs_vault \<Rightarrow> bool" where
  "vault_rel cr v a \<longleftrightarrow> vault_wf v \<and> unlocks cr (fst a) v \<and> vault_lookup cr v = snd a"

datatype vault_op = Op_Set ustring ustring | Op_Delete ustring | Op_Change ustring "u8 list"

fun op_ok :: "vault_op \<Rightarrow> bool" where
  "op_ok (Op_Set k x) \<longleftrightarrow> is_text x"
| "op_ok (Op_Delete k) \<longleftrightarrow> True"
| "op_ok (Op_Change p salt) \<longleftrightarrow> length salt = salt_len"

fun vault_step ::
  "vault_crypto \<Rightarrow> u8 list \<Rightarrow> vault_op \<Rightarrow> vault \<Rightarrow> fs \<Rightarrow> (unit rdt_result \<times> vault) \<times> fs" where
  "vault_step cr nonce (Op_Set k x) v s = vault_set cr nonce k x v s"
| "vault_step cr nonce (Op_Delete k) v s = vault_delete cr nonce k v s"
| "vault_step cr nonce (Op_Change p salt) v s = change_passphrase cr salt nonce p v s"

fun abs_step :: "vault_crypto \<Rightarrow> vault_op \<Rightarrow> abs_vault \<Rightarrow> abs_vault" where
  "abs_step cr (Op_Set k x) (p, m) = (p, m(k \<mapsto> x))"
| "abs_step cr (Op_Delete k) (p, m) = (p, m(k := None))"
| "abs_step cr (Op_Change q salt) (p, m) =
     (if q \<noteq> [] \<and> (\<exists>key. derive_key cr q salt = Inr key) then (q, m) else (p, m))"

lemma vault_lookup_get:
  "vault_lookup cr v k = map_of (va_entries v) k \<bind>
     (\<lambda>encoded. case decode_entry cr k encoded of Inr x \<Rightarrow> Some x | Inl _ \<Rightarrow> None)"
  by (simp add: vault_lookup_def vault_get_def no_entry_def fail_def split: option.split)

lemma with_entries_fields [simp]:
  "va_path (with_entries es v) = va_path v" "va_key (with_entries es v) = va_key v"
  "va_header (with_entries es v) = va_header v" "va_entries (with_entries es v) = es"
  by (simp_all add: with_entries_def)

lemma saving_fields: "snd (fst (saving cr nonce v s)) = v"
  by (simp add: saving_def split: prod.split)

lemma decode_encoded:
  "vault_laws cr \<Longrightarrow> is_text x \<Longrightarrow> decode_entry cr k (vc_b64_encode cr (as_bytes x)) = Inr x"
  by (simp add: decode_entry_def vault_lawsD(4) is_text_def from_utf8_as_bytes)

interpretation vmap: key_store "\<lambda>k. k" "vault_lookup cr"
    "\<lambda>k x v. snd (fst (vault_set cr nonce k x v s))" "\<lambda>k v. snd (fst (vault_delete cr nonce k v s))"
    "\<lambda>v. vault_laws cr \<and> vault_wf v" is_text for cr nonce s
proof
  fix v k x j
  assume v: "vault_laws cr \<and> vault_wf v"
  then have wf: "bt_wf (va_entries v)" by (simp add: vault_wf_def)
  {
    assume x: "is_text x"
    show "vault_laws cr \<and> vault_wf (snd (fst (vault_set cr nonce k x v s)))"
      using v wf by (simp add: vault_set_def saving_fields vault_wf_def)
    show "vault_lookup cr (snd (fst (vault_set cr nonce k x v s))) j = (if j = k then Some x else vault_lookup cr v j)"
      using decode_encoded [OF _ x] v wf by (simp add: vault_set_def saving_fields vault_lookup_get)
  }
  show "vault_laws cr \<and> vault_wf (snd (fst (vault_delete cr nonce k v s)))"
    using v wf by (simp add: vault_delete_def saving_fields vault_wf_def)
  show "vault_lookup cr (snd (fst (vault_delete cr nonce k v s))) j = (if j = k then None else vault_lookup cr v j)"
    by (simp add: vault_delete_def saving_fields vault_lookup_get)
qed

text \<open>The last operation of a vault that was saved: the file holds its sealed bytes.\<close>

definition on_disk :: "vault_crypto \<Rightarrow> u8 list \<Rightarrow> vault \<Rightarrow> fs \<Rightarrow> bool" where
  "on_disk cr nonce v s \<longleftrightarrow> (\<exists>bytes. sealed cr nonce v = Inr bytes \<and> fs_files s (va_path v) = Some bytes)"

lemma vault_save_on_disk:
  "vault_tmp (va_path v) \<noteq> va_path v \<Longrightarrow> vault_save cr nonce v s = (Inr x, s') \<Longrightarrow> on_disk cr nonce v s'"
  using vault_save_cases [of cr nonce v s "Inr x" s'] write_vault_spec
  by (fastforce simp: on_disk_def)

lemma saving_on_disk:
  "vault_tmp (va_path v) \<noteq> va_path v \<Longrightarrow> saving cr nonce v s = ((Inr x, v'), s') \<Longrightarrow> on_disk cr nonce v' s'"
  by (auto simp: saving_def split: prod.splits dest: vault_save_on_disk)

lemma change_passphrase_cases:
  "change_passphrase cr salt nonce q v s =
     (if q = [] then ((empty_passphrase, v), s)
      else case derive_key cr q salt of Inl e \<Rightarrow> ((Inl e, v), s)
        | Inr key \<Rightarrow> saving cr nonce (v\<lparr>va_key := key, va_header := build_header salt\<rparr>) s)"
  by (simp add: change_passphrase_def)

lemma change_passphrase_rel:
  assumes "vault_rel cr v (p, m)" and "length salt = salt_len"
  shows "vault_rel cr (snd (fst (change_passphrase cr salt nonce q v s))) (abs_step cr (Op_Change q salt) (p, m))"
proof (cases "q = [] \<or> (\<exists>e. derive_key cr q salt = Inl e)")
  case True
  with assms(1) show ?thesis by (auto simp: change_passphrase_cases)
next
  case False
  then obtain key where key: "q \<noteq> []" "derive_key cr q salt = Inr key" by (cases "derive_key cr q salt") auto
  let ?v = "v\<lparr>va_key := key, va_header := build_header salt\<rparr>"
  have "vault_wf ?v" "unlocks cr q ?v"
    using assms key build_header_layout [of salt] by (simp_all add: vault_rel_def vault_wf_def unlocks_def)
  moreover have "vault_lookup cr ?v = vault_lookup cr v" by (rule ext) (simp add: vault_lookup_get)
  ultimately show ?thesis using assms(1) key by (simp add: change_passphrase_cases saving_fields vault_rel_def)
qed

lemma vault_step_rel:
  assumes "vault_laws cr" and "vault_rel cr v a" and "op_ok op"
  shows "vault_rel cr (snd (fst (vault_step cr nonce op v s))) (abs_step cr op a)"
proof (cases op)
  case (Op_Set k x)
  have i: "vault_laws cr \<and> vault_wf v" and x: "is_text x" using assms Op_Set by (simp_all add: vault_rel_def)
  have "unlocks cr (fst a) (snd (fst (vault_set cr nonce k x v s)))"
    using assms(2) by (simp add: vault_set_def saving_fields vault_rel_def unlocks_def)
  moreover have "vault_lookup cr (snd (fst (vault_set cr nonce k x v s))) = (vault_lookup cr v)(k \<mapsto> x)"
    by (rule ext) (simp add: vmap.lookup_put [OF i x])
  ultimately show ?thesis
    using vmap.put_inv [OF i x] assms(2) by (cases a) (simp add: Op_Set vault_rel_def)
next
  case (Op_Delete k)
  have i: "vault_laws cr \<and> vault_wf v" using assms by (simp add: vault_rel_def)
  have "unlocks cr (fst a) (snd (fst (vault_delete cr nonce k v s)))"
    using assms(2) by (simp add: vault_delete_def saving_fields vault_rel_def unlocks_def)
  moreover have "vault_lookup cr (snd (fst (vault_delete cr nonce k v s))) = (vault_lookup cr v)(k := None)"
    by (rule ext) (simp add: vmap.lookup_del [OF i])
  ultimately show ?thesis
    using vmap.del_inv [OF i] assms(2) by (cases a) (simp add: Op_Delete vault_rel_def)
next
  case (Op_Change q salt)
  with assms(2,3) show ?thesis
    using change_passphrase_rel [of cr v "fst a" "snd a" salt] by simp
qed

lemma vault_step_path: "va_path (snd (fst (vault_step cr nonce op v s))) = va_path v"
  by (cases op) (simp_all add: vault_set_def vault_delete_def change_passphrase_cases saving_fields split: sum.split)

lemma vault_step_on_disk:
  assumes "vault_tmp (va_path v) \<noteq> va_path v" and "vault_step cr nonce op v s = ((Inr (), v'), s')"
  shows "on_disk cr nonce v' s'"
proof (cases op)
  case (Op_Change q salt)
  then have "saving cr nonce (v\<lparr>va_key := va_key v', va_header := build_header salt\<rparr>) s = ((Inr (), v'), s')"
    using assms(2) by (auto simp: change_passphrase_cases empty_passphrase_def fail_def saving_def
        split: if_splits sum.splits prod.splits)
  from saving_on_disk [OF _ this] assms(1) show ?thesis by simp
next
  case (Op_Set k x)
  with assms saving_on_disk [of "with_entries (bt_insert k (vc_b64_encode cr (as_bytes x)) (va_entries v)) v"]
  show ?thesis by (simp add: vault_set_def)
next
  case (Op_Delete k)
  with assms saving_on_disk [of "with_entries (bt_remove k (va_entries v)) v"]
  show ?thesis by (auto simp: vault_delete_def no_entry_def simp del: lit_simps split: if_splits)
qed

fun vault_run ::
  "vault_crypto \<Rightarrow> (u8 list \<times> vault_op) list \<Rightarrow> vault \<Rightarrow> fs \<Rightarrow> (unit rdt_result list \<times> vault) \<times> fs" where
  "vault_run cr [] v s = (([], v), s)"
| "vault_run cr ((nonce, op) # ops) v s =
     (case vault_step cr nonce op v s of
        ((r, v'), s') \<Rightarrow> (case vault_run cr ops v' s' of ((rs, w), t) \<Rightarrow> ((r # rs, w), t)))"

lemma vault_run_rel:
  assumes "vault_laws cr" and "list_all (\<lambda>(nonce, op). length nonce = nonce_len \<and> op_ok op) ops"
    and "vault_rel cr v a" and "vault_tmp (va_path v) \<noteq> va_path v"
    and "vault_run cr ops v s = ((rs, w), t)"
  shows "vault_rel cr w (fold (\<lambda>(_, op). abs_step cr op) ops a) \<and> va_path w = va_path v
     \<and> (rs \<noteq> [] \<longrightarrow> last rs = Inr () \<longrightarrow> (\<exists>nonce. length nonce = nonce_len \<and> on_disk cr nonce w t))"
  using assms
proof (induction ops arbitrary: v s a rs w t)
  case (Cons x ops)
  obtain nonce op where x: "x = (nonce, op)" by fastforce
  obtain r v1 s1 where 1: "vault_step cr nonce op v s = ((r, v1), s1)" by (metis surj_pair)
  obtain rs' where 2: "vault_run cr ops v1 s1 = ((rs', w), t)" "rs = r # rs'"
    using Cons.prems(5) 1 x by (auto split: prod.splits)
  have rel: "vault_rel cr v1 (abs_step cr op a)"
    using vault_step_rel [OF Cons.prems(1,3), of op nonce s] Cons.prems(2) 1 x by simp
  have path: "va_path v1 = va_path v" using vault_step_path [of cr nonce op v s] 1 by simp
  have ih: "vault_rel cr w (fold (\<lambda>(_, op). abs_step cr op) ops (abs_step cr op a)) \<and> va_path w = va_path v1
      \<and> (rs' \<noteq> [] \<longrightarrow> last rs' = Inr () \<longrightarrow> (\<exists>nonce. length nonce = nonce_len \<and> on_disk cr nonce w t))"
    using Cons.IH [OF Cons.prems(1) _ rel _ 2(1)] Cons.prems(2,4) path by simp
  have "on_disk cr nonce w t" if "rs' = []" "r = Inr ()"
  proof -
    have "ops = []" using 2(1) that(1) by (cases ops) (auto split: prod.splits)
    with 2(1) have "w = v1" "t = s1" by simp_all
    with vault_step_on_disk [OF Cons.prems(4)] 1 that(2) show ?thesis by simp
  qed
  with ih 2(2) x path Cons.prems(2) show ?case by auto
qed simp

lemma vault_create_cases:
  assumes "vault_create cr salt nonce path p s = (Inr v, s')"
  shows "p \<noteq> [] \<and> derive_key cr p salt = Inr (va_key v) \<and> va_path v = path \<and> va_header v = build_header salt
     \<and> va_payload v = \<lparr>pm_version = 1, pm_entries = []\<rparr> \<and> vault_save cr nonce v s = (Inr (), s')"
  using assms
  by (auto simp: vault_create_def Let_def empty_passphrase_def pure_run_def run_then_Inr fail_def
      simp del: lit_simps split: if_splits sum.splits)

lemma vault_create_rel:
  assumes "vault_create cr salt nonce path p s = (Inr v, s')" and "length salt = salt_len"
  shows "vault_rel cr v (p, Map.empty)"
  using vault_create_cases [OF assms(1)] build_header_layout [of salt] assms(2)
  by (auto simp: vault_rel_def vault_wf_def unlocks_def vault_lookup_get)

lemma open_on_disk:
  assumes "vault_laws cr" and "vault_rel cr w a" and "on_disk cr nonce w t" and "length nonce = nonce_len"
    and "fs_faults t = []" and "va_path w = path"
  shows "\<exists>x t'. vault_open cr path (fst a) t = (Inr x, t') \<and> vault_rel cr x a"
proof -
  obtain bytes where b: "sealed cr nonce w = Inr bytes" "fs_files t path = Some bytes"
    using assms(3,6) by (auto simp: on_disk_def)
  have wf: "vault_wf w" "unlocks cr (fst a) w" "length nonce = 12" using assms(2,4) by (simp_all add: vault_rel_def)
  let ?x = "w\<lparr>va_path := path, va_header := take 36 (va_header w) @ nonce\<rparr>"
  have "vault_open cr path (fst a) t = (Inr ?x, after_call t)"
    using b assms(5) unseal_sealed [OF assms(1) wf b(1), of path]
    by (simp add: vault_open_def run_then_def on_err_def io_read_def pure_run_def del: lit_simps)
  moreover have "vault_rel cr ?x a"
    using reopened_fields [OF wf refl, of path] assms(2) by (simp add: vault_rel_def vault_lookup_get fun_eq_iff)
  ultimately show ?thesis by blast
qed

text \<open>C20: A created vault refines a passphrase with a map. After any sequence of settings, deletions
  and changes of the passphrase, with any failures of the file system, the vault in memory has the
  entries of the map; and when the last operation reported success and the disk answers, opening
  the file with the passphrase of the model gives a vault with exactly these entries.\<close>

theorem vault_refines_map:
  assumes "vault_laws cr" and "length salt = salt_len"
    and "vault_create cr salt nonce path p s = (Inr v, s0)" and "vault_tmp path \<noteq> path"
    and "list_all (\<lambda>(nonce, op). length nonce = nonce_len \<and> op_ok op) ops"
    and "vault_run cr ops v s0 = ((rs, w), t)"
    and "(q, m) = fold (\<lambda>(_, op). abs_step cr op) ops (p, Map.empty)"
  shows "vault_lookup cr w = m
     \<and> (rs \<noteq> [] \<longrightarrow> last rs = Inr () \<longrightarrow> fs_faults t = [] \<longrightarrow>
          (\<exists>x t'. vault_open cr path q t = (Inr x, t') \<and> vault_lookup cr x = m))"
proof -
  have path: "va_path v = path" using vault_create_cases [OF assms(3)] by simp
  have r: "vault_rel cr w (q, m) \<and> va_path w = path
     \<and> (rs \<noteq> [] \<longrightarrow> last rs = Inr () \<longrightarrow> (\<exists>nonce. length nonce = nonce_len \<and> on_disk cr nonce w t))"
    using vault_run_rel [OF assms(1,5) vault_create_rel [OF assms(3,2)] _ assms(6)] assms(4,7) path by simp
  have "\<exists>x t'. vault_open cr path q t = (Inr x, t') \<and> vault_lookup cr x = m"
    if d: "rs \<noteq> []" "last rs = Inr ()" "fs_faults t = []"
  proof -
    obtain n where "length n = nonce_len" "on_disk cr n w t" using r d by blast
    then obtain x t' where "vault_open cr path (fst (q, m)) t = (Inr x, t')" "vault_rel cr x (q, m)"
      using open_on_disk [OF assms(1) _ _ _ d(3), of w "(q, m)" n path] r by blast
    then show ?thesis by (auto simp: vault_rel_def)
  qed
  then show ?thesis using r by (auto simp: vault_rel_def)
qed

text \<open>C21: Only files sealed under the passphrase open: when opening succeeds, the file is a header with
  the magic and a ciphertext, and this ciphertext is the encryption of the payload under the key
  derived from the passphrase and the salt of the header, bound to the whole header.\<close>

theorem open_authenticates:
  assumes "vault_laws cr" and "vault_open cr path p s = (Inr v, s')"
  shows "\<exists>ct pt. fs_files s path = Some (va_header v @ ct)
     \<and> length (va_header v) = header_len \<and> take 8 (va_header v) = magic
     \<and> derive_key cr p (take salt_len (drop 20 (va_header v))) = Inr (va_key v)
     \<and> vc_seal cr (va_key v) (drop 36 (va_header v)) (va_header v) pt = Inr ct
     \<and> vc_from_json cr pt = Inr (va_payload v)"
proof -
  obtain bytes where b: "fs_files s path = Some bytes" and u: "unseal cr path p bytes = Inr v"
    using assms(2) by (auto simp: vault_open_def run_then_Inr pure_run_def on_err_def
        split: prod.splits sum.splits dest!: io_read_Inr)
  obtain key pt where k: "48 \<le> length bytes" "take 8 bytes = magic"
    "derive_key cr p (take 16 (drop 20 (take 48 bytes))) = Inr key"
    "vc_open cr key (drop 36 (take 48 bytes)) (take 48 bytes) (drop 48 bytes) = Some pt"
    "vc_from_json cr pt = Inr (va_payload v)" "va_header v = take 48 bytes" "va_key v = key"
    using unseal_Inr [OF u] by blast
  have "bytes = va_header v @ drop 48 bytes" using k(6) by simp
  moreover have "length (va_header v) = 48" "take 8 (va_header v) = magic" using k(1,2,6) by (simp_all add: min_def)
  moreover have "vc_seal cr (va_key v) (drop 36 (va_header v)) (va_header v) pt = Inr (drop 48 bytes)"
    using k(4,6,7) vault_lawsD(1) [OF assms(1)] by simp
  ultimately show ?thesis using b k(3,5,6,7) by (intro exI [of _ "drop 48 bytes"] exI [of _ pt]) simp
qed

text \<open>
  A change of the passphrase that fails is not undone. When the file cannot be written, the vault in
  memory is already locked with the new passphrase, and the next successful write locks the file with
  it, although the user was told that the change failed.
\<close>

lemma failed_change_takes_effect_later:
  assumes "vault_laws cr" and "vault_rel cr v (p, m)" and "vault_tmp (va_path v) \<noteq> va_path v"
    and "q \<noteq> []" and "derive_key cr q salt = Inr key" and "length salt = salt_len"
    and "change_passphrase cr salt nonce q v s = ((Inl e, v1), s1)"
    and "vault_set cr nonce' k x v1 s1 = ((Inr (), v2), s2)" and "is_text x" and "length nonce' = nonce_len"
    and "fs_faults s2 = []"
  shows "\<exists>w s3. vault_open cr (va_path v) q s2 = (Inr w, s3) \<and> vault_lookup cr w = m(k \<mapsto> x)"
proof -
  have 1: "vault_rel cr v1 (q, m)" "va_path v1 = va_path v"
    using vault_step_rel [OF assms(1,2), of "Op_Change q salt" nonce s] vault_step_path [of cr nonce "Op_Change q salt" v s]
      assms(4-7) by simp_all
  have 2: "vault_rel cr v2 (q, m(k \<mapsto> x))" "va_path v2 = va_path v"
    using vault_step_rel [OF assms(1) 1(1), of "Op_Set k x" nonce' s1] vault_step_path [of cr nonce' "Op_Set k x" v1 s1]
      assms(8,9) 1(2) by simp_all
  have "on_disk cr nonce' v2 s2"
    using vault_step_on_disk [of v1 cr nonce' "Op_Set k x" s1 v2 s2] assms(3,8) 1(2) by simp
  from open_on_disk [OF assms(1) 2(1) this assms(10,11) 2(2)] show ?thesis by (auto simp: vault_rel_def)
qed

text \<open>A failed \<open>set\<close> or \<open>delete\<close> changes the vault in memory all the same.\<close>

lemma failed_set_is_visible:
  assumes "vault_laws cr" and "vault_wf v" and "is_text x"
    and "vault_set cr nonce k x v s = ((Inl e, v'), s')"
  shows "vault_get cr k v' = Inr x"
proof -
  have "vault_lookup cr (snd (fst (vault_set cr nonce k x v s))) k = Some x"
    using assms(1-3) by (simp add: vmap.lookup_put)
  then have "vault_lookup cr v' k = Some x" using assms(4) by simp
  then show ?thesis by (auto simp: vault_lookup_def split: sum.splits)
qed

text \<open>Whatever fails, the vault file holds the last vault whose save reported success.\<close>

lemma vault_file_is_last_success:
  assumes "\<forall>nv \<in> set nvs. va_path (snd nv) = path" and "vault_tmp path \<noteq> path"
    and "run_saves (\<lambda>nv. vault_save cr (fst nv) (snd nv)) nvs s = (t, ok)"
  shows "fs_files t path = (if ok = [] then fs_files s path else Some (vault_bytes cr (last ok)))"
  using vlt.run_saves_last [OF _ assms(3)] assms(1,2) by (simp add: vault_at_def)

section \<open>Examples\<close>

text \<open>A toy cipher that writes key, nonce and header before the message, and payloads of at most one
  known entry.\<close>

definition toy_payload :: "(ustring \<times> ustring) list \<Rightarrow> payload" where
  "toy_payload es = \<lparr>pm_version = 1, pm_entries = es\<rparr>"

definition toy_crypto :: vault_crypto where
  "toy_crypto =
     \<lparr>vc_kdf = (\<lambda>m t p n pass salt. Inr pass),
      vc_seal = (\<lambda>k n a pt. Inr (k @ n @ a @ pt)),
      vc_open = (\<lambda>k n a ct. let h = k @ n @ a in
        if take (length h) ct = h then Some (drop (length h) ct) else None),
      vc_to_json = (\<lambda>p. if p = toy_payload [] then Inr [0]
        else if p = toy_payload [([107], [120])] then Inr [1] else Inl []),
      vc_from_json = (\<lambda>bs. if bs = [0] then Inr (toy_payload [])
        else if bs = [1] then Inr (toy_payload [([107], [120])]) else Inl []),
      vc_b64_encode = map unat,
      vc_b64_decode = (\<lambda>t. Some (map word_of_nat t))\<rparr>"

lemma toy_seal_open:
  "(\<exists>h. h = k @ n @ a \<and> (if take (length h) ct = h then Some (drop (length h) ct) else None) = Some pt)
     \<longleftrightarrow> k @ n @ a @ pt = (ct :: u8 list)"
proof -
  have "take (length h) ct = h \<and> drop (length h) ct = pt \<longleftrightarrow> h @ pt = ct" for h
    by (auto simp: append_eq_conv_conj)
  from this [of "k @ n @ a"] show ?thesis by auto
qed

lemma toy_crypto_laws: "vault_laws toy_crypto"
proof -
  have "word_of_nat (unat b) = b" for b :: u8 by simp
  then have "map word_of_nat (map unat bs) = bs" for bs :: "u8 list" by (simp add: map_idI)
  moreover have "vc_seal toy_crypto k n a pt = Inr ct \<longleftrightarrow> vc_open toy_crypto k n a ct = Some pt" for k n a pt ct
    using toy_seal_open [of k n a ct pt] by (simp add: toy_crypto_def Let_def)
  ultimately show ?thesis
    by (auto simp: vault_laws_def toy_crypto_def toy_payload_def bt_wf_def split: if_splits)
qed

definition blank_disk :: fs where
  "blank_disk = \<lparr>fs_files = Map.empty, fs_faults = []\<rparr>"

abbreviation zeros :: "nat \<Rightarrow> u8 list" where
  "zeros n \<equiv> replicate n 0"

definition toy_vault :: "(ustring \<times> ustring) list \<Rightarrow> vault" where
  "toy_vault es = \<lparr>va_path = lit ''a'', va_key = as_bytes (lit ''pw''), va_header = build_header (zeros 16),
     va_payload = toy_payload es\<rparr>"

lemma toy_vault_tmp: "vault_tmp (lit ''a'') = lit ''a.vault.tmp''"
  by (simp add: vault_tmp_def with_extension_def path_split_def rsplit_once_def split_once_def)

lemma write_vault_ok:
  assumes "fs_faults s = []"
  shows "\<exists>s'. write_vault path c s = (Inr (), s') \<and> fs_faults s' = []"
  using assms
  by (simp add: write_vault_def Let_def run_then_def on_err_def io_touch_def io_create_def io_write_all_def io_rename_def
      after_call_def set_file_def del: lit_simps)

lemma toy_save:
  assumes "fs_faults s = []" and "es = [] \<or> es = [([107], [120])]"
  shows "\<exists>s'. vault_save toy_crypto (zeros 12) (toy_vault es) s = (Inr (), s') \<and> fs_faults s' = []"
proof -
  obtain bytes where "sealed toy_crypto (zeros 12) (toy_vault es) = Inr bytes"
    using assms(2) by (auto simp: sealed_def Let_def toy_crypto_def toy_vault_def toy_payload_def)
  with write_vault_ok [OF assms(1)] show ?thesis by (simp add: vault_save_def)
qed

lemma toy_create:
  "\<exists>s. vault_create toy_crypto (zeros 16) (zeros 12) (lit ''a'') (lit ''pw'') blank_disk = (Inr (toy_vault []), s)
     \<and> fs_faults s = []"
proof -
  obtain s where "vault_save toy_crypto (zeros 12) (toy_vault []) blank_disk = (Inr (), s)" "fs_faults s = []"
    using toy_save [of blank_disk "[]"] by (auto simp: blank_disk_def)
  moreover have "derive_key toy_crypto (lit ''pw'') (zeros 16) = Inr (as_bytes (lit ''pw''))" and "lit ''pw'' \<noteq> []"
    by (simp_all add: derive_key_def toy_crypto_def)
  then have "vault_create toy_crypto (zeros 16) (zeros 12) (lit ''a'') (lit ''pw'')
      = run_then (vault_save toy_crypto (zeros 12) (toy_vault [])) (\<lambda>_. pure_run (Inr (toy_vault [])))"
    by (simp add: vault_create_def toy_vault_def toy_payload_def Let_def del: lit_simps)
  ultimately show ?thesis by (simp add: run_then_def pure_run_def)
qed

theorem vault_refines_map_witness:
  "\<exists>s0 w t x t'. vault_create toy_crypto (zeros 16) (zeros 12) (lit ''a'') (lit ''pw'') blank_disk = (Inr (toy_vault []), s0)
     \<and> vault_run toy_crypto [(zeros 12, Op_Set (lit ''k'') (lit ''x''))] (toy_vault []) s0 = (([Inr ()], w), t)
     \<and> vault_open toy_crypto (lit ''a'') (lit ''pw'') t = (Inr x, t')
     \<and> vault_lookup toy_crypto x (lit ''k'') = Some (lit ''x'')"
proof -
  let ?ops = "[(zeros 12, Op_Set (lit ''k'') (lit ''x''))]"
  obtain s0 where s0: "vault_create toy_crypto (zeros 16) (zeros 12) (lit ''a'') (lit ''pw'') blank_disk = (Inr (toy_vault []), s0)"
    "fs_faults s0 = []" using toy_create by blast
  obtain t where t: "vault_save toy_crypto (zeros 12) (toy_vault [([107], [120])]) s0 = (Inr (), t)" "fs_faults t = []"
    using toy_save [OF s0(2)] by blast
  have "with_entries (bt_insert (lit ''k'') (vc_b64_encode toy_crypto (as_bytes (lit ''x''))) (va_entries (toy_vault [])))
      (toy_vault []) = toy_vault [([107], [120])]"
    by (simp add: with_entries_def toy_vault_def toy_payload_def toy_crypto_def as_bytes_def encode_utf8_def)
  then have run: "vault_run toy_crypto ?ops (toy_vault []) s0 = (([Inr ()], toy_vault [([107], [120])]), t)"
    using t(1) by (simp add: vault_set_def saving_def del: lit_simps)
  have ok: "list_all (\<lambda>(nonce, op). length nonce = nonce_len \<and> op_ok op) ?ops"
    by (simp add: is_text_def is_scalar_def)
  have tmp: "vault_tmp (lit ''a'') \<noteq> lit ''a''" using toy_vault_tmp by simp
  have "\<exists>x t'. vault_open toy_crypto (lit ''a'') (lit ''pw'') t = (Inr x, t')
      \<and> vault_lookup toy_crypto x = [lit ''k'' \<mapsto> lit ''x'']"
    using vault_refines_map [OF toy_crypto_laws _ s0(1) tmp ok run, of "lit ''pw''" "[lit ''k'' \<mapsto> lit ''x'']"] t(2)
    by (simp del: lit_simps)
  with s0(1) run show ?thesis by fastforce
qed

theorem open_authenticates_witness:
  "\<exists>s v s' ct. vault_open toy_crypto (lit ''a'') (lit ''pw'') s = (Inr v, s')
     \<and> fs_files s (lit ''a'') = Some (va_header v @ ct) \<and> take 8 (va_header v) = magic"
proof -
  obtain s0 where s0: "vault_create toy_crypto (zeros 16) (zeros 12) (lit ''a'') (lit ''pw'') blank_disk = (Inr (toy_vault []), s0)"
    "fs_faults s0 = []" using toy_create by blast
  have "on_disk toy_crypto (zeros 12) (toy_vault []) s0"
  proof (rule vault_save_on_disk)
    show "vault_save toy_crypto (zeros 12) (toy_vault []) blank_disk = (Inr (), s0)"
      using vault_create_cases [OF s0(1)] by blast
    show "vault_tmp (va_path (toy_vault [])) \<noteq> va_path (toy_vault [])"
      using toy_vault_tmp by (simp add: toy_vault_def)
  qed
  then obtain x t' where "vault_open toy_crypto (lit ''a'') (fst (lit ''pw'', Map.empty)) s0 = (Inr x, t')"
    using open_on_disk [OF toy_crypto_laws vault_create_rel [OF s0(1)], of "zeros 12" s0 "lit ''a''"] s0(2)
    by (auto simp: toy_vault_def simp del: lit_simps)
  then have o: "vault_open toy_crypto (lit ''a'') (lit ''pw'') s0 = (Inr x, t')" by simp
  from open_authenticates [OF toy_crypto_laws o] o show ?thesis by blast
qed

end
