(* ===== verification/Rdt_Secrets_Props.thy ===== *)
theory Rdt_Secrets_Props
  imports Rdt_Secrets Rdt_Vault_Props
begin

text \<open>
  What the secret store promises: a stored secret is read back, from either backend; moving the
  vault into the keyring moves every entry; and reading with the fallback.
\<close>

section \<open>The keyring program\<close>

text \<open>
  What is relied on of \<open>secret-tool\<close>, with \<open>ring\<close> the contents of the keyring: a successful
  \<open>store\<close> or \<open>clear\<close> changes one entry, \<open>lookup\<close> runs and prints the entry or fails without one.
\<close>

definition tool_laws :: "'w tool \<Rightarrow> ustring \<Rightarrow> ('w \<Rightarrow> ustring \<rightharpoonup> u8 list) \<Rightarrow> bool" where
  "tool_laws tool program ring \<longleftrightarrow>
     (\<forall>key bytes w out w'.
        tool program [lit ''store'', lit ''--label=RDT secret'', lit ''rdt-key'', key] bytes w = (Inr out, w') \<longrightarrow>
        po_success out \<longrightarrow> ring w' = (ring w)(key \<mapsto> bytes))
     \<and> (\<forall>key w out w'. tool program [lit ''clear'', lit ''rdt-key'', key] [] w = (Inr out, w') \<longrightarrow>
        po_success out \<longrightarrow> ring w' = (ring w)(key := None))
     \<and> (\<forall>key w. \<exists>out w'. tool program [lit ''lookup'', lit ''rdt-key'', key] [] w = (Inr out, w')
          \<and> ring w' = ring w
          \<and> po_success out = (ring w key \<noteq> None) \<and> (\<forall>bytes. ring w key = Some bytes \<longrightarrow> po_stdout out = bytes))"

lemma tool_laws_lookup:
  assumes "tool_laws tool program ring" and "ring w key = Some bytes"
  obtains out w' where "tool program [lit ''lookup'', lit ''rdt-key'', key] [] w = (Inr out, w')"
    and "po_success out" and "po_stdout out = bytes"
proof -
  have "\<forall>key w. \<exists>out w'. tool program [lit ''lookup'', lit ''rdt-key'', key] [] w = (Inr out, w')
      \<and> ring w' = ring w
      \<and> po_success out = (ring w key \<noteq> None) \<and> (\<forall>bytes. ring w key = Some bytes \<longrightarrow> po_stdout out = bytes)"
    using assms(1) unfolding tool_laws_def by (elim conjE)
  from this [rule_format, of key w] obtain out w'
    where o: "tool program [lit ''lookup'', lit ''rdt-key'', key] [] w = (Inr out, w')"
      "po_success out = (ring w key \<noteq> None)" "\<forall>bytes. ring w key = Some bytes \<longrightarrow> po_stdout out = bytes" by blast
  from that [OF o(1)] o(2,3) assms(2) show ?thesis by simp
qed

lemma tool_store:
  assumes "tool_laws tool program ring" and "secret_tool_set tool program key value w = (Inr x, w')"
  shows "ring w' = (ring w)(key \<mapsto> as_bytes value)"
proof -
  obtain out where "tool program [lit ''store'', lit ''--label=RDT secret'', lit ''rdt-key'', key] (as_bytes value) w
      = (Inr out, w')" "po_success out"
    using assms(2) by (auto simp: secret_tool_set_def cannot_run_def simp del: lit_simps
        split: prod.splits sum.splits tool_failure.splits if_splits)
  with assms(1) show ?thesis unfolding tool_laws_def by blast
qed

text \<open>A text that \<open>secret-tool\<close> hands back unchanged: the code drops line feeds at its end.\<close>

definition plain_secret :: "ustring \<Rightarrow> bool" where
  "plain_secret t \<longleftrightarrow> is_text t \<and> (t = [] \<or> last t \<noteq> 10)"

lemma drop_newlines_plain: "plain_secret t \<Longrightarrow> rev (drop_newlines (rev t)) = t"
  by (cases t rule: rev_cases) (auto simp: plain_secret_def)

lemma tool_lookup:
  assumes "tool_laws tool program ring" and "ring w key = Some (as_bytes t)" and "plain_secret t"
  shows "fst (secret_tool_get tool program key w) = Inr t"
proof -
  obtain out w' where "tool program [lit ''lookup'', lit ''rdt-key'', key] [] w = (Inr out, w')"
    "po_success out" "po_stdout out = as_bytes t"
    using tool_laws_lookup [OF assms(1,2)] .
  moreover have "utf8_lossy (as_bytes t) = t"
    using assms(3) by (simp add: utf8_lossy_text plain_secret_def is_text_def)
  ultimately show ?thesis
    using drop_newlines_plain [OF assms(3)] by (simp add: secret_tool_get_def del: lit_simps)
qed

text \<open>A secret that ends in a line feed does not survive the keyring.\<close>

lemma trailing_newline_is_lost:
  assumes "tool_laws tool program ring" and "ring w key = Some (as_bytes (t @ [10]))" and "plain_secret t"
  shows "fst (secret_tool_get tool program key w) = Inr t"
proof -
  obtain out w' where "tool program [lit ''lookup'', lit ''rdt-key'', key] [] w = (Inr out, w')"
    "po_success out" "po_stdout out = as_bytes (t @ [10])"
    using tool_laws_lookup [OF assms(1,2)] .
  moreover have "utf8_lossy (as_bytes (t @ [10])) = t @ [10]"
    using assms(3) by (intro utf8_lossy_text) (auto simp: plain_secret_def is_text_def is_scalar_def)
  ultimately show ?thesis
    using drop_newlines_plain [OF assms(3)] by (simp add: secret_tool_get_def del: lit_simps)
qed

section \<open>Storing and reading\<close>

definition store_wf :: "secret_store \<Rightarrow> bool" where
  "store_wf st \<longleftrightarrow> (case sc_vault st of Open v \<Rightarrow> vault_wf v | Closed _ \<Rightarrow> True)"

definition ring_laws :: "'w tool \<Rightarrow> secret_store \<Rightarrow> ('w \<Rightarrow> ustring \<rightharpoonup> u8 list) \<Rightarrow> bool" where
  "ring_laws tool st ring \<longleftrightarrow> (\<forall>program. sc_keystore st = SecretTool program \<longrightarrow> tool_laws tool program ring)"

lemma ks_set_get:
  assumes "ring_laws tool st ring" and "ks_set tool (sc_keystore st) key value w = (Inr x, w')" and "plain_secret value"
  shows "fst (ks_get tool (sc_keystore st) key w') = Inr value"
proof -
  obtain program where b: "sc_keystore st = SecretTool program"
    using assms(2) by (cases "sc_keystore st") (auto simp: ks_set_def)
  with assms(1) have laws: "tool_laws tool program ring" by (simp add: ring_laws_def)
  have "ring w' key = Some (as_bytes value)"
    using tool_store [OF laws] assms(2) b by (simp add: ks_set_def)
  from tool_lookup [OF laws this assms(3)] show ?thesis using b by (simp add: ks_get_def)
qed

lemma handle_set_get:
  assumes "vault_laws cr" and "store_wf st" and "is_text value"
    and "handle_set cr nonce key value (sc_vault st) s = ((Inr x, h), s')"
  shows "handle_get cr key h = Inr value"
proof (cases "sc_vault st")
  case (Closed path)
  with assms(4) show ?thesis by (simp add: handle_set_def locked_def)
next
  case (Open v)
  obtain v' where set: "vault_set cr nonce key value v s = ((Inr x, v'), s')" "h = Open v'"
    using assms(4) Open by (auto simp: handle_set_def split: prod.splits)
  have "vault_wf v" using assms(2) Open by (simp add: store_wf_def)
  then have "vault_lookup cr (snd (fst (vault_set cr nonce key value v s))) key = Some value"
    using assms(1,3) by (simp add: vmap.lookup_put)
  then show ?thesis using set by (auto simp: handle_get_def vault_lookup_def split: sum.splits)
qed

text \<open>A secret that was stored is read back through the reference that storing returned, whether
  it went to the keyring or to the vault.\<close>

theorem stored_secret_is_read:
  assumes "vault_laws cr" and "ring_laws tool st ring" and "store_wf st" and "plain_secret value"
    and "store_in cr tool nonce backend key value st w = ((Inr ref, st'), w')"
  shows "ss_key ref = key \<and> ss_backend ref = backend \<and> fst (store_read cr tool ref st' w') = Inr value"
proof (cases backend)
  case OsKeystore
  obtain x ring' where s: "ks_set tool (sc_keystore st) key value (wd_ring w) = (Inr x, ring')"
    "ref = \<lparr>ss_backend = OsKeystore, ss_key = key\<rparr>" "st' = st" "w' = w\<lparr>wd_ring := ring'\<rparr>"
    using assms(5) OsKeystore
    by (auto simp: store_in_def Let_def and_then_Inr simp del: lit_simps split: if_splits prod.splits)
  have "fst (ks_get tool (sc_keystore st) key ring') = Inr value" by (rule ks_set_get [OF assms(2) s(1) assms(4)])
  with s OsKeystore show ?thesis by (auto simp: store_read_def split: prod.split)
next
  case EncryptedVault
  obtain x h s' where s: "handle_set cr nonce key value (sc_vault st) (wd_fs w) = ((Inr x, h), s')"
    "ref = \<lparr>ss_backend = EncryptedVault, ss_key = key\<rparr>" "st' = st\<lparr>sc_vault := h\<rparr>" "w' = w\<lparr>wd_fs := s'\<rparr>"
    using assms(5) EncryptedVault
    by (auto simp: store_in_def Let_def and_then_Inr simp del: lit_simps split: prod.splits)
  have "is_text value" using assms(4) by (simp add: plain_secret_def)
  from handle_set_get [OF assms(1,3) this s(1)] s EncryptedVault show ?thesis by (simp add: store_read_def)
qed

section \<open>Moving the vault into the keyring\<close>

lemma decode_entries_keys: "decode_entries cr es = Inr out \<Longrightarrow> map fst out = map fst es"
  by (induction cr es arbitrary: out rule: decode_entries.induct) (auto simp: and_then_Inr)

lemma decode_entries_map:
  "decode_entries cr es = Inr out \<Longrightarrow> map_of out k = Some x \<longleftrightarrow>
     (\<exists>e. map_of es k = Some e \<and> decode_entry cr k e = Inr x)"
  by (induction cr es arbitrary: out rule: decode_entries.induct) (auto simp: and_then_Inr split: if_splits)

lemma decode_entry_text: "decode_entry cr k e = Inr x \<Longrightarrow> is_text x"
  by (auto simp: decode_entry_def is_text_def simp del: lit_simps split: option.splits dest: from_utf8_scalars)

lemma copy_entries_ring:
  assumes "tool_laws tool program ring" and "copy_entries tool (SecretTool program) es w = (Inr x, w')"
    and "distinct (map fst es)"
  shows "ring w' k = (case map_of es k of Some v \<Rightarrow> Some (as_bytes v) | None \<Rightarrow> ring w k)"
  using assms(2,3)
proof (induction es arbitrary: w)
  case (Cons e es)
  obtain key val where e: "e = (key, val)" by fastforce
  with Cons.prems(1) obtain y w1 where 1: "secret_tool_set tool program key val w = (Inr y, w1)"
    "copy_entries tool (SecretTool program) es w1 = (Inr x, w')"
    by (auto simp: ks_set_def split: prod.splits sum.splits)
  have fresh: "map_of es key = None" using Cons.prems(2) e by (simp add: map_of_eq_None_iff)
  have "ring w' k = (case map_of es k of Some v \<Rightarrow> Some (as_bytes v) | None \<Rightarrow> ring w1 k)"
    using Cons.IH [OF 1(2)] Cons.prems(2) by simp
  then show ?case using fresh tool_store [OF assms(1) 1(1)] e by (cases "k = key") (simp_all split: option.split)
qed simp

text \<open>Moving an unlocked vault into the keyring, when it succeeds, makes every entry readable from
  the keyring under its key, and leaves the other entries of the keyring alone.\<close>

theorem migration_copies_every_entry:
  assumes "sc_vault st = Open v" and "vault_wf v" and "ring_laws tool st ring"
    and "migrate_vault_to_keystore cr tool st w = (Inr n, w')"
  shows "n = length (vault_keys v)
     \<and> (\<forall>k x. vault_get cr k v = Inr x \<longrightarrow> plain_secret x \<longrightarrow>
          fst (ks_get tool (sc_keystore st) k w') = Inr x)
     \<and> (\<forall>k. k \<notin> set (vault_keys v) \<longrightarrow> ring w' k = ring w k)"
proof -
  obtain program where b: "sc_keystore st = SecretTool program"
    using assms(4) by (cases "sc_keystore st")
      (auto simp: migrate_vault_to_keystore_def keystore_available_def ks_available_def simp del: lit_simps)
  with assms(3) have laws: "tool_laws tool program ring" by (simp add: ring_laws_def)
  obtain es y where es: "decode_entries cr (va_entries v) = Inr es"
    "copy_entries tool (SecretTool program) es w = (Inr y, w')" "n = length es"
    using assms(1,4) b
    by (auto simp: migrate_vault_to_keystore_def handle_entries_def vault_entries_def simp del: lit_simps
        split: if_splits sum.splits prod.splits)
  have keys: "map fst es = vault_keys v" using decode_entries_keys [OF es(1)] by (simp add: vault_keys_def bt_keys_def)
  moreover have "distinct (vault_keys v)" using assms(2) bt_keys_sorted [of "va_entries v"] by (simp add: vault_wf_def vault_keys_def)
  ultimately have ring: "ring w' k = (case map_of es k of Some x \<Rightarrow> Some (as_bytes x) | None \<Rightarrow> ring w k)" for k
    using copy_entries_ring [OF laws es(2)] by simp
  have "fst (ks_get tool (sc_keystore st) k w') = Inr x" if "vault_get cr k v = Inr x" "plain_secret x" for k x
  proof -
    have "map_of es k = Some x"
      using that(1) decode_entries_map [OF es(1)]
      by (auto simp: vault_get_def no_entry_def simp del: lit_simps split: option.splits)
    then have "ring w' k = Some (as_bytes x)" using ring by simp
    from tool_lookup [OF laws this that(2)] show ?thesis by (simp add: b ks_get_def)
  qed
  moreover have "n = length (vault_keys v)" using es(3) keys by (metis length_map)
  moreover have "ring w' k = ring w k" if "k \<notin> set (vault_keys v)" for k
  proof -
    have "map_of es k = None" using that keys by (metis map_of_eq_None_iff list.set_map)
    then show ?thesis using ring by simp
  qed
  ultimately show ?thesis by blast
qed

section \<open>Falling back\<close>

text \<open>The value comes from the recorded backend if it has one, else from the other; the error is that
  of the recorded backend.\<close>

lemma read_lenient_spec:
  assumes "store_read cr tool r st w = (p, w1)"
    and "store_read cr tool \<lparr>ss_backend = other_backend (ss_backend r), ss_key = ss_key r\<rparr> st w1 = (q, w2)"
  shows "fst (read_lenient cr tool r st w) =
     (case p of
        Inr x \<Rightarrow> Inr (x, resolved (ss_backend r))
      | Inl e \<Rightarrow> (case q of Inr x \<Rightarrow> Inr (x, resolved (other_backend (ss_backend r))) | Inl _ \<Rightarrow> Inl e))"
  using assms by (cases p; cases q) (simp_all add: read_lenient_def)

text \<open>A locked vault refuses to read.\<close>

lemma locked_vault_refuses:
  "ss_backend r = EncryptedVault \<Longrightarrow> fst (store_read cr tool r (store_lock st) w)
     = fail EVault (lit ''vault '' @ sc_path st @ lit '' is locked'')"
  by (simp add: store_read_def store_lock_def handle_get_def locked_def)

section \<open>Examples\<close>

text \<open>A keyring that is a map, run by a toy \<open>secret-tool\<close>.\<close>

definition toy_tool :: "(ustring \<rightharpoonup> u8 list) tool" where
  "toy_tool program args input m =
     (if hd args = lit ''store'' then (Inr \<lparr>po_success = True, po_stdout = [], po_stderr = []\<rparr>, m(last args \<mapsto> input))
      else if hd args = lit ''clear'' then
        (Inr \<lparr>po_success = True, po_stdout = [], po_stderr = []\<rparr>, m(last args := None))
      else (Inr \<lparr>po_success = (m (last args) \<noteq> None), po_stdout = (case m (last args) of Some b \<Rightarrow> b | None \<Rightarrow> []),
             po_stderr = []\<rparr>, m))"

lemma toy_tool_laws: "tool_laws toy_tool program (\<lambda>m. m)"
  by (auto simp: tool_laws_def toy_tool_def)

definition toy_secrets :: secret_store where
  "toy_secrets = \<lparr>sc_keystore = SecretTool (lit ''t''), sc_vault = Open (toy_vault [([107], [120])]),
     sc_path = lit ''a'', sc_default = EncryptedVault\<rparr>"

lemma toy_secrets_ok: "ring_laws toy_tool toy_secrets (\<lambda>m. m)" "store_wf toy_secrets"
  using toy_tool_laws build_header_layout [of "zeros 16"]
  by (simp_all add: ring_laws_def toy_secrets_def store_wf_def vault_wf_def toy_vault_def toy_payload_def bt_wf_def)

theorem stored_secret_is_read_witness:
  "\<exists>ref st' w'. store_in toy_crypto toy_tool [] OsKeystore (lit ''k'') (lit ''x'') toy_secrets
       \<lparr>wd_ring = Map.empty, wd_fs = blank_disk\<rparr> = ((Inr ref, st'), w')
     \<and> fst (store_read toy_crypto toy_tool ref st' w') = Inr (lit ''x'')"
proof -
  obtain ref st' w' where s: "store_in toy_crypto toy_tool [] OsKeystore (lit ''k'') (lit ''x'') toy_secrets
       \<lparr>wd_ring = Map.empty, wd_fs = blank_disk\<rparr> = ((Inr ref, st'), w')"
    by (simp add: store_in_def toy_secrets_def keystore_available_def ks_available_def ks_set_def secret_tool_set_def
        toy_tool_def)
  have "plain_secret (lit ''x'')" by (simp add: plain_secret_def is_text_def is_scalar_def)
  from stored_secret_is_read [OF toy_crypto_laws toy_secrets_ok this s] s show ?thesis by blast
qed

theorem migration_copies_every_entry_witness:
  "\<exists>w'. migrate_vault_to_keystore toy_crypto toy_tool toy_secrets Map.empty = (Inr 1, w')
     \<and> fst (ks_get toy_tool (sc_keystore toy_secrets) (lit ''k'') w') = Inr (lit ''x'')"
proof -
  obtain w' where m: "migrate_vault_to_keystore toy_crypto toy_tool toy_secrets Map.empty = (Inr 1, w')"
    by (simp add: migrate_vault_to_keystore_def toy_secrets_def keystore_available_def ks_available_def
        handle_entries_def vault_entries_def toy_vault_def toy_payload_def decode_entry_def toy_crypto_def ks_set_def
        secret_tool_set_def toy_tool_def)
  have v: "sc_vault toy_secrets = Open (toy_vault [([107], [120])])" by (simp add: toy_secrets_def)
  then have wf: "vault_wf (toy_vault [([107], [120])])" using toy_secrets_ok(2) by (simp add: store_wf_def)
  have "vault_get toy_crypto (lit ''k'') (toy_vault [([107], [120])]) = Inr (lit ''x'')"
    by (simp add: vault_get_def toy_vault_def toy_payload_def decode_entry_def toy_crypto_def)
  moreover have "plain_secret (lit ''x'')" by (simp add: plain_secret_def is_text_def is_scalar_def)
  ultimately show ?thesis
    using migration_copies_every_entry [OF v wf toy_secrets_ok(1) m] m by blast
qed

end
