(* ===== verification/Log_Redact_Writer.thy ===== *)
theory Log_Redact_Writer
  imports Log_Buffer Rust_Io Rust_Lossy
begin

text \<open>
  The writer between the log formatter and its sinks, \<open>crates/rdt-logging/src/redact_writer.rs\<close>,
  and \<open>build_redactor\<close> of \<open>lib.rs\<close>. The inner writer is a file of \<open>Rust_Io\<close> that is appended to.
  Clones of a writer share the buffer and the pending text, which are the record \<open>log_sink\<close>; the
  clock is the parameter \<open>clk\<close>, read once per line.
\<close>

section \<open>The writer\<close>

record redacting_writer =
  rw_path :: ustring
  rw_redactor :: redactor
  rw_level :: "ustring option"
  rw_target :: "ustring option"

record log_sink =
  ls_buffer :: log_buffer
  ls_pending :: ustring
  ls_ticks :: nat

definition writer_new :: "ustring \<Rightarrow> redactor \<Rightarrow> redacting_writer" where
  "writer_new path r = \<lparr>rw_path = path, rw_redactor = r, rw_level = None, rw_target = None\<rparr>"

definition sink_new :: "log_buffer \<Rightarrow> log_sink" where
  "sink_new b = \<lparr>ls_buffer = b, ls_pending = [], ls_ticks = 0\<rparr>"

definition with_meta :: "ustring \<Rightarrow> ustring \<Rightarrow> redacting_writer \<Rightarrow> redacting_writer" where
  "with_meta level target w = w\<lparr>rw_level := Some level, rw_target := Some target\<rparr>"

definition redact_line :: "(nat \<Rightarrow> u64) \<Rightarrow> redacting_writer \<Rightarrow> ustring \<Rightarrow> log_sink \<Rightarrow> ustring \<times> log_sink" where
  "redact_line clk w line k =
     (let out = redact (rw_redactor w) line in
      (out, k\<lparr>ls_buffer := log_push
                \<lparr>le_stamp = clk (ls_ticks k),
                 le_level = (case rw_level w of Some l \<Rightarrow> l | None \<Rightarrow> lit ''INFO''),
                 le_target = (case rw_target w of Some t \<Rightarrow> t | None \<Rightarrow> lit ''rdt''),
                 le_message = out\<rparr> (ls_buffer k),
              ls_ticks := Suc (ls_ticks k)\<rparr>))"

text \<open>\<open>trim_end_matches(['\n', '\r'])\<close>\<close>

definition trim_line_end :: "ustring \<Rightarrow> ustring" where
  "trim_line_end s = rev (dropWhile (\<lambda>c. c = 10 \<or> c = 13) (rev s))"

definition then_io :: "(io_error + unit) \<times> fs \<Rightarrow> 'k \<Rightarrow> (fs \<Rightarrow> ((io_error + unit) \<times> 'k) \<times> fs)
    \<Rightarrow> ((io_error + unit) \<times> 'k) \<times> fs" where
  "then_io r k g = (case r of (Inl e, s) \<Rightarrow> ((Inl e, k), s) | (Inr _, s) \<Rightarrow> g s)"

lemma split_once_shorter: "split_once c p = Some (a, rest) \<Longrightarrow> length rest < length p"
  using split_once_Some [of c p a rest] by auto

text \<open>The loop of \<open>write\<close>: the first complete line is taken from the pending text, redacted, mirrored
  and written with a line feed.\<close>

function write_loop ::
  "(nat \<Rightarrow> u64) \<Rightarrow> redacting_writer \<Rightarrow> log_sink \<Rightarrow> fs \<Rightarrow> ((io_error + unit) \<times> log_sink) \<times> fs" where
  "write_loop clk w k s =
     (case split_once 10 (ls_pending k) of
        None \<Rightarrow> ((Inr (), k), s)
      | Some (a, rest) \<Rightarrow>
          (let k1 = k\<lparr>ls_pending := rest\<rparr>; trimmed = trim_line_end (a @ [10]) in
           if trimmed = [] then
             then_io (io_write_all (rw_path w) [10] s) k1 (\<lambda>s1. write_loop clk w k1 s1)
           else
             (case redact_line clk w trimmed k1 of
                (out, k2) \<Rightarrow>
                  then_io (io_write_all (rw_path w) (as_bytes out) s) k2 (\<lambda>s1.
                    then_io (io_write_all (rw_path w) [10] s1) k2 (\<lambda>s2. write_loop clk w k2 s2)))))"
  by pat_completeness auto

termination
  by (relation "measure (\<lambda>(clk, w, k, s). length (ls_pending k))")
    (auto simp: redact_line_def Let_def dest: split_once_shorter)

declare write_loop.simps [simp del]

definition rw_write ::
  "(nat \<Rightarrow> u64) \<Rightarrow> redacting_writer \<Rightarrow> u8 list \<Rightarrow> log_sink \<Rightarrow> fs \<Rightarrow> ((io_error + nat) \<times> log_sink) \<times> fs" where
  "rw_write clk w buf k s =
     (case write_loop clk w (k\<lparr>ls_pending := ls_pending k @ utf8_lossy buf\<rparr>) s of
        ((Inl e, k'), s') \<Rightarrow> ((Inl e, k'), s')
      | ((Inr _, k'), s') \<Rightarrow> ((Inr (length buf), k'), s'))"

definition rw_flush ::
  "(nat \<Rightarrow> u64) \<Rightarrow> redacting_writer \<Rightarrow> log_sink \<Rightarrow> fs \<Rightarrow> ((io_error + unit) \<times> log_sink) \<times> fs" where
  "rw_flush clk w k s =
     (if ls_pending k = [] then then_io (io_touch s) k (\<lambda>s1. ((Inr (), k), s1))
      else
        (case redact_line clk w (trim_line_end (ls_pending k)) (k\<lparr>ls_pending := []\<rparr>) of
           (out, k2) \<Rightarrow>
             then_io (io_write_all (rw_path w) (as_bytes out) s) k2 (\<lambda>s1.
               then_io (io_touch s1) k2 (\<lambda>s2. ((Inr (), k2), s2)))))"

definition build_redactor :: "ustring list \<Rightarrow> redactor" where
  "build_redactor secrets = fold with_secret secrets redactor_new"

section \<open>What is written\<close>

text \<open>The text that a complete line becomes.\<close>

definition out_line :: "redacting_writer \<Rightarrow> ustring \<Rightarrow> ustring" where
  "out_line w a = (let t = trim_line_end a in if t = [] then [10] else redact (rw_redactor w) t @ [10])"

definition out_lines :: "redacting_writer \<Rightarrow> ustring \<Rightarrow> ustring" where
  "out_lines w p = concat (map (out_line w) (butlast (split_char 10 p)))"

text \<open>The contents of the sink, nothing being scheduled to fail.\<close>

definition sink_holds :: "redacting_writer \<Rightarrow> u8 list \<Rightarrow> fs \<Rightarrow> bool" where
  "sink_holds w c s \<longleftrightarrow> fs_files s (rw_path w) = Some c \<and> fs_faults s = []"

lemma append_ok:
  "sink_holds w c s \<Longrightarrow> \<exists>s'. io_write_all (rw_path w) b s = (Inr (), s') \<and> sink_holds w (c @ b) s'"
  by (simp add: sink_holds_def io_write_all_def after_call_def set_file_def)

lemma as_bytes_nl: "as_bytes (10 # t) = 10 # as_bytes t"
  by (simp add: as_bytes_def encode_utf8_def byte_def)

lemma trim_line_end_nl [simp]: "trim_line_end (a @ [10]) = trim_line_end a"
  by (simp add: trim_line_end_def)

lemma redact_line_fields [simp]:
  "fst (redact_line clk w line k) = redact (rw_redactor w) line"
  "ls_pending (snd (redact_line clk w line k)) = ls_pending k"
  by (simp_all add: redact_line_def Let_def)

lemma write_loop_line:
  assumes some: "split_once 10 (ls_pending k) = Some (a, rest)" and "sink_holds w c s"
  shows "\<exists>k2 s2. write_loop clk w k s = write_loop clk w k2 s2
     \<and> sink_holds w (c @ as_bytes (out_line w a)) s2 \<and> ls_pending k2 = rest"
proof (cases "trim_line_end a = []")
  case True
  obtain s1 where s1: "io_write_all (rw_path w) [10] s = (Inr (), s1)" "sink_holds w (c @ [10]) s1"
    using append_ok [OF assms(2)] by blast
  have "write_loop clk w k s = write_loop clk w (k\<lparr>ls_pending := rest\<rparr>) s1"
    using True s1(1) some by (simp add: write_loop.simps [of clk w k s] then_io_def Let_def)
  moreover have "as_bytes (out_line w a) = [10]" using True by (simp add: out_line_def as_bytes_def encode_utf8_def byte_def)
  ultimately show ?thesis using s1(2) by force
next
  case False
  let ?out = "redact (rw_redactor w) (trim_line_end a)"
  obtain k2 where k2: "redact_line clk w (trim_line_end a) (k\<lparr>ls_pending := rest\<rparr>) = (?out, k2)" "ls_pending k2 = rest"
    by (metis redact_line_fields log_sink.select_convs(2) log_sink.surjective log_sink.update_convs(2) prod.collapse)
  obtain s1 where s1: "io_write_all (rw_path w) (as_bytes ?out) s = (Inr (), s1)"
    "sink_holds w (c @ as_bytes ?out) s1" using append_ok [OF assms(2)] by blast
  obtain s2 where s2: "io_write_all (rw_path w) [10] s1 = (Inr (), s2)"
    "sink_holds w ((c @ as_bytes ?out) @ [10]) s2" using append_ok [OF s1(2)] by blast
  have "write_loop clk w k s = write_loop clk w k2 s2"
    using False s1(1) s2(1) some k2(1) by (simp add: write_loop.simps [of clk w k s] then_io_def Let_def)
  with s2(2) k2(2) False show ?thesis by (auto simp: out_line_def as_bytes_def encode_utf8_def byte_def Let_def)
qed

lemma write_loop_ok:
  "sink_holds w c s \<Longrightarrow> \<exists>k' s'. write_loop clk w k s = ((Inr (), k'), s')
     \<and> sink_holds w (c @ as_bytes (out_lines w (ls_pending k))) s'
     \<and> ls_pending k' = last (split_char 10 (ls_pending k))"
proof (induction "length (ls_pending k)" arbitrary: k s c rule: less_induct)
  case less
  show ?case
  proof (cases "split_once 10 (ls_pending k)")
    case None
    then have "10 \<notin> set (ls_pending k)" by (simp add: split_once_None)
    then have "split_char 10 (ls_pending k) = [ls_pending k]" by (rule split_char_no_sep)
    with None less.prems show ?thesis by (simp add: write_loop.simps out_lines_def as_bytes_def)
  next
    case (Some x)
    obtain a rest where x: "x = (a, rest)" by fastforce
    note some = Some [unfolded x]
    have p: "ls_pending k = a @ 10 # rest" "10 \<notin> set a" using split_once_Some [OF some] by auto
    then have split: "split_char 10 (ls_pending k) = a # split_char 10 rest" by (simp add: split_char_append)
    obtain k2 s2 where step: "write_loop clk w k s = write_loop clk w k2 s2"
      "sink_holds w (c @ as_bytes (out_line w a)) s2" "ls_pending k2 = rest"
      using write_loop_line [OF some less.prems] by blast
    have "length (ls_pending k2) < length (ls_pending k)" by (simp add: p step(3))
    from less.hyps [OF this step(2)] show ?thesis by (simp add: step(1,3) split out_lines_def as_bytes_append)
  qed
qed

text \<open>Writing chunks one after the other.\<close>

fun write_chunks ::
  "(nat \<Rightarrow> u64) \<Rightarrow> redacting_writer \<Rightarrow> u8 list list \<Rightarrow> log_sink \<Rightarrow> fs \<Rightarrow> ((io_error + unit) \<times> log_sink) \<times> fs" where
  "write_chunks clk w [] k s = ((Inr (), k), s)"
| "write_chunks clk w (buf # bufs) k s =
     (case rw_write clk w buf k s of
        ((Inl e, k'), s') \<Rightarrow> ((Inl e, k'), s')
      | ((Inr _, k'), s') \<Rightarrow> write_chunks clk w bufs k' s')"

text \<open>The pieces of a text that is continued.\<close>

lemma split_char_continue:
  "split_char c (p @ q) = butlast (split_char c p) @ split_char c (last (split_char c p) @ q)"
proof (induction p rule: measure_induct_rule [of length])
  case (less p)
  show ?case
  proof (cases "c \<in> set p")
    case False
    then show ?thesis by (simp add: split_char_no_sep)
  next
    case True
    then obtain a r where p: "p = a @ c # r" "c \<notin> set a" by (meson split_list_first)
    have "split_char c (r @ q) = butlast (split_char c r) @ split_char c (last (split_char c r) @ q)"
      by (rule less.IH) (simp add: p)
    then show ?thesis using p(2) by (simp add: p(1) split_char_append)
  qed
qed

lemma out_lines_continue:
  "out_lines w (p @ q) = out_lines w p @ out_lines w (last (split_char 10 p) @ q)"
  by (simp add: out_lines_def split_char_continue [of 10 p q] butlast_append)

lemma last_split_continue: "last (split_char c (last (split_char c p) @ q)) = last (split_char c (p @ q))"
  by (simp add: split_char_continue [of c p q])

lemma write_chunks_ok:
  "sink_holds w c s \<Longrightarrow> \<exists>k' s'. write_chunks clk w bufs k s = ((Inr (), k'), s')
     \<and> (bufs \<noteq> [] \<longrightarrow> sink_holds w (c @ as_bytes (out_lines w (ls_pending k @ concat (map utf8_lossy bufs)))) s'
          \<and> ls_pending k' = last (split_char 10 (ls_pending k @ concat (map utf8_lossy bufs))))
     \<and> (bufs = [] \<longrightarrow> k' = k \<and> s' = s)"
proof (induction bufs arbitrary: k s c)
  case (Cons buf bufs)
  obtain k1 s1 where 1: "rw_write clk w buf k s = ((Inr (length buf), k1), s1)"
    "sink_holds w (c @ as_bytes (out_lines w (ls_pending k @ utf8_lossy buf))) s1"
    "ls_pending k1 = last (split_char 10 (ls_pending k @ utf8_lossy buf))"
    using write_loop_ok [OF Cons.prems, of clk "k\<lparr>ls_pending := ls_pending k @ utf8_lossy buf\<rparr>"]
    by (auto simp: rw_write_def)
  from Cons.IH [OF 1(2), of k1] obtain k' s' where 2: "write_chunks clk w bufs k1 s1 = ((Inr (), k'), s')"
    "bufs \<noteq> [] \<longrightarrow> sink_holds w ((c @ as_bytes (out_lines w (ls_pending k @ utf8_lossy buf)))
         @ as_bytes (out_lines w (ls_pending k1 @ concat (map utf8_lossy bufs)))) s'
       \<and> ls_pending k' = last (split_char 10 (ls_pending k1 @ concat (map utf8_lossy bufs)))"
    "bufs = [] \<longrightarrow> k' = k1 \<and> s' = s1" by blast
  have "out_lines w (ls_pending k @ utf8_lossy buf @ concat (map utf8_lossy bufs))
      = out_lines w (ls_pending k @ utf8_lossy buf) @ out_lines w (ls_pending k1 @ concat (map utf8_lossy bufs))"
    using out_lines_continue [of w "ls_pending k @ utf8_lossy buf"] by (simp add: 1(3))
  with 1 2 show ?case by (cases "bufs = []") (simp_all add: as_bytes_append last_split_continue)
qed simp

end
