(* ===== verification/Ssh_Sftp.thy ===== *)
theory Ssh_Sftp
  imports Rust_Io "HOL-Library.List_Lexorder" "HOL-Library.Product_Lexorder"
begin

text \<open>
  File transfers, \<open>crates/rdt-ssh/src/sftp.rs\<close>. The local and the remote file system are two file
  systems of \<open>Rust_Io\<close>, each with its script of failures; the status of a remote error is the kind
  of the same meaning. A transfer also has a script of what the cancellation flag reads at each
  chunk, one of how many bytes each read returns, and the list of the progress reported (the number
  of bytes; rates are left out). The source is read as it was when it was opened.
\<close>

section \<open>Transfers\<close>

datatype direction = Upload | Download

record transfer =
  tr_local :: fs
  tr_remote :: fs
  tr_cancel :: "bool list"
  tr_reads :: "nat list"
  tr_progress :: "nat list"

type_synonym 'a xrun = "transfer \<Rightarrow> 'a rdt_result \<times> transfer"

definition chunk_size :: nat where
  "chunk_size = 256 * 1024"

definition on_local :: "(fs \<Rightarrow> 'a \<times> fs) \<Rightarrow> transfer \<Rightarrow> 'a \<times> transfer" where
  "on_local f x = (case f (tr_local x) of (r, s) \<Rightarrow> (r, x\<lparr>tr_local := s\<rparr>))"

definition on_remote :: "(fs \<Rightarrow> 'a \<times> fs) \<Rightarrow> transfer \<Rightarrow> 'a \<times> transfer" where
  "on_remote f x = (case f (tr_remote x) of (r, s) \<Rightarrow> (r, x\<lparr>tr_remote := s\<rparr>))"

definition on_source :: "direction \<Rightarrow> (fs \<Rightarrow> 'a \<times> fs) \<Rightarrow> transfer \<Rightarrow> 'a \<times> transfer" where
  "on_source d = (case d of Upload \<Rightarrow> on_local | Download \<Rightarrow> on_remote)"

definition on_sink :: "direction \<Rightarrow> (fs \<Rightarrow> 'a \<times> fs) \<Rightarrow> transfer \<Rightarrow> 'a \<times> transfer" where
  "on_sink d = (case d of Upload \<Rightarrow> on_remote | Download \<Rightarrow> on_local)"

definition xthen :: "'a xrun \<Rightarrow> ('a \<Rightarrow> 'b xrun) \<Rightarrow> 'b xrun" where
  "xthen r g x = (case r x of (Inl e, x') \<Rightarrow> (Inl e, x') | (Inr y, x') \<Rightarrow> g y x')"

section \<open>Errors\<close>

definition map_sftp :: "io_error \<Rightarrow> rdt_error" where
  "map_sftp e =
     error_new (case fst e of
        IoNotFound \<Rightarrow> ENotFound
      | IoPermissionDenied \<Rightarrow> EPermission
      | _ \<Rightarrow> ETransfer) (snd e)"

definition local_error :: "string \<Rightarrow> io_error \<Rightarrow> rdt_error" where
  "local_error what = with_what EIo (lit what)"

definition read_error :: "direction \<Rightarrow> io_error \<Rightarrow> rdt_error" where
  "read_error d = (case d of Upload \<Rightarrow> local_error ''read local file'' | Download \<Rightarrow> map_sftp)"

definition write_error :: "direction \<Rightarrow> io_error \<Rightarrow> rdt_error" where
  "write_error d = (case d of Upload \<Rightarrow> map_sftp | Download \<Rightarrow> local_error ''write local file'')"

definition cancelled :: "direction \<Rightarrow> 'a rdt_result" where
  "cancelled d =
     fail ECancelled (case d of Upload \<Rightarrow> lit ''the upload was cancelled'' | Download \<Rightarrow> lit ''the download was cancelled'')"

section \<open>The loop over the chunks\<close>

definition next_cancel :: "transfer \<Rightarrow> bool \<times> transfer" where
  "next_cancel x =
     (case tr_cancel x of [] \<Rightarrow> (False, x) | b # bs \<Rightarrow> (b, x\<lparr>tr_cancel := bs\<rparr>))"

text \<open>A read at the end of the source returns nothing, elsewhere between one byte and a chunk.\<close>

definition next_read :: "u8 list \<Rightarrow> transfer \<Rightarrow> u8 list \<times> transfer" where
  "next_read src x =
     (if src = [] then ([], x)
      else (case tr_reads x of
              [] \<Rightarrow> (take chunk_size src, x)
            | k # ks \<Rightarrow> (take (max 1 (min k chunk_size)) src, x\<lparr>tr_reads := ks\<rparr>)))"

lemma next_read_source: "next_read src x = (c, x') \<Longrightarrow> c \<noteq> [] \<longrightarrow> src \<noteq> []"
  by (auto simp: next_read_def)

function transfer_loop :: "direction \<Rightarrow> ustring \<Rightarrow> u8 list \<Rightarrow> nat \<Rightarrow> nat xrun" where
  "transfer_loop d tmp src sent x =
     (case next_cancel x of (stop, x1) \<Rightarrow>
        if stop then (cancelled d, snd (on_sink d (io_remove tmp) x1))
        else
          (case on_source d (on_err (read_error d) io_touch) x1 of
             (Inl e, x2) \<Rightarrow> (Inl e, x2)
           | (Inr _, x2) \<Rightarrow>
               (case next_read src x2 of (chunk, x3) \<Rightarrow>
                  if chunk = [] then (Inr sent, x3)
                  else
                    (case on_sink d (on_err (write_error d) (io_write_all tmp chunk)) x3 of
                       (Inl e, x4) \<Rightarrow> (Inl e, x4)
                     | (Inr _, x4) \<Rightarrow>
                         (let n = sent + length chunk in
                          transfer_loop d tmp (drop (length chunk) src) n
                            (x4\<lparr>tr_progress := tr_progress x4 @ [n]\<rparr>))))))"
  by pat_completeness auto

termination
  by (relation "measure (\<lambda>(d, tmp, src, sent, x). length src)") (auto dest!: next_read_source [OF sym])

declare transfer_loop.simps [simp del]

definition upload_loop :: "ustring \<Rightarrow> u8 list \<Rightarrow> nat \<Rightarrow> nat xrun" where
  "upload_loop = transfer_loop Upload"

definition download_loop :: "ustring \<Rightarrow> u8 list \<Rightarrow> nat \<Rightarrow> nat xrun" where
  "download_loop = transfer_loop Download"

section \<open>Upload and download\<close>

text \<open>The rename of the protocol refuses to replace a file.\<close>

definition sftp_rename :: "ustring \<Rightarrow> ustring \<Rightarrow> unit io" where
  "sftp_rename p q s =
     (case next_fault s of
        Some f \<Rightarrow> (Inl (ft_error f), after_call s)
      | None \<Rightarrow>
          (case fs_files s p of
             None \<Rightarrow> (Inl not_found, after_call s)
           | Some c \<Rightarrow>
               if fs_files s q \<noteq> None then (Inl (IoOther, lit ''Failure''), after_call s)
               else (Inr (), set_file q (Some c) (set_file p None (after_call s)))))"

definition report :: "nat \<Rightarrow> nat xrun" where
  "report n x = (Inr n, x\<lparr>tr_progress := tr_progress x @ [n]\<rparr>)"

definition upload_tmp :: "ustring \<Rightarrow> ustring" where
  "upload_tmp remote = remote @ lit ''.rdt-part''"

definition upload :: "ustring \<Rightarrow> ustring \<Rightarrow> nat xrun" where
  "upload local remote =
     (let tmp = upload_tmp remote in
      xthen (on_local (on_err (local_error ''read metadata'') (io_read local))) (\<lambda>total.
      xthen (on_local (on_err (local_error ''open local file'') (io_read local))) (\<lambda>source.
      xthen (on_remote (on_err map_sftp (io_create tmp))) (\<lambda>_.
      xthen (upload_loop tmp source 0) (\<lambda>n.
      xthen (on_remote (on_err map_sftp io_touch)) (\<lambda>_ x.
      xthen (on_remote (on_err map_sftp (sftp_rename tmp remote))) (\<lambda>_. report n)
        (snd (on_remote (io_remove remote) x))))))))"

definition download_tmp :: "ustring \<Rightarrow> ustring" where
  "download_tmp local = with_extension (lit ''rdt-part'') local"

definition download :: "ustring \<Rightarrow> ustring \<Rightarrow> nat xrun" where
  "download remote local =
     (let tmp = download_tmp local in
      xthen (on_remote (on_err map_sftp (io_read remote))) (\<lambda>total.
      xthen (on_local (on_err (local_error ''create directory'') io_touch)) (\<lambda>_.
      xthen (on_local (on_err (local_error ''create local file'') (io_create tmp))) (\<lambda>_.
      xthen (on_remote (on_err map_sftp (io_read remote))) (\<lambda>source.
      xthen (on_remote (on_err map_sftp io_touch)) (\<lambda>_.
      xthen (download_loop tmp source 0) (\<lambda>n.
      xthen (on_local (on_err (local_error ''flush local file'') io_touch)) (\<lambda>_.
      xthen (on_local (on_err (local_error ''move file into place'') (io_rename tmp local))) (\<lambda>_. report n)))))))))"

text \<open>The single operations; directories have no contents.\<close>

definition sftp_mkdir :: "ustring \<Rightarrow> unit run" where
  "sftp_mkdir path = on_err map_sftp io_touch"

definition sftp_remove_file :: "ustring \<Rightarrow> unit run" where
  "sftp_remove_file path = on_err map_sftp (io_remove path)"

definition sftp_remove_dir :: "ustring \<Rightarrow> unit run" where
  "sftp_remove_dir path = on_err map_sftp io_touch"

definition sftp_move :: "ustring \<Rightarrow> ustring \<Rightarrow> unit run" where
  "sftp_move from to = on_err map_sftp (sftp_rename from to)"

text \<open>\<open>sz\<close> is the size that the server reports, if it does.\<close>

definition sftp_read_to_string :: "ustring \<Rightarrow> nat \<Rightarrow> (fs \<Rightarrow> nat option) \<Rightarrow> ustring run" where
  "sftp_read_to_string remote limit sz =
     run_then (on_err map_sftp io_touch) (\<lambda>_ s.
       (let n = (case sz s of Some k \<Rightarrow> k | None \<Rightarrow> 0) in
        if n > limit then
          (fail EInvalidInput (lit ''the file is '' @ show_nat n @ lit '' bytes, which exceeds the ''
             @ show_nat limit @ lit '' byte preview limit''), s)
        else
          run_then (on_err map_sftp io_touch) (\<lambda>_. on_err map_sftp (io_read_string remote)) s))"

section \<open>Listings\<close>

datatype file_type = Directory | Symlink | OtherType

record file_metadata =
  fm_type :: "file_type option"
  fm_size :: "u64 option"
  fm_modified :: "u32 option"
  fm_permissions :: "u32 option"

record remote_entry =
  re_name :: ustring
  re_is_dir :: bool
  re_is_symlink :: bool
  re_size :: "u64 option"
  re_modified :: "int option"
  re_permissions :: "u32 option"

definition entry_of :: "ustring \<times> file_metadata \<Rightarrow> remote_entry" where
  "entry_of e =
     \<lparr>re_name = fst e, re_is_dir = (fm_type (snd e) = Some Directory),
      re_is_symlink = (fm_type (snd e) = Some Symlink), re_size = fm_size (snd e),
      re_modified = map_option (\<lambda>t. int (unat t)) (fm_modified (snd e)),
      re_permissions = fm_permissions (snd e)\<rparr>"

text \<open>\<open>read\<close> is what reading the directory returns. Directories come first, then the order is that
  of the lower case names; the sort is stable.\<close>

definition sftp_list ::
  "unicode \<Rightarrow> io_error + (ustring \<times> file_metadata) list \<Rightarrow> remote_entry list rdt_result" where
  "sftp_list u read =
     (case read of
        Inl e \<Rightarrow> Inl (map_sftp e)
      | Inr directory \<Rightarrow>
          Inr (sort_key (\<lambda>e. (\<not> re_is_dir e, str_lower u (re_name e))) (map entry_of directory)))"

end
