(* ===== verification/Ssh_Sftp_Props.thy ===== *)
theory Ssh_Sftp_Props
  imports Ssh_Sftp
begin

text \<open>
  What transfers promise: the destination is never left with part of a file, a transfer that
  reports success delivered the whole file, and one that nothing disturbs succeeds.
\<close>

section \<open>What a step changes\<close>

definition same_but :: "ustring set \<Rightarrow> ustring set \<Rightarrow> transfer \<Rightarrow> transfer \<Rightarrow> bool" where
  "same_but L R x y \<longleftrightarrow> (\<forall>p. p \<notin> L \<longrightarrow> fs_files (tr_local y) p = fs_files (tr_local x) p)
     \<and> (\<forall>p. p \<notin> R \<longrightarrow> fs_files (tr_remote y) p = fs_files (tr_remote x) p)"

lemma same_but_refl [simp]: "same_but L R x x"
  by (simp add: same_but_def)

lemma same_but_trans: "same_but L R x y \<Longrightarrow> same_but L R y z \<Longrightarrow> same_but L R x z"
  by (simp add: same_but_def)

lemma same_but_progress [simp]: "same_but L R x (y\<lparr>tr_progress := ps\<rparr>) = same_but L R x y"
  by (simp add: same_but_def)

definition xtouches :: "ustring set \<Rightarrow> ustring set \<Rightarrow> 'a xrun \<Rightarrow> bool" where
  "xtouches L R r \<longleftrightarrow> (\<forall>x. same_but L R x (snd (r x)))"

lemma xtouchesD: "xtouches L R r \<Longrightarrow> r x = (y, x') \<Longrightarrow> same_but L R x x'"
  unfolding xtouches_def by (metis snd_conv)

named_theorems xtouch_intros \<open>which files a part of a transfer may change\<close>

lemma xtouches_then [xtouch_intros]:
  "xtouches L R r \<Longrightarrow> (\<And>y. xtouches L R (g y)) \<Longrightarrow> xtouches L R (xthen r g)"
  unfolding xtouches_def xthen_def
  by (auto split: prod.split sum.split) (metis same_but_trans snd_conv)+

lemma xtouches_local [xtouch_intros]: "touches L r \<Longrightarrow> xtouches L R (on_local r)"
  unfolding xtouches_def on_local_def same_but_def touches_def
  by (auto split: prod.split) (metis snd_conv)

lemma xtouches_remote [xtouch_intros]: "touches R r \<Longrightarrow> xtouches L R (on_remote r)"
  unfolding xtouches_def on_remote_def same_but_def touches_def
  by (auto split: prod.split) (metis snd_conv)

lemma xtouches_report [xtouch_intros]: "xtouches L R (report n)"
  by (simp add: xtouches_def report_def)

text \<open>The paths that a transfer with temporary file \<open>tmp\<close> writes while it runs.\<close>

definition local_part :: "direction \<Rightarrow> ustring \<Rightarrow> ustring set" where
  "local_part d tmp = (case d of Upload \<Rightarrow> {} | Download \<Rightarrow> {tmp})"

definition remote_part :: "direction \<Rightarrow> ustring \<Rightarrow> ustring set" where
  "remote_part d tmp = (case d of Upload \<Rightarrow> {tmp} | Download \<Rightarrow> {})"

lemmas part_defs = local_part_def remote_part_def on_sink_def on_source_def

lemma remove_same: "same_but (local_part d tmp) (remote_part d tmp) x (snd (on_sink d (io_remove tmp) x))"
  by (cases d) (auto simp: part_defs on_local_def on_remote_def same_but_def io_remove_def split: option.split)

lemma source_touches: "touches {} r \<Longrightarrow> xtouches (local_part d tmp) (remote_part d tmp) (on_source d r)"
  by (cases d) (auto simp: part_defs intro: xtouch_intros touches_mono)

lemma sink_touches: "touches {tmp} r \<Longrightarrow> xtouches (local_part d tmp) (remote_part d tmp) (on_sink d r)"
  by (cases d) (auto simp: part_defs intro: xtouch_intros)

section \<open>The loop\<close>

lemma transfer_loop_cases:
  assumes "transfer_loop d tmp src sent x = (r, y)"
  obtains (Stop) x1 where "next_cancel x = (True, x1)" and "r = cancelled d" and "y = snd (on_sink d (io_remove tmp) x1)"
  | (Read) x1 e where "next_cancel x = (False, x1)" and "r = Inl e"
      and "on_source d (on_err (read_error d) io_touch) x1 = (Inl e, y)"
  | (Done) x1 u where "next_cancel x = (False, x1)" and "on_source d (on_err (read_error d) io_touch) x1 = (Inr u, y)"
      and "src = []" and "r = Inr sent"
  | (Write) x1 u x2 chunk x3 e where "next_cancel x = (False, x1)"
      and "on_source d (on_err (read_error d) io_touch) x1 = (Inr u, x2)" and "next_read src x2 = (chunk, x3)"
      and "chunk \<noteq> []" and "on_sink d (on_err (write_error d) (io_write_all tmp chunk)) x3 = (Inl e, y)" and "r = Inl e"
  | (Next) x1 u x2 chunk x3 v x4 where "next_cancel x = (False, x1)"
      and "on_source d (on_err (read_error d) io_touch) x1 = (Inr u, x2)" and "next_read src x2 = (chunk, x3)"
      and "chunk \<noteq> []" and "on_sink d (on_err (write_error d) (io_write_all tmp chunk)) x3 = (Inr v, x4)"
      and "transfer_loop d tmp (drop (length chunk) src) (sent + length chunk)
             (x4\<lparr>tr_progress := tr_progress x4 @ [sent + length chunk]\<rparr>) = (r, y)"
proof -
  obtain stop x1 where 1: "next_cancel x = (stop, x1)" by fastforce
  obtain o2 x2 where 2: "on_source d (on_err (read_error d) io_touch) x1 = (o2, x2)" by fastforce
  obtain chunk x3 where 3: "next_read src x2 = (chunk, x3)" by fastforce
  obtain o4 x4 where 4: "on_sink d (on_err (write_error d) (io_write_all tmp chunk)) x3 = (o4, x4)" by fastforce
  note unf = assms [unfolded transfer_loop.simps [of d tmp src sent x] 1, simplified]
  have empty: "src = [] \<Longrightarrow> chunk = [] \<and> x3 = x2" using 3 by (auto simp: next_read_def)
  have nonempty: "chunk = [] \<Longrightarrow> src = []" using 3 by (auto simp: next_read_def chunk_size_def split: if_splits list.splits)
  show ?thesis
  proof (cases stop)
    case True
    with unf show ?thesis using 1 that(1) by simp
  next
    case stop: False
    show ?thesis
    proof (cases o2)
      case (Inl e)
      with unf 2 stop show ?thesis using 1 that(2) by auto
    next
      case o2: (Inr u)
      show ?thesis
      proof (cases "chunk = []")
        case True
        with unf 2 3 stop o2 show ?thesis using 1 that(3) nonempty empty by simp
      next
        case False
        then show ?thesis
          using unf 1 2 3 4 stop o2 that(4) [of x1 u x2 chunk x3] that(5) [of x1 u x2 chunk x3] by (cases o4) (simp_all add: Let_def)
      qed
    qed
  qed
qed

lemma next_cancel_same [simp]: "next_cancel x = (b, x1) \<Longrightarrow> same_but L R x x1"
  by (auto simp: next_cancel_def same_but_def split: list.splits)

lemma next_read_same [simp]: "next_read src x = (c, x1) \<Longrightarrow> same_but L R x x1"
  by (auto simp: next_read_def same_but_def split: list.splits if_splits)

lemma next_read_chunk: "next_read src x = (c, x1) \<Longrightarrow> src = c @ drop (length c) src \<and> (c \<noteq> [] \<longrightarrow> src \<noteq> [])"
proof -
  assume "next_read src x = (c, x1)"
  then have "\<exists>n. c = take n src" and "c \<noteq> [] \<longrightarrow> src \<noteq> []"
    by (auto simp: next_read_def split: list.splits if_splits intro: exI [of _ 0])
  then show ?thesis by (auto simp: min_def)
qed

lemma transfer_loop_touches: "xtouches (local_part d tmp) (remote_part d tmp) (transfer_loop d tmp src sent)"
  unfolding xtouches_def
proof
  fix x
  show "same_but (local_part d tmp) (remote_part d tmp) x (snd (transfer_loop d tmp src sent x))"
  proof (induction "length src" arbitrary: src sent x rule: less_induct)
    case less
    let ?same = "same_but (local_part d tmp) (remote_part d tmp)"
    have src: "xtouches (local_part d tmp) (remote_part d tmp) (on_source d (on_err (read_error d) io_touch))"
      by (intro source_touches touch_intros)
    have snk: "xtouches (local_part d tmp) (remote_part d tmp) (on_sink d (on_err (write_error d) (io_write_all tmp c)))" for c
      by (intro sink_touches touch_intros) simp
    obtain r y where l: "transfer_loop d tmp src sent x = (r, y)" by fastforce
    then have "?same x y"
    proof (cases rule: transfer_loop_cases)
      case (Stop x1)
      then show ?thesis using remove_same same_but_trans next_cancel_same by metis
    next
      case (Read x1 e)
      then show ?thesis using xtouchesD [OF src] same_but_trans next_cancel_same by metis
    next
      case (Done x1 u)
      then show ?thesis using xtouchesD [OF src] same_but_trans next_cancel_same by metis
    next
      case (Write x1 u x2 chunk x3 e)
      then show ?thesis
        using xtouchesD [OF src] xtouchesD [OF snk] same_but_trans next_cancel_same next_read_same by metis
    next
      case (Next x1 u x2 chunk x3 v x4)
      have 4: "?same x x4"
        using Next(1-5) xtouchesD [OF src] xtouchesD [OF snk] same_but_trans next_cancel_same next_read_same by metis
      have "length (drop (length chunk) src) < length src" using next_read_chunk [OF Next(3)] Next(4) by simp
      from less [OF this, where sent = "sent + length chunk" and x = "x4\<lparr>tr_progress := tr_progress x4 @ [sent + length chunk]\<rparr>"]
      have "?same x4 y" unfolding Next(6) by (simp add: same_but_def)
      with 4 show ?thesis by (rule same_but_trans)
    qed
    with l show ?case by simp
  qed
qed

text \<open>A loop that ends well has appended the whole source to the temporary file.\<close>

definition sink_fs :: "direction \<Rightarrow> transfer \<Rightarrow> fs" where
  "sink_fs d x = (case d of Upload \<Rightarrow> tr_remote x | Download \<Rightarrow> tr_local x)"

lemma sink_write:
  "on_sink d (on_err f (io_write_all p b)) x = (Inr v, y) \<Longrightarrow> fs_files (sink_fs d x) p = Some c \<Longrightarrow>
     fs_files (sink_fs d y) p = Some (c @ b)"
  by (cases d) (auto simp: on_sink_def on_local_def on_remote_def sink_fs_def split: prod.splits
      dest!: yieldsD [OF yields_calls(3) [of p c]])

lemma source_keeps_sink: "on_source d r x = (v, y) \<Longrightarrow> sink_fs d y = sink_fs d x"
  by (cases d) (auto simp: on_source_def on_local_def on_remote_def sink_fs_def split: prod.splits)

lemma script_keeps_sink:
  "next_cancel x = (b, y) \<Longrightarrow> sink_fs d y = sink_fs d x"
  "next_read src x = (c, y) \<Longrightarrow> sink_fs d y = sink_fs d x"
  by (cases d; auto simp: next_cancel_def next_read_def sink_fs_def split: list.splits if_splits)+

lemma transfer_loop_writes:
  "transfer_loop d tmp src sent x = (Inr n, y) \<Longrightarrow> fs_files (sink_fs d x) tmp = Some c \<Longrightarrow>
     n = sent + length src \<and> fs_files (sink_fs d y) tmp = Some (c @ src)"
proof (induction "length src" arbitrary: src sent x c rule: less_induct)
  case less
  from less.prems(1) show ?case
  proof (cases rule: transfer_loop_cases)
    case (Stop x1)
    then have "fail ECancelled (case d of Upload \<Rightarrow> lit ''the upload was cancelled''
        | Download \<Rightarrow> lit ''the download was cancelled'') = Inr n" by (simp add: cancelled_def)
    then show ?thesis by (simp only: fail_simps)
  next
    case (Done x1 u)
    then show ?thesis using less.prems(2) source_keeps_sink script_keeps_sink by (metis Inr_inject add.right_neutral append.right_neutral list.size(3))
  next
    case (Next x1 u x2 chunk x3 v x4)
    have "fs_files (sink_fs d x3) tmp = Some c"
      using Next(1-3) less.prems(2) source_keeps_sink script_keeps_sink by metis
    then have "fs_files (sink_fs d x4) tmp = Some (c @ chunk)" by (rule sink_write [OF Next(5)])
    then have 4: "fs_files (sink_fs d (x4\<lparr>tr_progress := tr_progress x4 @ [sent + length chunk]\<rparr>)) tmp = Some (c @ chunk)"
      by (cases d) (simp_all add: sink_fs_def)
    note split = next_read_chunk [OF Next(3)]
    have "length (drop (length chunk) src) < length src" using split Next(4) by simp
    from less.hyps [OF this Next(6) 4] split show ?thesis
      by (metis add.assoc append.assoc length_append)
  qed simp_all
qed

section \<open>Whole transfers\<close>

lemma xthen_Inr:
  "xthen r g x = (Inr y, x') \<longleftrightarrow> (\<exists>z x1. r x = (Inr z, x1) \<and> g z x1 = (Inr y, x'))"
  by (auto simp: xthen_def split: prod.splits sum.splits)

lemma xthen_Inl:
  "xthen r g x = (Inl e, x') \<longleftrightarrow> r x = (Inl e, x') \<or> (\<exists>z x1. r x = (Inr z, x1) \<and> g z x1 = (Inl e, x'))"
  by (auto simp: xthen_def split: prod.splits sum.splits)

text \<open>The part of an upload before it touches the destination, and that of a download.\<close>

definition upload_part :: "ustring \<Rightarrow> ustring \<Rightarrow> nat xrun" where
  "upload_part local tmp =
     xthen (on_local (on_err (local_error ''read metadata'') (io_read local))) (\<lambda>total.
     xthen (on_local (on_err (local_error ''open local file'') (io_read local))) (\<lambda>source.
     xthen (on_remote (on_err map_sftp (io_create tmp))) (\<lambda>_.
     xthen (upload_loop tmp source 0) (\<lambda>n.
     xthen (on_remote (on_err map_sftp io_touch)) (\<lambda>_ x. (Inr n, x))))))"

definition upload_finish :: "ustring \<Rightarrow> ustring \<Rightarrow> nat \<Rightarrow> nat xrun" where
  "upload_finish tmp remote n x =
     xthen (on_remote (on_err map_sftp (sftp_rename tmp remote))) (\<lambda>_. report n) (snd (on_remote (io_remove remote) x))"

lemma xthen_assoc: "xthen (xthen r g) h = xthen r (\<lambda>y. xthen (g y) h)"
  by (rule ext) (auto simp: xthen_def split: prod.split sum.split)

lemma upload_parts:
  "upload local remote = xthen (upload_part local (upload_tmp remote)) (upload_finish (upload_tmp remote) remote)"
  unfolding upload_def upload_part_def Let_def xthen_assoc
  by (rule ext) (simp add: xthen_def upload_finish_def split: prod.split sum.split)

lemma upload_part_touches: "xtouches {} {tmp} (upload_part local tmp)"
  using transfer_loop_touches [of Upload tmp] unfolding upload_part_def upload_loop_def part_defs
  by (intro xtouch_intros touch_intros) (auto simp: xtouches_def)

lemma on_local_read: "on_local (on_err f (io_read p)) x = (Inr c, y) \<Longrightarrow>
    fs_files (tr_local x) p = Some c \<and> fs_files (tr_local y) = fs_files (tr_local x) \<and> tr_remote y = tr_remote x"
  by (auto simp: on_local_def on_err_def split: prod.splits sum.splits dest!: io_read_Inr)

lemma on_remote_read: "on_remote (on_err f (io_read p)) x = (Inr c, y) \<Longrightarrow>
    fs_files (tr_remote x) p = Some c \<and> fs_files (tr_remote y) = fs_files (tr_remote x) \<and> tr_local y = tr_local x"
  by (auto simp: on_remote_def on_err_def split: prod.splits sum.splits dest!: io_read_Inr)

lemma on_remote_create: "on_remote (on_err f (io_create p)) x = (Inr u, y) \<Longrightarrow>
    fs_files (tr_remote y) p = Some [] \<and> tr_local y = tr_local x"
  by (auto simp: on_remote_def on_err_def io_create_def split: prod.splits sum.splits option.splits)

lemma on_local_create: "on_local (on_err f (io_create p)) x = (Inr u, y) \<Longrightarrow>
    fs_files (tr_local y) p = Some [] \<and> tr_remote y = tr_remote x"
  by (auto simp: on_local_def on_err_def io_create_def split: prod.splits sum.splits option.splits)

lemma on_remote_touch: "on_remote (on_err f io_touch) x = (r, y) \<Longrightarrow>
    fs_files (tr_remote y) = fs_files (tr_remote x) \<and> tr_local y = tr_local x"
  by (auto simp: on_remote_def on_err_def io_touch_def split: prod.splits sum.splits option.splits)

lemma on_local_touch: "on_local (on_err f io_touch) x = (r, y) \<Longrightarrow>
    fs_files (tr_local y) = fs_files (tr_local x) \<and> tr_remote y = tr_remote x"
  by (auto simp: on_local_def on_err_def io_touch_def split: prod.splits sum.splits option.splits)

lemma upload_part_Inr:
  assumes "upload_part local tmp x = (Inr n, y)"
  shows "\<exists>c. fs_files (tr_local x) local = Some c \<and> n = length c \<and> fs_files (tr_remote y) tmp = Some c"
proof -
  obtain c0 x1 c x2 u x3 x4 v where 1: "on_local (on_err (local_error ''read metadata'') (io_read local)) x = (Inr c0, x1)"
    and 2: "on_local (on_err (local_error ''open local file'') (io_read local)) x1 = (Inr c, x2)"
    and 3: "on_remote (on_err map_sftp (io_create tmp)) x2 = (Inr u, x3)"
    and 4: "upload_loop tmp c 0 x3 = (Inr n, x4)" and 5: "on_remote (on_err map_sftp io_touch) x4 = (Inr v, y)"
    using assms by (auto simp: upload_part_def xthen_Inr)
  have "fs_files (sink_fs Upload x3) tmp = Some []" using on_remote_create [OF 3] by (simp add: sink_fs_def)
  from transfer_loop_writes [OF 4 [unfolded upload_loop_def] this]
  have "n = length c" "fs_files (tr_remote x4) tmp = Some c" by (simp_all add: sink_fs_def)
  with on_local_read [OF 1] on_local_read [OF 2] on_remote_touch [OF 5] show ?thesis by auto
qed

lemma upload_finish_cases:
  assumes "upload_finish tmp remote n x = (r, y)" and "tmp \<noteq> remote" and "fs_files (tr_remote x) tmp = Some c"
  shows "(\<forall>m. r = Inr m \<longrightarrow> m = n \<and> fs_files (tr_remote y) = (fs_files (tr_remote x))(tmp := None, remote \<mapsto> c))
     \<and> (\<forall>e. r = Inl e \<longrightarrow> fs_files (tr_remote y) remote \<in> {fs_files (tr_remote x) remote, None}
          \<and> (\<forall>p. p \<noteq> remote \<longrightarrow> fs_files (tr_remote y) p = fs_files (tr_remote x) p))
     \<and> fs_files (tr_local y) = fs_files (tr_local x)"
proof -
  obtain u x1 where 1: "on_remote (io_remove remote) x = (u, x1)" by fastforce
  then have x1: "fs_files (tr_remote x1) = fs_files (tr_remote x) \<or> fs_files (tr_remote x1) = (fs_files (tr_remote x))(remote := None)"
    "tr_local x1 = tr_local x"
    by (auto simp: on_remote_def io_remove_def split: option.splits)
  obtain v x2 where 2: "on_remote (on_err map_sftp (sftp_rename tmp remote)) x1 = (v, x2)" by fastforce
  then have x2: "tr_local x2 = tr_local x1" "\<And>e. v = Inl e \<Longrightarrow> fs_files (tr_remote x2) = fs_files (tr_remote x1)"
    "\<And>w. v = Inr w \<Longrightarrow> fs_files (tr_remote x1) remote = None \<and> (\<exists>c. fs_files (tr_remote x1) tmp = Some c
       \<and> fs_files (tr_remote x2) = (fs_files (tr_remote x1))(tmp := None, remote \<mapsto> c))"
    by (auto simp: on_remote_def on_err_def sftp_rename_def split: prod.splits sum.splits option.splits if_splits)
  have tmp: "fs_files (tr_remote x1) tmp = Some c" using x1 assms(2,3) by auto
  show ?thesis
  proof (cases v)
    case (Inl e)
    then have "r = Inl e" "y = x2" using assms(1) 1 2 by (simp_all add: upload_finish_def xthen_def)
    with x1 x2(1,2) Inl show ?thesis by auto
  next
    case (Inr w)
    then have "r = Inr n" "fs_files (tr_remote y) = fs_files (tr_remote x2)" "tr_local y = tr_local x2"
      using assms(1) 1 2 by (auto simp: upload_finish_def xthen_def report_def)
    with x1 x2(1) x2(3) [OF Inr] tmp assms(2) show ?thesis by (auto simp: fun_upd_twist)
  qed
qed

lemma upload_tmp_fresh: "upload_tmp remote \<noteq> remote"
  by (simp add: upload_tmp_def)

text \<open>C23: An upload never leaves a part of a file at the destination: whatever fails and whenever it
  is cancelled, when it reports success the remote file is the whole local file, and when it does
  not the remote file is the old one or is missing. Other remote files than the temporary one, and
  all local files, are untouched.\<close>

theorem upload_is_whole_or_absent:
  assumes "upload local remote x = (r, y)"
  shows "(\<forall>n. r = Inr n \<longrightarrow> (\<exists>c. fs_files (tr_local x) local = Some c \<and> n = length c
            \<and> fs_files (tr_remote y) remote = Some c \<and> fs_files (tr_remote y) (upload_tmp remote) = None))
     \<and> (\<forall>e. r = Inl e \<longrightarrow> fs_files (tr_remote y) remote \<in> {fs_files (tr_remote x) remote, None})
     \<and> (\<forall>p. p \<notin> {remote, upload_tmp remote} \<longrightarrow> fs_files (tr_remote y) p = fs_files (tr_remote x) p)
     \<and> fs_files (tr_local y) = fs_files (tr_local x)"
proof -
  let ?tmp = "upload_tmp remote"
  obtain v x1 where 1: "upload_part local ?tmp x = (v, x1)" by fastforce
  have same: "same_but {} {?tmp} x x1" by (rule xtouchesD [OF upload_part_touches 1])
  then have l: "fs_files (tr_local x1) = fs_files (tr_local x)" by (auto simp: same_but_def)
  show ?thesis
  proof (cases v)
    case (Inl e)
    then have "r = Inl e" "y = x1" using assms 1 by (simp_all add: upload_parts xthen_def)
    with same l upload_tmp_fresh [of remote] show ?thesis by (auto simp: same_but_def)
  next
    case (Inr n)
    then have f: "upload_finish ?tmp remote n x1 = (r, y)" using assms 1 by (simp add: upload_parts xthen_def)
    obtain c where c: "fs_files (tr_local x) local = Some c" "n = length c" "fs_files (tr_remote x1) ?tmp = Some c"
      using upload_part_Inr 1 Inr by blast
    note fin = upload_finish_cases [OF f upload_tmp_fresh c(3)]
    have o: "fs_files (tr_remote x1) p = fs_files (tr_remote x) p" if "p \<noteq> ?tmp" for p
      using same that by (simp add: same_but_def)
    show ?thesis
    proof (cases r)
      case (Inl e)
      with fin o [of remote] upload_tmp_fresh [of remote] o l show ?thesis by auto
    next
      case (Inr m)
      with fin o c l upload_tmp_fresh [of remote] show ?thesis by auto
    qed
  qed
qed

section \<open>Downloads\<close>

definition download_part :: "ustring \<Rightarrow> ustring \<Rightarrow> nat xrun" where
  "download_part remote tmp =
     xthen (on_remote (on_err map_sftp (io_read remote))) (\<lambda>total.
     xthen (on_local (on_err (local_error ''create directory'') io_touch)) (\<lambda>_.
     xthen (on_local (on_err (local_error ''create local file'') (io_create tmp))) (\<lambda>_.
     xthen (on_remote (on_err map_sftp (io_read remote))) (\<lambda>source.
     xthen (on_remote (on_err map_sftp io_touch)) (\<lambda>_.
     xthen (download_loop tmp source 0) (\<lambda>n.
     xthen (on_local (on_err (local_error ''flush local file'') io_touch)) (\<lambda>_ x. (Inr n, x))))))))"

lemma download_parts:
  "download remote local = xthen (download_part remote (download_tmp local)) (\<lambda>n.
     xthen (on_local (on_err (local_error ''move file into place'') (io_rename (download_tmp local) local))) (\<lambda>_. report n))"
  unfolding download_def download_part_def Let_def xthen_assoc
  by (rule ext) (simp add: xthen_def split: prod.split sum.split)

lemma download_part_touches: "xtouches {tmp} {} (download_part remote tmp)"
  using transfer_loop_touches [of Download tmp] unfolding download_part_def download_loop_def part_defs
  by (intro xtouch_intros touch_intros) (auto simp: xtouches_def)

lemma download_part_Inr:
  assumes "download_part remote tmp x = (Inr n, y)"
  shows "\<exists>c. fs_files (tr_remote x) remote = Some c \<and> n = length c \<and> fs_files (tr_local y) tmp = Some c"
proof -
  obtain c0 x1 u x2 u' x3 c x4 v x5 x6 w where
    1: "on_remote (on_err map_sftp (io_read remote)) x = (Inr c0, x1)"
    and 2: "on_local (on_err (local_error ''create directory'') io_touch) x1 = (Inr u, x2)"
    and 3: "on_local (on_err (local_error ''create local file'') (io_create tmp)) x2 = (Inr u', x3)"
    and 4: "on_remote (on_err map_sftp (io_read remote)) x3 = (Inr c, x4)"
    and 5: "on_remote (on_err map_sftp io_touch) x4 = (Inr v, x5)"
    and 6: "download_loop tmp c 0 x5 = (Inr n, x6)"
    and 7: "on_local (on_err (local_error ''flush local file'') io_touch) x6 = (Inr w, y)"
    using assms by (auto simp: download_part_def xthen_Inr)
  have r: "fs_files (tr_remote x) remote = Some c"
    using on_remote_read [OF 1] on_local_touch [OF 2] on_local_create [OF 3] on_remote_read [OF 4] by simp
  have "fs_files (sink_fs Download x5) tmp = Some []"
    using on_local_create [OF 3] on_remote_read [OF 4] on_remote_touch [OF 5] by (simp add: sink_fs_def)
  from transfer_loop_writes [OF 6 [unfolded download_loop_def] this]
  have "n = length c" "fs_files (tr_local x6) tmp = Some c" by (simp_all add: sink_fs_def)
  with r on_local_touch [OF 7] show ?thesis by auto
qed

text \<open>C24: A download replaces the local file as a whole: when it reports success the local file is the
  whole remote file, and when it does not, whatever failed and whenever it was cancelled, the local
  file is as before. Other local files than the temporary one, and all remote files, are untouched.\<close>

theorem download_is_whole_or_unchanged:
  assumes "download remote local x = (r, y)" and "download_tmp local \<noteq> local"
  shows "(\<forall>n. r = Inr n \<longrightarrow> (\<exists>c. fs_files (tr_remote x) remote = Some c \<and> n = length c
            \<and> fs_files (tr_local y) local = Some c \<and> fs_files (tr_local y) (download_tmp local) = None))
     \<and> (\<forall>e. r = Inl e \<longrightarrow> fs_files (tr_local y) local = fs_files (tr_local x) local)
     \<and> (\<forall>p. p \<notin> {local, download_tmp local} \<longrightarrow> fs_files (tr_local y) p = fs_files (tr_local x) p)
     \<and> fs_files (tr_remote y) = fs_files (tr_remote x)"
proof -
  let ?tmp = "download_tmp local"
  obtain v x1 where 1: "download_part remote ?tmp x = (v, x1)" by fastforce
  have same: "same_but {?tmp} {} x x1" by (rule xtouchesD [OF download_part_touches 1])
  then have rem: "fs_files (tr_remote x1) = fs_files (tr_remote x)" by (auto simp: same_but_def)
  show ?thesis
  proof (cases v)
    case (Inl e)
    then have "r = Inl e" "y = x1" using assms(1) 1 by (simp_all add: download_parts xthen_def)
    with same rem assms(2) show ?thesis by (auto simp: same_but_def)
  next
    case (Inr n)
    obtain w x2 where 2: "on_local (on_err (local_error ''move file into place'') (io_rename ?tmp local)) x1 = (w, x2)" by fastforce
    obtain c where c: "fs_files (tr_remote x) remote = Some c" "n = length c" "fs_files (tr_local x1) ?tmp = Some c"
      using download_part_Inr 1 Inr by blast
    have x2: "tr_remote x2 = tr_remote x1" "\<And>e. w = Inl e \<Longrightarrow> fs_files (tr_local x2) = fs_files (tr_local x1)"
      "\<And>u. w = Inr u \<Longrightarrow> fs_files (tr_local x2) = (fs_files (tr_local x1))(?tmp := None, local \<mapsto> c)"
      using 2 c(3) by (auto simp: on_local_def split: prod.splits dest: rename_Inl rename_Inr)
    have o: "fs_files (tr_local x1) p = fs_files (tr_local x) p" if "p \<noteq> ?tmp" for p
      using same that by (simp add: same_but_def)
    show ?thesis
    proof (cases w)
      case (Inl e)
      then have "r = Inl e" "y = x2" using assms(1) 1 2 Inr \<open>v = Inr n\<close> by (simp_all add: download_parts xthen_def)
      with x2(1) x2(2) [OF Inl] o rem assms(2) show ?thesis by auto
    next
      case (Inr u)
      then have "r = Inr n" "fs_files (tr_local y) = fs_files (tr_local x2)" "tr_remote y = tr_remote x2"
        using assms(1) 1 2 \<open>v = Inr n\<close> by (auto simp: download_parts xthen_def report_def)
      with x2(1) x2(3) [OF Inr] o rem c assms(2) show ?thesis by auto
    qed
  qed
qed

section \<open>Transfers that nothing disturbs\<close>

definition calm :: "transfer \<Rightarrow> bool" where
  "calm x \<longleftrightarrow> set (fs_faults (tr_local x)) \<subseteq> {None} \<and> set (fs_faults (tr_remote x)) \<subseteq> {None} \<and> True \<notin> set (tr_cancel x)"

lemma calm_faults:
  assumes "calm x"
  shows "next_fault (tr_local x) = None" "next_fault (tr_remote x) = None"
    "calm (x\<lparr>tr_local := after_call (tr_local x)\<rparr>)" "calm (x\<lparr>tr_remote := after_call (tr_remote x)\<rparr>)"
proof -
  have "next_fault s = None \<and> set (fs_faults (after_call s)) \<subseteq> {None}" if "set (fs_faults s) \<subseteq> {None}" for s
    using that by (cases "fs_faults s") (auto simp: after_call_def)
  with assms show "next_fault (tr_local x) = None" "next_fault (tr_remote x) = None"
    "calm (x\<lparr>tr_local := after_call (tr_local x)\<rparr>)" "calm (x\<lparr>tr_remote := after_call (tr_remote x)\<rparr>)"
    by (simp_all add: calm_def)
qed

lemma calm_updates [simp]:
  "calm (x\<lparr>tr_progress := ps\<rparr>) = calm x" "calm (x\<lparr>tr_reads := ks\<rparr>) = calm x"
  "calm (x\<lparr>tr_local := set_file p c s\<rparr>) = calm (x\<lparr>tr_local := s\<rparr>)"
  "calm (x\<lparr>tr_remote := set_file p c s\<rparr>) = calm (x\<lparr>tr_remote := s\<rparr>)"
  by (simp_all add: calm_def set_file_def)

text \<open>What a successful step of a calm transfer leaves.\<close>

definition goes_on :: "'a xrun \<Rightarrow> transfer \<Rightarrow> bool" where
  "goes_on r x \<longleftrightarrow> (\<exists>z. fst (r x) = Inr z) \<and> calm (snd (r x)) \<and> tr_progress (snd (r x)) = tr_progress x"

lemma calm_touch:
  "calm x \<Longrightarrow> goes_on (on_local (on_err f io_touch)) x" "calm x \<Longrightarrow> goes_on (on_remote (on_err f io_touch)) x"
  by (simp_all add: goes_on_def on_local_def on_remote_def on_err_def io_touch_def calm_faults del: next_fault.simps)

lemma calm_write:
  "calm x \<Longrightarrow> goes_on (on_local (on_err f (io_write_all p c))) x" "calm x \<Longrightarrow> goes_on (on_remote (on_err f (io_write_all p c))) x"
  by (simp_all add: goes_on_def on_local_def on_remote_def on_err_def io_write_all_def Let_def calm_faults del: next_fault.simps)

lemma calm_create:
  "calm x \<Longrightarrow> goes_on (on_local (on_err f (io_create p))) x" "calm x \<Longrightarrow> goes_on (on_remote (on_err f (io_create p))) x"
  by (simp_all add: goes_on_def on_local_def on_remote_def on_err_def io_create_def calm_faults del: next_fault.simps)

lemma calm_read:
  "calm x \<Longrightarrow> fs_files (tr_local x) p = Some c \<Longrightarrow> goes_on (on_local (on_err f (io_read p))) x"
  "calm x \<Longrightarrow> fs_files (tr_remote x) p = Some c \<Longrightarrow> goes_on (on_remote (on_err f (io_read p))) x"
  by (simp_all add: goes_on_def on_local_def on_remote_def on_err_def io_read_def calm_faults del: next_fault.simps)

lemma calm_rename: "calm x \<Longrightarrow> fs_files (tr_local x) p = Some c \<Longrightarrow> goes_on (on_local (on_err f (io_rename p q))) x"
  by (simp add: goes_on_def on_local_def on_err_def io_rename_def calm_faults del: next_fault.simps)

lemma calm_sftp_rename: "calm x \<Longrightarrow> fs_files (tr_remote x) p = Some c \<Longrightarrow> fs_files (tr_remote x) q = None
    \<Longrightarrow> goes_on (on_remote (on_err f (sftp_rename p q))) x"
  by (simp add: goes_on_def on_remote_def on_err_def sftp_rename_def calm_faults del: next_fault.simps)

lemma calm_remove:
  "calm x \<Longrightarrow> on_remote (io_remove p) x = (r, y) \<Longrightarrow>
     calm y \<and> tr_progress y = tr_progress x \<and> fs_files (tr_remote y) p = None
     \<and> (\<forall>q. q \<noteq> p \<longrightarrow> fs_files (tr_remote y) q = fs_files (tr_remote x) q)"
  by (auto simp: on_remote_def io_remove_def calm_faults split: option.splits simp del: next_fault.simps)

lemma goes_onE:
  assumes "goes_on r x" obtains z y where "r x = (Inr z, y)" and "calm y" and "tr_progress y = tr_progress x"
  using assms by (cases "r x") (auto simp: goes_on_def)

lemma next_cancel_calm: "calm x \<Longrightarrow> \<exists>x1. next_cancel x = (False, x1) \<and> calm x1 \<and> tr_progress x1 = tr_progress x"
  by (cases "tr_cancel x") (auto simp: next_cancel_def calm_def)

lemma next_read_calm: "calm x \<Longrightarrow> next_read src x = (c, x1) \<Longrightarrow> calm x1 \<and> tr_progress x1 = tr_progress x \<and> (c = [] \<longrightarrow> src = [])"
  by (auto simp: next_read_def chunk_size_def split: if_splits list.splits)

lemma calm_loop:
  "calm x \<Longrightarrow> \<exists>y ps. transfer_loop d tmp src sent x = (Inr (sent + length src), y) \<and> calm y
     \<and> tr_progress y = tr_progress x @ ps \<and> sorted ps \<and> set ps \<subseteq> {sent..sent + length src}"
proof (induction "length src" arbitrary: src sent x rule: less_induct)
  case less
  obtain x1 where 1: "next_cancel x = (False, x1)" "calm x1" "tr_progress x1 = tr_progress x"
    using next_cancel_calm [OF less.prems] by blast
  have "goes_on (on_source d (on_err (read_error d) io_touch)) x1"
    using calm_touch [OF 1(2)] by (cases d) (simp_all add: on_source_def)
  then obtain u x2 where 2: "on_source d (on_err (read_error d) io_touch) x1 = (Inr u, x2)" "calm x2"
    "tr_progress x2 = tr_progress x1" by (rule goes_onE)
  obtain c x3 where 3: "next_read src x2 = (c, x3)" by fastforce
  note calm3 = next_read_calm [OF 2(2) 3]
  have "goes_on (on_sink d (on_err (write_error d) (io_write_all tmp c))) x3"
    using calm_write calm3 by (cases d) (simp_all add: on_sink_def)
  then obtain v x4 where 4: "on_sink d (on_err (write_error d) (io_write_all tmp c)) x3 = (Inr v, x4)" "calm x4"
    "tr_progress x4 = tr_progress x3" by (rule goes_onE)
  note step = transfer_loop.simps [of d tmp src sent x] 1(1) 2(1) 3 4(1)
  show ?case
  proof (cases "c = []")
    case True
    then have "src = []" "next_read [] x2 = ([], x3)" using calm3 3 by simp_all
    then have "transfer_loop d tmp src sent x = (Inr (sent + length src), x3)"
      by (simp add: transfer_loop.simps [of d tmp "[]"] 1(1) 2(1))
    with calm3 1 2 show ?thesis by (intro exI [of _ x3] exI [of _ "[]"]) simp
  next
    case False
    have src: "src = c @ drop (length c) src" using next_read_chunk [OF 3] by simp
    have n: "length c + length (drop (length c) src) = length src" using arg_cong [OF src, of length] by simp
    let ?x = "x4\<lparr>tr_progress := tr_progress x4 @ [sent + length c]\<rparr>"
    have "length (drop (length c) src) < length src" using n False length_greater_0_conv [of c] by linarith
    moreover have "calm ?x" using 4 by simp
    ultimately obtain y ps where y: "transfer_loop d tmp (drop (length c) src) (sent + length c) ?x
        = (Inr (sent + length c + length (drop (length c) src)), y)" "calm y" "tr_progress y = tr_progress ?x @ ps"
      "sorted ps" "set ps \<subseteq> {sent + length c..sent + length c + length (drop (length c) src)}"
      using less.hyps by blast
    have "transfer_loop d tmp src sent x = (Inr (sent + length src), y)"
      using y(1) False n by (simp add: step Let_def)
    moreover have "tr_progress y = tr_progress x @ (sent + length c) # ps" using y(3) 1 2 calm3 4 by simp
    moreover have "sorted ((sent + length c) # ps)" using y(4,5) by auto
    moreover have "set ((sent + length c) # ps) \<subseteq> {sent..sent + length src}" using y(5) n by auto
    ultimately show ?thesis using y(2) by blast
  qed
qed

lemma upload_part_delivers:
  assumes "calm x" and "fs_files (tr_local x) local = Some c"
  shows "\<exists>y ps. upload_part local tmp x = (Inr (length c), y) \<and> calm y \<and> tr_progress y = tr_progress x @ ps
     \<and> sorted ps \<and> set ps \<subseteq> {..length c}"
proof -
  obtain c0 x1 where 1: "on_local (on_err (local_error ''read metadata'') (io_read local)) x = (Inr c0, x1)"
    "calm x1" "tr_progress x1 = tr_progress x" by (rule goes_onE [OF calm_read(1) [OF assms]])
  have "fs_files (tr_local x1) local = Some c" using on_local_read [OF 1(1)] assms(2) by simp
  then obtain c1 x2 where 2: "on_local (on_err (local_error ''open local file'') (io_read local)) x1 = (Inr c1, x2)"
    "calm x2" "tr_progress x2 = tr_progress x1" by (rule goes_onE [OF calm_read(1) [OF 1(2)]])
  have c1: "c1 = c" using on_local_read [OF 2(1)] on_local_read [OF 1(1)] assms(2) by simp
  obtain u x3 where 3: "on_remote (on_err map_sftp (io_create tmp)) x2 = (Inr u, x3)" "calm x3" "tr_progress x3 = tr_progress x2"
    by (rule goes_onE [OF calm_create(2) [OF 2(2)]])
  obtain x4 ps where 4: "upload_loop tmp c 0 x3 = (Inr (length c), x4)" "calm x4"
    "tr_progress x4 = tr_progress x3 @ ps" "sorted ps" "set ps \<subseteq> {..length c}"
    using calm_loop [OF 3(2), of Upload tmp c 0] by (auto simp: upload_loop_def atLeast0AtMost)
  obtain v x5 where 5: "on_remote (on_err map_sftp io_touch) x4 = (Inr v, x5)" "calm x5" "tr_progress x5 = tr_progress x4"
    by (rule goes_onE [OF calm_touch(2) [OF 4(2)]])
  have "upload_part local tmp x = (Inr (length c), x5)"
    by (simp add: upload_part_def xthen_def 1(1) 2(1) 3(1) 4(1) 5(1) c1)
  with 1 2 3 4 5 show ?thesis by (intro exI [of _ x5] exI [of _ ps]) simp
qed

lemma download_part_delivers:
  assumes "calm x" and "fs_files (tr_remote x) remote = Some c"
  shows "\<exists>y ps. download_part remote tmp x = (Inr (length c), y) \<and> calm y \<and> tr_progress y = tr_progress x @ ps
     \<and> sorted ps \<and> set ps \<subseteq> {..length c}"
proof -
  obtain c0 x1 where 1: "on_remote (on_err map_sftp (io_read remote)) x = (Inr c0, x1)"
    "calm x1" "tr_progress x1 = tr_progress x" by (rule goes_onE [OF calm_read(2) [OF assms]])
  obtain u x2 where 2: "on_local (on_err (local_error ''create directory'') io_touch) x1 = (Inr u, x2)"
    "calm x2" "tr_progress x2 = tr_progress x1" by (rule goes_onE [OF calm_touch(1) [OF 1(2)]])
  obtain u' x3 where 3: "on_local (on_err (local_error ''create local file'') (io_create tmp)) x2 = (Inr u', x3)"
    "calm x3" "tr_progress x3 = tr_progress x2" by (rule goes_onE [OF calm_create(1) [OF 2(2)]])
  have r: "fs_files (tr_remote x3) remote = Some c"
    using on_remote_read [OF 1(1)] on_local_touch [OF 2(1)] on_local_create [OF 3(1)] assms(2) by simp
  then obtain c1 x4 where 4: "on_remote (on_err map_sftp (io_read remote)) x3 = (Inr c1, x4)"
    "calm x4" "tr_progress x4 = tr_progress x3" by (rule goes_onE [OF calm_read(2) [OF 3(2)]])
  have c1: "c1 = c" using on_remote_read [OF 4(1)] r by simp
  obtain v x5 where 5: "on_remote (on_err map_sftp io_touch) x4 = (Inr v, x5)" "calm x5" "tr_progress x5 = tr_progress x4"
    by (rule goes_onE [OF calm_touch(2) [OF 4(2)]])
  obtain x6 ps where 6: "download_loop tmp c 0 x5 = (Inr (length c), x6)" "calm x6"
    "tr_progress x6 = tr_progress x5 @ ps" "sorted ps" "set ps \<subseteq> {..length c}"
    using calm_loop [OF 5(2), of Download tmp c 0] by (auto simp: download_loop_def atLeast0AtMost)
  obtain w x7 where 7: "on_local (on_err (local_error ''flush local file'') io_touch) x6 = (Inr w, x7)"
    "calm x7" "tr_progress x7 = tr_progress x6" by (rule goes_onE [OF calm_touch(1) [OF 6(2)]])
  have "download_part remote tmp x = (Inr (length c), x7)"
    by (simp add: download_part_def xthen_def 1(1) 2(1) 3(1) 4(1) 5(1) 6(1) 7(1) c1)
  with 1 2 3 4 5 6 7 show ?thesis by (intro exI [of _ x7] exI [of _ ps]) simp
qed

text \<open>C25: A transfer that nothing disturbs ends with success: when no call fails and the flag is never set,
  uploading an existing local file, or downloading an existing remote one, reports its size, and
  the progress reported rises to it.\<close>

theorem calm_transfers_succeed:
  assumes "calm x"
  shows "(\<forall>c. fs_files (tr_local x) local = Some c \<longrightarrow>
           (\<exists>y ps. upload local remote x = (Inr (length c), y) \<and> tr_progress y = tr_progress x @ ps @ [length c]
              \<and> sorted (ps @ [length c])))
       \<and> (\<forall>c. fs_files (tr_remote x) remote = Some c \<longrightarrow>
           (\<exists>y ps. download remote local x = (Inr (length c), y) \<and> tr_progress y = tr_progress x @ ps @ [length c]
              \<and> sorted (ps @ [length c])))"
proof (intro conjI allI impI)
  fix c assume c: "fs_files (tr_local x) local = Some c"
  let ?tmp = "upload_tmp remote"
  obtain y ps where y: "upload_part local ?tmp x = (Inr (length c), y)" "calm y" "tr_progress y = tr_progress x @ ps"
    "sorted ps" "set ps \<subseteq> {..length c}" using upload_part_delivers [OF assms c] by blast
  obtain c' where "fs_files (tr_remote y) ?tmp = Some c'" using upload_part_Inr [OF y(1)] by blast
  moreover obtain o1 y1 where y1: "on_remote (io_remove remote) y = (o1, y1)" by fastforce
  note rm = calm_remove [OF y(2) y1]
  ultimately have "fs_files (tr_remote y1) ?tmp = Some c'" using upload_tmp_fresh [of remote] by simp
  then have "goes_on (on_remote (on_err map_sftp (sftp_rename ?tmp remote))) y1"
    using calm_sftp_rename rm by blast
  then obtain v y2 where y2: "on_remote (on_err map_sftp (sftp_rename ?tmp remote)) y1 = (Inr v, y2)"
    "tr_progress y2 = tr_progress y1" by (rule goes_onE)
  have "upload local remote x = (Inr (length c), y2\<lparr>tr_progress := tr_progress y2 @ [length c]\<rparr>)"
    by (simp add: upload_parts xthen_def y(1) upload_finish_def y1 y2(1) report_def)
  with y(3-5) y2(2) rm show "\<exists>y ps. upload local remote x = (Inr (length c), y)
      \<and> tr_progress y = tr_progress x @ ps @ [length c] \<and> sorted (ps @ [length c])"
    by (intro exI [of _ "y2\<lparr>tr_progress := tr_progress y2 @ [length c]\<rparr>"] exI [of _ ps]) (auto simp: sorted_append)
next
  fix c assume c: "fs_files (tr_remote x) remote = Some c"
  let ?tmp = "download_tmp local"
  obtain y ps where y: "download_part remote ?tmp x = (Inr (length c), y)" "calm y" "tr_progress y = tr_progress x @ ps"
    "sorted ps" "set ps \<subseteq> {..length c}" using download_part_delivers [OF assms c] by blast
  obtain c' where "fs_files (tr_local y) ?tmp = Some c'" using download_part_Inr [OF y(1)] by blast
  then obtain v y2 where y2: "on_local (on_err (local_error ''move file into place'') (io_rename ?tmp local)) y = (Inr v, y2)"
    "tr_progress y2 = tr_progress y" by (rule goes_onE [OF calm_rename [OF y(2)]])
  have "download remote local x = (Inr (length c), y2\<lparr>tr_progress := tr_progress y2 @ [length c]\<rparr>)"
    by (simp add: download_parts xthen_def y(1) y2(1) report_def)
  with y(3-5) y2(2) show "\<exists>y ps. download remote local x = (Inr (length c), y)
      \<and> tr_progress y = tr_progress x @ ps @ [length c] \<and> sorted (ps @ [length c])"
    by (intro exI [of _ "y2\<lparr>tr_progress := tr_progress y2 @ [length c]\<rparr>"] exI [of _ ps]) (auto simp: sorted_append)
qed

section \<open>Examples\<close>

definition disk :: "(ustring \<times> u8 list) list \<Rightarrow> fault option list \<Rightarrow> fs" where
  "disk files faults = \<lparr>fs_files = map_of files, fs_faults = faults\<rparr>"

definition xfer :: "fs \<Rightarrow> fs \<Rightarrow> transfer" where
  "xfer l r = \<lparr>tr_local = l, tr_remote = r, tr_cancel = [], tr_reads = [2], tr_progress = []\<rparr>"

definition broken :: "nat \<Rightarrow> fault option" where
  "broken n = Some \<lparr>ft_error = (IoOther, lit ''Failure''), ft_written = n\<rparr>"

lemmas xfer_eval = disk_def xfer_def broken_def Let_def on_local_def on_remote_def on_source_def on_sink_def on_err_def
  xthen_def io_read_def io_create_def io_touch_def io_write_all_def io_remove_def io_rename_def sftp_rename_def
  report_def next_cancel_def next_read_def chunk_size_def after_call_def set_file_def

lemma upload_example:
  "\<exists>y. upload [97] [98] (xfer (disk [([97], [1, 2, 3])] []) (disk [] [])) = (Inr 3, y)"
  by (simp add: upload_def upload_loop_def upload_tmp_def transfer_loop.simps xfer_eval)

theorem upload_is_whole_or_absent_witness:
  "\<exists>y. upload [97] [98] (xfer (disk [([97], [1, 2, 3])] []) (disk [] [])) = (Inr 3, y)
     \<and> fs_files (tr_remote y) [98] = Some [1, 2, 3]"
proof -
  obtain y where y: "upload [97] [98] (xfer (disk [([97], [1, 2, 3])] []) (disk [] [])) = (Inr 3, y)"
    using upload_example by blast
  with upload_is_whole_or_absent [OF y] have "fs_files (tr_remote y) [98] = Some [1, 2, 3]" by (auto simp: xfer_def disk_def split: if_splits)
  with y show ?thesis by blast
qed

lemma download_example:
  "\<exists>y. download [97] [98] (xfer (disk [([98], [9])] []) (disk [([97], [1, 2, 3])] [])) = (Inr 3, y)"
  by (simp add: download_def download_loop_def download_tmp_def transfer_loop.simps xfer_eval with_extension_def
      path_split_def rsplit_once_def del: lit_simps)

theorem download_is_whole_or_unchanged_witness:
  "\<exists>y. download [97] [98] (xfer (disk [([98], [9])] []) (disk [([97], [1, 2, 3])] [])) = (Inr 3, y)
     \<and> fs_files (tr_local y) [98] = Some [1, 2, 3]"
proof -
  obtain y where y: "download [97] [98] (xfer (disk [([98], [9])] []) (disk [([97], [1, 2, 3])] [])) = (Inr 3, y)"
    using download_example by blast
  have "download_tmp [98] \<noteq> [98]" by (simp add: download_tmp_def with_extension_def path_split_def rsplit_once_def split_once_def)
  with download_is_whole_or_unchanged [OF y] have "fs_files (tr_local y) [98] = Some [1, 2, 3]" by (auto simp: xfer_def disk_def split: if_splits)
  with y show ?thesis by blast
qed

theorem calm_transfers_succeed_witness:
  "\<exists>y ps. upload [97] [98] (xfer (disk [([97], [1, 2, 3])] []) (disk [] [])) = (Inr 3, y) \<and> tr_progress y = ps @ [3] \<and> sorted (ps @ [3])"
proof -
  have "calm (xfer (disk [([97], [1, 2, 3])] []) (disk [] []))" by (simp add: calm_def xfer_def disk_def)
  from calm_transfers_succeed [OF this, of "[97]" "[98]"] show ?thesis by (simp add: xfer_def disk_def numeral_3_eq_3)
qed

section \<open>Behaviour that the documentation does not promise\<close>

text \<open>An upload that fails, rather than being cancelled, leaves its temporary file behind.\<close>

lemma failed_upload_leaves_part:
  "\<exists>e y. upload [97] [98] (xfer (disk [([97], [1, 2, 3])] []) (disk [] [None, broken 1])) = (Inl e, y)
     \<and> fs_files (tr_remote y) (upload_tmp [98]) = Some [1]"
  by (simp add: upload_def upload_loop_def upload_tmp_def transfer_loop.simps xfer_eval)

text \<open>When the final rename fails the old remote file is gone.\<close>

lemma failed_rename_loses_file:
  "\<exists>e y. upload [97] [98] (xfer (disk [([97], [1])] []) (disk [([98], [9])] [None, None, None, None, broken 0])) = (Inl e, y)
     \<and> fs_files (tr_remote y) [98] = None"
  by (simp add: upload_def upload_loop_def upload_tmp_def transfer_loop.simps xfer_eval)

text \<open>Downloads next to each other whose names differ in the extension share a temporary file.\<close>

lemma downloads_share_temporary: "download_tmp (lit ''x.tar'') = download_tmp (lit ''x.zip'')"
  by (simp add: download_tmp_def with_extension_def path_split_def rsplit_once_def split_once_def)

text \<open>A server that does not report a size is read without the limit.\<close>

lemma unreported_size_skips_limit:
  "fs_faults s = [] \<Longrightarrow> fs_files s p = Some c \<Longrightarrow> from_utf8 c = Some t \<Longrightarrow> fst (sftp_read_to_string p limit (\<lambda>_. None) s) = Inr t"
  by (simp add: sftp_read_to_string_def run_then_def on_err_def io_touch_def io_read_string_def io_read_def after_call_def)

end
