(* ===== verification/Rust_Channel.thy ===== *)
theory Rust_Channel
  imports Rust_Prelude
begin

text \<open>
  A task that carries out the commands it receives over a channel, as the sessions of both protocols
  run it: the client pushes commands while the task holds the receiver, the task takes them from the
  front and ends at a stop command, at an error or with the connection. The contract of one action
  is \<open>channel_step\<close>; what it implies for every history of actions is proved once, in the locale.
\<close>

section \<open>The contract\<close>

record 'c channel =
  cl_running :: bool
  cl_queue :: "'c list"
  cl_taken :: "'c list"

inductive channel_step :: "'c \<Rightarrow> 'c channel \<Rightarrow> 'c list \<Rightarrow> 'c channel \<Rightarrow> bool" for stop where
  stay: "channel_step stop v [] v"
| push: "cl_running v \<Longrightarrow> channel_step stop v [c] (v\<lparr>cl_queue := cl_queue v @ [c]\<rparr>)"
| take: "cl_running v \<Longrightarrow> cl_queue v = c # cs \<Longrightarrow> c \<noteq> stop \<Longrightarrow>
    channel_step stop v [] (v\<lparr>cl_queue := cs, cl_taken := cl_taken v @ [c]\<rparr>)"
| last: "cl_running v \<Longrightarrow> cl_queue v = c # cs \<Longrightarrow>
    channel_step stop v [] \<lparr>cl_running = False, cl_queue = [], cl_taken = cl_taken v @ [c]\<rparr>"
| halt: "cl_running v \<Longrightarrow> channel_step stop v [] \<lparr>cl_running = False, cl_queue = [], cl_taken = cl_taken v\<rparr>"

text \<open>A history of actions, with the commands that were accepted during it.\<close>

fun act_history :: "('a \<Rightarrow> 's \<Rightarrow> 's option) \<Rightarrow> ('a \<Rightarrow> 's \<Rightarrow> 'c list) \<Rightarrow> 'a list \<Rightarrow> 's \<Rightarrow> ('s \<times> 'c list) option" where
  "act_history exec accepted [] s = Some (s, [])"
| "act_history exec accepted (act # acts) s =
     (case exec act s of
        None \<Rightarrow> None
      | Some s1 \<Rightarrow>
          (case act_history exec accepted acts s1 of
             None \<Rightarrow> None
           | Some (s2, cs) \<Rightarrow> Some (s2, accepted act s @ cs)))"

section \<open>What it implies\<close>

definition channel_inv :: "'c \<Rightarrow> 'c channel \<Rightarrow> bool" where
  "channel_inv stop v \<longleftrightarrow> (\<not> cl_running v \<longrightarrow> cl_queue v = []) \<and> stop \<notin> set (butlast (cl_taken v))
     \<and> (cl_running v \<longrightarrow> stop \<notin> set (cl_taken v))"

definition flows :: "'c channel \<Rightarrow> 'c list \<Rightarrow> 'c channel \<Rightarrow> bool" where
  "flows v cs v' \<longleftrightarrow>
     (\<exists>rest. cl_taken v @ cl_queue v @ cs = cl_taken v' @ rest \<and> (cl_running v' \<longrightarrow> rest = cl_queue v'))
     \<and> (\<not> cl_running v \<longrightarrow> v' = v \<and> cs = [])"

lemma channel_step_inv: "channel_step stop v cs v' \<Longrightarrow> channel_inv stop v \<Longrightarrow> channel_inv stop v'"
  by (induction rule: channel_step.induct) (auto simp: channel_inv_def butlast_append dest: in_set_butlastD)

lemma channel_step_flows: "channel_step stop v cs v' \<Longrightarrow> flows v cs v'"
  by (induction rule: channel_step.induct) (auto simp: flows_def)

lemma flows_trans:
  assumes "flows v cs v1" and "flows v1 ds v2"
  shows "flows v (cs @ ds) v2"
proof (cases "cl_running v1")
  case True
  obtain a where a: "cl_taken v @ cl_queue v @ cs = cl_taken v1 @ cl_queue v1" using assms(1) True by (auto simp: flows_def)
  obtain b where b: "cl_taken v1 @ cl_queue v1 @ ds = cl_taken v2 @ b" "cl_running v2 \<longrightarrow> b = cl_queue v2"
    using assms(2) by (auto simp: flows_def)
  from a b have "cl_taken v @ cl_queue v @ cs @ ds = cl_taken v2 @ b" by (metis append.assoc)
  with b assms True show ?thesis by (auto simp: flows_def)
next
  case False
  with assms show ?thesis by (auto simp: flows_def)
qed

locale task_channel =
  fixes exec :: "'a \<Rightarrow> 's \<Rightarrow> 's option"
    and accepted :: "'a \<Rightarrow> 's \<Rightarrow> 'c list"
    and view :: "'s \<Rightarrow> 'c channel"
    and stop :: 'c
  assumes step: "exec act s = Some s' \<Longrightarrow> channel_step stop (view s) (accepted act s) (view s')"
begin

lemma history_flows:
  "act_history exec accepted acts s = Some (s', cs) \<Longrightarrow> channel_inv stop (view s) \<Longrightarrow>
     flows (view s) cs (view s') \<and> channel_inv stop (view s')"
proof (induction acts arbitrary: s cs)
  case Nil
  then show ?case by (simp add: flows_def)
next
  case (Cons act acts)
  then obtain s1 ds where 1: "exec act s = Some s1" "act_history exec accepted acts s1 = Some (s', ds)"
    "cs = accepted act s @ ds" by (auto split: option.splits)
  note st = step [OF 1(1)]
  from Cons.IH [OF 1(2) channel_step_inv [OF st Cons.prems(2)]] flows_trans [OF channel_step_flows [OF st]] show ?case
    unfolding 1(3) by simp
qed

text \<open>Commands are taken once each and in the order in which they were accepted; none is lost while the
  task runs, and none is taken after a stop command.\<close>

lemma in_order:
  assumes "act_history exec accepted acts s = Some (s', cs)"
    and "cl_taken (view s) = []" and "cl_queue (view s) = []"
  shows "\<exists>rest. cs = cl_taken (view s') @ rest \<and> (cl_running (view s') \<longrightarrow> rest = cl_queue (view s'))
     \<and> stop \<notin> set (butlast (cl_taken (view s')))"
proof -
  have "channel_inv stop (view s)" using assms(2,3) by (simp add: channel_inv_def)
  from history_flows [OF assms(1) this] assms(2,3) show ?thesis by (auto simp: flows_def channel_inv_def)
qed

end

end
