(* ===== verification/Rdp_Session.thy ===== *)
theory Rdp_Session
  imports Rdp_Framebuffer Rdt_Error Rust_Channel
begin

text \<open>
  The remote desktop session, \<open>crates/rdt-rdp/src/session.rs\<close>: the encoding of input, the effect of
  the decoded output on the framebuffer and the events, and the task that pumps both directions.
  The protocol stage (\<open>ironrdp_session\<close>) is the parameter \<open>stage\<close>, a state with a function per call;
  the constants of the wire format are the parameter \<open>pointer_bits\<close>. The task and its client run
  concurrently: a history is a list of actions of either.
\<close>

section \<open>Input\<close>

datatype rdp_input =
    Key u16 bool bool
  | Unicode uchar
  | MouseButton u16 u16 u16
  | MouseMove u16 u16
  | MouseWheel "16 word" u16 u16

datatype input_event =
    KeyboardEvent bool bool u16
  | UnicodeEvent u16
  | PointerEvent u16 u16 u16

record pointer_bits =
  pb_move :: u16
  pb_wheel :: u16
  pb_wheel_negative :: u16
  pb_all :: u16

text \<open>The flags of a keyboard event are \<open>RELEASE\<close> and \<open>EXTENDED\<close>; \<open>ch as u16\<close> keeps the low bits, and
  the sign of the wheel's delta is that of the word read as an \<open>i16\<close>.\<close>

definition encode_input :: "pointer_bits \<Rightarrow> rdp_input \<Rightarrow> input_event option" where
  "encode_input pb i =
     Some (case i of
        Key scancode pressed extended \<Rightarrow> KeyboardEvent (\<not> pressed) extended scancode
      | Unicode ch \<Rightarrow> UnicodeEvent (word_of_nat ch)
      | MouseButton flags x y \<Rightarrow> PointerEvent (and flags (pb_all pb)) x y
      | MouseMove x y \<Rightarrow> PointerEvent (pb_move pb) x y
      | MouseWheel delta x y \<Rightarrow>
          PointerEvent (if sint delta < 0 then or (pb_wheel pb) (pb_wheel_negative pb) else pb_wheel pb) x y)"

section \<open>Events, commands and outputs\<close>

datatype rdp_event =
    Frame "damage_rect list" u32 u32
  | ServerNamed ustring
  | Pointer u32 u32 u32 u32 "u8 list"
  | RemoteClipboard ustring
  | Resized u32 u32
  | SessionClosed ustring

datatype rdp_command = Cmd_Input rdp_input | Cmd_Resize u16 u16 | Cmd_Clipboard ustring | Cmd_Disconnect

datatype stage_output =
    ResponseFrame "u8 list"
  | GraphicsUpdate u16 u16 u16 u16 "u8 list"
  | PointerDefault
  | PointerHidden
  | PointerPosition u16 u16
  | ServerRedirection
  | ClipboardOutput
  | ServerName ustring
  | DesktopSize u16 u16
  | Terminate ustring
  | OtherOutput

type_synonym 'a stage_call = "'a \<Rightarrow> (ustring + stage_output list) \<times> 'a"

record 'a stage =
  st_input :: "input_event list \<Rightarrow> 'a stage_call"
  st_layout :: "u16 \<Rightarrow> u16 \<Rightarrow> 'a stage_call"
  st_clipboard :: "ustring \<Rightarrow> 'a stage_call"
  st_process :: "u8 list \<Rightarrow> 'a stage_call"
  st_shutdown :: "'a \<Rightarrow> 'a"

text \<open>\<open>rd_taken\<close> records what the task took from the queue of commands.\<close>

record 'a rdp =
  rd_stage :: 'a
  rd_fb :: framebuffer
  rd_bytes_in :: u64
  rd_bytes_out :: u64
  rd_frames :: u64
  rd_latency :: u64
  rd_closing :: bool
  rd_running :: bool
  rd_queue :: "rdp_command list"
  rd_taken :: "rdp_command list"
  rd_events :: "rdp_event list"

definition send_event :: "rdp_event \<Rightarrow> 'a rdp \<Rightarrow> 'a rdp" where
  "send_event e r = r\<lparr>rd_events := rd_events r @ [e]\<rparr>"

section \<open>The client side\<close>

definition session_closed :: "'a rdt_result" where
  "session_closed = fail ESessionState (lit ''the session is closed'')"

text \<open>The channel accepts a command while the task holds its receiver.\<close>

definition push_command :: "rdp_command \<Rightarrow> 'a rdp \<Rightarrow> unit rdt_result \<times> 'a rdp" where
  "push_command c r =
     (if rd_running r then (Inr (), r\<lparr>rd_queue := rd_queue r @ [c]\<rparr>) else (session_closed, r))"

definition rdp_send :: "rdp_input \<Rightarrow> 'a rdp \<Rightarrow> unit rdt_result \<times> 'a rdp" where
  "rdp_send i r =
     (if rd_closing r then (fail ESessionState (lit ''the session is closing''), r)
      else push_command (Cmd_Input i) r)"

definition rdp_resize :: "u16 \<Rightarrow> u16 \<Rightarrow> 'a rdp \<Rightarrow> unit rdt_result \<times> 'a rdp" where
  "rdp_resize w h = push_command (Cmd_Resize w h)"

definition rdp_disconnect :: "'a rdp \<Rightarrow> unit rdt_result \<times> 'a rdp" where
  "rdp_disconnect r = push_command Cmd_Disconnect (r\<lparr>rd_closing := True\<rparr>)"

definition rdp_drop :: "'a rdp \<Rightarrow> 'a rdp" where
  "rdp_drop r = snd (rdp_disconnect r)"

section \<open>The task\<close>

definition map_session :: "ustring \<Rightarrow> rdt_error" where
  "map_session message = error_new EProtocol message"

definition apply_output :: "stage_output \<Rightarrow> 'a rdp \<Rightarrow> 'a rdp option" where
  "apply_output out r =
     (case out of
        ResponseFrame frame \<Rightarrow> Some (r\<lparr>rd_bytes_out := rd_bytes_out r + word_of_nat (length frame)\<rparr>)
      | GraphicsUpdate left top' width height data \<Rightarrow>
          (case fb_blit \<lparr>dr_left = ucast left, dr_top = ucast top', dr_width = ucast width, dr_height = ucast height\<rparr>
                  data (rd_fb r) of
             None \<Rightarrow> None
           | Some fb \<Rightarrow>
               (case take_damage fb of (damage, fb') \<Rightarrow>
                  Some (send_event (Frame damage (fb_width fb') (fb_height fb')) (r\<lparr>rd_fb := fb'\<rparr>))))
      | PointerPosition x y \<Rightarrow> Some (send_event (Pointer 1 1 (ucast x) (ucast y) []) r)
      | ServerName name \<Rightarrow> Some (send_event (ServerNamed name) r)
      | DesktopSize width height \<Rightarrow>
          (case fb_resize (ucast width) (ucast height) (rd_fb r) of
             None \<Rightarrow> None
           | Some fb \<Rightarrow> Some (send_event (Resized (ucast width) (ucast height)) (r\<lparr>rd_fb := fb\<rparr>)))
      | Terminate reason \<Rightarrow> Some (send_event (SessionClosed (lit ''the server ended the session: '' @ reason)) r)
      | _ \<Rightarrow> Some r)"

definition ended :: ustring where
  "ended = lit ''the session ended''"

text \<open>After the loop: the receiver of the commands is dropped with the task.\<close>

definition rdp_finish :: "'a stage \<Rightarrow> 'a rdp \<Rightarrow> 'a rdp" where
  "rdp_finish st r =
     send_event (SessionClosed ended)
       (r\<lparr>rd_closing := True, rd_stage := st_shutdown st (rd_stage r), rd_running := False, rd_queue := []\<rparr>)"

definition rdp_fail :: "'a stage \<Rightarrow> ustring \<Rightarrow> 'a rdp \<Rightarrow> 'a rdp" where
  "rdp_fail st message r = rdp_finish st (send_event (SessionClosed message) r)"

definition handle_outputs :: "'a stage \<Rightarrow> ustring + stage_output list \<Rightarrow> 'a rdp \<Rightarrow> 'a rdp option" where
  "handle_outputs st outputs r =
     (case outputs of
        Inl e \<Rightarrow> Some (rdp_fail st (error_display (map_session e)) r)
      | Inr outs \<Rightarrow> fold_opt apply_output outs r)"

definition with_stage :: "'a stage \<Rightarrow> 'a stage_call \<Rightarrow> 'a rdp \<Rightarrow> 'a rdp option" where
  "with_stage st call r = (case call (rd_stage r) of (outs, a) \<Rightarrow> handle_outputs st outs (r\<lparr>rd_stage := a\<rparr>))"

definition run_command :: "pointer_bits \<Rightarrow> 'a stage \<Rightarrow> rdp_command \<Rightarrow> 'a rdp \<Rightarrow> 'a rdp option" where
  "run_command pb st c r =
     (case c of
        Cmd_Input i \<Rightarrow>
          (case encode_input pb i of
             Some event \<Rightarrow> with_stage st (st_input st [event]) r
           | None \<Rightarrow> handle_outputs st (Inr []) r)
      | Cmd_Resize w h \<Rightarrow> with_stage st (st_layout st w h) r
      | Cmd_Clipboard text \<Rightarrow> with_stage st (st_clipboard st text) r
      | Cmd_Disconnect \<Rightarrow> Some (rdp_finish st r))"

text \<open>One turn of \<open>select!\<close>: a command, a frame with its length and the milliseconds since the last
  one, or the end of the connection.\<close>

definition take_command :: "pointer_bits \<Rightarrow> 'a stage \<Rightarrow> 'a rdp \<Rightarrow> 'a rdp option" where
  "take_command pb st r =
     (case rd_queue r of
        [] \<Rightarrow> Some r
      | c # cs \<Rightarrow> run_command pb st c (r\<lparr>rd_queue := cs, rd_taken := rd_taken r @ [c]\<rparr>))"

definition take_frame :: "'a stage \<Rightarrow> nat \<Rightarrow> u8 list \<Rightarrow> u64 \<Rightarrow> 'a rdp \<Rightarrow> 'a rdp option" where
  "take_frame st len payload elapsed r =
     (case st_process st payload (rd_stage r) of
        (outs, a) \<Rightarrow>
          (let r1 = r\<lparr>rd_bytes_in := rd_bytes_in r + word_of_nat len, rd_stage := a\<rparr> in
           case outs of
             Inl e \<Rightarrow> handle_outputs st (Inl e) r1
           | Inr os \<Rightarrow> handle_outputs st (Inr os) (r1\<lparr>rd_frames := rd_frames r1 + 1, rd_latency := elapsed\<rparr>)))"

definition connection_lost :: "'a stage \<Rightarrow> ustring \<Rightarrow> 'a rdp \<Rightarrow> 'a rdp" where
  "connection_lost st e r =
     rdp_fail st (if rd_closing r then lit ''the session was closed'' else error_display (map_session e)) r"

definition spawn_session :: "u16 \<Rightarrow> u16 \<Rightarrow> ustring + 'a \<Rightarrow> 'a \<Rightarrow> 'a rdp option" where
  "spawn_session w h started blank =
     (case fb_new (ucast w) (ucast h) of
        None \<Rightarrow> None
      | Some fb \<Rightarrow>
          (let r = \<lparr>rd_stage = blank, rd_fb = fb, rd_bytes_in = 0, rd_bytes_out = 0, rd_frames = 0, rd_latency = 0,
                    rd_closing = False, rd_running = True, rd_queue = [], rd_taken = [], rd_events = []\<rparr> in
           case started of
             Inr a \<Rightarrow> Some (r\<lparr>rd_stage := a\<rparr>)
           | Inl e \<Rightarrow> Some (send_event (SessionClosed (lit ''cannot start the session: '' @ e)) (r\<lparr>rd_running := False\<rparr>))))"

section \<open>Histories\<close>

datatype rdp_act =
    Act_Send rdp_input
  | Act_Resize u16 u16
  | Act_Disconnect
  | Act_Drop
  | Act_Command
  | Act_Frame nat "u8 list" u64
  | Act_Lost ustring

definition rdp_exec :: "pointer_bits \<Rightarrow> 'a stage \<Rightarrow> rdp_act \<Rightarrow> 'a rdp \<Rightarrow> 'a rdp option" where
  "rdp_exec pb st act r =
     (case act of
        Act_Send i \<Rightarrow> Some (snd (rdp_send i r))
      | Act_Resize w h \<Rightarrow> Some (snd (rdp_resize w h r))
      | Act_Disconnect \<Rightarrow> Some (snd (rdp_disconnect r))
      | Act_Drop \<Rightarrow> Some (rdp_drop r)
      | Act_Command \<Rightarrow> if rd_running r then take_command pb st r else Some r
      | Act_Frame len payload elapsed \<Rightarrow> if rd_running r then take_frame st len payload elapsed r else Some r
      | Act_Lost e \<Rightarrow> Some (if rd_running r then connection_lost st e r else r))"

text \<open>The command that an action puts into the queue.\<close>

definition accepted_command :: "rdp_act \<Rightarrow> 'a rdp \<Rightarrow> rdp_command list" where
  "accepted_command act r =
     (case act of
        Act_Send i \<Rightarrow> if fst (rdp_send i r) = Inr () then [Cmd_Input i] else []
      | Act_Resize w h \<Rightarrow> if fst (rdp_resize w h r) = Inr () then [Cmd_Resize w h] else []
      | Act_Disconnect \<Rightarrow> if fst (rdp_disconnect r) = Inr () then [Cmd_Disconnect] else []
      | Act_Drop \<Rightarrow> if fst (rdp_disconnect r) = Inr () then [Cmd_Disconnect] else []
      | _ \<Rightarrow> [])"

definition rdp_history :: "pointer_bits \<Rightarrow> 'a stage \<Rightarrow> rdp_act list \<Rightarrow> 'a rdp \<Rightarrow> ('a rdp \<times> rdp_command list) option" where
  "rdp_history pb st = act_history (rdp_exec pb st) accepted_command"

lemma rdp_history_simps [simp]:
  "rdp_history pb st [] r = Some (r, [])"
  "rdp_history pb st (act # acts) r =
     (case rdp_exec pb st act r of
        None \<Rightarrow> None
      | Some r1 \<Rightarrow>
          (case rdp_history pb st acts r1 of
             None \<Rightarrow> None
           | Some (r2, cs) \<Rightarrow> Some (r2, accepted_command act r @ cs)))"
  unfolding rdp_history_def by (rule act_history.simps)+

section \<open>Metrics and the name of the client\<close>

text \<open>
  The counters of a remote desktop session, \<open>SessionMetrics\<close> of \<open>crates/rdt-rdp/src/session.rs\<close>, and what
  the user interface reads of them in every history of the session.
\<close>

record session_metrics =
  me_bytes_in :: u64
  me_bytes_out :: u64
  me_frames :: u64
  me_latency :: u32

definition rdp_metrics :: "'a rdp \<Rightarrow> session_metrics" where
  "rdp_metrics r =
     \<lparr>me_bytes_in = rd_bytes_in r, me_bytes_out = rd_bytes_out r, me_frames = rd_frames r, me_latency = ucast (rd_latency r)\<rparr>"

datatype connector_platform = Windows_Platform | MacOs_Platform | Unix_Platform

definition platform_id :: "bool \<Rightarrow> bool \<Rightarrow> connector_platform" where
  "platform_id windows macos = (if windows then Windows_Platform else if macos then MacOs_Platform else Unix_Platform)"

section \<open>What is counted\<close>

text \<open>The bytes that an action brings in, and whether it brings a frame that the stage understands.\<close>

definition received :: "rdp_act \<Rightarrow> 'a rdp \<Rightarrow> nat" where
  "received act r = (case act of Act_Frame len payload elapsed \<Rightarrow> if rd_running r then len else 0 | _ \<Rightarrow> 0)"

definition decoded :: "'a stage \<Rightarrow> rdp_act \<Rightarrow> 'a rdp \<Rightarrow> nat" where
  "decoded st act r =
     (case act of
        Act_Frame len payload elapsed \<Rightarrow>
          if rd_running r \<and> (\<exists>outs. fst (st_process st payload (rd_stage r)) = Inr outs) then 1 else 0
      | _ \<Rightarrow> 0)"

fun total_of :: "(rdp_act \<Rightarrow> 'a rdp \<Rightarrow> nat) \<Rightarrow> pointer_bits \<Rightarrow> 'a stage \<Rightarrow> rdp_act list \<Rightarrow> 'a rdp \<Rightarrow> nat" where
  "total_of f pb st [] r = 0"
| "total_of f pb st (act # acts) r =
     f act r + (case rdp_exec pb st act r of None \<Rightarrow> 0 | Some r1 \<Rightarrow> total_of f pb st acts r1)"

abbreviation same_counts :: "'a rdp \<Rightarrow> 'a rdp \<Rightarrow> bool" where
  "same_counts r r' \<equiv> rd_bytes_in r' = rd_bytes_in r \<and> rd_frames r' = rd_frames r"

lemma apply_output_counts: "apply_output out r = Some r' \<Longrightarrow> same_counts r r'"
  by (auto simp: apply_output_def send_event_def split: stage_output.splits option.splits prod.splits)

lemma apply_outputs_counts: "fold_opt apply_output outs r = Some r' \<Longrightarrow> same_counts r r'"
proof (induction outs arbitrary: r)
  case (Cons out outs)
  then show ?case by (auto split: option.splits Option.bind_splits dest!: apply_output_counts)
qed simp

lemma fail_counts: "same_counts r (rdp_fail st e r)" "same_counts r (rdp_finish st r)"
  by (simp_all add: rdp_fail_def rdp_finish_def send_event_def)

lemma handle_outputs_counts: "handle_outputs st outs r = Some r' \<Longrightarrow> same_counts r r'"
  by (cases outs) (auto simp: handle_outputs_def fail_counts dest: apply_outputs_counts)

lemma with_stage_counts: "with_stage st call r = Some r' \<Longrightarrow> same_counts r r'"
  by (auto simp: with_stage_def split: prod.splits dest!: handle_outputs_counts)

lemma run_command_counts: "run_command pb st c r = Some r' \<Longrightarrow> same_counts r r'"
  by (cases c) (auto simp: run_command_def fail_counts split: option.splits dest: with_stage_counts handle_outputs_counts)

lemma take_frame_counts:
  "take_frame st len payload elapsed r = Some r' \<Longrightarrow>
     rd_bytes_in r' = rd_bytes_in r + word_of_nat len
     \<and> rd_frames r' = rd_frames r + (if \<exists>outs. fst (st_process st payload (rd_stage r)) = Inr outs then 1 else 0)"
  by (auto simp: take_frame_def Let_def split: prod.splits sum.splits dest!: handle_outputs_counts)

lemma exec_counts:
  assumes "rdp_exec pb st act r = Some r'"
  shows "rd_bytes_in r' = rd_bytes_in r + word_of_nat (received act r)
     \<and> rd_frames r' = rd_frames r + word_of_nat (decoded st act r)"
proof (cases act)
  case Act_Command
  with assms show ?thesis
    by (auto simp: rdp_exec_def received_def decoded_def take_command_def split: if_splits list.splits dest!: run_command_counts)
next
  case (Act_Frame len payload elapsed)
  with assms show ?thesis
    by (auto simp: rdp_exec_def received_def decoded_def split: if_splits dest!: take_frame_counts)
qed (use assms in \<open>auto simp: rdp_exec_def received_def decoded_def rdp_send_def rdp_resize_def rdp_disconnect_def rdp_drop_def
    push_command_def connection_lost_def fail_counts fail_def\<close>)

text \<open>In every history the metrics are the numbers of bytes and frames that arrived, up to the width of the
  counters.\<close>

lemma metrics_count:
  "rdp_history pb st acts r = Some (r', cs) \<Longrightarrow>
     me_bytes_in (rdp_metrics r') = me_bytes_in (rdp_metrics r) + word_of_nat (total_of received pb st acts r)
     \<and> me_frames (rdp_metrics r') = me_frames (rdp_metrics r) + word_of_nat (total_of (decoded st) pb st acts r)"
proof (induction acts arbitrary: r cs)
  case Nil
  then show ?case by simp
next
  case (Cons act acts)
  then obtain r1 ds where 1: "rdp_exec pb st act r = Some r1" "rdp_history pb st acts r1 = Some (r', ds)"
    by (auto split: option.splits)
  from Cons.IH [OF 1(2)] exec_counts [OF 1(1)] 1(1) show ?case by (simp add: rdp_metrics_def)
qed

text \<open>The latency is the time since the last frame, not a round trip, and wraps after 49 days.\<close>

lemma latency_is_truncated: "rd_latency r = 2 ^ 32 + 5 \<Longrightarrow> me_latency (rdp_metrics r) = 5"
  by (simp add: rdp_metrics_def)

end
