(* ===== verification/Rdp_Session_Props.thy ===== *)
theory Rdp_Session_Props
  imports Rdp_Session Rdp_Framebuffer_Props
begin

text \<open>
  What the session promises in every history of its client and its task: commands reach the
  protocol stage once and in order, up to the first disconnect; the sizes the user interface hears
  of are those of the framebuffer, and nothing panics; and a session that is told to disconnect ends.
\<close>

section \<open>The queue\<close>

definition quiet_step :: "'a rdp \<Rightarrow> 'a rdp \<Rightarrow> bool" where
  "quiet_step r r' \<longleftrightarrow> rd_taken r' = rd_taken r
     \<and> (rd_running r' = rd_running r \<and> rd_queue r' = rd_queue r \<and> rd_closing r' = rd_closing r
        \<or> \<not> rd_running r' \<and> rd_queue r' = [] \<and> rd_closing r')"

lemma send_event_fields [simp]:
  "rd_taken (send_event e r) = rd_taken r" "rd_running (send_event e r) = rd_running r" "rd_queue (send_event e r) = rd_queue r"
  "rd_closing (send_event e r) = rd_closing r" "rd_fb (send_event e r) = rd_fb r" "rd_events (send_event e r) = rd_events r @ [e]"
  by (simp_all add: send_event_def)

lemma apply_output_frame:
  "apply_output out r = Some r' \<Longrightarrow> rd_taken r' = rd_taken r \<and> rd_running r' = rd_running r \<and> rd_queue r' = rd_queue r \<and> rd_closing r' = rd_closing r"
  by (auto simp: apply_output_def split: stage_output.splits option.splits prod.splits)

lemma apply_outputs_frame:
  "fold_opt apply_output outs r = Some r' \<Longrightarrow>
     rd_taken r' = rd_taken r \<and> rd_running r' = rd_running r \<and> rd_queue r' = rd_queue r \<and> rd_closing r' = rd_closing r"
proof (induction outs arbitrary: r)
  case (Cons out outs)
  then show ?case by (auto split: option.splits Option.bind_splits dest!: apply_output_frame)
qed simp

lemma handle_outputs_quiet: "handle_outputs st outs r = Some r' \<Longrightarrow> quiet_step r r'"
  by (auto simp: handle_outputs_def quiet_step_def rdp_fail_def rdp_finish_def split: sum.splits dest!: apply_outputs_frame)

lemma with_stage_quiet: "with_stage st call r = Some r' \<Longrightarrow> quiet_step r r'"
  by (auto simp: with_stage_def split: prod.splits dest!: handle_outputs_quiet) (simp add: quiet_step_def)

lemma take_frame_quiet: "take_frame st len payload elapsed r = Some r' \<Longrightarrow> quiet_step r r'"
  by (auto simp: take_frame_def Let_def split: prod.splits sum.splits dest!: handle_outputs_quiet) (simp_all add: quiet_step_def)

lemma connection_lost_quiet: "quiet_step r (connection_lost st e r)"
  by (simp add: connection_lost_def quiet_step_def rdp_fail_def rdp_finish_def)

lemma run_command_quiet: "run_command pb st c r = Some r' \<Longrightarrow> quiet_step r r'"
  by (auto simp: run_command_def encode_input_def split: rdp_command.splits dest!: with_stage_quiet)
    (simp add: quiet_step_def rdp_finish_def)

lemma run_disconnect: "run_command pb st Cmd_Disconnect r = Some r' \<Longrightarrow> \<not> rd_running r'"
  by (auto simp: run_command_def rdp_finish_def)

text \<open>The session keeps the contract of a channel whose stop command is \<open>Cmd_Disconnect\<close>.\<close>

definition rdp_channel :: "'a rdp \<Rightarrow> rdp_command channel" where
  "rdp_channel r = \<lparr>cl_running = rd_running r, cl_queue = rd_queue r, cl_taken = rd_taken r\<rparr>"

abbreviation rdp_steps :: "'a rdp \<Rightarrow> rdp_command list \<Rightarrow> 'a rdp \<Rightarrow> bool" where
  "rdp_steps r cs r' \<equiv> channel_step Cmd_Disconnect (rdp_channel r) cs (rdp_channel r')"

lemma quiet_steps: "quiet_step r r' \<Longrightarrow> rd_running r \<Longrightarrow> rdp_steps r [] r'"
  using channel_step.stay [of Cmd_Disconnect "rdp_channel r"] channel_step.halt [of "rdp_channel r" Cmd_Disconnect]
  by (auto simp: quiet_step_def rdp_channel_def)

lemma push_steps:
  "rdp_steps r (if fst (push_command c (r\<lparr>rd_closing := b\<rparr>)) = Inr () then [c] else []) (snd (push_command c (r\<lparr>rd_closing := b\<rparr>)))"
  using channel_step.stay [of Cmd_Disconnect "rdp_channel r"] channel_step.push [of "rdp_channel r" Cmd_Disconnect c]
  by (auto simp: push_command_def session_closed_def fail_def rdp_channel_def)

lemma plain_push_steps: "rdp_steps r (if fst (push_command c r) = Inr () then [c] else []) (snd (push_command c r))"
  using push_steps [of r c "rd_closing r"] by simp

lemma take_command_steps:
  assumes "rd_running r" and "take_command pb st r = Some r'"
  shows "rdp_steps r [] r'"
proof (cases "rd_queue r")
  case Nil
  with assms show ?thesis by (simp add: take_command_def channel_step.stay)
next
  case (Cons c cs)
  let ?r = "r\<lparr>rd_queue := cs, rd_taken := rd_taken r @ [c]\<rparr>"
  have run: "run_command pb st c ?r = Some r'" using assms(2) Cons by (simp add: take_command_def)
  note q = run_command_quiet [OF run]
  have d: "rd_running r' \<Longrightarrow> c \<noteq> Cmd_Disconnect" using run_disconnect run by blast
  show ?thesis
  proof (cases "rd_running r'")
    case True
    with q d [OF True] channel_step.take [of "rdp_channel r" c cs Cmd_Disconnect] Cons assms(1) show ?thesis
      by (auto simp: quiet_step_def rdp_channel_def)
  next
    case False
    with q channel_step.last [of "rdp_channel r" c cs Cmd_Disconnect] Cons assms(1) show ?thesis
      by (auto simp: quiet_step_def rdp_channel_def)
  qed
qed

lemma exec_steps:
  assumes "rdp_exec pb st act r = Some r'"
  shows "rdp_steps r (accepted_command act r) r'"
proof (cases act)
  case (Act_Send i)
  with assms plain_push_steps [of r "Cmd_Input i"] channel_step.stay [of Cmd_Disconnect "rdp_channel r"] show ?thesis
    by (auto simp: rdp_exec_def accepted_command_def rdp_send_def fail_def)
next
  case (Act_Resize w h)
  with assms plain_push_steps [of r "Cmd_Resize w h"] show ?thesis by (auto simp: rdp_exec_def accepted_command_def rdp_resize_def)
next
  case Act_Disconnect
  with assms push_steps [of r Cmd_Disconnect True] show ?thesis by (auto simp: rdp_exec_def accepted_command_def rdp_disconnect_def)
next
  case Act_Drop
  with assms push_steps [of r Cmd_Disconnect True] show ?thesis
    by (auto simp: rdp_exec_def accepted_command_def rdp_disconnect_def rdp_drop_def)
next
  case Act_Command
  with assms take_command_steps channel_step.stay show ?thesis
    by (cases "rd_running r") (auto simp: rdp_exec_def accepted_command_def)
next
  case (Act_Frame len payload elapsed)
  with assms quiet_steps take_frame_quiet channel_step.stay show ?thesis
    by (cases "rd_running r") (fastforce simp: rdp_exec_def accepted_command_def)+
next
  case (Act_Lost e)
  with assms quiet_steps connection_lost_quiet channel_step.stay show ?thesis
    by (cases "rd_running r") (fastforce simp: rdp_exec_def accepted_command_def)+
qed

interpretation rdp_task: task_channel "rdp_exec pb st" accepted_command rdp_channel Cmd_Disconnect for pb st
  by unfold_locales (rule exec_steps)

text \<open>C26: Commands reach the task in the order in which they were accepted, each once and none lost while it
  runs: what it took is a prefix of what was accepted, the rest is still in its queue, and no command
  that was accepted after a disconnect is ever taken.\<close>

theorem commands_in_order:
  assumes "spawn_session w h (Inr a) blank = Some r0" and "rdp_history pb st acts r0 = Some (r, accepted)"
  shows "\<exists>rest. accepted = rd_taken r @ rest \<and> (rd_running r \<longrightarrow> rest = rd_queue r)
     \<and> Cmd_Disconnect \<notin> set (butlast (rd_taken r))"
proof -
  have "cl_taken (rdp_channel r0) = []" "cl_queue (rdp_channel r0) = []"
    using assms(1) by (auto simp: spawn_session_def rdp_channel_def Let_def split: option.splits)
  from rdp_task.in_order [OF assms(2) [unfolded rdp_history_def] this] show ?thesis by (simp add: rdp_channel_def)
qed

section \<open>Sizes\<close>

text \<open>What the user interface, which only hears the events, takes for the size of the screen; and that
  every frame it hears of has this size, with damage inside.\<close>

fun told_size :: "u32 \<times> u32 \<Rightarrow> rdp_event list \<Rightarrow> u32 \<times> u32" where
  "told_size s [] = s"
| "told_size s (Resized w h # es) = told_size (w, h) es"
| "told_size s (e # es) = told_size s es"

fun frames_fit :: "u32 \<times> u32 \<Rightarrow> rdp_event list \<Rightarrow> bool" where
  "frames_fit s [] \<longleftrightarrow> True"
| "frames_fit s (Resized w h # es) \<longleftrightarrow> frames_fit (w, h) es"
| "frames_fit s (Frame damage w h # es) \<longleftrightarrow> (w, h) = s \<and> list_all (in_bounds w h) damage \<and> frames_fit s es"
| "frames_fit s (e # es) \<longleftrightarrow> frames_fit s es"

lemma told_size_append: "told_size s (es @ fs) = told_size (told_size s es) fs"
  by (induction s es rule: told_size.induct) simp_all

lemma frames_fit_append: "frames_fit s (es @ fs) \<longleftrightarrow> frames_fit s es \<and> frames_fit (told_size s es) fs"
  by (induction s es rule: told_size.induct) auto

definition screen_inv :: "u32 \<times> u32 \<Rightarrow> 'a rdp \<Rightarrow> bool" where
  "screen_inv s r \<longleftrightarrow> fb_wf (rd_fb r) \<and> told_size s (rd_events r) = (fb_width (rd_fb r), fb_height (rd_fb r))
     \<and> frames_fit s (rd_events r)"

text \<open>A desktop size that the protocol can negotiate is not empty; that its image has less than
  \<open>2 ^ 32\<close> bytes is a limit of the code.\<close>

definition size_fits :: "u16 \<Rightarrow> u16 \<Rightarrow> bool" where
  "size_fits w h \<longleftrightarrow> 0 < unat w \<and> 0 < unat h \<and> unat w * unat h * 4 < 2 ^ 32"

fun output_fits :: "stage_output \<Rightarrow> bool" where
  "output_fits (DesktopSize w h) \<longleftrightarrow> size_fits w h"
| "output_fits _ \<longleftrightarrow> True"

definition call_fits :: "'a stage_call \<Rightarrow> bool" where
  "call_fits call \<longleftrightarrow> (\<forall>a outs. fst (call a) = Inr outs \<longrightarrow> list_all output_fits outs)"

definition stage_fits :: "'a stage \<Rightarrow> bool" where
  "stage_fits st \<longleftrightarrow> (\<forall>es. call_fits (st_input st es)) \<and> (\<forall>w h. call_fits (st_layout st w h))
     \<and> (\<forall>t. call_fits (st_clipboard st t)) \<and> (\<forall>p. call_fits (st_process st p))"

lemma unat_ucast_u16: "unat (ucast (w :: u16) :: u32) = unat w"
  by transfer (simp add: take_bit_eq_mod)

lemma fb_step_wf: "fb_wf fb \<Longrightarrow> op_fits op \<Longrightarrow> \<exists>fb'. fb_step op fb = Some fb' \<and> fb_wf fb'"
proof -
  assume wf: "fb_wf fb" and op: "op_fits op"
  have "up_to_date fb fb" using wf by (simp add: up_to_date_def)
  then show ?thesis using fb_step_up_to_date [OF op, of fb] by (elim keepsE) (auto simp: up_to_date_def)
qed

lemma fb_blit_size: "fb_blit rect data fb = Some fb' \<Longrightarrow> fb_width fb' = fb_width fb \<and> fb_height fb' = fb_height fb"
  by (auto simp: fb_blit_def mark_dirty_def split: Option.bind_splits if_splits)

lemma fb_resize_size: "fb_resize w h fb = Some fb' \<Longrightarrow> fb_width fb' = max w 1 \<and> fb_height fb' = max h 1"
  by (auto simp: fb_resize_def mark_dirty_def Let_def split: Option.bind_splits if_splits)

lemma max_one: "0 < unat (w :: u32) \<Longrightarrow> max w 1 = w"
  by (simp add: max_def word_le_nat_alt not_le) (metis One_nat_def Suc_lessI le_less_trans less_numeral_extra(3) word_unat_eq_iff unat_1 unat_0 not_less_eq linorder_neqE_nat)

lemma apply_output_inv:
  assumes "output_fits out"
  shows "keeps (screen_inv s) (apply_output out)"
proof (rule keepsI)
  fix r assume inv: "screen_inv s r"
  then have wf: "fb_wf (rd_fb r)" by (simp add: screen_inv_def)
  show "\<exists>r'. apply_output out r = Some r' \<and> screen_inv s r'"
  proof (cases out)
    case (GraphicsUpdate left top' width height data)
    let ?rect = "\<lparr>dr_left = ucast left, dr_top = ucast top', dr_width = ucast width, dr_height = ucast height\<rparr>"
    obtain fb where fb: "fb_blit ?rect data (rd_fb r) = Some fb" "fb_wf fb"
      using fb_step_wf [OF wf, of "Op_Blit ?rect data"] by auto
    let ?fb = "fb\<lparr>fb_damage := []\<rparr>"
    have "list_all (in_bounds (fb_width fb) (fb_height fb)) (fb_damage fb)" "fb_wf ?fb" using fb(2) by (simp_all add: fb_wf_def)
    moreover have "fb_width fb = fb_width (rd_fb r)" "fb_height fb = fb_height (rd_fb r)" using fb_blit_size [OF fb(1)] by simp_all
    ultimately have "screen_inv s (send_event (Frame (fb_damage fb) (fb_width ?fb) (fb_height ?fb)) (r\<lparr>rd_fb := ?fb\<rparr>))"
      using inv by (simp add: screen_inv_def told_size_append frames_fit_append)
    then show ?thesis by (simp add: GraphicsUpdate apply_output_def fb(1) take_damage_def)
  next
    case (DesktopSize w h)
    let ?w = "ucast w :: u32" and ?h = "ucast h :: u32"
    have fits: "0 < unat ?w" "0 < unat ?h" "unat (max ?w 1) * unat (max ?h 1) * 4 < 2 ^ 32"
      using assms by (simp_all add: DesktopSize size_fits_def unat_ucast_u16 max_one)
    then obtain fb where fb: "fb_resize ?w ?h (rd_fb r) = Some fb" "fb_wf fb"
      using fb_step_wf [OF wf, of "Op_Resize ?w ?h"] by auto
    have "fb_width fb = ?w" "fb_height fb = ?h" using fb_resize_size [OF fb(1)] fits max_one by simp_all
    then have "screen_inv s (send_event (Resized ?w ?h) (r\<lparr>rd_fb := fb\<rparr>))"
      using inv fb(2) by (simp add: screen_inv_def told_size_append frames_fit_append)
    then show ?thesis by (simp add: DesktopSize apply_output_def fb(1))
  qed (use inv in \<open>simp_all add: apply_output_def screen_inv_def told_size_append frames_fit_append\<close>)
qed

lemma finish_inv: "screen_inv s r \<Longrightarrow> screen_inv s (rdp_finish st r)"
  by (simp add: rdp_finish_def screen_inv_def told_size_append frames_fit_append)

lemma fail_inv: "screen_inv s r \<Longrightarrow> screen_inv s (rdp_fail st m r)"
  by (simp add: rdp_fail_def finish_inv) (rule finish_inv, simp add: screen_inv_def told_size_append frames_fit_append)

lemma handle_outputs_inv:
  assumes "\<forall>os. outs = Inr os \<longrightarrow> list_all output_fits os" and "screen_inv s r"
  shows "\<exists>r'. handle_outputs st outs r = Some r' \<and> screen_inv s r'"
proof (cases outs)
  case (Inl e)
  with assms(2) show ?thesis by (simp add: handle_outputs_def fail_inv)
next
  case (Inr os)
  have "keeps (screen_inv s) (fold_opt apply_output os)"
    using assms(1) Inr by (intro keeps_fold apply_output_inv) (simp add: list_all_iff)
  with assms(2) show ?thesis by (auto simp: handle_outputs_def Inr elim: keepsE)
qed

lemma with_stage_inv:
  assumes "call_fits call" and "screen_inv s r"
  shows "\<exists>r'. with_stage st call r = Some r' \<and> screen_inv s r'"
proof -
  obtain outs a where c: "call (rd_stage r) = (outs, a)" by fastforce
  have "\<forall>os. outs = Inr os \<longrightarrow> list_all output_fits os" using assms(1) c unfolding call_fits_def by (metis fst_conv)
  moreover have "screen_inv s (r\<lparr>rd_stage := a\<rparr>)" using assms(2) by (simp add: screen_inv_def)
  ultimately show ?thesis by (simp add: with_stage_def c handle_outputs_inv)
qed

lemma run_command_inv:
  assumes "stage_fits st" and "screen_inv s r"
  shows "\<exists>r'. run_command pb st c r = Some r' \<and> screen_inv s r'"
proof (cases c)
  case (Cmd_Input i)
  with assms show ?thesis by (simp add: run_command_def encode_input_def with_stage_inv stage_fits_def)
next
  case (Cmd_Resize w h)
  with assms show ?thesis by (simp add: run_command_def with_stage_inv stage_fits_def)
next
  case (Cmd_Clipboard t)
  with assms show ?thesis by (simp add: run_command_def with_stage_inv stage_fits_def)
next
  case Cmd_Disconnect
  with assms show ?thesis by (simp add: run_command_def finish_inv)
qed

lemma screen_inv_queue [simp]:
  "screen_inv s (r\<lparr>rd_queue := q\<rparr>) = screen_inv s r" "screen_inv s (r\<lparr>rd_closing := b\<rparr>) = screen_inv s r"
  "screen_inv s (r\<lparr>rd_taken := t\<rparr>) = screen_inv s r" "screen_inv s (r\<lparr>rd_stage := a\<rparr>) = screen_inv s r"
  "screen_inv s (r\<lparr>rd_bytes_in := n\<rparr>) = screen_inv s r" "screen_inv s (r\<lparr>rd_frames := n\<rparr>) = screen_inv s r"
  "screen_inv s (r\<lparr>rd_latency := n\<rparr>) = screen_inv s r"
  by (simp_all add: screen_inv_def)

lemma take_frame_inv:
  assumes "stage_fits st" and "screen_inv s r"
  shows "\<exists>r'. take_frame st len payload elapsed r = Some r' \<and> screen_inv s r'"
proof -
  obtain outs a where c: "st_process st payload (rd_stage r) = (outs, a)" by fastforce
  have f: "\<forall>os. outs = Inr os \<longrightarrow> list_all output_fits os"
    using assms(1) c unfolding stage_fits_def call_fits_def by (metis fst_conv)
  show ?thesis
    using assms(2) f by (cases outs) (simp_all add: take_frame_def c handle_outputs_inv)
qed

lemma push_inv: "screen_inv s r \<Longrightarrow> screen_inv s (snd (push_command c r))"
  by (simp add: push_command_def)

lemma take_command_inv:
  assumes "stage_fits st" and "screen_inv s r"
  shows "\<exists>r'. take_command pb st r = Some r' \<and> screen_inv s r'"
proof (cases "rd_queue r")
  case Nil
  with assms show ?thesis by (simp add: take_command_def)
next
  case (Cons c cs)
  with run_command_inv [OF assms(1), of s "r\<lparr>rd_queue := cs, rd_taken := rd_taken r @ [c]\<rparr>" pb c] assms(2) show ?thesis
    by (simp add: take_command_def)
qed

lemma exec_inv:
  assumes "stage_fits st" and "screen_inv s r"
  shows "\<exists>r'. rdp_exec pb st act r = Some r' \<and> screen_inv s r'"
proof (cases act)
  case Act_Command
  with assms take_command_inv [OF assms] show ?thesis by (simp add: rdp_exec_def)
next
  case (Act_Frame len payload elapsed)
  with assms take_frame_inv [OF assms] show ?thesis by (simp add: rdp_exec_def)
next
  case (Act_Lost e)
  with assms show ?thesis by (simp add: rdp_exec_def connection_lost_def fail_inv)
qed (use assms in \<open>simp_all add: rdp_exec_def rdp_send_def rdp_resize_def rdp_disconnect_def rdp_drop_def push_inv\<close>)

lemma history_inv: "stage_fits st \<Longrightarrow> screen_inv s r \<Longrightarrow> \<exists>r' cs. rdp_history pb st acts r = Some (r', cs) \<and> screen_inv s r'"
proof (induction acts arbitrary: r)
  case (Cons act acts)
  obtain r1 where 1: "rdp_exec pb st act r = Some r1" "screen_inv s r1" using exec_inv [OF Cons.prems] by blast
  obtain r' cs where "rdp_history pb st acts r1 = Some (r', cs)" "screen_inv s r'" using Cons.IH [OF Cons.prems(1) 1(2)] by blast
  with 1(1) show ?case by simp
qed simp

lemma spawned:
  assumes "size_fits w h"
  shows "\<exists>r0. spawn_session w h started blank = Some r0 \<and> screen_inv (ucast w, ucast h) r0"
proof -
  let ?w = "ucast w :: u32" and ?h = "ucast h :: u32"
  have m: "max ?w 1 = ?w" "max ?h 1 = ?h" using assms by (simp_all add: size_fits_def unat_ucast_u16 max_one)
  have area: "unat ?w * unat ?h * 4 < 2 ^ 32" "0 < unat ?w" "0 < unat ?h" using assms by (simp_all add: size_fits_def unat_ucast_u16)
  have "fb_new ?w ?h = Some \<lparr>fb_width = ?w, fb_height = ?h, fb_pixels = replicate (unat ?w * unat ?h * 4) 0, fb_damage = []\<rparr>"
    using black_ok [OF area(1)] by (simp add: fb_new_def m Let_def)
  with area show ?thesis by (cases started) (auto simp: spawn_session_def screen_inv_def fb_wf_def Let_def)
qed

text \<open>C27: No history of a session panics, and the user interface hears of every change of size before it
  hears of a frame: each frame is announced with the size that was last announced, its damage is
  inside that size, and at the end that size is the size of the framebuffer.\<close>

theorem frames_have_announced_size:
  assumes "size_fits w h" and "stage_fits st"
  shows "\<exists>r0 r accepted. spawn_session w h started blank = Some r0 \<and> rdp_history pb st acts r0 = Some (r, accepted)
     \<and> frames_fit (ucast w, ucast h) (rd_events r)
     \<and> told_size (ucast w, ucast h) (rd_events r) = (fb_width (rd_fb r), fb_height (rd_fb r))"
proof -
  obtain r0 where r0: "spawn_session w h started blank = Some r0" "screen_inv (ucast w, ucast h) r0"
    using spawned [OF assms(1), of started blank] by (elim exE conjE)
  obtain r cs where "rdp_history pb st acts r0 = Some (r, cs)" "screen_inv (ucast w, ucast h) r"
    using history_inv [OF assms(2) r0(2), of pb acts] by (elim exE conjE)
  with r0(1) show ?thesis by (intro exI [of _ r0] exI [of _ r] exI [of _ cs]) (simp add: screen_inv_def)
qed

section \<open>The end of a session\<close>

definition ended_inv :: "'a rdp \<Rightarrow> bool" where
  "ended_inv r \<longleftrightarrow> (\<not> rd_running r \<longrightarrow> rd_closing r \<and> (\<exists>es. rd_events r = es @ [SessionClosed ended]))"

lemma finish_ended [simp]: "ended_inv (rdp_finish st r)" "\<not> rd_running (rdp_finish st r)"
  by (simp_all add: ended_inv_def rdp_finish_def)
































section \<open>Examples\<close>

text \<open>A stage whose every frame resizes the desktop to two pixels and paints the first.\<close>

definition toy_stage :: "unit stage" where
  "toy_stage = \<lparr>st_input = \<lambda>es a. (Inr [], a), st_layout = \<lambda>w h a. (Inr [], a), st_clipboard = \<lambda>t a. (Inr [], a),
     st_process = \<lambda>p a. (Inr [DesktopSize 2 1, GraphicsUpdate 0 0 1 1 [1, 2, 3, 4]], a), st_shutdown = \<lambda>a. a\<rparr>"

definition toy_bits :: pointer_bits where
  "toy_bits = \<lparr>pb_move = 0x800, pb_wheel = 0x200, pb_wheel_negative = 0x100, pb_all = - 1\<rparr>"

lemma toy_fits: "stage_fits toy_stage"
  by (simp add: stage_fits_def call_fits_def toy_stage_def size_fits_def)

lemma one_pixel_fits: "size_fits 1 1"
  by (simp add: size_fits_def)

definition one_pixel :: "unit rdp" where
  "one_pixel = \<lparr>rd_stage = (), rd_fb = \<lparr>fb_width = 1, fb_height = 1, fb_pixels = [0, 0, 0, 0], fb_damage = []\<rparr>,
     rd_bytes_in = 0, rd_bytes_out = 0, rd_frames = 0, rd_latency = 0, rd_closing = False, rd_running = True,
     rd_queue = [], rd_taken = [], rd_events = []\<rparr>"

lemma spawn_one_pixel: "spawn_session 1 1 (Inr ()) () = Some one_pixel"
proof -
  have "replicate 4 0 = [0, 0, 0, 0 :: u8]" by (simp add: numeral_eq_Suc)
  then show ?thesis by (simp add: spawn_session_def fb_new_def black_def ck_mul_def one_pixel_def)
qed

lemma busy_steps:
  "rdp_exec pb st (Act_Send i) r = Some (snd (rdp_send i r))" "accepted_command (Act_Send i) r = (if fst (rdp_send i r) = Inr () then [Cmd_Input i] else [])"
  "rdp_exec pb st Act_Disconnect r = Some (snd (rdp_disconnect r))" "accepted_command Act_Command r = []"
  "accepted_command Act_Disconnect r = (if fst (rdp_disconnect r) = Inr () then [Cmd_Disconnect] else [])"
  "rd_running r \<Longrightarrow> rdp_exec pb st Act_Command r = take_command pb st r"
  "rd_running r \<Longrightarrow> \<not> rd_closing r \<Longrightarrow> rdp_send i r = (Inr (), r\<lparr>rd_queue := rd_queue r @ [Cmd_Input i]\<rparr>)"
  "rd_running r \<Longrightarrow> rdp_disconnect r = (Inr (), r\<lparr>rd_closing := True, rd_queue := rd_queue r @ [Cmd_Disconnect]\<rparr>)"
  by (simp_all add: rdp_exec_def accepted_command_def rdp_send_def rdp_disconnect_def push_command_def)

lemma toy_take:
  "rd_queue r = Cmd_Input i # cs \<Longrightarrow> take_command toy_bits toy_stage r = Some (r\<lparr>rd_queue := cs, rd_taken := rd_taken r @ [Cmd_Input i]\<rparr>)"
  by (simp add: take_command_def run_command_def encode_input_def with_stage_def handle_outputs_def toy_stage_def)

lemma busy_history:
  "\<exists>r. rdp_history toy_bits toy_stage [Act_Send (Unicode 97), Act_Disconnect, Act_Command] one_pixel
     = Some (r, [Cmd_Input (Unicode 97), Cmd_Disconnect]) \<and> rd_running r \<and> rd_queue r = [Cmd_Disconnect]"
  by (simp add: busy_steps toy_take one_pixel_def)

theorem commands_in_order_witness:
  "\<exists>r accepted. rdp_history toy_bits toy_stage [Act_Send (Unicode 97), Act_Disconnect, Act_Command] one_pixel
     = Some (r, accepted) \<and> rd_taken r = [Cmd_Input (Unicode 97)]"
proof -
  obtain r where h: "rdp_history toy_bits toy_stage [Act_Send (Unicode 97), Act_Disconnect, Act_Command] one_pixel
     = Some (r, [Cmd_Input (Unicode 97), Cmd_Disconnect])" "rd_running r" "rd_queue r = [Cmd_Disconnect]"
    using busy_history by blast
  from commands_in_order [OF spawn_one_pixel h(1)] h(2,3) have "rd_taken r = [Cmd_Input (Unicode 97)]" by auto
  with h(1) show ?thesis by blast
qed

theorem frames_have_announced_size_witness:
  "\<exists>r accepted. rdp_history toy_bits toy_stage [Act_Frame 9 [] 5] one_pixel = Some (r, accepted)
     \<and> frames_fit (1, 1) (rd_events r) \<and> told_size (1, 1) (rd_events r) = (fb_width (rd_fb r), fb_height (rd_fb r))"
  using frames_have_announced_size [OF one_pixel_fits toy_fits, of "Inr ()" "()" toy_bits "[Act_Frame 9 [] 5]"]
  by (simp add: spawn_one_pixel del: rdp_history_simps)


section \<open>Where the code departs from its comments\<close>

text \<open>The amount of a turn of the wheel is not sent, only its sign.\<close>

lemma wheel_amount_is_lost: "encode_input pb (MouseWheel 120 x y) = encode_input pb (MouseWheel 1 x y)"
  by (simp add: encode_input_def)

text \<open>A character beyond the basic plane is sent as another character.\<close>

lemma astral_character_is_truncated: "encode_input pb (Unicode 0x1F600) = encode_input pb (Unicode 0xF600)"
  by (simp add: encode_input_def)

text \<open>No method of the session queues clipboard text, so local text never reaches the server.\<close>

lemma clipboard_is_never_sent: "Cmd_Clipboard t \<notin> set (accepted_command act r)"
  by (simp add: accepted_command_def split: rdp_act.split)

text \<open>A resize is still accepted after the disconnect, unlike input.\<close>

lemma resize_after_disconnect: "rd_running r \<Longrightarrow> fst (rdp_resize w h (snd (rdp_disconnect r))) = Inr ()"
  by (simp add: rdp_resize_def rdp_disconnect_def push_command_def)

text \<open>A failure is reported twice, first with its cause.\<close>

lemma failure_is_reported_twice:
  "\<exists>m. rd_events (connection_lost st e r) = rd_events r @ [SessionClosed m, SessionClosed ended]"
  by (simp add: connection_lost_def rdp_fail_def rdp_finish_def send_event_def)

text \<open>A session on a large desktop panics in the constructor of the framebuffer.\<close>

lemma large_desktop_panics: "spawn_session 65535 65535 started blank = None"
proof -
  have "fb_new 65535 65535 = None"
    by (simp add: fb_new_def black_def ck_mul_def max_def Let_def word_le_nat_alt)
  then show ?thesis by (simp add: spawn_session_def)
qed

end
