(* ===== verification/Rdp_Connect.thy ===== *)
theory Rdp_Connect
  imports Rdp_Tls Rdp_Session
begin

text \<open>
  Opening a remote desktop session, \<open>RdpSession::connect\<close> in \<open>crates/rdt-rdp/src/session.rs\<close>. What the
  network and the connector (\<open>ironrdp_connector\<close>, \<open>ironrdp_tls\<close>) answer is the parameter \<open>rdp_net\<close>:
  \<open>None\<close> where the time ran out, an error text, or the answer.
\<close>

record rdp_target =
  rt_host :: ustring
  rt_port :: u16
  rt_username :: ustring
  rt_domain :: "ustring option"
  rt_credential :: credential_source
  rt_cert_policy :: cert_policy
  rt_pin_store :: "ustring option"
  rt_width :: u16
  rt_height :: u16
  rt_keyboard :: keyboard_layout
  rt_console_session :: bool
  rt_connect_timeout :: u64
  rt_allow_tls_fallback :: bool

definition target_address :: "rdp_target \<Rightarrow> ustring" where
  "target_address t = rt_host t @ [58] @ show_nat (unat (rt_port t))"

definition map_connector :: "ustring \<Rightarrow> rdt_error" where
  "map_connector message =
     error_new
       (if contains_str (lit ''credential'') message \<or> contains_str (lit ''authentication'') message then EAuthentication
        else if contains_str (lit ''TLS'') message \<or> contains_str (lit ''certificate'') message then ETls
        else EProtocol) message"

definition client_name :: "ustring \<Rightarrow> ustring" where
  "client_name hostname = (if trim hostname = [] then lit ''rdt-client'' else hostname)"

definition client_dir :: ustring where
  "client_dir = lit ''C:'' @ [92] @ lit ''Windows'' @ [92] @ lit ''System32'' @ [92] @ lit ''mstscax.dll''"

record connector_config =
  cc_username :: ustring
  cc_password :: ustring
  cc_domain :: "ustring option"
  cc_enable_tls :: bool
  cc_enable_credssp :: bool
  cc_keyboard_layout :: u32
  cc_width :: u16
  cc_height :: u16
  cc_client_build :: u32
  cc_client_name :: ustring
  cc_client_dir :: ustring
  cc_console_session :: bool
  cc_credssp_fallback :: bool

definition rdp_config :: "rdp_target \<Rightarrow> ustring option \<Rightarrow> ustring \<Rightarrow> bool \<Rightarrow> connector_config" where
  "rdp_config t password hostname fallback_default =
     \<lparr>cc_username = rt_username t, cc_password = (case password of Some p \<Rightarrow> p | None \<Rightarrow> []),
      cc_domain = rt_domain t, cc_enable_tls = True, cc_enable_credssp = True,
      cc_keyboard_layout = kl_id (rt_keyboard t), cc_width = rt_width t, cc_height = rt_height t,
      cc_client_build = 2600, cc_client_name = client_name hostname, cc_client_dir = client_dir,
      cc_console_session = rt_console_session t,
      cc_credssp_fallback = (if rt_allow_tls_fallback t then fallback_default else False)\<rparr>"

text \<open>\<open>rn_finish\<close> completes the sequence over the encrypted stream: there the credentials of the
  configuration are sent. It yields the protocol stage.\<close>

record 'a rdp_net =
  rn_tcp :: "(ustring + unit) option"
  rn_nodelay :: "ustring + unit"
  rn_peer :: "ustring + ustring"
  rn_negotiate :: "connector_config \<Rightarrow> (ustring + ustring option) option"
  rn_tls_init :: "ustring + unit"
  rn_certificate :: "ustring + u8 list"
  rn_finish :: "connector_config \<Rightarrow> ustring + (ustring + 'a)"
  rn_hostname :: ustring
  rn_fallback :: bool

record 'a rdp_opened =
  op_fingerprint :: ustring
  op_server_name :: "ustring option"
  op_session :: "'a rdp"

text \<open>The result is \<open>None\<close> where the code panics: a desktop too large for the framebuffer.\<close>

definition rdp_connect ::
  "unicode \<Rightarrow> pins_json \<Rightarrow> (u8 list \<Rightarrow> u8 list) \<Rightarrow> 'a rdp_net \<Rightarrow> 'a \<Rightarrow> rdp_target \<Rightarrow> ustring option \<Rightarrow> fs
     \<Rightarrow> ('a rdp_opened rdt_result \<times> fs) option" where
  "rdp_connect u pj sha net blank t password s =
     (let cfg = rdp_config t password (rn_hostname net) (rn_fallback net); addr = target_address t in
      if trim (rt_host t) = [] then Some (fail EInvalidInput (lit ''host must not be empty''), s)
      else if trim (rt_username t) = [] then Some (fail EInvalidInput (lit ''username must not be empty''), s)
      else case rn_tcp net of
        None \<Rightarrow> Some (fail ETimeout (lit ''connecting to '' @ addr @ lit '' timed out''), s)
      | Some (Inl e) \<Rightarrow> Some (fail ENetwork (lit ''cannot reach '' @ addr @ lit '': '' @ e), s)
      | Some (Inr _) \<Rightarrow> (case rn_nodelay net of
        Inl e \<Rightarrow> Some (fail ENetwork (lit ''cannot set TCP_NODELAY: '' @ e), s)
      | Inr _ \<Rightarrow> (case rn_peer net of
        Inl e \<Rightarrow> Some (fail ENetwork (lit ''cannot read the peer address: '' @ e), s)
      | Inr peer \<Rightarrow> (case rn_negotiate net cfg of
        None \<Rightarrow> Some (fail ETimeout (lit ''the RDP negotiation timed out''), s)
      | Some (Inl e) \<Rightarrow> Some (Inl (map_connector e), s)
      | Some (Inr server_name) \<Rightarrow>
          (case (case rt_pin_store t of Some path \<Rightarrow> pins_load pj path s | None \<Rightarrow> (Inr pins_empty, s)) of
             (Inl e, s1) \<Rightarrow> Some (Inl e, s1)
           | (Inr pins, s1) \<Rightarrow>
               (case tls_connect u pj sha peer (rn_tls_init net) (rn_certificate net)
                       (verifier_new (rt_host t) (rt_cert_policy t) pins) s1 of
                  ((Inl e, _), s2) \<Rightarrow> Some (Inl e, s2)
                | ((Inr fp, _), s2) \<Rightarrow>
                    (case rn_finish net cfg of
                       Inl e \<Rightarrow> Some (Inl (map_connector e), s2)
                     | Inr started \<Rightarrow>
                         (case spawn_session (rt_width t) (rt_height t) started blank of
                            None \<Rightarrow> None
                          | Some r \<Rightarrow>
                              Some (Inr \<lparr>op_fingerprint = fp, op_server_name = server_name, op_session = r\<rparr>, s2)))))))))"

end
