(* ===== verification/Rdp_Connect_Props.thy ===== *)
theory Rdp_Connect_Props
  imports Rdp_Connect Rdp_Tls_Props Rdp_Session_Props
begin

text \<open>
  What opening a session checks: the target, and nothing about the certificate.
\<close>

text \<open>C29: Opening a session trusts any server. When the network answers and the server presents any
  certificate, the session is opened and the credentials are sent, whatever the certificate policy
  and the pins of the target are; even for a target whose policy is to verify, where the verifier
  would refuse a certificate that no authority vouches for.\<close>

theorem any_server_is_trusted:
  assumes "trim (rt_host t) \<noteq> []" and "trim (rt_username t) \<noteq> []" and "size_fits (rt_width t) (rt_height t)"
    and "rn_tcp net = Some (Inr ())" and "rn_nodelay net = Inr ()" and "rn_peer net = Inr peer"
    and "rn_negotiate net (rdp_config t password (rn_hostname net) (rn_fallback net)) = Some (Inr name)"
    and "rn_tls_init net = Inr ()" and "rn_certificate net = Inr der" and "der \<noteq> []"
    and "rn_finish net (rdp_config t password (rn_hostname net) (rn_fallback net)) = Inr started"
    and "(case rt_pin_store t of Some path \<Rightarrow> pins_load pj path s | None \<Rightarrow> (Inr pins_empty, s)) = (Inr pins, s1)"
  shows "(\<exists>r. rdp_connect u pj sha net blank t password s
        = Some (Inr \<lparr>op_fingerprint = sha256_fingerprint sha der, op_server_name = name, op_session = r\<rparr>, s1))
     \<and> (rt_cert_policy t = Verify \<longrightarrow>
          (\<exists>e. fst (fst (verify u pj sha der False (verifier_new (rt_host t) (rt_cert_policy t) pins) s1)) = Inl e))"
proof -
  obtain r where r: "spawn_session (rt_width t) (rt_height t) started blank = Some r"
    using spawned [OF assms(3), of started blank] by (elim exE conjE)
  have "tls_connect u pj sha peer (Inr ()) (Inr der) v s1 = ((Inr (sha256_fingerprint sha der), v), s1)" for v
    using assms(10) by (simp add: tls_connect_def verify_def rustls_webpki_verified_def)
  then have "rdp_connect u pj sha net blank t password s
      = Some (Inr \<lparr>op_fingerprint = sha256_fingerprint sha der, op_server_name = name, op_session = r\<rparr>, s1)"
    by (simp add: rdp_connect_def Let_def assms r del: lit_simps)
  then show ?thesis by (simp add: verify_def Let_def verifier_new_def fail_def)
qed

text \<open>What a successful connection has checked.\<close>

lemma connected_target:
  assumes "rdp_connect u pj sha net blank t password s = Some (Inr opened, s')"
  shows "trim (rt_host t) \<noteq> [] \<and> trim (rt_username t) \<noteq> []
     \<and> (\<exists>der. rn_certificate net = Inr der \<and> op_fingerprint opened = sha256_fingerprint sha der)"
  using assms
  by (auto simp: rdp_connect_def Let_def fail_def tls_connect_def verify_def split: if_splits option.splits sum.splits prod.splits
      certificate_decision.splits cert_policy.splits simp del: lit_simps)

section \<open>Examples\<close>

definition toy_target :: rdp_target where
  "toy_target = \<lparr>rt_host = [104], rt_port = 3389, rt_username = [117], rt_domain = None, rt_credential = Prompt,
     rt_cert_policy = Verify, rt_pin_store = None, rt_width = 1, rt_height = 1, rt_keyboard = hd keyboard_layouts,
     rt_console_session = False, rt_connect_timeout = 10, rt_allow_tls_fallback = False\<rparr>"

definition toy_net :: "unit rdp_net" where
  "toy_net = \<lparr>rn_tcp = Some (Inr ()), rn_nodelay = Inr (), rn_peer = Inr [49], rn_negotiate = \<lambda>c. Some (Inr None),
     rn_tls_init = Inr (), rn_certificate = Inr [7], rn_finish = \<lambda>c. Inr (Inr ()), rn_hostname = [], rn_fallback = True\<rparr>"

theorem any_server_is_trusted_witness:
  "\<exists>r. rdp_connect no_lower (toy_pins pinned_h) (\<lambda>d. d) toy_net () toy_target (Some [112]) empty_disk
     = Some (Inr \<lparr>op_fingerprint = sha256_fingerprint (\<lambda>d. d) [7], op_server_name = None, op_session = r\<rparr>, empty_disk)"
proof -
  have t: "trim (rt_host toy_target) \<noteq> []" "trim (rt_username toy_target) \<noteq> []" "size_fits (rt_width toy_target) (rt_height toy_target)"
    by (simp_all add: toy_target_def one_pixel_fits trim_no_whitespace is_whitespace_def)
  have "(case rt_pin_store toy_target of Some path \<Rightarrow> pins_load (toy_pins pinned_h) path empty_disk | None \<Rightarrow> (Inr pins_empty, empty_disk))
      = (Inr pins_empty, empty_disk)" by (simp add: toy_target_def)
  from any_server_is_trusted [OF t, of toy_net "[49]" "Some [112]" None "[7]" "Inr ()", OF _ _ _ _ _ _ _ _ this] show ?thesis
    by (simp add: toy_net_def)
qed

end
