(* ===== verification/Plat_System.thy ===== *)
theory Plat_System
  imports Rust_Io
begin

text \<open>
  The machine as the crate \<open>rdt-platform\<close> sees it: \<open>paths.rs\<close>, \<open>info.rs\<close> and \<open>deps.rs\<close>, for Linux.
  The record \<open>host\<close> is what the operating system answers: the environment, the files, the outcome
  of creating a directory or opening a file for appending (an error text where it fails).
\<close>

section \<open>The operating system\<close>

record host =
  ho_env :: "ustring \<Rightarrow> ustring option"
  ho_tmp :: ustring
  ho_uid :: nat
  ho_euid :: nat
  ho_exists :: "ustring \<Rightarrow> bool"
  ho_is_dir :: "ustring \<Rightarrow> bool"
  ho_is_file :: "ustring \<Rightarrow> bool"
  ho_mode :: "ustring \<Rightarrow> u32 option"
  ho_read :: "ustring \<Rightarrow> ustring option"
  ho_append :: "ustring \<Rightarrow> ustring + unit"
  ho_mkdir :: "ustring \<Rightarrow> ustring + unit"
  ho_chmod_dir :: "ustring \<Rightarrow> ustring + unit"
  ho_version :: ustring
  ho_name :: ustring
  ho_arch :: ustring

section \<open>Paths\<close>

record app_paths =
  ap_config_dir :: ustring
  ap_data_dir :: ustring
  ap_log_dir :: ustring
  ap_runtime_dir :: ustring

definition override_dir :: "host \<Rightarrow> ustring \<Rightarrow> ustring \<Rightarrow> ustring" where
  "override_dir ho variable fallback = (case ho_env ho variable of Some p \<Rightarrow> p | None \<Rightarrow> fallback)"

definition nonempty_env :: "host \<Rightarrow> ustring \<Rightarrow> ustring option" where
  "nonempty_env ho variable = (case ho_env ho variable of Some v \<Rightarrow> if v = [] then None else Some v | None \<Rightarrow> None)"

definition xdg_dir :: "host \<Rightarrow> ustring \<Rightarrow> ustring \<Rightarrow> ustring" where
  "xdg_dir ho variable fallback = (case nonempty_env ho variable of Some p \<Rightarrow> p | None \<Rightarrow> fallback)"

definition home_dir :: "host \<Rightarrow> ustring" where
  "home_dir ho =
     (case nonempty_env ho (lit ''HOME'') of
        Some h \<Rightarrow> h
      | None \<Rightarrow> (case nonempty_env ho (lit ''USERPROFILE'') of Some p \<Rightarrow> p | None \<Rightarrow> lit ''.''))"

definition user_token :: "host \<Rightarrow> ustring" where
  "user_token ho = show_nat (ho_uid ho)"

definition platform_dirs :: "host \<Rightarrow> ustring \<Rightarrow> ustring \<times> ustring \<times> ustring" where
  "platform_dirs ho home =
     (let config = xdg_dir ho (lit ''XDG_CONFIG_HOME'') (path_join home (lit ''.config''));
          dat = xdg_dir ho (lit ''XDG_DATA_HOME'') (path_join (path_join home (lit ''.local'')) (lit ''share''));
          state = xdg_dir ho (lit ''XDG_STATE_HOME'') (path_join (path_join home (lit ''.local'')) (lit ''state''))
      in (path_join config (lit ''rdt''), path_join dat (lit ''rdt''), path_join (path_join state (lit ''rdt'')) (lit ''log'')))"

definition detect_paths :: "host \<Rightarrow> app_paths" where
  "detect_paths ho =
     (case platform_dirs ho (home_dir ho) of
        (config, dat, logs) \<Rightarrow>
          (let runtime = path_join (ho_tmp ho) (lit ''rdt-'' @ user_token ho) in
           \<lparr>ap_config_dir = override_dir ho (lit ''RDT_CONFIG_DIR'') config,
            ap_data_dir = override_dir ho (lit ''RDT_DATA_DIR'') dat,
            ap_log_dir = override_dir ho (lit ''RDT_LOG_DIR'') logs,
            ap_runtime_dir = override_dir ho (lit ''RDT_RUNTIME_DIR'') runtime\<rparr>))"

definition config_file :: "app_paths \<Rightarrow> ustring" where
  "config_file p = path_join (ap_config_dir p) (lit ''config.toml'')"

definition profiles_file :: "app_paths \<Rightarrow> ustring" where
  "profiles_file p = path_join (ap_data_dir p) (lit ''profiles.toml'')"

definition vault_file :: "app_paths \<Rightarrow> ustring" where
  "vault_file p = path_join (ap_data_dir p) (lit ''secrets.vault'')"

definition known_hosts_file :: "app_paths \<Rightarrow> ustring" where
  "known_hosts_file p = path_join (ap_data_dir p) (lit ''known_hosts'')"

definition log_file :: "app_paths \<Rightarrow> ustring" where
  "log_file p = path_join (ap_log_dir p) (lit ''rdt.log'')"

definition audit_file :: "app_paths \<Rightarrow> ustring" where
  "audit_file p = path_join (ap_log_dir p) (lit ''audit.jsonl'')"

definition agent_socket :: "app_paths \<Rightarrow> ustring" where
  "agent_socket p = path_join (ap_runtime_dir p) (lit ''agent.sock'')"

definition lock_file :: "app_paths \<Rightarrow> ustring" where
  "lock_file p = path_join (ap_runtime_dir p) (lit ''rdt.lock'')"

text \<open>The directories are created and restricted in turn, up to the first error. The result lists the
  calls that were made: a directory, and whether it was restricted.\<close>

fun ensure_dirs :: "host \<Rightarrow> ustring list \<Rightarrow> (ustring + unit) \<times> (ustring \<times> bool) list" where
  "ensure_dirs ho [] = (Inr (), [])"
| "ensure_dirs ho (d # ds) =
     (case ho_mkdir ho d of
        Inl e \<Rightarrow> (Inl e, [(d, False)])
      | Inr _ \<Rightarrow>
          (case ho_chmod_dir ho d of
             Inl e \<Rightarrow> (Inl e, [(d, False), (d, True)])
           | Inr _ \<Rightarrow> (case ensure_dirs ho ds of (r, calls) \<Rightarrow> (r, (d, False) # (d, True) # calls))))"

definition ensure_paths :: "host \<Rightarrow> app_paths \<Rightarrow> (ustring + unit) \<times> (ustring \<times> bool) list" where
  "ensure_paths ho p = ensure_dirs ho [ap_config_dir p, ap_data_dir p, ap_log_dir p, ap_runtime_dir p]"

definition expand_tilde :: "host \<Rightarrow> ustring \<Rightarrow> ustring" where
  "expand_tilde ho path =
     (if path = [126] then home_dir ho
      else (case strip_prefix [126, 47] path of Some rest \<Rightarrow> path_join (home_dir ho) rest | None \<Rightarrow> path))"

section \<open>Programs\<close>

fun which_in :: "host \<Rightarrow> ustring \<Rightarrow> ustring list \<Rightarrow> ustring option" where
  "which_in ho program [] = None"
| "which_in ho program (dir # dirs) =
     (let candidate = path_join dir program in
      if ho_is_file ho candidate then
        (case ho_mode ho candidate of
           Some mode \<Rightarrow> if and mode 0x49 \<noteq> 0 then Some candidate else which_in ho program dirs
         | None \<Rightarrow> which_in ho program dirs)
      else which_in ho program dirs)"

definition which :: "host \<Rightarrow> ustring \<Rightarrow> ustring option" where
  "which ho program =
     (case ho_env ho (lit ''PATH'') of
        None \<Rightarrow> None
      | Some path \<Rightarrow> which_in ho program (split_char 58 path))"

end
