(* ===== verification/Rdp_Clipboard.thy ===== *)
theory Rdp_Clipboard
  imports Plat_System
begin

text \<open>
  The bridge between the remote and the local clipboard, \<open>crates/rdt-rdp/src/clipboard.rs\<close>, for Linux.
  The clipboard helpers are programs: \<open>'w helper\<close> is what running one with arguments and input does
  to the desktop \<open>'w\<close> and what it returns. The text of an encoding error is the parameter \<open>bad\<close>.
\<close>

section \<open>The helpers\<close>

datatype clipboard_format = TextFormat | FileList | Png

datatype clipboard_operation = SetText ustring | GetText

datatype unix_clipboard = Wayland | X11 | NoClipboard

record helper_output =
  hp_success :: bool
  hp_status :: ustring
  hp_stdout :: "u8 list"

datatype helper_failure = Not_Run ustring | Not_Written ustring | Not_Waited ustring

type_synonym 'w helper =
  "ustring \<Rightarrow> ustring list \<Rightarrow> u8 list option \<Rightarrow> 'w \<Rightarrow> (helper_failure + helper_output) \<times> 'w"

definition has_program :: "host \<Rightarrow> ustring \<Rightarrow> bool" where
  "has_program ho name =
     (case ho_env ho (lit ''PATH'') of
        None \<Rightarrow> False
      | Some path \<Rightarrow> list_ex (\<lambda>dir. ho_exists ho (path_join dir name)) (split_char 58 path))"

definition detect_unix_backend :: "host \<Rightarrow> unix_clipboard" where
  "detect_unix_backend ho =
     (if ho_env ho (lit ''WAYLAND_DISPLAY'') \<noteq> None \<and> has_program ho (lit ''wl-copy'') then Wayland
      else if ho_env ho (lit ''DISPLAY'') \<noteq> None \<and> (has_program ho (lit ''xclip'') \<or> has_program ho (lit ''xsel'')) then X11
      else NoClipboard)"

definition run_helper ::
  "'w helper \<Rightarrow> (u8 list \<Rightarrow> ustring) \<Rightarrow> ustring \<Rightarrow> ustring list \<Rightarrow> ustring option \<Rightarrow> 'w \<Rightarrow> ustring rdt_result \<times> 'w" where
  "run_helper run bad program args input w =
     (case run program args (map_option as_bytes input) w of
        (Inl (Not_Run e), w') \<Rightarrow> (fail EPlatform (lit ''cannot run '' @ program @ lit '': '' @ e), w')
      | (Inl (Not_Written e), w') \<Rightarrow> (fail EPlatform (lit ''cannot write to '' @ program @ lit '': '' @ e), w')
      | (Inl (Not_Waited e), w') \<Rightarrow> (fail EPlatform (program @ lit '' failed: '' @ e), w')
      | (Inr out, w') \<Rightarrow>
          ((if \<not> hp_success out then fail EPlatform (program @ lit '' exited with '' @ hp_status out)
            else (case from_utf8 (hp_stdout out) of
                    Some t \<Rightarrow> Inr t
                  | None \<Rightarrow> fail EPlatform (program @ lit '' returned invalid UTF-8: '' @ bad (hp_stdout out)))), w'))"

definition no_helper :: "'a rdt_result" where
  "no_helper = fail EPlatform (lit ''no clipboard helper is available; install wl-clipboard or xclip'')"

definition copy_command :: "host \<Rightarrow> (ustring \<times> ustring list) option" where
  "copy_command ho =
     (case detect_unix_backend ho of
        Wayland \<Rightarrow> Some (lit ''wl-copy'', [lit ''--type'', lit ''text/plain''])
      | X11 \<Rightarrow>
          if has_program ho (lit ''xclip'') then Some (lit ''xclip'', [lit ''-selection'', lit ''clipboard''])
          else Some (lit ''xsel'', [lit ''--clipboard'', lit ''--input''])
      | NoClipboard \<Rightarrow> None)"

definition paste_command :: "host \<Rightarrow> (ustring \<times> ustring list) option" where
  "paste_command ho =
     (case detect_unix_backend ho of
        Wayland \<Rightarrow> Some (lit ''wl-paste'', [lit ''--no-newline''])
      | X11 \<Rightarrow>
          if has_program ho (lit ''xclip'') then Some (lit ''xclip'', [lit ''-selection'', lit ''clipboard'', lit ''-out''])
          else Some (lit ''xsel'', [lit ''--clipboard'', lit ''--output''])
      | NoClipboard \<Rightarrow> None)"

definition set_text :: "host \<Rightarrow> 'w helper \<Rightarrow> (u8 list \<Rightarrow> ustring) \<Rightarrow> ustring \<Rightarrow> 'w \<Rightarrow> unit rdt_result \<times> 'w" where
  "set_text ho run bad t w =
     (case copy_command ho of
        None \<Rightarrow> (no_helper, w)
      | Some (program, args) \<Rightarrow>
          (case run_helper run bad program args (Some t) w of
             (Inl e, w') \<Rightarrow> (Inl e, w')
           | (Inr _, w') \<Rightarrow> (Inr (), w')))"

definition get_text :: "host \<Rightarrow> 'w helper \<Rightarrow> (u8 list \<Rightarrow> ustring) \<Rightarrow> 'w \<Rightarrow> ustring rdt_result \<times> 'w" where
  "get_text ho run bad w =
     (case paste_command ho of
        None \<Rightarrow> (no_helper, w)
      | Some (program, args) \<Rightarrow> run_helper run bad program args None w)"

section \<open>The bridge\<close>

record clipboard_bridge =
  cb_remote_to_local :: bool
  cb_local_to_remote :: bool

definition bridge_new :: "bool \<Rightarrow> bool \<Rightarrow> clipboard_bridge" where
  "bridge_new remote_to_local local_to_remote =
     \<lparr>cb_remote_to_local = remote_to_local, cb_local_to_remote = local_to_remote\<rparr>"

text \<open>\<open>CliprdrBackend::new\<close>, which the session attaches to the clipboard channel.\<close>

definition cliprdr_backend :: clipboard_bridge where
  "cliprdr_backend = bridge_new True True"

definition set_local_text ::
  "clipboard_bridge \<Rightarrow> host \<Rightarrow> 'w helper \<Rightarrow> (u8 list \<Rightarrow> ustring) \<Rightarrow> ustring \<Rightarrow> 'w \<Rightarrow> unit rdt_result \<times> 'w" where
  "set_local_text b ho run bad t w =
     (if \<not> cb_remote_to_local b then
        (fail EPermission (lit ''copying from the remote session to the local clipboard is disabled''), w)
      else set_text ho run bad t w)"

definition local_text ::
  "clipboard_bridge \<Rightarrow> host \<Rightarrow> 'w helper \<Rightarrow> (u8 list \<Rightarrow> ustring) \<Rightarrow> 'w \<Rightarrow> ustring rdt_result \<times> 'w" where
  "local_text b ho run bad w =
     (if \<not> cb_local_to_remote b then
        (fail EPermission (lit ''pasting from the local clipboard to the remote session is disabled''), w)
      else get_text ho run bad w)"

section \<open>What the bridge promises\<close>

text \<open>A helper that is asked to copy keeps its input, and one that is asked to paste prints what is kept.
  The output of a copying helper is not looked at beyond its encoding.\<close>

definition clip_laws :: "host \<Rightarrow> 'w helper \<Rightarrow> ('w \<Rightarrow> u8 list) \<Rightarrow> bool" where
  "clip_laws ho run clip \<longleftrightarrow>
     (\<forall>program args bytes w. copy_command ho = Some (program, args) \<longrightarrow>
        (\<exists>out w'. run program args (Some bytes) w = (Inr out, w') \<and> hp_success out \<and> hp_stdout out = [] \<and> clip w' = bytes))
     \<and> (\<forall>program args w. paste_command ho = Some (program, args) \<longrightarrow>
        (\<exists>out w'. run program args None w = (Inr out, w') \<and> hp_success out \<and> hp_stdout out = clip w))"

lemma copy_iff_paste: "copy_command ho = None \<longleftrightarrow> paste_command ho = None"
  by (simp add: copy_command_def paste_command_def split: unix_clipboard.split)

text \<open>Text put on the local clipboard is read back unchanged when both directions are allowed, and when a
  direction is disabled its operation runs no program and fails with a permission error.\<close>

theorem clipboard_round_trip:
  assumes "clip_laws ho run clip" and "detect_unix_backend ho \<noteq> NoClipboard" and "\<forall>c \<in> set t. is_scalar c"
  shows "(cb_remote_to_local b \<and> cb_local_to_remote b \<longrightarrow>
            (\<exists>w'. set_local_text b ho run bad t w = (Inr (), w') \<and> fst (local_text b ho run bad w') = Inr t))
     \<and> (\<not> cb_remote_to_local b \<longrightarrow> (\<exists>m. set_local_text b ho run bad t w = (fail EPermission m, w)))
     \<and> (\<not> cb_local_to_remote b \<longrightarrow> (\<exists>m. local_text b ho run bad w = (fail EPermission m, w)))"
proof (intro conjI impI)
  assume b: "cb_remote_to_local b \<and> cb_local_to_remote b"
  have "copy_command ho \<noteq> None" using assms(2) by (cases "detect_unix_backend ho") (simp_all add: copy_command_def)
  then obtain program args where copy: "copy_command ho = Some (program, args)" by auto
  then obtain program' args' where paste: "paste_command ho = Some (program', args')"
    using copy_iff_paste [of ho] by (cases "paste_command ho") auto
  obtain out w' where 1: "run program args (Some (as_bytes t)) w = (Inr out, w')" "hp_success out" "hp_stdout out = []" "clip w' = as_bytes t"
    using assms(1) copy unfolding clip_laws_def by blast
  obtain out' w'' where 2: "run program' args' None w' = (Inr out', w'')" "hp_success out'" "hp_stdout out' = clip w'"
    using assms(1) paste unfolding clip_laws_def by blast
  have "set_local_text b ho run bad t w = (Inr (), w')"
    using b copy 1 by (simp add: set_local_text_def set_text_def run_helper_def)
  moreover have "fst (local_text b ho run bad w') = Inr t"
    using b paste 2 1(4) from_utf8_as_bytes [OF assms(3)] by (simp add: local_text_def get_text_def run_helper_def)
  ultimately show "\<exists>w'. set_local_text b ho run bad t w = (Inr (), w') \<and> fst (local_text b ho run bad w') = Inr t" by blast
qed (auto simp: set_local_text_def local_text_def simp del: lit_simps)

text \<open>The session's own backend ignores the settings of the user.\<close>

lemma session_backend_allows_everything: "cb_remote_to_local cliprdr_backend \<and> cb_local_to_remote cliprdr_backend"
  by (simp add: cliprdr_backend_def bridge_new_def)

section \<open>Examples\<close>

definition bare_host :: host where
  "bare_host = \<lparr>ho_env = \<lambda>_. None, ho_tmp = [], ho_uid = 0, ho_euid = 0, ho_exists = \<lambda>_. False, ho_is_dir = \<lambda>_. False,
     ho_is_file = \<lambda>_. False, ho_mode = \<lambda>_. None, ho_read = \<lambda>_. None, ho_append = \<lambda>_. Inr (), ho_mkdir = \<lambda>_. Inr (),
     ho_chmod_dir = \<lambda>_. Inr (), ho_version = [], ho_name = [], ho_arch = []\<rparr>"

definition wayland_host :: host where
  "wayland_host = bare_host\<lparr>ho_env := \<lambda>v. if v = lit ''WAYLAND_DISPLAY'' \<or> v = lit ''PATH'' then Some [47] else None,
     ho_exists := \<lambda>_. True\<rparr>"

definition toy_helper :: "u8 list helper" where
  "toy_helper program args input w =
     (case input of
        Some bytes \<Rightarrow> (Inr \<lparr>hp_success = True, hp_status = [], hp_stdout = []\<rparr>, bytes)
      | None \<Rightarrow> (Inr \<lparr>hp_success = True, hp_status = [], hp_stdout = w\<rparr>, w))"

theorem clipboard_round_trip_witness:
  "\<exists>w'. set_local_text cliprdr_backend wayland_host toy_helper (\<lambda>_. []) [104, 105] [] = (Inr (), w')
     \<and> fst (local_text cliprdr_backend wayland_host toy_helper (\<lambda>_. []) w') = Inr [104, 105]"
proof -
  have "detect_unix_backend wayland_host = Wayland"
    by (simp add: detect_unix_backend_def has_program_def wayland_host_def bare_host_def split_char_def del: lit_simps)
  then have "clip_laws wayland_host toy_helper (\<lambda>w. w)" "detect_unix_backend wayland_host \<noteq> NoClipboard"
    by (simp_all add: clip_laws_def toy_helper_def)
  moreover have "\<forall>c \<in> set [104, 105]. is_scalar c" by (simp add: is_scalar_def)
  ultimately show ?thesis
    using clipboard_round_trip [of wayland_host toy_helper "\<lambda>w. w" "[104, 105]" cliprdr_backend "\<lambda>_. []" "[]"]
    by (simp add: session_backend_allows_everything)
qed

end
