(* ===== verification/Plat_Info.thy ===== *)
theory Plat_Info
  imports Plat_System
begin

text \<open>
  What the program finds out about the machine, for Linux: the parser of \<open>os-release\<close> files and the
  platform summary of \<open>info.rs\<close>, and the dependency probes of \<open>deps.rs\<close> in the crate \<open>rdt-platform\<close>.
\<close>

section \<open>Distributions\<close>

datatype os_family = Windows | Linux | Macos | OtherOs

definition os_family_str :: "os_family \<Rightarrow> ustring" where
  "os_family_str f =
     (case f of Windows \<Rightarrow> lit ''windows'' | Linux \<Rightarrow> lit ''linux'' | Macos \<Rightarrow> lit ''macos'' | OtherOs \<Rightarrow> lit ''other'')"

definition uses_systemd :: "os_family \<Rightarrow> bool" where
  "uses_systemd f \<longleftrightarrow> f = Linux"

definition uses_scm :: "os_family \<Rightarrow> bool" where
  "uses_scm f \<longleftrightarrow> f = Windows"

record distro_info =
  di_id :: ustring
  di_name :: ustring
  di_version :: ustring
  di_like :: "ustring list"

definition distro_default :: distro_info where
  "distro_default = \<lparr>di_id = [], di_name = [], di_version = [], di_like = []\<rparr>"

definition rhel_like :: "ustring list" where
  "rhel_like = [lit ''rhel'', lit ''centos'', lit ''fedora'', lit ''rocky'', lit ''almalinux'']"

definition debian_like :: "ustring list" where
  "debian_like = [lit ''debian'', lit ''ubuntu'']"

definition trim_char :: "uchar \<Rightarrow> ustring \<Rightarrow> ustring" where
  "trim_char c s = rev (dropWhile (\<lambda>x. x = c) (rev (dropWhile (\<lambda>x. x = c) s)))"

definition unquote :: "ustring \<Rightarrow> ustring" where
  "unquote v = trim_char 39 (trim_char 34 (trim v))"

definition distro_line :: "ustring \<Rightarrow> distro_info \<Rightarrow> distro_info" where
  "distro_line l info =
     (case split_once 61 (trim l) of
        None \<Rightarrow> info
      | Some (key, value) \<Rightarrow>
          (let v = unquote (trim value); k = trim key in
           if k = lit ''ID'' then info\<lparr>di_id := v\<rparr>
           else if k = lit ''NAME'' then info\<lparr>di_name := v\<rparr>
           else if k = lit ''VERSION_ID'' then info\<lparr>di_version := v\<rparr>
           else if k = lit ''ID_LIKE'' then info\<lparr>di_like := split_whitespace v\<rparr>
           else info))"

definition distro_parse :: "ustring \<Rightarrow> distro_info" where
  "distro_parse content =
     (let info = fold distro_line (str_lines content) distro_default in
      if di_name info = [] \<and> di_id info \<noteq> [] then info\<lparr>di_name := di_id info\<rparr> else info)"

fun first_distro :: "host \<Rightarrow> ustring list \<Rightarrow> distro_info option" where
  "first_distro ho [] = None"
| "first_distro ho (p # ps) =
     (case ho_read ho p of
        None \<Rightarrow> first_distro ho ps
      | Some content \<Rightarrow> (let info = distro_parse content in if di_id info \<noteq> [] then Some info else first_distro ho ps))"

definition distro_from_system :: "host \<Rightarrow> distro_info option" where
  "distro_from_system ho = first_distro ho [lit ''/etc/os-release'', lit ''/usr/lib/os-release'']"

definition matches_family :: "distro_info \<Rightarrow> ustring list \<Rightarrow> bool" where
  "matches_family d families \<longleftrightarrow>
     list_ex (\<lambda>f. eq_ignore_ascii_case (di_id d) f \<or> list_ex (\<lambda>l. eq_ignore_ascii_case l f) (di_like d)) families"

definition package_format :: "distro_info \<Rightarrow> ustring" where
  "package_format d =
     (if matches_family d debian_like then lit ''deb'' else if matches_family d rhel_like then lit ''rpm'' else lit ''tar.gz'')"

record platform_info =
  pi_os :: os_family
  pi_arch :: ustring
  pi_os_version :: ustring
  pi_hostname :: ustring
  pi_distro :: "distro_info option"
  pi_elevated :: bool
  pi_graphical :: bool
  pi_systemd :: bool
  pi_display_server :: ustring

definition graphical_session :: "host \<Rightarrow> bool" where
  "graphical_session ho \<longleftrightarrow> ho_env ho (lit ''DISPLAY'') \<noteq> None \<or> ho_env ho (lit ''WAYLAND_DISPLAY'') \<noteq> None"

definition systemd_dir :: ustring where
  "systemd_dir = lit ''/run/systemd/system''"

definition platform_detect :: "host \<Rightarrow> platform_info" where
  "platform_detect ho =
     \<lparr>pi_os = Linux, pi_arch = ho_arch ho, pi_os_version = ho_version ho, pi_hostname = ho_name ho,
      pi_distro = distro_from_system ho, pi_elevated = (ho_euid ho = 0), pi_graphical = graphical_session ho,
      pi_systemd = ho_is_dir ho systemd_dir,
      pi_display_server =
        (case nonempty_env ho (lit ''WAYLAND_DISPLAY'') of
           Some _ \<Rightarrow> lit ''wayland''
         | None \<Rightarrow> if ho_env ho (lit ''DISPLAY'') \<noteq> None then lit ''x11'' else [])\<rparr>"

definition platform_summary :: "platform_info \<Rightarrow> ustring" where
  "platform_summary p =
     (let distro = (case pi_distro p of
                      Some d \<Rightarrow> if di_version d = [] then di_name d else di_name d @ [32] @ di_version d
                    | None \<Rightarrow> pi_os_version p)
      in os_family_str (pi_os p) @ [32] @ pi_arch p @ lit '' ('' @ distro @ lit '') on '' @ pi_hostname p)"

definition is_supported :: "platform_info \<Rightarrow> bool" where
  "is_supported p =
     (case pi_os p of
        Windows \<Rightarrow> True
      | Linux \<Rightarrow> (case pi_distro p of
                    Some d \<Rightarrow> matches_family d debian_like \<or> matches_family d rhel_like
                  | None \<Rightarrow> False)
      | _ \<Rightarrow> False)"

section \<open>Dependencies\<close>

datatype dependency_id = SshAgent | SecretStoreDep | Systemd | WindowsScm | ClipboardDep | KnownHostsDep | VaultDep

definition dependency_str :: "dependency_id \<Rightarrow> ustring" where
  "dependency_str d =
     (case d of
        SshAgent \<Rightarrow> lit ''ssh-agent'' | SecretStoreDep \<Rightarrow> lit ''secret-store'' | Systemd \<Rightarrow> lit ''systemd''
      | WindowsScm \<Rightarrow> lit ''windows-scm'' | ClipboardDep \<Rightarrow> lit ''clipboard'' | KnownHostsDep \<Rightarrow> lit ''known-hosts''
      | VaultDep \<Rightarrow> lit ''encrypted-vault'')"

datatype dependency_status = Available | Missing | Degraded | NotApplicable

record dependency_report =
  rp_id :: dependency_id
  rp_status :: dependency_status
  rp_detail :: ustring
  rp_optional :: bool

definition available :: "dependency_report \<Rightarrow> bool" where
  "available r \<longleftrightarrow> rp_status r = Available"

record dependency_suite =
  su_reports :: "dependency_report list"
  su_ready :: bool

definition problems :: "dependency_suite \<Rightarrow> dependency_report list" where
  "problems s = filter (\<lambda>r. \<not> rp_optional r \<and> \<not> available r) (su_reports s)"

definition dep_report :: "dependency_id \<Rightarrow> dependency_status \<Rightarrow> ustring \<Rightarrow> bool \<Rightarrow> dependency_report" where
  "dep_report i st detail opt = \<lparr>rp_id = i, rp_status = st, rp_detail = detail, rp_optional = opt\<rparr>"

definition probe_ssh_agent :: "host \<Rightarrow> dependency_report" where
  "probe_ssh_agent ho =
     (case ho_env ho (lit ''SSH_AUTH_SOCK'') of
        Some path \<Rightarrow>
          if ho_exists ho path then dep_report SshAgent Available path True
          else dep_report SshAgent Degraded (lit ''SSH_AUTH_SOCK points at a missing socket: '' @ path) True
      | None \<Rightarrow>
          dep_report SshAgent Missing (lit ''SSH_AUTH_SOCK is not set; key authentication will need a passphrase'') True)"

definition probe_secret_store :: "host \<Rightarrow> dependency_report" where
  "probe_secret_store ho =
     (case which ho (lit ''secret-tool'') of
        Some path \<Rightarrow>
          if ho_env ho (lit ''DBUS_SESSION_BUS_ADDRESS'') \<noteq> None then dep_report SecretStoreDep Available path True
          else dep_report SecretStoreDep Degraded (path @ lit '' is installed but no D-Bus session bus is available'') True
      | None \<Rightarrow>
          dep_report SecretStoreDep Missing (lit ''secret-tool (libsecret) not found; RDT will use its encrypted vault'') True)"

definition probe_service_manager :: "host \<Rightarrow> dependency_report" where
  "probe_service_manager ho =
     (if ho_is_dir ho systemd_dir then
        (case which ho (lit ''systemctl'') of
           Some path \<Rightarrow> dep_report Systemd Available path True
         | None \<Rightarrow> dep_report Systemd Degraded (lit ''systemd runs but systemctl is missing'') True)
      else dep_report Systemd Missing
        (lit ''systemd is not the active init system; install the agent under your own supervisor'') True)"

fun first_tool :: "host \<Rightarrow> ustring list \<Rightarrow> ustring option" where
  "first_tool ho [] = None"
| "first_tool ho (t # ts) = (case which ho t of Some path \<Rightarrow> Some path | None \<Rightarrow> first_tool ho ts)"

definition probe_clipboard :: "host \<Rightarrow> dependency_report" where
  "probe_clipboard ho =
     (if ho_env ho (lit ''WAYLAND_DISPLAY'') \<noteq> None then
        (case (which ho (lit ''wl-copy''), which ho (lit ''wl-paste'')) of
           (Some copy, Some _) \<Rightarrow> dep_report ClipboardDep Available copy True
         | _ \<Rightarrow> dep_report ClipboardDep Missing
             (lit ''install wl-clipboard (wl-copy/wl-paste) for RDP clipboard sharing'') True)
      else if ho_env ho (lit ''DISPLAY'') \<noteq> None then
        (case first_tool ho [lit ''xclip'', lit ''xsel''] of
           Some path \<Rightarrow> dep_report ClipboardDep Available path True
         | None \<Rightarrow> dep_report ClipboardDep Missing (lit ''install xclip or xsel for RDP clipboard sharing'') True)
      else dep_report ClipboardDep Missing (lit ''no graphical session detected'') True)"

text \<open>\<open>parent\<close> is the directory part of a path, absent for the empty path and the root.\<close>

definition parent :: "ustring \<Rightarrow> ustring option" where
  "parent p =
     (if p = [] \<or> p = [47] then None
      else (case rsplit_once 47 p of Some (d, f) \<Rightarrow> Some (if d = [] then [47] else d) | None \<Rightarrow> Some []))"

definition probe_known_hosts :: "host \<Rightarrow> app_paths \<Rightarrow> dependency_report" where
  "probe_known_hosts ho p =
     (let file = known_hosts_file p in
      if ho_exists ho file then
        (case ho_append ho file of
           Inr _ \<Rightarrow> dep_report KnownHostsDep Available file False
         | Inl e \<Rightarrow> dep_report KnownHostsDep Degraded (file @ lit '' is not writable: '' @ e) False)
      else (case parent file of
        Some dir \<Rightarrow>
          (case ho_mkdir ho dir of
             Inr _ \<Rightarrow> dep_report KnownHostsDep Available (file @ lit '' (will be created)'') False
           | Inl e \<Rightarrow> dep_report KnownHostsDep Degraded (lit ''cannot create '' @ dir @ lit '': '' @ e) False)
      | None \<Rightarrow> dep_report KnownHostsDep Degraded (lit ''no parent directory'') False))"

definition probe_vault :: "host \<Rightarrow> app_paths \<Rightarrow> dependency_report" where
  "probe_vault ho p =
     (let file = vault_file p in
      if ho_exists ho file then dep_report VaultDep Available file True
      else (case parent file of
        Some dir \<Rightarrow>
          (case ho_mkdir ho dir of
             Inr _ \<Rightarrow> dep_report VaultDep Available (file @ lit '' (will be created on first use)'') True
           | Inl e \<Rightarrow> dep_report VaultDep Degraded (lit ''cannot create the vault directory: '' @ e) True)
      | None \<Rightarrow> dep_report VaultDep Degraded (lit ''no parent directory'') True))"

definition probe_dependencies :: "host \<Rightarrow> app_paths \<Rightarrow> dependency_suite" where
  "probe_dependencies ho p =
     (let reports = [probe_ssh_agent ho, probe_secret_store ho, probe_service_manager ho, probe_clipboard ho,
                     probe_known_hosts ho p, probe_vault ho p] in
      \<lparr>su_reports = reports, su_ready = list_all (\<lambda>r. rp_optional r \<or> available r) reports\<rparr>)"

end
