(* ===== verification/Plat_Service.thy ===== *)
theory Plat_Service
  imports Plat_Info Rust_Lossy
begin

text \<open>
  The service integration of \<open>crates/rdt-platform/src/service.rs\<close>, for Linux: the specification of a
  service, the rendering of its systemd unit, and installing, removing and querying it. Files are
  those of \<open>Rust_Io\<close>; \<open>systemctl\<close> and \<open>useradd\<close> are the parameter \<open>'w command\<close>, what running a
  program does to the machine \<open>'w\<close> and what it returns.
\<close>

section \<open>Specifications\<close>

record service_spec =
  sv_name :: ustring
  sv_description :: ustring
  sv_executable :: ustring
  sv_arguments :: "ustring list"
  sv_system_wide :: bool
  sv_start_now :: bool
  sv_restart :: bool
  sv_run_as :: "ustring option"

definition agent_spec :: "ustring \<Rightarrow> bool \<Rightarrow> service_spec" where
  "agent_spec executable system_wide =
     \<lparr>sv_name = lit ''rdt-agent'', sv_description = lit ''RDT unattended remote access agent'', sv_executable = executable,
      sv_arguments = [lit ''agent'', lit ''run''], sv_system_wide = system_wide, sv_start_now = True, sv_restart = True,
      sv_run_as = None\<rparr>"

definition is_absolute :: "ustring \<Rightarrow> bool" where
  "is_absolute p \<longleftrightarrow> starts_with [47] p"

definition spec_validate :: "service_spec \<Rightarrow> unit rdt_result" where
  "spec_validate sp =
     (if trim (sv_name sp) = [] \<or> list_ex is_whitespace (sv_name sp) then
        fail EInvalidInput (lit ''service name must be non-empty and free of whitespace'')
      else if \<not> is_absolute (sv_executable sp) then fail EInvalidInput (lit ''service executable must be an absolute path'')
      else Inr ())"

datatype service_state = NotInstalled | ServiceRunning | ServiceStopped | Transitioning | ServiceUnknown

definition service_state_str :: "service_state \<Rightarrow> ustring" where
  "service_state_str s =
     (case s of NotInstalled \<Rightarrow> lit ''not-installed'' | ServiceRunning \<Rightarrow> lit ''running'' | ServiceStopped \<Rightarrow> lit ''stopped''
      | Transitioning \<Rightarrow> lit ''transitioning'' | ServiceUnknown \<Rightarrow> lit ''unknown'')"

section \<open>The unit file\<close>

text \<open>The characters that need no quotes: letters, digits and \<open>- _ / . : = ,\<close>.\<close>

definition needs_no_quote :: "uchar \<Rightarrow> bool" where
  "needs_no_quote c \<longleftrightarrow> is_ascii_alphanumeric c \<or> c \<in> {45, 95, 47, 46, 58, 61, 44}"

definition shell_quote :: "ustring \<Rightarrow> ustring" where
  "shell_quote v =
     (if v = [] then [34, 34]
      else if list_all needs_no_quote v then v
      else [34] @ replace_str [34] [92, 34] (replace_str [92] [92, 92] v) @ [34])"

definition unit_user :: "(ustring \<Rightarrow> ustring option) \<Rightarrow> service_spec \<Rightarrow> ustring" where
  "unit_user env sp =
     (case sv_run_as sp of
        Some u \<Rightarrow> u
      | None \<Rightarrow>
          if sv_system_wide sp then lit ''rdt''
          else (case env (lit ''USER'') of Some u \<Rightarrow> u | None \<Rightarrow> lit ''root''))"

definition exec_start :: "service_spec \<Rightarrow> ustring" where
  "exec_start sp =
     lit ''ExecStart='' @ shell_quote (sv_executable sp) @ [32] @ join [32] (map shell_quote (sv_arguments sp))"

definition environment_line :: "app_paths \<Rightarrow> ustring" where
  "environment_line p =
     lit ''Environment=RDT_CONFIG_DIR='' @ shell_quote (ap_config_dir p) @ lit '' RDT_DATA_DIR='' @ shell_quote (ap_data_dir p)
     @ lit '' RDT_LOG_DIR='' @ shell_quote (ap_log_dir p) @ lit '' RDT_RUNTIME_DIR='' @ shell_quote (ap_runtime_dir p)"

definition hardening :: "app_paths \<Rightarrow> ustring list" where
  "hardening p =
     [lit ''NoNewPrivileges=true'', lit ''PrivateTmp=true'', lit ''ProtectSystem=strict'', lit ''ProtectHome=read-only'',
      lit ''ReadWritePaths='' @ shell_quote (ap_data_dir p) @ [32] @ shell_quote (ap_log_dir p) @ [32]
        @ shell_quote (ap_runtime_dir p),
      lit ''ProtectKernelTunables=true'', lit ''ProtectKernelModules=true'', lit ''ProtectControlGroups=true'',
      lit ''RestrictSUIDSGID=true'', lit ''RestrictNamespaces=true'', lit ''LockPersonality=true'',
      lit ''MemoryDenyWriteExecute=false'', lit ''SystemCallFilter=@system-service'',
      lit ''SystemCallFilter=~@privileged @resources'']"

definition unit_lines :: "(ustring \<Rightarrow> ustring option) \<Rightarrow> service_spec \<Rightarrow> app_paths \<Rightarrow> ustring list" where
  "unit_lines env sp p =
     [lit ''[Unit]'', lit ''Description='' @ sv_description sp,
      lit ''Documentation=https://github.com/mylab12345/Remote-Desktop-Tool'', lit ''After=network-online.target'',
      lit ''Wants=network-online.target'', [], lit ''[Service]'', lit ''Type=notify'', exec_start sp, environment_line p]
     @ (if sv_restart sp then [lit ''Restart=on-failure'', lit ''RestartSec=5s''] else [])
     @ [lit ''User='' @ unit_user env sp]
     @ (if sv_system_wide sp then hardening p else [])
     @ [[], lit ''[Install]'', lit ''WantedBy=multi-user.target'']"

definition render_unit :: "(ustring \<Rightarrow> ustring option) \<Rightarrow> service_spec \<Rightarrow> app_paths \<Rightarrow> ustring" where
  "render_unit env sp p = concat (map (\<lambda>l. l @ [10]) (unit_lines env sp p))"

definition unit_name :: "service_spec \<Rightarrow> ustring" where
  "unit_name sp = sv_name sp @ lit ''.service''"

definition unit_path :: "service_spec \<Rightarrow> app_paths \<Rightarrow> ustring" where
  "unit_path sp p =
     (if sv_system_wide sp then path_join (lit ''/etc/systemd/system'') (unit_name sp)
      else path_join (path_join (path_join (ap_config_dir p) (lit ''systemd'')) (lit ''user'')) (unit_name sp))"

section \<open>Commands\<close>

record command_output =
  co_success :: bool
  co_status :: ustring
  co_stdout :: "u8 list"
  co_stderr :: "u8 list"

type_synonym 'w command = "ustring \<Rightarrow> ustring list \<Rightarrow> 'w \<Rightarrow> (ustring + command_output) \<times> 'w"

definition systemctl :: "'w command \<Rightarrow> bool \<Rightarrow> ustring list \<Rightarrow> 'w \<Rightarrow> unit rdt_result \<times> 'w" where
  "systemctl run system_wide args w =
     (case run (lit ''systemctl'') ((if system_wide then [] else [lit ''--user'']) @ args) w of
        (Inl e, w') \<Rightarrow> (fail EService (lit ''cannot run systemctl: '' @ e), w')
      | (Inr out, w') \<Rightarrow>
          ((if co_success out then Inr ()
            else fail EService (lit ''systemctl '' @ join [32] args @ lit '' failed: '' @ trim (utf8_lossy (co_stderr out)))), w'))"

text \<open>\<open>passwd\<close> is the text of \<open>/etc/passwd\<close>, if it can be read.\<close>

definition ensure_service_user :: "'w command \<Rightarrow> ustring option \<Rightarrow> ustring \<Rightarrow> 'w \<Rightarrow> unit rdt_result \<times> 'w" where
  "ensure_service_user run passwd name w =
     (if (case passwd of Some t \<Rightarrow> list_ex (starts_with (name @ [58])) (str_lines t) | None \<Rightarrow> False) then (Inr (), w)
      else
        (case run (lit ''useradd'')
                [lit ''--system'', lit ''--home-dir'', lit ''/var/lib/rdt'', lit ''--shell'', lit ''/usr/sbin/nologin'',
                 lit ''--comment'', lit ''RDT remote access agent'', name] w of
           (Inl e, w') \<Rightarrow> (fail EService (lit ''cannot create the '' @ [39] @ name @ [39] @ lit '' service account: '' @ e), w')
         | (Inr out, w') \<Rightarrow>
             ((if co_success out then Inr ()
               else fail EService (lit ''useradd exited with '' @ co_status out @ lit ''; create the '' @ [39] @ name @ [39]
                 @ lit '' account manually'')), w')))"

text \<open>The steps thread the files and the machine.\<close>

type_synonym ('w, 'a) service_run = "fs \<times> 'w \<Rightarrow> 'a rdt_result \<times> fs \<times> 'w"

definition on_files :: "'a run \<Rightarrow> ('w, 'a) service_run" where
  "on_files r x = (case r (fst x) of (y, s) \<Rightarrow> (y, s, snd x))"

definition on_machine :: "('w \<Rightarrow> 'a rdt_result \<times> 'w) \<Rightarrow> ('w, 'a) service_run" where
  "on_machine r x = (case r (snd x) of (y, w) \<Rightarrow> (y, fst x, w))"

definition check :: "bool \<Rightarrow> error_code \<Rightarrow> ustring \<Rightarrow> ('w, unit) service_run" where
  "check ok code msg = pure_run (if ok then Inr () else fail code msg)"

definition install_systemd :: "host \<Rightarrow> 'w command \<Rightarrow> service_spec \<Rightarrow> app_paths \<Rightarrow> ('w, unit) service_run" where
  "install_systemd ho run sp p =
     (let sys = sv_system_wide sp in
      run_then (check (ho_is_dir ho systemd_dir) EService
        (lit ''systemd is not the active init system; run the agent under your own supervisor instead'')) (\<lambda>_.
      run_then (check (sys \<longrightarrow> ho_euid ho = 0) EPermission
        (lit ''installing a system wide service requires root; re-run with sudo or use --user'')) (\<lambda>_.
      run_then (if sys \<and> sv_run_as sp = None
                then on_machine (ensure_service_user run (ho_read ho (lit ''/etc/passwd'')) (lit ''rdt''))
                else pure_run (Inr ())) (\<lambda>_.
      run_then (on_files (on_err from_io io_touch)) (\<lambda>_.
      run_then (on_files (on_err from_io (io_write (unit_path sp p) (as_bytes (render_unit (ho_env ho) sp p))))) (\<lambda>_.
      run_then (on_machine (systemctl run sys [lit ''daemon-reload''])) (\<lambda>_.
      run_then (on_machine (systemctl run sys [lit ''enable'', unit_name sp])) (\<lambda>_.
        if sv_start_now sp then on_machine (systemctl run sys [lit ''restart'', unit_name sp]) else pure_run (Inr ())))))))))"

definition install_service :: "host \<Rightarrow> 'w command \<Rightarrow> service_spec \<Rightarrow> app_paths \<Rightarrow> ('w, unit) service_run" where
  "install_service ho run sp p =
     run_then (pure_run (spec_validate sp)) (\<lambda>_.
     run_then (check (ho_exists ho (sv_executable sp)) EInvalidInput
       (lit ''executable '' @ sv_executable sp @ lit '' does not exist'')) (\<lambda>_.
     install_systemd ho run sp p))"

definition uninstall_service :: "host \<Rightarrow> 'w command \<Rightarrow> service_spec \<Rightarrow> app_paths \<Rightarrow> ('w, unit) service_run" where
  "uninstall_service ho run sp p =
     (let sys = sv_system_wide sp in
      run_then (check (sys \<longrightarrow> ho_euid ho = 0) EPermission (lit ''removing a system wide service requires root'')) (\<lambda>_ x.
        let x1 = snd (on_machine (systemctl run sys [lit ''disable'', lit ''--now'', unit_name sp]) x) in
        run_then (if fs_files (fst x1) (unit_path sp p) \<noteq> None then on_files (on_err from_io (io_remove (unit_path sp p)))
                  else pure_run (Inr ())) (\<lambda>_ x2.
          (Inr (), snd (on_machine (systemctl run sys [lit ''daemon-reload'']) x2))) x1))"

definition state_of :: "ustring \<Rightarrow> service_state" where
  "state_of s =
     (if s = lit ''active'' then ServiceRunning
      else if s = lit ''inactive'' \<or> s = lit ''failed'' then ServiceStopped
      else if s = lit ''activating'' \<or> s = lit ''deactivating'' then Transitioning
      else ServiceUnknown)"

definition service_status :: "'w command \<Rightarrow> service_spec \<Rightarrow> app_paths \<Rightarrow> ('w, service_state) service_run" where
  "service_status run sp p x =
     (if fs_files (fst x) (unit_path sp p) = None then (Inr NotInstalled, x)
      else
        (case run (lit ''systemctl'')
                ((if sv_system_wide sp then [] else [lit ''--user'']) @ [lit ''is-active'', unit_name sp]) (snd x) of
           (Inl e, w) \<Rightarrow> (fail EService (lit ''cannot run systemctl: '' @ e), fst x, w)
         | (Inr out, w) \<Rightarrow> (Inr (state_of (trim (utf8_lossy (co_stdout out)))), fst x, w)))"

end
