(* ===== verification/Plat_Service_Props.thy ===== *)
theory Plat_Service_Props
  imports Plat_Service
begin

text \<open>
  What installing a service promises: the file that is written is the unit of the service, with the
  one command it is meant to have, and nothing else is touched; removing the service undoes it.
\<close>

section \<open>Quoting\<close>

text \<open>How a word is meant to stand in the unit: as it is when it has only letters, digits and the signs
  \<open>- _ / . : = ,\<close>, and else between double quotes, with a backslash before each double quote and each
  backslash.\<close>

definition bare_char :: "uchar \<Rightarrow> bool" where
  "bare_char c \<longleftrightarrow> 48 \<le> c \<and> c \<le> 57 \<or> 65 \<le> c \<and> c \<le> 90 \<or> 97 \<le> c \<and> c \<le> 122 \<or> c \<in> set (lit ''-_/.:=,'')"

definition escape_char :: "uchar \<Rightarrow> ustring" where
  "escape_char c = (if c = 34 \<or> c = 92 then [92, c] else [c])"

definition written_word :: "ustring \<Rightarrow> ustring" where
  "written_word w =
     (if w \<noteq> [] \<and> (\<forall>c \<in> set w. bare_char c) then w else [34] @ concat (map escape_char w) @ [34])"

text \<open>Replacing a single character, one character at a time.\<close>

lemma replace_char: "replace_str [c] r s = concat (map (\<lambda>x. if x = c then r else [x]) s)"
  by (induction s) (simp_all add: replace_str.simps [of "[c]"] replace_str_other)

lemma escaped: "replace_str [34] [92, 34] (replace_str [92] [92, 92] v) = concat (map escape_char v)"
  by (induction v) (auto simp: replace_char escape_char_def)

lemma bare_char_iff: "needs_no_quote c \<longleftrightarrow> bare_char c"
  by (auto simp: needs_no_quote_def bare_char_def is_ascii_alphanumeric_def is_ascii_digit_def is_ascii_upper_def
      is_ascii_lower_def)

lemma shell_quote_written: "shell_quote v = written_word v"
  by (simp add: shell_quote_def written_word_def escaped list_all_iff bare_char_iff escape_char_def)

text \<open>The quoting loses nothing: words written one after the other can be told apart again. The functions
  below undo it; they are only the proof of that.\<close>

fun unquote_rest :: "ustring \<Rightarrow> (ustring \<times> ustring) option" where
  "unquote_rest [] = None"
| "unquote_rest (c # s) =
     (if c = 34 then Some ([], s)
      else if c = 92 then
        (case s of [] \<Rightarrow> None | d # r \<Rightarrow> map_option (\<lambda>(w, q). (d # w, q)) (unquote_rest r))
      else map_option (\<lambda>(w, q). (c # w, q)) (unquote_rest s))"

lemma unquote_rest_length: "unquote_rest s = Some (w, r) \<Longrightarrow> length r < length s"
proof (induction s arbitrary: w rule: unquote_rest.induct)
  case (2 c s)
  then show ?case by (cases s) (auto split: if_splits intro: less_SucI)
qed simp

function unquote_words :: "ustring \<Rightarrow> ustring list option" where
  "unquote_words s =
     (case s of
        [] \<Rightarrow> Some []
      | c # t \<Rightarrow>
          if c = 32 then unquote_words t
          else if c = 34 then
            (case unquote_rest t of
               None \<Rightarrow> None
             | Some (w, r) \<Rightarrow> map_option (Cons w) (unquote_words r))
          else map_option (Cons (takeWhile (\<lambda>x. x \<noteq> 32) s)) (unquote_words (dropWhile (\<lambda>x. x \<noteq> 32) t)))"
  by pat_completeness auto

termination
  by (relation "measure length") (auto dest: unquote_rest_length simp: length_dropWhile_le le_imp_less_Suc)

declare unquote_words.simps [simp del]

lemma unquote_words_simps [simp]:
  "unquote_words [] = Some []" "unquote_words (32 # t) = unquote_words t"
  by (subst unquote_words.simps, simp)+

lemma unquote_rest_escaped: "unquote_rest (concat (map escape_char v) @ 34 # r) = Some (v, r)"
  by (induction v) (auto simp: escape_char_def)

lemma plain_word: "\<forall>c \<in> set v. bare_char c \<Longrightarrow> 32 \<notin> set v \<and> 34 \<notin> set v"
  by (auto simp: bare_char_def)

definition word_end :: "ustring \<Rightarrow> bool" where
  "word_end r \<longleftrightarrow> r = [] \<or> hd r = 32"

lemma split_quoted:
  assumes "word_end r"
  shows "unquote_words (written_word v @ r) = map_option (Cons v) (unquote_words r)"
proof (cases "v = [] \<or> \<not> (\<forall>c \<in> set v. bare_char c)")
  case True
  then have "written_word v = 34 # concat (map escape_char v) @ [34]" by (auto simp: written_word_def)
  then show ?thesis by (subst unquote_words.simps) (simp add: unquote_rest_escaped)
next
  case False
  then obtain c t where v: "v = c # t" "written_word v = v" by (cases v) (auto simp: written_word_def)
  have no: "c \<noteq> 32" "c \<noteq> 34" "\<forall>x \<in> set t. x \<noteq> 32" using plain_word [of v] False v by auto
  have "takeWhile (\<lambda>x. x \<noteq> 32) (t @ r) = t" "dropWhile (\<lambda>x. x \<noteq> 32) (t @ r) = r"
    using no(3) assms by (cases r; simp add: word_end_def takeWhile_append dropWhile_append)+
  then show ?thesis unfolding v(2) unfolding v(1) by (subst unquote_words.simps) (use no in simp)
qed

lemma unquote_words_join: "unquote_words (join [32] (map written_word ws)) = Some ws"
proof (induction ws)
  case (Cons w ws)
  have "unquote_words (written_word w @ 32 # join [32] (map written_word ws)) = Some (w # ws)"
    using Cons by (simp add: split_quoted word_end_def)
  moreover have "unquote_words (written_word w) = Some [w]" using split_quoted [of "[]" w] by (simp add: word_end_def)
  ultimately show ?case using Cons by (cases ws) simp_all
qed simp

definition command_text :: "ustring \<Rightarrow> ustring list \<Rightarrow> ustring" where
  "command_text executable arguments = written_word executable @ [32] @ join [32] (map written_word arguments)"

lemma command_text_inject: "command_text e ws = command_text e' ws' \<longleftrightarrow> e = e' \<and> ws = ws'"
proof -
  have "unquote_words (command_text v us) = Some (v # us)" for v us
    using split_quoted [of "[32] @ join [32] (map written_word us)" v] unquote_words_join
    by (simp add: command_text_def word_end_def)
  then show ?thesis by (metis list.inject option.inject)
qed

section \<open>The unit\<close>

definition one_line :: "ustring \<Rightarrow> bool" where
  "one_line t \<longleftrightarrow> 10 \<notin> set t \<and> 13 \<notin> set t"

lemma one_line_simps [simp]:
  "one_line []" "one_line (c # s) \<longleftrightarrow> c \<noteq> 10 \<and> c \<noteq> 13 \<and> one_line s" "one_line (a @ b) \<longleftrightarrow> one_line a \<and> one_line b"
  by (auto simp: one_line_def)

lemma one_line_strip: "one_line l \<Longrightarrow> 10 \<notin> set l \<and> strip_cr l = l"
  by (auto simp: one_line_def strip_cr_def dest: last_in_set)

lemma one_line_quote: "one_line v \<Longrightarrow> one_line (shell_quote v)"
  by (auto simp: shell_quote_written written_word_def one_line_def escape_char_def split: if_splits)

lemma one_line_join: "list_all one_line ws \<Longrightarrow> one_line (join [32] ws)"
  by (induction "[32 :: nat]" ws rule: join.induct) auto

definition spec_one_line :: "(ustring \<Rightarrow> ustring option) \<Rightarrow> service_spec \<Rightarrow> app_paths \<Rightarrow> bool" where
  "spec_one_line env sp p \<longleftrightarrow> list_all one_line ([sv_description sp, sv_executable sp, unit_user env sp, ap_config_dir p,
     ap_data_dir p, ap_log_dir p, ap_runtime_dir p] @ sv_arguments sp)"

lemma exec_start_one_line: "spec_one_line env sp p \<Longrightarrow> one_line (exec_start sp)"
  by (auto simp: spec_one_line_def exec_start_def list_all_iff intro!: one_line_join one_line_quote)

lemma environment_one_line: "spec_one_line env sp p \<Longrightarrow> one_line (environment_line p)"
  by (simp add: spec_one_line_def environment_line_def one_line_quote)

lemma hardening_one_line: "spec_one_line env sp p \<Longrightarrow> list_all one_line (hardening p)"
  by (simp add: spec_one_line_def hardening_def one_line_quote)

lemma unit_lines_one_line: "spec_one_line env sp p \<Longrightarrow> list_all one_line (unit_lines env sp p)"
  using exec_start_one_line [of env sp p] environment_one_line [of env sp p] hardening_one_line [of env sp p]
  by (simp add: unit_lines_def spec_one_line_def)

lemma unit_reads_back: "spec_one_line env sp p \<Longrightarrow> str_lines (render_unit env sp p) = unit_lines env sp p"
  unfolding render_unit_def
  by (rule lines_of_concat) (use unit_lines_one_line one_line_strip in \<open>force simp: list_all_iff\<close>)

definition exec_key :: ustring where
  "exec_key = lit ''ExecStart=''"

lemma one_exec_start: "filter (starts_with exec_key) (unit_lines env sp p) = [exec_start sp]"
proof -
  have "filter (starts_with exec_key) (hardening p) = []" by (simp add: hardening_def exec_key_def starts_with_def)
  moreover have "starts_with exec_key (exec_start sp)" by (simp add: exec_key_def exec_start_def starts_with_iff)
  moreover have "\<not> starts_with exec_key (environment_line p)" by (simp add: environment_line_def exec_key_def starts_with_def)
  ultimately show ?thesis by (simp add: unit_lines_def) (simp add: exec_key_def starts_with_def)
qed

lemma exec_start_text: "exec_start sp = exec_key @ command_text (sv_executable sp) (sv_arguments sp)"
  by (simp only: exec_start_def exec_key_def command_text_def shell_quote_written [abs_def] append_assoc)

lemma unit_switches:
  "lit ''Restart=on-failure'' \<in> set (unit_lines env sp p) \<longleftrightarrow> sv_restart sp"
  "lit ''NoNewPrivileges=true'' \<in> set (unit_lines env sp p) \<longleftrightarrow> sv_system_wide sp"
  by (auto simp: unit_lines_def hardening_def environment_line_def exec_start_def)

section \<open>Installing and removing\<close>

definition svc_touches :: "ustring set \<Rightarrow> ('w, 'a) service_run \<Rightarrow> bool" where
  "svc_touches P r \<longleftrightarrow> (\<forall>x q. q \<notin> P \<longrightarrow> fs_files (fst (snd (r x))) q = fs_files (fst x) q)"

lemma svc_touches_run: "svc_touches P r \<Longrightarrow> (\<And>y. svc_touches P (g y)) \<Longrightarrow> svc_touches P (run_then r g)"
  unfolding svc_touches_def run_then_def by (auto split: prod.split sum.split) (metis fst_conv snd_conv)+

lemma svc_touches_files: "touches P r \<Longrightarrow> svc_touches P (on_files r)"
  unfolding svc_touches_def on_files_def touches_def by (auto split: prod.split) (metis snd_conv)

lemma svc_touches_others: "svc_touches P (on_machine f)" "svc_touches P (pure_run r)" "svc_touches P (check ok c m)"
  by (simp_all add: svc_touches_def on_machine_def pure_run_def check_def split: prod.split)

lemmas svc_touch_intros = svc_touches_run svc_touches_files svc_touches_others

lemma install_touches: "svc_touches {unit_path sp p} (install_service ho run sp p)"
  unfolding install_service_def install_systemd_def Let_def
  by (intro svc_touch_intros touch_intros; simp add: svc_touches_others split: if_split)

lemma check_Inr: "check ok c m x = (Inr u, x') \<longleftrightarrow> ok \<and> x' = x"
  by (auto simp: check_def pure_run_def fail_def)

lemma machine_Inr: "on_machine f x = (r, x') \<Longrightarrow> fst x' = fst x"
  by (auto simp: on_machine_def split: prod.splits)

lemma machine_step_Inr: "on_machine f x = (Inr u, x') \<Longrightarrow> \<exists>w'. f (snd x) = (Inr u, w') \<and> x' = (fst x, w')"
  by (auto simp: on_machine_def split: prod.splits)

text \<open>The files after a successful installation.\<close>

lemma install_Inr:
  assumes "install_service ho run sp p (s, w) = (Inr u, s', w')"
  shows "spec_validate sp = Inr () \<and> ho_exists ho (sv_executable sp) \<and> (sv_system_wide sp \<longrightarrow> ho_euid ho = 0)
     \<and> ho_is_dir ho systemd_dir \<and> fs_files s' (unit_path sp p) = Some (as_bytes (render_unit (ho_env ho) sp p))"
proof -
  let ?sys = "sv_system_wide sp"
  let ?body = "as_bytes (render_unit (ho_env ho) sp p)"
  obtain x1 where 1: "spec_validate sp = Inr ()" "ho_exists ho (sv_executable sp)" "install_systemd ho run sp p x1 = (Inr u, s', w')"
    using assms by (auto simp: install_service_def run_then_Inr check_Inr pure_run_def)
  obtain x3 z x4 y x5 v x6 where
    2: "ho_is_dir ho systemd_dir" "?sys \<longrightarrow> ho_euid ho = 0"
    and 3: "on_files (on_err from_io (io_write (unit_path sp p) ?body)) x3 = (Inr z, x4)"
    and 4: "on_machine (systemctl run ?sys [lit ''daemon-reload'']) x4 = (Inr y, x5)"
    and 5: "on_machine (systemctl run ?sys [lit ''enable'', unit_name sp]) x5 = (Inr v, x6)"
    and 6: "(if sv_start_now sp then on_machine (systemctl run ?sys [lit ''restart'', unit_name sp]) else pure_run (Inr ())) x6
        = (Inr u, s', w')"
    using 1(3) unfolding install_systemd_def Let_def run_then_Inr check_Inr by blast
  have "fs_files (fst x4) (unit_path sp p) = Some ?body"
    using 3 yieldsD [OF yields_calls(4) TrueI] by (auto simp: on_files_def split: prod.splits)
  moreover have "fst x5 = fst x4" "fst x6 = fst x5" using machine_Inr [OF 4] machine_Inr [OF 5] by simp_all
  moreover have "s' = fst x6" using 6 machine_Inr by (fastforce simp: pure_run_def split: if_splits)
  ultimately show ?thesis using 1 2 by simp
qed

lemma remove_Inr: "on_err f (io_remove q) s = (Inr u, s') \<Longrightarrow> fs_files s' = (fs_files s)(q := None)"
  by (auto simp: on_err_def io_remove_def split: prod.splits sum.splits option.splits)

lemma uninstall_Inr:
  assumes "uninstall_service ho run sp p (s, w) = (Inr u, s', w')"
  shows "fs_files s' = (fs_files s)(unit_path sp p := None)"
proof -
  let ?sys = "sv_system_wide sp"
  obtain x1 where x1: "snd (on_machine (systemctl run ?sys [lit ''disable'', lit ''--now'', unit_name sp]) (s, w)) = x1" by simp
  have f1: "fst x1 = s" using x1 machine_Inr by (metis fst_conv prod.collapse)
  obtain z x2 where 2: "(if fs_files (fst x1) (unit_path sp p) \<noteq> None then on_files (on_err from_io (io_remove (unit_path sp p)))
       else pure_run (Inr ())) x1 = (Inr z, x2)"
    and 3: "snd (on_machine (systemctl run ?sys [lit ''daemon-reload'']) x2) = (s', w')"
    using assms x1 unfolding uninstall_service_def Let_def run_then_Inr check_Inr by auto
  have "s' = fst x2" using 3 machine_Inr by (metis fst_conv prod.collapse)
  moreover have "fs_files (fst x2) = (fs_files s)(unit_path sp p := None)"
    using 2 f1 by (auto simp: on_files_def pure_run_def split: if_splits prod.splits dest!: remove_Inr)
  ultimately show ?thesis by simp
qed

text \<open>What the file of an installed service says, when no field contains a line end: one command, the
  executable and its arguments each quoted where needed, so that no other executable or arguments
  have the same command; and the restart and hardening lines exactly when they are asked for.\<close>

definition unit_text_ok :: "service_spec \<Rightarrow> ustring \<Rightarrow> bool" where
  "unit_text_ok sp body \<longleftrightarrow>
     filter (starts_with (lit ''ExecStart='')) (str_lines body)
       = [lit ''ExecStart='' @ command_text (sv_executable sp) (sv_arguments sp)]
     \<and> (lit ''Restart=on-failure'' \<in> set (str_lines body) \<longleftrightarrow> sv_restart sp)
     \<and> (lit ''NoNewPrivileges=true'' \<in> set (str_lines body) \<longleftrightarrow> sv_system_wide sp)"

lemma rendered_ok: "spec_one_line env sp p \<Longrightarrow> unit_text_ok sp (render_unit env sp p)"
  using one_exec_start [of env sp p] unit_switches [of env sp p]
  by (simp only: unit_text_ok_def unit_reads_back exec_start_text exec_key_def simp_thms)

lemma valid_fields:
  "spec_validate sp = Inr () \<Longrightarrow>
     sv_name sp \<noteq> [] \<and> (\<forall>c \<in> set (sv_name sp). \<not> is_whitespace c) \<and> take 1 (sv_executable sp) = [47]"
  by (cases "sv_executable sp")
    (auto simp: spec_validate_def fail_def is_absolute_def starts_with_def list_ex_iff trim_no_whitespace split: if_splits)

lemma system_unit_path:
  "take 1 (sv_name sp) \<noteq> [47] \<Longrightarrow> sv_system_wide sp \<Longrightarrow>
     unit_path sp p = lit ''/etc/systemd/system/'' @ sv_name sp @ lit ''.service''"
  by (cases "sv_name sp") (auto simp: unit_path_def unit_name_def path_join_def starts_with_def)

text \<open>C30: Installing a service writes its unit and no other file, whatever fails; the unit of a system wide
  service with a name that is no absolute path is \<open>/etc/systemd/system/NAME.service\<close>. It succeeds only for
  a name without whitespace and an absolute executable that exists, where systemd runs and, system wide,
  for root. After success the file is there and, if no field of the specification or the directories
  contains a line end, it has exactly one command: the executable and the arguments, each written as
  it is or in double quotes with escapes, and distinct commands are written differently; it asks for a
  restart and for the hardening exactly when the specification does. Removing the service
  leaves the files as they were without the unit, and the service then counts as not installed.\<close>

theorem install_then_uninstall:
  assumes "install_service ho run sp p (s, w) = (r, s', w')"
  shows "(\<forall>q. q \<noteq> unit_path sp p \<longrightarrow> fs_files s' q = fs_files s q)
     \<and> (take 1 (sv_name sp) \<noteq> [47] \<longrightarrow> sv_system_wide sp \<longrightarrow>
          unit_path sp p = lit ''/etc/systemd/system/'' @ sv_name sp @ lit ''.service'')
     \<and> (\<forall>u. r = Inr u \<longrightarrow>
          sv_name sp \<noteq> [] \<and> (\<forall>c \<in> set (sv_name sp). \<not> is_whitespace c) \<and> take 1 (sv_executable sp) = [47]
          \<and> ho_exists ho (sv_executable sp) \<and> ho_is_dir ho systemd_dir \<and> (sv_system_wide sp \<longrightarrow> ho_euid ho = 0)
          \<and> (\<exists>body. fs_files s' (unit_path sp p) = Some (as_bytes body)
               \<and> (spec_one_line (ho_env ho) sp p \<longrightarrow> unit_text_ok sp body)))
     \<and> (\<forall>e ws. command_text e ws = command_text (sv_executable sp) (sv_arguments sp) \<longrightarrow>
          e = sv_executable sp \<and> ws = sv_arguments sp)
     \<and> (\<forall>u w1 s2 w2. uninstall_service ho run sp p (s', w1) = (Inr u, s2, w2) \<longrightarrow>
          fs_files s2 = (fs_files s)(unit_path sp p := None)
          \<and> fst (service_status run sp p (s2, w2)) = Inr NotInstalled)"
proof -
  have other: "\<forall>q. q \<noteq> unit_path sp p \<longrightarrow> fs_files s' q = fs_files s q"
    using install_touches [of sp p ho run] assms unfolding svc_touches_def by (metis fst_conv singletonD snd_conv)
  have installed: "sv_name sp \<noteq> [] \<and> (\<forall>c \<in> set (sv_name sp). \<not> is_whitespace c) \<and> take 1 (sv_executable sp) = [47]
      \<and> ho_exists ho (sv_executable sp) \<and> ho_is_dir ho systemd_dir \<and> (sv_system_wide sp \<longrightarrow> ho_euid ho = 0)
      \<and> (\<exists>body. fs_files s' (unit_path sp p) = Some (as_bytes body)
           \<and> (spec_one_line (ho_env ho) sp p \<longrightarrow> unit_text_ok sp body))" if "r = Inr u" for u
    using install_Inr [of ho run sp p s w u s' w'] assms that valid_fields [of sp] rendered_ok [of "ho_env ho" sp p] by blast
  have removed: "fs_files s2 = (fs_files s)(unit_path sp p := None) \<and> fst (service_status run sp p (s2, w2)) = Inr NotInstalled"
    if u: "uninstall_service ho run sp p (s', w1) = (Inr u, s2, w2)" for u w1 s2 w2
  proof
    note f = uninstall_Inr [OF u]
    then show "fst (service_status run sp p (s2, w2)) = Inr NotInstalled" by (simp add: service_status_def)
    show "fs_files s2 = (fs_files s)(unit_path sp p := None)" unfolding f by (rule ext) (simp add: other)
  qed
  from other installed removed system_unit_path [of sp p] command_text_inject show ?thesis by blast
qed

section \<open>Examples\<close>

definition agent_host :: host where
  "agent_host = \<lparr>ho_env = \<lambda>_. None, ho_tmp = [], ho_uid = 0, ho_euid = 0, ho_exists = \<lambda>_. True, ho_is_dir = \<lambda>_. True,
     ho_is_file = \<lambda>_. False, ho_mode = \<lambda>_. None, ho_read = \<lambda>_. Some (lit ''rdt:x''), ho_append = \<lambda>_. Inr (), ho_mkdir = \<lambda>_. Inr (),
     ho_chmod_dir = \<lambda>_. Inr (), ho_version = [], ho_name = [], ho_arch = []\<rparr>"

definition plain_paths :: app_paths where
  "plain_paths = \<lparr>ap_config_dir = lit ''/c'', ap_data_dir = lit ''/d'', ap_log_dir = lit ''/l'', ap_runtime_dir = lit ''/r''\<rparr>"

definition quiet_command :: "unit command" where
  "quiet_command program args w = (Inr \<lparr>co_success = True, co_status = [], co_stdout = [], co_stderr = []\<rparr>, w)"

definition failing_command :: "unit command" where
  "failing_command program args w = (Inr \<lparr>co_success = False, co_status = [], co_stdout = [], co_stderr = []\<rparr>, w)"

definition spaced_spec :: service_spec where
  "spaced_spec = (agent_spec (lit ''/opt/my rdt'') False)\<lparr>sv_arguments := [lit ''agent'', lit ''a'' @ [34] @ lit ''b'']\<rparr>"

text \<open>Without failures a file is written as one would expect.\<close>

definition blank_files :: fs where
  "blank_files = \<lparr>fs_files = Map.empty, fs_faults = []\<rparr>"

lemma write_without_faults:
  "on_files (on_err f io_touch) (blank_files, w) = (Inr (), blank_files, w)"
  "on_files (on_err f (io_write q b)) (blank_files, w) = (Inr (), blank_files\<lparr>fs_files := [q \<mapsto> b]\<rparr>, w)"
  by (simp_all add: on_files_def on_err_def io_touch_def io_write_def io_create_def io_write_all_def after_call_def
      set_file_def blank_files_def)

lemmas install_eval = install_service_def install_systemd_def run_then_def pure_run_def check_def write_without_faults
  on_machine_def systemctl_def Let_def agent_host_def fail_def

lemma agent_spec_valid: "spec_validate (agent_spec (lit ''/x'') w) = Inr ()"
  by (simp add: spec_validate_def agent_spec_def is_absolute_def starts_with_def trim_no_whitespace is_whitespace_def)

lemma agent_spec_fields:
  "sv_system_wide (agent_spec e w) = w" "sv_executable (agent_spec e w) = e" "sv_start_now (agent_spec e w)"
  by (simp_all add: agent_spec_def)

lemma agent_installs:
  "\<exists>s'. install_service agent_host quiet_command (agent_spec (lit ''/x'') False) plain_paths (blank_files, ()) = (Inr (), s', ())"
  by (simp add: install_eval quiet_command_def agent_spec_valid agent_spec_fields del: lit_simps)

lemma spaced_spec_facts:
  "spec_validate spaced_spec = Inr ()" "sv_system_wide spaced_spec = False" "sv_start_now spaced_spec"
  "sv_executable spaced_spec = lit ''/opt/my rdt''" "sv_arguments spaced_spec = [lit ''agent'', lit ''a'' @ [34] @ lit ''b'']"
  "spec_one_line (\<lambda>_. None) spaced_spec plain_paths"
  by (simp_all add: spec_validate_def spaced_spec_def agent_spec_def is_absolute_def starts_with_def trim_no_whitespace
      is_whitespace_def spec_one_line_def plain_paths_def unit_user_def)

lemma spaced_installs:
  "\<exists>s'. install_service agent_host quiet_command spaced_spec plain_paths (blank_files, ()) = (Inr (), s', ())"
  by (simp add: install_eval quiet_command_def spaced_spec_facts del: lit_simps)

lemma spaced_command:
  "command_text (lit ''/opt/my rdt'') [lit ''agent'', lit ''a'' @ [34] @ lit ''b'']
     = [34] @ lit ''/opt/my rdt'' @ [34] @ lit '' agent '' @ [34] @ lit ''a'' @ [92, 34] @ lit ''b'' @ [34]"
  by (simp add: command_text_def written_word_def bare_char_def escape_char_def)

theorem install_then_uninstall_witness:
  "\<exists>s' body. install_service agent_host quiet_command spaced_spec plain_paths (blank_files, ()) = (Inr (), s', ())
     \<and> fs_files s' (unit_path spaced_spec plain_paths) = Some (as_bytes body)
     \<and> filter (starts_with (lit ''ExecStart='')) (str_lines body)
         = [lit ''ExecStart='' @ [34] @ lit ''/opt/my rdt'' @ [34] @ lit '' agent '' @ [34] @ lit ''a'' @ [92, 34] @ lit ''b'' @ [34]]"
proof -
  obtain s' where s': "install_service agent_host quiet_command spaced_spec plain_paths (blank_files, ()) = (Inr (), s', ())"
    using spaced_installs by blast
  note files = install_then_uninstall [OF s', THEN conjunct2, THEN conjunct2, THEN conjunct1, rule_format, OF refl]
  have "ho_env agent_host = (\<lambda>_. None)" by (simp add: agent_host_def)
  with files spaced_spec_facts(6) obtain body where
    "fs_files s' (unit_path spaced_spec plain_paths) = Some (as_bytes body)" "unit_text_ok spaced_spec body" by auto
  with s' show ?thesis unfolding unit_text_ok_def spaced_spec_facts spaced_command by blast
qed

section \<open>Where the code departs from its comments\<close>

text \<open>A line end in a field, here the description, adds lines of its own to the unit.\<close>

lemma description_adds_directives:
  "let sp = (agent_spec (lit ''/x'') False)\<lparr>sv_description := lit ''d'' @ [10] @ lit ''User=root''\<rparr>
   in \<exists>before after. render_unit env sp p = before @ [10] @ lit ''User=root'' @ [10] @ after"
proof -
  let ?sp = "(agent_spec (lit ''/x'') False)\<lparr>sv_description := lit ''d'' @ [10] @ lit ''User=root''\<rparr>"
  have "render_unit env ?sp p =
      (lit ''[Unit]'' @ [10] @ lit ''Description=d'') @ [10] @ lit ''User=root'' @ [10]
      @ concat (map (\<lambda>l. l @ [10]) (drop 2 (unit_lines env ?sp p)))"
    by (simp add: render_unit_def unit_lines_def)
  then show ?thesis unfolding Let_def by blast
qed

text \<open>The name of a service is not checked for slashes, so the unit can be written elsewhere.\<close>

lemma name_leaves_the_directory:
  "spec_validate ((agent_spec (lit ''/x'') True)\<lparr>sv_name := lit ''../x''\<rparr>) = Inr ()
     \<and> unit_path ((agent_spec (lit ''/x'') True)\<lparr>sv_name := lit ''../x''\<rparr>) plain_paths = lit ''/etc/systemd/system/../x.service''"
  by (simp add: spec_validate_def agent_spec_def is_absolute_def starts_with_def trim_no_whitespace is_whitespace_def
      unit_path_def unit_name_def path_join_def)

text \<open>The unit of a user service lands in the directory of the program, where systemd does not look.\<close>

lemma user_unit_is_misplaced:
  "unit_path (agent_spec (lit ''/x'') False) plain_paths = lit ''/c/systemd/user/rdt-agent.service''"
  by (simp add: unit_path_def unit_name_def agent_spec_def path_join_def starts_with_def plain_paths_def)

text \<open>An installation that fails in \<open>systemctl\<close> leaves its unit behind.\<close>

lemma failed_install_leaves_unit:
  "\<exists>e s'. install_service agent_host failing_command (agent_spec (lit ''/x'') False) plain_paths (blank_files, ())
     = (Inl e, s', ()) \<and> fs_files s' (unit_path (agent_spec (lit ''/x'') False) plain_paths) \<noteq> None"
  by (simp add: install_eval failing_command_def agent_spec_valid agent_spec_fields del: lit_simps)

end
