(* ===== verification/Plat_Props.thy ===== *)
theory Plat_Props
  imports Plat_Info Rdt_Secrets Rdp_Clipboard
begin

text \<open>
  The report of \<open>rdt doctor\<close> against the components it speaks of: the keyring of the secret store and
  the clipboard bridge decide on their own whether they can work.
\<close>

section \<open>Programs\<close>

lemma which_in_Some:
  "which_in ho program dirs = Some path \<Longrightarrow> \<exists>dir \<in> set dirs. path = path_join dir program \<and> ho_is_file ho path"
  by (induction dirs) (auto simp: Let_def split: if_splits option.splits)

lemma which_has_program:
  assumes "\<forall>p. ho_is_file ho p \<longrightarrow> ho_exists ho p" and "which ho program = Some path"
  shows "has_program ho program"
proof -
  obtain dirs where d: "ho_env ho (lit ''PATH'') = Some dirs" "which_in ho program (split_char 58 dirs) = Some path"
    using assms(2) by (auto simp: which_def simp del: lit_simps split: option.splits)
  from which_in_Some [OF d(2)] assms(1) d(1) show ?thesis by (auto simp: has_program_def list_ex_iff simp del: lit_simps)
qed

lemma first_tool_Some: "first_tool ho tools = Some path \<Longrightarrow> \<exists>t \<in> set tools. which ho t = Some path"
  by (induction tools) (auto split: option.splits)

section \<open>The report\<close>

lemma ready_iff: "su_ready (probe_dependencies ho p) \<longleftrightarrow> problems (probe_dependencies ho p) = []"
  by (simp add: probe_dependencies_def problems_def Let_def filter_empty_conv list_all_iff)

lemma probes_optional:
  "rp_optional (probe_ssh_agent ho)" "rp_optional (probe_secret_store ho)" "rp_optional (probe_service_manager ho)"
  "rp_optional (probe_clipboard ho)" "rp_optional (probe_vault ho p)" "\<not> rp_optional (probe_known_hosts ho p)"
  unfolding probe_ssh_agent_def probe_secret_store_def probe_service_manager_def probe_clipboard_def probe_vault_def
    probe_known_hosts_def dep_report_def Let_def
  by (simp_all del: lit_simps split: option.split sum.split)

text \<open>Only the database of known hosts is required.\<close>

lemma ready_known_hosts: "su_ready (probe_dependencies ho p) \<longleftrightarrow> available (probe_known_hosts ho p)"
  by (simp add: probe_dependencies_def Let_def probes_optional)

lemma secret_probe_agrees:
  "available (probe_secret_store ho) \<longleftrightarrow>
     ks_available (detect (which ho (lit ''secret-tool'')) (ho_env ho (lit ''DBUS_SESSION_BUS_ADDRESS'') \<noteq> None))"
  by (auto simp: available_def probe_secret_store_def dep_report_def detect_def ks_available_def simp del: lit_simps split: option.split)

lemma clipboard_probe_agrees:
  assumes "\<forall>p. ho_is_file ho p \<longrightarrow> ho_exists ho p" and "available (probe_clipboard ho)"
  shows "detect_unix_backend ho \<noteq> NoClipboard"
proof (cases "ho_env ho (lit ''WAYLAND_DISPLAY'') \<noteq> None")
  case True
  with assms(2) obtain path where "which ho (lit ''wl-copy'') = Some path"
    by (auto simp: available_def probe_clipboard_def dep_report_def simp del: lit_simps split: option.splits)
  from which_has_program [OF assms(1) this] True show ?thesis by (simp add: detect_unix_backend_def del: lit_simps)
next
  case False
  with assms(2) obtain path where x: "ho_env ho (lit ''DISPLAY'') \<noteq> None" and "first_tool ho [lit ''xclip'', lit ''xsel''] = Some path"
    by (auto simp: available_def probe_clipboard_def dep_report_def simp del: lit_simps split: option.splits if_splits)
  from first_tool_Some [OF this(2)] which_has_program [OF assms(1)]
  have "has_program ho (lit ''xclip'') \<or> has_program ho (lit ''xsel'')" by (auto simp del: lit_simps)
  with x False show ?thesis by (simp add: detect_unix_backend_def del: lit_simps)
qed

text \<open>The report of \<open>doctor\<close> agrees with what the components find out for themselves: it is ready exactly
  when it has no problems; the keyring is reported available exactly when the secret store will use it;
  and when the clipboard is reported available, the clipboard bridge finds a helper.\<close>

theorem doctor_agrees_with_components:
  assumes "\<forall>p. ho_is_file ho p \<longrightarrow> ho_exists ho p"
  shows "(su_ready (probe_dependencies ho paths) \<longleftrightarrow> problems (probe_dependencies ho paths) = [])
     \<and> (\<exists>r \<in> set (su_reports (probe_dependencies ho paths)). rp_id r = SecretStoreDep \<and>
          (available r \<longleftrightarrow> ks_available (detect (which ho (lit ''secret-tool'')) (ho_env ho (lit ''DBUS_SESSION_BUS_ADDRESS'') \<noteq> None))))
     \<and> (\<exists>r \<in> set (su_reports (probe_dependencies ho paths)). rp_id r = ClipboardDep \<and>
          (available r \<longrightarrow> detect_unix_backend ho \<noteq> NoClipboard))"
proof (intro conjI)
  show "su_ready (probe_dependencies ho paths) \<longleftrightarrow> problems (probe_dependencies ho paths) = []" by (rule ready_iff)
  have "rp_id (probe_secret_store ho) = SecretStoreDep" "probe_secret_store ho \<in> set (su_reports (probe_dependencies ho paths))"
    by (simp_all add: probe_secret_store_def dep_report_def probe_dependencies_def Let_def del: lit_simps split: option.split)
  with secret_probe_agrees [of ho] show "\<exists>r \<in> set (su_reports (probe_dependencies ho paths)). rp_id r = SecretStoreDep \<and>
      (available r \<longleftrightarrow> ks_available (detect (which ho (lit ''secret-tool'')) (ho_env ho (lit ''DBUS_SESSION_BUS_ADDRESS'') \<noteq> None)))" by blast
  have "rp_id (probe_clipboard ho) = ClipboardDep" "probe_clipboard ho \<in> set (su_reports (probe_dependencies ho paths))"
    by (simp_all add: probe_clipboard_def dep_report_def probe_dependencies_def Let_def del: lit_simps split: option.split)
  with clipboard_probe_agrees [OF assms] show "\<exists>r \<in> set (su_reports (probe_dependencies ho paths)). rp_id r = ClipboardDep \<and>
      (available r \<longrightarrow> detect_unix_backend ho \<noteq> NoClipboard)" by blast
qed

section \<open>Directories\<close>

lemma ensure_dirs_Inr: "ensure_dirs ho ds = (Inr u, calls) \<Longrightarrow> calls = concat (map (\<lambda>d. [(d, False), (d, True)]) ds)"
  by (induction ds arbitrary: calls) (auto split: sum.splits prod.splits)

lemma ensured_paths_are_private:
  "ensure_paths ho p = (Inr u, calls) \<Longrightarrow>
     \<forall>d \<in> {ap_config_dir p, ap_data_dir p, ap_log_dir p, ap_runtime_dir p}. (d, True) \<in> set calls"
  by (auto simp: ensure_paths_def simp del: ensure_dirs.simps dest!: ensure_dirs_Inr)

text \<open>The bridge needs \<open>wl-copy\<close> only, so it can find a helper that the report misses, and then fails to read.\<close>

lemma clipboard_probe_is_stricter:
  "\<exists>ho. \<not> available (probe_clipboard ho) \<and> detect_unix_backend ho = Wayland"
proof
  have "which wayland_host p = None" for p
    by (simp add: which_def wayland_host_def bare_host_def split_char_def del: lit_simps split: option.split)
  then show "\<not> available (probe_clipboard wayland_host) \<and> detect_unix_backend wayland_host = Wayland"
    by (simp add: available_def probe_clipboard_def dep_report_def detect_unix_backend_def has_program_def wayland_host_def bare_host_def
        split_char_def del: lit_simps)
qed

theorem doctor_agrees_with_components_witness:
  "problems (probe_dependencies bare_host \<lparr>ap_config_dir = [99], ap_data_dir = [100], ap_log_dir = [108], ap_runtime_dir = [114]\<rparr>) = []"
proof -
  let ?p = "\<lparr>ap_config_dir = [99], ap_data_dir = [100], ap_log_dir = [108], ap_runtime_dir = [114]\<rparr>"
  have "available (probe_known_hosts bare_host ?p)"
    by (simp add: available_def probe_known_hosts_def known_hosts_file_def path_join_def starts_with_def parent_def rsplit_once_def
        split_once_def bare_host_def dep_report_def)
  then have "su_ready (probe_dependencies bare_host ?p)" by (simp only: ready_known_hosts)
  moreover have "\<forall>p. ho_is_file bare_host p \<longrightarrow> ho_exists bare_host p" by (simp add: bare_host_def)
  ultimately show ?thesis using doctor_agrees_with_components [of bare_host ?p] by blast
qed

end
