(* ===== verification/Ssh_Session.thy ===== *)
theory Ssh_Session
  imports Ssh_Handler Plat_System Rust_Channel
begin

text \<open>
  The SSH session, \<open>crates/rdt-ssh/src/session.rs\<close>: opening a connection, authenticating, requesting a
  terminal, and the task that carries out the commands of the user interface. The transport
  (\<open>russh\<close>) and the server behind it are the parameter \<open>'w server\<close>: what the handshake and each
  request do to the server and answer. The wire records the requests that were made. What the
  machine holds (the files of known hosts and keys, the stored secrets) is the record \<open>ssh_env\<close>.
\<close>

section \<open>Connections\<close>

record terminal_size =
  ts_cols :: u32
  ts_rows :: u32

definition terminal_size_default :: terminal_size where
  "terminal_size_default = \<lparr>ts_cols = 80, ts_rows = 24\<rparr>"

datatype ssh_command = InteractiveShell | RemoteCommand ustring

text \<open>The timeout of the attempt is in seconds.\<close>

record ssh_connection =
  sc_host :: ustring
  sc_port :: u16
  sc_username :: ustring
  sc_policy :: host_key_policy
  sc_known_hosts :: "ustring option"
  sc_auth :: auth_method
  sc_command :: ssh_command
  sc_size :: terminal_size
  sc_term :: ustring
  sc_keepalive :: u64
  sc_timeout :: u64
  sc_compression :: bool
  sc_environment :: "ustring list"
  sc_agent_socket :: "ustring option"

definition connection_new ::
  "ustring \<Rightarrow> u16 \<Rightarrow> ustring \<Rightarrow> auth_method \<Rightarrow> ssh_options \<Rightarrow> ssh_command \<Rightarrow> terminal_size \<Rightarrow> ssh_connection" where
  "connection_new host port username auth options command sz =
     \<lparr>sc_host = host, sc_port = port, sc_username = username, sc_policy = so_host_key_policy options,
      sc_known_hosts = so_known_hosts options, sc_auth = auth, sc_command = command, sc_size = sz,
      sc_term = to_term (so_terminal options), sc_keepalive = so_keepalive_secs options,
      sc_timeout = max (so_connect_timeout_secs options) 1, sc_compression = so_compression options,
      sc_environment = so_environment options, sc_agent_socket = None\<rparr>"

definition ssh_address :: "ssh_connection \<Rightarrow> ustring" where
  "ssh_address c = sc_host c @ [58] @ show_nat (unat (sc_port c))"

text \<open>What \<open>connect\<close> sets in the configuration of the transport: the interval of keepalives, how many
  may stay unanswered, and after how many seconds without traffic the connection is given up.\<close>

record transport_config =
  tc_nodelay :: bool
  tc_keepalive :: "u64 option"
  tc_keepalive_max :: nat
  tc_inactivity :: "u64 option"

definition ssh_config :: "ssh_connection \<Rightarrow> transport_config" where
  "ssh_config c =
     \<lparr>tc_nodelay = True, tc_keepalive = (if sc_keepalive c > 0 then Some (sc_keepalive c) else None),
      tc_keepalive_max = 3, tc_inactivity = Some (max (sc_timeout c) 30)\<rparr>"

section \<open>The transport\<close>

datatype russh_kind =
    Re_Disconnect | Re_Timeout | Re_Inconsistent | Re_KexInit | Re_Negotiation | Re_TooManyAuthAttempts
  | Re_IO | Re_SocketDisconnect | Re_AddressFamily | Re_KeyDecryption | Re_Key | Re_Other

type_synonym russh_failure = "russh_kind \<times> ustring"

definition classify_code :: "russh_kind \<Rightarrow> error_code" where
  "classify_code k =
     (case k of
        Re_Disconnect \<Rightarrow> ENetwork
      | Re_Timeout \<Rightarrow> ETimeout
      | Re_Inconsistent \<Rightarrow> EProtocol
      | Re_KexInit \<Rightarrow> EProtocol
      | Re_Negotiation \<Rightarrow> EProtocol
      | Re_TooManyAuthAttempts \<Rightarrow> EAuthentication
      | Re_IO \<Rightarrow> ENetwork
      | Re_SocketDisconnect \<Rightarrow> ENetwork
      | Re_AddressFamily \<Rightarrow> ENetwork
      | Re_KeyDecryption \<Rightarrow> ECrypto
      | Re_Key \<Rightarrow> ECrypto
      | Re_Other \<Rightarrow> EProtocol)"

definition classify :: "russh_failure \<Rightarrow> rdt_error" where
  "classify e = error_new (classify_code (fst e)) (snd e)"

datatype ssh_request =
    Auth_None ustring
  | Auth_Password ustring ustring
  | Auth_Publickey ustring "u8 list"
  | Auth_Interactive ustring
  | Auth_Respond ustring
  | Open_Session
  | Request_Pty ustring u32 u32
  | Set_Env ustring ustring
  | Request_Shell
  | Request_Exec ustring
  | Send_Data "u8 list"
  | Window_Change u32 u32
  | Send_Eof
  | Close_Channel
  | End_Session

text \<open>The outcome of a part of the handshake, which may also outlast the timeout.\<close>

datatype 'a attempt = Timed_Out | Attempt_Failed russh_failure | Attempt_Done 'a

text \<open>\<open>sv_hello\<close> is the handshake up to the key of the server and its type, \<open>sv_finish\<close> the rest of it,
  \<open>sv_refusal\<close> the error it ends in when the callback refuses the key.\<close>

record 'w server =
  sv_hello :: "transport_config \<Rightarrow> ustring \<Rightarrow> 'w \<Rightarrow> (ustring \<times> u8 list) attempt \<times> 'w"
  sv_finish :: "'w \<Rightarrow> unit attempt \<times> 'w"
  sv_refusal :: "rdt_error \<Rightarrow> russh_failure"
  sv_request :: "ssh_request \<Rightarrow> 'w \<Rightarrow> (russh_failure + bool) \<times> 'w"

record 'w wire =
  wi_peer :: 'w
  wi_sent :: "ssh_request list"

type_synonym ('w, 'a) wire_run = "'w wire \<Rightarrow> 'a rdt_result \<times> 'w wire"

definition ssh_call :: "'w server \<Rightarrow> ssh_request \<Rightarrow> ('w, bool) wire_run" where
  "ssh_call sv req w =
     (case sv_request sv req (wi_peer w) of
        (r, p) \<Rightarrow>
          ((case r of Inl e \<Rightarrow> Inl (classify e) | Inr ok \<Rightarrow> Inr ok), \<lparr>wi_peer = p, wi_sent = wi_sent w @ [req]\<rparr>))"

section \<open>Credentials\<close>

record ssh_env =
  se_host :: host
  se_known_hosts :: "ustring \<Rightarrow> io_error + ustring"
  se_key_file :: "ustring \<Rightarrow> ustring + ustring"
  se_decode :: "ustring \<Rightarrow> ustring option \<Rightarrow> ustring + u8 list"
  se_fetch :: "stored_secret \<Rightarrow> ustring option rdt_result"

definition resolve_secret :: "ssh_env \<Rightarrow> credential_source \<Rightarrow> ustring \<Rightarrow> ustring rdt_result" where
  "resolve_secret env source what =
     (case source of
        Prompt \<Rightarrow> fail EAuthentication (lit ''the '' @ what @ lit '' must be entered by the user'')
      | Stored reference \<Rightarrow>
          and_then (se_fetch env reference) (\<lambda>found.
            case found of
              Some s \<Rightarrow> Inr s
            | None \<Rightarrow> fail EKeystore (lit ''the stored secret was not found'')))"

definition key_passphrase :: "ssh_env \<Rightarrow> private_key_auth \<Rightarrow> ustring option rdt_result" where
  "key_passphrase env key =
     (case pk_passphrase key of
        Prompt \<Rightarrow> Inr None
      | Stored reference \<Rightarrow>
          and_then (se_fetch env reference) (\<lambda>found. Inr (Some (case found of Some s \<Rightarrow> s | None \<Rightarrow> []))))"

definition load_private_key :: "ssh_env \<Rightarrow> private_key_auth \<Rightarrow> u8 list rdt_result" where
  "load_private_key env key =
     (case se_key_file env (expand_tilde (se_host env) (pk_path key)) of
        Inl e \<Rightarrow> fail EIo (lit ''cannot read the private key: '' @ e)
      | Inr text \<Rightarrow>
          and_then (key_passphrase env key) (\<lambda>passphrase.
            (case passphrase of
               Some p \<Rightarrow>
                 if p \<noteq> [] then
                   (case se_decode env text (Some p) of
                      Inl e \<Rightarrow> fail ECrypto (lit ''cannot decrypt the private key: '' @ e)
                    | Inr k \<Rightarrow> Inr k)
                 else
                   (case se_decode env text None of
                      Inl e \<Rightarrow> fail ECrypto (lit ''cannot parse the private key: '' @ e)
                    | Inr k \<Rightarrow> Inr k)
             | None \<Rightarrow>
                 (case se_decode env text None of
                    Inl e \<Rightarrow> fail ECrypto (lit ''cannot parse the private key: '' @ e)
                  | Inr k \<Rightarrow> Inr k))))"

text \<open>A request whose answer has to be positive.\<close>

definition ssh_demand :: "'w server \<Rightarrow> ssh_request \<Rightarrow> ustring \<Rightarrow> ('w, unit) wire_run" where
  "ssh_demand sv req message =
     run_then (ssh_call sv req) (\<lambda>ok. pure_run (if ok then Inr () else fail EAuthentication message))"

definition authenticate :: "ssh_env \<Rightarrow> 'w server \<Rightarrow> ssh_connection \<Rightarrow> ('w, unit) wire_run" where
  "authenticate env sv c =
     (case sc_auth c of
        AuthNone \<Rightarrow> run_then (ssh_call sv (Auth_None (sc_username c))) (\<lambda>_. pure_run (Inr ()))
      | Password source \<Rightarrow>
          run_then (pure_run (resolve_secret env source (lit ''password''))) (\<lambda>password.
            ssh_demand sv (Auth_Password (sc_username c) password) (lit ''the server refused the password''))
      | PrivateKey key \<Rightarrow>
          run_then (pure_run (load_private_key env key)) (\<lambda>private.
            ssh_demand sv (Auth_Publickey (sc_username c) private) (lit ''the server refused the public key''))
      | Agent identity \<Rightarrow> pure_run (fail EAuthentication (lit ''no SSH agent socket is available''))
      | KeyboardInteractive source \<Rightarrow>
          run_then (ssh_call sv (Auth_Interactive (sc_username c))) (\<lambda>_.
          run_then (ssh_call sv (Auth_Respond [])) (\<lambda>_. pure_run (Inr ()))))"

section \<open>Connecting\<close>

definition ssh_timed_out :: "ssh_connection \<Rightarrow> 'a rdt_result" where
  "ssh_timed_out c = fail ETimeout (lit ''connecting to '' @ ssh_address c @ lit '' timed out'')"

definition attempt_result :: "ssh_connection \<Rightarrow> 'a attempt \<Rightarrow> 'a rdt_result" where
  "attempt_result c a =
     (case a of
        Timed_Out \<Rightarrow> ssh_timed_out c
      | Attempt_Failed e \<Rightarrow> Inl (classify e)
      | Attempt_Done x \<Rightarrow> Inr x)"

definition server_hello :: "'w server \<Rightarrow> ssh_connection \<Rightarrow> ('w, ustring \<times> u8 list) wire_run" where
  "server_hello sv c w =
     (case sv_hello sv (ssh_config c) (ssh_address c) (wi_peer w) of
        (a, p) \<Rightarrow> (attempt_result c a, w\<lparr>wi_peer := p\<rparr>))"

definition server_finish :: "'w server \<Rightarrow> ssh_connection \<Rightarrow> ('w, unit) wire_run" where
  "server_finish sv c w = (case sv_finish sv (wi_peer w) of (a, p) \<Rightarrow> (attempt_result c a, w\<lparr>wi_peer := p\<rparr>))"

text \<open>The callback of the handshake, as \<open>connect\<close> sets it up. A prompt goes to the queue of events whose
  receiver \<open>connect\<close> itself holds: nobody reads it before \<open>connect\<close> returns, and as it is neither
  answered nor dropped, the callback waits until the time is up.\<close>

definition host_key_verdict ::
  "codec \<Rightarrow> unicode \<Rightarrow> 'w server \<Rightarrow> ssh_connection \<Rightarrow> known_hosts \<Rightarrow> ustring \<times> u8 list \<Rightarrow> client_handler rdt_result" where
  "host_key_verdict cd u sv c db offer =
     (let h = handler_new (sc_host c) (sc_port c) (sc_policy c) in
      if ref_verify_host_key cd u h (fst offer) (snd offer) db = Inr True then
        Inr (h\<lparr>ch_accepted := Some (fingerprint cd (snd offer))\<rparr>)
      else (case decide cd u h (fst offer) (snd offer) db of
              Inl e \<Rightarrow> Inl (classify (sv_refusal sv e))
            | Inr prompt \<Rightarrow> ssh_timed_out c))"

definition handshake :: "codec \<Rightarrow> unicode \<Rightarrow> 'w server \<Rightarrow> ssh_connection \<Rightarrow> known_hosts \<Rightarrow> ('w, client_handler) wire_run" where
  "handshake cd u sv c db =
     run_then (server_hello sv c) (\<lambda>offer.
     run_then (pure_run (host_key_verdict cd u sv c db offer)) (\<lambda>h.
     run_then (server_finish sv c) (\<lambda>_. pure_run (Inr h))))"

definition env_request :: "ustring \<Rightarrow> ssh_request option" where
  "env_request variable = map_option (\<lambda>(name, value). Set_Env name value) (split_once 61 variable)"

text \<open>\<open>let _ = channel.set_env(..)\<close>, in turn.\<close>

fun request_env :: "'w server \<Rightarrow> ustring list \<Rightarrow> ('w, unit) wire_run" where
  "request_env sv [] w = (Inr (), w)"
| "request_env sv (v # vs) w =
     request_env sv vs (case env_request v of Some req \<Rightarrow> snd (ssh_call sv req w) | None \<Rightarrow> w)"

definition command_request :: "ssh_command \<Rightarrow> ssh_request" where
  "command_request c = (case c of InteractiveShell \<Rightarrow> Request_Shell | RemoteCommand text \<Rightarrow> Request_Exec text)"

record ssh_opened =
  sd_fingerprint :: "ustring option"
  sd_size :: terminal_size

definition load_known_hosts :: "codec \<Rightarrow> ssh_env \<Rightarrow> ssh_connection \<Rightarrow> known_hosts rdt_result" where
  "load_known_hosts cd env c =
     (case sc_known_hosts c of
        Some path \<Rightarrow> known_hosts_load cd path (se_known_hosts env path)
      | None \<Rightarrow> Inr known_hosts_empty)"

definition ssh_connect ::
  "codec \<Rightarrow> unicode \<Rightarrow> ssh_env \<Rightarrow> 'w server \<Rightarrow> ssh_connection \<Rightarrow> ('w, ssh_opened) wire_run" where
  "ssh_connect cd u env sv c =
     (if trim (sc_host c) = [] then pure_run (fail EInvalidInput (lit ''host must not be empty''))
      else if trim (sc_username c) = [] then pure_run (fail EInvalidInput (lit ''username must not be empty''))
      else
        run_then (pure_run (load_known_hosts cd env c)) (\<lambda>db.
        run_then (handshake cd u sv c db) (\<lambda>h.
        run_then (authenticate env sv c) (\<lambda>_.
        run_then (ssh_call sv Open_Session) (\<lambda>_.
        run_then (ssh_call sv (Request_Pty (sc_term c) (ts_cols (sc_size c)) (ts_rows (sc_size c)))) (\<lambda>_.
        run_then (request_env sv (sc_environment c)) (\<lambda>_.
        run_then (ssh_call sv (command_request (sc_command c))) (\<lambda>_.
          pure_run (Inr \<lparr>sd_fingerprint = ch_accepted h, sd_size = sc_size c\<rparr>)))))))))"

section \<open>The session\<close>

datatype pump_command = Cmd_Send "u8 list" | Cmd_Window terminal_size | Cmd_Eof | Cmd_Close

record 'w ssh_session =
  ps_wire :: "'w wire"
  ps_queue :: "pump_command list"
  ps_taken :: "pump_command list"
  ps_running :: bool
  ps_opened :: ssh_opened

definition session_start :: "ssh_opened \<Rightarrow> 'w wire \<Rightarrow> 'w ssh_session" where
  "session_start opened w = \<lparr>ps_wire = w, ps_queue = [], ps_taken = [], ps_running = True, ps_opened = opened\<rparr>"

definition session_push :: "pump_command \<Rightarrow> 'w ssh_session \<Rightarrow> unit rdt_result \<times> 'w ssh_session" where
  "session_push cmd s =
     (if ps_running s then (Inr (), s\<lparr>ps_queue := ps_queue s @ [cmd]\<rparr>)
      else (fail ESessionState (lit ''the session is closed''), s))"

definition session_send :: "u8 list \<Rightarrow> 'w ssh_session \<Rightarrow> unit rdt_result \<times> 'w ssh_session" where
  "session_send bytes = session_push (Cmd_Send bytes)"

definition session_resize :: "terminal_size \<Rightarrow> 'w ssh_session \<Rightarrow> unit rdt_result \<times> 'w ssh_session" where
  "session_resize sz = session_push (Cmd_Window sz)"

definition session_send_eof :: "'w ssh_session \<Rightarrow> unit rdt_result \<times> 'w ssh_session" where
  "session_send_eof = session_push Cmd_Eof"

definition session_size :: "'w ssh_session \<Rightarrow> terminal_size" where
  "session_size s = sd_size (ps_opened s)"

text \<open>The task carries out the commands it takes; a request that fails, and \<open>Disconnect\<close>, end it.\<close>

definition pump_request :: "pump_command \<Rightarrow> ssh_request list" where
  "pump_request cmd =
     (case cmd of
        Cmd_Send bytes \<Rightarrow> [Send_Data bytes]
      | Cmd_Window sz \<Rightarrow> [Window_Change (ts_cols sz) (ts_rows sz)]
      | Cmd_Eof \<Rightarrow> [Send_Eof]
      | Cmd_Close \<Rightarrow> [Close_Channel, End_Session])"

fun pump_calls :: "'w server \<Rightarrow> ssh_request list \<Rightarrow> ('w, unit) wire_run" where
  "pump_calls sv [] w = (Inr (), w)"
| "pump_calls sv (req # reqs) w =
     (case ssh_call sv req w of (r, w1) \<Rightarrow>
        (case pump_calls sv reqs w1 of (r2, w2) \<Rightarrow> ((case r of Inl e \<Rightarrow> Inl e | Inr _ \<Rightarrow> r2), w2)))"

definition pump_run :: "'w server \<Rightarrow> pump_command \<Rightarrow> 'w ssh_session \<Rightarrow> 'w ssh_session" where
  "pump_run sv cmd s =
     (case pump_calls sv (pump_request cmd) (ps_wire s) of (r, w) \<Rightarrow>
        (let s1 = s\<lparr>ps_wire := w\<rparr> in
         if cmd = Cmd_Close then s1\<lparr>ps_running := False, ps_queue := []\<rparr>
         else (case r of Inl e \<Rightarrow> s1\<lparr>ps_running := False, ps_queue := []\<rparr> | Inr _ \<Rightarrow> s1)))"

definition pump_take :: "'w server \<Rightarrow> 'w ssh_session \<Rightarrow> 'w ssh_session" where
  "pump_take sv s =
     (case ps_queue s of
        [] \<Rightarrow> s
      | cmd # cmds \<Rightarrow> pump_run sv cmd (s\<lparr>ps_queue := cmds, ps_taken := ps_taken s @ [cmd]\<rparr>))"

text \<open>\<open>disconnect\<close> closes the channel itself, beside the task.\<close>

definition session_disconnect :: "'w server \<Rightarrow> 'w ssh_session \<Rightarrow> unit rdt_result \<times> 'w ssh_session" where
  "session_disconnect sv s =
     (case ssh_call sv End_Session (snd (ssh_call sv Close_Channel (ps_wire s))) of
        (r, w) \<Rightarrow> ((case r of Inl e \<Rightarrow> Inl e | Inr _ \<Rightarrow> Inr ()), s\<lparr>ps_wire := w\<rparr>))"

datatype ssh_act = Do_Send "u8 list" | Do_Resize terminal_size | Do_Eof | Do_Take

definition ssh_exec :: "'w server \<Rightarrow> ssh_act \<Rightarrow> 'w ssh_session \<Rightarrow> 'w ssh_session option" where
  "ssh_exec sv act s =
     Some (case act of
        Do_Send bytes \<Rightarrow> snd (session_send bytes s)
      | Do_Resize sz \<Rightarrow> snd (session_resize sz s)
      | Do_Eof \<Rightarrow> snd (session_send_eof s)
      | Do_Take \<Rightarrow> if ps_running s then pump_take sv s else s)"

definition ssh_accepted :: "ssh_act \<Rightarrow> 'w ssh_session \<Rightarrow> pump_command list" where
  "ssh_accepted act s =
     (case act of
        Do_Send bytes \<Rightarrow> if fst (session_send bytes s) = Inr () then [Cmd_Send bytes] else []
      | Do_Resize sz \<Rightarrow> if fst (session_resize sz s) = Inr () then [Cmd_Window sz] else []
      | Do_Eof \<Rightarrow> if fst (session_send_eof s) = Inr () then [Cmd_Eof] else []
      | Do_Take \<Rightarrow> [])"

end
