(* ===== verification/Ssh_Session_Props.thy ===== *)
theory Ssh_Session_Props
  imports Ssh_Session Ssh_Handler_Props "HOL-Library.Sublist"
begin

text \<open>
  What opening an SSH session sends, and in which order; that nothing is sent before the key of the
  server was found in the database; and that the commands of the user interface reach the server
  in order.
\<close>

section \<open>The script of a connection\<close>

text \<open>The requests of a complete connection, in order.\<close>

definition auth_script :: "ssh_env \<Rightarrow> ssh_connection \<Rightarrow> ssh_request list" where
  "auth_script env c =
     (case sc_auth c of
        AuthNone \<Rightarrow> [Auth_None (sc_username c)]
      | Password source \<Rightarrow>
          (case resolve_secret env source (lit ''password'') of Inr p \<Rightarrow> [Auth_Password (sc_username c) p] | Inl _ \<Rightarrow> [])
      | PrivateKey key \<Rightarrow> (case load_private_key env key of Inr k \<Rightarrow> [Auth_Publickey (sc_username c) k] | Inl _ \<Rightarrow> [])
      | Agent _ \<Rightarrow> []
      | KeyboardInteractive _ \<Rightarrow> [Auth_Interactive (sc_username c), Auth_Respond []])"

definition channel_script :: "ssh_connection \<Rightarrow> ssh_request list" where
  "channel_script c =
     [Open_Session, Request_Pty (sc_term c) (ts_cols (sc_size c)) (ts_rows (sc_size c))]
     @ List.map_filter env_request (sc_environment c) @ [command_request (sc_command c)]"

definition connect_script :: "ssh_env \<Rightarrow> ssh_connection \<Rightarrow> ssh_request list" where
  "connect_script env c = auth_script env c @ channel_script c"

text \<open>A run that sends a prefix of a script, and all of it when it succeeds.\<close>

definition follows :: "ssh_request list \<Rightarrow> ('w, 'a) wire_run \<Rightarrow> bool" where
  "follows script r \<longleftrightarrow>
     (\<forall>w. \<exists>sent. wi_sent (snd (r w)) = wi_sent w @ sent \<and> prefix sent script \<and> (\<forall>x. fst (r w) = Inr x \<longrightarrow> sent = script))"

named_theorems follows_intros \<open>which script a run follows\<close>

lemma followsE:
  assumes "follows script r" and "r w = (x, w')"
  obtains sent where "wi_sent w' = wi_sent w @ sent" and "prefix sent script" and "\<And>y. x = Inr y \<Longrightarrow> sent = script"
proof -
  have "\<exists>sent. wi_sent (snd (r w)) = wi_sent w @ sent \<and> prefix sent script \<and> (\<forall>x. fst (r w) = Inr x \<longrightarrow> sent = script)"
    using assms(1) by (simp add: follows_def)
  with that assms(2) show thesis by auto
qed

lemma followsI:
  "(\<And>w x w'. r w = (x, w') \<Longrightarrow> \<exists>sent. wi_sent w' = wi_sent w @ sent \<and> prefix sent script \<and> (\<forall>y. x = Inr y \<longrightarrow> sent = script))
     \<Longrightarrow> follows script r"
  unfolding follows_def by (metis prod.collapse)

lemma follows_then [follows_intros]:
  assumes "follows s1 r" and "\<And>x. follows s2 (g x)"
  shows "follows (s1 @ s2) (run_then r g)"
proof (rule followsI)
  fix w z w' assume run: "run_then r g w = (z, w')"
  obtain x w1 where r: "r w = (x, w1)" by fastforce
  obtain a where a: "wi_sent w1 = wi_sent w @ a" "prefix a s1" "\<And>y. x = Inr y \<Longrightarrow> a = s1" using followsE [OF assms(1) r] by metis
  show "\<exists>sent. wi_sent w' = wi_sent w @ sent \<and> prefix sent (s1 @ s2) \<and> (\<forall>y. z = Inr y \<longrightarrow> sent = s1 @ s2)"
  proof (cases x)
    case (Inl e)
    with run r a show ?thesis by (auto simp: run_then_def)
  next
    case (Inr y)
    then have "g y w1 = (z, w')" using run r by (simp add: run_then_def)
    from followsE [OF assms(2) this] obtain b where
      b: "wi_sent w' = wi_sent w1 @ b" "prefix b s2" "\<And>y. z = Inr y \<Longrightarrow> b = s2" by metis
    show ?thesis using a(1) a(3) [OF Inr] b by (intro exI [of _ "s1 @ b"]) auto
  qed
qed

lemma follows_pure [follows_intros]: "follows [] (pure_run x)"
  by (simp add: follows_def pure_run_def)

lemma follows_fail: "follows s (pure_run (fail code m))"
  by (simp add: follows_def pure_run_def fail_def)

lemma follows_given [follows_intros]:
  "(\<And>y. x = Inr y \<Longrightarrow> follows s (g y)) \<Longrightarrow> follows s (run_then (pure_run x) g)"
  by (cases x) (simp_all add: run_then_def pure_run_def follows_def)

lemma follows_call [follows_intros]: "follows [req] (ssh_call sv req)"
  by (simp add: follows_def ssh_call_def split: prod.split)

lemma follows_demand [follows_intros]: "follows [req] (ssh_demand sv req m)"
  using follows_then [OF follows_call follows_pure] by (simp add: ssh_demand_def)

lemma follows_done: "follows s r \<Longrightarrow> follows s (run_then r (\<lambda>x. pure_run (h x)))"
  using follows_then [OF _ follows_pure] by fastforce

lemma follows_call_then: "(\<And>x. follows s (g x)) \<Longrightarrow> follows (req # s) (run_then (ssh_call sv req) g)"
  using follows_then [OF follows_call] by fastforce

lemma follows_quiet_then: "follows [] r \<Longrightarrow> (\<And>x. follows s (g x)) \<Longrightarrow> follows s (run_then r g)"
  using follows_then [of "[]" r s g] by simp

lemma authenticate_follows: "follows (auth_script env c) (authenticate env sv c)"
proof (cases "sc_auth c")
  case (KeyboardInteractive source)
  have "follows ([Auth_Interactive (sc_username c)] @ [Auth_Respond []]) (authenticate env sv c)"
    unfolding authenticate_def KeyboardInteractive auth_method.case by (intro follows_intros follows_done)
  then show ?thesis by (simp add: auth_script_def KeyboardInteractive)
qed (auto simp: authenticate_def auth_script_def follows_fail follows_call intro!: follows_given follows_demand follows_done simp del: lit_simps)

lemma request_env_follows: "follows (List.map_filter env_request vs) (request_env sv vs)"
proof (induction vs)
  case (Cons v vs)
  show ?case
  proof (cases "env_request v")
    case None
    with Cons show ?thesis by (simp add: follows_def map_filter_simps)
  next
    case (Some req)
    have call: "wi_sent (snd (ssh_call sv req w)) = wi_sent w @ [req]" for w by (simp add: ssh_call_def split: prod.split)
    show ?thesis
    proof (rule followsI)
      fix w x w' assume "request_env sv (v # vs) w = (x, w')"
      then have "request_env sv vs (snd (ssh_call sv req w)) = (x, w')" using Some by simp
      from followsE [OF Cons this] obtain b where
        "wi_sent w' = wi_sent (snd (ssh_call sv req w)) @ b" "prefix b (List.map_filter env_request vs)"
        "\<And>y. x = Inr y \<Longrightarrow> b = List.map_filter env_request vs" by metis
      then show "\<exists>sent. wi_sent w' = wi_sent w @ sent \<and> prefix sent (List.map_filter env_request (v # vs))
          \<and> (\<forall>y. x = Inr y \<longrightarrow> sent = List.map_filter env_request (v # vs))"
        using Some call by (intro exI [of _ "req # b"]) (simp add: map_filter_simps)
    qed
  qed
qed (simp add: follows_def map_filter_simps)

lemma handshake_follows: "follows [] (handshake cd u sv c db)"
proof -
  have "follows [] (server_hello sv c)" "follows [] (server_finish sv c)"
    by (simp_all add: follows_def server_hello_def server_finish_def split: prod.split)
  then show ?thesis unfolding handshake_def
    by (intro follows_quiet_then follows_given follows_done)
qed

text \<open>What \<open>connect\<close> does after the handshake.\<close>

definition after_handshake :: "ssh_env \<Rightarrow> 'w server \<Rightarrow> ssh_connection \<Rightarrow> client_handler \<Rightarrow> ('w, ssh_opened) wire_run" where
  "after_handshake env sv c h =
     run_then (authenticate env sv c) (\<lambda>_.
     run_then (ssh_call sv Open_Session) (\<lambda>_.
     run_then (ssh_call sv (Request_Pty (sc_term c) (ts_cols (sc_size c)) (ts_rows (sc_size c)))) (\<lambda>_.
     run_then (request_env sv (sc_environment c)) (\<lambda>_.
     run_then (ssh_call sv (command_request (sc_command c))) (\<lambda>_.
       pure_run (Inr \<lparr>sd_fingerprint = ch_accepted h, sd_size = sc_size c\<rparr>))))))"

lemma connect_parts:
  assumes "trim (sc_host c) \<noteq> []" and "trim (sc_username c) \<noteq> []"
  shows "ssh_connect cd u env sv c =
    run_then (pure_run (load_known_hosts cd env c)) (\<lambda>db. run_then (handshake cd u sv c db) (after_handshake env sv c))"
  using assms by (simp add: ssh_connect_def after_handshake_def [abs_def])

lemma after_handshake_follows: "follows (connect_script env c) (after_handshake env sv c h)"
  unfolding after_handshake_def connect_script_def channel_script_def append_Cons append_Nil
  by (intro follows_then [OF authenticate_follows] follows_call_then follows_then [OF request_env_follows] follows_done follows_call)

lemma handshake_Inr:
  assumes "handshake cd u sv c db w = (Inr h, w')"
  shows "\<exists>key_type key p. sv_hello sv (ssh_config c) (ssh_address c) (wi_peer w) = (Attempt_Done (key_type, key), p)
     \<and> known_hosts_check cd u db (sc_host c) (sc_port c) key_type key = Trusted
     \<and> ch_accepted h = Some (fingerprint cd key) \<and> wi_sent w' = wi_sent w"
proof -
  from assms obtain offer w1 w2 where
    1: "server_hello sv c w = (Inr offer, w1)"
    and 2: "host_key_verdict cd u sv c db offer = Inr h"
    and 3: "server_finish sv c w1 = (Inr (), w2)" "w' = w2"
    by (auto simp: handshake_def run_then_Inr pure_run_def)
  obtain p where p: "sv_hello sv (ssh_config c) (ssh_address c) (wi_peer w) = (Attempt_Done offer, p)" "wi_sent w1 = wi_sent w"
    using 1 by (auto simp: server_hello_def attempt_result_def ssh_timed_out_def fail_def split: prod.splits attempt.splits)
  moreover have "wi_sent w2 = wi_sent w1" using 3 by (auto simp: server_finish_def split: prod.splits)
  moreover have "known_hosts_check cd u db (sc_host c) (sc_port c) (fst offer) (snd offer) = Trusted
      \<and> ch_accepted h = Some (fingerprint cd (snd offer))"
    using 2 by (auto simp: host_key_verdict_def Let_def ref_verify_iff handler_new_def ssh_timed_out_def fail_def
        split: if_splits sum.splits)
  ultimately show ?thesis using 3(2) by (cases offer) auto
qed

lemma connect_cases:
  assumes "ssh_connect cd u env sv c w = (r, w')"
  obtains (refused) e where "r = Inl e" and "wi_sent w' = wi_sent w"
  | (shaken) db h w1 where "trim (sc_host c) \<noteq> []" and "trim (sc_username c) \<noteq> []" and "load_known_hosts cd env c = Inr db"
    and "handshake cd u sv c db w = (Inr h, w1)" and "after_handshake env sv c h w1 = (r, w')"
proof (cases "trim (sc_host c) = [] \<or> trim (sc_username c) = [] \<or> (\<exists>e. load_known_hosts cd env c = Inl e)")
  case True
  with assms have "(\<exists>e. r = Inl e) \<and> wi_sent w' = wi_sent w"
    by (auto simp: ssh_connect_def pure_run_def fail_def run_then_def split: if_splits)
  with refused show ?thesis by blast
next
  case False
  then obtain db where db: "load_known_hosts cd env c = Inr db" by (cases "load_known_hosts cd env c") auto
  obtain x w1 where h: "handshake cd u sv c db w = (x, w1)" by fastforce
  have run: "run_then (handshake cd u sv c db) (after_handshake env sv c) w = (r, w')"
    using assms False db by (simp add: connect_parts run_then_def pure_run_def)
  show ?thesis
  proof (cases x)
    case (Inl e)
    from followsE [OF handshake_follows h] have "wi_sent w1 = wi_sent w" by (metis append_Nil2 prefix_Nil)
    with run h Inl show ?thesis by (intro refused [of e]) (simp_all add: run_then_def)
  next
    case (Inr y)
    with run h False db show ?thesis by (intro shaken [of db y w1]) (simp_all add: run_then_def)
  qed
qed

text \<open>C31: Opening a session sends its requests in a fixed order, and nothing before the key of the server was
  found in the database of known hosts: whatever the server answers, what was sent is a prefix of the
  login, the channel, the terminal, the environment variables and the command; all of it when the
  session was opened. The fingerprint that is reported is that of the trusted key.\<close>

theorem connect_only_after_checks:
  assumes "ssh_connect cd u env sv c w = (r, w')"
  shows "\<exists>sent. wi_sent w' = wi_sent w @ sent \<and> prefix sent (connect_script env c)
     \<and> (\<forall>opened. r = Inr opened \<longrightarrow> sent = connect_script env c)
     \<and> (sent \<noteq> [] \<longrightarrow> (\<exists>db key_type key p. load_known_hosts cd env c = Inr db
          \<and> sv_hello sv (ssh_config c) (ssh_address c) (wi_peer w) = (Attempt_Done (key_type, key), p)
          \<and> known_hosts_check cd u db (sc_host c) (sc_port c) key_type key = Trusted
          \<and> (\<forall>opened. r = Inr opened \<longrightarrow> sd_fingerprint opened = Some (fingerprint cd key))))"
  using assms
proof (cases rule: connect_cases)
  case (refused e)
  then show ?thesis by (intro exI [of _ "[]"]) simp
next
  case (shaken db h w1)
  from followsE [OF after_handshake_follows shaken(5)] obtain sent where sent: "wi_sent w' = wi_sent w1 @ sent"
    "prefix sent (connect_script env c)" "\<And>y. r = Inr y \<Longrightarrow> sent = connect_script env c" by metis
  from handshake_Inr [OF shaken(4)] obtain key_type key p where
    key: "sv_hello sv (ssh_config c) (ssh_address c) (wi_peer w) = (Attempt_Done (key_type, key), p)"
    "known_hosts_check cd u db (sc_host c) (sc_port c) key_type key = Trusted" "ch_accepted h = Some (fingerprint cd key)"
    "wi_sent w1 = wi_sent w" by blast
  have "sd_fingerprint opened = Some (fingerprint cd key)" if "r = Inr opened" for opened
    using shaken(5) that key(3) by (auto simp: after_handshake_def run_then_Inr pure_run_def)
  with sent key shaken(3) show ?thesis by (intro exI [of _ sent]) auto
qed

section \<open>The commands of a session\<close>

definition ssh_channel :: "'w ssh_session \<Rightarrow> pump_command channel" where
  "ssh_channel s = \<lparr>cl_running = ps_running s, cl_queue = ps_queue s, cl_taken = ps_taken s\<rparr>"

lemma pump_calls_sent: "wi_sent (snd (pump_calls sv reqs w)) = wi_sent w @ reqs"
proof (induction reqs arbitrary: w)
  case (Cons req reqs)
  obtain r w1 where 1: "ssh_call sv req w = (r, w1)" by fastforce
  then have "wi_sent w1 = wi_sent w @ [req]" by (auto simp: ssh_call_def split: prod.splits)
  moreover obtain r2 w2 where "pump_calls sv reqs w1 = (r2, w2)" by fastforce
  ultimately show ?case using Cons [of w1] 1 by simp
qed simp

lemma pump_run_channel:
  "ps_running s \<Longrightarrow> ssh_channel (pump_run sv cmd s) = ssh_channel s \<and> cmd \<noteq> Cmd_Close
     \<or> ssh_channel (pump_run sv cmd s) = \<lparr>cl_running = False, cl_queue = [], cl_taken = ps_taken s\<rparr>"
  by (auto simp: pump_run_def ssh_channel_def Let_def split: prod.splits sum.splits)

lemma pump_run_sent: "wi_sent (ps_wire (pump_run sv cmd s)) = wi_sent (ps_wire s) @ pump_request cmd"
  using pump_calls_sent [of sv "pump_request cmd" "ps_wire s"]
  by (auto simp: pump_run_def Let_def split: prod.splits sum.splits)

lemma session_push_steps:
  "channel_step Cmd_Close (ssh_channel s) (if fst (session_push c s) = Inr () then [c] else []) (ssh_channel (snd (session_push c s)))"
  using channel_step.stay [of Cmd_Close "ssh_channel s"] channel_step.push [of "ssh_channel s" Cmd_Close c]
  by (auto simp: session_push_def fail_def ssh_channel_def)

lemma pump_take_steps:
  assumes "ps_running s"
  shows "channel_step Cmd_Close (ssh_channel s) [] (ssh_channel (pump_take sv s))"
proof (cases "ps_queue s")
  case Nil
  then show ?thesis by (simp add: pump_take_def channel_step.stay)
next
  case (Cons c cs)
  let ?s = "s\<lparr>ps_queue := cs, ps_taken := ps_taken s @ [c]\<rparr>"
  have "pump_take sv s = pump_run sv c ?s" using Cons by (simp add: pump_take_def)
  moreover note pump_run_channel [of ?s sv c] channel_step.take [of "ssh_channel s" c cs Cmd_Close]
    channel_step.last [of "ssh_channel s" c cs Cmd_Close]
  ultimately show ?thesis using assms Cons by (auto simp: ssh_channel_def)
qed

lemma ssh_exec_steps:
  assumes "ssh_exec sv act s = Some s'"
  shows "channel_step Cmd_Close (ssh_channel s) (ssh_accepted act s) (ssh_channel s')"
proof (cases act)
  case (Do_Send bytes)
  with assms session_push_steps [of s "Cmd_Send bytes"] show ?thesis by (simp add: ssh_exec_def ssh_accepted_def session_send_def)
next
  case (Do_Resize sz)
  with assms session_push_steps [of s "Cmd_Window sz"] show ?thesis by (simp add: ssh_exec_def ssh_accepted_def session_resize_def)
next
  case Do_Eof
  with assms session_push_steps [of s Cmd_Eof] show ?thesis by (simp add: ssh_exec_def ssh_accepted_def session_send_eof_def)
next
  case Do_Take
  with assms pump_take_steps [of s sv] channel_step.stay [of Cmd_Close "ssh_channel s"] show ?thesis
    by (cases "ps_running s") (simp_all add: ssh_exec_def ssh_accepted_def)
qed

interpretation ssh_task: task_channel "ssh_exec sv" ssh_accepted ssh_channel Cmd_Close for sv
  by unfold_locales (rule ssh_exec_steps)

definition sent_since :: "ssh_request list \<Rightarrow> 'w ssh_session \<Rightarrow> bool" where
  "sent_since base s \<longleftrightarrow> wi_sent (ps_wire s) = base @ concat (map pump_request (ps_taken s))"

lemma ssh_exec_sent: "ssh_exec sv act s = Some s' \<Longrightarrow> sent_since base s \<Longrightarrow> sent_since base s'"
  by (auto simp: ssh_exec_def sent_since_def session_send_def session_resize_def session_send_eof_def session_push_def
      pump_take_def pump_run_sent split: ssh_act.splits if_splits list.splits)
    (simp_all add: pump_run_def Let_def split: prod.splits sum.splits if_splits)

lemma ssh_history_sent:
  "act_history (ssh_exec sv) ssh_accepted acts s = Some (s', cs) \<Longrightarrow> sent_since base s \<Longrightarrow> sent_since base s'"
proof (induction acts arbitrary: s cs)
  case (Cons act acts)
  then obtain s1 ds where "ssh_exec sv act s = Some s1" "act_history (ssh_exec sv) ssh_accepted acts s1 = Some (s', ds)"
    by (auto split: option.splits)
  with Cons.IH ssh_exec_sent Cons.prems(2) show ?case by blast
qed simp

lemma ssh_history_total: "\<exists>s' cs. act_history (ssh_exec sv) ssh_accepted acts s = Some (s', cs)"
proof (induction acts arbitrary: s)
  case (Cons act acts)
  obtain s1 where 1: "ssh_exec sv act s = Some s1" by (simp add: ssh_exec_def)
  obtain s' cs where "act_history (ssh_exec sv) ssh_accepted acts s1 = Some (s', cs)" using Cons by blast
  with 1 show ?case by simp
qed simp

text \<open>What the client asks for, action by action, and the requests of the protocol it means.\<close>

definition act_commands :: "ssh_act \<Rightarrow> pump_command list" where
  "act_commands act =
     (case act of Do_Send bytes \<Rightarrow> [Cmd_Send bytes] | Do_Resize sz \<Rightarrow> [Cmd_Window sz] | Do_Eof \<Rightarrow> [Cmd_Eof] | Do_Take \<Rightarrow> [])"

definition act_requests :: "ssh_act \<Rightarrow> ssh_request list" where
  "act_requests act =
     (case act of
        Do_Send bytes \<Rightarrow> [Send_Data bytes]
      | Do_Resize sz \<Rightarrow> [Window_Change (ts_cols sz) (ts_rows sz)]
      | Do_Eof \<Rightarrow> [Send_Eof]
      | Do_Take \<Rightarrow> [])"

lemma meant_requests: "concat (map pump_request (act_commands act)) = act_requests act"
  by (simp add: act_commands_def act_requests_def pump_request_def split: ssh_act.split)

lemma meant_requests_all: "concat (map pump_request (concat (map act_commands acts))) = concat (map act_requests acts)"
  by (induction acts) (simp_all add: meant_requests)

lemma exec_accepts:
  "ssh_exec sv act s = Some s' \<Longrightarrow>
     ssh_accepted act s = (if ps_running s then act_commands act else []) \<and> (ps_running s' \<longrightarrow> ps_running s)"
  by (auto simp: ssh_exec_def ssh_accepted_def act_commands_def session_send_def session_resize_def session_send_eof_def
      session_push_def fail_def split: ssh_act.splits if_splits)

lemma history_accepts:
  "act_history (ssh_exec sv) ssh_accepted acts s = Some (s', cs) \<Longrightarrow>
     prefix cs (concat (map act_commands acts)) \<and> (\<not> ps_running s \<longrightarrow> cs = [])
     \<and> (ps_running s' \<longrightarrow> ps_running s \<and> cs = concat (map act_commands acts))"
proof (induction acts arbitrary: s cs)
  case (Cons act acts)
  then obtain s1 ds where 1: "ssh_exec sv act s = Some s1" "act_history (ssh_exec sv) ssh_accepted acts s1 = Some (s', ds)"
    "cs = ssh_accepted act s @ ds" by (auto split: option.splits)
  from Cons.IH [OF 1(2)] exec_accepts [OF 1(1)] 1(3) show ?case by auto
qed simp

text \<open>A server that carries out every request leaves the task running.\<close>

definition serves_all :: "'w server \<Rightarrow> bool" where
  "serves_all sv \<longleftrightarrow> (\<forall>req v. \<exists>b v'. sv_request sv req v = (Inr b, v'))"

lemma serves_calls: "serves_all sv \<Longrightarrow> \<exists>w'. pump_calls sv reqs w = (Inr (), w')"
proof (induction reqs arbitrary: w)
  case (Cons req reqs)
  obtain b v' where "sv_request sv req (wi_peer w) = (Inr b, v')" using Cons.prems unfolding serves_all_def by blast
  then have "ssh_call sv req w = (Inr b, \<lparr>wi_peer = v', wi_sent = wi_sent w @ [req]\<rparr>)" by (simp add: ssh_call_def)
  moreover obtain w' where "pump_calls sv reqs \<lparr>wi_peer = v', wi_sent = wi_sent w @ [req]\<rparr> = (Inr (), w')"
    using Cons by blast
  ultimately show ?case by simp
qed simp

definition no_close :: "'w ssh_session \<Rightarrow> bool" where
  "no_close s \<longleftrightarrow> ps_running s \<and> Cmd_Close \<notin> set (ps_queue s)"

lemma serves_exec: "serves_all sv \<Longrightarrow> ssh_exec sv act s = Some s' \<Longrightarrow> no_close s \<Longrightarrow> no_close s'"
proof -
  assume sv: "serves_all sv" and ex: "ssh_exec sv act s = Some s'" and s: "no_close s"
  obtain w' where "pump_calls sv (pump_request (hd (ps_queue s))) (ps_wire s) = (Inr (), w')"
    using serves_calls [OF sv] by blast
  with ex s show "no_close s'"
    by (cases act; cases "ps_queue s")
      (auto simp: ssh_exec_def no_close_def session_send_def session_resize_def session_send_eof_def session_push_def
        pump_take_def pump_run_def Let_def)
qed

lemma serves_history:
  "act_history (ssh_exec sv) ssh_accepted acts s = Some (s', cs) \<Longrightarrow> serves_all sv \<Longrightarrow> no_close s \<Longrightarrow> no_close s'"
proof (induction acts arbitrary: s cs)
  case (Cons act acts)
  then obtain s1 ds where "ssh_exec sv act s = Some s1" "act_history (ssh_exec sv) ssh_accepted acts s1 = Some (s', ds)"
    by (auto split: option.splits)
  with Cons.IH serves_exec Cons.prems show ?case by blast
qed simp

lemma queue_commands:
  assumes "concat (map act_commands acts) = taken @ queue"
  shows "length (concat (map pump_request queue)) = length queue"
proof -
  have "Cmd_Close \<notin> set (concat (map act_commands acts))"
    by (auto simp: act_commands_def split: ssh_act.splits)
  then have "Cmd_Close \<notin> set queue" using assms by simp
  then show ?thesis by (induction queue) (auto simp: pump_request_def split: pump_command.split)
qed

text \<open>C32: The input of the user reaches the server in order. However the calls of the client and the steps of
  the task interleave, the requests sent on an open session are a prefix of those the client asked
  for: the bytes of a \<open>send\<close> as channel data, a \<open>resize\<close> as a change of the window with its columns and
  rows, a \<open>send_eof\<close> as the end of the input, each once. While the task runs, the requests not yet sent
  are those of the commands that wait; and it keeps running when the server carries out every request.\<close>

theorem input_reaches_server_in_order:
  "\<exists>s accepted sent waiting. act_history (ssh_exec sv) ssh_accepted acts (session_start opened w) = Some (s, accepted)
     \<and> wi_sent (ps_wire s) = wi_sent w @ sent
     \<and> concat (map (\<lambda>act. case act of
           Do_Send bytes \<Rightarrow> [Send_Data bytes]
         | Do_Resize sz \<Rightarrow> [Window_Change (ts_cols sz) (ts_rows sz)]
         | Do_Eof \<Rightarrow> [Send_Eof]
         | Do_Take \<Rightarrow> []) acts) = sent @ waiting
     \<and> (ps_running s \<longrightarrow> length waiting = length (ps_queue s))
     \<and> ((\<forall>req v. \<exists>b v'. sv_request sv req v = (Inr b, v')) \<longrightarrow> ps_running s)"
proof -
  let ?s0 = "session_start opened w"
  obtain s accepted where h: "act_history (ssh_exec sv) ssh_accepted acts ?s0 = Some (s, accepted)"
    using ssh_history_total by blast
  have "cl_taken (ssh_channel ?s0) = []" "cl_queue (ssh_channel ?s0) = []" by (simp_all add: ssh_channel_def session_start_def)
  from ssh_task.in_order [OF h this] obtain rest where rest: "accepted = ps_taken s @ rest" "ps_running s \<longrightarrow> rest = ps_queue s"
    by (auto simp: ssh_channel_def)
  note acc = history_accepts [OF h]
  from acc obtain more where more: "concat (map act_commands acts) = ps_taken s @ rest @ more"
    unfolding rest(1) prefix_def by auto
  define waiting where "waiting = concat (map pump_request (rest @ more))"
  have all: "concat (map act_requests acts) = concat (map pump_request (ps_taken s)) @ waiting"
    unfolding meant_requests_all [symmetric] more waiting_def by simp
  have live: "ps_running s" if "\<forall>req v. \<exists>b v'. sv_request sv req v = (Inr b, v')"
  proof -
    have "serves_all sv" unfolding serves_all_def by (rule that)
    moreover have "no_close ?s0" by (simp add: no_close_def session_start_def)
    ultimately show ?thesis using serves_history [OF h] unfolding no_close_def by blast
  qed
  have "length waiting = length (ps_queue s)" if "ps_running s"
    using that acc rest more queue_commands [of acts "ps_taken s" "ps_queue s"] unfolding waiting_def by simp
  moreover have "wi_sent (ps_wire s) = wi_sent w @ concat (map pump_request (ps_taken s))"
    using ssh_history_sent [OF h, of "wi_sent w"] by (simp add: sent_since_def session_start_def)
  moreover have "(\<forall>req v. \<exists>b v'. sv_request sv req v = (Inr b, v')) \<longrightarrow> ps_running s"
    by (rule impI) (rule live)
  ultimately show ?thesis using h all [unfolded act_requests_def]
    by - (rule exI [of _ s], rule exI [of _ accepted], rule exI [of _ "concat (map pump_request (ps_taken s))"],
      rule exI [of _ waiting], intro conjI impI; blast)
qed

section \<open>Where the code departs from its comments\<close>

text \<open>A key that the database does not know ends the attempt under every policy, without a request: the
  question whether to accept it waits in a queue that nobody reads before \<open>connect\<close> returns.\<close>

lemma unknown_host_never_connects:
  assumes "trim (sc_host c) \<noteq> []" and "trim (sc_username c) \<noteq> []" and "load_known_hosts cd env c = Inr db"
    and "sv_hello sv (ssh_config c) (ssh_address c) (wi_peer w) = (Attempt_Done (key_type, key), p)"
    and "known_hosts_check cd u db (sc_host c) (sc_port c) key_type key = Unknown"
  shows "\<exists>e. ssh_connect cd u env sv c w = (Inl e, w\<lparr>wi_peer := p\<rparr>) \<and> (sc_policy c = AcceptNew \<longrightarrow> e_code e = ETimeout)"
proof -
  have "\<exists>e. host_key_verdict cd u sv c db (key_type, key) = Inl e \<and> (sc_policy c = AcceptNew \<longrightarrow> e_code e = ETimeout)"
    using assms(5) by (simp add: host_key_verdict_def ref_verify_host_key_def decide_def handler_new_def Let_def fail_def
        ssh_timed_out_def status_is_fatal_def error_new_def del: lit_simps)
  with assms show ?thesis
    by (auto simp: connect_parts run_then_def pure_run_def handshake_def server_hello_def attempt_result_def)
qed

text \<open>Only the answers to passwords and public keys are looked at.\<close>

lemma refused_login_is_ignored:
  assumes "sc_auth c = AuthNone" and "sv_request sv (Auth_None (sc_username c)) (wi_peer w) = (Inr False, p)"
  shows "authenticate env sv c w = (Inr (), \<lparr>wi_peer = p, wi_sent = wi_sent w @ [Auth_None (sc_username c)]\<rparr>)"
  using assms by (simp add: authenticate_def run_then_def ssh_call_def pure_run_def)

lemma interactive_login_sends_nothing: "sc_auth c = KeyboardInteractive source \<Longrightarrow>
   auth_script env c = [Auth_Interactive (sc_username c), Auth_Respond []]"
  by (simp add: auth_script_def)

lemma agent_never_authenticates: "sc_auth c = Agent identity \<Longrightarrow> \<exists>e. authenticate env sv c w = (Inl e, w)"
  by (simp add: authenticate_def pure_run_def fail_def)

text \<open>The current size of the terminal is the one of the connection, whatever was requested since.\<close>

lemma resize_is_not_seen: "session_size (pump_take sv (snd (session_resize sz s))) = session_size s"
  by (simp add: session_size_def session_resize_def session_push_def pump_take_def pump_run_def Let_def
      split: list.split prod.split sum.split)

section \<open>Examples\<close>

definition toy_known_hosts :: known_hosts where
  "toy_known_hosts = \<lparr>db_entries = [\<lparr>kh_marker = NoMarker, kh_patterns = [lit ''h''], kh_key_type = lit ''k'', kh_key = [7],
     kh_comment = lit ''me'', kh_line = 1\<rparr>], db_path = None\<rparr>"

definition toy_env :: ssh_env where
  "toy_env = \<lparr>se_host = \<lparr>ho_env = \<lambda>_. None, ho_tmp = [], ho_uid = 0, ho_euid = 0, ho_exists = \<lambda>_. False, ho_is_dir = \<lambda>_. False,
     ho_is_file = \<lambda>_. False, ho_mode = \<lambda>_. None, ho_read = \<lambda>_. None, ho_append = \<lambda>_. Inr (), ho_mkdir = \<lambda>_. Inr (),
     ho_chmod_dir = \<lambda>_. Inr (), ho_version = [], ho_name = [], ho_arch = []\<rparr>, se_known_hosts = \<lambda>_. Inr (known_hosts_to_string toy_codec toy_known_hosts),
     se_key_file = \<lambda>_. Inl [], se_decode = \<lambda>_ _. Inl [], se_fetch = \<lambda>_. Inr (Some (lit ''pw''))\<rparr>"

definition toy_server :: "unit server" where
  "toy_server = \<lparr>sv_hello = \<lambda>_ _ _. (Attempt_Done (lit ''k'', [7]), ()), sv_finish = \<lambda>_. (Attempt_Done (), ()),
     sv_refusal = \<lambda>e. (Re_Other, []), sv_request = \<lambda>_ _. (Inr True, ())\<rparr>"

definition toy_connection :: ssh_connection where
  "toy_connection = connection_new (lit ''h'') 22 (lit ''u'') (Password (Stored \<lparr>ss_backend = OsKeystore, ss_key = lit ''x''\<rparr>))
     (ssh_options_default\<lparr>so_known_hosts := Some (lit ''/kh''), so_environment := [lit ''A=b'', lit ''C'']\<rparr>)
     InteractiveShell terminal_size_default"

lemma toy_known_hosts_load:
  "load_known_hosts toy_codec toy_env toy_connection = Inr (with_path (lit ''/kh'') toy_known_hosts)"
proof -
  have laws: "base64_laws toy_codec" by (auto simp: base64_laws_def toy_codec_def comp_def word_def is_whitespace_def)
  have "\<forall>e \<in> set (db_entries toy_known_hosts). wf_entry e"
    unfolding toy_known_hosts_def wf_entry_def by (auto simp: word_def is_whitespace_def intro!: exI [of _ "[lit ''me'']"])
  from known_hosts_round_trip [OF laws this] have
    "known_hosts_parse toy_codec (known_hosts_to_string toy_codec toy_known_hosts) = toy_known_hosts"
    by (simp add: toy_known_hosts_def)
  then show ?thesis
    by (simp add: load_known_hosts_def toy_connection_def connection_new_def known_hosts_load_def toy_env_def del: lit_simps)
qed

lemma toy_key_trusted:
  "known_hosts_check toy_codec ascii_unicode (with_path p toy_known_hosts) (lit ''h'') 22 (lit ''k'') [7] = Trusted"
proof -
  have "candidate ascii_unicode (lit ''h'') 22 = lit ''h''"
    by (simp add: candidate_def ascii_unicode_def to_ascii_lowercase_def ascii_lower_def is_ascii_upper_def)
  moreover have "plain_host (lit ''h'')" by (simp add: plain_host_def is_ascii_lower_def)
  ultimately have "entry_matches toy_codec ascii_unicode (hd (db_entries toy_known_hosts)) (lit ''h'') 22"
    using candidate_matches [of ascii_unicode "lit ''h''" toy_codec NoMarker 22 "lit ''k''" "[7]" "lit ''me''" 1]
    by (simp add: toy_known_hosts_def)
  then show ?thesis unfolding known_hosts_check_def
    by (intro check_loop_accepts) (simp_all add: with_path_def toy_known_hosts_def del: lit_simps)
qed

lemma toy_parts:
  "sv_hello toy_server cfg addr v = (Attempt_Done (lit ''k'', [7]), ())" "sv_finish toy_server v = (Attempt_Done (), ())"
  "sv_request toy_server req v = (Inr True, ())" "se_fetch toy_env ref = Inr (Some (lit ''pw''))"
  by (simp_all add: toy_server_def toy_env_def)

lemma toy_fields:
  "sc_host toy_connection = lit ''h''" "sc_port toy_connection = 22" "sc_username toy_connection = lit ''u''"
  "sc_auth toy_connection = Password (Stored \<lparr>ss_backend = OsKeystore, ss_key = lit ''x''\<rparr>)"
  "sc_environment toy_connection = [lit ''A=b'', lit ''C'']" "sc_command toy_connection = InteractiveShell"
  "sc_term toy_connection = lit ''xterm-256color''" "sc_size toy_connection = \<lparr>ts_cols = 80, ts_rows = 24\<rparr>"
  by (simp_all add: toy_connection_def connection_new_def ssh_options_default_def terminal_options_default_def terminal_size_default_def)

lemma toy_env_requests: "env_request (lit ''A=b'') = Some (Set_Env (lit ''A'') (lit ''b''))" "env_request (lit ''C'') = None"
  by (simp_all add: env_request_def split_once_def)

lemma toy_connects: "\<exists>opened w'. ssh_connect toy_codec ascii_unicode toy_env toy_server toy_connection \<lparr>wi_peer = (), wi_sent = []\<rparr> = (Inr opened, w')"
proof -
  have "trim (sc_host toy_connection) \<noteq> []" "trim (sc_username toy_connection) \<noteq> []"
    by (simp_all add: toy_fields trim_no_whitespace is_whitespace_def)
  then show ?thesis
    by (simp add: connect_parts toy_known_hosts_load run_then_def pure_run_def handshake_def server_hello_def server_finish_def
        host_key_verdict_def ref_verify_host_key_def handler_new_def attempt_result_def toy_parts toy_fields toy_key_trusted
        after_handshake_def authenticate_def resolve_secret_def ssh_demand_def ssh_call_def toy_env_requests
        del: lit_simps)
qed

theorem connect_only_after_checks_witness:
  "\<exists>opened w'. ssh_connect toy_codec ascii_unicode toy_env toy_server toy_connection \<lparr>wi_peer = (), wi_sent = []\<rparr> = (Inr opened, w')
     \<and> wi_sent w' = [Auth_Password (lit ''u'') (lit ''pw''), Open_Session, Request_Pty (lit ''xterm-256color'') 80 24,
         Set_Env (lit ''A'') (lit ''b''), Request_Shell]"
proof -
  obtain opened w' where r: "ssh_connect toy_codec ascii_unicode toy_env toy_server toy_connection \<lparr>wi_peer = (), wi_sent = []\<rparr>
      = (Inr opened, w')" using toy_connects by blast
  have "connect_script toy_env toy_connection = [Auth_Password (lit ''u'') (lit ''pw''), Open_Session,
      Request_Pty (lit ''xterm-256color'') 80 24, Set_Env (lit ''A'') (lit ''b''), Request_Shell]"
    by (simp add: connect_script_def auth_script_def channel_script_def toy_fields resolve_secret_def toy_parts
        toy_env_requests map_filter_simps command_request_def del: lit_simps)
  with connect_only_after_checks [OF r] r show ?thesis by auto
qed

theorem input_reaches_server_in_order_witness:
  "\<forall>opened. \<exists>s accepted. act_history (ssh_exec toy_server) ssh_accepted
       [Do_Send [104], Do_Resize \<lparr>ts_cols = 100, ts_rows = 30\<rparr>, Do_Take, Do_Take, Do_Eof]
       (session_start opened \<lparr>wi_peer = (), wi_sent = []\<rparr>) = Some (s, accepted)
     \<and> ps_running s \<and> wi_sent (ps_wire s) = [Send_Data [104], Window_Change 100 30]"
proof
  fix opened
  let ?acts = "[Do_Send [104], Do_Resize \<lparr>ts_cols = 100, ts_rows = 30\<rparr>, Do_Take, Do_Take, Do_Eof]"
  let ?start = "session_start opened \<lparr>wi_peer = (), wi_sent = []\<rparr>"
  obtain s accepted sent waiting where
    h: "act_history (ssh_exec toy_server) ssh_accepted ?acts ?start = Some (s, accepted)"
    and sent: "wi_sent (ps_wire s) = sent"
    and all: "[Send_Data [104], Window_Change 100 30, Send_Eof] = sent @ waiting"
    and waiting: "length waiting = length (ps_queue s)" and runs: "ps_running s"
    using input_reaches_server_in_order [of toy_server ?acts opened "\<lparr>wi_peer = (), wi_sent = []\<rparr>"]
    by (auto simp: toy_parts)
  have "ps_queue s = [Cmd_Eof]"
    using h by (auto simp: ssh_exec_def session_send_def session_resize_def session_send_eof_def session_push_def
        session_start_def pump_take_def pump_run_def pump_request_def ssh_call_def toy_parts Let_def split: if_splits)
  with waiting obtain v where "waiting = [v]" by (cases waiting) auto
  with all have "sent = [Send_Data [104], Window_Change 100 30]" by (cases sent rule: rev_cases) auto
  with h sent runs show "\<exists>s accepted. act_history (ssh_exec toy_server) ssh_accepted ?acts ?start = Some (s, accepted)
     \<and> ps_running s \<and> wi_sent (ps_wire s) = [Send_Data [104], Window_Change 100 30]" by blast
qed

end
