(* ===== verification/Ssh_Agent.thy ===== *)
theory Ssh_Agent
  imports Plat_System
begin

text \<open>
  Locating the SSH agent, \<open>crates/rdt-ssh/src/agent.rs\<close>, on Unix: the socket that \<open>SSH_AUTH_SOCK\<close> names
  has to belong to the user and must not be writable by others. The parameter \<open>lstat\<close> is what
  \<open>symlink_metadata\<close> answers for a path: an error text, or the mode and the owner of the file.
\<close>

record file_meta =
  fm_mode :: u32
  fm_uid :: nat

datatype agent_transport = UnixSocket ustring | NamedPipe ustring

definition transport_display :: "agent_transport \<Rightarrow> ustring" where
  "transport_display t = (case t of UnixSocket path \<Rightarrow> path | NamedPipe name \<Rightarrow> name)"

fun show_octal :: "nat \<Rightarrow> ustring" where
  "show_octal n = (if n < 8 then [48 + n] else show_octal (n div 8) @ [48 + n mod 8])"

declare show_octal.simps [simp del]

text \<open>The constants are \<open>S_IFSOCK\<close> (octal 140000), and the masks 777 and 022.\<close>

definition verify_socket_permissions :: "(ustring \<Rightarrow> ustring + file_meta) \<Rightarrow> nat \<Rightarrow> ustring \<Rightarrow> unit rdt_result" where
  "verify_socket_permissions lstat uid path =
     (case lstat path of
        Inl e \<Rightarrow> fail EIo (lit ''cannot inspect the agent socket: '' @ e)
      | Inr metadata \<Rightarrow>
          if and (fm_mode metadata) 0xC000 = 0 then
            fail EPermission (lit ''SSH_AUTH_SOCK does not point at a socket'')
          else if fm_uid metadata \<noteq> uid then
            fail EPermission (lit ''the agent socket is owned by another user'')
          else
            (let mode = and (fm_mode metadata) 0x1FF in
             if and mode 0x12 \<noteq> 0 then
               fail EPermission (lit ''the agent socket is writable by others (mode '' @ show_octal (unat mode) @ lit '')'')
             else Inr ()))"

definition agent_detect :: "host \<Rightarrow> (ustring \<Rightarrow> ustring + file_meta) \<Rightarrow> agent_transport rdt_result" where
  "agent_detect ho lstat =
     (case ho_env ho (lit ''SSH_AUTH_SOCK'') of
        None \<Rightarrow> fail EAuthentication (lit ''SSH_AUTH_SOCK is not set'')
      | Some value \<Rightarrow>
          if trim value = [] then fail EAuthentication (lit ''SSH_AUTH_SOCK is empty'')
          else and_then (verify_socket_permissions lstat (ho_uid ho) value) (\<lambda>_. Inr (UnixSocket value)))"

section \<open>Who can replace the socket\<close>

text \<open>The bits of the mode by which the group and others may write, and the two upper ones of its type: a
  socket has both, a regular file the first, a directory the second.\<close>

definition group_writable :: "u32 \<Rightarrow> bool" where
  "group_writable mode \<longleftrightarrow> bit mode 4"

definition other_writable :: "u32 \<Rightarrow> bool" where
  "other_writable mode \<longleftrightarrow> bit mode 1"

lemma and_two_bits:
  fixes mode :: u32
  assumes "i < 32" and "j < 32"
  shows "and mode (or (2 ^ i) (2 ^ j)) = 0 \<longleftrightarrow> \<not> bit mode i \<and> \<not> bit mode j"
  using assms by (auto simp: bit_eq_iff [where ?'a = "32 word"] bit_simps)

lemma write_mask: "and (and mode 0x1FF) 0x12 = 0 \<longleftrightarrow> \<not> group_writable mode \<and> \<not> other_writable mode"
  using and_two_bits [of 4 1 mode] by (simp add: and.assoc group_writable_def other_writable_def)

lemma socket_mask: "and (mode :: u32) 0xC000 = 0 \<longleftrightarrow> \<not> bit mode 15 \<and> \<not> bit mode 14"
  using and_two_bits [of 15 14 mode] by simp

text \<open>The agent socket is used exactly when \<open>SSH_AUTH_SOCK\<close> names a file whose type has a bit of a socket,
  which the user owns and neither the group nor others can write; so no other user than root can
  replace what is behind it.\<close>

theorem accepted_socket_is_private:
  "agent_detect ho lstat = Inr t \<longleftrightarrow>
     (\<exists>path meta. ho_env ho (lit ''SSH_AUTH_SOCK'') = Some path \<and> trim path \<noteq> [] \<and> t = UnixSocket path
        \<and> lstat path = Inr meta \<and> (bit (fm_mode meta) 15 \<or> bit (fm_mode meta) 14) \<and> fm_uid meta = ho_uid ho
        \<and> \<not> group_writable (fm_mode meta) \<and> \<not> other_writable (fm_mode meta))"
proof -
  have "verify_socket_permissions lstat uid path = Inr () \<longleftrightarrow>
      (\<exists>meta. lstat path = Inr meta \<and> (bit (fm_mode meta) 15 \<or> bit (fm_mode meta) 14) \<and> fm_uid meta = uid
        \<and> \<not> group_writable (fm_mode meta) \<and> \<not> other_writable (fm_mode meta))" for uid path
    by (auto simp: verify_socket_permissions_def Let_def fail_def write_mask socket_mask simp del: lit_simps split: sum.splits)
  then show ?thesis
    by (cases "ho_env ho (lit ''SSH_AUTH_SOCK'')")
      (auto simp: agent_detect_def fail_def and_then_Inr simp del: lit_simps)
qed

text \<open>The test for a socket takes any of its type bits, which regular files and directories share.\<close>

lemma regular_file_passes_as_socket:
  "lstat path = Inr \<lparr>fm_mode = 0x8180, fm_uid = uid\<rparr> \<Longrightarrow> verify_socket_permissions lstat uid path = Inr ()"
  "lstat path = Inr \<lparr>fm_mode = 0x41C0, fm_uid = uid\<rparr> \<Longrightarrow> verify_socket_permissions lstat uid path = Inr ()"
  by (simp_all add: verify_socket_permissions_def)

end
