(* ===== verification/Rdt_Agent.thy ===== *)
theory Rdt_Agent
  imports Sess_Manager Rdt_Config
begin

text \<open>
  The headless agent, \<open>crates/rdt-agent/src/lib.rs\<close>: the commands of its control socket, their handling,
  and the loop that accepts connections and answers their lines. JSON is the parameter \<open>agent_json\<close>.
  Connections are served by concurrent tasks, each of which handles one line at a time: a history is a
  list of events of any connection. A panic of the handler ends the task of its connection.
\<close>

section \<open>Commands and replies\<close>

datatype agent_command =
    Agent_Status
  | Agent_List
  | Agent_Connect ustring
  | Agent_Disconnect ustring
  | Agent_Reload

record reply =
  rl_ok :: bool
  rl_message :: ustring
  rl_code :: "ustring option"

definition reply_success :: "ustring \<Rightarrow> reply" where
  "reply_success message = \<lparr>rl_ok = True, rl_message = message, rl_code = None\<rparr>"

definition reply_failure :: "rdt_error \<Rightarrow> reply" where
  "reply_failure e =
     \<lparr>rl_ok = False, rl_message = error_display e, rl_code = Some (lit (code_str (e_code e)))\<rparr>"

record agent_json =
  aj_command :: "ustring \<Rightarrow> ustring + agent_command"
  aj_reply :: "reply \<Rightarrow> ustring option"
  aj_sessions :: "session_info list \<Rightarrow> ustring option"

text \<open>The agent, its files and the audit log, which it shares with the manager. \<open>ac_banner\<close> is the text
  of the status, made of the version and the platform; \<open>ac_now\<close> the time.\<close>

record agent =
  ag_config :: config_store
  ag_sessions :: manager
  ag_disk :: fs

record 'v agent_env =
  ac_json :: agent_json
  ac_toml :: "'v toml"
  ac_banner :: ustring
  ac_now :: u64
  ac_uid :: nat

definition agent_record :: "audit_event \<Rightarrow> agent \<Rightarrow> agent" where
  "agent_record e a = a\<lparr>ag_sessions := (ag_sessions a)\<lparr>mg_audit := mg_audit (ag_sessions a) @ [e]\<rparr>\<rparr>"

text \<open>The result is \<open>None\<close> where parsing an identifier panics.\<close>

definition agent_handle :: "'v agent_env \<Rightarrow> agent_command \<Rightarrow> agent \<Rightarrow> (reply rdt_result \<times> agent) option" where
  "agent_handle env command a =
     (case command of
        Agent_Status \<Rightarrow> Some (Inr (reply_success (ac_banner env)), a)
      | Agent_List \<Rightarrow>
          Some (Inr (reply_success
            (case aj_sessions (ac_json env) (manager_list (ag_sessions a)) of Some t \<Rightarrow> t | None \<Rightarrow> lit ''[]'')), a)
      | Agent_Connect text \<Rightarrow>
          (case id_from_str text of
             None \<Rightarrow> None
           | Some (Inl _) \<Rightarrow> Some (fail EInvalidInput (lit ''the profile identifier is not valid''), a)
           | Some (Inr i) \<Rightarrow>
               (case find_profile i (ag_config a) of
                  None \<Rightarrow> Some (fail ENotFound (lit ''no profile with that identifier''), a)
                | Some p \<Rightarrow>
                    Some (Inr (reply_success (lit ''connecting to '' @ profile_address p)),
                      agent_record (with_profile (id_display i)
                        (event_new (ac_now env) SessionConnect InfoOnly (profile_address p))) a)))
      | Agent_Disconnect text \<Rightarrow>
          (case id_from_str text of
             None \<Rightarrow> None
           | Some (Inl _) \<Rightarrow> Some (fail EInvalidInput (lit ''the session identifier is not valid''), a)
           | Some (Inr i) \<Rightarrow>
               Some (Inr (reply_success (lit ''the session was disconnected'')),
                 a\<lparr>ag_sessions := manager_cancel (ac_now env) i (ag_sessions a)\<rparr>))
      | Agent_Reload \<Rightarrow>
          (case config_reload (ac_toml env) (ag_config a) (ag_disk a) of
             ((Inl e, st), s) \<Rightarrow>
               Some ((case e of
                        Missing \<Rightarrow> fail EConfig (lit ''the configuration file is missing'')
                      | LoadFailed err \<Rightarrow> Inl err),
                 a\<lparr>ag_config := st, ag_disk := s\<rparr>)
           | ((Inr _, st), s) \<Rightarrow>
               Some (Inr (reply_success (lit ''the configuration was reloaded'')), a\<lparr>ag_config := st, ag_disk := s\<rparr>)))"

text \<open>One line of a connection: the text that is written back.\<close>

definition answer_line :: "'v agent_env \<Rightarrow> ustring \<Rightarrow> agent \<Rightarrow> (ustring \<times> agent) option" where
  "answer_line env text a =
     (case (case aj_command (ac_json env) text of
              Inr command \<Rightarrow>
                (case agent_handle env command a of
                   None \<Rightarrow> None
                 | Some (Inr r, a') \<Rightarrow> Some (r, a')
                 | Some (Inl e, a') \<Rightarrow> Some (reply_failure e, a'))
            | Inl e \<Rightarrow>
                Some (\<lparr>rl_ok = False, rl_message = lit ''cannot parse the command: '' @ e,
                       rl_code = Some (lit (code_str EInvalidInput))\<rparr>, a)) of
        None \<Rightarrow> None
      | Some (r, a') \<Rightarrow> Some ((case aj_reply (ac_json env) r of Some t \<Rightarrow> t | None \<Rightarrow> []) @ [10], a'))"

section \<open>Connections\<close>

definition verify_peer :: "nat \<Rightarrow> nat option \<Rightarrow> unit rdt_result" where
  "verify_peer uid credentials =
     (case credentials of
        None \<Rightarrow> fail EPermission (lit ''cannot read the peer credentials of the control connection'')
      | Some peer \<Rightarrow>
          if peer \<noteq> uid then
            fail EPermission (lit ''the control connection came from uid '' @ show_nat peer
              @ lit '' but the agent runs as '' @ show_nat uid)
          else Inr ())"

text \<open>A connection that was accepted: who opened it, whether its task still runs, the lines it handled
  and what was written to it.\<close>

record control =
  ct_peer :: "nat option"
  ct_open :: bool
  ct_lines :: "ustring list"
  ct_written :: "ustring list"

record served =
  sr_agent :: agent
  sr_controls :: "control list"

text \<open>The events: a peer connects; a line of connection \<open>i\<close> is complete, and writing its reply succeeds
  or fails; connection \<open>i\<close> ends, or its text is not UTF-8.\<close>

datatype control_event = Ev_Accept "nat option" | Ev_Line nat ustring bool | Ev_Hangup nat

definition accept_control :: "'v agent_env \<Rightarrow> nat option \<Rightarrow> served \<Rightarrow> served" where
  "accept_control env peer s =
     (case verify_peer (ac_uid env) peer of
        Inl e \<Rightarrow> s
      | Inr _ \<Rightarrow>
          s\<lparr>sr_controls := sr_controls s @ [\<lparr>ct_peer = peer, ct_open = True, ct_lines = [], ct_written = []\<rparr>]\<rparr>)"

definition set_control :: "nat \<Rightarrow> control \<Rightarrow> served \<Rightarrow> served" where
  "set_control i c s = s\<lparr>sr_controls := (sr_controls s)[i := c]\<rparr>"

definition serve_line :: "'v agent_env \<Rightarrow> nat \<Rightarrow> ustring \<Rightarrow> bool \<Rightarrow> served \<Rightarrow> served" where
  "serve_line env i text ok s =
     (let c = sr_controls s ! i in
      if i < length (sr_controls s) \<and> ct_open c then
        (let c1 = c\<lparr>ct_lines := ct_lines c @ [text]\<rparr> in
         case answer_line env text (sr_agent s) of
           None \<Rightarrow> set_control i (c1\<lparr>ct_open := False\<rparr>) s
         | Some (t, a) \<Rightarrow>
             set_control i (if ok then c1\<lparr>ct_written := ct_written c @ [t]\<rparr> else c1\<lparr>ct_open := False\<rparr>) (s\<lparr>sr_agent := a\<rparr>))
      else s)"

definition hang_up :: "nat \<Rightarrow> served \<Rightarrow> served" where
  "hang_up i s =
     (if i < length (sr_controls s) then set_control i ((sr_controls s ! i)\<lparr>ct_open := False\<rparr>) s else s)"

definition serve_event :: "'v agent_env \<Rightarrow> control_event \<Rightarrow> served \<Rightarrow> served" where
  "serve_event env e s =
     (case e of
        Ev_Accept peer \<Rightarrow> accept_control env peer s
      | Ev_Line i text ok \<Rightarrow> serve_line env i text ok s
      | Ev_Hangup i \<Rightarrow> hang_up i s)"

definition serve_events :: "'v agent_env \<Rightarrow> control_event list \<Rightarrow> served \<Rightarrow> served" where
  "serve_events env es s = fold (serve_event env) es s"

text \<open>Before the loop the runtime directory is created and restricted, an old socket is removed, and the
  new one is bound and restricted: \<open>steps\<close> are the outcomes of these calls, \<open>parent\<close> the directory, if any.\<close>

record socket_steps =
  sk_mkdir :: "ustring + unit"
  sk_restrict_dir :: "ustring + unit"
  sk_bind :: "ustring + unit"
  sk_restrict :: "ustring + unit"

definition open_socket :: "ustring \<Rightarrow> bool \<Rightarrow> socket_steps \<Rightarrow> unit rdt_result" where
  "open_socket socket has_parent st =
     (let step = (\<lambda>r code what. case r of Inl e \<Rightarrow> fail code (what @ e) | Inr _ \<Rightarrow> Inr ()) in
      and_then (if has_parent then and_then (step (sk_mkdir st) EIo []) (\<lambda>_. step (sk_restrict_dir st) EPermission [])
                else Inr ()) (\<lambda>_.
      and_then (step (sk_bind st) EIo (lit ''cannot bind '' @ socket @ lit '': '')) (\<lambda>_.
        step (sk_restrict st) EPermission [])))"

end
