(* ===== verification/Rdt_Agent_Props.thy ===== *)
theory Rdt_Agent_Props
  imports Rdt_Agent
begin

text \<open>
  What the control socket promises in every history of its connections: only the owner of the agent
  is served, every handled line is answered once, and commands end sessions but open none.
\<close>

definition served_start :: "agent \<Rightarrow> served" where
  "served_start a = \<lparr>sr_agent = a, sr_controls = []\<rparr>"

section \<open>Connections\<close>

definition control_ok :: "nat \<Rightarrow> control \<Rightarrow> bool" where
  "control_ok uid c \<longleftrightarrow> ct_peer c = Some uid
     \<and> length (ct_lines c) \<le> Suc (length (ct_written c)) \<and> length (ct_written c) \<le> length (ct_lines c)
     \<and> (ct_open c \<longrightarrow> length (ct_written c) = length (ct_lines c))
     \<and> list_all (\<lambda>t. t \<noteq> [] \<and> last t = 10) (ct_written c)"

definition controls_ok :: "nat \<Rightarrow> served \<Rightarrow> bool" where
  "controls_ok uid s \<longleftrightarrow> list_all (control_ok uid) (sr_controls s)"

lemma verify_peer_Inr: "verify_peer uid peer = Inr u \<longleftrightarrow> peer = Some uid"
  by (auto simp: verify_peer_def fail_def split: option.splits)

lemma accept_control_ok: "controls_ok (ac_uid env) s \<Longrightarrow> controls_ok (ac_uid env) (accept_control env peer s)"
  by (auto simp: accept_control_def controls_ok_def control_ok_def verify_peer_Inr split: sum.split)

lemma set_control_ok: "controls_ok uid s \<Longrightarrow> control_ok uid c \<Longrightarrow> controls_ok uid (set_control i c s)"
  unfolding controls_ok_def set_control_def list_all_iff by (auto dest: set_update_subset_insert [THEN subsetD])

lemma control_at: "controls_ok uid s \<Longrightarrow> i < length (sr_controls s) \<Longrightarrow> control_ok uid (sr_controls s ! i)"
  by (simp add: controls_ok_def list_all_length)

lemma answer_line_ends: "answer_line env text a = Some (t, a') \<Longrightarrow> t \<noteq> [] \<and> last t = 10"
  by (auto simp: answer_line_def split: option.splits sum.splits prod.splits)

lemma controls_ok_agent: "controls_ok uid (s\<lparr>sr_agent := a\<rparr>) = controls_ok uid s"
  by (simp add: controls_ok_def)

lemma serve_line_ok:
  assumes "controls_ok uid s"
  shows "controls_ok uid (serve_line env i text ok s)"
proof (cases "i < length (sr_controls s) \<and> ct_open (sr_controls s ! i)")
  case True
  note c = control_at [OF assms, of i]
  show ?thesis
  proof (cases "answer_line env text (sr_agent s)")
    case None
    with True c assms show ?thesis by (simp add: serve_line_def Let_def) (rule set_control_ok; simp add: control_ok_def)
  next
    case (Some r)
    obtain t a where r: "r = (t, a)" by fastforce
    have "controls_ok uid (s\<lparr>sr_agent := a\<rparr>)" using assms by (simp add: controls_ok_agent)
    moreover have "control_ok uid (if ok then (sr_controls s ! i)\<lparr>ct_lines := ct_lines (sr_controls s ! i) @ [text],
        ct_written := ct_written (sr_controls s ! i) @ [t]\<rparr>
        else (sr_controls s ! i)\<lparr>ct_lines := ct_lines (sr_controls s ! i) @ [text], ct_open := False\<rparr>)"
      using c True answer_line_ends [of env "text" "sr_agent s" t a] Some r by (simp add: control_ok_def)
    ultimately show ?thesis using True Some r by (simp add: serve_line_def Let_def set_control_ok)
  qed
next
  case False
  with assms show ?thesis by (auto simp: serve_line_def Let_def)
qed

lemma hang_up_ok: "controls_ok uid s \<Longrightarrow> controls_ok uid (hang_up i s)"
proof (cases "i < length (sr_controls s)")
  case True
  assume ok: "controls_ok uid s"
  from control_at [OF ok True] have "control_ok uid ((sr_controls s ! i)\<lparr>ct_open := False\<rparr>)" by (simp add: control_ok_def)
  with ok True show ?thesis by (simp add: hang_up_def set_control_ok)
qed (simp add: hang_up_def)

lemma serve_events_ok: "controls_ok (ac_uid env) s \<Longrightarrow> controls_ok (ac_uid env) (serve_events env es s)"
  unfolding serve_events_def
  by (induction es arbitrary: s) (simp_all add: serve_event_def accept_control_ok serve_line_ok hang_up_ok split: control_event.split)

text \<open>Without a connection nothing is handled.\<close>

lemma unserved:
  assumes "sr_controls s = []" and "\<forall>peer. Ev_Accept peer \<in> set es \<longrightarrow> peer \<noteq> Some (ac_uid env)"
  shows "serve_events env es s = s"
  using assms
proof (induction es arbitrary: s)
  case (Cons e es)
  have "serve_event env e s = s"
    using Cons.prems by (cases e)
      (auto simp: serve_event_def accept_control_def serve_line_def hang_up_def verify_peer_Inr Let_def split: sum.splits)
  with Cons show ?case by (simp add: serve_events_def)
qed (simp add: serve_events_def)

text \<open>C33: Only the owner of the agent is served. In every interleaving of connections, lines and failures,
  a connection that was accepted belongs to the user of the agent; its lines are answered one by one,
  each reply one line of text, and only the line at which it ends can stay without a reply. As
  long as nobody with this user connects, no command is handled at all.\<close>

theorem only_owner_is_served:
  "(\<forall>c \<in> set (sr_controls (serve_events env es (served_start a))).
       ct_peer c = Some (ac_uid env)
     \<and> (ct_open c \<longrightarrow> length (ct_written c) = length (ct_lines c))
     \<and> length (ct_lines c) \<le> Suc (length (ct_written c))
     \<and> (\<forall>t \<in> set (ct_written c). t \<noteq> [] \<and> last t = 10))
   \<and> ((\<forall>peer. Ev_Accept peer \<in> set es \<longrightarrow> peer \<noteq> Some (ac_uid env)) \<longrightarrow>
       sr_agent (serve_events env es (served_start a)) = a)"
proof -
  have "controls_ok (ac_uid env) (serve_events env es (served_start a))"
    by (rule serve_events_ok) (simp add: controls_ok_def served_start_def)
  then show ?thesis using unserved [of "served_start a" es env]
    by (simp add: controls_ok_def control_ok_def list_all_iff served_start_def)
qed

section \<open>Commands\<close>

lemma sessions_left_record: "sessions_left (ag_sessions a) (ag_sessions (agent_record e a))"
  by (simp add: sessions_left_def agent_record_def)

lemma handle_sessions: "agent_handle env command a = Some (r, a') \<Longrightarrow> sessions_left (ag_sessions a) (ag_sessions a')"
  by (cases command)
    (auto simp: agent_handle_def sessions_left_refl sessions_left_record sessions_left_cancel simp del: lit_simps
      split: option.splits sum.splits prod.splits)

lemma answer_sessions: "answer_line env line a = Some (t, a') \<Longrightarrow> sessions_left (ag_sessions a) (ag_sessions a')"
  by (auto simp: answer_line_def sessions_left_refl split: option.splits sum.splits prod.splits dest: handle_sessions)

lemma serve_event_sessions: "sessions_left (ag_sessions (sr_agent s)) (ag_sessions (sr_agent (serve_event env e s)))"
  by (cases e) (auto simp: serve_event_def accept_control_def serve_line_def hang_up_def set_control_def Let_def sessions_left_refl
      split: sum.split option.split prod.split dest: answer_sessions)

lemma serve_events_sessions: "sessions_left (ag_sessions (sr_agent s)) (ag_sessions (sr_agent (serve_events env es s)))"
proof (induction es arbitrary: s)
  case (Cons e es)
  from sessions_left_trans [OF serve_event_sessions Cons] show ?case by (simp add: serve_events_def)
qed (simp add: serve_events_def sessions_left_refl)

lemma cancel_effects:
  assumes "map_of (mg_sessions m) i = Some slot"
  shows "manager_get i (manager_cancel now i m) = None \<and> sl_cancel slot \<in> set (mg_cancelled (manager_cancel now i m))"
  using assms by (simp add: cancel_fields manager_get_def AList.delete_conv' del: lit_simps)

lemma cancel_audited:
  "mp_audit (mg_policy m) \<Longrightarrow> \<exists>e \<in> set (mg_audit (manager_cancel now i m)). ae_session e = Some (id_display i) \<and> ae_kind e = SessionClosed"
  by (simp add: cancel_fields audit_kind_of_def with_session_def event_new_def del: lit_simps)

text \<open>Commands end sessions and never open or change one: after any history of connections every session
  of the manager is one it had before, unchanged. Disconnecting a session that exists removes it,
  fires its cancellation token and leaves an event with its identifier in the audit log.\<close>

theorem commands_only_end_sessions:
  "sessions_left (ag_sessions (sr_agent s)) (ag_sessions (sr_agent (serve_events env es s)))
   \<and> (length i = id_bytes \<longrightarrow> map_of (mg_sessions (ag_sessions a)) i = Some slot \<longrightarrow> mp_audit (mg_policy (ag_sessions a)) \<longrightarrow>
       (\<exists>r a'. agent_handle env (Agent_Disconnect (id_display i)) a = Some (Inr r, a') \<and> rl_ok r
          \<and> manager_get i (ag_sessions a') = None \<and> sl_cancel slot \<in> set (mg_cancelled (ag_sessions a'))
          \<and> (\<exists>e \<in> set (mg_audit (ag_sessions a')). ae_session e = Some (id_display i) \<and> ae_kind e = SessionClosed)))"
proof (intro conjI impI)
  assume i: "length i = id_bytes" "map_of (mg_sessions (ag_sessions a)) i = Some slot" "mp_audit (mg_policy (ag_sessions a))"
  have "agent_handle env (Agent_Disconnect (id_display i)) a
      = Some (Inr (reply_success (lit ''the session was disconnected'')), a\<lparr>ag_sessions := manager_cancel (ac_now env) i (ag_sessions a)\<rparr>)"
    by (simp add: agent_handle_def id_round_trip [OF i(1)] del: lit_simps)
  with cancel_effects [OF i(2)] cancel_audited [OF i(3), of "ac_now env" i] show "\<exists>r a'.
      agent_handle env (Agent_Disconnect (id_display i)) a = Some (Inr r, a') \<and> rl_ok r
      \<and> manager_get i (ag_sessions a') = None \<and> sl_cancel slot \<in> set (mg_cancelled (ag_sessions a'))
      \<and> (\<exists>e \<in> set (mg_audit (ag_sessions a')). ae_session e = Some (id_display i) \<and> ae_kind e = SessionClosed)"
    by (simp add: reply_success_def del: lit_simps)
qed (rule serve_events_sessions)

section \<open>Where the code departs from its comments\<close>

text \<open>A connect command answers that it connects, and connects nothing.\<close>

lemma connect_opens_nothing:
  assumes "length i = id_bytes" and "find_profile i (ag_config a) = Some p"
  shows "\<exists>r a'. agent_handle env (Agent_Connect (id_display i)) a = Some (Inr r, a') \<and> rl_ok r
     \<and> mg_sessions (ag_sessions a') = mg_sessions (ag_sessions a) \<and> mg_events (ag_sessions a') = mg_events (ag_sessions a)"
  by (simp add: agent_handle_def id_round_trip [OF assms(1)] assms(2) reply_success_def agent_record_def del: lit_simps)

text \<open>Disconnecting a session that does not exist succeeds, and is audited as a closed session.\<close>

lemma unknown_session_is_disconnected:
  assumes "length i = id_bytes" and "map_of (mg_sessions (ag_sessions a)) i = None"
  shows "\<exists>r a'. agent_handle env (Agent_Disconnect (id_display i)) a = Some (Inr r, a') \<and> rl_ok r
     \<and> mg_events (ag_sessions a') = mg_events (ag_sessions a) @ [(i, Cancelled, lit ''cancelled by the user'')]"
  using assms(2) by (simp add: agent_handle_def id_round_trip [OF assms(1)] reply_success_def cancel_fields
      del: lit_simps)

section \<open>Examples\<close>

definition toy_agent_env :: "unit agent_env" where
  "toy_agent_env = \<lparr>ac_json = \<lparr>aj_command = \<lambda>t. Inr Agent_Status, aj_reply = \<lambda>r. Some (rl_message r), aj_sessions = \<lambda>_. None\<rparr>,
     ac_toml = \<lparr>tm_version = \<lambda>_. None, tm_value = \<lambda>_. Inl [], tm_stamp = \<lambda>_ v. v, tm_print = \<lambda>_. Inl [],
       tm_decode = \<lambda>_. Inl [], tm_encode = \<lambda>_. Inl []\<rparr>,
     ac_banner = lit ''rdt-agent'', ac_now = 0, ac_uid = 5\<rparr>"

definition toy_agent :: agent where
  "toy_agent = \<lparr>ag_config = in_memory, ag_sessions = \<lparr>mg_sessions = [(replicate id_bytes 1,
       \<lparr>sl_info = \<lparr>si_id = replicate id_bytes 1, si_profile = None, si_protocol = Ssh, si_address = [], si_state = Connected,
          si_detail = [], si_started = 0, si_attempt = 0\<rparr>, sl_commands = 0, sl_cancel = 9\<rparr>)],
       mg_policy = manager_policy_default, mg_events = [], mg_audit = [], mg_cancelled = []\<rparr>,
     ag_disk = \<lparr>fs_files = Map.empty, fs_faults = []\<rparr>\<rparr>"

theorem only_owner_is_served_witness:
  "map ct_written (sr_controls (serve_events toy_agent_env [Ev_Accept (Some 6), Ev_Accept (Some 5), Ev_Line 0 (lit ''x'') True]
       (served_start toy_agent))) = [[lit ''rdt-agent'' @ [10]]]
   \<and> ct_peer (hd (sr_controls (serve_events toy_agent_env [Ev_Accept (Some 6), Ev_Accept (Some 5), Ev_Line 0 (lit ''x'') True]
       (served_start toy_agent)))) = Some 5"
proof -
  let ?s = "serve_events toy_agent_env [Ev_Accept (Some 6), Ev_Accept (Some 5), Ev_Line 0 (lit ''x'') True] (served_start toy_agent)"
  have s: "map ct_written (sr_controls ?s) = [[lit ''rdt-agent'' @ [10]]]"
    by (simp add: serve_events_def serve_event_def accept_control_def verify_peer_def fail_def serve_line_def served_start_def
        toy_agent_env_def answer_line_def agent_handle_def reply_success_def set_control_def Let_def del: lit_simps)
  then have "hd (sr_controls ?s) \<in> set (sr_controls ?s)" by (cases "sr_controls ?s") auto
  with only_owner_is_served [of toy_agent_env "[Ev_Accept (Some 6), Ev_Accept (Some 5), Ev_Line 0 (lit ''x'') True]" toy_agent]
  have "ct_peer (hd (sr_controls ?s)) = Some (ac_uid toy_agent_env)" by blast
  with s show ?thesis by (simp add: toy_agent_env_def del: lit_simps)
qed

theorem commands_only_end_sessions_witness:
  "\<exists>r a'. agent_handle toy_agent_env (Agent_Disconnect (id_display (replicate id_bytes 1))) toy_agent = Some (Inr r, a')
     \<and> 9 \<in> set (mg_cancelled (ag_sessions a'))"
proof -
  obtain slot where "map_of (mg_sessions (ag_sessions toy_agent)) (replicate id_bytes 1) = Some slot" "sl_cancel slot = 9"
    by (simp add: toy_agent_def)
  moreover have "mp_audit (mg_policy (ag_sessions toy_agent))" by (simp add: toy_agent_def manager_policy_default_def)
  ultimately show ?thesis
    using commands_only_end_sessions [of "served_start toy_agent" toy_agent_env "[]" "replicate id_bytes 1" toy_agent slot] by auto
qed

end
