(* ===== verification/Rdt_Cli.thy ===== *)
theory Rdt_Cli
  imports Rdt_Config Plat_Service
begin

text \<open>
  The command line, \<open>crates/rdt-cli/src/main.rs\<close>: the parser of the arguments, the help text and the
  dispatch to the other crates. A command prints lines and ends with an exit status, \<open>Inr True\<close> for
  success, or an error; it runs on the files and the machine of \<open>Plat_Service\<close>. What the code asks of
  the other crates under names that these do not have (the texts of the platform, the requirements of
  \<open>doctor\<close>, the specification of the service, the keys of the vault) is part of the record \<open>cli_env\<close>.
\<close>

section \<open>Arguments\<close>

datatype invocation =
    Run_Gui
  | Show_Version
  | Show_Help
  | Run_Doctor
  | List_Profiles
  | Open_Ssh ustring
  | Open_Rdp ustring
  | Manage_Service ustring
  | Run_Agent
  | Manage_Vault ustring
  | Show_Config ustring

definition service_actions :: "ustring list" where
  "service_actions = [lit ''install'', lit ''uninstall'', lit ''status'']"

text \<open>\<open>dbg\<close> is the \<open>Debug\<close> format of strings.\<close>

definition cli_parse :: "(ustring \<Rightarrow> ustring) \<Rightarrow> ustring list \<Rightarrow> invocation rdt_result" where
  "cli_parse dbg arguments =
     (case arguments of
        [] \<Rightarrow> Inr Run_Gui
      | first # rest \<Rightarrow>
          if first = lit ''version'' \<or> first = lit ''--version'' \<or> first = lit ''-V'' then Inr Show_Version
          else if first = lit ''help'' \<or> first = lit ''--help'' \<or> first = lit ''-h'' then Inr Show_Help
          else if first = lit ''doctor'' then Inr Run_Doctor
          else if first = lit ''profiles'' then Inr List_Profiles
          else if first = lit ''ssh'' then
            (case rest of [] \<Rightarrow> fail EInvalidInput (lit ''usage: rdt ssh <profile>'') | p # _ \<Rightarrow> Inr (Open_Ssh p))
          else if first = lit ''rdp'' then
            (case rest of [] \<Rightarrow> fail EInvalidInput (lit ''usage: rdt rdp <profile>'') | p # _ \<Rightarrow> Inr (Open_Rdp p))
          else if first = lit ''service'' then
            (case rest of
               [] \<Rightarrow> fail EInvalidInput (lit ''usage: rdt service <install|uninstall|status>'')
             | action # _ \<Rightarrow>
                 if action \<notin> set service_actions then fail EInvalidInput (lit ''unknown service action '' @ dbg action)
                 else Inr (Manage_Service action))
          else if first = lit ''agent'' then Inr Run_Agent
          else if first = lit ''vault'' then
            (case rest of
               [] \<Rightarrow> fail EInvalidInput (lit ''usage: rdt vault <lock|unlock|list>'')
             | action # _ \<Rightarrow> Inr (Manage_Vault action))
          else if first = lit ''config'' then
            Inr (Show_Config (case rest of [] \<Rightarrow> lit ''show'' | action # _ \<Rightarrow> action))
          else fail EInvalidInput (lit ''unknown command '' @ dbg first @ lit ''; run `rdt help`''))"

definition help_lines :: "ustring list" where
  "help_lines =
     [lit ''Remote Desktop Tool '' @ [8212] @ lit '' native SSH and RDP client'',
      [],
      lit ''USAGE:'',
      lit ''    rdt                      start the desktop application'',
      lit ''    rdt ssh <profile>        open an SSH session in the terminal'',
      lit ''    rdt rdp <profile>        open a remote desktop session'',
      lit ''    rdt profiles             list the saved profiles'',
      lit ''    rdt doctor               check the platform and its dependencies'',
      lit ''    rdt service <action>     install | uninstall | status'',
      lit ''    rdt agent                run the headless agent in the foreground'',
      lit ''    rdt vault <action>       lock | unlock | list'',
      lit ''    rdt config [show|path]   print the configuration or its location'',
      lit ''    rdt version              print the version'',
      lit ''    rdt help                 print this message'']"

section \<open>Commands\<close>

record requirement =
  rq_name :: ustring
  rq_detail :: ustring
  rq_present :: bool
  rq_optional :: bool

record ('v, 'w) cli_env =
  ce_dbg :: "ustring \<Rightarrow> ustring"
  ce_version :: ustring
  ce_host :: host
  ce_toml :: "'v toml"
  ce_unicode :: unicode
  ce_run :: "'w command"
  ce_spec :: service_spec
  ce_platform :: ustring
  ce_arch :: ustring
  ce_requirements :: "requirement list"
  ce_vault_keys :: "ustring list rdt_result"
  ce_terminal :: bool
  ce_gui :: "unit rdt_result"
  ce_agent :: "unit rdt_result"

type_synonym 'w cli_step = "fs \<times> 'w \<Rightarrow> (ustring list \<times> bool rdt_result) \<times> fs \<times> 'w"

definition say :: "ustring list \<Rightarrow> bool rdt_result \<Rightarrow> 'w cli_step" where
  "say out r x = ((out, r), x)"

text \<open>The format \<open>{:<n}\<close> pads on the right.\<close>

definition pad_right :: "nat \<Rightarrow> ustring \<Rightarrow> ustring" where
  "pad_right n s = s @ replicate (n - length s) 32"

definition requirement_mark :: "requirement \<Rightarrow> ustring" where
  "requirement_mark q =
     (if rq_present q then lit ''ok'' else if rq_optional q then lit ''optional'' else lit ''missing'')"

definition requirement_line :: "requirement \<Rightarrow> ustring" where
  "requirement_line q = pad_right 8 (requirement_mark q) @ [32] @ rq_name q @ [32, 8212, 32] @ rq_detail q"

definition cli_doctor :: "('v, 'w) cli_env \<Rightarrow> 'w cli_step" where
  "cli_doctor env =
     (let top = [lit ''platform      '' @ ce_platform env, lit ''architecture  '' @ ce_arch env];
          middle = map requirement_line (ce_requirements env);
          failed = list_ex (\<lambda>q. \<not> rq_present q \<and> \<not> rq_optional q) (ce_requirements env)
      in if failed then
           say (top @ middle @ [[], lit ''some required dependencies are missing; see docs/PLATFORMS.md'']) (Inr False)
         else say (top @ middle @ [[], lit ''the platform is ready'']) (Inr True))"

definition cli_paths :: "('v, 'w) cli_env \<Rightarrow> app_paths" where
  "cli_paths env = detect_paths (ce_host env)"

text \<open>Loading the store, with the errors of \<open>LoadError\<close>.\<close>

definition cli_load :: "('v, 'w) cli_env \<Rightarrow> (config_store \<Rightarrow> 'w cli_step) \<Rightarrow> 'w cli_step" where
  "cli_load env next x =
     (case config_load (ce_toml env) (config_file (cli_paths env)) (fst x) of
        (Inl e, s) \<Rightarrow>
          (([], (case e of
                   Rdt_Config.Missing \<Rightarrow> fail EConfig (lit ''no configuration file yet'')
                 | LoadFailed err \<Rightarrow> Inl err)), s, snd x)
      | (Inr store, s) \<Rightarrow> next store (s, snd x))"

definition profile_line :: "profile \<Rightarrow> ustring" where
  "profile_line p =
     id_display (cp_id p) @ lit ''  '' @ pad_right 24 (cp_name p) @ [32] @ pad_right 6 (protocol_str (cp_protocol p)) @ [32]
     @ profile_address p"

definition cli_profiles :: "('v, 'w) cli_env \<Rightarrow> 'w cli_step" where
  "cli_profiles env =
     cli_load env (\<lambda>store.
       (let ps = profiles_in (ce_unicode env) ByName store in
        if ps = [] then say [lit ''no profiles are saved yet''] (Inr True) else say (map profile_line ps) (Inr True)))"

definition cli_config :: "('v, 'w) cli_env \<Rightarrow> ustring \<Rightarrow> 'w cli_step" where
  "cli_config env action =
     (if action = lit ''path'' then say [config_file (cli_paths env)] (Inr True)
      else if action = lit ''show'' then
        cli_load env (\<lambda>store.
          (case to_toml (ce_toml env) store of
             Inl e \<Rightarrow> say [] (Inl e)
           | Inr t \<Rightarrow> say [t] (Inr True)))
      else say [] (fail EInvalidInput (lit ''unknown config action '' @ ce_dbg env action)))"

definition service_state_debug :: "service_state \<Rightarrow> ustring" where
  "service_state_debug s =
     (case s of NotInstalled \<Rightarrow> lit ''NotInstalled'' | ServiceRunning \<Rightarrow> lit ''Running'' | ServiceStopped \<Rightarrow> lit ''Stopped''
      | Transitioning \<Rightarrow> lit ''Transitioning'' | ServiceUnknown \<Rightarrow> lit ''Unknown'')"

definition after_service :: "('a \<Rightarrow> ustring) \<Rightarrow> ('w, 'a) service_run \<Rightarrow> 'w cli_step" where
  "after_service line r x =
     (case r x of (Inl e, y) \<Rightarrow> (([], Inl e), y) | (Inr z, y) \<Rightarrow> (([line z], Inr True), y))"

definition cli_service :: "('v, 'w) cli_env \<Rightarrow> ustring \<Rightarrow> 'w cli_step" where
  "cli_service env action =
     (let sp = ce_spec env; p = cli_paths env in
      if action = lit ''install'' then
        after_service (\<lambda>_. lit ''the '' @ sv_name sp @ lit '' service was installed'')
          (install_service (ce_host env) (ce_run env) sp p)
      else if action = lit ''uninstall'' then
        after_service (\<lambda>_. lit ''the '' @ sv_name sp @ lit '' service was removed'')
          (uninstall_service (ce_host env) (ce_run env) sp p)
      else if action = lit ''status'' then
        after_service service_state_debug (service_status (ce_run env) sp p)
      else say [] (fail EInvalidInput (lit ''unknown service action '' @ ce_dbg env action)))"

definition cli_vault :: "('v, 'w) cli_env \<Rightarrow> ustring \<Rightarrow> 'w cli_step" where
  "cli_vault env action =
     (if action = lit ''list'' then
        (case ce_vault_keys env of Inl e \<Rightarrow> say [] (Inl e) | Inr keys \<Rightarrow> say keys (Inr True))
      else if action = lit ''lock'' then
        say [lit ''the vault is locked whenever the process exits or the idle timer fires''] (Inr True)
      else if action = lit ''unlock'' then
        say [lit ''enter the vault passphrase to unlock it in this shell''] (Inr True)
      else say [] (fail EInvalidInput (lit ''unknown vault action '' @ ce_dbg env action)))"

definition protocol_debug :: "protocol \<Rightarrow> ustring" where
  "protocol_debug p = (case p of Ssh \<Rightarrow> lit ''Ssh'' | Rdp \<Rightarrow> lit ''Rdp'')"

definition cli_connect :: "('v, 'w) cli_env \<Rightarrow> ustring \<Rightarrow> protocol \<Rightarrow> 'w cli_step" where
  "cli_connect env name proto =
     cli_load env (\<lambda>store.
       (case find_by_name name store of
          None \<Rightarrow> say [] (fail ENotFound (lit ''no profile named '' @ ce_dbg env name))
        | Some p \<Rightarrow>
            if cp_protocol p \<noteq> proto then
              say [] (fail EInvalidInput (lit ''profile '' @ ce_dbg env name @ lit '' is a '' @ protocol_debug (cp_protocol p)
                @ lit '' profile; use the matching command''))
            else
              say [lit ''connecting to '' @ profile_address p @ lit '' ('' @ protocol_str (cp_protocol p) @ lit '')'']
                (if ce_terminal env then Inr True
                 else fail EPlatform (lit ''an interactive terminal is required; run `rdt` for the desktop client''))))"

definition exit_unit :: "unit rdt_result \<Rightarrow> bool rdt_result" where
  "exit_unit r = and_then r (\<lambda>_. Inr True)"

definition cli_invoke :: "('v, 'w) cli_env \<Rightarrow> invocation \<Rightarrow> 'w cli_step" where
  "cli_invoke env iv =
     (case iv of
        Show_Help \<Rightarrow> say help_lines (Inr True)
      | Show_Version \<Rightarrow> say [lit ''rdt '' @ ce_version env] (Inr True)
      | Run_Doctor \<Rightarrow> cli_doctor env
      | List_Profiles \<Rightarrow> cli_profiles env
      | Show_Config action \<Rightarrow> cli_config env action
      | Manage_Service action \<Rightarrow> cli_service env action
      | Manage_Vault action \<Rightarrow> cli_vault env action
      | Open_Ssh name \<Rightarrow> cli_connect env name Ssh
      | Open_Rdp name \<Rightarrow> cli_connect env name Rdp
      | Run_Agent \<Rightarrow> say [] (exit_unit (ce_agent env))
      | Run_Gui \<Rightarrow> say [] (exit_unit (ce_gui env)))"

definition cli_run :: "('v, 'w) cli_env \<Rightarrow> ustring list \<Rightarrow> 'w cli_step" where
  "cli_run env arguments =
     (case cli_parse (ce_dbg env) arguments of Inl e \<Rightarrow> say [] (Inl e) | Inr iv \<Rightarrow> cli_invoke env iv)"

text \<open>\<open>main\<close>: the lines of standard output, those of standard error, and whether the process succeeds.\<close>

definition cli_main :: "('v, 'w) cli_env \<Rightarrow> ustring list \<Rightarrow> fs \<times> 'w \<Rightarrow> (ustring list \<times> ustring list \<times> bool) \<times> fs \<times> 'w" where
  "cli_main env arguments x =
     (case cli_run env arguments x of
        ((out, Inr ok), y) \<Rightarrow> ((out, [], ok), y)
      | ((out, Inl e), y) \<Rightarrow> ((out, [lit ''rdt: '' @ error_display e], False), y))"

end
