(* ===== verification/Rdt_Cli_Props.thy ===== *)
theory Rdt_Cli_Props
  imports Rdt_Cli
begin

text \<open>
  What the command line promises: which arguments it accepts and as what, that these are the
  commands of the help text, and what the exit status says.
\<close>

section \<open>Arguments\<close>

definition invocation_ok :: "invocation \<Rightarrow> bool" where
  "invocation_ok iv = (case iv of Manage_Service action \<Rightarrow> action \<in> set service_actions | _ \<Rightarrow> True)"

definition command_word :: "invocation \<Rightarrow> ustring" where
  "command_word iv =
     (case iv of
        Run_Gui \<Rightarrow> [] | Show_Version \<Rightarrow> lit ''version'' | Show_Help \<Rightarrow> lit ''help'' | Run_Doctor \<Rightarrow> lit ''doctor''
      | List_Profiles \<Rightarrow> lit ''profiles'' | Open_Ssh _ \<Rightarrow> lit ''ssh'' | Open_Rdp _ \<Rightarrow> lit ''rdp''
      | Manage_Service _ \<Rightarrow> lit ''service'' | Run_Agent \<Rightarrow> lit ''agent'' | Manage_Vault _ \<Rightarrow> lit ''vault''
      | Show_Config _ \<Rightarrow> lit ''config'')"

definition command_argument :: "invocation \<Rightarrow> ustring list" where
  "command_argument iv =
     (case iv of Open_Ssh a \<Rightarrow> [a] | Open_Rdp a \<Rightarrow> [a] | Manage_Service a \<Rightarrow> [a] | Manage_Vault a \<Rightarrow> [a] | Show_Config a \<Rightarrow> [a]
      | _ \<Rightarrow> [])"

definition command_line :: "invocation \<Rightarrow> ustring list" where
  "command_line iv = (if iv = Run_Gui then [] else command_word iv # command_argument iv)"

lemma parse_command_line: "invocation_ok iv \<Longrightarrow> cli_parse dbg (command_line iv) = Inr iv"
  by (cases iv) (simp_all add: command_line_def command_word_def command_argument_def cli_parse_def invocation_ok_def)

lemma parse_error_code: "cli_parse dbg args = Inl e \<Longrightarrow> e_code e = EInvalidInput"
  by (auto simp: cli_parse_def fail_def simp del: lit_simps split: list.splits if_splits)

text \<open>The grammar of the command line. Arguments after those a command needs are ignored.\<close>

inductive cli_accepts :: "ustring list \<Rightarrow> invocation \<Rightarrow> bool" where
  on_gui: "cli_accepts [] Run_Gui"
| on_version: "w \<in> {lit ''version'', lit ''--version'', lit ''-V''} \<Longrightarrow> cli_accepts (w # rest) Show_Version"
| on_help: "w \<in> {lit ''help'', lit ''--help'', lit ''-h''} \<Longrightarrow> cli_accepts (w # rest) Show_Help"
| on_doctor: "cli_accepts (lit ''doctor'' # rest) Run_Doctor"
| on_profiles: "cli_accepts (lit ''profiles'' # rest) List_Profiles"
| on_ssh: "cli_accepts (lit ''ssh'' # p # rest) (Open_Ssh p)"
| on_rdp: "cli_accepts (lit ''rdp'' # p # rest) (Open_Rdp p)"
| on_service: "a \<in> {lit ''install'', lit ''uninstall'', lit ''status''} \<Longrightarrow> cli_accepts (lit ''service'' # a # rest) (Manage_Service a)"
| on_agent: "cli_accepts (lit ''agent'' # rest) Run_Agent"
| on_vault: "cli_accepts (lit ''vault'' # a # rest) (Manage_Vault a)"
| on_config_shown: "cli_accepts [lit ''config''] (Show_Config (lit ''show''))"
| on_config: "cli_accepts (lit ''config'' # a # rest) (Show_Config a)"

lemma parse_accepts: "cli_parse dbg args = Inr iv \<Longrightarrow> cli_accepts args iv"
  by (auto simp: cli_parse_def fail_def service_actions_def simp del: lit_simps split: list.splits if_splits
      intro: cli_accepts.intros)

lemma accepts_parse: "cli_accepts args iv \<Longrightarrow> cli_parse dbg args = Inr iv"
  by (induction rule: cli_accepts.induct) (auto simp: cli_parse_def service_actions_def)

text \<open>The first words of the usage lines of the help text.\<close>

definition documented :: "ustring \<Rightarrow> bool" where
  "documented w \<longleftrightarrow> w \<noteq> [] \<and> 32 \<notin> set w \<and> (\<exists>l \<in> set help_lines. starts_with (lit ''    rdt '' @ w @ [32]) l)"

definition usage_words :: "ustring list" where
  "usage_words = map (\<lambda>l. takeWhile (\<lambda>c. c \<noteq> 32) (drop 8 l)) (filter (starts_with (lit ''    rdt '')) help_lines)"

lemma usage_words_value:
  "usage_words = [[], lit ''ssh'', lit ''rdp'', lit ''profiles'', lit ''doctor'', lit ''service'', lit ''agent'', lit ''vault'',
     lit ''config'', lit ''version'', lit ''help'']"
  by (simp add: usage_words_def help_lines_def starts_with_def)

lemma documented_words: "documented w \<longleftrightarrow> w \<noteq> [] \<and> w \<in> set usage_words"
proof
  assume d: "documented w"
  then obtain l where l: "l \<in> set help_lines" "starts_with (lit ''    rdt '' @ w @ [32]) l" by (auto simp: documented_def)
  then obtain r where r: "l = (lit ''    rdt '' @ w @ [32]) @ r" by (auto simp: starts_with_iff)
  have "takeWhile (\<lambda>c. c \<noteq> 32) (drop 8 l) = w" unfolding r using d by (auto simp: documented_def takeWhile_append)
  moreover have "starts_with (lit ''    rdt '') l" unfolding r by (simp add: starts_with_iff)
  ultimately show "w \<noteq> [] \<and> w \<in> set usage_words" using l(1) d by (force simp: usage_words_def documented_def)
next
  assume "w \<noteq> [] \<and> w \<in> set usage_words"
  then show "documented w"
    by (auto simp: usage_words_value documented_def help_lines_def starts_with_def)
qed

lemma accepted_words:
  "(\<exists>rest iv. cli_accepts (w # rest) iv) \<longleftrightarrow> documented w \<or> w \<in> {lit ''--version'', lit ''-V'', lit ''--help'', lit ''-h''}"
proof
  assume "\<exists>rest iv. cli_accepts (w # rest) iv"
  then show "documented w \<or> w \<in> {lit ''--version'', lit ''-V'', lit ''--help'', lit ''-h''}"
    by (auto simp: documented_words usage_words_value simp del: lit_simps elim!: cli_accepts.cases) (simp_all add: lit_simps)
next
  assume "documented w \<or> w \<in> {lit ''--version'', lit ''-V'', lit ''--help'', lit ''-h''}"
  then show "\<exists>rest iv. cli_accepts (w # rest) iv"
    unfolding documented_words usage_words_value
    by (auto simp del: lit_simps intro: cli_accepts.intros)
qed

text \<open>C34: The parser of the arguments accepts exactly the grammar and yields the one invocation it gives;
  other arguments are refused as invalid input. In particular the actions of \<open>service\<close> are the three
  which the help text lists. The commands are those of the help text: a word can begin accepted
  arguments exactly when a usage line names it or it is one of the four flags.\<close>

theorem parser_accepts_grammar:
  "(case cli_parse dbg args of
      Inr iv \<Rightarrow> (\<forall>iv'. cli_accepts args iv' \<longleftrightarrow> iv' = iv)
    | Inl e \<Rightarrow> e_code e = EInvalidInput \<and> (\<forall>iv. \<not> cli_accepts args iv))
   \<and> {a. cli_parse dbg [lit ''service'', a] = Inr (Manage_Service a)} = {lit ''install'', lit ''uninstall'', lit ''status''}
   \<and> lit ''    rdt service <action>     install | uninstall | status'' \<in> set help_lines
   \<and> ((\<exists>rest iv. cli_parse dbg (w # rest) = Inr iv) \<longleftrightarrow>
        w \<noteq> [] \<and> 32 \<notin> set w \<and> (\<exists>l \<in> set help_lines. starts_with (lit ''    rdt '' @ w @ lit '' '') l)
        \<or> w \<in> {lit ''--version'', lit ''-V'', lit ''--help'', lit ''-h''})"
proof (intro conjI)
  have iff: "cli_accepts args' iv \<longleftrightarrow> cli_parse dbg args' = Inr iv" for args' iv
    using parse_accepts accepts_parse by blast
  show "case cli_parse dbg args of
      Inr iv \<Rightarrow> (\<forall>iv'. cli_accepts args iv' \<longleftrightarrow> iv' = iv)
    | Inl e \<Rightarrow> e_code e = EInvalidInput \<and> (\<forall>iv. \<not> cli_accepts args iv)"
    unfolding iff using parse_error_code [of dbg args] by (auto split: sum.split)
  show "{a. cli_parse dbg [lit ''service'', a] = Inr (Manage_Service a)} = {lit ''install'', lit ''uninstall'', lit ''status''}"
    by (auto simp: cli_parse_def service_actions_def fail_def)
  show "lit ''    rdt service <action>     install | uninstall | status'' \<in> set help_lines"
    by (simp add: help_lines_def del: lit_simps)
  have space: "lit '' '' = [32]" by simp
  show "(\<exists>rest iv. cli_parse dbg (w # rest) = Inr iv) \<longleftrightarrow>
      w \<noteq> [] \<and> 32 \<notin> set w \<and> (\<exists>l \<in> set help_lines. starts_with (lit ''    rdt '' @ w @ lit '' '') l)
      \<or> w \<in> {lit ''--version'', lit ''-V'', lit ''--help'', lit ''-h''}"
    using accepted_words [of w] unfolding iff documented_def space .
qed

section \<open>Exit status\<close>

lemma cli_load_result:
  "cli_load env next (s, w) =
     (case config_load (ce_toml env) (config_file (cli_paths env)) s of
        (Inl e, s') \<Rightarrow> (([], (case e of Rdt_Config.Missing \<Rightarrow> fail EConfig (lit ''no configuration file yet'') | LoadFailed err \<Rightarrow> Inl err)), s', w)
      | (Inr store, s') \<Rightarrow> next store (s', w))"
  by (simp add: cli_load_def split: prod.split sum.split)

lemma doctor_status: "snd (fst (cli_doctor env x)) = Inr (list_all (\<lambda>q. rq_present q \<or> rq_optional q) (ce_requirements env))"
  by (auto simp: cli_doctor_def Let_def say_def list_ex_iff list_all_iff simp del: lit_simps)

lemma connect_status:
  "snd (fst (cli_connect env name proto (s, w))) = Inr True \<longleftrightarrow>
     (\<exists>store s' p. config_load (ce_toml env) (config_file (cli_paths env)) s = (Inr store, s')
        \<and> find_by_name name store = Some p \<and> cp_protocol p = proto \<and> ce_terminal env)"
  by (auto simp: cli_connect_def cli_load_result say_def fail_def simp del: lit_simps
      split: prod.splits sum.splits load_error.splits option.splits)

lemma config_load_files: "config_load tm path s = (r, s') \<Longrightarrow> fs_files s' = fs_files s"
  using io_read_string_files [of path s] by (auto simp: config_load_def simp del: io_read_string_files split: prod.splits sum.splits)

lemma connect_changes_nothing: "fs_files (fst (snd (cli_connect env name proto (s, w)))) = fs_files s \<and> snd (snd (cli_connect env name proto (s, w))) = w"
  by (auto simp: cli_connect_def cli_load_result say_def simp del: lit_simps dest: config_load_files
      split: prod.split sum.split option.split)

text \<open>The exit status tells the outcome. The process fails with exactly one line on standard error when the
  command ends in an error, and prints none otherwise; \<open>doctor\<close> succeeds when every requirement that is
  not optional is present; and \<open>ssh\<close> succeeds when the configuration loads and has a profile of this
  name and protocol and there is a terminal.\<close>

theorem exit_status_tells_outcome:
  "(case cli_main env args (s, w) of ((out, err, ok), y) \<Rightarrow>
      (err = [] \<longleftrightarrow> (\<exists>b. snd (fst (cli_run env args (s, w))) = Inr b)) \<and> length err \<le> 1
      \<and> (ok \<longleftrightarrow> snd (fst (cli_run env args (s, w))) = Inr True) \<and> out = fst (fst (cli_run env args (s, w))))
   \<and> (snd (fst (cli_run env [lit ''doctor''] (s, w))) = Inr True
        \<longleftrightarrow> list_all (\<lambda>q. rq_present q \<or> rq_optional q) (ce_requirements env))
   \<and> (snd (fst (cli_run env [lit ''ssh'', name] (s, w))) = Inr True
        \<longleftrightarrow> (\<exists>store s' p. config_load (ce_toml env) (config_file (cli_paths env)) s = (Inr store, s')
              \<and> find_by_name name store = Some p \<and> cp_protocol p = Ssh \<and> ce_terminal env))"
proof (intro conjI)
  show "case cli_main env args (s, w) of ((out, err, ok), y) \<Rightarrow>
      (err = [] \<longleftrightarrow> (\<exists>b. snd (fst (cli_run env args (s, w))) = Inr b)) \<and> length err \<le> 1
      \<and> (ok \<longleftrightarrow> snd (fst (cli_run env args (s, w))) = Inr True) \<and> out = fst (fst (cli_run env args (s, w)))"
    by (auto simp: cli_main_def simp del: lit_simps split: prod.split sum.split)
  have "cli_run env [lit ''doctor''] = cli_doctor env"
    using parse_command_line [of Run_Doctor "ce_dbg env"]
    by (simp add: cli_run_def command_line_def command_word_def command_argument_def invocation_ok_def cli_invoke_def del: lit_simps)
  then show "snd (fst (cli_run env [lit ''doctor''] (s, w))) = Inr True
      \<longleftrightarrow> list_all (\<lambda>q. rq_present q \<or> rq_optional q) (ce_requirements env)" by (simp add: doctor_status del: lit_simps)
  have "cli_run env [lit ''ssh'', name] = cli_connect env name Ssh"
    using parse_command_line [of "Open_Ssh name" "ce_dbg env"]
    by (simp add: cli_run_def command_line_def command_word_def command_argument_def invocation_ok_def cli_invoke_def del: lit_simps)
  then show "snd (fst (cli_run env [lit ''ssh'', name] (s, w))) = Inr True
      \<longleftrightarrow> (\<exists>store s' p. config_load (ce_toml env) (config_file (cli_paths env)) s = (Inr store, s')
            \<and> find_by_name name store = Some p \<and> cp_protocol p = Ssh \<and> ce_terminal env)" by (simp only: connect_status)
qed

section \<open>Where the code departs from its comments\<close>

text \<open>Opening a session from the command line only says so: nothing is sent and no file changes.\<close>

lemma open_command_opens_nothing:
  "fs_files (fst (snd (cli_run env [lit ''ssh'', name] (s, w)))) = fs_files s \<and> snd (snd (cli_run env [lit ''ssh'', name] (s, w))) = w"
proof -
  have "cli_run env [lit ''ssh'', name] = cli_connect env name Ssh"
    using parse_command_line [of "Open_Ssh name" "ce_dbg env"]
    by (simp add: cli_run_def command_line_def command_word_def command_argument_def invocation_ok_def cli_invoke_def del: lit_simps)
  then show ?thesis by (simp only: connect_changes_nothing)
qed

text \<open>Unlike those of \<open>service\<close>, the actions of \<open>vault\<close> and \<open>config\<close> are not checked by the parser, and further
  arguments are ignored everywhere.\<close>

lemma unchecked_actions:
  "cli_parse dbg [lit ''vault'', lit ''x''] = Inr (Manage_Vault (lit ''x''))"
  "cli_parse dbg [lit ''profiles'', lit ''delete'', lit ''all''] = Inr List_Profiles"
  by (simp_all add: cli_parse_def)

theorem parser_accepts_grammar_witness:
  "\<exists>e. cli_parse quoted [lit ''service'', lit ''reboot''] = Inl e \<and> e_code e = EInvalidInput
     \<and> cli_parse quoted [lit ''service'', lit ''status''] = Inr (Manage_Service (lit ''status''))
     \<and> (\<exists>rest iv. cli_parse quoted (lit ''vault'' # rest) = Inr iv)"
proof -
  have no: "\<not> cli_accepts [lit ''service'', lit ''reboot''] iv" for iv by (auto elim: cli_accepts.cases)
  have "cli_parse quoted [lit ''service'', lit ''reboot''] \<noteq> Inr iv" for iv
  proof
    assume iv: "cli_parse quoted [lit ''service'', lit ''reboot''] = Inr iv"
    have "cli_accepts [lit ''service'', lit ''reboot''] iv"
      using parser_accepts_grammar [where dbg = quoted and args = "[lit ''service'', lit ''reboot'']", THEN conjunct1]
      unfolding iv by simp
    with no show False by blast
  qed
  then obtain e where e: "cli_parse quoted [lit ''service'', lit ''reboot''] = Inl e"
    by (cases "cli_parse quoted [lit ''service'', lit ''reboot'']") auto
  moreover have "e_code e = EInvalidInput"
    using parser_accepts_grammar [where dbg = quoted and args = "[lit ''service'', lit ''reboot'']", THEN conjunct1] unfolding e by simp
  moreover have "cli_parse quoted [lit ''service'', lit ''status''] = Inr (Manage_Service (lit ''status''))"
    using parser_accepts_grammar [where dbg = quoted, THEN conjunct2, THEN conjunct1] by blast
  moreover have "\<exists>rest iv. cli_parse quoted (lit ''vault'' # rest) = Inr iv"
    using parser_accepts_grammar [where dbg = quoted and w = "lit ''vault''", THEN conjunct2, THEN conjunct2, THEN conjunct2]
    by (simp add: help_lines_def starts_with_def)
  ultimately show ?thesis by blast
qed

end
