(* ===== verification/Ui_State.thy ===== *)
theory Ui_State
  imports Rdt_Cli Rdt_Vault Sess_Manager Term_Input Rdp_Framebuffer "HOL-Library.State_Monad" "HOL-Library.Sublist"
begin

text \<open>
  Ground of the desktop interface, \<open>crates/rdt-ui/src\<close>: the shared state and the command queue of
  \<open>lib.rs\<close>, the palette of \<open>theme.rs\<close>, and drawing. A page is a computation of the state monad over
  what it has drawn so far and the shared state. The toolkit is the record \<open>ui_env\<close>: it answers, for
  the n-th widget of the frame, whether it was clicked, what value it leaves and where the pointer
  is. Layout (spacing, separators, nesting) is left out. Locks are taken one after the other, so a
  page is one step; sending on a command channel appends to \<open>as_sent\<close>.
\<close>

section \<open>The shared state\<close>

datatype ui_command =
    UiConnect rdt_id "nat \<times> nat"
  | UiDisconnect rdt_id
  | UiTerminalInput rdt_id "u8 list"
  | UiResize rdt_id u32 u32
  | UiTransfer rdt_id ustring ustring bool
  | UiSaveConfig
  | UiRefreshLogs

record app_state =
  as_config :: config_store
  as_sessions :: manager
  as_vault :: "vault option"
  as_logs :: log_buffer
  as_commands :: "ui_command list"
  as_terminals :: "rdt_id \<Rightarrow> terminal option"
  as_framebuffers :: "rdt_id \<Rightarrow> framebuffer option"
  as_status :: ustring
  as_sent :: "(nat \<times> session_command) list"

definition push :: "ui_command \<Rightarrow> app_state \<Rightarrow> app_state" where
  "push c s = s\<lparr>as_commands := as_commands s @ [c]\<rparr>"

definition drain :: "app_state \<Rightarrow> ui_command list \<times> app_state" where
  "drain s = (as_commands s, s\<lparr>as_commands := []\<rparr>)"

definition set_status :: "ustring \<Rightarrow> app_state \<Rightarrow> app_state" where
  "set_status txt s = s\<lparr>as_status := txt\<rparr>"

text \<open>\<open>let _ = state.sessions.send(..)\<close> drops the error.\<close>

definition send_quietly :: "(nat \<Rightarrow> bool) \<Rightarrow> rdt_id \<Rightarrow> session_command \<Rightarrow> app_state \<Rightarrow> app_state" where
  "send_quietly is_open i c s =
     (case manager_send is_open i c (as_sessions s) of
        Inl _ \<Rightarrow> s
      | Inr sent \<Rightarrow> s\<lparr>as_sent := as_sent s @ [sent]\<rparr>)"

definition cancel_session :: "u64 \<Rightarrow> rdt_id \<Rightarrow> app_state \<Rightarrow> app_state" where
  "cancel_session now i s = s\<lparr>as_sessions := manager_cancel now i (as_sessions s)\<rparr>"

section \<open>The palette\<close>

type_synonym color32 = "u8 \<times> u8 \<times> u8"

datatype palette = FollowSystem | LightPalette | DarkPalette

definition for_theme :: "theme \<Rightarrow> palette" where
  "for_theme t = (case t of System \<Rightarrow> FollowSystem | Light \<Rightarrow> LightPalette | Dark \<Rightarrow> DarkPalette)"

definition is_dark :: "(ustring \<Rightarrow> ustring option) \<Rightarrow> palette \<Rightarrow> bool" where
  "is_dark env p =
     (case p of
        FollowSystem \<Rightarrow>
          (case env (lit ''COLORFGBG'') of Some v \<Rightarrow> ends_with (lit '';15'') v | None \<Rightarrow> True)
      | LightPalette \<Rightarrow> False
      | DarkPalette \<Rightarrow> True)"

definition terminal_background :: "(ustring \<Rightarrow> ustring option) \<Rightarrow> palette \<Rightarrow> color32" where
  "terminal_background env p = (if is_dark env p then (24, 24, 27) else (250, 250, 249))"

definition ansi_base :: "bool \<Rightarrow> color32 list" where
  "ansi_base dark =
     (if dark then
        [(63, 63, 70), (248, 113, 113), (74, 222, 128), (250, 204, 21),
         (96, 165, 250), (232, 121, 249), (34, 211, 238), (212, 212, 216)]
      else
        [(28, 25, 23), (185, 28, 28), (21, 128, 61), (161, 98, 7),
         (29, 78, 216), (126, 34, 206), (14, 116, 144), (87, 83, 78)])"

text \<open>The toolkit's \<open>gamma_multiply(1.25)\<close> is an argument; \<open>None\<close> is an index out of range.\<close>

definition ansi :: "(color32 \<Rightarrow> color32) \<Rightarrow> bool \<Rightarrow> u8 \<Rightarrow> color32 option" where
  "ansi gamma dark index =
     (if index \<le> 7 then vec_get (ansi_base dark) (unat index)
      else if index \<le> 15 then map_option gamma (vec_get (ansi_base dark) (unat (index - 8)))
      else vec_get (ansi_base dark) 7)"

section \<open>The toolkit\<close>

record ui_env =
  ue_clicked :: "nat \<Rightarrow> bool"
  ue_checkbox :: "nat \<Rightarrow> bool \<Rightarrow> bool \<times> bool"
  ue_choose :: "nat \<Rightarrow> bool \<Rightarrow> bool \<times> bool"
  ue_slider :: "nat \<Rightarrow> nat \<Rightarrow> nat \<Rightarrow> nat \<Rightarrow> nat"
  ue_unfolded :: "nat \<Rightarrow> bool"
  ue_pointer :: "nat \<Rightarrow> (rat \<times> rat) option"
  ue_rect :: "nat \<Rightarrow> (rat \<times> rat) \<times> (rat \<times> rat)"
  ue_round :: "rat \<Rightarrow> rat"
  ue_fullscreen :: "bool option"
  ue_gamma :: "color32 \<Rightarrow> color32"
  ue_vars :: "ustring \<Rightarrow> ustring option"
  ue_unicode :: unicode
  ue_dbg :: "ustring \<Rightarrow> ustring"
  ue_platform :: ustring
  ue_arch :: ustring
  ue_requirements :: "requirement list"
  ue_log_lines :: "log_buffer \<Rightarrow> ustring list"
  ue_open :: "nat \<Rightarrow> bool"
  ue_now :: u64
  ue_new_ids :: "rdt_id \<times> rdt_id"

datatype ink = Themed | Ink color32

datatype drawn =
    Heading ustring
  | Label ustring
  | Strong ustring
  | Weak ustring
  | Mono ustring
  | Glyph uchar ink bool bool bool
  | Button ustring
  | Checkbox ustring bool
  | Choice ustring bool
  | Combo ustring ustring
  | Slider ustring nat nat nat
  | Canvas
  | Painted ustring
  | Filled color32
  | Viewport_Fullscreen bool
  | Background bool color32

record ui =
  ui_drawn :: "drawn list"
  ui_app :: app_state

type_synonym 'a drawing = "(ui, 'a) state"

abbreviation done_drawing :: "unit drawing" where
  "done_drawing \<equiv> State_Monad.return ()"

text \<open>Drawing a widget gives its number in the frame.\<close>

definition widget :: "drawn \<Rightarrow> nat drawing" where
  "widget w = State (\<lambda>u. (length (ui_drawn u), u\<lparr>ui_drawn := ui_drawn u @ [w]\<rparr>))"

definition draw :: "drawn \<Rightarrow> unit drawing" where
  "draw w = do { widget w; done_drawing }"

definition look :: "(app_state \<Rightarrow> 'a) \<Rightarrow> 'a drawing" where
  "look f = State (\<lambda>u. (f (ui_app u), u))"

definition act :: "(app_state \<Rightarrow> app_state) \<Rightarrow> unit drawing" where
  "act f = State (\<lambda>u. ((), u\<lparr>ui_app := f (ui_app u)\<rparr>))"

primrec each :: "('a \<Rightarrow> unit drawing) \<Rightarrow> 'a list \<Rightarrow> unit drawing" where
  "each f [] = done_drawing"
| "each f (x # xs) = do { f x; each f xs }"

text \<open>\<open>if ui.button(..).clicked() { .. }\<close>\<close>

definition on_button :: "ui_env \<Rightarrow> ustring \<Rightarrow> unit drawing \<Rightarrow> unit drawing" where
  "on_button env txt body =
     do { n \<leftarrow> widget (Button txt); if ue_clicked env n then body else done_drawing }"

text \<open>A checkbox: the value after the frame, and \<open>changed()\<close>.\<close>

definition checkbox :: "ui_env \<Rightarrow> ustring \<Rightarrow> bool \<Rightarrow> (bool \<times> bool) drawing" where
  "checkbox env txt v =
     do { n \<leftarrow> widget (Checkbox txt v); State_Monad.return (ue_checkbox env n v) }"

text \<open>\<open>selectable_value\<close>: the toolkit says whether the offered value is assigned.\<close>

definition selectable :: "ui_env \<Rightarrow> ustring \<Rightarrow> 'a \<Rightarrow> 'a \<Rightarrow> ('a \<times> bool) drawing" where
  "selectable env txt offered current =
     do { n \<leftarrow> widget (Choice txt (current = offered));
          (let (taken, changed) = ue_choose env n (current = offered) in
           State_Monad.return (if taken then offered else current, changed)) }"

definition slider :: "ui_env \<Rightarrow> ustring \<Rightarrow> nat \<Rightarrow> nat \<Rightarrow> nat \<Rightarrow> nat drawing" where
  "slider env txt lo hi v =
     do { n \<leftarrow> widget (Slider txt lo hi v); State_Monad.return (ue_slider env n lo hi v) }"

text \<open>The choices of a combo box, drawn while it is unfolded; the changes are accumulated.\<close>

fun choices :: "ui_env \<Rightarrow> ('a \<times> ustring) list \<Rightarrow> 'a \<Rightarrow> bool \<Rightarrow> ('a \<times> bool) drawing" where
  "choices env [] v changed = State_Monad.return (v, changed)"
| "choices env ((offered, txt) # rest) v changed =
     do { (v', c) \<leftarrow> selectable env txt offered v; choices env rest v' (changed \<or> c) }"

definition combo :: "ui_env \<Rightarrow> ustring \<Rightarrow> ustring \<Rightarrow> ('a \<times> ustring) list \<Rightarrow> 'a \<Rightarrow> ('a \<times> bool) drawing" where
  "combo env salt picked options v =
     do { n \<leftarrow> widget (Combo salt picked);
          if ue_unfolded env n then choices env options v False else State_Monad.return (v, False) }"

end
