(* ===== verification/Ui_Pages.thy ===== *)
theory Ui_Pages
  imports Ui_State
begin

text \<open>
  The eight pages of the desktop interface, \<open>crates/rdt-ui/src/pages.rs\<close>. What a page asks of other
  crates under names that these do not have (the texts of the platform, the requirements of the
  report, the lines of the log buffer) is part of \<open>ui_env\<close>. Coordinates are rational numbers, rounded
  after each operation by \<open>ue_round\<close>.
\<close>

section \<open>Pages and their names\<close>

datatype page = Dashboard | SshPage | RdpPage | ProfilesPage | SessionsPage | SettingsPage | LogsPage | HelpPage

definition page_all :: "page list" where
  "page_all = [Dashboard, SshPage, RdpPage, ProfilesPage, SessionsPage, SettingsPage, LogsPage, HelpPage]"

definition page_name :: "page \<Rightarrow> ustring" where
  "page_name p =
     (case p of
        Dashboard \<Rightarrow> lit ''dashboard'' | SshPage \<Rightarrow> lit ''ssh'' | RdpPage \<Rightarrow> lit ''rdp''
      | ProfilesPage \<Rightarrow> lit ''profiles'' | SessionsPage \<Rightarrow> lit ''sessions'' | SettingsPage \<Rightarrow> lit ''settings''
      | LogsPage \<Rightarrow> lit ''logs'' | HelpPage \<Rightarrow> lit ''help'')"

definition page_title :: "page \<Rightarrow> ustring" where
  "page_title p =
     (case p of
        Dashboard \<Rightarrow> lit ''Dashboard'' | SshPage \<Rightarrow> lit ''SSH'' | RdpPage \<Rightarrow> lit ''Remote Desktop''
      | ProfilesPage \<Rightarrow> lit ''Profiles'' | SessionsPage \<Rightarrow> lit ''Sessions'' | SettingsPage \<Rightarrow> lit ''Settings''
      | LogsPage \<Rightarrow> lit ''Logs'' | HelpPage \<Rightarrow> lit ''Help'')"

definition page_from_name :: "ustring \<Rightarrow> page" where
  "page_from_name name =
     (case find (\<lambda>p. page_name p = name) page_all of Some p \<Rightarrow> p | None \<Rightarrow> Dashboard)"

section \<open>Debug names\<close>

definition theme_debug :: "theme \<Rightarrow> ustring" where
  "theme_debug t = (case t of System \<Rightarrow> lit ''System'' | Light \<Rightarrow> lit ''Light'' | Dark \<Rightarrow> lit ''Dark'')"

definition log_level_debug :: "log_level \<Rightarrow> ustring" where
  "log_level_debug l =
     (case l of LlError \<Rightarrow> lit ''Error'' | LlWarn \<Rightarrow> lit ''Warn'' | LlInfo \<Rightarrow> lit ''Info''
      | LlDebug \<Rightarrow> lit ''Debug'' | LlTrace \<Rightarrow> lit ''Trace'')"

definition host_key_policy_debug :: "host_key_policy \<Rightarrow> ustring" where
  "host_key_policy_debug p = (case p of Strict \<Rightarrow> lit ''Strict'' | AcceptNew \<Rightarrow> lit ''AcceptNew'')"

definition cert_policy_debug :: "cert_policy \<Rightarrow> ustring" where
  "cert_policy_debug p =
     (case p of Verify \<Rightarrow> lit ''Verify'' | VerifyOrPinned \<Rightarrow> lit ''VerifyOrPinned''
      | TrustOnFirstUse \<Rightarrow> lit ''TrustOnFirstUse'')"

definition session_state_debug :: "session_state \<Rightarrow> ustring" where
  "session_state_debug s =
     (case s of
        Idle \<Rightarrow> lit ''Idle'' | Connecting \<Rightarrow> lit ''Connecting'' | Authenticating \<Rightarrow> lit ''Authenticating''
      | Connected \<Rightarrow> lit ''Connected'' | Reconnecting \<Rightarrow> lit ''Reconnecting'' | Disconnected \<Rightarrow> lit ''Disconnected''
      | Failed \<Rightarrow> lit ''Failed'' | Cancelled \<Rightarrow> lit ''Cancelled'')"

text \<open>\<open>describe\<close>: the \<open>Debug\<close> text in lower case, underscores as spaces.\<close>

definition policy_describe :: "unicode \<Rightarrow> ustring \<Rightarrow> ustring" where
  "policy_describe u debug = replace_str [95] [32] (str_lower u debug)"

section \<open>Dashboard\<close>

definition requirement_icon :: "requirement \<Rightarrow> ustring" where
  "requirement_icon q = (if rq_present q then [9989] else if rq_optional q then [10134] else [10060])"

definition quick_connect :: "ui_env \<Rightarrow> profile \<Rightarrow> unit drawing" where
  "quick_connect env p =
     on_button env (cp_name p @ lit '' ('' @ profile_address p @ lit '')'')
       (do { act (push (UiConnect (cp_id p) (80, 24)));
             act (set_status (lit ''connecting to '' @ cp_name p)) })"

definition dashboard :: "ui_env \<Rightarrow> unit drawing" where
  "dashboard env = do {
     draw (Heading (lit ''Dashboard''));
     draw (Label (lit ''Operating system''));
     draw (Label (ue_platform env));
     draw (Label (lit ''Architecture''));
     draw (Label (ue_arch env));
     draw (Label (lit ''Active sessions''));
     active \<leftarrow> look (\<lambda>s. active_count (as_sessions s));
     draw (Label (show_nat active));
     draw (Label (lit ''Saved profiles''));
     saved \<leftarrow> look (\<lambda>s. length (profiles_in (ue_unicode env) ByName (as_config s)));
     draw (Label (show_nat saved));
     draw (Heading (lit ''Dependency check''));
     each (\<lambda>q. do {
       draw (Label (requirement_icon q));
       draw (Label (rq_name q));
       draw (Weak (rq_detail q)) }) (ue_requirements env);
     draw (Heading (lit ''Quick connect''));
     profiles \<leftarrow> look (\<lambda>s. profiles_in (ue_unicode env) ByName (as_config s));
     if profiles = [] then draw (Label (lit ''No profiles yet. Create one on the Profiles page.''))
     else each (quick_connect env) (take 8 profiles) }"

section \<open>The terminal page\<close>

definition profiles_of :: "ui_env \<Rightarrow> protocol \<Rightarrow> app_state \<Rightarrow> profile list" where
  "profiles_of env proto s = filter (\<lambda>p. cp_protocol p = proto) (profiles_in (ue_unicode env) ByName (as_config s))"

text \<open>\<open>sessions.first()\<close> of the sessions with the protocol.\<close>

definition first_session :: "protocol \<Rightarrow> app_state \<Rightarrow> session_info option" where
  "first_session proto s =
     (case filter (\<lambda>i. si_protocol i = proto) (manager_list (as_sessions s)) of [] \<Rightarrow> None | i # _ \<Rightarrow> Some i)"

definition cell_ink :: "ui_env \<Rightarrow> color \<Rightarrow> ink" where
  "cell_ink env c =
     (case c of
        Default \<Rightarrow> Themed
      | Indexed index \<Rightarrow> (case ansi (ue_gamma env) True index of Some x \<Rightarrow> Ink x | None \<Rightarrow> Themed)
      | Rgb r g b \<Rightarrow> Ink (r, g, b))"

definition draw_cell :: "ui_env \<Rightarrow> cell \<Rightarrow> unit drawing" where
  "draw_cell env c =
     (let a = c_attrs c in
      draw (Glyph (c_ch c) (cell_ink env (a_fg a)) (a_bold a) (a_italic a) (a_underline a)))"

definition draw_row :: "ui_env \<Rightarrow> snapshot \<Rightarrow> nat \<times> row \<Rightarrow> unit drawing" where
  "draw_row env t = (\<lambda>(index, r). do {
     each (draw_cell env) (r_cells r);
     if index = k_row (s_cursor t) \<and> s_cursor_visible t then draw (Mono [9612]) else done_drawing })"

text \<open>\<open>entry(..).or_insert_with(|| Terminal::new(80, 24))\<close>, and its snapshot, which clears the dirty flag.\<close>

definition terminal_of :: "rdt_id \<Rightarrow> app_state \<Rightarrow> terminal" where
  "terminal_of i s = (case as_terminals s i of Some t \<Rightarrow> t | None \<Rightarrow> term_new 80 24)"

definition snap_terminal :: "rdt_id \<Rightarrow> snapshot drawing" where
  "snap_terminal i = do {
     t \<leftarrow> look (\<lambda>s. term_snapshot (terminal_of i s));
     act (\<lambda>s. s\<lparr>as_terminals := (as_terminals s)(i := Some (snd t))\<rparr>);
     State_Monad.return (fst t) }"

definition terminal_view :: "ui_env \<Rightarrow> rdt_id \<Rightarrow> unit drawing" where
  "terminal_view env i = do {
     t \<leftarrow> snap_terminal i;
     each (draw_row env t) (enumerate 0 (s_rows t));
     modes \<leftarrow> look (\<lambda>s. case as_terminals s i of Some x \<Rightarrow> t_modes x | None \<Rightarrow> modes_default);
     on_button env (lit ''Ctrl+C'') (act (push (UiTerminalInput i (encode_key (KChar 99) mod_control modes))));
     on_button env (lit ''Tab'') (act (push (UiTerminalInput i (encode_key KTab mod_none modes))));
     on_button env (lit ''Disconnect'') (act (push (UiDisconnect i)));
     draw (Heading (lit ''File transfer (SFTP)''));
     on_button env (lit ''Upload'' @ [8230]) (act (set_status (lit ''choose a local file with the file dialog'')));
     on_button env (lit ''Download'' @ [8230]) (act (set_status (lit ''choose a destination folder with the file dialog'')));
     on_button env (lit ''Cancel transfer'') (act (send_quietly (ue_open env) i CancelTransfer)) }"

definition ssh :: "ui_env \<Rightarrow> unit drawing" where
  "ssh env = do {
     draw (Heading (lit ''SSH''));
     profiles \<leftarrow> look (profiles_of env Ssh);
     if profiles = [] then draw (Label (lit ''No SSH profiles. Add one on the Profiles page.''))
     else do {
       each (\<lambda>p. on_button env (cp_name p) (act (push (UiConnect (cp_id p) (80, 24))))) profiles;
       session \<leftarrow> look (first_session Ssh);
       case session of
         None \<Rightarrow> draw (Label (lit ''No SSH session is running.''))
       | Some i \<Rightarrow> terminal_view env (si_id i) } }"

section \<open>The remote desktop page\<close>

text \<open>\<open>as u16\<close> and \<open>as u32\<close> of a float truncate towards zero and saturate.\<close>

definition float_as :: "nat \<Rightarrow> rat \<Rightarrow> nat" where
  "float_as most x = (if x \<le> 0 then 0 else min most (nat \<lfloor>x\<rfloor>))"

definition pointer_bytes :: "ui_env \<Rightarrow> framebuffer \<Rightarrow> (rat \<times> rat) \<times> (rat \<times> rat) \<Rightarrow> rat \<times> rat \<Rightarrow> u8 list" where
  "pointer_bytes env fb rect pos =
     (let ((left, upper), (width, height)) = rect;
          rnd = ue_round env;
          scale = rnd (rnd (of_nat (unat (fb_width fb))) / max width 1);
          x = float_as 65535 (rnd (rnd (fst pos - left) * scale));
          y = float_as 65535 (rnd (rnd (snd pos - upper) * scale))
      in [word_of_nat (x div 256), word_of_nat (x mod 256), word_of_nat (y div 256), word_of_nat (y mod 256)])"

definition paint_desktop :: "rdt_id \<Rightarrow> unit drawing" where
  "paint_desktop i = do {
     buffer \<leftarrow> look (\<lambda>s. as_framebuffers s i);
     case buffer of
       Some fb \<Rightarrow> do {
         act (\<lambda>s. s\<lparr>as_framebuffers := (as_framebuffers s)(i := Some (snd (take_damage fb)))\<rparr>);
         draw (Painted (show_nat (unat (fb_width fb)) @ [32, 215, 32] @ show_nat (unat (fb_height fb)))) }
     | None \<Rightarrow> do { draw (Filled (0, 0, 0)); draw (Painted (lit ''waiting for the first frame'')) } }"

definition inject_pointer :: "ui_env \<Rightarrow> nat \<Rightarrow> rdt_id \<Rightarrow> app_state \<Rightarrow> app_state" where
  "inject_pointer env n i s =
     (case ue_pointer env n of
        None \<Rightarrow> s
      | Some pos \<Rightarrow>
          (case as_framebuffers s i of
             None \<Rightarrow> s
           | Some fb \<Rightarrow> send_quietly (ue_open env) i (RemoteInput (pointer_bytes env fb (ue_rect env n) pos)) s))"

definition desktop_view :: "ui_env \<Rightarrow> rdt_id \<Rightarrow> unit drawing" where
  "desktop_view env i = do {
     n \<leftarrow> widget Canvas;
     paint_desktop i;
     act (inject_pointer env n i);
     on_button env (lit ''Resize to window'')
       (let (width, height) = snd (ue_rect env n) in
        act (push (UiResize i (word_of_nat (float_as 4294967295 width)) (word_of_nat (float_as 4294967295 height)))));
     on_button env (lit ''Fullscreen'')
       (draw (Viewport_Fullscreen (\<not> (case ue_fullscreen env of Some b \<Rightarrow> b | None \<Rightarrow> False))));
     on_button env (lit ''Disconnect'') (act (push (UiDisconnect i))) }"

definition rdp_page :: "ui_env \<Rightarrow> unit drawing" where
  "rdp_page env = do {
     draw (Heading (lit ''Remote Desktop''));
     profiles \<leftarrow> look (profiles_of env Rdp);
     each (\<lambda>p. on_button env (cp_name p) (act (push (UiConnect (cp_id p) (1280, 800))))) profiles;
     session \<leftarrow> look (first_session Rdp);
     case session of
       None \<Rightarrow> draw (Label (lit ''No remote desktop session is running.''))
     | Some i \<Rightarrow> desktop_view env (si_id i) }"

section \<open>Profiles\<close>

definition new_profile :: "ui_env \<Rightarrow> rdt_id \<Rightarrow> ustring \<Rightarrow> protocol \<Rightarrow> app_state \<Rightarrow> app_state" where
  "new_profile env i name proto s =
     (case add_profile (ue_dbg env)
             (profile_new i name (lit ''host.example.com'') (profile_default_port proto) proto) (as_config s) of
        (Inr _, st) \<Rightarrow> set_status (lit ''profile created'') (s\<lparr>as_config := st\<rparr>)
      | (Inl e, st) \<Rightarrow> set_status (lit ''cannot create the profile: '' @ error_display e) (s\<lparr>as_config := st\<rparr>))"

definition delete_profile :: "rdt_id \<Rightarrow> app_state \<Rightarrow> app_state" where
  "delete_profile i s =
     (case remove_profile i (as_config s) of
        (Inr _, st) \<Rightarrow> set_status (lit ''profile deleted'') (s\<lparr>as_config := st\<rparr>)
      | (Inl e, st) \<Rightarrow> set_status (lit ''cannot delete: '' @ error_display e) (s\<lparr>as_config := st\<rparr>))"

definition profile_details :: "profile \<Rightarrow> unit drawing" where
  "profile_details p = do {
     draw (Label (lit ''Authentication''));
     draw (Label (lit (auth_describe (cp_auth p))));
     (if cp_protocol p = Ssh then do {
        draw (Label (lit ''Host key policy''));
        draw (Label (host_key_policy_debug (so_host_key_policy (cp_ssh p))));
        draw (Label (lit ''Keepalive''));
        draw (Label (show_nat (unat (so_keepalive_secs (cp_ssh p))) @ lit '' s'')) }
      else do {
        draw (Label (lit ''Certificate policy''));
        draw (Label (cert_policy_debug (ro_cert_policy (cp_rdp p))));
        draw (Label (lit ''Dynamic resize''));
        draw (Label (if ro_dynamic_resize (cp_rdp p) then lit ''yes'' else lit ''no'')) });
     if cp_notes p \<noteq> [] then do { draw (Label (lit ''Notes'')); draw (Label (cp_notes p)) } else done_drawing }"

definition profile_entry :: "ui_env \<Rightarrow> profile \<Rightarrow> unit drawing" where
  "profile_entry env p = do {
     draw (Strong (cp_name p));
     draw (Weak (profile_address p));
     draw (Label (protocol_debug (cp_protocol p)));
     on_button env (lit ''Connect'') (act (push (UiConnect (cp_id p) (80, 24))));
     on_button env (lit ''Delete'') (act (delete_profile (cp_id p)));
     profile_details p }"

definition profiles :: "ui_env \<Rightarrow> unit drawing" where
  "profiles env = do {
     draw (Heading (lit ''Profiles''));
     listed \<leftarrow> look (\<lambda>s. profiles_in (ue_unicode env) ByName (as_config s));
     on_button env (lit ''New SSH profile'') (act (new_profile env (fst (ue_new_ids env)) (lit ''new ssh'') Ssh));
     on_button env (lit ''New RDP profile'') (act (new_profile env (snd (ue_new_ids env)) (lit ''new rdp'') Rdp));
     each (profile_entry env) listed;
     draw (Strong (lit ''Security defaults: ''));
     draw (Label (lit ''host keys '' @ policy_describe (ue_unicode env) (host_key_policy_debug Strict) @ [32, 183, 32]
       @ lit ''certificates '' @ policy_describe (ue_unicode env) (cert_policy_debug Verify) @ [32, 183, 32]
       @ lit ''secrets are stored in the OS keystore or the encrypted vault'')) }"

section \<open>Sessions\<close>

definition session_entry :: "ui_env \<Rightarrow> session_info \<Rightarrow> unit drawing" where
  "session_entry env i = do {
     draw (Label (id_display (si_id i)));
     draw (Label (si_address i));
     draw (Label (protocol_debug (si_protocol i)));
     draw (Label (session_state_debug (si_state i) @ [32, 8212, 32] @ si_detail i));
     on_button env (lit ''Open'') (act (set_status (lit ''switched to session '' @ id_display (si_id i))));
     on_button env (lit ''Cancel'') (act (cancel_session (ue_now env) (si_id i))) }"

definition sessions :: "ui_env \<Rightarrow> unit drawing" where
  "sessions env = do {
     draw (Heading (lit ''Sessions''));
     listed \<leftarrow> look (\<lambda>s. manager_list (as_sessions s));
     if listed = [] then draw (Label (lit ''No sessions.''))
     else do {
       each (\<lambda>t. draw (Strong t)) [lit ''Session'', lit ''Address'', lit ''Protocol'', lit ''State'', lit ''Actions''];
       each (session_entry env) listed } }"

section \<open>Settings\<close>

definition interface_section :: "ui_env \<Rightarrow> ui_settings \<Rightarrow> (ui_settings \<times> bool) drawing" where
  "interface_section env x = do {
     draw (Heading (lit ''Interface''));
     draw (Label (lit ''Theme''));
     (theme, c1) \<leftarrow> combo env (lit ''theme'') (theme_debug (us_theme x))
       [(System, lit ''System''), (Light, lit ''Light''), (Dark, lit ''Dark'')] (us_theme x);
     (bar, c2) \<leftarrow> checkbox env (lit ''Show the status bar'') (us_show_status_bar x);
     (confirm, c3) \<leftarrow> checkbox env (lit ''Confirm before disconnecting'') (us_confirm_disconnect x);
     State_Monad.return
       (x\<lparr>us_theme := theme, us_show_status_bar := bar, us_confirm_disconnect := confirm\<rparr>, c1 \<or> c2 \<or> c3) }"

definition security_section :: "ui_env \<Rightarrow> security_settings \<Rightarrow> (security_settings \<times> bool) drawing" where
  "security_section env x = do {
     draw (Heading (lit ''Security''));
     (from_remote, c1) \<leftarrow> checkbox env (lit ''Allow copying from a remote session'') (sec_remote_to_local x);
     (to_remote, c2) \<leftarrow> checkbox env (lit ''Allow pasting into a remote session'') (sec_local_to_remote x);
     (redact, c3) \<leftarrow> checkbox env (lit ''Redact secrets in log files'') (sec_redact_logs x);
     minutes \<leftarrow> slider env (lit ''lock the vault after (minutes)'') 0 240 (unat (sec_vault_lock_minutes x));
     State_Monad.return
       (x\<lparr>sec_remote_to_local := from_remote, sec_local_to_remote := to_remote, sec_redact_logs := redact,
          sec_vault_lock_minutes := word_of_nat minutes\<rparr>, c1 \<or> c2 \<or> c3) }"

definition session_section :: "ui_env \<Rightarrow> session_settings \<Rightarrow> (session_settings \<times> bool) drawing" where
  "session_section env x = do {
     draw (Heading (lit ''Sessions''));
     most \<leftarrow> slider env (lit ''maximum concurrent sessions'') 1 64 (ses_max_concurrent x);
     (audit, c1) \<leftarrow> checkbox env (lit ''Write an audit record for every connection'') (ses_audit x);
     days \<leftarrow> slider env (lit ''keep audit history (days)'') 0 365 (unat (ses_retention_days x));
     State_Monad.return
       (x\<lparr>ses_max_concurrent := most, ses_audit := audit, ses_retention_days := word_of_nat days\<rparr>, c1) }"

definition logging_section :: "ui_env \<Rightarrow> settings \<Rightarrow> (settings \<times> bool) drawing" where
  "logging_section env x = do {
     draw (Heading (lit ''Logging''));
     (level, c1) \<leftarrow> combo env (lit ''log-level'') (log_level_debug (st_log_level x))
       [(LlError, lit ''Error''), (LlWarn, lit ''Warn''), (LlInfo, lit ''Info''), (LlDebug, lit ''Debug''),
        (LlTrace, lit ''Trace'')] (st_log_level x);
     largest \<leftarrow> slider env (lit ''maximum log size (MiB)'') 1 256 (unat (st_log_max_mib x));
     keep \<leftarrow> slider env (lit ''rotated files to keep'') 1 20 (st_log_keep x);
     State_Monad.return
       (x\<lparr>st_log_level := level, st_log_max_mib := word_of_nat largest, st_log_keep := keep\<rparr>, c1) }"

definition settings_form :: "ui_env \<Rightarrow> settings \<Rightarrow> (settings \<times> bool) drawing" where
  "settings_form env x = do {
     (ui, c1) \<leftarrow> interface_section env (st_ui x);
     (security, c2) \<leftarrow> security_section env (st_security x);
     (session, c3) \<leftarrow> session_section env (st_session x);
     (rest, c4) \<leftarrow> logging_section env x;
     State_Monad.return
       (rest\<lparr>st_ui := ui, st_security := security, st_session := session\<rparr>, c1 \<or> c2 \<or> c3 \<or> c4) }"

definition settings_saved_hint :: ustring where
  "settings_saved_hint =
     lit ''settings changed '' @ [8212] @ lit '' press Save settings to write them''"

definition settings_page :: "ui_env \<Rightarrow> unit drawing" where
  "settings_page env = do {
     draw (Heading (lit ''Settings''));
     current \<leftarrow> look (\<lambda>s. cf_settings (cs_config (as_config s)));
     (new, changed) \<leftarrow> settings_form env current;
     if changed then do {
       act (\<lambda>s. s\<lparr>as_config := set_settings new (as_config s)\<rparr>);
       act (set_status settings_saved_hint) }
     else done_drawing }"

section \<open>Logs and help\<close>

definition logs :: "ui_env \<Rightarrow> unit drawing" where
  "logs env = do {
     draw (Heading (lit ''Logs''));
     on_button env (lit ''Refresh'') (act (push UiRefreshLogs));
     draw (Weak (lit ''Secrets are redacted before they are written.''));
     lines \<leftarrow> look (\<lambda>s. ue_log_lines env (as_logs s));
     each (\<lambda>line. draw (Mono line)) lines }"

definition help_page :: "unit drawing" where
  "help_page = each draw
     [Heading (lit ''Help''),
      Label (lit ''Remote Desktop Tool is a native SSH and RDP client written in Rust.''),
      Heading (lit ''Host key and certificate verification''),
      Label (lit ''SSH host keys are checked against the known hosts database before any ''
        @ lit ''authentication data is sent.  A key that changed is a hard error and the ''
        @ lit ''connection is refused.''),
      Label (lit ''RDP certificates are validated against the system trust store.  When a ''
        @ lit ''server uses a self-signed certificate you can pin its fingerprint, and a ''
        @ lit ''later change is refused.''),
      Heading (lit ''Where secrets live''),
      Label (lit ''Passwords and passphrases are never written to the configuration file.  ''
        @ lit ''They are stored in the operating system keystore, or in the encrypted ''
        @ lit ''vault protected by a passphrase you choose, and are wiped from memory ''
        @ lit ''when they are no longer needed.''),
      Heading (lit ''Keyboard shortcuts''),
      Label (lit ''Ctrl+C''), Label (lit ''send an interrupt to the remote shell''),
      Label (lit ''Shift+Tab''), Label (lit ''reverse tab completion''),
      Label (lit ''Ctrl+Alt+F''), Label (lit ''toggle fullscreen for a remote desktop''),
      Weak (lit ''Documentation: docs/ in the repository, or `rdt help`.'')]"

definition draw_page :: "ui_env \<Rightarrow> page \<Rightarrow> unit drawing" where
  "draw_page env p =
     (case p of
        Dashboard \<Rightarrow> dashboard env | SshPage \<Rightarrow> ssh env | RdpPage \<Rightarrow> rdp_page env | ProfilesPage \<Rightarrow> profiles env
      | SessionsPage \<Rightarrow> sessions env | SettingsPage \<Rightarrow> settings_page env | LogsPage \<Rightarrow> logs env | HelpPage \<Rightarrow> help_page)"

end
