(* ===== verification/Log_Audit.thy ===== *)
theory Log_Audit
  imports Log_Buffer Rust_Io Plat_Info Log_Redact_Writer "HOL-Library.Sublist"
begin

text \<open>
  The audit file, \<open>crates/rdt-logging/src/audit.rs\<close>, as a file of \<open>Rust_Io\<close>, and the start of logging,
  \<open>lib.rs\<close>. The JSON library is the parameter \<open>json\<close>; whether a filter directive parses and whether the
  global subscriber can be installed are arguments, and so is \<open>RUST_LOG\<close>.
\<close>

section \<open>The audit file\<close>

record audit_log =
  al_path :: ustring
  al_redactor :: redactor

text \<open>\<open>OpenOptions::new().create(true).append(true).open(path)\<close>\<close>

definition io_open_append :: "ustring \<Rightarrow> unit io" where
  "io_open_append p s =
     (case next_fault s of
        Some f \<Rightarrow> (Inl (ft_error f), after_call s)
      | None \<Rightarrow> (Inr (), set_file p (Some (case fs_files s p of Some c \<Rightarrow> c | None \<Rightarrow> [])) (after_call s)))"

definition audit_open :: "ustring \<Rightarrow> redactor \<Rightarrow> audit_log run" where
  "audit_open path r =
     run_then (if parent path = None then pure_run (Inr ()) else on_err from_io io_touch) (\<lambda>_.
     run_then (on_err (with_what EIo (lit ''cannot open the audit file '' @ path)) (io_open_append path)) (\<lambda>_.
     run_then (on_err from_io io_touch) (\<lambda>_.
     pure_run (Inr \<lparr>al_path = path, al_redactor = r\<rparr>))))"

definition audit_null :: audit_log where
  "audit_null = \<lparr>al_path = lit ''/dev/null'', al_redactor = redactor_new\<rparr>"

text \<open>How the programs open it: without an audit file, the records are discarded.\<close>

definition audit_or_null :: "redactor \<Rightarrow> ustring \<Rightarrow> fs \<Rightarrow> audit_log \<times> fs" where
  "audit_or_null r path s =
     (case audit_open path r s of (Inr log, s') \<Rightarrow> (log, s') | (Inl _, s') \<Rightarrow> (audit_null, s'))"

definition audit_append :: "json \<Rightarrow> audit_log \<Rightarrow> audit_event \<Rightarrow> unit run" where
  "audit_append js log event =
     (let e = event\<lparr>ae_detail := redact (al_redactor log) (ae_detail event)\<rparr> in
      case to_json js e of
        Inl err \<Rightarrow> pure_run (fail EInternal (lit ''cannot encode audit event: '' @ err))
      | Inr line \<Rightarrow>
          run_then (on_err from_io (io_open_append (al_path log))) (\<lambda>_.
          run_then (on_err from_io (io_write_all (al_path log) (as_bytes (line @ [10])))) (\<lambda>_.
          on_err from_io io_touch)))"

definition audit_read_recent :: "json \<Rightarrow> audit_log \<Rightarrow> nat \<Rightarrow> audit_event list run" where
  "audit_read_recent js log limit s =
     (case io_read_string (al_path log) s of
        (Inl e, s') \<Rightarrow> (if fst e = IoNotFound then Inr [] else Inl (from_io e), s')
      | (Inr content, s') \<Rightarrow> (Inr (read_recent js limit content), s'))"

text \<open>A history of records, whose results the callers ignore.\<close>

fun audit_all :: "json \<Rightarrow> audit_log \<Rightarrow> audit_event list \<Rightarrow> fs \<Rightarrow> unit rdt_result list \<times> fs" where
  "audit_all js log [] s = ([], s)"
| "audit_all js log (e # es) s =
     (case audit_append js log e s of (r, s1) \<Rightarrow> (case audit_all js log es s1 of (rs, s2) \<Rightarrow> (r # rs, s2)))"

section \<open>Starting\<close>

record log_config =
  lc_console_level :: ustring
  lc_file_level :: ustring
  lc_file_enabled :: bool
  lc_max_bytes :: nat
  lc_max_files :: nat
  lc_secrets :: "ustring list"

definition log_config_default :: log_config where
  "log_config_default =
     \<lparr>lc_console_level = lit ''info'', lc_file_level = lit ''debug'', lc_file_enabled = True,
      lc_max_bytes = 8 * 1024 * 1024, lc_max_files = 5, lc_secrets = []\<rparr>"

definition filter_for :: "(ustring \<Rightarrow> bool) \<Rightarrow> ustring option \<Rightarrow> ustring \<Rightarrow> ustring" where
  "filter_for parses rust_log level =
     (let directive = (case rust_log of Some v \<Rightarrow> v | None \<Rightarrow> lit ''rdt='' @ level @ lit '',warn'') in
      if parses directive then directive else lit ''warn'')"

text \<open>The layers that are installed: their filters, the console first; the file is not rotated.\<close>

record log_handles =
  lh_buffer :: log_buffer
  lh_log_file :: "ustring option"
  lh_audit :: audit_log
  lh_console_filter :: ustring
  lh_file_filter :: "ustring option"

definition log_init ::
  "(ustring \<Rightarrow> bool) \<Rightarrow> ustring option \<Rightarrow> ustring option \<Rightarrow> app_paths \<Rightarrow> log_config \<Rightarrow> (fs \<Rightarrow> unit rdt_result \<times> fs) \<Rightarrow> log_handles run" where
  "log_init parses rust_log subscriber_error p config ensure =
     run_then ensure (\<lambda>_.
     run_then (audit_open (audit_file p) (build_redactor (lc_secrets config))) (\<lambda>audit.
     pure_run (case subscriber_error of
        Some e \<Rightarrow> fail EInternal (lit ''cannot install the logging subscriber: '' @ e)
      | None \<Rightarrow>
          Inr \<lparr>lh_buffer = log_new 2000, lh_log_file = (if lc_file_enabled config then Some (log_file p) else None),
               lh_audit = audit, lh_console_filter = filter_for parses rust_log (lc_console_level config),
               lh_file_filter = (if lc_file_enabled config then Some (filter_for parses rust_log (lc_file_level config)) else None)\<rparr>)))"

section \<open>The trail only grows\<close>

definition bytes_of :: "ustring \<Rightarrow> fs \<Rightarrow> u8 list" where
  "bytes_of p s = (case fs_files s p of Some c \<Rightarrow> c | None \<Rightarrow> [])"

definition record_line :: "json \<Rightarrow> audit_log \<Rightarrow> audit_event \<Rightarrow> u8 list" where
  "record_line js log e =
     (case to_json js (redacted_event (al_redactor log) e) of Inl _ \<Rightarrow> [] | Inr line \<Rightarrow> as_bytes (line @ [10]))"

text \<open>What a record leaves in the file: a part of its line, all of it unless it reported an error.\<close>

definition recorded :: "json \<Rightarrow> audit_log \<Rightarrow> u8 list \<Rightarrow> audit_event \<times> unit rdt_result \<Rightarrow> bool" where
  "recorded js log t = (\<lambda>(e, r). prefix t (record_line js log e) \<and> (r = Inr () \<longrightarrow> t = record_line js log e))"

lemma open_append_bytes: "io_open_append p s = (r, s') \<Longrightarrow> bytes_of p s' = bytes_of p s \<and> fs_files s' = (fs_files s)(p := fs_files s' p)"
  by (auto simp: io_open_append_def bytes_of_def split: option.splits)

lemma write_all_bytes: "io_write_all p b s = (r, s') \<Longrightarrow>
   \<exists>t. prefix t b \<and> (r = Inr () \<longrightarrow> t = b) \<and> bytes_of p s' = bytes_of p s @ t \<and> fs_files s' = (fs_files s)(p := fs_files s' p)"
  by (auto simp: io_write_all_def bytes_of_def Let_def take_is_prefix split: option.splits)

lemma touch_bytes: "io_touch s = (r, s') \<Longrightarrow> fs_files s' = fs_files s"
  by (auto simp: io_touch_def)

lemma append_grows:
  assumes "audit_append js log e s = (r, s')"
  shows "\<exists>t. recorded js log t (e, r) \<and> bytes_of (al_path log) s' = bytes_of (al_path log) s @ t
     \<and> fs_files s' = (fs_files s)(al_path log := fs_files s' (al_path log))"
proof (cases "to_json js (redacted_event (al_redactor log) e)")
  case (Inl err)
  with assms show ?thesis
    by (auto simp: audit_append_def Let_def redacted_event_def pure_run_def recorded_def record_line_def fail_def)
next
  case (Inr line)
  let ?p = "al_path log" and ?b = "as_bytes (line @ [10])"
  have b: "record_line js log e = ?b" using Inr by (simp add: record_line_def)
  obtain r1 s1 where 1: "io_open_append ?p s = (r1, s1)" by fastforce
  obtain r2 s2 where 2: "io_write_all ?p ?b s1 = (r2, s2)" by fastforce
  obtain r3 s3 where 3: "io_touch s2 = (r3, s3)" by fastforce
  have run: "(r, s') = (case r1 of Inl x \<Rightarrow> (Inl (from_io x), s1) | Inr _ \<Rightarrow>
      (case r2 of Inl x \<Rightarrow> (Inl (from_io x), s2) | Inr _ \<Rightarrow> (case r3 of Inl x \<Rightarrow> (Inl (from_io x), s3) | Inr y \<Rightarrow> (Inr y, s3))))"
    using assms Inr 1 2 3 by (cases r1; cases r2; cases r3) (auto simp: audit_append_def Let_def redacted_event_def run_then_def on_err_def)
  from write_all_bytes [OF 2] obtain t where t: "prefix t ?b" "r2 = Inr () \<longrightarrow> t = ?b" "bytes_of ?p s2 = bytes_of ?p s1 @ t"
    "fs_files s2 = (fs_files s1)(?p := fs_files s2 ?p)" by blast
  note o = open_append_bytes [OF 1] and f = touch_bytes [OF 3]
  show ?thesis
  proof (cases r1)
    case (Inl x)
    with run o b show ?thesis by (intro exI [of _ "[]"]) (auto simp: recorded_def)
  next
    case r1: (Inr _)
    have s3: "bytes_of ?p s3 = bytes_of ?p s2" using f by (simp add: bytes_of_def)
    have files: "fs_files s2 = (fs_files s)(?p := fs_files s2 ?p)"
      using o [THEN conjunct2] t(4) by (metis fun_upd_upd)
    show ?thesis
    proof (cases r2)
      case (Inl x)
      with run r1 t o files b show ?thesis by (intro exI [of _ t]) (auto simp: recorded_def)
    next
      case (Inr y)
      with run r1 t o files b f s3 show ?thesis
        by (intro exI [of _ t]) (auto simp: recorded_def split: sum.splits)
    qed
  qed
qed

lemma audit_all_grows:
  "\<exists>ts. bytes_of (al_path log) (snd (audit_all js log es s)) = bytes_of (al_path log) s @ concat ts
     \<and> list_all2 (recorded js log) ts (zip es (fst (audit_all js log es s)))
     \<and> fs_files (snd (audit_all js log es s))
         = (fs_files s)(al_path log := fs_files (snd (audit_all js log es s)) (al_path log))"
proof (induction es arbitrary: s)
  case Nil
  show ?case by (intro exI [of _ "[]"]) simp
next
  case (Cons e es)
  obtain r s1 where 1: "audit_append js log e s = (r, s1)" by fastforce
  obtain rs s2 where 2: "audit_all js log es s1 = (rs, s2)" by fastforce
  from append_grows [OF 1] obtain t where t: "recorded js log t (e, r)"
    "bytes_of (al_path log) s1 = bytes_of (al_path log) s @ t" "fs_files s1 = (fs_files s)(al_path log := fs_files s1 (al_path log))"
    by blast
  from Cons [of s1] 2 obtain ts where ts: "bytes_of (al_path log) s2 = bytes_of (al_path log) s1 @ concat ts"
    "list_all2 (recorded js log) ts (zip es rs)" "fs_files s2 = (fs_files s1)(al_path log := fs_files s2 (al_path log))" unfolding 2 fst_conv snd_conv by blast
  have files: "fs_files s2 = (fs_files s)(al_path log := fs_files s2 (al_path log))" using ts(3) t(3) by (metis fun_upd_upd)
  have bytes: "bytes_of (al_path log) s2 = bytes_of (al_path log) s @ concat (t # ts)" using t(2) ts(1) by simp
  have all: "list_all2 (recorded js log) (t # ts) (zip (e # es) (r # rs))" using t(1) ts(2) by simp
  have run: "audit_all js log (e # es) s = (r # rs, s2)" using 1 2 by simp
  show ?case unfolding run fst_conv snd_conv by (rule exI [of _ "t # ts"], intro conjI) (fact bytes all files)+
qed

text \<open>C39: The audit trail is append-only: whatever is recorded and whichever calls to the operating system
  fail, the old contents stay at the front of the file and no other file changes; every record adds
  a part of its own line, and the whole line unless it reports an error.\<close>

theorem audit_trail_only_grows:
  "\<exists>ts. bytes_of (al_path log) (snd (audit_all js log es s)) = bytes_of (al_path log) s @ concat ts
     \<and> list_all2 (recorded js log) ts (zip es (fst (audit_all js log es s)))
     \<and> fs_files (snd (audit_all js log es s))
         = (fs_files s)(al_path log := fs_files (snd (audit_all js log es s)) (al_path log))"
  by (rule audit_all_grows)

section \<open>What was recorded is read back\<close>

lemma audit_all_calm:
  assumes "fs_faults s = []" and "\<forall>e \<in> set es. json_law js (redacted_event (al_redactor log) e)"
  shows "fst (audit_all js log es s) = replicate (length es) (Inr ()) \<and> fs_faults (snd (audit_all js log es s)) = []"
  using assms
proof (induction es arbitrary: s)
  case (Cons e es)
  then obtain l where l: "to_json js (redacted_event (al_redactor log) e) = Inr l" by (auto simp: json_law_def)
  obtain s1 where "audit_append js log e s = (Inr (), s1)" "fs_faults s1 = []"
    using Cons.prems(1) l by (simp add: audit_append_def Let_def redacted_event_def run_then_def on_err_def io_open_append_def
        io_write_all_def io_touch_def after_call_def set_file_def)
  with Cons.IH [of s1] Cons.prems(2) show ?case by (simp add: case_prod_beta)
qed simp

text \<open>The bytes of a text are read back as the text; what \<open>record_all\<close> says of texts holds of the file.\<close>

lemma audit_all_text:
  assumes "fs_faults s = []" and "\<forall>e \<in> set es. json_law js (redacted_event (al_redactor log) e)"
  shows "bytes_of (al_path log) (snd (audit_all js log es s))
     = bytes_of (al_path log) s @ concat (map (record_line js log) es)"
proof -
  obtain ts where ts: "bytes_of (al_path log) (snd (audit_all js log es s)) = bytes_of (al_path log) s @ concat ts"
    "list_all2 (recorded js log) ts (zip es (fst (audit_all js log es s)))"
    using audit_all_grows [of log js es s] by blast
  have "list_all2 (recorded js log) ts (zip es (replicate (length es) (Inr ()))) \<Longrightarrow> ts = map (record_line js log) es"
    by (induction es arbitrary: ts) (auto simp: list_all2_Cons2 recorded_def)
  with ts audit_all_calm [OF assms] show ?thesis by simp
qed

lemma audit_trail_read_back:
  assumes "fs_faults s = []" and "bytes_of (al_path log) s = []" and "es \<noteq> []"
    and laws: "\<forall>e \<in> set es. json_law js (redacted_event (al_redactor log) e)"
    and scalars: "\<forall>e \<in> set es. \<forall>c \<in> set (line_of js (redacted_event (al_redactor log) e)). is_scalar c"
  shows "fst (audit_read_recent js log limit (snd (audit_all js log es s))) = Inr (last_n limit (map (redacted_event (al_redactor log)) es))"
proof -
  let ?p = "al_path log" and ?s = "snd (audit_all js log es s)" and ?evs = "map (redacted_event (al_redactor log)) es"
  let ?text = "concat (map (\<lambda>l. l @ [10]) (map (line_of js) ?evs))"
  have line: "record_line js log e = as_bytes (line_of js (redacted_event (al_redactor log) e) @ [10])" if "e \<in> set es" for e
    using laws that by (auto simp: record_line_def line_of_def json_law_def)
  have "bytes_of ?p ?s = concat (map (record_line js log) es)" using audit_all_text [OF assms(1) laws] assms(2) by simp
  also have "\<dots> = as_bytes ?text"
    using line by (induction es) (simp_all add: as_bytes_def)
  finally have bytes: "bytes_of ?p ?s = as_bytes ?text" .
  moreover have "as_bytes ?text \<noteq> []" using assms(3) by (cases es) (simp_all add: as_bytes_append as_bytes_nl)
  ultimately have disk: "fs_files ?s ?p = Some (as_bytes ?text)" by (auto simp: bytes_of_def split: option.splits)
  have "from_utf8 (as_bytes ?text) = Some ?text"
    using scalars by (intro from_utf8_as_bytes) (auto simp: is_scalar_def)
  moreover obtain content where "record_all js (al_redactor log) es [] = Inr content"
    "read_recent js limit content = last_n limit ?evs" using audit_read_back [OF laws] by blast
  ultimately show ?thesis
    using disk audit_all_calm [OF assms(1) laws] record_all_file [OF laws, of "[]"]
    by (simp add: audit_read_recent_def io_read_string_def io_read_def)
qed

end
