(* ===== verification/Ui_App.thy ===== *)
theory Ui_App
  imports Ui_Pages Log_Audit
begin

text \<open>
  The application around the pages, \<open>crates/rdt-ui/src/lib.rs\<close>: a frame of the window, the background
  worker that drains the command queue, and the start of the program. The name of the running
  process, the window and the runtime are the toolkit's; whether the window opens is an argument.
\<close>

section \<open>A frame\<close>

record ui_application =
  ap_state :: app_state
  ap_page :: page
  ap_palette :: palette

definition app_new :: "app_state \<Rightarrow> ui_application" where
  "app_new s =
     (let ui = st_ui (cf_settings (cs_config (as_config s))) in
      \<lparr>ap_state = s, ap_page = page_from_name (us_start_page ui), ap_palette = for_theme (us_theme ui)\<rparr>)"

text \<open>The navigation rail: of the entries that report a click, the last one wins.\<close>

primrec navigation :: "ui_env \<Rightarrow> page \<Rightarrow> page list \<Rightarrow> page \<Rightarrow> page drawing" where
  "navigation env current [] selected = State_Monad.return selected"
| "navigation env current (p # ps) selected = do {
     n \<leftarrow> widget (Choice (page_title p) (p = current));
     navigation env current ps (if ue_clicked env n then p else selected) }"

definition app_layout :: "ui_env \<Rightarrow> page \<Rightarrow> page drawing" where
  "app_layout env current = do {
     draw (Heading (lit ''Remote Desktop Tool''));
     selected \<leftarrow> navigation env current page_all current;
     active \<leftarrow> look (\<lambda>s. active_count (as_sessions s));
     draw (Label (show_nat active @ lit '' active session(s)''));
     status \<leftarrow> look as_status;
     draw (Label status);
     on_button env (lit ''Save settings'') (act (push UiSaveConfig));
     draw_page env selected;
     State_Monad.return selected }"

definition apply_theme :: "ui_env \<Rightarrow> palette \<Rightarrow> unit drawing" where
  "apply_theme env p = draw (Background (is_dark (ue_vars env) p) (terminal_background (ue_vars env) p))"

text \<open>What was drawn, whether another frame is requested, and the application after the frame.\<close>

definition app_update :: "ui_env \<Rightarrow> ui_application \<Rightarrow> (drawn list \<times> bool) \<times> ui_application" where
  "app_update env a =
     (let (p, u) = run_state (do { apply_theme env (ap_palette a); app_layout env (ap_page a) })
                     \<lparr>ui_drawn = [], ui_app = ap_state a\<rparr>;
          s = ui_app u
      in ((ui_drawn u, cs_dirty (as_config s) \<or> as_terminals s \<noteq> Map.empty),
          a\<lparr>ap_state := s, ap_page := p\<rparr>))"

section \<open>The background worker\<close>

record 'v worker_env =
  we_toml :: "'v toml"
  we_open :: "nat \<Rightarrow> bool"
  we_now :: u64

definition size_debug :: "nat \<times> nat \<Rightarrow> ustring" where
  "size_debug z = [40] @ show_nat (fst z) @ [44, 32] @ show_nat (snd z) @ [41]"

definition worker_command :: "'v worker_env \<Rightarrow> ui_command \<Rightarrow> app_state \<times> fs \<Rightarrow> app_state \<times> fs" where
  "worker_command env c = (\<lambda>(s, files).
     (case c of
        UiSaveConfig \<Rightarrow>
          (case config_save (we_toml env) (as_config s) files of
             ((Inr _, st), files') \<Rightarrow> (set_status (lit ''settings saved'') (s\<lparr>as_config := st\<rparr>), files')
           | ((Inl e, st), files') \<Rightarrow>
               (set_status (lit ''cannot save settings: '' @ error_display e) (s\<lparr>as_config := st\<rparr>), files'))
      | UiRefreshLogs \<Rightarrow> (set_status (lit ''logs refreshed'') s, files)
      | UiConnect p z \<Rightarrow>
          (set_status (lit ''connecting to profile '' @ id_display p @ lit '' at '' @ size_debug z) s, files)
      | UiDisconnect i \<Rightarrow> (set_status (lit ''session disconnected'') (cancel_session (we_now env) i s), files)
      | UiTerminalInput i d \<Rightarrow> (send_quietly (we_open env) i (TerminalInput d) s, files)
      | UiResize i w h \<Rightarrow> (send_quietly (we_open env) i (Resize w h) s, files)
      | UiTransfer i local remote upload \<Rightarrow>
          (send_quietly (we_open env) i (if upload then Upload local remote else Download remote local) s, files)))"

text \<open>One turn of the worker's loop: the queue is taken whole, then the commands run one by one.\<close>

definition worker_pass :: "'v worker_env \<Rightarrow> app_state \<times> fs \<Rightarrow> app_state \<times> fs" where
  "worker_pass env = (\<lambda>(s, files).
     (let (cs, s') = drain s in fold (worker_command env) cs (s', files)))"

section \<open>Start\<close>

definition policy_of :: "settings \<Rightarrow> manager_policy" where
  "policy_of x =
     manager_policy_default\<lparr>mp_max_concurrent := ses_max_concurrent (st_session x), mp_audit := ses_audit (st_session x)\<rparr>"

text \<open>\<open>run_default\<close> up to the window: the shared state with the audit log of its manager, or the error.
  The call leaves out the redactor that opening the audit log takes; \<open>r\<close> stands for it.\<close>

definition build_state :: "'v toml \<Rightarrow> redactor \<Rightarrow> host \<Rightarrow> fs \<Rightarrow> (app_state \<times> audit_log) rdt_result \<times> fs" where
  "build_state tm r ho files =
     (let (loaded, files1) = config_load tm (config_file (detect_paths ho)) files in
      (case (case loaded of
               Inr st \<Rightarrow> Inr st
             | Inl Rdt_Config.Missing \<Rightarrow> Inr in_memory
             | Inl (LoadFailed e) \<Rightarrow> Inl e) of
         Inl e \<Rightarrow> (Inl e, files1)
       | Inr st \<Rightarrow>
           (let (audit, files2) = audit_or_null r (audit_file (detect_paths ho)) files1 in
            (case manager_new (policy_of (cf_settings (cs_config st))) of
               Inl e \<Rightarrow> Inl e
             | Inr m \<Rightarrow>
                 Inr (\<lparr>as_config = st, as_sessions = m, as_vault = None, as_logs = log_new 1024, as_commands = [],
                       as_terminals = Map.empty, as_framebuffers = Map.empty, as_status = lit ''ready'',
                       as_sent = []\<rparr>, audit), files2))))"

definition run_default :: "'v toml \<Rightarrow> redactor \<Rightarrow> host \<Rightarrow> ustring option \<Rightarrow> fs \<Rightarrow> ui_application rdt_result \<times> fs" where
  "run_default tm r ho window files =
     (case build_state tm r ho files of
        (Inl e, files') \<Rightarrow> (Inl e, files')
      | (Inr (s, audit), files') \<Rightarrow>
          (case window of
             Some msg \<Rightarrow> fail EPlatform (lit ''cannot open the window: '' @ msg)
           | None \<Rightarrow> Inr (app_new s), files'))"

text \<open>\<open>main\<close>: the lines of standard error and whether the process succeeds; logging may fail.\<close>

definition gui_main :: "ustring option \<Rightarrow> 'a rdt_result \<Rightarrow> ustring list \<times> bool" where
  "gui_main log_error r =
     (let first = (case log_error of Some e \<Rightarrow> [lit ''cannot initialise logging: '' @ e] | None \<Rightarrow> []) in
      (case r of Inr _ \<Rightarrow> (first, True) | Inl e \<Rightarrow> (first @ [lit ''rdt: '' @ error_display e], False)))"

section \<open>Runs\<close>

text \<open>
  The window and the worker take turns; in between, output that arrives for a session may change the
  terminals, the desktops and the log. \<open>ui_run\<close> relates what the interface and the files were
  and may become.
\<close>

inductive ui_step :: "'v toml \<Rightarrow> ui_application \<times> fs \<Rightarrow> ui_application \<times> fs \<Rightarrow> bool" for tm :: "'v toml" where
  frame: "app_update env a = (picture, a') \<Longrightarrow> ui_step tm (a, files) (a', files)"
| worker: "we_toml env = tm \<Longrightarrow> worker_pass env (ap_state a, files) = (s, files') \<Longrightarrow> ui_step tm (a, files) (a\<lparr>ap_state := s\<rparr>, files')"
| arrival: "ui_step tm (a, files)
     (a\<lparr>ap_state := (ap_state a)\<lparr>as_terminals := ts, as_framebuffers := fbs, as_logs := ls\<rparr>\<rparr>, files)"

end
