(* ===== verification/Ui_Frame.thy ===== *)
theory Ui_Frame
  imports Ui_App Sess_Manager
begin

text \<open>
  What drawing may change. A relation between the states before and after that is reflexive and
  transitive is kept by a page as soon as its widgets keep it; the locale \<open>drawing_frame\<close> proves this
  once for the state monad, and is interpreted by the permissions of the pages.
\<close>

section \<open>Frame rules\<close>

locale drawing_frame =
  fixes R :: "ui \<Rightarrow> ui \<Rightarrow> bool"
  assumes same: "R u u"
    and compose: "R u v \<Longrightarrow> R v w \<Longrightarrow> R u w"
    and drawing: "R u (u\<lparr>ui_drawn := ui_drawn u @ d\<rparr>)"
begin

lemma stays_return: "state_io_rel R (State_Monad.return x)"
  by (rule state_io_relI) (simp add: same)

lemma stays_bind: "state_io_rel R m \<Longrightarrow> (\<And>x. state_io_rel R (f x)) \<Longrightarrow> state_io_rel R (m \<bind> f)"
  by (rule state_io_relI) (auto split: prod.splits intro: compose dest!: state_io_relD)

lemma stays_widget: "state_io_rel R (widget w)"
  by (rule state_io_relI) (auto simp: widget_def drawing)

lemma stays_draw: "state_io_rel R (draw w)"
  unfolding draw_def by (intro stays_bind stays_widget stays_return)

lemma stays_look: "state_io_rel R (look f)"
  by (rule state_io_relI) (auto simp: look_def same)

lemma stays_each: "(\<And>x. state_io_rel R (f x)) \<Longrightarrow> state_io_rel R (each f xs)"
  by (induction xs) (auto intro: stays_return stays_bind)

lemma stays_on_button: "state_io_rel R body \<Longrightarrow> state_io_rel R (on_button env txt body)"
  unfolding on_button_def by (intro stays_bind stays_widget) (auto intro: stays_return)

lemma stays_checkbox: "state_io_rel R (checkbox env txt v)"
  unfolding checkbox_def by (intro stays_bind stays_widget stays_return)

lemma stays_slider: "state_io_rel R (slider env txt lo hi v)"
  unfolding slider_def by (intro stays_bind stays_widget stays_return)

lemma stays_selectable: "state_io_rel R (selectable env txt offered v)"
  unfolding selectable_def by (intro stays_bind stays_widget) (auto split: prod.split intro: stays_return)

lemma stays_choices: "state_io_rel R (choices env options v changed)"
  by (induction env options v changed rule: choices.induct) (auto intro!: stays_return stays_bind stays_selectable split: prod.split)

lemma stays_combo: "state_io_rel R (combo env salt picked options v)"
  unfolding combo_def by (intro stays_bind stays_widget) (auto intro: stays_return stays_choices)

lemmas stays_rules =
  stays_return stays_bind stays_widget stays_draw stays_look stays_each stays_on_button stays_checkbox
  stays_slider stays_selectable stays_combo

end

section \<open>Permissions\<close>

datatype permit = May_Configure | May_End_Sessions | May_Make_Terminals | May_Take_Damage | May_Send

text \<open>
  With the permissions \<open>A\<close>: the vault and the logs stay, commands are only appended to the queue, the
  status is free, and every other part changes only with a permission. Sessions may only end, and
  what is sent goes into the channel of a session.
\<close>

definition app_touches :: "permit set \<Rightarrow> app_state \<Rightarrow> app_state \<Rightarrow> bool" where
  "app_touches A s s' \<longleftrightarrow>
     as_vault s' = as_vault s \<and> as_logs s' = as_logs s \<and> prefix (as_commands s) (as_commands s')
     \<and> (as_config s' = as_config s \<or> May_Configure \<in> A)
     \<and> (as_sessions s' = as_sessions s \<or> May_End_Sessions \<in> A) \<and> sessions_left (as_sessions s) (as_sessions s')
     \<and> (as_terminals s' = as_terminals s \<or> May_Make_Terminals \<in> A)
     \<and> (as_framebuffers s' = as_framebuffers s \<or> May_Take_Damage \<in> A)
     \<and> (\<exists>more. as_sent s' = as_sent s @ more \<and> fst ` set more \<subseteq> channels (as_sessions s) \<and> (more = [] \<or> May_Send \<in> A))"

definition ui_touches :: "permit set \<Rightarrow> ui \<Rightarrow> ui \<Rightarrow> bool" where
  "ui_touches A u u' \<longleftrightarrow> app_touches A (ui_app u) (ui_app u')"

lemma app_touches_refl [simp]: "app_touches A s s"
  by (simp add: app_touches_def)

lemma app_touches_trans:
  assumes st: "app_touches A s t" and tu: "app_touches A t u"
  shows "app_touches A s u"
proof -
  obtain a b where sent: "as_sent t = as_sent s @ a" "fst ` set a \<subseteq> channels (as_sessions s)" "a = [] \<or> May_Send \<in> A"
    "as_sent u = as_sent t @ b" "fst ` set b \<subseteq> channels (as_sessions t)" "b = [] \<or> May_Send \<in> A"
    using st tu unfolding app_touches_def by blast
  have left: "sessions_left (as_sessions s) (as_sessions t)" "sessions_left (as_sessions t) (as_sessions u)"
    using st tu unfolding app_touches_def by blast+
  have "as_sent u = as_sent s @ a @ b \<and> fst ` set (a @ b) \<subseteq> channels (as_sessions s) \<and> (a @ b = [] \<or> May_Send \<in> A)"
    using sent sessions_left_channels [OF left(1)] by auto
  moreover note sessions_left_trans [OF left]
  moreover have "prefix (as_commands s) (as_commands u)"
    using st tu unfolding app_touches_def by (blast intro: prefix_order.trans)
  moreover have "as_vault u = as_vault s" "as_logs u = as_logs s"
    "as_config u = as_config s \<or> May_Configure \<in> A" "as_sessions u = as_sessions s \<or> May_End_Sessions \<in> A"
    "as_terminals u = as_terminals s \<or> May_Make_Terminals \<in> A" "as_framebuffers u = as_framebuffers s \<or> May_Take_Damage \<in> A"
    using st tu unfolding app_touches_def by (elim conjE, argo)+
  ultimately show ?thesis unfolding app_touches_def by blast
qed

interpretation permitted: drawing_frame "ui_touches A" for A
  by unfold_locales (auto simp: ui_touches_def intro: app_touches_trans)

lemma act_touches: "(\<And>s. app_touches A s (f s)) \<Longrightarrow> state_io_rel (ui_touches A) (act f)"
  by (rule state_io_relI) (auto simp: act_def ui_touches_def)

lemma app_touches_push [simp]: "app_touches A s (push c s)"
  by (simp add: app_touches_def push_def)

lemma app_touches_status [simp]: "app_touches A s (set_status txt s)"
  by (simp add: app_touches_def set_status_def)

lemma app_touches_send: "May_Send \<in> A \<Longrightarrow> app_touches A s (send_quietly is_open i c s)"
  by (auto simp: app_touches_def send_quietly_def split: sum.split dest: send_to_channel)

lemma app_touches_cancel: "May_End_Sessions \<in> A \<Longrightarrow> app_touches A s (cancel_session now i s)"
  by (simp add: app_touches_def cancel_session_def sessions_left_cancel)

lemma app_touches_config: "May_Configure \<in> A \<Longrightarrow> app_touches A s (s\<lparr>as_config := st\<rparr>)"
  by (simp add: app_touches_def)

lemma app_touches_config_status: "May_Configure \<in> A \<Longrightarrow> app_touches A s (set_status txt (s\<lparr>as_config := st\<rparr>))"
  by (simp add: app_touches_def set_status_def)

lemma app_touches_new_profile: "May_Configure \<in> A \<Longrightarrow> app_touches A s (new_profile env i name proto s)"
  by (simp add: new_profile_def app_touches_config_status split: prod.split sum.split)

lemma app_touches_delete_profile: "May_Configure \<in> A \<Longrightarrow> app_touches A s (delete_profile i s)"
  by (simp add: delete_profile_def app_touches_config_status split: prod.split sum.split)

lemma app_touches_terminal: "May_Make_Terminals \<in> A \<Longrightarrow> app_touches A s (s\<lparr>as_terminals := ts\<rparr>)"
  by (simp add: app_touches_def)

lemma app_touches_framebuffers: "May_Take_Damage \<in> A \<Longrightarrow> app_touches A s (s\<lparr>as_framebuffers := fbs\<rparr>)"
  by (simp add: app_touches_def)

lemma app_touches_pointer: "May_Send \<in> A \<Longrightarrow> app_touches A s (inject_pointer env n i s)"
  by (simp add: inject_pointer_def app_touches_send split: option.split)

lemmas touch_rules =
  act_touches app_touches_push app_touches_status app_touches_send app_touches_cancel app_touches_config app_touches_new_profile
  app_touches_delete_profile app_touches_terminal app_touches_framebuffers app_touches_pointer

section \<open>Pages\<close>

definition page_may :: "page \<Rightarrow> permit set" where
  "page_may p =
     (case p of
        SshPage \<Rightarrow> {May_Make_Terminals, May_Send}
      | RdpPage \<Rightarrow> {May_Take_Damage, May_Send}
      | ProfilesPage \<Rightarrow> {May_Configure}
      | SettingsPage \<Rightarrow> {May_Configure}
      | SessionsPage \<Rightarrow> {May_End_Sessions}
      | _ \<Rightarrow> {})"

lemma dashboard_touches: "state_io_rel (ui_touches A) (dashboard env)"
  by (auto simp: dashboard_def quick_connect_def intro!: permitted.stays_rules touch_rules)

lemma terminal_view_touches:
  "May_Make_Terminals \<in> A \<Longrightarrow> May_Send \<in> A \<Longrightarrow> state_io_rel (ui_touches A) (terminal_view env i)"
  by (auto simp: terminal_view_def snap_terminal_def draw_row_def draw_cell_def Let_def
      intro!: permitted.stays_rules touch_rules split: prod.split)

lemma ssh_touches: "May_Make_Terminals \<in> A \<Longrightarrow> May_Send \<in> A \<Longrightarrow> state_io_rel (ui_touches A) (ssh env)"
  by (auto simp: ssh_def intro!: permitted.stays_rules touch_rules terminal_view_touches split: option.split)

lemma desktop_view_touches:
  "May_Take_Damage \<in> A \<Longrightarrow> May_Send \<in> A \<Longrightarrow> state_io_rel (ui_touches A) (desktop_view env i)"
  by (auto simp: desktop_view_def paint_desktop_def intro!: permitted.stays_rules touch_rules split: prod.split option.split)

lemma rdp_page_touches: "May_Take_Damage \<in> A \<Longrightarrow> May_Send \<in> A \<Longrightarrow> state_io_rel (ui_touches A) (rdp_page env)"
  by (auto simp: rdp_page_def intro!: permitted.stays_rules touch_rules desktop_view_touches split: option.split)

lemma profiles_touches: "May_Configure \<in> A \<Longrightarrow> state_io_rel (ui_touches A) (profiles env)"
  by (auto simp: profiles_def profile_entry_def profile_details_def intro!: permitted.stays_rules touch_rules)

lemma sessions_touches: "May_End_Sessions \<in> A \<Longrightarrow> state_io_rel (ui_touches A) (sessions env)"
  by (auto simp: sessions_def session_entry_def intro!: permitted.stays_rules touch_rules)

lemma settings_form_touches: "state_io_rel (ui_touches A) (settings_form env x)"
  by (auto simp: settings_form_def interface_section_def security_section_def session_section_def logging_section_def
      intro!: permitted.stays_rules split: prod.split)

lemma settings_page_touches: "May_Configure \<in> A \<Longrightarrow> state_io_rel (ui_touches A) (settings_page env)"
  by (auto simp: settings_page_def intro!: permitted.stays_rules touch_rules settings_form_touches split: prod.split)

lemma logs_touches: "state_io_rel (ui_touches A) (logs env)"
  by (auto simp: logs_def intro!: permitted.stays_rules touch_rules)

lemma help_touches: "state_io_rel (ui_touches A) help_page"
  unfolding help_page_def by (intro permitted.stays_each permitted.stays_draw)

lemma page_touches: "page_may p \<subseteq> A \<Longrightarrow> state_io_rel (ui_touches A) (draw_page env p)"
  by (cases p) (simp_all add: page_may_def draw_page_def dashboard_touches ssh_touches rdp_page_touches profiles_touches
      sessions_touches settings_page_touches logs_touches help_touches)

end
