(* ===== verification/Ui_Props.thy ===== *)
theory Ui_Props
  imports Ui_Frame Rdt_Config_Props Ssh_Glob
begin

text \<open>
  What the desktop interface promises: which page may change what, which settings a page can store, what
  the background worker makes of the queue, and what no run of the interface ever does.
\<close>

section \<open>Names of pages\<close>

lemma page_name_round_trip: "page_from_name (page_name p) = p"
  by (cases p) (simp_all add: page_from_name_def page_all_def page_name_def)

lemma page_all_complete: "distinct page_all \<and> set page_all = UNIV"
  by (auto simp: page_all_def intro: page.exhaust)

lemma unknown_page_is_dashboard: "name \<notin> page_name ` set page_all \<Longrightarrow> page_from_name name = Dashboard"
  by (auto simp: page_from_name_def find_Some_iff split: option.split)

lemma ansi_never_out_of_range: "ansi gamma dark index \<noteq> None"
proof -
  have "length (ansi_base dark) = 8" by (simp add: ansi_base_def)
  moreover have "unat index < 8" if "index \<le> 7" using that by (simp add: word_le_nat_alt)
  moreover have "unat (index - 8) < 8" if "\<not> index \<le> 7" "index \<le> 15"
    using that by (simp add: word_le_nat_alt unat_sub)
  ultimately show ?thesis by (simp add: ansi_def vec_get_def del: not_None_eq split_paired_Ex)
qed

section \<open>Pages keep to their permissions\<close>

text \<open>C35: Every page keeps to its permissions, whatever is clicked: the vault and the logs are never
  changed, queued commands are only added to, sessions may only end, the configuration changes only on
  the pages for profiles and settings, sessions are ended only on their page, and only the terminal and
  desktop pages send commands at once.\<close>

theorem pages_keep_permissions:
  "app_touches (page_may p) (ui_app u) (ui_app (snd (run_state (draw_page env p) u)))"
  using page_touches [of p "page_may p" env] by (auto simp: state_io_rel_def ui_touches_def)

lemma navigation_touches: "state_io_rel (ui_touches A) (navigation env current ps selected)"
  by (induction ps arbitrary: selected) (auto intro!: permitted.stays_rules)

lemma layout_touches: "state_io_rel (ui_touches UNIV) (app_layout env current)"
  by (auto simp: app_layout_def intro!: permitted.stays_rules touch_rules navigation_touches page_touches)

lemma update_touches: "app_touches UNIV (ap_state a) (ap_state (snd (app_update env a)))"
proof -
  have "state_io_rel (ui_touches UNIV) (do { apply_theme env (ap_palette a); app_layout env (ap_page a) })"
    by (auto simp: apply_theme_def intro!: permitted.stays_rules layout_touches)
  then have "ui_touches UNIV \<lparr>ui_drawn = [], ui_app = ap_state a\<rparr>
      (snd (run_state (do { apply_theme env (ap_palette a); app_layout env (ap_page a) }) \<lparr>ui_drawn = [], ui_app = ap_state a\<rparr>))"
    unfolding state_io_rel_def by blast
  then show ?thesis
    unfolding app_update_def Let_def ui_touches_def by (simp add: case_prod_beta)
qed

section \<open>The worker\<close>

text \<open>
  Delivery, abstractly: the command channels of the sessions that exist and are open; a command is
  delivered on the channel of its session, and a disconnected session has none any more.
\<close>

definition channel_of :: "(nat \<Rightarrow> bool) \<Rightarrow> manager \<Rightarrow> rdt_id \<Rightarrow> nat option" where
  "channel_of is_open m i =
     (case map_of (mg_sessions m) i of
        Some slot \<Rightarrow> if is_open (sl_commands slot) then Some (sl_commands slot) else None
      | None \<Rightarrow> None)"

fun session_message :: "ui_command \<Rightarrow> (rdt_id \<times> session_command) option" where
  "session_message (UiTerminalInput i d) = Some (i, TerminalInput d)"
| "session_message (UiResize i w h) = Some (i, Resize w h)"
| "session_message (UiTransfer i local remote True) = Some (i, Upload local remote)"
| "session_message (UiTransfer i local remote False) = Some (i, Download remote local)"
| "session_message _ = None"

fun delivered :: "(rdt_id \<Rightarrow> nat option) \<Rightarrow> ui_command list \<Rightarrow> (nat \<times> session_command) list" where
  "delivered ch [] = []"
| "delivered ch (UiDisconnect i # cs) = delivered (ch(i := None)) cs"
| "delivered ch (c # cs) =
     (case session_message c of
        Some (i, message) \<Rightarrow> (case ch i of Some n \<Rightarrow> (n, message) # delivered ch cs | None \<Rightarrow> delivered ch cs)
      | None \<Rightarrow> delivered ch cs)"

lemma send_quietly_sent:
  "as_sent (send_quietly is_open i c s)
     = as_sent s @ (case channel_of is_open (as_sessions s) i of Some n \<Rightarrow> [(n, c)] | None \<Rightarrow> [])"
  "as_sessions (send_quietly is_open i c s) = as_sessions s"
  "as_commands (send_quietly is_open i c s) = as_commands s"
  by (auto simp: send_quietly_def manager_send_def channel_send_def channel_of_def fail_def split: option.split sum.split)

lemma channel_of_cancel: "channel_of is_open (manager_cancel now i m) = (channel_of is_open m)(i := None)"
  by (auto simp: fun_eq_iff channel_of_def cancel_sessions AList.delete_conv')

lemma worker_command_delivers:
  "as_sent (fst (worker_command env c (s, files))) @ delivered (channel_of (we_open env) (as_sessions (fst (worker_command env c (s, files))))) cs
     = as_sent s @ delivered (channel_of (we_open env) (as_sessions s)) (c # cs)"
  "as_commands (fst (worker_command env c (s, files))) = as_commands s"
  by (cases c; auto simp: worker_command_def set_status_def cancel_session_def send_quietly_sent channel_of_cancel
      split: prod.split sum.split option.split bool.split)+

lemma worker_fold_delivers:
  "as_sent (fst (fold (worker_command env) cs (s, files))) = as_sent s @ delivered (channel_of (we_open env) (as_sessions s)) cs
   \<and> as_commands (fst (fold (worker_command env) cs (s, files))) = as_commands s"
proof (induction cs arbitrary: s files)
  case (Cons c cs)
  obtain s1 f1 where 1: "worker_command env c (s, files) = (s1, f1)" by fastforce
  from Cons [of s1 f1] worker_command_delivers(1) [of env c s files cs] worker_command_delivers(2) [of env c s files] 1 show ?case by simp
qed simp

text \<open>C36: A pass of the worker empties the queue and implements delivery: what reaches the sessions is
  what was queued, once each and in order, on the channel of its own session; commands for a session
  that is gone, closed, or disconnected earlier in the same queue are dropped.\<close>

theorem worker_implements_delivery:
  "as_commands (fst (worker_pass env (s, files))) = []
   \<and> as_sent (fst (worker_pass env (s, files)))
       = as_sent s @ delivered (channel_of (we_open env) (as_sessions s)) (as_commands s)"
  using worker_fold_delivers [where env = env and s = "s\<lparr>as_commands := []\<rparr>" and cs = "as_commands s" and files = files]
  by (simp add: worker_pass_def drain_def)

section \<open>No session is ever opened\<close>

definition closed_shop :: "app_state \<Rightarrow> bool" where
  "closed_shop s \<longleftrightarrow> mg_sessions (as_sessions s) = [] \<and> as_sent s = [] \<and> as_vault s = None"

text \<open>Without sessions nothing can be sent, and frames, worker and arrivals open none.\<close>

lemma closed_touches: "app_touches A s s' \<Longrightarrow> closed_shop s \<Longrightarrow> closed_shop s'"
  by (auto simp: closed_shop_def app_touches_def channels_def dest: sessions_left_none)

lemma worker_command_touches:
  "as_sessions s' = as_sessions s \<or> (\<exists>i. as_sessions s' = manager_cancel (we_now env) i (as_sessions s))"
  "as_vault s' = as_vault s"
  if "worker_command env c (s, files) = (s', files')"
  using that by (cases c; auto simp: worker_command_def set_status_def cancel_session_def send_quietly_def
      split: prod.splits sum.splits)+

lemma closed_worker_command: "closed_shop s \<Longrightarrow> closed_shop (fst (worker_command env c (s, files)))"
  using worker_command_touches [of env c s files] worker_command_delivers(1) [of env c s files "[]"]
  by (cases "worker_command env c (s, files)"; cases c)
    (auto simp: closed_shop_def cancel_sessions channel_of_def split: option.splits)

lemma closed_worker: "closed_shop s \<Longrightarrow> closed_shop (fst (worker_pass env (s, files)))"
proof -
  have "closed_shop (fst (fold (worker_command env) cs (t, files)))" if "closed_shop t" for cs t files
    using that by (induction cs arbitrary: t files) (simp, metis closed_worker_command fold_simps(2) prod.collapse)
  moreover assume "closed_shop s"
  ultimately show ?thesis by (simp add: worker_pass_def drain_def closed_shop_def)
qed

lemma closed_step: "ui_step tm (a, files) (b, files') \<Longrightarrow> closed_shop (ap_state a) \<Longrightarrow> closed_shop (ap_state b)"
proof (induction "(a, files)" "(b, files')" rule: ui_step.induct)
  case (frame env picture)
  with closed_touches [OF update_touches [of a env]] show ?case by simp
next
  case (worker env s)
  with closed_worker [of "ap_state a" env files] show ?case by auto
qed (auto simp: closed_shop_def)

lemma closed_run: "(ui_step tm)\<^sup>*\<^sup>* (a, files) (b, files') \<Longrightarrow> closed_shop (ap_state a) \<Longrightarrow> closed_shop (ap_state b)"
  by (induction "(b, files')" arbitrary: b files' rule: rtranclp_induct) (auto dest: closed_step)

lemma build_state_closed: "build_state tm r ho files = (Inr (s, audit), files') \<Longrightarrow> closed_shop s"
  by (auto simp: build_state_def closed_shop_def manager_new_def Let_def fail_def
      split: prod.splits sum.splits load_error.splits if_splits)

text \<open>C37: The program opens no session: in every run from its start, whatever the user clicks, the
  session manager stays empty, nothing is ever sent to a session and the vault stays closed.\<close>

theorem window_never_opens_a_session:
  assumes "run_default tm r ho None files = (Inr a, files1)" and "(ui_step tm)\<^sup>*\<^sup>* (a, files1) (b, files2)"
  shows "mg_sessions (as_sessions (ap_state b)) = [] \<and> as_sent (ap_state b) = [] \<and> as_vault (ap_state b) = None"
proof -
  have "closed_shop (ap_state a)"
    using assms(1) by (auto simp: run_default_def app_new_def Let_def dest: build_state_closed split: prod.splits sum.splits)
  from closed_run [OF assms(2) this] show ?thesis by (simp add: closed_shop_def)
qed

section \<open>Settings\<close>

text \<open>What a slider leaves lies in its range; the settings with a widget, in the ranges of the sliders.\<close>

definition sliders_in_range :: "ui_env \<Rightarrow> bool" where
  "sliders_in_range env \<longleftrightarrow> (\<forall>n lo hi v. lo \<le> hi \<longrightarrow> lo \<le> ue_slider env n lo hi v \<and> ue_slider env n lo hi v \<le> hi)"

definition settings_in_range :: "settings \<Rightarrow> bool" where
  "settings_in_range x \<longleftrightarrow>
     sec_vault_lock_minutes (st_security x) \<le> 240
     \<and> 1 \<le> ses_max_concurrent (st_session x) \<and> ses_max_concurrent (st_session x) \<le> 64
     \<and> ses_retention_days (st_session x) \<le> 365
     \<and> 1 \<le> st_log_max_mib x \<and> st_log_max_mib x \<le> 256 \<and> 1 \<le> st_log_keep x \<and> st_log_keep x \<le> 20"

interpretation drawn_only: drawing_frame "\<lambda>u u'. ui_app u' = ui_app u"
  by unfold_locales auto

lemma settings_form_only_draws: "state_io_rel (\<lambda>u u'. ui_app u' = ui_app u) (settings_form env x)"
  by (auto simp: settings_form_def interface_section_def security_section_def session_section_def logging_section_def
      intro!: drawn_only.stays_rules split: prod.split)

lemma settings_page_result:
  obtains new changed v where
    "run_state (settings_form env (cf_settings (cs_config (as_config (ui_app u))))) v = ((new, changed), snd (run_state (settings_form env (cf_settings (cs_config (as_config (ui_app u))))) v))"
    "ui_app (snd (run_state (settings_page env) u)) =
       (if changed then set_status settings_saved_hint ((ui_app u)\<lparr>as_config := set_settings new (as_config (ui_app u))\<rparr>)
        else ui_app u)"
proof -
  let ?v = "u\<lparr>ui_drawn := ui_drawn u @ [Heading (lit ''Settings'')]\<rparr>"
  let ?form = "settings_form env (cf_settings (cs_config (as_config (ui_app u))))"
  obtain new changed w where form: "run_state ?form ?v = ((new, changed), w)" by (metis prod.exhaust)
  with settings_form_only_draws have "ui_app w = ui_app u" by (fastforce dest: state_io_relD)
  with form show ?thesis
    by (intro that [of ?v new changed])
      (simp_all add: settings_page_def draw_def widget_def look_def act_def del: lit_simps)
qed

text \<open>Rules for what a computation returns.\<close>

lemma holds_bind: "pred_state Q m \<Longrightarrow> (\<And>x. Q x \<Longrightarrow> pred_state P (f x)) \<Longrightarrow> pred_state P (m \<bind> f)"
  by (rule pred_stateI) (auto split: prod.splits dest!: pred_stateD)

lemma holds_any: "(\<And>x. pred_state P (f x)) \<Longrightarrow> pred_state P (m \<bind> f)"
  by (rule holds_bind [of "\<lambda>_. True"]) (auto intro: pred_stateI)

lemma holds_pair: "(\<And>x y. pred_state P (f x y)) \<Longrightarrow> pred_state P (m \<bind> (\<lambda>(x, y). f x y))"
  by (rule holds_any) (simp split: prod.split)

lemma holds_bind_pair:
  "pred_state (\<lambda>(x, y). Q x y) m \<Longrightarrow> (\<And>x y. Q x y \<Longrightarrow> pred_state P (f x y)) \<Longrightarrow> pred_state P (m \<bind> (\<lambda>(x, y). f x y))"
  by (erule holds_bind) auto

lemma holds_return: "P x \<Longrightarrow> pred_state P (State_Monad.return x)"
  by (rule pred_stateI) simp

lemma holds_slider: "sliders_in_range env \<Longrightarrow> lo \<le> hi \<Longrightarrow> (\<And>v. lo \<le> v \<Longrightarrow> v \<le> hi \<Longrightarrow> pred_state P (f v)) \<Longrightarrow>
   pred_state P (slider env txt lo hi v \<bind> f)"
  by (rule holds_bind [of "\<lambda>v. lo \<le> v \<and> v \<le> hi"]) (auto simp: slider_def widget_def sliders_in_range_def intro!: pred_stateI)

lemma u32_between: "lo \<le> m \<Longrightarrow> m \<le> hi \<Longrightarrow> hi < 2 ^ 32 \<Longrightarrow>
   word_of_nat lo \<le> (word_of_nat m :: u32) \<and> (word_of_nat m :: u32) \<le> word_of_nat hi"
  by (simp add: word_le_nat_alt unat_of_nat)

lemma security_in_range: "sliders_in_range env \<Longrightarrow>
   pred_state (\<lambda>(x', c). sec_vault_lock_minutes x' \<le> 240) (security_section env x)"
  unfolding security_section_def
  by (rule holds_slider, assumption, simp | rule holds_pair holds_any holds_return)+ (use u32_between [of 0 _ 240] in auto)

lemma session_in_range: "sliders_in_range env \<Longrightarrow>
   pred_state (\<lambda>(x', c). 1 \<le> ses_max_concurrent x' \<and> ses_max_concurrent x' \<le> 64 \<and> ses_retention_days x' \<le> 365)
     (session_section env x)"
  unfolding session_section_def
  by (rule holds_slider, assumption, simp | rule holds_pair holds_any holds_return)+ (use u32_between [of 0 _ 365] in auto)

lemma logging_in_range: "sliders_in_range env \<Longrightarrow>
   pred_state (\<lambda>(x', c). 1 \<le> st_log_max_mib x' \<and> st_log_max_mib x' \<le> 256 \<and> 1 \<le> st_log_keep x' \<and> st_log_keep x' \<le> 20)
     (logging_section env x)"
  unfolding logging_section_def
  by (rule holds_slider, assumption, simp | rule holds_pair holds_any holds_return)+ (use u32_between [of 1 _ 256] in auto)

lemma form_in_range: "sliders_in_range env \<Longrightarrow> pred_state (\<lambda>(x', c). settings_in_range x') (settings_form env x)"
  unfolding settings_form_def
  by (rule holds_pair, rule holds_bind_pair [OF security_in_range], assumption,
      rule holds_bind_pair [OF session_in_range], assumption, rule holds_bind_pair [OF logging_in_range], assumption,
      rule holds_return) (simp add: settings_in_range_def)

text \<open>The settings page can only store settings within the ranges of its sliders, so that the program
  starts with them: after a frame the configuration is the one before, or it is marked as changed,
  its profiles and its path are those before, its settings are in range, and the session manager
  accepts them.\<close>

theorem stored_settings_are_in_range:
  assumes "sliders_in_range env" and "run_state (settings_page env) u = (r, u')"
  shows "as_config (ui_app u') = as_config (ui_app u)
    \<or> (settings_in_range (cf_settings (cs_config (as_config (ui_app u'))))
        \<and> cs_dirty (as_config (ui_app u')) \<and> cs_path (as_config (ui_app u')) = cs_path (as_config (ui_app u))
        \<and> cs_profiles (as_config (ui_app u')) = cs_profiles (as_config (ui_app u))
        \<and> (\<exists>m. manager_new (policy_of (cf_settings (cs_config (as_config (ui_app u'))))) = Inr m))"
proof -
  obtain new changed v where 1: "run_state (settings_form env (cf_settings (cs_config (as_config (ui_app u))))) v
      = ((new, changed), snd (run_state (settings_form env (cf_settings (cs_config (as_config (ui_app u))))) v))"
    and 2: "ui_app (snd (run_state (settings_page env) u)) =
       (if changed then set_status settings_saved_hint ((ui_app u)\<lparr>as_config := set_settings new (as_config (ui_app u))\<rparr>)
        else ui_app u)"
    by (rule settings_page_result)
  from pred_stateD [OF form_in_range [OF assms(1)] 1] have "settings_in_range new" by simp
  with 2 assms(2) show ?thesis
    by (auto simp: set_status_def set_settings_def settings_in_range_def policy_of_def manager_new_def)
qed

section \<open>Where the code departs from its comments\<close>

text \<open>The sliders do not set \<open>changed\<close>: moving them alone is forgotten at the end of the frame.\<close>

definition nothing_changed :: "ui_env \<Rightarrow> bool" where
  "nothing_changed env \<longleftrightarrow> (\<forall>n v. \<not> snd (ue_checkbox env n v)) \<and> (\<forall>n v. \<not> snd (ue_choose env n v))"

lemma checkbox_unchanged: "nothing_changed env \<Longrightarrow> pred_state (\<lambda>(v', c). \<not> c) (checkbox env label v)"
  by (rule pred_stateI) (auto simp: checkbox_def widget_def nothing_changed_def dest: arg_cong [of _ _ snd])

lemma selectable_unchanged: "nothing_changed env \<Longrightarrow> pred_state (\<lambda>(v', c). \<not> c) (selectable env label offered v)"
  by (rule pred_stateI) (auto simp: selectable_def widget_def nothing_changed_def dest: arg_cong [of _ _ snd] split: prod.splits)

lemma choices_unchanged: "nothing_changed env \<Longrightarrow> pred_state (\<lambda>(v', c). \<not> c) (choices env options v False)"
  by (induction options arbitrary: v) (auto intro!: holds_return holds_bind_pair [OF selectable_unchanged])

lemma combo_unchanged: "nothing_changed env \<Longrightarrow> pred_state (\<lambda>(v', c). \<not> c) (combo env salt picked options v)"
  unfolding combo_def by (rule holds_any) (simp add: choices_unchanged holds_return)

lemmas unchanged_rules =
  holds_bind_pair [OF checkbox_unchanged] holds_bind_pair [OF combo_unchanged] holds_any holds_return

lemma interface_unchanged: "nothing_changed env \<Longrightarrow> pred_state (\<lambda>(x', c). \<not> c) (interface_section env x)"
  unfolding interface_section_def by (rule unchanged_rules, assumption?)+ simp

lemma security_unchanged: "nothing_changed env \<Longrightarrow> pred_state (\<lambda>(x', c). \<not> c) (security_section env x)"
  unfolding security_section_def by (rule unchanged_rules, assumption?)+ simp

lemma session_unchanged: "nothing_changed env \<Longrightarrow> pred_state (\<lambda>(x', c). \<not> c) (session_section env x)"
  unfolding session_section_def by (rule unchanged_rules, assumption?)+ simp

lemma logging_unchanged: "nothing_changed env \<Longrightarrow> pred_state (\<lambda>(x', c). \<not> c) (logging_section env x)"
  unfolding logging_section_def by (rule unchanged_rules, assumption?)+ simp

lemma form_unchanged: "nothing_changed env \<Longrightarrow> pred_state (\<lambda>(x', c). \<not> c) (settings_form env x)"
  unfolding settings_form_def
  by (rule holds_bind_pair [OF interface_unchanged], assumption, rule holds_bind_pair [OF security_unchanged], assumption,
      rule holds_bind_pair [OF session_unchanged], assumption, rule holds_bind_pair [OF logging_unchanged], assumption,
      rule holds_return) simp

lemma slider_edits_are_lost: "nothing_changed env \<Longrightarrow> ui_app (snd (run_state (settings_page env) u)) = ui_app u"
  by (rule settings_page_result [of env u]) (auto dest: pred_stateD [OF form_unchanged])

text \<open>The palette is chosen at the start: a new theme is not seen before the next one.\<close>

lemma theme_needs_a_restart: "ap_palette (snd (app_update env a)) = ap_palette a"
  by (simp add: app_update_def case_prod_beta Let_def)

text \<open>The names of the policies are run together; the tests expect spaces.\<close>

lemma policy_words_run_together:
  "policy_describe ascii_unicode (cert_policy_debug TrustOnFirstUse) = lit ''trustonfirstuse''"
  by (simp add: policy_describe_def cert_policy_debug_def ascii_unicode_def to_ascii_lowercase_def
      ascii_lower_def is_ascii_upper_def replace_str.simps starts_with_def)

text \<open>Both coordinates are scaled by the width: in a window that is taller than the desktop the pointer
  leaves the desktop, here at line 1598 of 800.\<close>

lemma pointer_leaves_the_desktop:
  assumes "ue_round env = id"
  shows "pointer_bytes env \<lparr>fb_width = 1280, fb_height = 800, fb_pixels = [], fb_damage = []\<rparr> ((0, 0), (640, 800)) (0, 799)
     = [0, 0, word_of_nat (1598 div 256), word_of_nat (1598 mod 256)]"
  using assms by (simp add: pointer_bytes_def float_as_def Let_def)

text \<open>Reading the logs again only changes the status.\<close>

lemma refresh_reads_nothing: "worker_command env UiRefreshLogs (s, files) = (set_status (lit ''logs refreshed'') s, files)"
  by (simp add: worker_command_def)

section \<open>Examples\<close>

text \<open>Everything is clicked, every checkbox is turned over and every slider is put into its range.\<close>

definition clicking :: ui_env where
  "clicking = \<lparr>ue_clicked = \<lambda>_. True, ue_checkbox = \<lambda>_ v. (\<not> v, True), ue_choose = \<lambda>_ same. (True, \<not> same),
     ue_slider = \<lambda>_ lo hi v. min hi (max lo v), ue_unfolded = \<lambda>_. False, ue_pointer = \<lambda>_. None,
     ue_rect = \<lambda>_. ((0, 0), (0, 0)), ue_round = id, ue_fullscreen = None, ue_gamma = id, ue_vars = \<lambda>_. None,
     ue_unicode = ascii_unicode, ue_dbg = id, ue_platform = [], ue_arch = [], ue_requirements = [],
     ue_log_lines = \<lambda>_. [], ue_open = \<lambda>_. True, ue_now = 0, ue_new_ids = ([], [])\<rparr>"

definition poor_host :: host where
  "poor_host = \<lparr>ho_env = \<lambda>_. None, ho_tmp = [], ho_uid = 0, ho_euid = 0, ho_exists = \<lambda>_. False, ho_is_dir = \<lambda>_. False,
     ho_is_file = \<lambda>_. False, ho_mode = \<lambda>_. None, ho_read = \<lambda>_. None, ho_append = \<lambda>_. Inr (), ho_mkdir = \<lambda>_. Inr (),
     ho_chmod_dir = \<lambda>_. Inr (), ho_version = [], ho_name = [], ho_arch = []\<rparr>"

lemma starts_without_files: "\<exists>a files. run_default toy_toml [] poor_host None no_files = (Inr a, files)"
  by (simp add: run_default_def build_state_def config_load_def io_read_string_def io_read_def no_files_def not_found_def case_prod_beta
      manager_new_def policy_of_def manager_policy_default_def config_default_def settings_default_def
      session_settings_default_def Let_def del: lit_simps)

text \<open>The page after a frame is the one that the navigation rail selects.\<close>

lemma frame_page: "\<exists>u. ap_page (snd (app_update env a)) = fst (run_state (navigation env (ap_page a) page_all (ap_page a)) u)"
  by (auto simp: app_update_def app_layout_def Let_def case_prod_beta simp del: lit_simps)

lemma clicking_navigation: "fst (run_state (navigation clicking q ps p) u) = last (p # ps)"
  by (induction ps arbitrary: p u) (simp_all add: clicking_def widget_def)

theorem window_never_opens_a_session_witness:
  "\<exists>a b files1 files2. run_default toy_toml [] poor_host None no_files = (Inr a, files1)
     \<and> (ui_step toy_toml)\<^sup>*\<^sup>* (a, files1) (b, files2) \<and> ap_page b = HelpPage
     \<and> mg_sessions (as_sessions (ap_state b)) = [] \<and> as_sent (ap_state b) = [] \<and> as_vault (ap_state b) = None"
proof -
  obtain a files where a: "run_default toy_toml [] poor_host None no_files = (Inr a, files)" using starts_without_files by blast
  obtain picture b where b: "app_update clicking a = (picture, b)" by fastforce
  then have run: "(ui_step toy_toml)\<^sup>*\<^sup>* (a, files) (b, files)" by (intro r_into_rtranclp frame)
  have "ap_page b = HelpPage"
    using frame_page [of clicking a] b unfolding clicking_navigation by (simp add: page_all_def)
  with window_never_opens_a_session [OF a run] a run show ?thesis by blast
qed

definition blank_ui :: ui where
  "blank_ui = \<lparr>ui_drawn = [], ui_app = \<lparr>as_config = in_memory,
     as_sessions = \<lparr>mg_sessions = [], mg_policy = manager_policy_default, mg_events = [], mg_audit = [], mg_cancelled = []\<rparr>,
     as_vault = None, as_logs = log_new 8, as_commands = [], as_terminals = Map.empty, as_framebuffers = Map.empty,
     as_status = [], as_sent = []\<rparr>\<rparr>"

lemma clicking_checkbox: "pred_state (\<lambda>(v', c). c) (checkbox clicking label v)"
  by (rule pred_stateI) (auto simp: checkbox_def widget_def clicking_def)

lemma clicking_interface: "pred_state (\<lambda>(x', c). c) (interface_section clicking x)"
  unfolding interface_section_def
  by (rule holds_bind_pair [OF clicking_checkbox] holds_pair holds_any holds_return)+ simp

lemma clicking_form: "pred_state (\<lambda>(x', c). c) (settings_form clicking x)"
  unfolding settings_form_def
  by (rule holds_bind_pair [OF clicking_interface], (rule holds_pair)+, rule holds_return) simp

lemma clicking_stores: "cs_dirty (as_config (ui_app (snd (run_state (settings_page clicking) u))))"
  by (rule settings_page_result [of clicking u])
    (auto simp: set_status_def set_settings_def dest: pred_stateD [OF clicking_form])

theorem stored_settings_are_in_range_witness:
  "as_config (ui_app (snd (run_state (settings_page clicking) blank_ui))) \<noteq> as_config (ui_app blank_ui)
   \<and> settings_in_range (cf_settings (cs_config (as_config (ui_app (snd (run_state (settings_page clicking) blank_ui))))))"
proof -
  have "sliders_in_range clicking" by (simp add: sliders_in_range_def clicking_def)
  note range = stored_settings_are_in_range [OF this, of blank_ui _ "snd (run_state (settings_page clicking) blank_ui)", OF prod.collapse [symmetric]]
  have "as_config (ui_app (snd (run_state (settings_page clicking) blank_ui))) \<noteq> as_config (ui_app blank_ui)"
    using clicking_stores [of blank_ui] by (auto simp: blank_ui_def in_memory_def)
  with range show ?thesis by blast
qed

end
