(* ===== verification/Ssh_Glob_Bound.thy ===== *)
theory Ssh_Glob_Bound
  imports Ssh_Glob
begin

text \<open>
  How long the pattern matcher of \<open>Ssh_Glob\<close> runs. The body of its loop is a function from a position to
  the next one or to the result, and \<open>glob_run\<close> iterates it at most so often. Backtracking moves the
  star to the right in the text and in between the pattern is read from left to right, so the number
  of iterations is bounded by the product of the lengths: a pattern cannot make the matcher hang.
\<close>

type_synonym glob_state = "nat \<times> nat \<times> (nat \<times> nat) option"

definition glob_body :: "unicode \<Rightarrow> ustring \<Rightarrow> ustring \<Rightarrow> glob_state \<Rightarrow> nat option + glob_state" where
  "glob_body u pattern text = (\<lambda>(p, t, star).
     (if t < length text then
        (if p < length pattern \<and> char_match u (pattern ! p) (text ! t) then Inr (p + 1, t + 1, star)
         else if p < length pattern \<and> pattern ! p = 42 then Inr (p + 1, t, Some (p, t))
         else (case star of
                 Some (star_p, star_t) \<Rightarrow> Inr (star_p + 1, star_t + 1, Some (star_p, star_t + 1))
               | None \<Rightarrow> Inl None))
      else Inl (Some p)))"

fun glob_run :: "nat \<Rightarrow> unicode \<Rightarrow> ustring \<Rightarrow> ustring \<Rightarrow> glob_state \<Rightarrow> nat option option" where
  "glob_run 0 u pattern text z = None"
| "glob_run (Suc n) u pattern text z =
     (case glob_body u pattern text z of Inl r \<Rightarrow> Some r | Inr z' \<Rightarrow> glob_run n u pattern text z')"

lemma glob_run_loop: "glob_run n u pattern text (p, t, star) = Some r \<Longrightarrow> glob_loop u pattern text p t star = r"
proof (induction n arbitrary: p t star)
  case (Suc n)
  from Suc.prems show ?case
    by (subst glob_loop.simps) (auto simp: glob_body_def Suc.IH split: if_splits option.splits)
qed simp

text \<open>The remaining work, for positions that the loop can reach.\<close>

definition glob_ok :: "ustring \<Rightarrow> ustring \<Rightarrow> glob_state \<Rightarrow> bool" where
  "glob_ok pattern text = (\<lambda>(p, t, star). p \<le> length pattern \<and> t \<le> length text
     \<and> (case star of Some (sp, st) \<Rightarrow> sp < p \<and> st \<le> t | None \<Rightarrow> True))"

definition glob_work :: "ustring \<Rightarrow> ustring \<Rightarrow> glob_state \<Rightarrow> nat" where
  "glob_work pattern text = (\<lambda>(p, t, star).
     (length text - (case star of Some (sp, st) \<Rightarrow> st | None \<Rightarrow> 0)) * (length pattern + 1) + (length pattern - p))"

lemma work_step:
  fixes st st' :: nat
  assumes "st \<le> st'" and "p < length pattern"
  shows "(length text - st') * (length pattern + 1) + (length pattern - (p + 1))
       < (length text - st) * (length pattern + 1) + (length pattern - p)"
proof -
  have "(length text - st') * (length pattern + 1) \<le> (length text - st) * (length pattern + 1)"
    using assms(1) by (intro mult_le_mono1) simp
  with assms(2) show ?thesis by linarith
qed

lemma work_backtrack:
  assumes "st < length text" and "q \<le> length pattern"
  shows "(length text - (st + 1)) * (length pattern + 1) + (length pattern - q)
       < (length text - st) * (length pattern + 1) + (length pattern - p)"
proof -
  obtain k where k: "length text - st = Suc k" using assms(1) by (metis Suc_diff_Suc)
  then have "length text - (st + 1) = k" by simp
  with k show ?thesis by simp
qed

lemma glob_body_work:
  assumes "glob_ok pattern text z" and "glob_body u pattern text z = Inr z'"
  shows "glob_ok pattern text z' \<and> glob_work pattern text z' < glob_work pattern text z"
proof -
  obtain p t star where z: "z = (p, t, star)" by (cases z)
  show ?thesis
  proof (cases star)
    case None
    with assms z show ?thesis
      using work_step [of 0 0 p pattern "text"] work_step [of 0 t p pattern "text"]
      by (auto simp: glob_body_def glob_ok_def glob_work_def split: if_splits)
  next
    case (Some s)
    obtain sp st where s: "s = (sp, st)" by (cases s)
    with assms z Some show ?thesis
      using work_step [of st st p pattern "text"] work_step [of st t p pattern "text"] work_backtrack [of st "text" "sp + 1" pattern p]
      by (auto simp: glob_body_def glob_ok_def glob_work_def split: if_splits)
  qed
qed

lemma glob_run_ends: "glob_ok pattern text z \<Longrightarrow> glob_work pattern text z < n \<Longrightarrow> \<exists>r. glob_run n u pattern text z = Some r"
proof (induction n arbitrary: z)
  case (Suc n)
  show ?case
  proof (cases "glob_body u pattern text z")
    case (Inr z')
    with glob_body_work [OF Suc.prems(1) Inr] Suc.prems(2) Suc.IH [of z'] show ?thesis by simp
  qed simp
qed simp

text \<open>C38: Matching a host pattern ends after at most \<open>(|pattern| + 1) \<cdot> (|text| + 1)\<close> iterations of its loop,
  with the result that \<open>wildcard_match\<close> reports: no pattern in the database makes it exponential.\<close>

theorem wildcard_match_is_quadratic:
  "\<exists>r. glob_run ((length pattern + 1) * (length (str_lower u text) + 1)) u pattern (str_lower u text) (0, 0, None) = Some r
     \<and> wildcard_match u pattern text = (case r of None \<Rightarrow> False | Some p \<Rightarrow> skip_stars (drop p pattern))"
proof -
  let ?t = "str_lower u text"
  have "glob_ok pattern ?t (0, 0, None)" by (simp add: glob_ok_def)
  moreover have "glob_work pattern ?t (0, 0, None) < (length pattern + 1) * (length ?t + 1)"
    by (simp add: glob_work_def algebra_simps)
  ultimately obtain r where r: "glob_run ((length pattern + 1) * (length ?t + 1)) u pattern ?t (0, 0, None) = Some r"
    using glob_run_ends by blast
  from glob_run_loop [OF r] r show ?thesis by (simp add: wildcard_match_def Let_def)
qed

end
