(* ===== verification/Rdt_Rng.thy ===== *)
theory Rdt_Rng
  imports Rust_Prelude Rust_Text
begin

text \<open>
  Random bytes, \<open>crates/rdt-types/src/rng.rs\<close>. The operating system is an argument: what opening and
  reading \<open>/dev/urandom\<close> yields, and the status and buffer of \<open>BCryptGenRandom\<close>. A call takes the
  buffer and gives it back filled.
\<close>

datatype random_error = Source ustring | No_Source

definition random_error_display :: "random_error \<Rightarrow> ustring" where
  "random_error_display e =
     (case e of Source message \<Rightarrow> lit ''cannot read entropy: '' @ message
      | No_Source \<Rightarrow> lit ''no entropy source on this platform'')"

text \<open>\<open>ur_read n\<close> is \<open>read_exact\<close> for \<open>n\<close> bytes.\<close>

record entropy =
  en_open :: "ustring + unit"
  en_read :: "nat \<Rightarrow> ustring + u8 list"
  en_bcrypt :: "u8 list \<Rightarrow> nat \<times> u8 list"

datatype target = Unix_Target | Windows_Target | Other_Target

definition fill_from_urandom :: "entropy \<Rightarrow> u8 list \<Rightarrow> random_error + u8 list" where
  "fill_from_urandom os buffer =
     (case en_open os of
        Inl e \<Rightarrow> Inl (Source e)
      | Inr _ \<Rightarrow> (case en_read os (length buffer) of Inl e \<Rightarrow> Inl (Source e) | Inr bytes \<Rightarrow> Inr bytes))"

definition fill_from_bcrypt :: "entropy \<Rightarrow> u8 list \<Rightarrow> random_error + u8 list" where
  "fill_from_bcrypt os buffer =
     (let (status, buffer') = en_bcrypt os buffer in
      if status = 0 then Inl (Source (lit ''BCryptGenRandom failed'')) else Inr buffer')"

definition fill_random :: "target \<Rightarrow> entropy \<Rightarrow> u8 list \<Rightarrow> random_error + u8 list" where
  "fill_random target os buffer =
     (if buffer = [] then Inr []
      else (case target of
              Unix_Target \<Rightarrow> fill_from_urandom os buffer
            | Windows_Target \<Rightarrow> fill_from_bcrypt os buffer
            | Other_Target \<Rightarrow> Inl No_Source))"

text \<open>\<open>None\<close> is the panic.\<close>

definition fill_random_or_panic :: "target \<Rightarrow> entropy \<Rightarrow> u8 list \<Rightarrow> u8 list option" where
  "fill_random_or_panic target os buffer =
     (case fill_random target os buffer of Inl _ \<Rightarrow> None | Inr bytes \<Rightarrow> Some bytes)"

section \<open>Properties\<close>

text \<open>What \<open>read_exact\<close> documents: as many bytes as were asked for.\<close>

definition reads_exactly :: "entropy \<Rightarrow> bool" where
  "reads_exactly os \<longleftrightarrow> (\<forall>n bytes. en_read os n = Inr bytes \<longrightarrow> length bytes = n)"

lemma random_bytes_are_read:
  assumes "reads_exactly os" and "fill_random_or_panic Unix_Target os buffer = Some bytes" and "buffer \<noteq> []"
  shows "length bytes = length buffer \<and> en_read os (length buffer) = Inr bytes"
  using assms by (auto simp: fill_random_or_panic_def fill_random_def fill_from_urandom_def reads_exactly_def split: sum.splits)

text \<open>On Windows the status is read the wrong way round: zero is success. A working source ends the
  program, and a failing one passes off the buffer as random, whatever it holds.\<close>

lemma bcrypt_success_is_refused: "buffer \<noteq> [] \<Longrightarrow> en_bcrypt os buffer = (0, bytes) \<Longrightarrow> fill_random_or_panic Windows_Target os buffer = None"
  by (simp add: fill_random_or_panic_def fill_random_def fill_from_bcrypt_def)

lemma bcrypt_failure_is_accepted: "buffer \<noteq> [] \<Longrightarrow> en_bcrypt os buffer = (status, buffer) \<Longrightarrow> status \<noteq> 0 \<Longrightarrow>
   fill_random_or_panic Windows_Target os buffer = Some buffer"
  by (simp add: fill_random_or_panic_def fill_random_def fill_from_bcrypt_def)

end
