(* ===== verification/Plat_Primitives.thy ===== *)
theory Plat_Primitives
  imports Plat_Info Rust_Lossy Rust_Io
begin

text \<open>
  Primitives of the platform, \<open>crates/rdt-platform/src/platform_impl.rs\<close>, and \<open>run_capture\<close> of \<open>deps.rs\<close>,
  on Unix. What the C library and the operating system answer are arguments; restricting a file and
  capturing a program are calls whose only outcome is a result.
\<close>

text \<open>\<open>uname\<close>: the fields \<open>sysname\<close> and \<open>release\<close> up to their terminating zero, if it succeeds.\<close>

definition os_version :: "(u8 list \<times> u8 list) option \<Rightarrow> ustring" where
  "os_version uname =
     (case uname of
        Some (sysname, release) \<Rightarrow> utf8_lossy sysname @ [32] @ utf8_lossy release
      | None \<Rightarrow> lit ''unix'')"

text \<open>\<open>gethostname\<close>: the buffer after a successful call.\<close>

definition hostname :: "u8 list option \<Rightarrow> ustring" where
  "hostname answer =
     (case answer of
        None \<Rightarrow> lit ''localhost''
      | Some buffer \<Rightarrow>
          (case from_utf8 (takeWhile (\<lambda>b. b \<noteq> 0) buffer) of Some name \<Rightarrow> name | None \<Rightarrow> lit ''localhost''))"

definition is_elevated :: "host \<Rightarrow> bool" where
  "is_elevated ho \<longleftrightarrow> ho_euid ho = 0"

definition restrict_to_owner :: "unit io" where
  "restrict_to_owner = io_touch"

record captured =
  cap_success :: bool
  cap_stdout :: "u8 list"
  cap_stderr :: "u8 list"

definition run_capture :: "ustring \<Rightarrow> ustring + captured \<Rightarrow> ustring + ustring" where
  "run_capture program answer =
     (case answer of
        Inl e \<Rightarrow> Inl (lit ''cannot execute '' @ program @ lit '': '' @ e)
      | Inr c \<Rightarrow>
          (if cap_success c then Inr (trim (utf8_lossy (cap_stdout c))) else Inl (trim (utf8_lossy (cap_stderr c)))))"

definition dependency_describe :: "dependency_id \<Rightarrow> ustring" where
  "dependency_describe d =
     (case d of
        SshAgent \<Rightarrow> lit ''SSH agent for key based authentication without passphrases on disk''
      | SecretStoreDep \<Rightarrow> lit ''Operating system secret store for saved passwords''
      | Systemd \<Rightarrow> lit ''systemd, used to run the unattended agent in the background''
      | WindowsScm \<Rightarrow> lit ''Windows service control manager for the unattended agent''
      | ClipboardDep \<Rightarrow> lit ''Clipboard bridge used by the RDP clipboard channel''
      | KnownHostsDep \<Rightarrow> lit ''Writable known_hosts database for SSH host key verification''
      | VaultDep \<Rightarrow> lit ''Encrypted vault file used when no OS keyring is present'')"

text \<open>The name of the machine never contains a zero character, whatever the call left in the buffer.\<close>

lemma from_utf8_encoded: "from_utf8 bs = Some t \<Longrightarrow> utf8_lossy bs = t"
  by (rule utf8_lossy_valid)

lemma hostname_falls_back: "hostname None = lit ''localhost''" "from_utf8 (takeWhile (\<lambda>b. b \<noteq> 0) buffer) = None \<Longrightarrow> hostname (Some buffer) = lit ''localhost''"
  by (simp_all add: hostname_def)

lemma hostname_of_text:
  assumes "\<forall>c \<in> set name. is_scalar c" and "0 \<notin> set (as_bytes name)"
  shows "hostname (Some (as_bytes name @ 0 # rest)) = name"
proof -
  have "takeWhile (\<lambda>b. b \<noteq> 0) (as_bytes name @ 0 # rest) = as_bytes name"
    using assms(2) by (subst takeWhile_append2) auto
  with from_utf8_as_bytes [OF assms(1)] show ?thesis by (simp add: hostname_def)
qed

end
