(* ===== verification/Rdt_Secret.thy ===== *)
theory Rdt_Secret
  imports Rdt_Ids
begin

text \<open>
  What leaves the process of a secret, \<open>crates/rdt-types/src/secret.rs\<close>: its texts, its serialised form and
  the conversions between the textual and the binary kind. A textual secret is its text, as in
  \<open>Rdt_Ids\<close>; a binary one is wrapped, because its comparison and its texts are its own. Wiping the memory
  on drop has no counterpart. A serialised value is the text that is handed to the serialiser.
\<close>

datatype secret_bytes = Secret_Bytes (expose_bytes: "u8 list")

definition secret_is_empty :: "ustring \<Rightarrow> bool" where
  "secret_is_empty s \<longleftrightarrow> s = []"

definition secret_equals_bytes :: "ustring \<Rightarrow> u8 list \<Rightarrow> bool" where
  "secret_equals_bytes s other = constant_time_eq (as_bytes s) other"

definition secret_serialize :: "ustring \<Rightarrow> ustring" where
  "secret_serialize s = redacted"

text \<open>\<open>Deserialize\<close>: the text that was read, or the error of the reader.\<close>

definition secret_deserialize :: "ustring + ustring \<Rightarrow> ustring + ustring" where
  "secret_deserialize raw =
     (case raw of
        Inl e \<Rightarrow> Inl e
      | Inr txt \<Rightarrow>
          if txt = redacted then Inl (lit ''refusing to read a redacted secret; the original value was never stored'')
          else Inr txt)"

definition secret_bytes_len :: "secret_bytes \<Rightarrow> nat" where
  "secret_bytes_len b = length (expose_bytes b)"

definition secret_bytes_debug :: "secret_bytes \<Rightarrow> ustring" where
  "secret_bytes_debug b = lit ''SecretBytes('' @ redacted @ lit '', '' @ show_nat (secret_bytes_len b) @ lit '' bytes)''"

definition secret_bytes_eq :: "secret_bytes \<Rightarrow> secret_bytes \<Rightarrow> bool" where
  "secret_bytes_eq a b = constant_time_eq (expose_bytes a) (expose_bytes b)"

definition into_utf8_secret :: "secret_bytes \<Rightarrow> ustring option" where
  "into_utf8_secret b = secret_bytes_utf8 (expose_bytes b)"

definition secret_to_bytes :: "ustring \<Rightarrow> secret_bytes" where
  "secret_to_bytes s = Secret_Bytes (as_bytes s)"

section \<open>Properties\<close>

text \<open>Secrets of the same length have the same texts and the same serialised form, which cannot be read
  back as a secret.\<close>

lemma secrets_look_alike:
  assumes "str_len s = str_len t"
  shows "secret_debug s = secret_debug t \<and> secret_display s = secret_display t \<and> secret_serialize s = secret_serialize t
     \<and> secret_bytes_debug (secret_to_bytes s) = secret_bytes_debug (secret_to_bytes t)
     \<and> (\<exists>e. secret_deserialize (Inr (secret_serialize s)) = Inl e)"
  using assms by (simp add: secret_debug_def secret_display_def secret_serialize_def secret_deserialize_def
      secret_bytes_debug_def secret_bytes_len_def secret_to_bytes_def length_as_bytes del: lit_simps)

lemma binary_round_trip: "\<forall>c \<in> set s. is_scalar c \<Longrightarrow> into_utf8_secret (secret_to_bytes s) = Some s"
  by (simp add: into_utf8_secret_def secret_bytes_utf8_def secret_to_bytes_def from_utf8_as_bytes)

end
