(* ===== verification/Ssh_Events.thy ===== *)
theory Ssh_Events
  imports Ssh_Handler Complex_Main
begin

text \<open>
  What the transport reports: the callbacks of \<open>crates/rdt-ssh/src/handler.rs\<close> that only report, the task of
  \<open>session.rs\<close> that forwards questions to the user interface, and of \<open>sftp.rs\<close> the opening of a client and
  the figures of a progress report. A channel is the list of what was sent on it; an answer channel of
  a question is left out. Fractions and rates are exact rational numbers.
\<close>

datatype handler_event = Banner ustring | Channel_Closed nat | Handler_Disconnected ustring

definition auth_banner :: "ustring \<Rightarrow> handler_event list \<Rightarrow> unit rdt_result \<times> handler_event list" where
  "auth_banner banner events = (Inr (), events @ [Banner banner])"

definition handler_disconnected :: "ustring \<Rightarrow> handler_event list \<Rightarrow> unit rdt_result \<times> handler_event list" where
  "handler_disconnected description events = (Inr (), events @ [Handler_Disconnected description])"

datatype ssh_event =
    Ssh_Output "u8 list"
  | Ssh_Stderr "u8 list"
  | Exit_Status int
  | Ssh_Eof
  | Ssh_Closed ustring
  | Host_Key_Prompt ustring u16 ustring ustring
  | Credential_Prompt ustring "(ustring \<times> bool) list"

definition forwarded :: "prompt \<Rightarrow> ssh_event" where
  "forwarded p =
     (case p of
        UnknownHostKey host port key_type fp \<Rightarrow> Host_Key_Prompt host port key_type fp
      | Credential instruction prompts \<Rightarrow> Credential_Prompt instruction prompts)"

text \<open>The task: of the questions that arrive, the receiver takes the first \<open>taken\<close> and is gone then.\<close>

fun bridge_prompts :: "nat \<Rightarrow> prompt list \<Rightarrow> ssh_event list \<Rightarrow> ssh_event list" where
  "bridge_prompts taken [] events = events"
| "bridge_prompts 0 (p # ps) events = events"
| "bridge_prompts (Suc taken) (p # ps) events = bridge_prompts taken ps (events @ [forwarded p])"

section \<open>File transfer client\<close>

definition sftp_client_new :: "'c rdt_result \<Rightarrow> ('c \<Rightarrow> ustring + 'h) \<Rightarrow> 'h rdt_result" where
  "sftp_client_new channel open_sftp =
     (case channel of
        Inl e \<Rightarrow> Inl e
      | Inr c \<Rightarrow>
          (case open_sftp c of
             Inr h \<Rightarrow> Inr h
           | Inl e \<Rightarrow>
               if contains_str (lit ''subsystem'') e then fail EUnsupported (lit ''the server does not offer SFTP'')
               else fail EProtocol (lit ''cannot start SFTP: '' @ e)))"

definition progress_fraction :: "nat \<Rightarrow> nat option \<Rightarrow> rat" where
  "progress_fraction transferred full =
     (case full of
        None \<Rightarrow> 0
      | Some n \<Rightarrow> if n = 0 then 0 else max 0 (min 1 (of_nat transferred / of_nat n)))"

definition transfer_rate :: "nat \<Rightarrow> rat \<Rightarrow> rat" where
  "transfer_rate transferred elapsed = (if elapsed \<le> 0 then 0 else of_nat transferred / elapsed)"

section \<open>Properties\<close>

text \<open>Questions are forwarded unchanged and in order, as many as are taken.\<close>

lemma bridge_forwards_in_order: "bridge_prompts taken ps events = events @ map forwarded (take taken ps)"
  by (induction taken ps events rule: bridge_prompts.induct) simp_all

lemma forwarded_inj: "inj forwarded"
  by (rule injI) (auto simp: forwarded_def split: prompt.splits)

lemma fraction_in_unit_interval: "0 \<le> progress_fraction n full \<and> progress_fraction n full \<le> 1"
  by (auto simp: progress_fraction_def split: option.split)

lemma fraction_complete: "full = Some n \<Longrightarrow> 0 < n \<Longrightarrow> progress_fraction k full = 1 \<longleftrightarrow> n \<le> k"
  by (auto simp: progress_fraction_def min_def max_def field_simps)

end
