(* ===== verification/Rdt_Agent_Start.thy ===== *)
theory Rdt_Agent_Start
  imports Rdt_Agent_Props Log_Audit
begin

text \<open>
  Starting the agent: \<open>agent\<close> of \<open>crates/rdt-cli/src/main.rs\<close> and \<open>Agent::serve\<close>. The configuration and the audit log
  are opened, each with something to fall back on, and the agent serves its socket until accepting fails.
  The call that opens the audit log leaves out the redactor that it takes; \<open>r\<close> stands for it.
\<close>

section \<open>Starting\<close>

definition agent_new :: "config_store \<Rightarrow> manager \<Rightarrow> fs \<Rightarrow> agent" where
  "agent_new config sessions disk = \<lparr>ag_config = config, ag_sessions = sessions, ag_disk = disk\<rparr>"

text \<open>The agent, its audit log and the path of its socket.\<close>

definition agent_start :: "'v toml \<Rightarrow> redactor \<Rightarrow> host \<Rightarrow> fs \<Rightarrow> (agent \<times> audit_log \<times> ustring) rdt_result \<times> fs" where
  "agent_start tm r ho s =
     (let p = detect_paths ho;
          (loaded, s1) = config_load tm (config_file p) s;
          store = (case loaded of Inr st \<Rightarrow> st | Inl _ \<Rightarrow> in_memory);
          (audit, s2) = audit_or_null r (audit_file p) s1
      in (case manager_new manager_policy_default of
            Inl e \<Rightarrow> Inl e
          | Inr m \<Rightarrow> Inr (agent_new store m s2, audit, path_join (ap_runtime_dir p) (lit ''agent.sock'')), s2))"

text \<open>Serving ends with an error, where the socket cannot be opened or a connection cannot be accepted.\<close>

definition agent_serve ::
  "'v agent_env \<Rightarrow> ustring \<Rightarrow> socket_steps \<Rightarrow> control_event list \<Rightarrow> ustring \<Rightarrow> agent \<Rightarrow> unit rdt_result \<times> served" where
  "agent_serve env socket st es accept_error a =
     (case open_socket socket (parent socket \<noteq> None) st of
        Inl e \<Rightarrow> (Inl e, served_start a)
      | Inr _ \<Rightarrow>
          (fail EIo (lit ''cannot accept a connection: '' @ accept_error), serve_events env es (served_start a)))"

text \<open>\<open>rdt agent\<close>: the runtime may fail to start. The result is that of the command.\<close>

definition cli_agent ::
  "'v agent_env \<Rightarrow> redactor \<Rightarrow> host \<Rightarrow> ustring option \<Rightarrow> socket_steps \<Rightarrow> control_event list \<Rightarrow> ustring \<Rightarrow> fs
     \<Rightarrow> unit rdt_result \<times> served option" where
  "cli_agent env r ho runtime_error st es accept_error s =
     (case runtime_error of
        Some e \<Rightarrow> (fail EInternal e, None)
      | None \<Rightarrow>
          (case fst (agent_start (ac_toml env) r ho s) of
             Inl e \<Rightarrow> (Inl e, None)
           | Inr (a, audit, socket) \<Rightarrow> apsnd Some (agent_serve env socket st es accept_error a)))"

section \<open>What a start depends on\<close>

text \<open>An agent starts whatever the files hold and whichever calls fail, with no session.\<close>

lemma agent_starts:
  "\<exists>a audit socket. fst (agent_start tm r ho s) = Inr (a, audit, socket)
     \<and> mg_sessions (ag_sessions a) = [] \<and> mg_policy (ag_sessions a) = manager_policy_default
     \<and> ag_disk a = snd (agent_start tm r ho s)"
  by (simp add: agent_start_def agent_new_def manager_new_def manager_policy_default_def case_prod_beta Let_def)

text \<open>A configuration that cannot be read is replaced by the defaults, without a word: the agent runs on
  a store that is not attached to the file, and reloading it fails from then on.\<close>

lemma broken_config_is_ignored:
  assumes "fst (config_load tm (config_file (detect_paths ho)) s) = Inl e"
  shows "\<exists>a audit socket. fst (agent_start tm r ho s) = Inr (a, audit, socket) \<and> ag_config a = in_memory"
  using assms by (simp add: agent_start_def agent_new_def manager_new_def manager_policy_default_def case_prod_beta Let_def)

text \<open>An audit file that cannot be opened is replaced by one that keeps nothing.\<close>

lemma unopened_audit_is_null:
  assumes "next_fault s = Some f" and "parent path \<noteq> None"
  shows "fst (audit_or_null r path s) = audit_null"
  using assms by (cases "parent path")
    (simp_all add: audit_or_null_def audit_open_def run_then_def on_err_def io_touch_def del: next_fault.simps)

text \<open>The command never reports success, however long it served.\<close>

lemma agent_command_fails: "\<exists>e. fst (cli_agent env r ho runtime_error st es accept_error s) = Inl e"
  by (auto simp: cli_agent_def agent_serve_def fail_def apsnd_def split: option.splits sum.splits prod.splits)

text \<open>In no history of its control socket the agent opens a session.\<close>

lemma agent_never_opens_a_session:
  assumes "snd (cli_agent env r ho runtime_error st es accept_error s) = Some v"
  shows "mg_sessions (ag_sessions (sr_agent v)) = []"
proof -
  obtain a audit socket where a: "fst (agent_start (ac_toml env) r ho s) = Inr (a, audit, socket)"
    "mg_sessions (ag_sessions a) = []" using agent_starts by blast
  then have v: "v = served_start a \<or> v = serve_events env es (served_start a)"
    using assms by (auto simp: cli_agent_def agent_serve_def split: option.splits sum.splits)
  have "sessions_left (ag_sessions a) (ag_sessions (sr_agent v))"
    using v serve_events_sessions [of "served_start a" env es] by (auto simp: served_start_def)
  from sessions_left_none [OF this a(2)] show ?thesis .
qed

end
