(* ===== verification/Rdt_Keystores.thy ===== *)
theory Rdt_Keystores
  imports Rdt_Secrets_Props
begin

text \<open>
  The keystores of the other systems, \<open>crates/rdt-secrets/src/keystore.rs\<close>: the macOS keychain, reached through
  the program \<open>security\<close> (the parameter \<open>tool\<close>, as for \<open>secret-tool\<close>), and Windows DPAPI, whose two calls are the
  record \<open>dpapi\<close> and whose blobs are files. What a client relies on is the locale \<open>secret_ring\<close>, which all
  three keystores meet as far as the program or the system behind them keeps its laws.
\<close>

section \<open>The keychain\<close>

definition security :: ustring where
  "security = lit ''security''"

definition keychain_add_args :: "ustring \<Rightarrow> ustring \<Rightarrow> ustring list" where
  "keychain_add_args key value =
     [lit ''add-generic-password'', lit ''-s'', lit ''rdt'', lit ''-a'', key, lit ''-w'', value]"

definition keychain_find_args :: "ustring \<Rightarrow> ustring list" where
  "keychain_find_args key = [lit ''find-generic-password'', lit ''-s'', lit ''rdt'', lit ''-a'', key, lit ''-w'']"

definition keychain_delete_args :: "ustring \<Rightarrow> ustring list" where
  "keychain_delete_args key = [lit ''delete-generic-password'', lit ''-s'', lit ''rdt'', lit ''-a'', key]"

definition keychain_delete :: "'w tool \<Rightarrow> ustring \<Rightarrow> 'w \<Rightarrow> unit rdt_result \<times> 'w" where
  "keychain_delete tool key w =
     (case tool security (keychain_delete_args key) [] w of
        (r, w') \<Rightarrow>
          (case r of
             Inl f \<Rightarrow> fail EKeystore (failure_text f)
           | Inr out \<Rightarrow>
               if po_success out then Inr () else fail EKeystore (lit ''no keychain entry named '' @ quoted key), w'))"

text \<open>Any entry of the key is deleted first, and the outcome of that is ignored.\<close>

definition keychain_set :: "'w tool \<Rightarrow> ustring \<Rightarrow> ustring \<Rightarrow> 'w \<Rightarrow> unit rdt_result \<times> 'w" where
  "keychain_set tool key value w =
     (case tool security (keychain_add_args key value) [] (snd (keychain_delete tool key w)) of
        (r, w') \<Rightarrow>
          (case r of
             Inl f \<Rightarrow> fail EKeystore (failure_text f)
           | Inr out \<Rightarrow>
               if po_success out then Inr () else fail EKeystore (lit ''security add-generic-password failed''), w'))"

definition keychain_get :: "'w tool \<Rightarrow> ustring \<Rightarrow> 'w \<Rightarrow> ustring rdt_result \<times> 'w" where
  "keychain_get tool key w =
     (case tool security (keychain_find_args key) [] w of
        (r, w') \<Rightarrow>
          (case r of
             Inl f \<Rightarrow> fail EKeystore (failure_text f)
           | Inr out \<Rightarrow>
               if \<not> po_success out then fail EKeystore (lit ''no keychain entry named '' @ quoted key)
               else Inr (trim (utf8_lossy (po_stdout out))), w'))"

section \<open>DPAPI\<close>

text \<open>Sealing takes the state of the system's random source, the entropy of the account and the text; both
  calls can fail. The lengths that they receive are 32-bit numbers.\<close>

record dpapi =
  dp_protect :: "nat \<Rightarrow> u8 list \<Rightarrow> u8 list \<Rightarrow> u8 list option"
  dp_unprotect :: "u8 list \<Rightarrow> u8 list \<Rightarrow> u8 list option"

definition blob_of :: "u8 list \<Rightarrow> u8 list" where
  "blob_of bytes = take (unat (word_of_nat (length bytes) :: u32)) bytes"

definition dpapi_entropy :: "ustring option \<Rightarrow> u8 list" where
  "dpapi_entropy username =
     as_bytes (lit ''rdt/keystore/v1/'') @ as_bytes (case username of Some name \<Rightarrow> name | None \<Rightarrow> lit ''user'')"

text \<open>A blob name has no dot, so that setting the extension appends it.\<close>

definition dpapi_path :: "(u8 list \<Rightarrow> u8 list) \<Rightarrow> ustring \<Rightarrow> ustring \<Rightarrow> ustring" where
  "dpapi_path sha directory key = directory @ [92] @ blob_name sha key @ lit ''.bin''"

text \<open>Restricting the file to its owner does nothing on Windows.\<close>

definition dpapi_set ::
  "dpapi \<Rightarrow> nat \<Rightarrow> ustring option \<Rightarrow> (u8 list \<Rightarrow> u8 list) \<Rightarrow> ustring \<Rightarrow> ustring \<Rightarrow> ustring \<Rightarrow> unit run" where
  "dpapi_set dp seed username sha directory key value =
     (case dp_protect dp seed (blob_of (dpapi_entropy username)) (blob_of (as_bytes value)) of
        None \<Rightarrow> pure_run (fail EKeystore (lit ''CryptProtectData failed''))
      | Some protected \<Rightarrow>
          run_then (on_err from_io io_touch) (\<lambda>_.
            on_err from_io (io_write (dpapi_path sha directory key) protected)))"

definition dpapi_open :: "dpapi \<Rightarrow> ustring option \<Rightarrow> u8 list \<Rightarrow> u8 list option" where
  "dpapi_open dp username blob = dp_unprotect dp (blob_of (dpapi_entropy username)) (blob_of blob)"

definition dpapi_get ::
  "dpapi \<Rightarrow> ustring option \<Rightarrow> (u8 list \<Rightarrow> u8 list) \<Rightarrow> ustring \<Rightarrow> ustring \<Rightarrow> ustring run" where
  "dpapi_get dp username sha directory key =
     run_then (on_err (\<lambda>_. error_new EKeystore (lit ''no DPAPI blob for '' @ quoted key))
       (io_read (dpapi_path sha directory key))) (\<lambda>blob.
     pure_run (case dpapi_open dp username blob of
        None \<Rightarrow> fail EKeystore (lit ''CryptUnprotectData failed; the blob may belong to another account'')
      | Some plaintext \<Rightarrow> Inr (utf8_lossy plaintext)))"

definition dpapi_delete :: "(u8 list \<Rightarrow> u8 list) \<Rightarrow> ustring \<Rightarrow> ustring \<Rightarrow> unit run" where
  "dpapi_delete sha directory key s =
     (if fs_files s (dpapi_path sha directory key) \<noteq> None then
        on_err from_io (io_remove (dpapi_path sha directory key)) s
      else (Inr (), s))"

section \<open>Which one is used\<close>

datatype foreign_backend = Dpapi ustring | Keychain | No_Keystore ustring

text \<open>\<open>mkdir\<close> is what creating the directory returns.\<close>

definition detect_windows :: "ustring \<Rightarrow> ustring + unit \<Rightarrow> foreign_backend" where
  "detect_windows data_dir mkdir =
     (case mkdir of
        Inl _ \<Rightarrow> No_Keystore (lit ''the DPAPI blob directory could not be created'')
      | Inr _ \<Rightarrow> Dpapi (data_dir @ [92] @ lit ''keystore''))"

definition detect_macos :: foreign_backend where
  "detect_macos = Keychain"

definition detect_elsewhere :: foreign_backend where
  "detect_elsewhere = No_Keystore (lit ''no keystore is implemented for this platform'')"

definition foreign_describe :: "foreign_backend \<Rightarrow> ustring" where
  "foreign_describe b =
     (case b of Dpapi _ \<Rightarrow> lit ''Windows DPAPI'' | Keychain \<Rightarrow> lit ''macOS Keychain'' | No_Keystore reason \<Rightarrow> reason)"

section \<open>What a client relies on\<close>

text \<open>
  \<open>entry\<close> is what the keystore holds under a key; keys with the same \<open>norm\<close> share their entry; \<open>kept\<close> are
  the secrets that are handed back as they were stored, and \<open>calm\<close> states in which the next call is not
  disturbed. The laws hold where what is behind the keystore is \<open>lawful\<close>.
\<close>

locale secret_ring =
  fixes lawful :: bool
    and norm :: "ustring \<Rightarrow> 'n"
    and entry :: "'w \<Rightarrow> ustring \<Rightarrow> u8 list option"
    and calm :: "'w \<Rightarrow> bool"
    and kept :: "ustring \<Rightarrow> bool"
    and set_in :: "ustring \<Rightarrow> ustring \<Rightarrow> 'w \<Rightarrow> unit rdt_result \<times> 'w"
    and get_in :: "ustring \<Rightarrow> 'w \<Rightarrow> ustring rdt_result \<times> 'w"
    and del_in :: "ustring \<Rightarrow> 'w \<Rightarrow> unit rdt_result \<times> 'w"
  assumes set_entry: "lawful \<Longrightarrow> kept v \<Longrightarrow> set_in k v w = (Inr u, w') \<Longrightarrow>
      entry w' j = (if norm j = norm k then Some (as_bytes v) else entry w j)"
    and del_entry: "lawful \<Longrightarrow> del_in k w = (Inr u, w') \<Longrightarrow>
      entry w' j = (if norm j = norm k then None else entry w j)"
    and get_entry: "lawful \<Longrightarrow> calm w \<Longrightarrow> kept v \<Longrightarrow> entry w k = Some (as_bytes v) \<Longrightarrow> fst (get_in k w) = Inr v"
    and get_none: "lawful \<Longrightarrow> entry w k = None \<Longrightarrow> \<exists>e. fst (get_in k w) = Inl e"
begin

text \<open>A history of edits, each of which reported success.\<close>

fun edits :: "(ustring \<times> ustring option) list \<Rightarrow> 'w \<Rightarrow> 'w \<Rightarrow> bool" where
  "edits [] w w' \<longleftrightarrow> w' = w"
| "edits ((k, Some v) # es) w w' \<longleftrightarrow> kept v \<and> (\<exists>w1. set_in k v w = (Inr (), w1) \<and> edits es w1 w')"
| "edits ((k, None) # es) w w' \<longleftrightarrow> (\<exists>w1. del_in k w = (Inr (), w1) \<and> edits es w1 w')"

fun edited :: "(ustring \<times> ustring option) list \<Rightarrow> (ustring \<Rightarrow> u8 list option) \<Rightarrow> ustring \<Rightarrow> u8 list option" where
  "edited [] m j = m j"
| "edited ((k, x) # es) m j =
     edited es (\<lambda>j. if norm j = norm k then map_option as_bytes x else m j) j"

lemma edits_entry: "lawful \<Longrightarrow> edits es w w' \<Longrightarrow> entry w' j = edited es (entry w) j"
proof (induction es w w' rule: edits.induct)
  case (2 k v es w w')
  then obtain w1 where w1: "kept v" "set_in k v w = (Inr (), w1)" "edits es w1 w'" by auto
  have "entry w1 = (\<lambda>j. if norm j = norm k then Some (as_bytes v) else entry w j)"
    using set_entry [OF 2(2) w1(1,2)] by blast
  with 2(1,2) w1(3) show ?case by (simp cong: if_cong)
next
  case (3 k es w w')
  then obtain w1 where w1: "del_in k w = (Inr (), w1)" "edits es w1 w'" by auto
  have "entry w1 = (\<lambda>j. if norm j = norm k then None else entry w j)" using del_entry [OF 3(2) w1(1)] by blast
  with 3(1,2) w1(2) show ?case by (simp cong: if_cong)
qed simp

lemma stored_is_read:
  assumes "lawful" and "kept v" and "set_in k v w = (Inr u, w')" and "calm w'"
  shows "fst (get_in k w') = Inr v"
  using get_entry [OF assms(1,4,2)] set_entry [OF assms(1-3), of k] by simp

lemma deleted_is_gone:
  assumes "lawful" and "del_in k w = (Inr u, w')"
  shows "\<exists>e. fst (get_in k w') = Inl e"
  using get_none [OF assms(1)] del_entry [OF assms, of k] by simp

end

section \<open>The three keystores keep the contract\<close>

interpretation keyring: secret_ring "tool_laws tool program ring" "\<lambda>k. k" ring "\<lambda>_. True" plain_secret
    "secret_tool_set tool program" "secret_tool_get tool program" "secret_tool_delete tool program"
  for tool :: "'w tool" and program ring
proof unfold_locales
  fix k v w u w' j
  assume "tool_laws tool program ring" "secret_tool_set tool program k v w = (Inr u, w')"
  from tool_store [OF this] show "ring w' j = (if j = k then Some (as_bytes v) else ring w j)" by simp
next
  fix k w u w' j
  assume laws: "tool_laws tool program ring" and run: "secret_tool_delete tool program k w = (Inr u, w')"
  obtain out where "tool program [lit ''clear'', lit ''rdt-key'', k] [] w = (Inr out, w')" "po_success out"
    using run by (auto simp: secret_tool_delete_def cannot_run_def simp del: lit_simps split: prod.splits sum.splits if_splits)
  with laws have "ring w' = (ring w)(k := None)" unfolding tool_laws_def by blast
  then show "ring w' j = (if j = k then None else ring w j)" by simp
next
  fix w v k
  assume "tool_laws tool program ring" "plain_secret v" "ring w k = Some (as_bytes v)"
  from tool_lookup [OF this(1,3,2)] show "fst (secret_tool_get tool program k w) = Inr v" .
next
  fix w k
  assume laws: "tool_laws tool program ring" and "ring w k = None"
  then obtain out w' where "tool program [lit ''lookup'', lit ''rdt-key'', k] [] w = (Inr out, w')" "\<not> po_success out"
    unfolding tool_laws_def by metis
  then show "\<exists>e. fst (secret_tool_get tool program k w) = Inl e"
    by (simp add: secret_tool_get_def fail_def del: lit_simps)
qed

text \<open>
  What is relied on of \<open>security\<close>: an item that was added is the entry, deleting touches only the entry
  that it names, and finding prints an entry of printable characters with a line feed. (Others are
  printed in hexadecimal.)
\<close>

definition printable :: "ustring \<Rightarrow> bool" where
  "printable t \<longleftrightarrow> list_all (\<lambda>c. 32 \<le> c \<and> c < 127) t"

definition keychain_laws :: "'w tool \<Rightarrow> ('w \<Rightarrow> ustring \<Rightarrow> u8 list option) \<Rightarrow> bool" where
  "keychain_laws tool ring \<longleftrightarrow>
     (\<forall>key value w out w'. tool security (keychain_add_args key value) [] w = (Inr out, w') \<longrightarrow> po_success out \<longrightarrow>
        ring w' = (ring w)(key \<mapsto> as_bytes value))
     \<and> (\<forall>key w r w'. tool security (keychain_delete_args key) [] w = (r, w') \<longrightarrow>
        (\<forall>j. j \<noteq> key \<longrightarrow> ring w' j = ring w j) \<and> (\<forall>out. r = Inr out \<longrightarrow> po_success out \<longrightarrow> ring w' key = None))
     \<and> (\<forall>key w. \<exists>out w'. tool security (keychain_find_args key) [] w = (Inr out, w')
          \<and> po_success out = (ring w key \<noteq> None)
          \<and> (\<forall>t. ring w key = Some (as_bytes t) \<longrightarrow> printable t \<longrightarrow> po_stdout out = as_bytes (t @ [10])))"

definition kept_by_keychain :: "ustring \<Rightarrow> bool" where
  "kept_by_keychain t \<longleftrightarrow> printable t \<and> trim t = t"

lemma trim_line_feed:
  assumes "trim t = t"
  shows "trim (t @ [10]) = t"
proof (cases t)
  case Nil
  then show ?thesis by (simp add: trim_def trim_end_def trim_start_def is_whitespace_def)
next
  case (Cons c cs)
  have "length t \<le> length (dropWhile is_whitespace t)"
    using assms length_dropWhile_le [of is_whitespace "rev (dropWhile is_whitespace t)"]
    by (metis length_rev trim_def trim_end_def trim_start_def)
  with Cons have "\<not> is_whitespace c" using length_dropWhile_le [of is_whitespace cs] by (auto split: if_splits)
  moreover have "is_whitespace 10" by (simp add: is_whitespace_def)
  ultimately show ?thesis using Cons assms by (simp add: trim_def trim_end_def trim_start_def)
qed

lemma printable_text: "printable t \<Longrightarrow> is_text (t @ [10])"
  by (auto simp: printable_def is_text_def list_all_iff is_scalar_def)

lemma keychain_laws_add:
  assumes "keychain_laws tool ring" and "tool security (keychain_add_args key value) [] w = (Inr out, w')" and "po_success out"
  shows "ring w' = (ring w)(key \<mapsto> as_bytes value)"
proof -
  have "\<forall>key value w out w'. tool security (keychain_add_args key value) [] w = (Inr out, w') \<longrightarrow> po_success out \<longrightarrow>
      ring w' = (ring w)(key \<mapsto> as_bytes value)"
    using assms(1) unfolding keychain_laws_def by (elim conjE)
  from this [rule_format, OF assms(2,3)] show ?thesis .
qed

lemma keychain_laws_delete:
  assumes "keychain_laws tool ring" and "tool security (keychain_delete_args key) [] w = (r, w')"
  shows "j \<noteq> key \<Longrightarrow> ring w' j = ring w j" and "r = Inr out \<Longrightarrow> po_success out \<Longrightarrow> ring w' key = None"
proof -
  have "\<forall>key w r w'. tool security (keychain_delete_args key) [] w = (r, w') \<longrightarrow>
      (\<forall>j. j \<noteq> key \<longrightarrow> ring w' j = ring w j) \<and> (\<forall>out. r = Inr out \<longrightarrow> po_success out \<longrightarrow> ring w' key = None)"
    using assms(1) unfolding keychain_laws_def by (elim conjE)
  from this [rule_format, OF assms(2)]
  show "j \<noteq> key \<Longrightarrow> ring w' j = ring w j" "r = Inr out \<Longrightarrow> po_success out \<Longrightarrow> ring w' key = None" by simp_all
qed

lemma keychain_laws_find:
  assumes "keychain_laws tool ring"
  obtains out w' where "tool security (keychain_find_args key) [] w = (Inr out, w')" and "po_success out = (ring w key \<noteq> None)"
    and "\<forall>t. ring w key = Some (as_bytes t) \<longrightarrow> printable t \<longrightarrow> po_stdout out = as_bytes (t @ [10])"
proof -
  have "\<forall>key w. \<exists>out w'. tool security (keychain_find_args key) [] w = (Inr out, w')
      \<and> po_success out = (ring w key \<noteq> None)
      \<and> (\<forall>t. ring w key = Some (as_bytes t) \<longrightarrow> printable t \<longrightarrow> po_stdout out = as_bytes (t @ [10]))"
    using assms unfolding keychain_laws_def by (elim conjE)
  from this [rule_format, of key w] that show ?thesis by blast
qed

lemma keychain_set_entry:
  assumes laws: "keychain_laws tool ring" and run: "keychain_set tool k v w = (Inr u, w')"
  shows "ring w' j = (if j = k then Some (as_bytes v) else ring w j)"
proof -
  obtain r w1 where d: "tool security (keychain_delete_args k) [] w = (r, w1)" by fastforce
  obtain out where "tool security (keychain_add_args k v) [] w1 = (Inr out, w')" "po_success out"
    using run d by (auto simp: keychain_set_def keychain_delete_def fail_def simp del: lit_simps split: prod.splits sum.splits if_splits)
  from keychain_laws_add [OF laws this] keychain_laws_delete(1) [OF laws d, of j] show ?thesis by simp
qed

lemma keychain_delete_entry:
  assumes laws: "keychain_laws tool ring" and run: "keychain_delete tool k w = (Inr u, w')"
  shows "ring w' j = (if j = k then None else ring w j)"
proof -
  obtain out where "tool security (keychain_delete_args k) [] w = (Inr out, w')" "po_success out"
    using run by (auto simp: keychain_delete_def fail_def simp del: lit_simps split: prod.splits sum.splits if_splits)
  with keychain_laws_delete [OF laws this(1)] show ?thesis by simp
qed

lemma keychain_get_entry:
  assumes "keychain_laws tool ring" and v: "kept_by_keychain v" "ring w k = Some (as_bytes v)"
  shows "fst (keychain_get tool k w) = Inr v"
proof -
  obtain out w' where "tool security (keychain_find_args k) [] w = (Inr out, w')" "po_success out"
    "po_stdout out = as_bytes (v @ [10])"
  proof -
    obtain out w' where f: "tool security (keychain_find_args k) [] w = (Inr out, w')" "po_success out = (ring w k \<noteq> None)"
      "\<forall>t. ring w k = Some (as_bytes t) \<longrightarrow> printable t \<longrightarrow> po_stdout out = as_bytes (t @ [10])"
      using keychain_laws_find [OF assms(1)] .
    from that [OF f(1)] f(2,3) v show ?thesis by (simp add: kept_by_keychain_def)
  qed
  moreover have "utf8_lossy (as_bytes (v @ [10])) = v @ [10]"
    using v(1) printable_text [of v] by (intro utf8_lossy_text) (simp add: kept_by_keychain_def is_text_def)
  moreover have "trim (v @ [10]) = v" using v(1) by (simp add: kept_by_keychain_def trim_line_feed)
  ultimately show ?thesis by (simp add: keychain_get_def)
qed

lemma keychain_get_none:
  assumes "keychain_laws tool ring" and "ring w k = None"
  shows "\<exists>e. fst (keychain_get tool k w) = Inl e"
proof -
  obtain out w' where "tool security (keychain_find_args k) [] w = (Inr out, w')" "po_success out = (ring w k \<noteq> None)"
    using keychain_laws_find [OF assms(1)] .
  with assms(2) show ?thesis by (simp add: keychain_get_def fail_def del: lit_simps)
qed

interpretation chain: secret_ring "keychain_laws tool ring" "\<lambda>k. k" ring "\<lambda>_. True" kept_by_keychain
    "keychain_set tool" "keychain_get tool" "keychain_delete tool"
  for tool :: "'w tool" and ring
  by unfold_locales (rule keychain_set_entry keychain_delete_entry keychain_get_entry keychain_get_none; assumption)+

text \<open>What is relied on of DPAPI: what was sealed with an entropy is opened with it, and its length is a
  32-bit number.\<close>

definition dpapi_laws :: "dpapi \<Rightarrow> bool" where
  "dpapi_laws dp \<longleftrightarrow> (\<forall>seed e p blob. dp_protect dp seed e p = Some blob \<longrightarrow> length blob < 2 ^ 32 \<and> dp_unprotect dp e blob = Some p)"

definition dpapi_entry ::
  "dpapi \<Rightarrow> ustring option \<Rightarrow> (u8 list \<Rightarrow> u8 list) \<Rightarrow> ustring \<Rightarrow> fs \<Rightarrow> ustring \<Rightarrow> u8 list option" where
  "dpapi_entry dp username sha directory s key =
     (case fs_files s (dpapi_path sha directory key) of None \<Rightarrow> None | Some blob \<Rightarrow> dpapi_open dp username blob)"

definition kept_by_dpapi :: "ustring \<Rightarrow> bool" where
  "kept_by_dpapi t \<longleftrightarrow> is_text t \<and> length (as_bytes t) < 2 ^ 32"

lemma blob_of_short: "length bytes < 2 ^ 32 \<Longrightarrow> blob_of bytes = bytes"
  by (simp add: blob_of_def unat_of_nat)

lemma dpapi_set_files:
  assumes "dpapi_set dp seed username sha directory k v s = (Inr u, s')"
  obtains blob where "dp_protect dp seed (blob_of (dpapi_entropy username)) (blob_of (as_bytes v)) = Some blob"
    and "fs_files s' = (fs_files s)(dpapi_path sha directory k \<mapsto> blob)"
proof -
  obtain blob where blob: "dp_protect dp seed (blob_of (dpapi_entropy username)) (blob_of (as_bytes v)) = Some blob"
    using assms by (auto simp: dpapi_set_def pure_run_def fail_def split: option.splits)
  with assms obtain x s1 where 1: "on_err from_io io_touch s = (Inr x, s1)"
    and 2: "on_err from_io (io_write (dpapi_path sha directory k) blob) s1 = (Inr u, s')"
    by (auto simp: dpapi_set_def run_then_Inr)
  from 1 have s1: "fs_files s1 = fs_files s" by (auto simp: on_err_def io_touch_def split: prod.splits sum.splits)
  from 2 have "fs_files s' = (fs_files s1)(dpapi_path sha directory k \<mapsto> blob)"
    by (auto simp: on_err_def io_write_def io_create_def io_write_all_def Let_def split: prod.splits sum.splits option.splits)
  with that [OF blob] s1 show ?thesis by simp
qed

interpretation dpk: secret_ring "dpapi_laws dp" "dpapi_path sha directory" "dpapi_entry dp username sha directory"
    "\<lambda>s. fs_faults s = []" kept_by_dpapi "dpapi_set dp seed username sha directory" "dpapi_get dp username sha directory"
    "dpapi_delete sha directory"
  for dp seed username sha directory
proof unfold_locales
  fix k v s u s' j
  assume laws: "dpapi_laws dp" and v: "kept_by_dpapi v" and run: "dpapi_set dp seed username sha directory k v s = (Inr u, s')"
  obtain blob where blob: "dp_protect dp seed (blob_of (dpapi_entropy username)) (blob_of (as_bytes v)) = Some blob"
    "fs_files s' = (fs_files s)(dpapi_path sha directory k \<mapsto> blob)" using dpapi_set_files [OF run] .
  have "dpapi_open dp username blob = Some (as_bytes v)"
    using laws blob(1) v unfolding dpapi_laws_def dpapi_open_def kept_by_dpapi_def by (metis blob_of_short)
  then show "dpapi_entry dp username sha directory s' j
      = (if dpapi_path sha directory j = dpapi_path sha directory k then Some (as_bytes v) else dpapi_entry dp username sha directory s j)"
    using blob(2) by (simp add: dpapi_entry_def)
next
  fix k s u s' j
  assume "dpapi_delete sha directory k s = (Inr u, s')"
  then have "fs_files s' = (fs_files s)(dpapi_path sha directory k := None)"
    by (auto simp: dpapi_delete_def on_err_def io_remove_def fun_upd_idem split: prod.splits sum.splits option.splits if_splits)
  then show "dpapi_entry dp username sha directory s' j
      = (if dpapi_path sha directory j = dpapi_path sha directory k then None else dpapi_entry dp username sha directory s j)"
    by (simp add: dpapi_entry_def)
next
  fix s v k
  assume "fs_faults s = []" "kept_by_dpapi v" "dpapi_entry dp username sha directory s k = Some (as_bytes v)"
  then show "fst (dpapi_get dp username sha directory k s) = Inr v"
    by (auto simp: dpapi_get_def dpapi_entry_def run_then_def on_err_def io_read_def pure_run_def kept_by_dpapi_def is_text_def
        utf8_lossy_text split: option.splits)
next
  fix s k
  assume "dpapi_entry dp username sha directory s k = None"
  then show "\<exists>e. fst (dpapi_get dp username sha directory k s) = Inl e"
    by (auto simp: dpapi_get_def dpapi_entry_def run_then_def on_err_def io_read_def pure_run_def fail_def split: option.splits)
qed

section \<open>What the contract gives\<close>

text \<open>On every system a secret that was stored is read back and one that was deleted is gone, as long as
  nothing disturbs the reading.\<close>

lemma keyring_reads_back:
  assumes "tool_laws tool program ring" and "plain_secret v" and "secret_tool_set tool program k v w = (Inr u, w')"
  shows "fst (secret_tool_get tool program k w') = Inr v"
  by (rule keyring.stored_is_read [OF assms]) simp

lemma keychain_reads_back:
  assumes "keychain_laws tool ring" and "kept_by_keychain v" and "keychain_set tool k v w = (Inr u, w')"
  shows "fst (keychain_get tool k w') = Inr v"
  by (rule chain.stored_is_read [OF assms]) simp

lemma dpapi_reads_back:
  assumes "dpapi_laws dp" and "kept_by_dpapi v" and "dpapi_set dp seed username sha directory k v s = (Inr u, s')"
    and "fs_faults s' = []"
  shows "fst (dpapi_get dp username sha directory k s') = Inr v"
  by (rule dpk.stored_is_read [OF assms])

text \<open>Where the systems differ. The keychain trims: spaces around a secret are lost, which the others keep.\<close>

lemma keychain_loses_spaces:
  assumes "keychain_laws tool ring" and "printable t" and "ring w k = Some (as_bytes t)"
  shows "fst (keychain_get tool k w) = Inr (trim (t @ [10]))"
proof -
  obtain out w' where f: "tool security (keychain_find_args k) [] w = (Inr out, w')" "po_success out = (ring w k \<noteq> None)"
    "\<forall>t. ring w k = Some (as_bytes t) \<longrightarrow> printable t \<longrightarrow> po_stdout out = as_bytes (t @ [10])"
    using keychain_laws_find [OF assms(1)] .
  moreover have "utf8_lossy (as_bytes (t @ [10])) = t @ [10]"
    using assms(2) printable_text [of t] by (intro utf8_lossy_text) (simp add: is_text_def)
  ultimately show ?thesis using assms(2,3) by (simp add: keychain_get_def)
qed

text \<open>A keychain that cannot be written loses the old secret as well: it is deleted first.\<close>

lemma failed_keychain_set_deletes:
  assumes "keychain_laws tool ring" and "tool security (keychain_delete_args k) [] w = (Inr out, w1)" and "po_success out"
    and "tool security (keychain_add_args k v) [] w1 = (Inr out', w1)" and "\<not> po_success out'"
  shows "\<exists>e. keychain_set tool k v w = (Inl e, w1)" and "ring w1 k = None"
  using keychain_laws_delete [OF assms(1,2)] assms by (simp_all add: keychain_set_def keychain_delete_def fail_def del: lit_simps)

text \<open>A blob is written in place: a write that fails leaves a damaged entry instead of the old one.\<close>

lemma failed_dpapi_set_truncates:
  assumes "dp_protect dp seed (blob_of (dpapi_entropy username)) (blob_of (as_bytes v)) = Some blob"
    and "fs_faults s = [None, None, Some \<lparr>ft_error = e, ft_written = n\<rparr>]"
  shows "\<exists>err s'. dpapi_set dp seed username sha directory k v s = (Inl err, s')
     \<and> fs_files s' (dpapi_path sha directory k) = Some (take n blob)"
  using assms by (simp add: dpapi_set_def run_then_def on_err_def io_touch_def io_write_def io_create_def io_write_all_def
      after_call_def set_file_def)

text \<open>Deleting an entry that does not exist succeeds on Windows and fails on macOS.\<close>

lemma deleting_nothing:
  "fs_files s (dpapi_path sha directory k) = None \<Longrightarrow> dpapi_delete sha directory k s = (Inr (), s)"
  "tool security (keychain_delete_args k) [] w = (Inr out, w') \<Longrightarrow> \<not> po_success out \<Longrightarrow> \<exists>e. fst (keychain_delete tool k w) = Inl e"
  by (simp_all add: dpapi_delete_def keychain_delete_def fail_def del: lit_simps)

end
