(* ===== verification/Rust_Utf16.thy ===== *)
theory Rust_Utf16
  imports Rust_Lossy
begin

text \<open>
  UTF-16, as \<open>str::encode_utf16\<close> and \<open>String::from_utf16_lossy\<close> use it, and what a zero-terminated text of
  units says of the text that was encoded.
\<close>

section \<open>Encoding and decoding\<close>

definition encode_utf16_char :: "uchar \<Rightarrow> u16 list" where
  "encode_utf16_char c =
     (if c < 0x10000 then [word_of_nat c]
      else [word_of_nat (0xD800 + (c - 0x10000) div 0x400), word_of_nat (0xDC00 + (c - 0x10000) mod 0x400)])"

definition encode_utf16 :: "ustring \<Rightarrow> u16 list" where
  "encode_utf16 t = concat (map encode_utf16_char t)"

text \<open>\<open>String::from_utf16_lossy\<close>: a surrogate without its partner is replaced.\<close>

fun utf16_lossy :: "u16 list \<Rightarrow> ustring" where
  "utf16_lossy [] = []"
| "utf16_lossy (u # us) =
     (let n = unat u in
      if n < 0xD800 \<or> 0xDFFF < n then n # utf16_lossy us
      else if 0xDC00 \<le> n then replacement # utf16_lossy us
      else
        (case us of
           [] \<Rightarrow> [replacement]
         | v # vs \<Rightarrow>
             if 0xDC00 \<le> unat v \<and> unat v \<le> 0xDFFF
             then (0x10000 + (n - 0xD800) * 0x400 + (unat v - 0xDC00)) # utf16_lossy vs
             else replacement # utf16_lossy us))"

section \<open>The round trip\<close>

lemma utf16_lossy_char:
  assumes "is_scalar c"
  shows "utf16_lossy (encode_utf16_char c @ us) = c # utf16_lossy us"
proof (cases "c < 0x10000")
  case True
  with assms show ?thesis by (auto simp: encode_utf16_char_def unat_of_nat is_scalar_def)
next
  case False
  define h where "h = (c - 0x10000) div 0x400"
  define l where "l = (c - 0x10000) mod 0x400"
  have "h < 0x400" "l < 0x400" "c = 0x10000 + h * 0x400 + l"
    using False assms by (auto simp: h_def l_def is_scalar_def)
  moreover from this have "unat (word_of_nat (0xD800 + h) :: u16) = 0xD800 + h" "unat (word_of_nat (0xDC00 + l) :: u16) = 0xDC00 + l"
    by (simp_all add: unat_of_nat del: of_nat_add)
  ultimately show ?thesis using False
    by (simp add: encode_utf16_char_def h_def [symmetric] l_def [symmetric] del: of_nat_add)
qed

lemma u16_not_zero: "n < 65536 \<Longrightarrow> n \<noteq> 0 \<Longrightarrow> (word_of_nat n :: u16) \<noteq> 0"
  by (simp add: word_unat_eq_iff unat_of_nat)

lemma encoded_not_zero:
  assumes "is_scalar c" and "c \<noteq> 0"
  shows "0 \<notin> set (encode_utf16_char c)"
proof -
  have "0xD800 + (c - 0x10000) div 0x400 < 65536" "0xDC00 + (c - 0x10000) mod 0x400 < (65536 :: nat)"
    using assms(1) by (auto simp: is_scalar_def)
  with u16_not_zero [of c] u16_not_zero [of "0xD800 + (c - 0x10000) div 0x400"] u16_not_zero [of "0xDC00 + (c - 0x10000) mod 0x400"]
    assms(2) show ?thesis by (simp add: encode_utf16_char_def del: of_nat_add)
qed

text \<open>What is read up to the first zero is the text up to its first zero character.\<close>

lemma utf16_round_trip:
  assumes "\<forall>c \<in> set t. is_scalar c"
  shows "utf16_lossy (takeWhile (\<lambda>u. u \<noteq> 0) (encode_utf16 t @ 0 # rest)) = takeWhile (\<lambda>c. c \<noteq> 0) t"
  using assms
proof (induction t)
  case Nil
  then show ?case by (simp add: encode_utf16_def)
next
  case (Cons c t)
  show ?case
  proof (cases "c = 0")
    case True
    then show ?thesis by (simp add: encode_utf16_def encode_utf16_char_def)
  next
    case False
    have "takeWhile (\<lambda>u. u \<noteq> 0) (encode_utf16 (c # t) @ 0 # rest)
        = encode_utf16_char c @ takeWhile (\<lambda>u. u \<noteq> 0) (encode_utf16 t @ 0 # rest)"
      using encoded_not_zero [of c] Cons.prems False by (auto simp: encode_utf16_def intro!: takeWhile_append2)
    with utf16_lossy_char [of c] Cons False show ?thesis by simp
  qed
qed

end
