(* ===== verification/Plat_Foreign.thy ===== *)
theory Plat_Foreign
  imports Plat_Service Rust_Utf16
begin

text \<open>
  What \<open>crates/rdt-platform/src\<close> does on the other systems: directories and the user token (\<open>paths.rs\<close>), the
  probes (\<open>deps.rs\<close>), the primitives of Win32 (\<open>platform_impl.rs\<close>) and the service manager of Windows (\<open>service.rs\<close>), which is the record \<open>scm\<close>. Variables
  come from the environment of \<open>host\<close>.
\<close>

section \<open>Directories\<close>

text \<open>Joining a relative path on Windows.\<close>

definition win_join :: "ustring \<Rightarrow> ustring \<Rightarrow> ustring" where
  "win_join d f = (if d = [] \<or> last d \<in> {47, 92} then d @ f else d @ [92] @ f)"

definition windows_dirs :: "host \<Rightarrow> ustring \<Rightarrow> ustring \<times> ustring \<times> ustring" where
  "windows_dirs ho home =
     (let roaming = (case ho_env ho (lit ''APPDATA'') of
            Some p \<Rightarrow> p | None \<Rightarrow> win_join (win_join home (lit ''AppData'')) (lit ''Roaming''));
          local = (case ho_env ho (lit ''LOCALAPPDATA'') of Some p \<Rightarrow> p | None \<Rightarrow> win_join roaming (lit ''Local''))
      in (win_join roaming (lit ''RDT''), win_join roaming (lit ''RDT''), win_join (win_join local (lit ''RDT'')) (lit ''logs'')))"

definition macos_dirs :: "ustring \<Rightarrow> ustring \<times> ustring \<times> ustring" where
  "macos_dirs home =
     (let support = path_join (path_join home (lit ''Library'')) (lit ''Application Support'')
      in (path_join support (lit ''RDT''), path_join support (lit ''RDT''),
          path_join (path_join (path_join home (lit ''Library'')) (lit ''Logs'')) (lit ''RDT'')))"

text \<open>The token of a user where there is no user number: a hash of the name, as sixteen digits.\<close>

definition name_hash :: "u8 list \<Rightarrow> u64" where
  "name_hash bytes = fold (\<lambda>b h. h * 31 + ucast b) bytes 0"

definition show_hex16 :: "u64 \<Rightarrow> ustring" where
  "show_hex16 h = map (\<lambda>i. hex_digit (unat (drop_bit (4 * i) h) mod 16)) (rev [0..<16])"

definition user_token_named :: "host \<Rightarrow> ustring" where
  "user_token_named ho =
     show_hex16 (name_hash (as_bytes (case ho_env ho (lit ''USERNAME'') of Some n \<Rightarrow> n | None \<Rightarrow> lit ''user'')))"

definition agent_pipe :: ustring where
  "agent_pipe = [92, 92, 46, 92] @ lit ''pipe'' @ [92] @ lit ''rdt-agent''"

section \<open>Probes\<close>

definition openssh_pipe :: ustring where
  "openssh_pipe = [92, 92, 46, 92] @ lit ''pipe'' @ [92] @ lit ''openssh-ssh-agent''"

definition probe_ssh_agent_windows :: "host \<Rightarrow> dependency_report" where
  "probe_ssh_agent_windows ho =
     (if ho_exists ho openssh_pipe then dep_report SshAgent Available openssh_pipe True
      else dep_report SshAgent Missing (lit ''OpenSSH agent pipe not found'') True)"

definition probe_secret_store_windows :: dependency_report where
  "probe_secret_store_windows = dep_report SecretStoreDep Available (lit ''Windows DPAPI (user scope)'') True"

definition probe_secret_store_macos :: dependency_report where
  "probe_secret_store_macos = dep_report SecretStoreDep Available (lit ''macOS Keychain'') True"

definition probe_service_manager_windows :: dependency_report where
  "probe_service_manager_windows = dep_report WindowsScm Available (lit ''service control manager'') True"

definition probe_clipboard_windows :: dependency_report where
  "probe_clipboard_windows = dep_report ClipboardDep Available (lit ''Win32 clipboard'') True"

section \<open>Primitives\<close>

text \<open>What the calls of Win32 return, if they succeed: the version, the buffer with the name (its first units),
  and for the token of the process, whether it is elevated.\<close>

definition windows_version :: "(u32 \<times> u32 \<times> u32) option \<Rightarrow> ustring" where
  "windows_version answer =
     (case answer of
        Some (major, minor, build) \<Rightarrow>
          lit ''Windows '' @ show_nat (unat major) @ [46] @ show_nat (unat minor) @ [46] @ show_nat (unat build)
            @ lit '' (build '' @ show_nat (unat build) @ [41]
      | None \<Rightarrow> lit ''Windows'')"

definition computer_name :: "u16 list option \<Rightarrow> ustring" where
  "computer_name answer = (case answer of None \<Rightarrow> lit ''localhost'' | Some units \<Rightarrow> utf16_lossy units)"

definition is_elevated_windows :: "bool \<Rightarrow> bool option \<Rightarrow> bool" where
  "is_elevated_windows opened elevation \<longleftrightarrow> opened \<and> elevation = Some True"

section \<open>The service manager of Windows\<close>

text \<open>A service that is created has no dependencies and no account of its own.\<close>

record win_service =
  wi_name :: ustring
  wi_display :: ustring
  wi_auto_start :: bool
  wi_error_normal :: bool
  wi_executable :: ustring
  wi_arguments :: "ustring list"

datatype win_state = Win_Running | Win_Stopped | Win_Start_Pending | Win_Stop_Pending | Win_Other

text \<open>Connecting (with the right to create services or without it), deleting, creating, opening and querying
  a service. Errors are texts.\<close>

record 'w scm =
  sm_connect :: "bool \<Rightarrow> 'w \<Rightarrow> ustring + unit"
  sm_delete :: "ustring \<Rightarrow> 'w \<Rightarrow> (ustring + unit) \<times> 'w"
  sm_create :: "win_service \<Rightarrow> 'w \<Rightarrow> (ustring + unit) \<times> 'w"
  sm_open :: "ustring \<Rightarrow> 'w \<Rightarrow> ustring + unit"
  sm_query :: "ustring \<Rightarrow> 'w \<Rightarrow> ustring + win_state"

definition service_result :: "ustring + 'a \<Rightarrow> 'a rdt_result" where
  "service_result r = (case r of Inl e \<Rightarrow> fail EService e | Inr x \<Rightarrow> Inr x)"

definition win_service_info :: "service_spec \<Rightarrow> win_service" where
  "win_service_info sp =
     \<lparr>wi_name = sv_name sp, wi_display = sv_description sp, wi_auto_start = sv_start_now sp, wi_error_normal = sv_restart sp,
      wi_executable = sv_executable sp, wi_arguments = sv_arguments sp\<rparr>"

text \<open>An old service of the name is deleted first, whatever comes of it.\<close>

definition win_install :: "'w scm \<Rightarrow> service_spec \<Rightarrow> 'w \<Rightarrow> unit rdt_result \<times> 'w" where
  "win_install m sp w =
     (case sm_connect m True w of
        Inl e \<Rightarrow> (fail EService e, w)
      | Inr _ \<Rightarrow>
          (case sm_create m (win_service_info sp) (snd (sm_delete m (sv_name sp) w)) of
             (r, w') \<Rightarrow> (service_result r, w')))"

definition win_uninstall :: "'w scm \<Rightarrow> service_spec \<Rightarrow> 'w \<Rightarrow> unit rdt_result \<times> 'w" where
  "win_uninstall m sp w =
     (case sm_connect m False w of
        Inl e \<Rightarrow> (fail EService e, w)
      | Inr _ \<Rightarrow> (case sm_delete m (sv_name sp) w of (r, w') \<Rightarrow> (service_result r, w')))"

definition win_service_state :: "win_state \<Rightarrow> service_state" where
  "win_service_state s =
     (case s of Win_Running \<Rightarrow> ServiceRunning | Win_Stopped \<Rightarrow> ServiceStopped | Win_Start_Pending \<Rightarrow> Transitioning
      | Win_Stop_Pending \<Rightarrow> Transitioning | Win_Other \<Rightarrow> ServiceUnknown)"

definition win_status :: "'w scm \<Rightarrow> service_spec \<Rightarrow> 'w \<Rightarrow> service_state rdt_result" where
  "win_status m sp w =
     (case sm_connect m False w of
        Inl e \<Rightarrow> fail EService e
      | Inr _ \<Rightarrow>
          (case sm_open m (sv_name sp) w of
             Inl _ \<Rightarrow> Inr NotInstalled
           | Inr _ \<Rightarrow> and_then (service_result (sm_query m (sv_name sp) w)) (\<lambda>s. Inr (win_service_state s))))"

section \<open>What holds of them\<close>

text \<open>The hash is the value of the name in base 31, without the overflow.\<close>

fun base31 :: "u8 list \<Rightarrow> nat" where
  "base31 [] = 0"
| "base31 (b # bs) = unat b * 31 ^ length bs + base31 bs"

lemma name_hash_acc: "fold (\<lambda>b h. h * 31 + ucast b) bs (h :: u64) = h * 31 ^ length bs + word_of_nat (base31 bs)"
proof (induction bs arbitrary: h)
  case (Cons b bs)
  have "(ucast b :: u64) = word_of_nat (unat b)" by simp
  with Cons show ?case by (simp add: algebra_simps)
qed simp

lemma name_hash_base31: "name_hash bs = word_of_nat (base31 bs)"
  using name_hash_acc [of bs 0] by (simp add: name_hash_def)

text \<open>So two users can have the same token, and with it the same runtime directory.\<close>

lemma user_tokens_collide:
  assumes "ho_env a (lit ''USERNAME'') = Some (lit ''Aa'')" and "ho_env b (lit ''USERNAME'') = Some (lit ''BB'')"
  shows "user_token_named a = user_token_named b"
proof -
  have "name_hash (as_bytes (lit ''Aa'')) = name_hash (as_bytes (lit ''BB''))"
    by (simp add: name_hash_base31 as_bytes_def encode_utf8_def)
  with assms show ?thesis by (simp add: user_token_named_def del: lit_simps)
qed

text \<open>Without \<open>LOCALAPPDATA\<close> the logs go below the roaming directory, not beside it.\<close>

lemma local_below_roaming:
  assumes "ho_env ho (lit ''APPDATA'') = None" and "ho_env ho (lit ''LOCALAPPDATA'') = None"
  shows "snd (snd (windows_dirs ho (lit ''h''))) = lit ''h'' @ [92] @ lit ''AppData'' @ [92] @ lit ''Roaming'' @ [92] @ lit ''Local''
     @ [92] @ lit ''RDT'' @ [92] @ lit ''logs''"
proof -
  have "lit ''APPDATA'' \<noteq> lit ''LOCALAPPDATA''" by simp
  with assms show ?thesis unfolding windows_dirs_def Let_def by (simp only: option.case) (simp add: win_join_def)
qed

text \<open>What is relied on of the service manager, with \<open>services\<close> the services it has: deleting removes at most
  the service it names, a service that was created is there, and one that is not there cannot be opened.\<close>

definition scm_laws :: "'w scm \<Rightarrow> ('w \<Rightarrow> ustring \<Rightarrow> win_service option) \<Rightarrow> bool" where
  "scm_laws m services \<longleftrightarrow>
     (\<forall>n w j. j \<noteq> n \<longrightarrow> services (snd (sm_delete m n w)) j = services w j)
     \<and> (\<forall>n w. fst (sm_delete m n w) = Inr () \<longrightarrow> services (snd (sm_delete m n w)) n = None)
     \<and> (\<forall>x w. fst (sm_create m x w) = Inr () \<longrightarrow> services (snd (sm_create m x w)) = (services w)(wi_name x \<mapsto> x))
     \<and> (\<forall>n w. services w n = None \<longrightarrow> (\<exists>e. sm_open m n w = Inl e))"

lemma scm_laws_delete: "scm_laws m services \<Longrightarrow> j \<noteq> n \<Longrightarrow> services (snd (sm_delete m n w)) j = services w j"
  unfolding scm_laws_def by (elim conjE) simp

lemma scm_laws_deleted: "scm_laws m services \<Longrightarrow> sm_delete m n w = (Inr (), w') \<Longrightarrow> services w' n = None"
  unfolding scm_laws_def by (elim conjE) (metis fst_conv snd_conv)

lemma scm_laws_create: "scm_laws m services \<Longrightarrow> sm_create m x w = (Inr (), w') \<Longrightarrow> services w' = (services w)(wi_name x \<mapsto> x)"
  unfolding scm_laws_def by (elim conjE) (metis fst_conv snd_conv)

lemma scm_laws_open: "scm_laws m services \<Longrightarrow> services w n = None \<Longrightarrow> \<exists>e. sm_open m n w = Inl e"
  unfolding scm_laws_def by (elim conjE) simp

lemma win_install_Inr:
  "win_install m sp w = (Inr u, w') \<Longrightarrow> sm_create m (win_service_info sp) (snd (sm_delete m (sv_name sp) w)) = (Inr (), w')"
  by (auto simp: win_install_def service_result_def fail_def split: sum.splits prod.splits)

text \<open>Installing replaces the service of the name, and no other.\<close>

theorem install_replaces_the_service:
  assumes "scm_laws m services" and "win_install m sp w = (Inr u, w')"
  shows "services w' = (services w)(sv_name sp \<mapsto> win_service_info sp)"
proof
  fix j
  show "services w' j = ((services w)(sv_name sp \<mapsto> win_service_info sp)) j"
    using scm_laws_create [OF assms(1) win_install_Inr [OF assms(2)]] scm_laws_delete [OF assms(1), of j "sv_name sp" w]
    by (simp add: win_service_info_def)
qed

text \<open>A removed service is reported as not installed.\<close>

lemma uninstalled_is_not_installed:
  assumes "scm_laws m services" and "win_uninstall m sp w = (Inr u, w')" and "sm_connect m False w' = Inr ()"
  shows "win_status m sp w' = Inr NotInstalled"
proof -
  have "sm_delete m (sv_name sp) w = (Inr (), w')"
    using assms(2) by (auto simp: win_uninstall_def service_result_def fail_def split: sum.splits prod.splits)
  from scm_laws_open [OF assms(1) scm_laws_deleted [OF assms(1) this]] obtain e where "sm_open m (sv_name sp) w' = Inl e" by blast
  with assms(3) show ?thesis by (simp add: win_status_def)
qed

text \<open>Installing is not atomic: when the new service cannot be created, the old one is gone.\<close>

lemma failed_install_removes:
  assumes "scm_laws m services" and "sm_connect m True w = Inr ()" and "sm_delete m (sv_name sp) w = (Inr (), w1)"
    and "sm_create m (win_service_info sp) w1 = (Inl e, w1)"
  shows "\<exists>err. win_install m sp w = (Inl err, w1)" and "services w1 (sv_name sp) = None"
proof -
  show "\<exists>err. win_install m sp w = (Inl err, w1)" using assms(2-4) by (simp add: win_install_def service_result_def fail_def)
  show "services w1 (sv_name sp) = None" by (rule scm_laws_deleted [OF assms(1,3)])
qed

end
