(* ===== verification/Rdp_Clipboard_Windows.thy ===== *)
theory Rdp_Clipboard_Windows
  imports Rdp_Clipboard Rust_Utf16 Rust_Io
begin

text \<open>
  The clipboard of Windows, the module \<open>windows_clipboard\<close> of \<open>crates/rdt-rdp/src/clipboard.rs\<close>. The calls of
  Win32 are the record \<open>win_clip\<close>: each may fail, and the clipboard is a lock that only one program
  holds. Text crosses it as UTF-16 with a terminating zero.
\<close>

section \<open>The calls\<close>

text \<open>Opening and closing the clipboard, allocating and locking memory, emptying, setting and getting. The
  memory that \<open>wc_get\<close> finds is given by its units up to some zero, if locking it succeeds.\<close>

record 'w win_clip =
  wc_open :: "'w \<Rightarrow> bool \<times> 'w"
  wc_close :: "'w \<Rightarrow> 'w"
  wc_alloc :: "nat \<Rightarrow> 'w \<Rightarrow> bool \<times> 'w"
  wc_lock :: "'w \<Rightarrow> bool \<times> 'w"
  wc_empty :: "'w \<Rightarrow> 'w"
  wc_set :: "u16 list \<Rightarrow> 'w \<Rightarrow> bool \<times> 'w"
  wc_get :: "'w \<Rightarrow> u16 list option \<times> 'w"

fun open_attempts :: "'w win_clip \<Rightarrow> nat \<Rightarrow> 'w \<Rightarrow> bool \<times> 'w" where
  "open_attempts c 0 w = (False, w)"
| "open_attempts c (Suc n) w =
     (case wc_open c w of (ok, w') \<Rightarrow> if ok then (True, w') else open_attempts c n w')"

definition win_open :: "'w win_clip \<Rightarrow> 'w \<Rightarrow> unit rdt_result \<times> 'w" where
  "win_open c w =
     (case open_attempts c 10 w of
        (ok, w') \<Rightarrow> (if ok then Inr () else fail EPlatform (lit ''the clipboard is busy''), w'))"

definition win_fail :: "'w win_clip \<Rightarrow> ustring \<Rightarrow> 'w \<Rightarrow> 'a rdt_result \<times> 'w" where
  "win_fail c what w = (fail EPlatform what, wc_close c w)"

definition win_set_text :: "'w win_clip \<Rightarrow> ustring \<Rightarrow> 'w \<Rightarrow> unit rdt_result \<times> 'w" where
  "win_set_text c t =
     run_then (win_open c) (\<lambda>_ w.
       (let wide = encode_utf16 t @ [0] in
        case wc_alloc c (length wide * 2) w of (allocated, w1) \<Rightarrow>
          if \<not> allocated then win_fail c (lit ''cannot allocate clipboard memory'') w1
          else
            (case wc_lock c w1 of (locked, w2) \<Rightarrow>
               if \<not> locked then win_fail c (lit ''cannot lock clipboard memory'') w2
               else
                 (case wc_set c wide (wc_empty c w2) of (ok, w3) \<Rightarrow>
                    if \<not> ok then win_fail c (lit ''cannot set the clipboard'') w3
                    else (Inr (), wc_close c w3)))))"

definition win_get_text :: "'w win_clip \<Rightarrow> 'w \<Rightarrow> ustring rdt_result \<times> 'w" where
  "win_get_text c =
     run_then (win_open c) (\<lambda>_ w.
       (case wc_get c w of
          (None, w1) \<Rightarrow> win_fail c (lit ''the clipboard holds no text'') w1
        | (Some memory, w1) \<Rightarrow>
            (case wc_lock c w1 of (locked, w2) \<Rightarrow>
               if \<not> locked then win_fail c (lit ''cannot read the clipboard'') w2
               else (Inr (utf16_lossy (takeWhile (\<lambda>u. u \<noteq> 0) memory)), wc_close c w2))))"

section \<open>Text survives\<close>

text \<open>
  What is relied on of Win32, with \<open>held\<close> whether the program holds the clipboard and \<open>units\<close> what is on it:
  only opening takes the lock and only closing gives it back; setting replaces the contents, which
  no other call of the program changes but emptying, and getting finds them.
\<close>

definition win_laws :: "'w win_clip \<Rightarrow> ('w \<Rightarrow> bool) \<Rightarrow> ('w \<Rightarrow> u16 list option) \<Rightarrow> bool" where
  "win_laws c held units \<longleftrightarrow>
     (\<forall>w. held (snd (wc_open c w)) = (fst (wc_open c w) \<or> held w) \<and> units (snd (wc_open c w)) = units w)
     \<and> (\<forall>w. \<not> held (wc_close c w) \<and> units (wc_close c w) = units w)
     \<and> (\<forall>n w. held (snd (wc_alloc c n w)) = held w)
     \<and> (\<forall>w. held (snd (wc_lock c w)) = held w)
     \<and> (\<forall>w. held (wc_empty c w) = held w)
     \<and> (\<forall>us w. held (snd (wc_set c us w)) = held w \<and> (fst (wc_set c us w) \<longrightarrow> units (snd (wc_set c us w)) = Some us))
     \<and> (\<forall>w. held (snd (wc_get c w)) = held w \<and> (\<forall>us. fst (wc_get c w) = Some us \<longrightarrow> units w = Some us))"

lemma open_attempts_laws:
  assumes "win_laws c held units" and "open_attempts c n w = (ok, w')" and "\<not> held w"
  shows "held w' = ok \<and> units w' = units w"
  using assms(2,3)
proof (induction n arbitrary: w)
  case (Suc n)
  obtain b w1 where 1: "wc_open c w = (b, w1)" by fastforce
  have "held (snd (wc_open c w)) = (fst (wc_open c w) \<or> held w) \<and> units (snd (wc_open c w)) = units w"
    using assms(1) unfolding win_laws_def by (elim conjE) (erule allE, assumption)
  with 1 Suc.prems Suc.IH [of w1] show ?case by (auto split: if_splits)
qed simp

text \<open>The laws, call by call.\<close>

lemma win_laws_calls:
  assumes "win_laws c held units"
  shows "\<not> held (wc_close c w)" and "units (wc_close c w) = units w"
    and "wc_alloc c n w = (b, w') \<Longrightarrow> held w' = held w"
    and "wc_lock c w = (b, w') \<Longrightarrow> held w' = held w"
    and "held (wc_empty c w) = held w"
    and "wc_set c us w = (b, w') \<Longrightarrow> b \<Longrightarrow> units w' = Some us"
    and "wc_get c w = (r, w') \<Longrightarrow> r = Some us \<Longrightarrow> units w = Some us"
  using assms unfolding win_laws_def by (metis fst_conv snd_conv)+

lemma win_open_laws:
  assumes "win_laws c held units" and "win_open c w = (r, w')" and "\<not> held w"
  shows "units w' = units w" and "r = Inl e \<Longrightarrow> \<not> held w'"
  using open_attempts_laws [OF assms(1) _ assms(3), of 10] assms(2)
  by (auto simp: win_open_def fail_def split: prod.splits if_splits)

text \<open>Whatever fails, the program gives the clipboard back.\<close>

theorem clipboard_is_given_back:
  assumes laws: "win_laws c held units" and "\<not> held w"
  shows "\<not> held (snd (win_set_text c t w)) \<and> \<not> held (snd (win_get_text c w))"
proof -
  obtain r w0 where 0: "win_open c w = (r, w0)" by fastforce
  note closed = win_laws_calls(1) [OF laws]
  show ?thesis
  proof (cases r)
    case (Inl e)
    with 0 win_open_laws(2) [OF laws 0 assms(2)] show ?thesis by (simp add: win_set_text_def win_get_text_def run_then_def)
  next
    case (Inr u)
    with 0 show ?thesis
      by (simp add: win_set_text_def win_get_text_def run_then_def win_fail_def Let_def closed split: prod.split option.split)
  qed
qed

text \<open>Text that was put on the clipboard is read back up to its first zero character.\<close>

lemma win_set_text_Inr:
  assumes "win_set_text c t w = (Inr u, w1)"
  shows "\<exists>v b. wc_set c (encode_utf16 t @ [0]) v = (True, b) \<and> w1 = wc_close c b"
proof -
  obtain v where v: "win_open c w = (Inr (), v)" using assms by (auto simp: win_set_text_def run_then_Inr)
  obtain b1 v1 where 1: "wc_alloc c (length (encode_utf16 t @ [0]) * 2) v = (b1, v1)" by fastforce
  obtain b2 v2 where 2: "wc_lock c v1 = (b2, v2)" by fastforce
  obtain b3 v3 where 3: "wc_set c (encode_utf16 t @ [0]) (wc_empty c v2) = (b3, v3)" by fastforce
  show ?thesis using assms v 1 2 3
    by (cases b1; cases b2; cases b3) (auto simp: win_set_text_def run_then_def win_fail_def fail_def Let_def)
qed

lemma win_get_text_Inr:
  assumes "win_get_text c w = (Inr out, w2)"
  shows "\<exists>v memory v'. win_open c w = (Inr (), v) \<and> wc_get c v = (Some memory, v')
     \<and> out = utf16_lossy (takeWhile (\<lambda>x. x \<noteq> 0) memory)"
proof -
  obtain v where v: "win_open c w = (Inr (), v)" using assms by (auto simp: win_get_text_def run_then_Inr)
  obtain r v1 where 1: "wc_get c v = (r, v1)" by fastforce
  obtain b v2 where 2: "wc_lock c v1 = (b, v2)" by fastforce
  show ?thesis using assms v 1 2
    by (cases r; cases b) (auto simp: win_get_text_def run_then_def win_fail_def fail_def)
qed

theorem windows_clipboard_round_trip:
  assumes laws: "win_laws c held units" and free: "\<not> held w" and "\<forall>x \<in> set t. is_scalar x"
    and set: "win_set_text c t w = (Inr u, w1)" and get: "win_get_text c w1 = (Inr out, w2)"
  shows "out = takeWhile (\<lambda>x. x \<noteq> 0) t"
proof -
  let ?wide = "encode_utf16 t @ [0]"
  obtain v b where "wc_set c ?wide v = (True, b)" "w1 = wc_close c b" using win_set_text_Inr [OF set] by blast
  with win_laws_calls(2,6) [OF laws] have u: "units w1 = Some ?wide" by metis
  have "\<not> held w1" using clipboard_is_given_back [OF laws free, of t] set by simp
  with win_get_text_Inr [OF get] win_open_laws(1) [OF laws] obtain w' w'' memory where "units w' = units w1"
    "wc_get c w' = (Some memory, w'')" "out = utf16_lossy (takeWhile (\<lambda>x. x \<noteq> 0) memory)" by blast
  moreover from this win_laws_calls(7) [OF laws] have "units w' = Some memory" by blast
  ultimately show ?thesis using u utf16_round_trip [OF assms(3), of "[]"] by simp
qed

text \<open>Text after a zero character is lost on the way.\<close>

lemma zero_ends_the_text: "utf16_lossy (takeWhile (\<lambda>u. u \<noteq> 0) (encode_utf16 [104, 0, 105] @ [0])) = [104]"
  by (subst utf16_round_trip) (simp_all add: is_scalar_def)

section \<open>Examples\<close>

definition toy_win :: "(bool \<times> u16 list option) win_clip" where
  "toy_win = \<lparr>wc_open = \<lambda>(h, x). (\<not> h, (True, x)), wc_close = \<lambda>(h, x). (False, x), wc_alloc = \<lambda>_ w. (True, w),
     wc_lock = \<lambda>w. (True, w), wc_empty = \<lambda>(h, x). (h, None), wc_set = \<lambda>us (h, x). (True, (h, Some us)),
     wc_get = \<lambda>(h, x). (x, (h, x))\<rparr>"

lemma toy_win_laws: "win_laws toy_win fst snd"
  by (simp add: win_laws_def toy_win_def split_beta)

lemma toy_win_open: "win_open toy_win (False, x) = (Inr (), (True, x))"
proof -
  have "wc_open toy_win (False, x) = (True, (True, x))" by (simp add: toy_win_def)
  then have "open_attempts toy_win 10 (False, x) = (True, (True, x))"
    using open_attempts.simps(2) [of toy_win 9 "(False, x)"] by simp
  then show ?thesis by (simp add: win_open_def del: open_attempts.simps)
qed

theorem windows_clipboard_round_trip_witness:
  "fst (win_get_text toy_win (snd (win_set_text toy_win [104, 128512] (False, None)))) = Inr [104, 128512]"
proof -
  obtain w1 where 1: "win_set_text toy_win [104, 128512] (False, None) = (Inr (), w1)" "w1 = (False, Some (encode_utf16 [104, 128512] @ [0]))"
    by (simp add: win_set_text_def run_then_def toy_win_open Let_def) (simp add: toy_win_def)
  obtain out w2 where 2: "win_get_text toy_win w1 = (Inr out, w2)"
    by (simp add: win_get_text_def run_then_def toy_win_open 1(2)) (simp add: toy_win_def)
  have "out = [104, 128512]"
    using windows_clipboard_round_trip [OF toy_win_laws _ _ 1(1) 2] by (simp add: is_scalar_def)
  with 1 2 show ?thesis by simp
qed

end
