(* ===== verification/Spec2Isabelle.thy ===== *)
theory Spec2Isabelle
  imports Term_Screen_Props Term_Input Rdt_Proto_Props Ssh_Known_Hosts_Props Sess_Manager_Props Rdt_Config_Props Rdp_Framebuffer_Props
    Rdp_Tls_Props Ssh_Handler_Props Rdt_Secrets_Props Log_Redact_Writer_Props Ssh_Sftp_Props
    Rdp_Session_Props Rdp_Connect_Props Rdp_Clipboard Plat_Service_Props Plat_Props
    Ssh_Session_Props Ssh_Agent Rdt_Agent_Props Rdt_Cli_Props Ui_Props Ssh_Glob_Bound Rdt_Rng
    Log_Audit Plat_Primitives Rdt_Secret Ssh_Events Rdt_Agent_Start
    Rdt_Keystores Plat_Foreign Rdp_Clipboard_Windows
begin

text \<open>
  RDT, the remote desktop and SSH tool of this repository, as definitions of HOL and theorems about
  them. Every definition of the program follows the Rust code under \<open>src/crates\<close>; the table of
  \<^verbatim>\<open>PROJECT.json\<close> names the lines of each.

  \<^bold>\<open>The program.\<close> Presentation (\<open>rdt-cli\<close>, \<open>rdt-ui\<close>, \<open>rdt-agent\<close>) calls orchestration (\<open>rdt-session\<close>), which
  calls the protocol clients (\<open>rdt-ssh\<close>, \<open>rdt-rdp\<close>); these use the terminal emulator (\<open>rdt-terminal\<close>), the
  configuration (\<open>rdt-config\<close>), the secrets (\<open>rdt-secrets\<close>), logging (\<open>rdt-logging\<close>), the platform
  (\<open>rdt-platform\<close>) and the shared types (\<open>rdt-types\<close>). Sessions are tasks that receive small commands over
  channels and report events; the window draws from what they leave behind. The theories follow
  these layers, and the imports between them are the calls between the crates. A theory named
  \<open>X_Props\<close> holds what \<open>X\<close> promises.

  \<^bold>\<open>Ground.\<close>
  \<^item> \<open>Rust_Prelude\<close>: panics as \<open>None\<close>, folds of fallible steps, the predicate \<open>keeps P f\<close> (from a state with
    \<open>P\<close>, \<open>f\<close> does not panic and ends in one) with its rules \<open>keeps_intros\<close>, saturating arithmetic, the locales
    \<open>machine\<close> and \<open>bounded_buffer\<close>.
  \<^item> \<open>Rust_Arith\<close>: checked \<open>+\<close>, \<open>-\<close>, \<open>*\<close>. \<open>Rust_Text\<close>, \<open>Rust_Str\<close>, \<open>Rust_Lossy\<close>, \<open>Rust_Utf16\<close>: characters as code
    points, UTF-8 and UTF-16 both ways, strict and lossy, the methods of \<open>str\<close>, numbers as text and back.
  \<^item> \<open>Rust_Map\<close>: ordered maps and the locale \<open>key_store\<close>. \<open>Rust_Io\<close>: a file system with a script of failures, the
    calls of \<open>std::fs\<close>, and the locale \<open>atomic_save\<close>. \<open>Rust_Channel\<close>: a client and a task around a channel, the
    locale \<open>task_channel\<close>.

  \<^bold>\<open>Theories and sources.\<close>
  \<^item> \<open>Rdt_Error\<close>, \<open>Rdt_Ids\<close>, \<open>Rdt_Secret\<close>, \<open>Rdt_Time\<close>, \<open>Rdt_Rng\<close>, \<open>Rdt_Redact\<close>, \<open>Rdt_Proto\<close>: the files of
    \<open>rdt-types\<close> (\<open>error\<close>, \<open>ids\<close>, \<open>secret\<close>, \<open>timeutil\<close>, \<open>rng\<close>, \<open>redact\<close>, \<open>proto\<close>).
  \<^item> \<open>Term_Parser\<close> (\<open>parser.rs\<close>), \<open>Term_Grid\<close> (\<open>grid.rs\<close>), \<open>Term_Screen\<close> (\<open>term.rs\<close>), \<open>Term_Input\<close> (\<open>input.rs\<close>), with
    \<open>Term_Parser_Facts\<close>, \<open>Term_Parser_Seq\<close>, \<open>Term_Screen_Facts\<close>, \<open>Term_Screen_Ops\<close>, \<open>Term_Screen_Text\<close>,
    \<open>Term_Screen_Props\<close>: \<open>rdt-terminal\<close>.
  \<^item> \<open>Rdt_Config\<close>: \<open>rdt-config\<close> (\<open>settings\<close>, \<open>profile\<close>, \<open>migrate\<close>, \<open>store\<close>). \<open>Rdt_Vault\<close>, \<open>Rdt_Secrets\<close>,
    \<open>Rdt_Keystores\<close> (the key stores of macOS and Windows): \<open>rdt-secrets\<close> (\<open>vault\<close>, \<open>keystore\<close>, \<open>lib\<close>).
  \<^item> \<open>Log_Buffer\<close>, \<open>Log_Redact_Writer\<close>, \<open>Log_Audit\<close>: \<open>rdt-logging\<close> (\<open>buffer\<close>, \<open>redact_writer\<close>, \<open>audit\<close>, \<open>lib\<close>).
  \<^item> \<open>Plat_System\<close> (\<open>paths.rs\<close>), \<open>Plat_Info\<close> (\<open>info.rs\<close>, \<open>deps.rs\<close>), \<open>Plat_Primitives\<close> (\<open>platform_impl.rs\<close>),
    \<open>Plat_Service\<close> (\<open>service.rs\<close>), as compiled for Linux, and \<open>Plat_Foreign\<close>, the branches of these files for macOS and
    Windows: \<open>rdt-platform\<close>.
  \<^item> \<open>Ssh_Glob\<close>, \<open>Ssh_Glob_Bound\<close>, \<open>Ssh_Known_Hosts\<close> (\<open>known_hosts.rs\<close>), \<open>Ssh_Handler\<close>, \<open>Ssh_Events\<close> (\<open>handler.rs\<close>),
    \<open>Ssh_Agent\<close> (\<open>agent.rs\<close>), \<open>Ssh_Session\<close> (\<open>session.rs\<close>), \<open>Ssh_Sftp\<close> (\<open>sftp.rs\<close>): \<open>rdt-ssh\<close>.
  \<^item> \<open>Rdp_Framebuffer\<close>, \<open>Rdp_Tls\<close>, \<open>Rdp_Clipboard\<close>, \<open>Rdp_Clipboard_Windows\<close>, \<open>Rdp_Connect\<close>,
    \<open>Rdp_Session\<close> (\<open>session.rs\<close>): \<open>rdt-rdp\<close>.
  \<^item> \<open>Sess_Manager\<close>: \<open>rdt-session\<close>. \<open>Rdt_Agent\<close>, \<open>Rdt_Agent_Start\<close>: \<open>rdt-agent\<close>. \<open>Rdt_Cli\<close>: \<open>rdt-cli\<close>.
  \<^item> \<open>Ui_State\<close> (\<open>AppState\<close>, \<open>theme.rs\<close>), \<open>Ui_Pages\<close> (\<open>pages.rs\<close>), \<open>Ui_App\<close> (\<open>lib.rs\<close>, \<open>main.rs\<close>), with \<open>Ui_Frame\<close>: \<open>rdt-ui\<close>.
  A struct is a record with the names of its fields shortened by a prefix, an enum a datatype with its
  constructors, a method a function with the state as an argument and, when it takes \<open>&mut self\<close>, as a
  result. A \<open>Result\<close> is a sum whose left part is the error. Machine integers are words.

  \<^bold>\<open>Parameters.\<close> What is not code of this repository is an argument. The tables of Unicode are \<open>unicode\<close>;
  base64, HMAC and SHA are \<open>codec\<close>; Argon2 and the cipher are \<open>vault_crypto\<close>; TOML and JSON are \<open>toml\<close>, \<open>json\<close>,
  \<open>pins_json\<close>, \<open>agent_json\<close>; the programs that are run are \<open>tool\<close> (\<open>secret-tool\<close>, \<open>security\<close>), \<open>helper\<close> (clipboard) and \<open>command\<close>
  (\<open>systemctl\<close>, \<open>useradd\<close>); the calls of Windows are \<open>dpapi\<close>, \<open>win_clip\<close> and \<open>scm\<close>; the protocol libraries are \<open>stage\<close> and \<open>rdp_net\<close> (ironrdp), and \<open>server\<close> and \<open>ssh_env\<close> (russh
  and the peer); the system is \<open>host\<close>, \<open>file_meta\<close>, \<open>entropy\<close> and the clocks; the toolkit is \<open>ui_env\<close>; what the
  command line asks of other crates is \<open>cli_env\<close>. Failures of files are scripts in the record \<open>fs\<close>: a theorem
  over all scripts is one over every way in which calls fail or are interrupted. Where a theorem needs a law
  of a parameter (a decoder inverts its encoder, say) it is a hypothesis by name, and the witness
  gives a function that has it.

  \<^bold>\<open>Interfaces and what meets them.\<close>
  \<^item> \<open>machine\<close> (a step that keeps an invariant and does not panic): \<open>vt\<close>, the parser; \<open>vterm\<close>, the terminal.
  \<^item> \<open>bounded_buffer\<close> (the last elements, up to a capacity): \<open>lb\<close>, the log view; \<open>sb\<close>, the scrollback.
  \<^item> \<open>key_store\<close> (the last edit of a key decides): \<open>bt\<close>, ordered maps; \<open>pins\<close>, pinned certificates; \<open>vmap\<close>, the vault.
  \<^item> \<open>atomic_save\<close> (a file holds the last save that succeeded): \<open>cfg\<close>, the configuration; \<open>vlt\<close>, the vault.
  \<^item> \<open>task_channel\<close> (commands are taken once, in order, up to a stop): \<open>rdp_task\<close> and \<open>ssh_task\<close>.
  \<^item> \<open>secret_ring\<close> (what is stored is read back, what is deleted is gone): \<open>keyring\<close> (Linux), \<open>chain\<close> (macOS), \<open>dpk\<close>
    (Windows).
  \<^item> \<open>drawing_frame\<close> (a preorder that every widget keeps is kept by every page): \<open>permitted\<close>, \<open>drawn_only\<close>.

  \<^bold>\<open>What is shown.\<close>
  \<^item> Terminal: no byte stream makes the parser or the screen panic; however a stream of characters, control
    sequences and other well formed pieces is cut into chunks, the parser gives the actions of its pieces in
    order; the alternate screen gives the screen back, narrow text fills the rows in order.
  \<^item> Trust: the wildcard loop is glob matching and needs at most \<open>(|pattern| + 1) * (|text| + 1)\<close> iterations; host
    keys are trusted only when recorded; changed keys are found; in every interleaving of connections a key was
    accepted for a reason; the certificate verifier asks for a pin, and the connection never asks the
    verifier.
  \<^item> Storage: the configuration and the vault keep the last successful save under every failure; the vault refines a
    passphrase with a map and authenticates; secrets of the redactor stay out of what it returns and of the log
    view, and out of the log file when no write fails; the audit file only grows. Profiles stay valid under edits, saves
    and loads as long as the files that are loaded are.
  \<^item> Transfers and sessions: destinations hold a whole file or what they held; undisturbed transfers
    succeed; commands arrive once and in order; the image has the announced size; a session that
    is told to end carries out what was queued before, unless the connection fails, and ends; the input of a
    terminal is sent as data, window changes and end of input, in order; nothing is sent over SSH before the key was
    found. The delays before a reconnection stay between the initial and the maximal one, and where they
    do not, the code overflows.
  \<^item> Orchestration and presentation: the limit on sessions of calls that follow each other, and what
    overlapping calls make of it; the audit of every transition, also under overlapping calls; the owner check of
    the control socket, the grammar of the command line, installing and removing the service, what a page of the
    window may change, that the window never opens a session, and that the profile saved last in the window is
    the one an agent on the same file answers with and records, without opening a session (in this theory, over \<open>Ui_App\<close>, \<open>Rdt_Config\<close> and \<open>Rdt_Agent_Start\<close>).
  Where the code does something other than its comments, documents or tests say, a lemma shows it on an input;
  the manifest lists these.

  \<^bold>\<open>Loops.\<close> Recursion is structural or has a measure: the rest of the text (\<open>scrub_loop\<close>, \<open>utf8_lossy\<close>,
  \<open>replace_str\<close>, \<open>write_loop\<close>), the rest of the file (\<open>transfer_loop\<close>, whose reads return at least a byte),
  what exceeds a capacity (\<open>make_room\<close>, \<open>pop_excess\<close>), the parameters left (\<open>sgr_loop\<close>), the pending bytes of a
  character (\<open>ground\<close> and \<open>utf8\<close>), or a lexicographic order (\<open>glob_loop\<close>). Fuel occurs only in \<open>glob_run\<close>, and the theorem is the amount
  that is enough. Loops that serve for ever (the tasks, the socket, the worker, the window) are histories: lists of the
  actions of the program and its environment, over all of which the theorems quantify.

  \<^bold>\<open>Not modelled.\<close> The crate roots that only re-export; layout, fonts and repainting of the window; wiping memory; derived serialisation; the
  \<open>tracing\<close> layers; the key/value context of errors; locks, where one call at a time holds them: only the manager of the sessions lets
  several calls overlap (\<open>overlap\<close>), as sequences of its accesses, each under its lock. The model has
  no notion of time other than the clocks that are passed in: timeouts are choices of the environment.
\<close>

section \<open>From the window to the agent\<close>

lemma reload_after_save:
  assumes "toml_law tm (cs_config st)" and "cf_version (cs_config st) = current_schema_version"
    and "attached (cs_path st) st" and "config_save tm st s = ((Inr (), st'), s')" and "fs_faults s' = []"
    and "cs_path st0 = cs_path st"
  shows "fst (config_reload tm st0 s') = (Inr (), st0\<lparr>cs_config := cs_config st, cs_dirty := False\<rparr>)"
proof -
  have "cs_config st' = cs_config st" using assms(4)
    by (auto simp: config_save_def split: if_splits sum.splits prod.splits)
  with load_after_save [OF assms(1-5)] assms(6) show ?thesis
    by (simp add: config_reload_def case_prod_beta split: sum.split)
qed


text \<open>Commands of the window keep the configuration; only saving it touches the file.\<close>

lemma worker_keeps_config:
  "cs_config (as_config (fst (worker_command env c (s, files)))) = cs_config (as_config s)
   \<and> cs_path (as_config (fst (worker_command env c (s, files)))) = cs_path (as_config s)"
  by (cases c) (auto simp: worker_command_def set_status_def send_quietly_def cancel_session_def config_save_def
      split: prod.splits sum.splits if_splits)

lemma worker_fold_keeps_config:
  "cs_config (as_config (fst (fold (worker_command env) cs (s, files)))) = cs_config (as_config s)
   \<and> cs_path (as_config (fst (fold (worker_command env) cs (s, files)))) = cs_path (as_config s)"
proof (induction cs arbitrary: s files)
  case (Cons c cs)
  then show ?case using worker_keeps_config [of env c s files] by (cases "worker_command env c (s, files)") simp
qed simp

lemma saved_status:
  assumes "worker_command env UiSaveConfig (s, files) = (s', files')" and "as_status s' = lit ''settings saved''"
  shows "config_save (we_toml env) (as_config s) files = ((Inr (), as_config s'), files')"
  using assms by (auto simp: worker_command_def set_status_def lit_def split: prod.splits sum.splits)

lemma last_save:
  assumes "worker_pass env (s, files) = (s', files')" and "as_commands s = cs @ [UiSaveConfig]"
    and "as_status s' = lit ''settings saved''"
  obtains st files1 where "config_save (we_toml env) st files1 = ((Inr (), as_config s'), files')"
    and "cs_config st = cs_config (as_config s)" and "cs_path st = cs_path (as_config s)"
proof -
  obtain t files1 where t: "fold (worker_command env) cs (s\<lparr>as_commands := []\<rparr>, files) = (t, files1)" by fastforce
  with assms have "worker_command env UiSaveConfig (t, files1) = (s', files')" by (simp add: worker_pass_def drain_def)
  from that [OF saved_status [OF this assms(3)]] worker_fold_keeps_config [of env cs "s\<lparr>as_commands := []\<rparr>" files] t
  show ?thesis by simp
qed

text \<open>C40: The settings that were saved in the window are those an agent on the same file answers with, but no
  session is opened. Let the worker report that the settings were saved, for a configuration that the
  TOML library reads back as it was written and that has the current version of the schema, with a path
  that differs from that of its temporary file. Then an agent on this path, whose calls on files do
  not fail from there on, answers the command to reload with success and has the configuration of the window;
  a command to connect to a saved profile by its identifier is answered with the address of the profile and
  leaves one audit event that names it; and the sessions of the agent and their events are what
  they were: the profile is looked up, reported and recorded, and not connected.\<close>

theorem saved_profile_is_served:
  assumes law: "toml_law tm (cs_config (as_config s))" "cf_version (cs_config (as_config s)) = current_schema_version"
    and env: "we_toml wenv = tm" "ac_toml aenv = tm"
    and path: "cs_path (as_config s) = path" "tmp_path path \<noteq> path" "cs_path (ag_config a) = path"
    and save: "worker_pass wenv (s, files) = (s', files')" "as_commands s = cs @ [UiSaveConfig]"
      "as_status s' = lit ''settings saved''"
    and disk: "ag_disk a = files'" "fs_faults files' = []"
    and prof: "find_profile i (as_config s) = Some p" "length i = id_bytes"
  shows "\<exists>r a1 a2. agent_handle aenv Agent_Reload a = Some (Inr r, a1) \<and> rl_ok r
     \<and> cs_config (ag_config a1) = cs_config (as_config s)
     \<and> agent_handle aenv (Agent_Connect (id_display i)) a1
         = Some (Inr (reply_success (lit ''connecting to '' @ profile_address p)), a2)
     \<and> mg_audit (ag_sessions a2) = mg_audit (ag_sessions a) @
         [with_profile (id_display i) (event_new (ac_now aenv) SessionConnect InfoOnly (profile_address p))]
     \<and> mg_sessions (ag_sessions a2) = mg_sessions (ag_sessions a) \<and> mg_events (ag_sessions a2) = mg_events (ag_sessions a)"
proof -
  let ?st = "(ag_config a)\<lparr>cs_config := cs_config (as_config s), cs_dirty := False\<rparr>"
  obtain st files1 where st: "config_save tm st files1 = ((Inr (), as_config s'), files')"
    "cs_config st = cs_config (as_config s)" "cs_path st = path"
    using last_save [OF save] env(1) path(1) by metis
  have "fst (config_reload tm (ag_config a) files') = (Inr (), ?st)"
    using reload_after_save [OF _ _ _ st(1) disk(2), of "ag_config a"] law path st(2,3) by (simp add: attached_def)
  then obtain s1 where "config_reload (ac_toml aenv) (ag_config a) (ag_disk a) = ((Inr (), ?st), s1)"
    using env(2) disk(1) by (metis prod.collapse)
  then have 1: "agent_handle aenv Agent_Reload a
      = Some (Inr (reply_success (lit ''the configuration was reloaded'')), a\<lparr>ag_config := ?st, ag_disk := s1\<rparr>)"
    by (simp add: agent_handle_def del: lit_simps)
  have "find_profile i ?st = Some p" using prof(1) by (simp add: find_profile_def)
  then have 2: "agent_handle aenv (Agent_Connect (id_display i)) (a\<lparr>ag_config := ?st, ag_disk := s1\<rparr>)
      = Some (Inr (reply_success (lit ''connecting to '' @ profile_address p)),
          agent_record (with_profile (id_display i) (event_new (ac_now aenv) SessionConnect InfoOnly (profile_address p)))
            (a\<lparr>ag_config := ?st, ag_disk := s1\<rparr>))"
    by (simp add: agent_handle_def id_round_trip [OF prof(2)] del: lit_simps)
  from 1 2 show ?thesis by (simp add: reply_success_def agent_record_def del: lit_simps)
qed

section \<open>Examples\<close>

definition served_profile :: profile where
  "served_profile = profile_new (replicate id_bytes 1) (lit ''web'') (lit ''h'') 22 Ssh"

definition served_config :: config where
  "served_config = config_default\<lparr>cf_profiles := [served_profile]\<rparr>"

definition served_toml :: "unit toml" where
  "served_toml = toy_toml\<lparr>tm_decode := \<lambda>_. Inr served_config\<rparr>"

definition served_window :: app_state where
  "served_window = (ui_app blank_ui)\<lparr>as_config := \<lparr>cs_path = lit ''a'', cs_config = served_config, cs_dirty = True\<rparr>,
     as_commands := [UiRefreshLogs, UiSaveConfig]\<rparr>"

definition served_worker :: "unit worker_env" where
  "served_worker = \<lparr>we_toml = served_toml, we_open = \<lambda>_. False, we_now = 0\<rparr>"

lemma served_save:
  "\<exists>s' files'. worker_pass served_worker (served_window, no_files) = (s', files')
     \<and> as_status s' = lit ''settings saved'' \<and> fs_faults files' = []"
proof -
  have "lit ''a'' \<noteq> []" by simp
  then show ?thesis
  by (simp add: worker_pass_def drain_def worker_command_def served_window_def served_worker_def config_save_def to_toml_def
      served_toml_def toy_toml_def atomic_write_def Let_def toy_tmp [unfolded tmp_path_def] run_then_def on_err_def
      io_touch_def io_create_def io_write_all_def io_rename_def no_files_def after_call_def set_file_def set_status_def
      del: lit_simps)
qed

theorem saved_profile_is_served_witness:
  "\<exists>a r a1 a2. agent_handle (toy_agent_env\<lparr>ac_toml := served_toml\<rparr>) Agent_Reload a = Some (Inr r, a1) \<and> rl_ok r
     \<and> agent_handle (toy_agent_env\<lparr>ac_toml := served_toml\<rparr>) (Agent_Connect (id_display (replicate id_bytes 1))) a1
         = Some (Inr (reply_success (lit ''connecting to '' @ profile_address served_profile)), a2)
     \<and> find_profile (replicate id_bytes 1) (ag_config a) = None \<and> mg_sessions (ag_sessions a2) = mg_sessions (ag_sessions a)"
proof -
  obtain s' files' where w: "worker_pass served_worker (served_window, no_files) = (s', files')"
    "as_status s' = lit ''settings saved''" "fs_faults files' = []" using served_save by blast
  let ?a = "toy_agent\<lparr>ag_config := toy_store, ag_disk := files'\<rparr>"
  have "\<exists>r a1 a2. agent_handle (toy_agent_env\<lparr>ac_toml := served_toml\<rparr>) Agent_Reload ?a = Some (Inr r, a1) \<and> rl_ok r
     \<and> cs_config (ag_config a1) = cs_config (as_config served_window)
     \<and> agent_handle (toy_agent_env\<lparr>ac_toml := served_toml\<rparr>) (Agent_Connect (id_display (replicate id_bytes 1))) a1
         = Some (Inr (reply_success (lit ''connecting to '' @ profile_address served_profile)), a2)
     \<and> mg_audit (ag_sessions a2) = mg_audit (ag_sessions ?a) @
         [with_profile (id_display (replicate id_bytes 1)) (event_new (ac_now (toy_agent_env\<lparr>ac_toml := served_toml\<rparr>)) SessionConnect
            InfoOnly (profile_address served_profile))]
     \<and> mg_sessions (ag_sessions a2) = mg_sessions (ag_sessions ?a) \<and> mg_events (ag_sessions a2) = mg_events (ag_sessions ?a)"
  proof (rule saved_profile_is_served [where wenv = served_worker and path = "lit ''a''" and cs = "[UiRefreshLogs]", OF _ _ _ _ _ _ _ w(1)])
    show "tmp_path (lit ''a'') \<noteq> lit ''a''" using toy_tmp by simp
  qed (use w(2,3) in \<open>simp_all add: served_window_def served_config_def served_toml_def served_worker_def toml_law_def toy_toml_def
      config_default_def current_schema_version_def toy_store_def find_profile_def served_profile_def profile_new_def del: lit_simps\<close>)
  moreover have "find_profile (replicate id_bytes 1) (ag_config ?a) = None"
    by (simp add: toy_store_def in_memory_def config_default_def find_profile_def)
  ultimately show ?thesis by blast
qed

end
